(* ===== verification/Prelude.thy ===== *)
theory Prelude
  imports "HOL-Library.Word" "HOL-Library.Multiset" "HOL-Library.Char_ord"
begin

text \<open>
  Vocabulary and facts shared by every component: the machine integers of the code, decimal
  rendering (\<^verbatim>\<open>std::to_string\<close>), the key-ordered map that stands for \<^verbatim>\<open>std::map\<close>, the bounded
  history that stands for a \<^verbatim>\<open>std::deque\<close> or \<^verbatim>\<open>std::vector\<close> trimmed at its front, and sorting by a
  comparator (\<^verbatim>\<open>std::sort\<close>, \<^verbatim>\<open>std::stable_sort\<close>).  The two container interfaces are locales; each
  is interpreted here on the functions the components use.
\<close>

named_theorems om_simps \<open>laws of the key-ordered map\<close>
named_theorems fifo_simps \<open>laws of the bounded history\<close>
named_theorems parse_defs \<open>unfolding of the text tables\<close>

unbundle bit_operations_syntax

type_synonym u8 = "8 word"
type_synonym u16 = "16 word"
type_synonym u32 = "32 word"
type_synonym u64 = "64 word"

abbreviation u64_max :: u64 where "u64_max \<equiv> - 1"
abbreviation u32_max :: u32 where "u32_max \<equiv> - 1"

section \<open>Decimal rendering\<close>

definition digit_char :: "nat \<Rightarrow> char" where
  "digit_char d = char_of (48 + d mod 10)"

fun dec :: "nat \<Rightarrow> string" where
  "dec n = (if n < 10 then [digit_char n] else dec (n div 10) @ [digit_char n])"

declare dec.simps [simp del]

definition dec_int :: "int \<Rightarrow> string" where
  "dec_int i = (if i < 0 then CHR ''-'' # dec (nat (- i)) else dec (nat i))"

lemma dec_nonempty [simp]: "dec n \<noteq> []"
  by (subst dec.simps) simp

fun undec :: "nat \<Rightarrow> string \<Rightarrow> nat" where
  "undec acc [] = acc"
| "undec acc (c # cs) = undec (10 * acc + (of_char c - 48)) cs"

lemma undec_append: "undec a (xs @ ys) = undec (undec a xs) ys"
  by (induction a xs rule: undec.induct) auto

lemma of_digit_char: "(of_char (digit_char d) :: nat) = 48 + d mod 10"
  by (simp add: digit_char_def)

lemma undec_dec: "undec 0 (dec n) = n"
proof (induction n rule: less_induct)
  case (less n)
  show ?case
  proof (cases "n < 10")
    case True
    then show ?thesis by (simp add: dec.simps[of n] of_digit_char)
  next
    case False
    then have "undec 0 (dec (n div 10)) = n div 10" by (intro less) simp
    with False show ?thesis
      by (simp add: dec.simps[of n] undec_append of_digit_char)
  qed
qed

lemma dec_inject [simp]: "dec m = dec n \<longleftrightarrow> m = n"
  by (metis undec_dec)

definition digitc :: "char \<Rightarrow> bool" where
  "digitc c \<longleftrightarrow> 48 \<le> (of_char c :: nat) \<and> (of_char c :: nat) \<le> 57"

lemma dec_digits: "c \<in> set (dec n) \<Longrightarrow> digitc c"
proof (induction n rule: less_induct)
  case (less n)
  have d: "digitc (digit_char m)" for m
    using mod_less_divisor[of 10 m] by (simp add: digitc_def of_digit_char)
  show ?case
  proof (cases "n < 10")
    case True
    with less.prems d show ?thesis by (simp add: dec.simps[of n])
  next
    case False
    with less.prems less.IH[of "n div 10"] d show ?thesis by (auto simp: dec.simps[of n])
  qed
qed

section \<open>The key-ordered map\<close>

text \<open>
  The entries of a \<^verbatim>\<open>std::map\<close> in iteration order.  \<open>om_put\<close> is \<^verbatim>\<open>insert_or_assign\<close> and the
  assignment through \<^verbatim>\<open>operator[]\<close>, \<open>om_erase\<close> is \<^verbatim>\<open>erase(key)\<close>, \<open>om_find\<close> is \<^verbatim>\<open>find\<close>.
\<close>

type_synonym ('k, 'v) omap = "('k \<times> 'v) list"

fun om_find :: "('k, 'v) omap \<Rightarrow> 'k \<Rightarrow> 'v option" where
  "om_find [] k = None"
| "om_find ((k', v) # m) k = (if k = k' then Some v else om_find m k)"

fun om_put :: "'k::linorder \<Rightarrow> 'v \<Rightarrow> ('k, 'v) omap \<Rightarrow> ('k, 'v) omap" where
  "om_put k v [] = [(k, v)]"
| "om_put k v ((k', v') # m) =
    (if k = k' then (k, v) # m else if k < k' then (k, v) # (k', v') # m
     else (k', v') # om_put k v m)"

fun om_erase :: "'k \<Rightarrow> ('k, 'v) omap \<Rightarrow> ('k, 'v) omap" where
  "om_erase k [] = []"
| "om_erase k ((k', v') # m) = (if k = k' then m else (k', v') # om_erase k m)"

definition om_ok :: "('k::linorder, 'v) omap \<Rightarrow> bool" where
  "om_ok m \<longleftrightarrow> sorted_wrt (<) (map fst m)"

text \<open>What a client may rely on: the point-wise laws of a finite map.\<close>

locale finite_map_spec =
  fixes find :: "'m \<Rightarrow> 'k \<Rightarrow> 'v option"
    and put :: "'k \<Rightarrow> 'v \<Rightarrow> 'm \<Rightarrow> 'm"
    and erase :: "'k \<Rightarrow> 'm \<Rightarrow> 'm"
    and ok :: "'m \<Rightarrow> bool"
  assumes find_put: "find (put k v m) j = (if j = k then Some v else find m j)"
    and find_erase: "ok m \<Longrightarrow> find (erase k m) j = (if j = k then None else find m j)"
    and ok_put: "ok m \<Longrightarrow> ok (put k v m)"
    and ok_erase: "ok m \<Longrightarrow> ok (erase k m)"
begin

lemma put_same: "find (put k v m) k = Some v"
  by (simp add: find_put)

lemma put_other: "j \<noteq> k \<Longrightarrow> find (put k v m) j = find m j"
  by (simp add: find_put)

lemma put_put: "find (put k w (put k v m)) = find (put k w m)"
  by (rule ext) (simp add: find_put)

lemma put_commute: "j \<noteq> k \<Longrightarrow> find (put k v (put j w m)) = find (put j w (put k v m))"
  by (rule ext) (simp add: find_put)

lemma erase_absent: "ok m \<Longrightarrow> find m k = None \<Longrightarrow> find (erase k m) = find m"
  by (rule ext) (simp add: find_erase)

lemma all_values_put:
  assumes "\<And>j u. find m j = Some u \<Longrightarrow> P u" and "P v"
  shows "find (put k v m) j = Some u \<Longrightarrow> P u"
  using assms by (auto simp: find_put split: if_splits)

end

lemma om_find_put: "om_find (om_put k v m) j = (if j = k then Some v else om_find m j)"
  by (induction k v m rule: om_put.induct) auto

lemma om_put_keys: "fst ` set (om_put k v m) = insert k (fst ` set m)"
  by (induction k v m rule: om_put.induct) auto

lemma om_find_dom: "om_find m k \<noteq> None \<longleftrightarrow> k \<in> fst ` set m"
  by (induction m k rule: om_find.induct) auto

lemma om_find_none: "k \<notin> fst ` set m \<Longrightarrow> om_find m k = None"
  by (metis om_find_dom)

lemma om_ok_Cons [simp]:
  "om_ok ((k, v) # m) \<longleftrightarrow> (\<forall>j \<in> fst ` set m. k < j) \<and> om_ok m"
  by (auto simp: om_ok_def)

lemma om_ok_Nil [simp]: "om_ok []"
  by (simp add: om_ok_def)

lemma om_ok_put: "om_ok m \<Longrightarrow> om_ok (om_put k v m)"
proof (induction k v m rule: om_put.induct)
  case (2 k v k' v' m)
  have "\<forall>j \<in> fst ` set (om_put k v m). k' < j" if "k' < k"
    using that 2 by (auto simp: om_put_keys)
  with 2 show ?case by (auto intro: order.strict_trans)
qed simp

lemma om_erase_keys: "fst ` set (om_erase k m) \<subseteq> fst ` set m"
  by (induction k m rule: om_erase.induct) auto

lemma om_ok_erase: "om_ok m \<Longrightarrow> om_ok (om_erase k m)"
proof (induction k m rule: om_erase.induct)
  case (2 k k' v' m)
  then show ?case
    using om_erase_keys[of k m] by (cases "k = k'") (simp, force)
qed simp

lemma om_find_erase: "om_ok m \<Longrightarrow> om_find (om_erase k m) j = (if j = k then None else om_find m j)"
proof (induction k m rule: om_erase.induct)
  case (2 k k' v' m)
  then show ?case using om_find_none[of k m] by auto
qed simp

interpretation om: finite_map_spec om_find om_put om_erase om_ok
  by unfold_locales (simp_all add: om_find_put om_find_erase om_ok_put om_ok_erase)

lemmas om_laws [om_simps] = om_find_put om.find_erase om.ok_put om.ok_erase

lemma om_put_length:
  "length (om_put k v m) \<le> Suc (length m)"
  by (induction k v m rule: om_put.induct) auto

lemma om_put_length_present:
  "om_ok m \<Longrightarrow> om_find m k \<noteq> None \<Longrightarrow> length (om_put k v m) = length m"
proof (induction k v m rule: om_put.induct)
  case (2 k v k' v' m)
  then show ?case
    using om_find_dom[of m k] by (auto split: if_splits)
qed simp

lemma om_find_in_set: "om_find m k = Some v \<Longrightarrow> (k, v) \<in> set m"
  by (induction m k rule: om_find.induct) (auto split: if_splits)

lemma om_in_set_find: "om_ok m \<Longrightarrow> (k, v) \<in> set m \<Longrightarrow> om_find m k = Some v"
proof (induction m k rule: om_find.induct)
  case (2 k' v' m k)
  then show ?case by (auto simp: image_iff)
qed simp

definition om_values :: "('k, 'v) omap \<Rightarrow> 'v list" where
  "om_values m = map snd m"

section \<open>The bounded history\<close>

text \<open>
  The code appends at the back and then drops entries at the front while the bound is exceeded:
  \<^verbatim>\<open>while (h.size() > limit) h.pop_front()\<close>.
\<close>

fun fifo_trim :: "nat \<Rightarrow> 'a list \<Rightarrow> 'a list" where
  "fifo_trim n [] = []"
| "fifo_trim n (x # xs) = (if n < length (x # xs) then fifo_trim n xs else x # xs)"

definition fifo_push :: "nat \<Rightarrow> 'a \<Rightarrow> 'a list \<Rightarrow> 'a list" where
  "fifo_push n x xs = fifo_trim n (xs @ [x])"

locale bounded_history =
  fixes push :: "nat \<Rightarrow> 'a \<Rightarrow> 'h \<Rightarrow> 'h"
    and entries :: "'h \<Rightarrow> 'a list"
  assumes entries_push:
    "entries (push n x h) = drop (Suc (length (entries h)) - n) (entries h @ [x])"
begin

lemma push_bound: "length (entries (push n x h)) \<le> n"
  by (simp add: entries_push)

lemma push_newest: "0 < n \<Longrightarrow> entries (push n x h) \<noteq> [] \<and> last (entries (push n x h)) = x"
  by (simp add: entries_push last_drop)

lemma push_subset: "set (entries (push n x h)) \<subseteq> insert x (set (entries h))"
proof -
  have "set (entries (push n x h)) \<subseteq> set (entries h @ [x])"
    unfolding entries_push by (rule set_drop_subset)
  then show ?thesis by simp
qed

lemma push_room: "length (entries h) < n \<Longrightarrow> entries (push n x h) = entries h @ [x]"
  by (simp add: entries_push)

end

lemma fifo_trim_drop [fifo_simps]: "fifo_trim n xs = drop (length xs - n) xs"
proof (induction n xs rule: fifo_trim.induct)
  case (2 n x xs)
  then show ?case by (cases "n < length (x # xs)") (auto simp: Suc_diff_le)
qed simp

interpretation fifo: bounded_history fifo_push "\<lambda>h. h"
  by unfold_locales (simp add: fifo_push_def fifo_trim_drop)

section \<open>Sorting by a comparator\<close>

text \<open>
  \<open>insert_by lt x xs\<close> puts \<open>x\<close> before the first element it does not have to follow; folding it
  from the right is a stable sort, so it agrees with \<^verbatim>\<open>std::stable_sort\<close>.  For a comparator that
  is a strict linear order on the elements the result does not depend on the input order at all,
  which is why the model may use it for \<^verbatim>\<open>std::sort\<close> as well.
\<close>

fun insert_by :: "('a \<Rightarrow> 'a \<Rightarrow> bool) \<Rightarrow> 'a \<Rightarrow> 'a list \<Rightarrow> 'a list" where
  "insert_by lt x [] = [x]"
| "insert_by lt x (y # ys) = (if lt y x then y # insert_by lt x ys else x # y # ys)"

fun sort_by :: "('a \<Rightarrow> 'a \<Rightarrow> bool) \<Rightarrow> 'a list \<Rightarrow> 'a list" where
  "sort_by lt [] = []"
| "sort_by lt (x # xs) = insert_by lt x (sort_by lt xs)"

lemma mset_insert_by [simp]: "mset (insert_by lt x xs) = add_mset x (mset xs)"
  by (induction xs) auto

lemma mset_sort_by [simp]: "mset (sort_by lt xs) = mset xs"
  by (induction xs) auto

lemma set_sort_by [simp]: "set (sort_by lt xs) = set xs"
  by (metis mset_sort_by set_mset_mset)

lemma length_sort_by [simp]: "length (sort_by lt xs) = length xs"
  by (metis mset_sort_by size_mset)

lemma set_insert_by [simp]: "set (insert_by lt x xs) = insert x (set xs)"
  by (metis mset_insert_by set_mset_add_mset_insert set_mset_mset)

text \<open>A comparator that is a strict order, linear on a carrier of admissible elements.\<close>

locale ranking =
  fixes lt :: "'a \<Rightarrow> 'a \<Rightarrow> bool" and good :: "'a \<Rightarrow> bool"
  assumes irrefl: "good x \<Longrightarrow> \<not> lt x x"
    and trans: "good x \<Longrightarrow> good y \<Longrightarrow> good z \<Longrightarrow> lt x y \<Longrightarrow> lt y z \<Longrightarrow> lt x z"
    and total: "good x \<Longrightarrow> good y \<Longrightarrow> x \<noteq> y \<Longrightarrow> lt x y \<or> lt y x"
begin

lemma asym: "good x \<Longrightarrow> good y \<Longrightarrow> lt x y \<Longrightarrow> \<not> lt y x"
  using irrefl trans by blast

lemma insert_sorted:
  "good x \<Longrightarrow> (\<forall>y \<in> set xs. good y) \<Longrightarrow> sorted_wrt (\<lambda>a b. \<not> lt b a) xs \<Longrightarrow>
   sorted_wrt (\<lambda>a b. \<not> lt b a) (insert_by lt x xs)"
proof (induction xs)
  case (Cons y ys)
  show ?case
  proof (cases "lt y x")
    case True
    with Cons asym[of y x] show ?thesis by auto
  next
    case False
    have "\<not> lt z x" if "z \<in> set ys" for z
    proof
      assume "lt z x"
      with Cons.prems that False have "y \<noteq> z" and "\<not> lt z y" by auto
      with Cons.prems that total[of y z] have "lt y z" by auto
      with \<open>lt z x\<close> Cons.prems that trans[of y z x] False show False by auto
    qed
    with False Cons.prems show ?thesis by auto
  qed
qed simp

lemma sort_sorted:
  "(\<forall>x \<in> set xs. good x) \<Longrightarrow> sorted_wrt (\<lambda>a b. \<not> lt b a) (sort_by lt xs)"
  by (induction xs) (auto intro!: insert_sorted)

lemma sorted_unique:
  assumes "mset xs = mset ys" and "\<forall>x \<in> set xs. good x"
    and "sorted_wrt (\<lambda>a b. \<not> lt b a) xs" and "sorted_wrt (\<lambda>a b. \<not> lt b a) ys"
  shows "xs = ys"
  using assms
proof (induction xs arbitrary: ys)
  case (Cons x xs)
  then obtain y ys' where ys: "ys = y # ys'" by (cases ys) auto
  have sets: "set (x # xs) = set ys" using Cons.prems(1) by (metis set_mset_mset)
  have "x = y"
  proof (rule ccontr)
    assume ne: "x \<noteq> y"
    from sets ys ne have "y \<in> set xs" "x \<in> set ys'" by auto
    with Cons.prems ys have "\<not> lt y x" "\<not> lt x y" by auto
    moreover have "good x" "good y" using Cons.prems(2) \<open>y \<in> set xs\<close> by auto
    ultimately show False using ne total by blast
  qed
  with Cons ys show ?case by auto
qed simp

theorem sort_canonical:
  assumes "mset xs = mset ys" and "\<forall>x \<in> set xs. good x"
  shows "sort_by lt xs = sort_by lt ys"
proof (rule sorted_unique)
  have "set xs = set ys" using assms(1) by (metis set_mset_mset)
  then show "sorted_wrt (\<lambda>a b. \<not> lt b a) (sort_by lt ys)" using assms(2) by (intro sort_sorted) simp
  show "sorted_wrt (\<lambda>a b. \<not> lt b a) (sort_by lt xs)" using assms(2) by (rule sort_sorted)
qed (use assms in simp_all)

lemma sort_head:
  assumes "\<forall>x \<in> set xs. good x" and "sort_by lt xs = h # t" and "x \<in> set xs" and "x \<noteq> h"
  shows "lt h x"
proof -
  have "set (h # t) = set xs" using assms(2) by (metis set_sort_by)
  then have "x \<in> set t" "good h" "good x" using assms by auto
  moreover have "\<not> lt x h" using sort_sorted[OF assms(1)] \<open>x \<in> set t\<close> assms(2) by simp
  ultimately show ?thesis using total assms(4) by blast
qed

end

interpretation linord: ranking "(<) :: 'a::linorder \<Rightarrow> 'a \<Rightarrow> bool" "\<lambda>_. True"
  by unfold_locales auto

text \<open>Comparing by a key: the model of a comparator lambda over one or several members.\<close>

lemma insert_by_key: "insert_by (\<lambda>a b. f a < f b) x xs = insort_key f x xs" for f :: "'a \<Rightarrow> 'b::linorder"
  by (induction xs) auto

lemma sort_by_key: "sort_by (\<lambda>a b. f a < f b) xs = sort_key f xs" for f :: "'a \<Rightarrow> 'b::linorder"
  by (induction xs) (simp_all add: insert_by_key)

lemma sort_by_less: "sort_by (<) xs = sort xs" for xs :: "'a::linorder list"
  using sort_by_key[of "\<lambda>x. x" xs] by simp

lemma ranking_key: "inj_on f S \<Longrightarrow> ranking (\<lambda>a b. f a < f b) (\<lambda>x. x \<in> S)" for f :: "'a \<Rightarrow> 'b::linorder"
proof
  show "inj_on f S \<Longrightarrow> x \<in> S \<Longrightarrow> y \<in> S \<Longrightarrow> x \<noteq> y \<Longrightarrow> f x < f y \<or> f y < f x" for x y
    by (metis inj_onD neq_iff)
qed auto

lemma sort_by_key_canonical:
  fixes f :: "'a \<Rightarrow> 'b::linorder"
  assumes "distinct (map f xs)" and "mset xs = mset ys"
  shows "sort_by (\<lambda>a b. f a < f b) xs = sort_by (\<lambda>a b. f a < f b) ys"
  using ranking.sort_canonical[OF ranking_key[of f "set xs"] assms(2)] assms(1) by (simp add: distinct_map)

text \<open>\<^verbatim>\<open>std::adjacent_find\<close> on a sorted copy: the duplicate test of the code.\<close>

fun adjacent_equal :: "'a list \<Rightarrow> bool" where
  "adjacent_equal (x # y # zs) = (x = y \<or> adjacent_equal (y # zs))"
| "adjacent_equal _ = False"

definition has_duplicates :: "'a::linorder list \<Rightarrow> bool" where
  "has_duplicates xs = adjacent_equal (sort_by (<) xs)"

lemma adjacent_equal_sorted: "sorted xs \<Longrightarrow> adjacent_equal xs \<longleftrightarrow> \<not> distinct xs"
proof (induction xs rule: adjacent_equal.induct)
  case (1 x y zs)
  then show ?case by (auto dest: order.antisym)
qed simp_all

lemma has_duplicates_iff [simp]: "has_duplicates xs \<longleftrightarrow> \<not> distinct xs"
  by (simp add: has_duplicates_def sort_by_less adjacent_equal_sorted)

section \<open>Binary search\<close>

text \<open>
  The half-open binary search the code writes by hand in several places: \<open>before\<close> is the
  comparison of the probed element with the searched key.
\<close>

function partition_point :: "('a \<Rightarrow> bool) \<Rightarrow> 'a list \<Rightarrow> nat \<Rightarrow> nat \<Rightarrow> nat" where
  "partition_point before vs low high =
    (if low < high then
       let middle = low + (high - low) div 2 in
       if before (vs ! middle) then partition_point before vs (middle + 1) high
       else partition_point before vs low middle
     else low)"
  by pat_completeness auto
termination
  by (relation "measure (\<lambda>(before, vs, low, high). high - low)") auto

declare partition_point.simps [simp del]

lemma partition_point_bounds:
  assumes mono: "\<And>i j. i \<le> j \<Longrightarrow> j < length vs \<Longrightarrow> P (vs ! j) \<Longrightarrow> P (vs ! i)"
    and "low \<le> high" and "high \<le> length vs"
    and "\<forall>i < low. P (vs ! i)" and "\<forall>i. high \<le> i \<and> i < length vs \<longrightarrow> \<not> P (vs ! i)"
  shows "partition_point P vs low high \<le> length vs
    \<and> (\<forall>i < partition_point P vs low high. P (vs ! i))
    \<and> (\<forall>i. partition_point P vs low high \<le> i \<and> i < length vs \<longrightarrow> \<not> P (vs ! i))"
  using assms(2-5)
proof (induction "high - low" arbitrary: low high rule: less_induct)
  case less
  let ?m = "low + (high - low) div 2"
  show ?case
  proof (cases "low < high")
    case False
    with less.prems(1) have "high = low" by simp
    moreover have "partition_point P vs low high = low"
      using False by (simp add: partition_point.simps[of P vs low high])
    ultimately show ?thesis using less.prems by simp
  next
    case True
    then have m: "?m < high" "low \<le> ?m" by auto
    show ?thesis
    proof (cases "P (vs ! ?m)")
      case T: True
      have "\<forall>i < ?m + 1. P (vs ! i)"
        using T mono[of _ ?m] m less.prems(2) by (metis Suc_eq_plus1 less_Suc_eq_le order_less_le_trans)
      with less.hyps[of high "?m + 1"] less.prems m T True show ?thesis
        by (simp add: partition_point.simps[of P vs low high] Let_def)
    next
      case F: False
      have "\<forall>i. ?m \<le> i \<and> i < length vs \<longrightarrow> \<not> P (vs ! i)"
        using F mono by blast
      with less.hyps[of ?m low] less.prems m F True show ?thesis
        by (simp add: partition_point.simps[of P vs low high] Let_def)
    qed
  qed
qed

text \<open>The clients' lookup: probe the partition point and compare.\<close>

definition search :: "('a \<Rightarrow> bool) \<Rightarrow> ('a \<Rightarrow> bool) \<Rightarrow> 'a list \<Rightarrow> nat option" where
  "search before here vs =
    (let low = partition_point before vs 0 (length vs) in
     if low = length vs then None else if here (vs ! low) then Some low else None)"

lemma search_cases:
  fixes key :: "'a \<Rightarrow> 'k::linorder"
  assumes sorted: "sorted (map key vs)"
    and before: "\<And>e. before e \<longleftrightarrow> key e < k" and here: "\<And>e. here e \<longleftrightarrow> key e = k"
  shows "case search before here vs of
      None \<Rightarrow> k \<notin> key ` set vs
    | Some i \<Rightarrow> i < length vs \<and> key (vs ! i) = k \<and> (\<forall>j < i. key (vs ! j) < k)"
proof -
  define l where "l = partition_point before vs 0 (length vs)"
  have mono: "before (vs ! i)" if "i \<le> j" "j < length vs" "before (vs ! j)" for i j
    using sorted_nth_mono[OF sorted, of i j] that unfolding before by simp
  have pp: "l \<le> length vs \<and> (\<forall>i < l. before (vs ! i)) \<and> (\<forall>i. l \<le> i \<and> i < length vs \<longrightarrow> \<not> before (vs ! i))"
    unfolding l_def by (rule partition_point_bounds) (erule (2) mono, simp, simp, simp, metis leD)
  have l: "l \<le> length vs" "\<forall>i < l. key (vs ! i) < k" "\<forall>i. l \<le> i \<and> i < length vs \<longrightarrow> \<not> key (vs ! i) < k"
    using pp unfolding before by blast+
  have eq: "search before here vs = (if l = length vs then None else if key (vs ! l) = k then Some l else None)"
    by (simp add: search_def l_def here Let_def)
  have absent: "key (vs ! i) \<noteq> k" if a: "l = length vs \<or> key (vs ! l) \<noteq> k" and i: "i < length vs" for i
  proof
    assume e: "key (vs ! i) = k"
    with l(2) have "l \<le> i" by (metis less_irrefl not_le)
    with a i e have "l < length vs" "key (vs ! l) \<noteq> k" by auto
    moreover have "key (vs ! l) \<le> key (vs ! i)"
      using sorted_nth_mono[OF sorted \<open>l \<le> i\<close>] i \<open>l < length vs\<close> by simp
    ultimately show False using e l(3) by (metis order_refl antisym_conv2)
  qed
  show ?thesis
  proof (cases "l = length vs \<or> key (vs ! l) \<noteq> k")
    case True
    have "k \<notin> key ` set vs"
    proof
      assume "k \<in> key ` set vs"
      then obtain i where "i < length vs" "key (vs ! i) = k" by (metis imageE in_set_conv_nth)
      with absent[OF True] show False by blast
    qed
    moreover have "search before here vs = None" using True unfolding eq by argo
    ultimately show ?thesis by simp
  next
    case False
    then have "search before here vs = Some l" unfolding eq by argo
    with False l(1,2) show ?thesis by simp
  qed
qed

lemma search_find:
  fixes key :: "'a \<Rightarrow> 'k::linorder"
  assumes "sorted (map key vs)" and "\<And>e. before e \<longleftrightarrow> key e < k" and here: "\<And>e. here e \<longleftrightarrow> key e = k"
  shows "map_option ((!) vs) (search before here vs) = find here vs"
proof (cases "search before here vs")
  case None
  with search_cases[OF assms] have "k \<notin> key ` set vs" by simp
  then have "find here vs = None" unfolding find_None_iff here by blast
  with None show ?thesis by simp
next
  case (Some i)
  with search_cases[OF assms] have "i < length vs" "key (vs ! i) = k" "\<forall>j < i. key (vs ! j) < k" by simp_all
  then have "find here vs = Some (vs ! i)"
    unfolding find_Some_iff here by (metis less_irrefl)
  with Some show ?thesis by simp
qed

section \<open>Words\<close>

lemma word_less_unat: "(a :: 'a::len word) < b \<longleftrightarrow> unat a < unat b"
  by (simp add: word_less_nat_alt)

lemma unat_u64_less: "unat (x :: u64) < 2 ^ 64"
  using unsigned_less[of x] by simp

lemma succ_u64_nonzero: "(x :: u64) \<noteq> u64_max \<Longrightarrow> unat (x + 1) = unat x + 1"
  by (metis Suc_eq_plus1 add.commute eq_neg_iff_add_eq_0 unatSuc)

end
