(* ===== verification/Ids.thy ===== *)
theory Ids
  imports Prelude
begin

text \<open>
  Identities, generations and watermarks (\<^verbatim>\<open>include/adaptive_routing/ids.hpp\<close>, \<^verbatim>\<open>src/ids.cpp\<close>).
  The template tag of the code is a phantom type parameter, so that identities of different
  domains cannot be mixed here either.
\<close>

section \<open>Characters\<close>

definition id_char_allowed :: "char \<Rightarrow> bool" where
  "id_char_allowed c =
    (let n = (of_char c :: nat);
         upper = 65 \<le> n \<and> n \<le> 90; lower = 97 \<le> n \<and> n \<le> 122; digit = 48 \<le> n \<and> n \<le> 57;
         punct = c \<in> set ''._-:@#+/''
     in upper \<or> lower \<or> digit \<or> punct)"

definition id_edge_char_allowed :: "char \<Rightarrow> bool" where
  "id_edge_char_allowed c = (c \<notin> set ''.-:@#+/_'')"

definition add_overflows_u64 :: "u64 \<Rightarrow> u64 \<Rightarrow> bool" where
  "add_overflows_u64 a b = (a > u64_max - b)"

definition multiply_overflows_u64 :: "u64 \<Rightarrow> u64 \<Rightarrow> bool" where
  "multiply_overflows_u64 a b = (if a = 0 \<or> b = 0 then False else a > u64_max div b)"

section \<open>Textual identities\<close>

text \<open>
  The default-constructed identity has length 0 and is not valid; every other value is produced
  by \<open>id_parse\<close>.  Comparison is byte-wise and lexicographic; the characters \<open>id_parse\<close> lets
  through are ASCII, so the sign of \<^verbatim>\<open>char\<close> does not matter.
\<close>

datatype 'tag strong_id = StrongId (id_text: string)

definition no_id :: "'tag strong_id" where
  "no_id = StrongId []"

definition id_valid :: "'tag strong_id \<Rightarrow> bool" where
  "id_valid i = (length (id_text i) \<noteq> 0)"

definition id_parse :: "nat \<Rightarrow> string \<Rightarrow> 'tag strong_id option" where
  "id_parse max_length text =
    (if text = [] \<or> length text > max_length then None
     else if \<not> (\<forall>c \<in> set text. id_char_allowed c) then None
     else if \<not> id_edge_char_allowed (hd text) \<or> \<not> id_edge_char_allowed (last text) then None
     else Some (StrongId text))"

fun bytes_less :: "string \<Rightarrow> string \<Rightarrow> bool" where
  "bytes_less [] ys = (ys \<noteq> [])"
| "bytes_less (x # xs) [] = False"
| "bytes_less (x # xs) (y # ys) =
    (if x \<noteq> y then (of_char x :: nat) < of_char y else bytes_less xs ys)"

fun fnv1a :: "u64 \<Rightarrow> string \<Rightarrow> u64" where
  "fnv1a state [] = state"
| "fnv1a state (c # cs) = fnv1a ((state XOR of_char c) * 1099511628211) cs"

definition id_hash :: "'tag strong_id \<Rightarrow> u64" where
  "id_hash i = fnv1a 14695981039346656037 (id_text i)"

lemma bytes_less_irrefl [simp]: "\<not> bytes_less xs xs"
  by (induction xs) auto

lemma bytes_less_trans: "bytes_less xs ys \<Longrightarrow> bytes_less ys zs \<Longrightarrow> bytes_less xs zs"
proof (induction xs ys arbitrary: zs rule: bytes_less.induct)
  case (1 ys)
  then show ?case by (cases ys; cases zs) auto
next
  case (3 x xs y ys)
  then show ?case by (cases zs) (auto split: if_splits)
qed simp

lemma bytes_less_total: "xs \<noteq> ys \<Longrightarrow> bytes_less xs ys \<or> bytes_less ys xs"
proof (induction xs ys rule: bytes_less.induct)
  case (1 ys)
  then show ?case by auto
next
  case (3 x xs y ys)
  then show ?case
    using inj_of_char[where 'a = nat] by (cases "x = y") (auto simp: nat_neq_iff dest: injD)
qed simp

definition id_less :: "'a strong_id \<Rightarrow> 'a strong_id \<Rightarrow> bool" where
  "id_less a b = bytes_less (id_text a) (id_text b)"

definition id_less_eq :: "'a strong_id \<Rightarrow> 'a strong_id \<Rightarrow> bool" where
  "id_less_eq a b = (\<not> bytes_less (id_text b) (id_text a))"

instantiation strong_id :: (type) linorder
begin

definition less_strong_id :: "'a strong_id \<Rightarrow> 'a strong_id \<Rightarrow> bool" where
  "less_strong_id a b = id_less a b"

definition less_eq_strong_id :: "'a strong_id \<Rightarrow> 'a strong_id \<Rightarrow> bool" where
  "less_eq_strong_id a b = id_less_eq a b"

instance
proof
  fix a b c :: "'a strong_id"
  have eqI: "a = b" if "\<not> bytes_less (id_text a) (id_text b)" "\<not> bytes_less (id_text b) (id_text a)" for a b :: "'a strong_id"
    using that bytes_less_total[of "id_text a" "id_text b"] by (cases a; cases b) auto
  show "(a < b) = (a \<le> b \<and> \<not> b \<le> a)"
    using bytes_less_trans[of "id_text a" "id_text b" "id_text a"]
    by (auto simp: less_strong_id_def id_less_def less_eq_strong_id_def id_less_eq_def)
  show "a \<le> a" by (simp add: less_eq_strong_id_def id_less_eq_def)
  show "a \<le> c" if "a \<le> b" "b \<le> c"
  proof -
    from that(1) have "bytes_less (id_text a) (id_text b) \<or> a = b"
      using eqI[of a b] unfolding less_eq_strong_id_def id_less_eq_def by blast
    then consider "bytes_less (id_text a) (id_text b)" | "a = b" by blast
    then show ?thesis
      using that bytes_less_trans[of "id_text c" "id_text a" "id_text b"]
      by cases (auto simp: less_eq_strong_id_def id_less_eq_def)
  qed
  show "a = b" if "a \<le> b" "b \<le> a"
    using that eqI by (auto simp: less_eq_strong_id_def id_less_eq_def)
  show "a \<le> b \<or> b \<le> a"
    using bytes_less_trans[of "id_text a" "id_text b" "id_text a"]
    by (auto simp: less_eq_strong_id_def id_less_eq_def)
qed

end

section \<open>Generations and watermarks\<close>

datatype 'tag generation = Generation (gen_value: u64)

definition no_gen :: "'tag generation" where
  "no_gen = Generation 0"

definition gen_from_value :: "u64 \<Rightarrow> 'tag generation option" where
  "gen_from_value v = (if v = 0 then None else Some (Generation v))"

definition gen_first :: "'tag generation" where
  "gen_first = Generation 1"

definition gen_valid :: "'tag generation \<Rightarrow> bool" where
  "gen_valid g = (gen_value g \<noteq> 0)"

definition gen_next :: "'tag generation \<Rightarrow> 'tag generation option" where
  "gen_next g = (if gen_value g = u64_max then None else gen_from_value (gen_value g + 1))"

definition gen_less :: "'a generation \<Rightarrow> 'a generation \<Rightarrow> bool" where
  "gen_less a b = (gen_value a < gen_value b)"

definition gen_less_eq :: "'a generation \<Rightarrow> 'a generation \<Rightarrow> bool" where
  "gen_less_eq a b = (gen_value a \<le> gen_value b)"

instantiation generation :: (type) linorder
begin

definition less_generation :: "'a generation \<Rightarrow> 'a generation \<Rightarrow> bool" where
  "less_generation a b = gen_less a b"

definition less_eq_generation :: "'a generation \<Rightarrow> 'a generation \<Rightarrow> bool" where
  "less_eq_generation a b = gen_less_eq a b"

instance
  by standard (auto simp: less_generation_def gen_less_def less_eq_generation_def gen_less_eq_def generation.expand)

end

datatype watermark = Watermark (wm_value: u64)

definition wm_next :: "watermark \<Rightarrow> watermark option" where
  "wm_next w = (if wm_value w = u64_max then None else Some (Watermark (wm_value w + 1)))"

definition wm_less :: "watermark \<Rightarrow> watermark \<Rightarrow> bool" where
  "wm_less a b = (wm_value a < wm_value b)"

definition wm_less_eq :: "watermark \<Rightarrow> watermark \<Rightarrow> bool" where
  "wm_less_eq a b = (wm_value a \<le> wm_value b)"

instantiation watermark :: linorder
begin

definition less_watermark :: "watermark \<Rightarrow> watermark \<Rightarrow> bool" where
  "less_watermark a b = wm_less a b"

definition less_eq_watermark :: "watermark \<Rightarrow> watermark \<Rightarrow> bool" where
  "less_eq_watermark a b = wm_less_eq a b"

instance
  by standard (auto simp: less_watermark_def wm_less_def less_eq_watermark_def wm_less_eq_def watermark.expand)

end

section \<open>The identity domains\<close>

text \<open>One tag per domain; \<open>id_domains\<close> lists the maximal length each tag sets.\<close>

datatype policy_tag = AdaptivePolicyIdTag
datatype policy_name_tag = AdaptivePolicyNameTag
datatype decision_tag = AdaptationDecisionIdTag
datatype transition_plan_tag = TransitionPlanIdTag
datatype evidence_source_tag = EvidenceSourceIdTag
datatype evidence_snapshot_tag = EvidenceSnapshotIdTag
datatype fabric_tag = FabricIdTag
datatype namespace_tag = RoutingNamespaceTag
datatype site_tag = SiteIdTag
datatype path_class_tag = PathClassTag
datatype path_tag = PathIdTag
datatype multipath_set_tag = MultipathSetIdTag
datatype weighted_set_tag = WeightedPathSetIdTag
datatype route_tag = RouteIdTag
datatype publisher_tag = PublisherIdTag
datatype boot_tag = WorkerBootIdTag
datatype mutation_attempt_tag = MutationAttemptIdTag
datatype revalidation_attempt_tag = RevalidationAttemptIdTag
datatype session_tag = SessionIdTag
datatype request_tag = RequestIdTag
datatype snapshot_tag = SnapshotIdTag
datatype evaluation_tag = EvaluationIdTag
datatype policy_gen_tag = AdaptivePolicyGenerationTag
datatype adaptation_gen_tag = AdaptationGenerationTag
datatype transition_gen_tag = TransitionGenerationTag
datatype evidence_gen_tag = EvidenceGenerationTag
datatype source_gen_tag = EvidenceSourceGenerationTag
datatype path_authority_gen_tag = PathAuthorityGenerationTag
datatype multipath_gen_tag = MultipathSetGenerationTag
datatype weight_gen_tag = WeightPolicyGenerationTag
datatype route_gen_tag = RouteGenerationTag
datatype authority_gen_tag = AdaptiveAuthorityGenerationTag
datatype epoch_tag = CoordinatorEpochTag

type_synonym policy_id = "policy_tag strong_id"
type_synonym policy_name = "policy_name_tag strong_id"
type_synonym decision_id = "decision_tag strong_id"
type_synonym transition_plan_id = "transition_plan_tag strong_id"
type_synonym evidence_source_id = "evidence_source_tag strong_id"
type_synonym evidence_snapshot_id = "evidence_snapshot_tag strong_id"
type_synonym fabric_id = "fabric_tag strong_id"
type_synonym routing_namespace = "namespace_tag strong_id"
type_synonym site_id = "site_tag strong_id"
type_synonym path_class = "path_class_tag strong_id"
type_synonym path_id = "path_tag strong_id"
type_synonym multipath_set_id = "multipath_set_tag strong_id"
type_synonym weighted_path_set_id = "weighted_set_tag strong_id"
type_synonym route_id = "route_tag strong_id"
type_synonym publisher_id = "publisher_tag strong_id"
type_synonym worker_boot_id = "boot_tag strong_id"
type_synonym mutation_attempt_id = "mutation_attempt_tag strong_id"
type_synonym revalidation_attempt_id = "revalidation_attempt_tag strong_id"
type_synonym session_id = "session_tag strong_id"
type_synonym request_id = "request_tag strong_id"
type_synonym snapshot_id = "snapshot_tag strong_id"
type_synonym evaluation_id = "evaluation_tag strong_id"
type_synonym policy_generation = "policy_gen_tag generation"
type_synonym adaptation_generation = "adaptation_gen_tag generation"
type_synonym transition_generation = "transition_gen_tag generation"
type_synonym evidence_generation = "evidence_gen_tag generation"
type_synonym evidence_source_generation = "source_gen_tag generation"
type_synonym path_authority_generation = "path_authority_gen_tag generation"
type_synonym multipath_set_generation = "multipath_gen_tag generation"
type_synonym weight_policy_generation = "weight_gen_tag generation"
type_synonym route_generation = "route_gen_tag generation"
type_synonym adaptive_authority_generation = "authority_gen_tag generation"
type_synonym coordinator_epoch = "epoch_tag generation"

definition id_domains :: "(string \<times> nat) list" where
  "id_domains = [(''AdaptivePolicyId'', 96),
     (''AdaptivePolicyName'', 64),
     (''AdaptationDecisionId'', 96),
     (''TransitionPlanId'', 96),
     (''EvidenceSourceId'', 96),
     (''EvidenceSnapshotId'', 96),
     (''FabricId'', 64),
     (''RoutingNamespace'', 64),
     (''SiteId'', 64),
     (''PathClass'', 32),
     (''PathId'', 128),
     (''MultipathSetId'', 96),
     (''WeightedPathSetId'', 96),
     (''RouteId'', 96),
     (''PublisherId'', 64),
     (''WorkerBootId'', 64),
     (''MutationAttemptId'', 64),
     (''RevalidationAttemptId'', 64),
     (''SessionId'', 64),
     (''RequestId'', 64),
     (''SnapshotId'', 96),
     (''EvaluationId'', 64)]"

section \<open>The identity factory\<close>

text \<open>
  The process nonce is a parameter: \<^verbatim>\<open>make_nonce\<close> reads the process id and the steady clock.  The
  minting operations of the code are \<^verbatim>\<open>noexcept\<close> and call \<^verbatim>\<open>require\<close>, which throws on a malformed
  encoding, so an encoding that does not parse ends the process: that outcome is \<open>None\<close>.
\<close>

record id_factory =
  idf_prefix :: string
  idf_nonce :: string
  idf_counter :: u64

definition idf_compose :: "id_factory \<Rightarrow> string \<Rightarrow> u64 \<Rightarrow> string" where
  "idf_compose f kind counter =
     idf_prefix f @ (if idf_prefix f \<noteq> [] then ''-'' else []) @ kind @ ''-'' @ idf_nonce f
       @ ''-'' @ dec (unat counter)"

definition idf_mint :: "nat \<Rightarrow> string \<Rightarrow> id_factory \<Rightarrow> (id_factory \<times> 'tag strong_id) option" where
  "idf_mint max_length kind f =
    (let c = idf_counter f + 1 in
     case id_parse max_length (idf_compose f kind c) of
       None \<Rightarrow> None
     | Some i \<Rightarrow> Some (f\<lparr>idf_counter := c\<rparr>, i))"

definition next_policy_id :: "id_factory \<Rightarrow> (id_factory \<times> policy_id) option" where
  "next_policy_id = idf_mint 96 ''policy''"

definition next_decision_id :: "id_factory \<Rightarrow> (id_factory \<times> decision_id) option" where
  "next_decision_id = idf_mint 96 ''decision''"

definition next_transition_id :: "id_factory \<Rightarrow> (id_factory \<times> transition_plan_id) option" where
  "next_transition_id = idf_mint 96 ''transition''"

definition next_evidence_source_id :: "id_factory \<Rightarrow> (id_factory \<times> evidence_source_id) option" where
  "next_evidence_source_id = idf_mint 96 ''evidence''"

definition next_evidence_snapshot_id :: "id_factory \<Rightarrow> (id_factory \<times> evidence_snapshot_id) option" where
  "next_evidence_snapshot_id = idf_mint 96 ''evsnap''"

definition next_snapshot_id :: "id_factory \<Rightarrow> (id_factory \<times> snapshot_id) option" where
  "next_snapshot_id = idf_mint 96 ''snapshot''"

definition next_worker_boot_id :: "id_factory \<Rightarrow> (id_factory \<times> worker_boot_id) option" where
  "next_worker_boot_id = idf_mint 64 ''boot''"

definition next_session_id :: "id_factory \<Rightarrow> (id_factory \<times> session_id) option" where
  "next_session_id = idf_mint 64 ''session''"

definition next_evaluation_id :: "id_factory \<Rightarrow> (id_factory \<times> evaluation_id) option" where
  "next_evaluation_id = idf_mint 64 ''eval''"

lemma id_parse_SomeD:
  "id_parse n t = Some i \<Longrightarrow> i = StrongId t \<and> t \<noteq> [] \<and> length t \<le> n \<and> (\<forall>c \<in> set t. id_char_allowed c)
     \<and> id_edge_char_allowed (hd t) \<and> id_edge_char_allowed (last t)"
  by (auto simp: id_parse_def split: if_splits)

lemma id_parse_valid: "id_parse n t = Some i \<Longrightarrow> id_valid i"
  using id_parse_SomeD[of n t i] by (auto simp: id_valid_def)

lemma no_id_invalid [simp]: "\<not> id_valid no_id"
  by (simp add: no_id_def id_valid_def)

lemma no_gen_invalid [simp]: "\<not> gen_valid no_gen"
  by (simp add: no_gen_def gen_valid_def)

lemma gen_first_valid [simp]: "gen_valid gen_first"
  by (simp add: gen_first_def gen_valid_def)

lemma gen_next_SomeD:
  assumes "gen_next g = Some h"
  shows "unat (gen_value h) = unat (gen_value g) + 1" "g < h" "gen_valid h" "h \<noteq> g"
proof -
  from assms have ne: "gen_value g \<noteq> u64_max" and h: "gen_value h = gen_value g + 1"
    and v: "gen_value h \<noteq> 0"
    by (auto simp: gen_next_def gen_from_value_def split: if_splits)
  show 1: "unat (gen_value h) = unat (gen_value g) + 1"
    using succ_u64_nonzero[OF ne] h by simp
  then show 2: "g < h" by (simp add: less_generation_def gen_less_def word_less_unat)
  from v show "gen_valid h" by (simp add: gen_valid_def)
  from 2 show "h \<noteq> g" by auto
qed

lemma gen_next_None: "gen_next g = None \<longleftrightarrow> gen_value g = u64_max"
proof -
  have "gen_value g + 1 \<noteq> 0" if "gen_value g \<noteq> u64_max"
    using that by (metis add.commute eq_neg_iff_add_eq_0)
  then show ?thesis by (auto simp: gen_next_def gen_from_value_def)
qed

lemma wm_next_SomeD:
  assumes "wm_next w = Some v"
  shows "unat (wm_value v) = unat (wm_value w) + 1" "w < v"
proof -
  from assms have ne: "wm_value w \<noteq> u64_max" and v: "wm_value v = wm_value w + 1"
    by (auto simp: wm_next_def split: if_splits)
  show "unat (wm_value v) = unat (wm_value w) + 1"
    using succ_u64_nonzero[OF ne] v by simp
  then show "w < v" by (simp add: less_watermark_def wm_less_def word_less_unat)
qed

lemma idf_mint_SomeD:
  "idf_mint n kind f = Some (f', i) \<Longrightarrow>
     f' = f\<lparr>idf_counter := idf_counter f + 1\<rparr> \<and> id_valid i \<and> id_text i = idf_compose f kind (idf_counter f + 1)
       \<and> length (id_text i) \<le> n"
  by (auto simp: idf_mint_def Let_def id_valid_def dest!: id_parse_SomeD split: option.splits)

lemma idf_compose_inject: "idf_compose f k c = idf_compose f k d \<longleftrightarrow> c = d"
  using word_unat_eq_iff[of c d] by (auto simp: idf_compose_def)

lemma idf_compose_counter [simp]: "idf_compose (f\<lparr>idf_counter := c\<rparr>) = idf_compose f"
  by (simp add: idf_compose_def fun_eq_iff)

text \<open>
  The text a validated identity carries.  Parsing succeeds exactly on non-empty texts within
  the length bound, over the admissible alphabet and with alphanumeric first and last characters,
  and what it returns prints back to the parsed text.
\<close>

theorem id_parse_iff:
  "id_parse n t = Some i \<longleftrightarrow>
     i = StrongId t \<and> 1 \<le> length t \<and> length t \<le> n \<and> set t \<subseteq> Collect id_char_allowed
       \<and> hd t \<in> set t - set ''.-:@#+/_'' \<and> last t \<in> set t - set ''.-:@#+/_''"
  by (cases t) (auto simp: id_parse_def id_edge_char_allowed_def)

end
