(* ===== verification/Outcome.thy ===== *)
theory Outcome
  imports Ids
begin

text \<open>
  Structured outcomes and suppression reasons (\<^verbatim>\<open>include/adaptive_routing/outcome.hpp\<close>,
  \<^verbatim>\<open>src/outcome.cpp\<close>): the outcome table with the documented rejection precedence, the outcome
  reported for each suppression reason, and the result record every entry point returns.
\<close>

section \<open>Outcomes\<close>

datatype outcome =
    Out_POLICY_CREATED | Out_POLICY_UPDATED | Out_DECISION_COMMITTED | Out_IDEMPOTENT
  | Out_SUPPRESSED | Out_NO_CHANGE | Out_STALE_EVIDENCE | Out_STALE_PATH_AUTHORITY
  | Out_STALE_MULTIPATH_SET | Out_STALE_ROUTE | Out_STALE_POLICY_GENERATION | Out_STALE_EPOCH
  | Out_STALE_WORKER | Out_HOLD_DOWN_ACTIVE | Out_COOLDOWN_ACTIVE | Out_HYSTERESIS_NOT_CLEARED
  | Out_INSUFFICIENT_EVIDENCE | Out_NO_ELIGIBLE_CANDIDATE | Out_UNAUTHORIZED | Out_REVALIDATION_REQUIRED
  | Out_REVOKED | Out_RETIRED | Out_RESOURCE_LIMIT | Out_MALFORMED_REQUEST
  | Out_ATTEMPT_CONFLICT | Out_GENERATION_OVERFLOW | Out_INCOMPATIBLE_METRIC | Out_INVALID_HYSTERESIS
  | Out_CHURN_LIMIT_REACHED | Out_ROLLBACK_REFUSED | Out_NOT_FOUND | Out_ALREADY_EXISTS
  | Out_SUSPENDED | Out_FENCED_WORKER | Out_UNAUTHORIZED_SCOPE | Out_CORRUPT_STORE
  | Out_WIRE_MALFORMED | Out_WIRE_INTEGRITY | Out_SESSION_LIMIT | Out_EVALUATION_LIMIT
  | Out_UNSUPPORTED_VERSION | Out_POLICY_SUPERSEDED | Out_INTERNAL_ERROR | Out_WITHDRAWN_UPSTREAM
  | Out_NO_CURRENT_PREFERENCE | Out_DECISION_SUPERSEDED

definition outcome_raw :: "outcome \<Rightarrow> u16" where
  "outcome_raw outcome = (case outcome of
     Out_POLICY_CREATED \<Rightarrow> 1 | Out_POLICY_UPDATED \<Rightarrow> 2 | Out_DECISION_COMMITTED \<Rightarrow> 3 | Out_IDEMPOTENT \<Rightarrow> 4
   | Out_SUPPRESSED \<Rightarrow> 5 | Out_NO_CHANGE \<Rightarrow> 6 | Out_STALE_EVIDENCE \<Rightarrow> 7 | Out_STALE_PATH_AUTHORITY \<Rightarrow> 8
   | Out_STALE_MULTIPATH_SET \<Rightarrow> 9 | Out_STALE_ROUTE \<Rightarrow> 10 | Out_STALE_POLICY_GENERATION \<Rightarrow> 11 | Out_STALE_EPOCH \<Rightarrow> 12
   | Out_STALE_WORKER \<Rightarrow> 13 | Out_HOLD_DOWN_ACTIVE \<Rightarrow> 14 | Out_COOLDOWN_ACTIVE \<Rightarrow> 15 | Out_HYSTERESIS_NOT_CLEARED \<Rightarrow> 16
   | Out_INSUFFICIENT_EVIDENCE \<Rightarrow> 17 | Out_NO_ELIGIBLE_CANDIDATE \<Rightarrow> 18 | Out_UNAUTHORIZED \<Rightarrow> 19 | Out_REVALIDATION_REQUIRED \<Rightarrow> 20
   | Out_REVOKED \<Rightarrow> 21 | Out_RETIRED \<Rightarrow> 22 | Out_RESOURCE_LIMIT \<Rightarrow> 23 | Out_MALFORMED_REQUEST \<Rightarrow> 24
   | Out_ATTEMPT_CONFLICT \<Rightarrow> 25 | Out_GENERATION_OVERFLOW \<Rightarrow> 26 | Out_INCOMPATIBLE_METRIC \<Rightarrow> 27 | Out_INVALID_HYSTERESIS \<Rightarrow> 28
   | Out_CHURN_LIMIT_REACHED \<Rightarrow> 29 | Out_ROLLBACK_REFUSED \<Rightarrow> 30 | Out_NOT_FOUND \<Rightarrow> 31 | Out_ALREADY_EXISTS \<Rightarrow> 32
   | Out_SUSPENDED \<Rightarrow> 33 | Out_FENCED_WORKER \<Rightarrow> 34 | Out_UNAUTHORIZED_SCOPE \<Rightarrow> 35 | Out_CORRUPT_STORE \<Rightarrow> 36
   | Out_WIRE_MALFORMED \<Rightarrow> 37 | Out_WIRE_INTEGRITY \<Rightarrow> 38 | Out_SESSION_LIMIT \<Rightarrow> 39 | Out_EVALUATION_LIMIT \<Rightarrow> 40
   | Out_UNSUPPORTED_VERSION \<Rightarrow> 41 | Out_POLICY_SUPERSEDED \<Rightarrow> 42 | Out_INTERNAL_ERROR \<Rightarrow> 43 | Out_WITHDRAWN_UPSTREAM \<Rightarrow> 44
   | Out_NO_CURRENT_PREFERENCE \<Rightarrow> 45 | Out_DECISION_SUPERSEDED \<Rightarrow> 46)"

definition outcome_table :: "(outcome \<times> string \<times> nat) list" where
  "outcome_table =
    [(Out_POLICY_CREATED, ''POLICY_CREATED'', 0), (Out_POLICY_UPDATED, ''POLICY_UPDATED'', 0),
     (Out_DECISION_COMMITTED, ''DECISION_COMMITTED'', 0), (Out_IDEMPOTENT, ''IDEMPOTENT'', 0),
     (Out_CORRUPT_STORE, ''CORRUPT_STORE'', 1), (Out_WIRE_INTEGRITY, ''WIRE_INTEGRITY'', 1),
     (Out_WIRE_MALFORMED, ''WIRE_MALFORMED'', 2), (Out_MALFORMED_REQUEST, ''MALFORMED_REQUEST'', 3),
     (Out_UNSUPPORTED_VERSION, ''UNSUPPORTED_VERSION'', 3), (Out_INVALID_HYSTERESIS, ''INVALID_HYSTERESIS'', 3),
     (Out_INCOMPATIBLE_METRIC, ''INCOMPATIBLE_METRIC'', 3), (Out_ALREADY_EXISTS, ''ALREADY_EXISTS'', 3),
     (Out_NOT_FOUND, ''NOT_FOUND'', 3), (Out_UNAUTHORIZED, ''UNAUTHORIZED'', 4),
     (Out_STALE_EPOCH, ''STALE_EPOCH'', 5), (Out_STALE_WORKER, ''STALE_WORKER'', 6),
     (Out_FENCED_WORKER, ''FENCED_WORKER'', 6), (Out_UNAUTHORIZED_SCOPE, ''UNAUTHORIZED_SCOPE'', 7),
     (Out_RESOURCE_LIMIT, ''RESOURCE_LIMIT'', 8), (Out_SESSION_LIMIT, ''SESSION_LIMIT'', 8),
     (Out_EVALUATION_LIMIT, ''EVALUATION_LIMIT'', 8), (Out_SUSPENDED, ''SUSPENDED'', 9),
     (Out_REVALIDATION_REQUIRED, ''REVALIDATION_REQUIRED'', 9), (Out_REVOKED, ''REVOKED'', 9),
     (Out_RETIRED, ''RETIRED'', 9), (Out_POLICY_SUPERSEDED, ''POLICY_SUPERSEDED'', 9),
     (Out_STALE_POLICY_GENERATION, ''STALE_POLICY_GENERATION'', 10), (Out_STALE_EVIDENCE, ''STALE_EVIDENCE'', 10),
     (Out_STALE_ROUTE, ''STALE_ROUTE'', 10), (Out_STALE_MULTIPATH_SET, ''STALE_MULTIPATH_SET'', 10),
     (Out_STALE_PATH_AUTHORITY, ''STALE_PATH_AUTHORITY'', 10), (Out_ATTEMPT_CONFLICT, ''ATTEMPT_CONFLICT'', 11),
     (Out_WITHDRAWN_UPSTREAM, ''WITHDRAWN_UPSTREAM'', 12), (Out_INSUFFICIENT_EVIDENCE, ''INSUFFICIENT_EVIDENCE'', 13),
     (Out_NO_ELIGIBLE_CANDIDATE, ''NO_ELIGIBLE_CANDIDATE'', 14), (Out_NO_CURRENT_PREFERENCE, ''NO_CURRENT_PREFERENCE'', 14),
     (Out_HOLD_DOWN_ACTIVE, ''HOLD_DOWN_ACTIVE'', 15), (Out_COOLDOWN_ACTIVE, ''COOLDOWN_ACTIVE'', 15),
     (Out_HYSTERESIS_NOT_CLEARED, ''HYSTERESIS_NOT_CLEARED'', 16), (Out_NO_CHANGE, ''NO_CHANGE'', 16),
     (Out_SUPPRESSED, ''SUPPRESSED'', 16), (Out_CHURN_LIMIT_REACHED, ''CHURN_LIMIT_REACHED'', 17),
     (Out_GENERATION_OVERFLOW, ''GENERATION_OVERFLOW'', 18), (Out_DECISION_SUPERSEDED, ''DECISION_SUPERSEDED'', 18),
     (Out_ROLLBACK_REFUSED, ''ROLLBACK_REFUSED'', 18), (Out_INTERNAL_ERROR, ''INTERNAL_ERROR'', 99)]"

definition find_outcome :: "outcome \<Rightarrow> (string \<times> nat) option" where
  "find_outcome outcome = om_find outcome_table outcome"

definition outcome_to_string :: "outcome \<Rightarrow> string" where
  "outcome_to_string outcome = (case find_outcome outcome of None \<Rightarrow> ''UNKNOWN'' | Some e \<Rightarrow> fst e)"

fun parse_table :: "('a \<times> string \<times> 'b) list \<Rightarrow> string \<Rightarrow> 'a option" where
  "parse_table [] text = None"
| "parse_table ((x, name, extra) # t) text = (if name = text then Some x else parse_table t text)"

definition parse_outcome :: "string \<Rightarrow> outcome option" where
  "parse_outcome text = parse_table outcome_table text"

definition valid_outcome :: "u16 \<Rightarrow> bool" where
  "valid_outcome raw = (\<exists>e \<in> set outcome_table. outcome_raw (fst e) = raw)"

definition outcome_is_success :: "outcome \<Rightarrow> bool" where
  "outcome_is_success outcome = (case outcome of
     Out_POLICY_CREATED \<Rightarrow> True | Out_POLICY_UPDATED \<Rightarrow> True | Out_DECISION_COMMITTED \<Rightarrow> True
   | Out_IDEMPOTENT \<Rightarrow> True | _ \<Rightarrow> False)"

definition outcome_is_rejection :: "outcome \<Rightarrow> bool" where
  "outcome_is_rejection outcome = (\<not> outcome_is_success outcome)"

definition outcome_precedence :: "outcome \<Rightarrow> nat" where
  "outcome_precedence outcome = (case find_outcome outcome of None \<Rightarrow> 100 | Some e \<Rightarrow> snd e)"

section \<open>Suppression reasons\<close>

datatype suppression_reason =
    Sup_NONE | Sup_BELOW_THRESHOLD | Sup_HYSTERESIS_NOT_CLEARED
  | Sup_HOLD_DOWN_ACTIVE | Sup_COOLDOWN_ACTIVE | Sup_INSUFFICIENT_SAMPLES
  | Sup_STALE_EVIDENCE | Sup_NO_ELIGIBLE_ALTERNATIVE | Sup_POLICY_SUSPENDED
  | Sup_REVALIDATION_REQUIRED | Sup_CHURN_LIMIT_REACHED | Sup_CURRENT_PREFERENCE_INELIGIBLE
  | Sup_NO_TRIGGER_DECLARED | Sup_MERIT_NOT_ESTABLISHED | Sup_EVIDENCE_UNKNOWN
  | Sup_DAMPENING_EXTENDED_HOLD_DOWN | Sup_POLICY_NOT_ACTIVE | Sup_POLICY_REVOKED
  | Sup_POLICY_RETIRED | Sup_UPSTREAM_DEPENDENCY_STALE | Sup_REVERSE_REQUIREMENT_NOT_MET

definition suppression_raw :: "suppression_reason \<Rightarrow> u8" where
  "suppression_raw reason = (case reason of
     Sup_NONE \<Rightarrow> 0 | Sup_BELOW_THRESHOLD \<Rightarrow> 1 | Sup_HYSTERESIS_NOT_CLEARED \<Rightarrow> 2
   | Sup_HOLD_DOWN_ACTIVE \<Rightarrow> 3 | Sup_COOLDOWN_ACTIVE \<Rightarrow> 4 | Sup_INSUFFICIENT_SAMPLES \<Rightarrow> 5
   | Sup_STALE_EVIDENCE \<Rightarrow> 6 | Sup_NO_ELIGIBLE_ALTERNATIVE \<Rightarrow> 7 | Sup_POLICY_SUSPENDED \<Rightarrow> 8
   | Sup_REVALIDATION_REQUIRED \<Rightarrow> 9 | Sup_CHURN_LIMIT_REACHED \<Rightarrow> 10 | Sup_CURRENT_PREFERENCE_INELIGIBLE \<Rightarrow> 11
   | Sup_NO_TRIGGER_DECLARED \<Rightarrow> 12 | Sup_MERIT_NOT_ESTABLISHED \<Rightarrow> 13 | Sup_EVIDENCE_UNKNOWN \<Rightarrow> 14
   | Sup_DAMPENING_EXTENDED_HOLD_DOWN \<Rightarrow> 15 | Sup_POLICY_NOT_ACTIVE \<Rightarrow> 16 | Sup_POLICY_REVOKED \<Rightarrow> 17
   | Sup_POLICY_RETIRED \<Rightarrow> 18 | Sup_UPSTREAM_DEPENDENCY_STALE \<Rightarrow> 19 | Sup_REVERSE_REQUIREMENT_NOT_MET \<Rightarrow> 20)"

definition suppression_table :: "(suppression_reason \<times> string) list" where
  "suppression_table =
    [(Sup_NONE, ''NONE''), (Sup_BELOW_THRESHOLD, ''BELOW_THRESHOLD''),
     (Sup_HYSTERESIS_NOT_CLEARED, ''HYSTERESIS_NOT_CLEARED''), (Sup_HOLD_DOWN_ACTIVE, ''HOLD_DOWN_ACTIVE''),
     (Sup_COOLDOWN_ACTIVE, ''COOLDOWN_ACTIVE''), (Sup_INSUFFICIENT_SAMPLES, ''INSUFFICIENT_SAMPLES''),
     (Sup_STALE_EVIDENCE, ''STALE_EVIDENCE''), (Sup_NO_ELIGIBLE_ALTERNATIVE, ''NO_ELIGIBLE_ALTERNATIVE''),
     (Sup_POLICY_SUSPENDED, ''POLICY_SUSPENDED''), (Sup_REVALIDATION_REQUIRED, ''REVALIDATION_REQUIRED''),
     (Sup_CHURN_LIMIT_REACHED, ''CHURN_LIMIT_REACHED''), (Sup_CURRENT_PREFERENCE_INELIGIBLE, ''CURRENT_PREFERENCE_INELIGIBLE''),
     (Sup_NO_TRIGGER_DECLARED, ''NO_TRIGGER_DECLARED''), (Sup_MERIT_NOT_ESTABLISHED, ''MERIT_NOT_ESTABLISHED''),
     (Sup_EVIDENCE_UNKNOWN, ''EVIDENCE_UNKNOWN''), (Sup_DAMPENING_EXTENDED_HOLD_DOWN, ''DAMPENING_EXTENDED_HOLD_DOWN''),
     (Sup_POLICY_NOT_ACTIVE, ''POLICY_NOT_ACTIVE''), (Sup_POLICY_REVOKED, ''POLICY_REVOKED''),
     (Sup_POLICY_RETIRED, ''POLICY_RETIRED''), (Sup_UPSTREAM_DEPENDENCY_STALE, ''UPSTREAM_DEPENDENCY_STALE''),
     (Sup_REVERSE_REQUIREMENT_NOT_MET, ''REVERSE_REQUIREMENT_NOT_MET'')]"

definition suppression_to_string :: "suppression_reason \<Rightarrow> string" where
  "suppression_to_string reason = (case om_find suppression_table reason of None \<Rightarrow> ''UNKNOWN'' | Some n \<Rightarrow> n)"

fun parse_pairs :: "('a \<times> string) list \<Rightarrow> string \<Rightarrow> 'a option" where
  "parse_pairs [] text = None"
| "parse_pairs ((x, name) # t) text = (if name = text then Some x else parse_pairs t text)"

definition parse_suppression_reason :: "string \<Rightarrow> suppression_reason option" where
  "parse_suppression_reason text = parse_pairs suppression_table text"

definition valid_suppression_reason :: "u8 \<Rightarrow> bool" where
  "valid_suppression_reason raw = (raw \<le> 20)"

definition suppression_outcome :: "suppression_reason \<Rightarrow> outcome" where
  "suppression_outcome reason = (case reason of
     Sup_NONE \<Rightarrow> Out_NO_CHANGE | Sup_BELOW_THRESHOLD \<Rightarrow> Out_NO_CHANGE
   | Sup_HYSTERESIS_NOT_CLEARED \<Rightarrow> Out_HYSTERESIS_NOT_CLEARED | Sup_HOLD_DOWN_ACTIVE \<Rightarrow> Out_HOLD_DOWN_ACTIVE
   | Sup_COOLDOWN_ACTIVE \<Rightarrow> Out_COOLDOWN_ACTIVE | Sup_INSUFFICIENT_SAMPLES \<Rightarrow> Out_INSUFFICIENT_EVIDENCE
   | Sup_STALE_EVIDENCE \<Rightarrow> Out_STALE_EVIDENCE | Sup_NO_ELIGIBLE_ALTERNATIVE \<Rightarrow> Out_NO_ELIGIBLE_CANDIDATE
   | Sup_POLICY_SUSPENDED \<Rightarrow> Out_SUSPENDED | Sup_REVALIDATION_REQUIRED \<Rightarrow> Out_REVALIDATION_REQUIRED
   | Sup_CHURN_LIMIT_REACHED \<Rightarrow> Out_CHURN_LIMIT_REACHED | Sup_CURRENT_PREFERENCE_INELIGIBLE \<Rightarrow> Out_REVALIDATION_REQUIRED
   | Sup_NO_TRIGGER_DECLARED \<Rightarrow> Out_NO_CHANGE | Sup_MERIT_NOT_ESTABLISHED \<Rightarrow> Out_NO_CHANGE
   | Sup_EVIDENCE_UNKNOWN \<Rightarrow> Out_INSUFFICIENT_EVIDENCE | Sup_DAMPENING_EXTENDED_HOLD_DOWN \<Rightarrow> Out_HOLD_DOWN_ACTIVE
   | Sup_POLICY_NOT_ACTIVE \<Rightarrow> Out_SUSPENDED | Sup_POLICY_REVOKED \<Rightarrow> Out_REVOKED
   | Sup_POLICY_RETIRED \<Rightarrow> Out_RETIRED | Sup_UPSTREAM_DEPENDENCY_STALE \<Rightarrow> Out_REVALIDATION_REQUIRED
   | Sup_REVERSE_REQUIREMENT_NOT_MET \<Rightarrow> Out_HYSTERESIS_NOT_CLEARED)"

section \<open>The operation result\<close>

record operation_result =
  or_outcome :: outcome
  or_detail :: string
  or_policy :: policy_id
  or_policy_generation :: policy_generation
  or_decision :: decision_id
  or_adaptation_generation :: adaptation_generation
  or_transition_generation :: transition_generation
  or_evidence_generation :: evidence_generation
  or_epoch :: coordinator_epoch
  or_suppression :: suppression_reason
  or_mutated :: bool

definition or_make :: "outcome \<Rightarrow> string \<Rightarrow> operation_result" where
  "or_make outcome detail = \<lparr>or_outcome = outcome, or_detail = detail, or_policy = no_id,
     or_policy_generation = no_gen, or_decision = no_id, or_adaptation_generation = no_gen,
     or_transition_generation = no_gen, or_evidence_generation = no_gen, or_epoch = no_gen,
     or_suppression = Sup_NONE, or_mutated = False\<rparr>"

definition or_ok :: "operation_result \<Rightarrow> bool" where
  "or_ok r = outcome_is_success (or_outcome r)"

definition or_render :: "operation_result \<Rightarrow> string" where
  "or_render r =
     outcome_to_string (or_outcome r)
     @ (if or_suppression r \<noteq> Sup_NONE then '' suppression='' @ suppression_to_string (or_suppression r) else [])
     @ (if id_valid (or_policy r) then '' policy='' @ id_text (or_policy r)
          @ (if gen_valid (or_policy_generation r) then ''@'' @ dec (unat (gen_value (or_policy_generation r))) else [])
        else [])
     @ (if id_valid (or_decision r) then '' decision='' @ id_text (or_decision r) else [])
     @ (if gen_valid (or_adaptation_generation r) then '' adaptation='' @ dec (unat (gen_value (or_adaptation_generation r))) else [])
     @ (if gen_valid (or_transition_generation r) then '' transition='' @ dec (unat (gen_value (or_transition_generation r))) else [])
     @ (if gen_valid (or_evidence_generation r) then '' evidence='' @ dec (unat (gen_value (or_evidence_generation r))) else [])
     @ (if gen_valid (or_epoch r) then '' epoch='' @ dec (unat (gen_value (or_epoch r))) else [])
     @ (if or_detail r \<noteq> [] then '' detail='' @ or_detail r else [])"

lemma or_make_simps [simp]:
  "or_outcome (or_make c d) = c" "or_detail (or_make c d) = d" "or_mutated (or_make c d) = False"
  "or_suppression (or_make c d) = Sup_NONE" "or_policy (or_make c d) = no_id"
  by (simp_all add: or_make_def)

lemma or_ok_make [simp]: "or_ok (or_make c d) = outcome_is_success c"
  by (simp add: or_ok_def)

lemmas outcome_success_simps [simp] = outcome_is_success_def[of Out_POLICY_CREATED, simplified]
  outcome_is_success_def[of Out_POLICY_UPDATED, simplified]
  outcome_is_success_def[of Out_DECISION_COMMITTED, simplified]
  outcome_is_success_def[of Out_IDEMPOTENT, simplified]

lemma outcome_is_success_iff:
  "outcome_is_success c \<longleftrightarrow> c \<in> {Out_POLICY_CREATED, Out_POLICY_UPDATED, Out_DECISION_COMMITTED, Out_IDEMPOTENT}"
  by (cases c) (simp_all add: outcome_is_success_def)

section \<open>The tables are complete\<close>

lemma parse_table_mem:
  "(x, n, p) \<in> set t \<Longrightarrow> distinct (map (fst \<circ> snd) t) \<Longrightarrow> parse_table t n = Some x"
  by (induction t n rule: parse_table.induct) (auto simp: rev_image_eqI)

lemma parse_pairs_mem: "(x, n) \<in> set t \<Longrightarrow> distinct (map snd t) \<Longrightarrow> parse_pairs t n = Some x"
  by (induction t n rule: parse_pairs.induct) (auto simp: rev_image_eqI)

lemma outcome_listed: "c \<in> fst ` set outcome_table"
proof -
  have "c \<in> set (map fst outcome_table)"
    unfolding outcome_table_def list.map fst_conv list.set by (cases c) simp_all
  then show ?thesis by simp
qed

lemma suppression_listed: "r \<in> fst ` set suppression_table"
  by (cases r) (simp_all add: suppression_table_def)

lemma outcome_names_distinct: "distinct (map (fst \<circ> snd) outcome_table)"
  by code_simp

lemma suppression_names_distinct: "distinct (map snd suppression_table)"
  by code_simp

lemma outcome_entry: obtains n p where "find_outcome c = Some (n, p)" "(c, n, p) \<in> set outcome_table"
  using outcome_listed[of c] om_find_dom[of outcome_table c] om_find_in_set[of outcome_table c]
  by (auto simp: find_outcome_def)

lemma parse_outcome_to_string: "parse_outcome (outcome_to_string c) = Some c"
  by (rule outcome_entry[of c]) (simp add: outcome_to_string_def parse_outcome_def parse_table_mem outcome_names_distinct)

lemma parse_suppression_to_string: "parse_suppression_reason (suppression_to_string r) = Some r"
  using suppression_listed[of r] om_find_dom[of suppression_table r] om_find_in_set[of suppression_table r]
  by (auto simp: suppression_to_string_def parse_suppression_reason_def parse_pairs_mem suppression_names_distinct)

lemma outcome_ranks:
  "\<forall>e \<in> set outcome_table. (snd (snd e) = 0 \<longleftrightarrow> outcome_is_success (fst e)) \<and> (snd (snd e) \<le> 18 \<or> fst e = Out_INTERNAL_ERROR)"
  by (simp add: outcome_table_def outcome_is_success_def)

text \<open>
  The outcome table is total and injective: every outcome prints to a name that parses back to
  it and to nothing else, its precedence is one of the documented ranks, and rank 0 is exactly the
  successes, so a rejection never outranks a success.
\<close>

theorem outcome_table_complete:
  "parse_outcome (outcome_to_string c) = Some c
   \<and> valid_outcome (outcome_raw c)
   \<and> (outcome_precedence c = 0 \<longleftrightarrow> outcome_is_success c)
   \<and> (outcome_precedence c \<le> 18 \<or> c = Out_INTERNAL_ERROR)"
proof -
  obtain n p where e: "find_outcome c = Some (n, p)" "(c, n, p) \<in> set outcome_table" by (rule outcome_entry)
  then have "outcome_precedence c = p" by (simp add: outcome_precedence_def)
  with e(2) outcome_ranks parse_outcome_to_string[of c] show ?thesis
    by (force simp: valid_outcome_def)
qed

text \<open>
  A suppression is never reported as an applied change: the outcome of every suppression
  reason is a rejection, and the lifecycle reasons keep their own outcome.
\<close>

theorem suppression_is_rejection:
  "outcome_is_rejection (suppression_outcome r)
   \<and> parse_suppression_reason (suppression_to_string r) = Some r
   \<and> valid_suppression_reason (suppression_raw r)
   \<and> (suppression_outcome r = Out_REVOKED \<longleftrightarrow> r = Sup_POLICY_REVOKED)
   \<and> (suppression_outcome r = Out_RETIRED \<longleftrightarrow> r = Sup_POLICY_RETIRED)
   \<and> (suppression_outcome r = Out_HOLD_DOWN_ACTIVE \<longleftrightarrow> r \<in> {Sup_HOLD_DOWN_ACTIVE, Sup_DAMPENING_EXTENDED_HOLD_DOWN})"
  by (cases r) (simp_all add: outcome_is_rejection_def outcome_is_success_def suppression_outcome_def
    parse_suppression_to_string valid_suppression_reason_def suppression_raw_def)

end
