(* ===== verification/Metrics.thy ===== *)
theory Metrics
  imports Ids
begin

text \<open>
  Fixed-point metrics (\<^verbatim>\<open>include/adaptive_routing/metrics.hpp\<close>, \<^verbatim>\<open>src/metrics.cpp\<close>): the metric
  table, validated metric values, checked \<^verbatim>\<open>int64_t\<close> arithmetic, relative improvement,
  normalisation, aggregation and the weighted score.  An \<^verbatim>\<open>int64_t\<close> is an \<open>int\<close>; where the code
  can leave the range, the wrap-around of the machine is written out (\<open>wrap64\<close>), and division is
  the truncating division of C++ (\<open>cdiv\<close>).
\<close>

section \<open>Checked arithmetic\<close>

definition i64_min :: int where "i64_min = - (2 ^ 63)"
definition i64_max :: int where "i64_max = 2 ^ 63 - 1"

definition i64 :: "int \<Rightarrow> bool" where
  "i64 x \<longleftrightarrow> i64_min \<le> x \<and> x \<le> i64_max"

definition wrap64 :: "int \<Rightarrow> int" where
  "wrap64 x = (x + 2 ^ 63) mod 2 ^ 64 - 2 ^ 63"

definition cdiv :: "int \<Rightarrow> int \<Rightarrow> int" where
  "cdiv a b = sgn a * sgn b * (\<bar>a\<bar> div \<bar>b\<bar>)"

definition add_overflows :: "int \<Rightarrow> int \<Rightarrow> bool" where
  "add_overflows a b = (if b > 0 then a > i64_max - b else a < i64_min - b)"

definition multiply_overflows :: "int \<Rightarrow> int \<Rightarrow> bool" where
  "multiply_overflows a b =
    (if a = 0 \<or> b = 0 then False
     else if a = -1 then b = i64_min
     else if b = -1 then a = i64_min
     else cdiv (wrap64 (a * b)) b \<noteq> a)"

definition add_ok :: "int \<Rightarrow> int \<Rightarrow> int option" where
  "add_ok a b = (if add_overflows a b then None else Some (wrap64 (a + b)))"

definition multiply_ok :: "int \<Rightarrow> int \<Rightarrow> int option" where
  "multiply_ok a b = (if multiply_overflows a b then None else Some (wrap64 (a * b)))"

lemma wrap64_id [simp]: "i64 x \<Longrightarrow> wrap64 x = x"
  by (simp add: i64_def wrap64_def i64_min_def i64_max_def)

lemma wrap64_range: "i64 (wrap64 x)"
proof -
  have "0 \<le> (x + 2 ^ 63) mod 2 ^ 64" "(x + 2 ^ 63) mod 2 ^ 64 < 2 ^ 64"
    by (rule pos_mod_sign pos_mod_bound, simp)+
  then show ?thesis by (simp add: i64_def wrap64_def i64_min_def i64_max_def)
qed

lemma wrap64_cong: "\<exists>k. wrap64 x = x + k * 2 ^ 64"
proof -
  have "wrap64 x = x + (- ((x + 2 ^ 63) div 2 ^ 64)) * 2 ^ 64"
    unfolding wrap64_def by (simp add: minus_mult_div_eq_mod[symmetric] algebra_simps)
  then show ?thesis by blast
qed

lemma cdiv_nonneg: "0 \<le> a \<Longrightarrow> 0 < b \<Longrightarrow> cdiv a b = a div b"
  by (cases "a = 0") (simp_all add: cdiv_def)

lemma cdiv_neg: "a < 0 \<Longrightarrow> 0 < b \<Longrightarrow> cdiv a b = - ((- a) div b)"
  by (simp add: cdiv_def)

lemma cdiv_decomp:
  assumes "b \<noteq> 0"
  shows "\<exists>r. a = cdiv a b * b + r \<and> \<bar>r\<bar> < \<bar>b\<bar>"
proof -
  have m: "\<bar>a\<bar> = (\<bar>a\<bar> div \<bar>b\<bar>) * \<bar>b\<bar> + \<bar>a\<bar> mod \<bar>b\<bar>" by simp
  have "a = sgn a * \<bar>a\<bar>" by (simp add: sgn_mult_abs)
  also have "\<dots> = sgn a * ((\<bar>a\<bar> div \<bar>b\<bar>) * (sgn b * b)) + sgn a * (\<bar>a\<bar> mod \<bar>b\<bar>)"
    by (subst m) (simp add: algebra_simps abs_sgn)
  finally have 1: "a = cdiv a b * b + sgn a * (\<bar>a\<bar> mod \<bar>b\<bar>)"
    by (simp add: cdiv_def algebra_simps)
  have "0 \<le> \<bar>a\<bar> mod \<bar>b\<bar>" "\<bar>a\<bar> mod \<bar>b\<bar> < \<bar>b\<bar>"
    using assms by simp_all
  then have "\<bar>sgn a * (\<bar>a\<bar> mod \<bar>b\<bar>)\<bar> < \<bar>b\<bar>"
    using assms by (simp add: abs_mult sgn_if)
  with 1 show ?thesis by blast
qed

lemma cdiv_exact: "b \<noteq> 0 \<Longrightarrow> cdiv (a * b) b = a"
  by (simp add: cdiv_def abs_mult sgn_mult sgn_mult_abs mult.assoc)

lemma add_overflows_iff: "i64 a \<Longrightarrow> i64 b \<Longrightarrow> add_overflows a b \<longleftrightarrow> \<not> i64 (a + b)"
  by (auto simp: add_overflows_def i64_def i64_min_def i64_max_def)

lemma multiply_overflows_iff:
  assumes "i64 a" "i64 b"
  shows "multiply_overflows a b \<longleftrightarrow> \<not> i64 (a * b)"
proof (cases "a = 0 \<or> b = 0 \<or> a = -1 \<or> b = -1")
  case True
  with assms show ?thesis
    by (auto simp: multiply_overflows_def i64_def i64_min_def i64_max_def)
next
  case False
  then have b: "b \<noteq> 0" by simp
  have "cdiv (wrap64 (a * b)) b = a \<longleftrightarrow> i64 (a * b)"
  proof
    assume "i64 (a * b)"
    with b show "cdiv (wrap64 (a * b)) b = a" by (simp add: cdiv_exact)
  next
    assume eq: "cdiv (wrap64 (a * b)) b = a"
    obtain r where r: "wrap64 (a * b) = a * b + r" "\<bar>r\<bar> < \<bar>b\<bar>"
      using cdiv_decomp[OF b, of "wrap64 (a * b)"] eq by auto
    obtain k where "wrap64 (a * b) = a * b + k * 2 ^ 64" using wrap64_cong by blast
    with r(1) have rk: "r = k * 2 ^ 64" by simp
    have "\<bar>b\<bar> \<le> 2 ^ 63" using assms(2) by (auto simp: i64_def i64_min_def i64_max_def)
    with r(2) have "\<bar>k\<bar> * 2 ^ 64 < 2 ^ 63" unfolding rk by (simp add: abs_mult)
    then have "k = 0" by (cases "k = 0") auto
    with rk r(1) wrap64_range[of "a * b"] show "i64 (a * b)" by simp
  qed
  with False show ?thesis by (simp add: multiply_overflows_def)
qed

lemma add_ok_eq: "i64 a \<Longrightarrow> i64 b \<Longrightarrow> add_ok a b = (if i64 (a + b) then Some (a + b) else None)"
  by (simp add: add_ok_def add_overflows_iff)

lemma multiply_ok_eq:
  "i64 a \<Longrightarrow> i64 b \<Longrightarrow> multiply_ok a b = (if i64 (a * b) then Some (a * b) else None)"
  by (simp add: multiply_ok_def multiply_overflows_iff)

section \<open>The metric table\<close>

datatype metric_kind =
    PATH_UTILIZATION | LINK_UTILIZATION | PATH_LATENCY | QUEUE_PRESSURE | PACKET_LOSS
  | ERROR_RATE | HEALTH_DEGRADATION | CONGESTION_SCORE | PATH_QUALITY | OPERATOR_POLICY_SIGNAL

datatype metric_unit = BASIS_POINTS | MICROSECONDS | PPM | COUNT | FLAG
datatype metric_orientation = LOWER_IS_BETTER | HIGHER_IS_BETTER
datatype metric_provenance = MEASURED | COMPUTED | OPERATOR_DECLARED

record metric_descriptor =
  md_kind :: metric_kind
  md_unit :: metric_unit
  md_orientation :: metric_orientation
  md_provenance :: metric_provenance
  md_semantics_version :: u32
  md_minimum :: int
  md_maximum :: int
  md_name :: string

definition basis_points_scale :: u32 where "basis_points_scale = 10000"
definition scale :: int where "scale = 10000"
definition latency_max :: int where "latency_max = 4000000000"

definition mk_descriptor ::
    "metric_kind \<Rightarrow> metric_unit \<Rightarrow> metric_orientation \<Rightarrow> metric_provenance \<Rightarrow> int \<Rightarrow> string \<Rightarrow> metric_descriptor" where
  "mk_descriptor k u orientation p maximum name =
    \<lparr>md_kind = k, md_unit = u, md_orientation = orientation, md_provenance = p, md_semantics_version = 1,
     md_minimum = 0, md_maximum = maximum, md_name = name\<rparr>"

definition metric_table :: "(metric_kind \<times> metric_descriptor) list" where
  "metric_table =
    [(PATH_UTILIZATION, mk_descriptor PATH_UTILIZATION BASIS_POINTS LOWER_IS_BETTER MEASURED scale ''PATH_UTILIZATION''),
     (LINK_UTILIZATION, mk_descriptor LINK_UTILIZATION BASIS_POINTS LOWER_IS_BETTER MEASURED scale ''LINK_UTILIZATION''),
     (PATH_LATENCY, mk_descriptor PATH_LATENCY MICROSECONDS LOWER_IS_BETTER MEASURED latency_max ''PATH_LATENCY''),
     (QUEUE_PRESSURE, mk_descriptor QUEUE_PRESSURE BASIS_POINTS LOWER_IS_BETTER MEASURED scale ''QUEUE_PRESSURE''),
     (PACKET_LOSS, mk_descriptor PACKET_LOSS PPM LOWER_IS_BETTER MEASURED 1000000 ''PACKET_LOSS''),
     (ERROR_RATE, mk_descriptor ERROR_RATE PPM LOWER_IS_BETTER MEASURED 1000000 ''ERROR_RATE''),
     (HEALTH_DEGRADATION, mk_descriptor HEALTH_DEGRADATION BASIS_POINTS LOWER_IS_BETTER COMPUTED scale ''HEALTH_DEGRADATION''),
     (CONGESTION_SCORE, mk_descriptor CONGESTION_SCORE BASIS_POINTS LOWER_IS_BETTER COMPUTED scale ''CONGESTION_SCORE''),
     (PATH_QUALITY, mk_descriptor PATH_QUALITY BASIS_POINTS HIGHER_IS_BETTER COMPUTED scale ''PATH_QUALITY''),
     (OPERATOR_POLICY_SIGNAL, mk_descriptor OPERATOR_POLICY_SIGNAL FLAG HIGHER_IS_BETTER OPERATOR_DECLARED 1 ''OPERATOR_POLICY_SIGNAL'')]"

text \<open>The enumerators are numbered from 1; \<open>metric_kind_raw\<close> is the underlying \<^verbatim>\<open>uint8_t\<close>.\<close>

definition metric_kind_raw :: "metric_kind \<Rightarrow> u8" where
  "metric_kind_raw k = (case k of PATH_UTILIZATION \<Rightarrow> 1 | LINK_UTILIZATION \<Rightarrow> 2 | PATH_LATENCY \<Rightarrow> 3
     | QUEUE_PRESSURE \<Rightarrow> 4 | PACKET_LOSS \<Rightarrow> 5 | ERROR_RATE \<Rightarrow> 6 | HEALTH_DEGRADATION \<Rightarrow> 7
     | CONGESTION_SCORE \<Rightarrow> 8 | PATH_QUALITY \<Rightarrow> 9 | OPERATOR_POLICY_SIGNAL \<Rightarrow> 10)"

definition metric_unit_raw :: "metric_unit \<Rightarrow> u8" where
  "metric_unit_raw u = (case u of BASIS_POINTS \<Rightarrow> 1 | MICROSECONDS \<Rightarrow> 2 | PPM \<Rightarrow> 3 | COUNT \<Rightarrow> 4 | FLAG \<Rightarrow> 5)"

lemma metric_kind_raw_inject: "metric_kind_raw a = metric_kind_raw b \<longleftrightarrow> a = b"
  by (cases a; cases b) (simp_all add: metric_kind_raw_def)

text \<open>The enumerators compare by their underlying value (\<^verbatim>\<open>static_cast<std::uint8_t>\<close>).\<close>

instantiation metric_kind :: linorder
begin

definition less_metric_kind :: "metric_kind \<Rightarrow> metric_kind \<Rightarrow> bool" where
  "less_metric_kind a b = (metric_kind_raw a < metric_kind_raw b)"

definition less_eq_metric_kind :: "metric_kind \<Rightarrow> metric_kind \<Rightarrow> bool" where
  "less_eq_metric_kind a b = (metric_kind_raw a \<le> metric_kind_raw b)"

instance
proof
  fix a b c :: metric_kind
  show "(a < b) = (a \<le> b \<and> \<not> b \<le> a)" by (auto simp: less_metric_kind_def less_eq_metric_kind_def)
  show "a \<le> a" by (simp add: less_eq_metric_kind_def)
  show "a \<le> b \<Longrightarrow> b \<le> c \<Longrightarrow> a \<le> c"
    unfolding less_eq_metric_kind_def by (rule order_trans)
  show "a \<le> b \<Longrightarrow> b \<le> a \<Longrightarrow> a = b"
    unfolding less_eq_metric_kind_def metric_kind_raw_inject[symmetric] by (rule order.antisym)
  show "a \<le> b \<or> b \<le> a" by (auto simp: less_eq_metric_kind_def)
qed

end

definition find_entry :: "metric_kind \<Rightarrow> metric_descriptor option" where
  "find_entry k = om_find metric_table k"

definition default_descriptor :: metric_descriptor where
  "default_descriptor = mk_descriptor PATH_UTILIZATION BASIS_POINTS LOWER_IS_BETTER MEASURED scale []"

definition describe_metric :: "metric_kind \<Rightarrow> metric_descriptor" where
  "describe_metric k = (case find_entry k of None \<Rightarrow> default_descriptor | Some d \<Rightarrow> d)"

definition metric_kind_to_string :: "metric_kind \<Rightarrow> string" where
  "metric_kind_to_string k = (case find_entry k of None \<Rightarrow> ''UNKNOWN'' | Some d \<Rightarrow> md_name d)"

fun parse_metric_kind_in :: "(metric_kind \<times> metric_descriptor) list \<Rightarrow> string \<Rightarrow> metric_kind option" where
  "parse_metric_kind_in [] text = None"
| "parse_metric_kind_in ((k, d) # t) text = (if md_name d = text then Some k else parse_metric_kind_in t text)"

definition parse_metric_kind :: "string \<Rightarrow> metric_kind option" where
  "parse_metric_kind text = parse_metric_kind_in metric_table text"

definition valid_metric_kind :: "u8 \<Rightarrow> bool" where
  "valid_metric_kind raw = (\<exists>e \<in> set metric_table. metric_kind_raw (fst e) = raw)"

definition metric_unit_to_string :: "metric_unit \<Rightarrow> string" where
  "metric_unit_to_string u = (case u of BASIS_POINTS \<Rightarrow> ''BASIS_POINTS'' | MICROSECONDS \<Rightarrow> ''MICROSECONDS''
     | PPM \<Rightarrow> ''PPM'' | COUNT \<Rightarrow> ''COUNT'' | FLAG \<Rightarrow> ''FLAG'')"

fun parse_by :: "('a \<Rightarrow> string) \<Rightarrow> 'a list \<Rightarrow> string \<Rightarrow> 'a option" where
  "parse_by name [] text = None"
| "parse_by name (x # xs) text = (if name x = text then Some x else parse_by name xs text)"

definition parse_metric_unit :: "string \<Rightarrow> metric_unit option" where
  "parse_metric_unit = parse_by metric_unit_to_string [BASIS_POINTS, MICROSECONDS, PPM, COUNT, FLAG]"

definition valid_metric_unit :: "u8 \<Rightarrow> bool" where
  "valid_metric_unit raw = (1 \<le> raw \<and> raw \<le> 5)"

definition orientation_to_string :: "metric_orientation \<Rightarrow> string" where
  "orientation_to_string o1 = (case o1 of LOWER_IS_BETTER \<Rightarrow> ''LOWER_IS_BETTER'' | HIGHER_IS_BETTER \<Rightarrow> ''HIGHER_IS_BETTER'')"

definition provenance_to_string :: "metric_provenance \<Rightarrow> string" where
  "provenance_to_string p = (case p of MEASURED \<Rightarrow> ''MEASURED'' | COMPUTED \<Rightarrow> ''COMPUTED''
     | OPERATOR_DECLARED \<Rightarrow> ''OPERATOR_DECLARED'')"

lemma parse_by_name:
  "x \<in> set xs \<Longrightarrow> inj_on name (set xs) \<Longrightarrow> parse_by name xs (name x) = Some x"
  by (induction xs) (auto simp: inj_on_def)

lemma parse_by_sound: "parse_by name xs t = Some x \<Longrightarrow> name x = t \<and> x \<in> set xs"
  by (induction xs) (auto split: if_splits)

section \<open>Metric values\<close>

record metric_value =
  mv_kind :: metric_kind
  mv_unit :: metric_unit
  mv_semantics_version :: u32
  mv_value :: int
  mv_valid :: bool

definition default_metric_value :: metric_value where
  "default_metric_value = \<lparr>mv_kind = PATH_UTILIZATION, mv_unit = BASIS_POINTS, mv_semantics_version = 0,
     mv_value = 0, mv_valid = False\<rparr>"

definition mv_decode :: "metric_kind \<Rightarrow> metric_unit \<Rightarrow> u32 \<Rightarrow> int \<Rightarrow> metric_value option" where
  "mv_decode k u version v =
    (case find_entry k of
       None \<Rightarrow> None
     | Some d \<Rightarrow>
         if md_unit d \<noteq> u \<or> md_semantics_version d \<noteq> version then None
         else if v < md_minimum d \<or> v > md_maximum d then None
         else Some \<lparr>mv_kind = k, mv_unit = u, mv_semantics_version = version, mv_value = v, mv_valid = True\<rparr>)"

definition mv_make :: "metric_kind \<Rightarrow> int \<Rightarrow> metric_value option" where
  "mv_make k v =
    (case find_entry k of
       None \<Rightarrow> None
     | Some d \<Rightarrow> mv_decode k (md_unit d) (md_semantics_version d) v)"

definition mv_comparable :: "metric_value \<Rightarrow> metric_value \<Rightarrow> bool" where
  "mv_comparable a b = (mv_valid a \<and> mv_valid b \<and> mv_kind a = mv_kind b \<and> mv_unit a = mv_unit b
     \<and> mv_semantics_version a = mv_semantics_version b)"

definition mv_render :: "metric_value \<Rightarrow> string" where
  "mv_render v = (if \<not> mv_valid v then ''invalid''
     else take 159 (md_name (describe_metric (mv_kind v)) @ ''='' @ dec_int (mv_value v)
       @ metric_unit_to_string (mv_unit v) @ ''(v'' @ dec (unat (mv_semantics_version v)) @ '')''))"

text \<open>What holds of every value the code can construct: \<open>mv_decode\<close> is the only constructor.\<close>

definition mv_ok :: "metric_value \<Rightarrow> bool" where
  "mv_ok v \<longleftrightarrow> v = default_metric_value \<or> mv_decode (mv_kind v) (mv_unit v) (mv_semantics_version v) (mv_value v) = Some v"

lemma descriptor_minimum [simp]: "md_minimum (describe_metric k) = 0"
  by (cases k) (simp_all add: describe_metric_def find_entry_def metric_table_def mk_descriptor_def)

lemma descriptor_maximum: "1 \<le> md_maximum (describe_metric k) \<and> md_maximum (describe_metric k) \<le> 4000000000"
  by (cases k) (simp_all add: describe_metric_def find_entry_def metric_table_def mk_descriptor_def scale_def latency_max_def)

lemma descriptor_kind [simp]: "md_kind (describe_metric k) = k"
  by (cases k) (simp_all add: describe_metric_def find_entry_def metric_table_def mk_descriptor_def)

lemma find_entry_some [simp]: "find_entry k = Some (describe_metric k)"
  by (cases k) (simp_all add: describe_metric_def find_entry_def metric_table_def)

lemma mv_ok_valid:
  assumes "mv_ok v" "mv_valid v"
  shows "mv_unit v = md_unit (describe_metric (mv_kind v))"
    and "mv_semantics_version v = md_semantics_version (describe_metric (mv_kind v))"
    and "0 \<le> mv_value v" and "mv_value v \<le> md_maximum (describe_metric (mv_kind v))"
  using assms by (auto simp: mv_ok_def mv_decode_def default_metric_value_def split: if_splits)

lemma mv_decode_ok: "mv_decode k u s v = Some m \<Longrightarrow> mv_ok m \<and> mv_valid m \<and> mv_kind m = k \<and> mv_value m = v"
  by (auto simp: mv_ok_def mv_decode_def split: if_splits)

section \<open>Relative improvement and normalisation\<close>

definition clamp_bps :: "int \<Rightarrow> u32" where
  "clamp_bps r = (if r \<le> 0 then 0 else if r \<ge> scale then basis_points_scale else word_of_int r)"

definition relative_improvement_bps :: "metric_value \<Rightarrow> metric_value \<Rightarrow> u32 option" where
  "relative_improvement_bps current candidate =
    (if \<not> mv_comparable current candidate then None
     else
       let lower = (md_orientation (describe_metric (mv_kind current)) = LOWER_IS_BETTER);
           better = (if lower then mv_value candidate < mv_value current else mv_value candidate > mv_value current)
       in if \<not> better then Some 0
          else case add_ok (mv_value candidate) (- mv_value current) of
            None \<Rightarrow> None
          | Some delta0 \<Rightarrow>
              let delta = (if delta0 < 0 then - delta0 else delta0);
                  base = (if mv_value current < 0 then - mv_value current else mv_value current)
              in if base = 0 then Some basis_points_scale
                 else case multiply_ok delta scale of
                   None \<Rightarrow> None
                 | Some scaled \<Rightarrow> Some (clamp_bps (cdiv scaled base)))"

definition normalize_to_basis_points :: "metric_value \<Rightarrow> u32 option" where
  "normalize_to_basis_points v =
    (if \<not> mv_valid v then None
     else
       let d = describe_metric (mv_kind v); span = md_maximum d - md_minimum d
       in if span \<le> 0 then None
          else
            let goodness = (if md_orientation d = LOWER_IS_BETTER then md_maximum d - mv_value v
                            else mv_value v - md_minimum d)
            in if goodness \<le> 0 then Some 0
               else case multiply_ok goodness scale of
                 None \<Rightarrow> None
               | Some scaled \<Rightarrow> Some (clamp_bps (cdiv scaled span)))"

lemma uint_clamp_bps: "uint (clamp_bps r) = max 0 (min r 10000)"
  by (auto simp: clamp_bps_def scale_def basis_points_scale_def uint_word_of_int take_bit_eq_mod)

lemma clamp_bps_le: "clamp_bps r \<le> 10000"
  by (simp add: word_le_def uint_clamp_bps)

section \<open>Aggregation\<close>

datatype aggregation_kind = MINIMUM | MAXIMUM | MEAN | MEDIAN | PERCENTILE_95 | EWMA

definition aggregation_kind_to_string :: "aggregation_kind \<Rightarrow> string" where
  "aggregation_kind_to_string k = (case k of MINIMUM \<Rightarrow> ''MINIMUM'' | MAXIMUM \<Rightarrow> ''MAXIMUM'' | MEAN \<Rightarrow> ''MEAN''
     | MEDIAN \<Rightarrow> ''MEDIAN'' | PERCENTILE_95 \<Rightarrow> ''PERCENTILE_95'' | EWMA \<Rightarrow> ''EWMA'')"

definition aggregation_kind_raw :: "aggregation_kind \<Rightarrow> u8" where
  "aggregation_kind_raw k = (case k of MINIMUM \<Rightarrow> 1 | MAXIMUM \<Rightarrow> 2 | MEAN \<Rightarrow> 3 | MEDIAN \<Rightarrow> 4
     | PERCENTILE_95 \<Rightarrow> 5 | EWMA \<Rightarrow> 6)"

definition parse_aggregation_kind :: "string \<Rightarrow> aggregation_kind option" where
  "parse_aggregation_kind =
     parse_by aggregation_kind_to_string [MINIMUM, MAXIMUM, MEAN, MEDIAN, PERCENTILE_95, EWMA]"

definition valid_aggregation_kind :: "u8 \<Rightarrow> bool" where
  "valid_aggregation_kind raw = (1 \<le> raw \<and> raw \<le> 6)"

text \<open>
  The order statistic; a sample vector is far too short for \<^verbatim>\<open>percent * count\<close> to leave
  \<^verbatim>\<open>uint64_t\<close>, so the index is computed in \<open>nat\<close>.
\<close>

definition nearest_rank_index :: "nat \<Rightarrow> nat \<Rightarrow> nat" where
  "nearest_rank_index percent n =
    (let rank = (percent * n + 99) div 100;
         index = (if rank = 0 then 0 else rank - 1)
     in if index \<ge> n then n - 1 else index)"

definition nearest_rank :: "int list \<Rightarrow> nat \<Rightarrow> int" where
  "nearest_rank samples percent = sort samples ! nearest_rank_index percent (length samples)"

fun mean_sum :: "int \<Rightarrow> int list \<Rightarrow> int option" where
  "mean_sum acc [] = Some acc"
| "mean_sum acc (x # xs) = (case add_ok acc x of None \<Rightarrow> None | Some s \<Rightarrow> mean_sum s xs)"

definition ewma_step :: "int \<Rightarrow> int \<Rightarrow> int \<Rightarrow> int option" where
  "ewma_step alpha ewma sample =
    (case multiply_ok alpha sample of None \<Rightarrow> None
     | Some weighted_sample \<Rightarrow>
         (case multiply_ok (scale - alpha) ewma of None \<Rightarrow> None
          | Some weighted_previous \<Rightarrow>
              (case add_ok weighted_sample weighted_previous of None \<Rightarrow> None
               | Some tot \<Rightarrow> Some (cdiv tot scale))))"

fun ewma_loop :: "int \<Rightarrow> int \<Rightarrow> int list \<Rightarrow> int option" where
  "ewma_loop alpha ewma [] = Some ewma"
| "ewma_loop alpha ewma (x # xs) =
    (case ewma_step alpha ewma x of None \<Rightarrow> None | Some e \<Rightarrow> ewma_loop alpha e xs)"

definition aggregate_samples :: "aggregation_kind \<Rightarrow> int list \<Rightarrow> u32 \<Rightarrow> int option" where
  "aggregate_samples aggregation samples ewma_alpha_bps =
    (if samples = [] then None
     else case aggregation of
       MINIMUM \<Rightarrow> Some (fold min (tl samples) (hd samples))
     | MAXIMUM \<Rightarrow> Some (fold max (tl samples) (hd samples))
     | MEAN \<Rightarrow> (case mean_sum 0 samples of None \<Rightarrow> None | Some tot \<Rightarrow> Some (cdiv tot (int (length samples))))
     | MEDIAN \<Rightarrow> Some (nearest_rank samples 50)
     | PERCENTILE_95 \<Rightarrow> Some (nearest_rank samples 95)
     | EWMA \<Rightarrow>
         (if ewma_alpha_bps > basis_points_scale then None
          else ewma_loop (uint ewma_alpha_bps) (hd samples) (tl samples)))"

section \<open>The weighted score\<close>

record score_term =
  st_kind :: metric_kind
  st_weight_bps :: u32

fun score_numerator :: "int \<Rightarrow> score_term list \<Rightarrow> metric_value list \<Rightarrow> int option" where
  "score_numerator numerator (t # ts) (v # vs) =
    (if mv_kind v \<noteq> st_kind t then None
     else case normalize_to_basis_points v of None \<Rightarrow> None
     | Some normalized \<Rightarrow>
         (case multiply_ok (uint (st_weight_bps t)) (uint normalized) of None \<Rightarrow> None
          | Some weighted \<Rightarrow>
              (case add_ok numerator weighted of None \<Rightarrow> None
               | Some n \<Rightarrow> score_numerator n ts vs)))"
| "score_numerator numerator _ _ = Some numerator"

definition weighted_score :: "score_term list \<Rightarrow> metric_value list \<Rightarrow> u64 option" where
  "weighted_score terms values =
    (if terms = [] \<or> length terms \<noteq> length values then None
     else case score_numerator 0 terms values of None \<Rightarrow> None
     | Some numerator \<Rightarrow>
         (if numerator < 0 then None
          else let rounded = cdiv (wrap64 (numerator + cdiv scale 2)) scale
               in if rounded < 0 then None else Some (word_of_int rounded)))"

definition weighted_score_formula_version :: u32 where "weighted_score_formula_version = 1"

section \<open>What the arithmetic computes\<close>

definition lower_is_better :: "metric_value \<Rightarrow> bool" where
  "lower_is_better v \<longleftrightarrow> md_orientation (describe_metric (mv_kind v)) = LOWER_IS_BETTER"

text \<open>The distance of a value from the worst end of its range.\<close>

definition goodness_of :: "metric_value \<Rightarrow> int" where
  "goodness_of v = (if lower_is_better v then md_maximum (describe_metric (mv_kind v)) - mv_value v else mv_value v)"

lemma mv_small:
  assumes "mv_ok v" "mv_valid v"
  shows "0 \<le> mv_value v" "mv_value v \<le> 4000000000"
  using mv_ok_valid(3,4)[OF assms] descriptor_maximum[of "mv_kind v"] by linarith+

lemma i64_small: "\<bar>x\<bar> \<le> 10 ^ 18 \<Longrightarrow> i64 x"
  by (auto simp: i64_def i64_min_def i64_max_def)

lemma mul_scale: "\<bar>x\<bar> \<le> 4000000000 \<Longrightarrow> multiply_ok x scale = Some (x * 10000)"
proof -
  assume x: "\<bar>x\<bar> \<le> 4000000000"
  then have "\<bar>x * 10000\<bar> \<le> 10 ^ 18" by (simp add: abs_mult)
  with x show ?thesis by (simp add: multiply_ok_eq i64_small scale_def)
qed

lemma i64_nonneg: "0 \<le> x \<Longrightarrow> x \<le> 10 ^ 18 \<Longrightarrow> i64 x"
  by (rule i64_small) simp

text \<open>
  the relative improvement of two comparable values is defined, orientation aware, rounded
  down, 0 when the candidate is not strictly better, and a full 10000 basis points when the current
  value is 0 and the candidate is better.
\<close>

theorem relative_improvement_spec:
  assumes "mv_ok a" "mv_ok b" "mv_comparable a b"
  shows "\<exists>w. relative_improvement_bps a b = Some w \<and>
    uint w = (if lower_is_better a
              then (if mv_value b < mv_value a then (mv_value a - mv_value b) * 10000 div mv_value a else 0)
              else if mv_value b > mv_value a
              then (if mv_value a = 0 then 10000 else min 10000 ((mv_value b - mv_value a) * 10000 div mv_value a))
              else 0)"
proof -
  have va: "mv_valid a" and vb: "mv_valid b" using assms(3) by (auto simp: mv_comparable_def)
  note ra = mv_small[OF assms(1) va] and rb = mv_small[OF assms(2) vb]
  let ?d = "mv_value b - mv_value a"
  have add: "add_ok (mv_value b) (- mv_value a) = Some ?d"
    using ra rb by (simp add: add_ok_eq i64_small)
  have mul: "multiply_ok (mv_value a - mv_value b) scale = Some ((mv_value a - mv_value b) * 10000)"
      "multiply_ok (mv_value b - mv_value a) scale = Some ((mv_value b - mv_value a) * 10000)"
    by (rule mul_scale; use ra rb in linarith)+
  have ne: "\<not> mv_value a < 0" using ra by simp
  have step: "relative_improvement_bps a b =
    (if (if lower_is_better a then mv_value b < mv_value a else mv_value b > mv_value a)
     then if mv_value a = 0 then Some basis_points_scale else Some (clamp_bps (cdiv (\<bar>?d\<bar> * 10000) (mv_value a)))
     else Some 0)"
    using assms(3) ne unfolding relative_improvement_bps_def lower_is_better_def
    by (auto simp: add mul Let_def)
  have low: "(mv_value a - mv_value b) * 10000 div mv_value a \<le> 10000" if "mv_value b < mv_value a"
  proof -
    have "(mv_value a - mv_value b) * 10000 \<le> 10000 * mv_value a" using rb by simp
    then show ?thesis using that rb zdiv_mono1[of _ "10000 * mv_value a" "mv_value a"] by simp
  qed
  have pos: "cdiv (\<bar>?d\<bar> * 10000) (mv_value a) = \<bar>?d\<bar> * 10000 div mv_value a"
      "0 \<le> \<bar>?d\<bar> * 10000 div mv_value a" if "mv_value a \<noteq> 0"
    using ra that by (simp_all add: cdiv_nonneg pos_imp_zdiv_nonneg_iff)
  show ?thesis
    unfolding step using ra rb low pos
    by (auto simp: uint_clamp_bps basis_points_scale_def)
qed

theorem relative_improvement_witness:
  "\<exists>w. relative_improvement_bps \<lparr>mv_kind = PATH_LATENCY, mv_unit = MICROSECONDS, mv_semantics_version = 1, mv_value = 300, mv_valid = True\<rparr>
       \<lparr>mv_kind = PATH_LATENCY, mv_unit = MICROSECONDS, mv_semantics_version = 1, mv_value = 200, mv_valid = True\<rparr> = Some w
     \<and> uint w = 3333"
  using relative_improvement_spec[of "\<lparr>mv_kind = PATH_LATENCY, mv_unit = MICROSECONDS, mv_semantics_version = 1, mv_value = 300, mv_valid = True\<rparr>"
      "\<lparr>mv_kind = PATH_LATENCY, mv_unit = MICROSECONDS, mv_semantics_version = 1, mv_value = 200, mv_valid = True\<rparr>"]
  by (simp add: mv_ok_def mv_decode_def mv_comparable_def lower_is_better_def describe_metric_def find_entry_def
      metric_table_def mk_descriptor_def latency_max_def del: find_entry_some)

lemma normalize_value:
  assumes "mv_ok v" "mv_valid v"
  shows "\<exists>w. normalize_to_basis_points v = Some w \<and> w \<le> 10000 \<and>
    uint w = goodness_of v * 10000 div md_maximum (describe_metric (mv_kind v))"
proof -
  let ?d = "describe_metric (mv_kind v)" and ?g = "goodness_of v"
  note r = mv_small[OF assms] mv_ok_valid(3,4)[OF assms] descriptor_maximum[of "mv_kind v"]
  have g: "0 \<le> ?g" "?g \<le> md_maximum ?d" using r by (auto simp: goodness_of_def)
  have mul: "multiply_ok ?g scale = Some (?g * 10000)"
    using g r by (intro mul_scale) linarith
  have "?g * 10000 div md_maximum ?d \<le> md_maximum ?d * 10000 div md_maximum ?d"
    using g r by (intro zdiv_mono1) auto
  then have le: "?g * 10000 div md_maximum ?d \<le> 10000" using r by simp
  have q: "cdiv (?g * 10000) (md_maximum ?d) = ?g * 10000 div md_maximum ?d"
      "0 \<le> ?g * 10000 div md_maximum ?d"
    using g r by (simp_all add: cdiv_nonneg pos_imp_zdiv_nonneg_iff)
  have "normalize_to_basis_points v =
      (if ?g \<le> 0 then Some 0 else Some (clamp_bps (cdiv (?g * 10000) (md_maximum ?d))))"
    using assms(2) r mul
    by (auto simp: normalize_to_basis_points_def goodness_of_def lower_is_better_def Let_def)
  with le q g show ?thesis by (auto simp: uint_clamp_bps word_le_def)
qed

text \<open>
  Normalisation is total on the values the code can construct, and maps the distance of a value
  from the worst end of its range linearly onto 0..10000, rounding down.
\<close>

theorem normalize_spec:
  assumes "mv_ok v" "mv_valid v"
  shows "\<exists>w. normalize_to_basis_points v = Some w \<and> w \<le> 10000 \<and>
    uint w = goodness_of v * 10000 div md_maximum (describe_metric (mv_kind v))"
  by (rule normalize_value[OF assms])

theorem normalize_witness:
  "\<exists>w. normalize_to_basis_points \<lparr>mv_kind = PACKET_LOSS, mv_unit = PPM, mv_semantics_version = 1, mv_value = 250000, mv_valid = True\<rparr> = Some w
     \<and> w \<le> 10000 \<and> uint w = 7500"
  using normalize_spec[of "\<lparr>mv_kind = PACKET_LOSS, mv_unit = PPM, mv_semantics_version = 1, mv_value = 250000, mv_valid = True\<rparr>"]
  by (simp add: mv_ok_def mv_decode_def goodness_of_def lower_is_better_def describe_metric_def find_entry_def
      metric_table_def mk_descriptor_def del: find_entry_some)

section \<open>Aggregation: bounds and order statistics\<close>

lemma fold_min: "xs \<noteq> [] \<Longrightarrow> fold min (tl xs) (hd xs) = Min (set xs)" for xs :: "int list"
  by (metis Min.set_eq_fold list.collapse)

lemma fold_max: "xs \<noteq> [] \<Longrightarrow> fold max (tl xs) (hd xs) = Max (set xs)" for xs :: "int list"
  by (metis Max.set_eq_fold list.collapse)

lemma cdiv_between:
  assumes "0 < n" "lo * n \<le> a" "a \<le> hi * n"
  shows "lo \<le> cdiv a n" "cdiv a n \<le> hi"
proof -
  have l: "lo \<le> a div n" using assms zdiv_mono1[OF assms(2,1)] by simp
  have h: "a div n \<le> hi" using assms zdiv_mono1[OF assms(3,1)] by simp
  have "lo \<le> cdiv a n \<and> cdiv a n \<le> hi"
  proof (cases "0 \<le> a")
    case True
    with assms(1) l h show ?thesis by (simp add: cdiv_nonneg)
  next
    case False
    have "(- hi) * n \<le> - a" "- a \<le> (- lo) * n" using assms by simp_all
    then have "- hi \<le> (- a) div n" "(- a) div n \<le> - lo"
      using assms(1) zdiv_mono1[of "(- hi) * n" "- a" n] zdiv_mono1[of "- a" "(- lo) * n" n]
      by (simp_all del: mult_minus_left)
    with False assms(1) show ?thesis by (simp add: cdiv_neg)
  qed
  then show "lo \<le> cdiv a n" "cdiv a n \<le> hi" by simp_all
qed

lemma mean_sum_sum:
  "i64 acc \<Longrightarrow> \<forall>x \<in> set xs. i64 x \<Longrightarrow> mean_sum acc xs = Some s \<Longrightarrow> s = acc + sum_list xs"
proof (induction xs arbitrary: acc)
  case (Cons x xs)
  then have "i64 (acc + x)" "mean_sum (acc + x) xs = Some s"
    by (auto simp: add_ok_eq split: if_splits)
  with Cons.IH[of "acc + x"] Cons.prems show ?case by simp
qed simp

lemma sum_list_between:
  fixes lo hi :: int
  assumes "\<forall>x \<in> set xs. lo \<le> x \<and> x \<le> hi"
  shows "lo * int (length xs) \<le> sum_list xs" "sum_list xs \<le> hi * int (length xs)"
  using assms by (induction xs) (auto simp: algebra_simps)

lemma nearest_rank_index_less: "0 < n \<Longrightarrow> nearest_rank_index p n < n"
  by (auto simp: nearest_rank_index_def Let_def)

lemma nearest_rank_mem: "xs \<noteq> [] \<Longrightarrow> nearest_rank xs p \<in> set xs"
  using nearest_rank_index_less[of "length xs" p] nth_mem[of "nearest_rank_index p (length xs)" "sort xs"]
  by (simp add: nearest_rank_def)

lemma ewma_step_between:
  assumes "0 \<le> alpha" "alpha \<le> 10000" "i64 e" "i64 x" "lo \<le> e" "e \<le> hi" "lo \<le> x" "x \<le> hi"
    and "ewma_step alpha e x = Some r"
  shows "lo \<le> r \<and> r \<le> hi"
proof -
  have ia: "i64 alpha" "i64 (10000 - alpha)" using assms by (auto intro!: i64_small)
  from assms(9) have r: "r = cdiv (alpha * x + (10000 - alpha) * e) 10000"
    using ia assms(3,4) by (auto simp: ewma_step_def multiply_ok_eq add_ok_eq scale_def split: option.splits if_splits)
  have 1: "lo * alpha \<le> alpha * x" "alpha * x \<le> hi * alpha"
    using assms mult_left_mono[of lo x alpha] mult_left_mono[of x hi alpha] by (simp_all add: mult.commute)
  have 2: "lo * (10000 - alpha) \<le> (10000 - alpha) * e" "(10000 - alpha) * e \<le> hi * (10000 - alpha)"
    using assms mult_left_mono[of lo e "10000 - alpha"] mult_left_mono[of e hi "10000 - alpha"]
    by (simp_all add: mult.commute)
  have eq: "lo * 10000 = lo * alpha + lo * (10000 - alpha)" "hi * 10000 = hi * alpha + hi * (10000 - alpha)"
    by (simp_all add: algebra_simps)
  have "lo * 10000 \<le> alpha * x + (10000 - alpha) * e" "alpha * x + (10000 - alpha) * e \<le> hi * 10000"
    unfolding eq using 1 2 by linarith+
  then show ?thesis unfolding r by (intro conjI cdiv_between) auto
qed

lemma ewma_loop_between:
  assumes "0 \<le> alpha" "alpha \<le> 10000" "i64 lo" "i64 hi"
  shows "lo \<le> e \<Longrightarrow> e \<le> hi \<Longrightarrow> \<forall>x \<in> set xs. lo \<le> x \<and> x \<le> hi \<Longrightarrow> ewma_loop alpha e xs = Some r \<Longrightarrow>
    lo \<le> r \<and> r \<le> hi"
proof (induction xs arbitrary: e)
  case (Cons x xs)
  from Cons.prems(4) obtain e' where e': "ewma_step alpha e x = Some e'" "ewma_loop alpha e' xs = Some r"
    by (auto split: option.splits)
  have "i64 e" "i64 x" using Cons.prems assms(3,4) by (auto simp: i64_def)
  then have "lo \<le> e' \<and> e' \<le> hi" using Cons.prems assms(1,2) e'(1) ewma_step_between[of alpha e x lo hi e'] by simp
  with Cons.IH[of e'] Cons.prems e'(2) show ?case by simp
qed simp

text \<open>
  whatever the aggregation, an aggregate never leaves the range spanned by the samples: no
  rounding rule (the code divides towards zero), no order statistic and no smoothing step produces
  a value below the smallest or above the largest sample.
\<close>

theorem aggregate_within_samples:
  assumes "\<forall>x \<in> set xs. i64 x" and "aggregate_samples k xs alpha = Some v"
  shows "Min (set xs) \<le> v \<and> v \<le> Max (set xs)"
proof -
  from assms(2) have ne: "xs \<noteq> []" by (auto simp: aggregate_samples_def split: if_splits)
  let ?lo = "Min (set xs)" and ?hi = "Max (set xs)"
  have rng: "\<forall>x \<in> set xs. ?lo \<le> x \<and> x \<le> ?hi" by simp
  have mem: "?lo \<in> set xs" "?hi \<in> set xs" using ne by auto
  have i: "i64 ?lo" "i64 ?hi" using mem assms(1) by blast+
  show ?thesis
  proof (cases k)
    case MINIMUM
    with assms(2) ne mem(1) show ?thesis by (auto simp: aggregate_samples_def fold_min)
  next
    case MAXIMUM
    with assms(2) ne mem show ?thesis by (auto simp: aggregate_samples_def fold_max)
  next
    case MEAN
    with assms(2) ne obtain s where s: "mean_sum 0 xs = Some s" "v = cdiv s (int (length xs))"
      by (auto simp: aggregate_samples_def split: option.splits)
    have "s = sum_list xs" using mean_sum_sum[OF _ assms(1) s(1)] by (simp add: i64_small)
    with s(2) ne sum_list_between[OF rng] show ?thesis by (auto intro!: cdiv_between)
  next
    case MEDIAN
    with assms(2) ne nearest_rank_mem[OF ne] rng show ?thesis by (auto simp: aggregate_samples_def)
  next
    case PERCENTILE_95
    with assms(2) ne nearest_rank_mem[OF ne] rng show ?thesis by (auto simp: aggregate_samples_def)
  next
    case EWMA
    with assms(2) ne have a: "alpha \<le> 10000" and l: "ewma_loop (uint alpha) (hd xs) (tl xs) = Some v"
      by (auto simp: aggregate_samples_def basis_points_scale_def split: if_splits)
    have "0 \<le> uint alpha" "uint alpha \<le> 10000" using a by (simp_all add: word_le_def)
    moreover have "\<forall>x \<in> set (tl xs). ?lo \<le> x \<and> x \<le> ?hi" "?lo \<le> hd xs" "hd xs \<le> ?hi"
      using rng ne by (auto dest: list.set_sel(2))
    ultimately show ?thesis
      using ewma_loop_between[OF _ _ i _ _ _ l] by blast
  qed
qed

theorem aggregate_within_samples_witness:
  "Min (set [7, -3, 5]) \<le> (3::int) \<and> 3 \<le> Max (set [7, -3, 5 :: int])"
proof (rule aggregate_within_samples)
  show "\<forall>x \<in> set [7, -3, 5]. i64 x" by (simp add: i64_small)
  show "aggregate_samples EWMA [7, -3, 5] 5000 = Some 3"
    by (simp add: aggregate_samples_def basis_points_scale_def ewma_step_def multiply_ok_eq add_ok_eq i64_small scale_def cdiv_def)
qed

lemma sorted_nth_le_count:
  fixes ys :: "int list"
  assumes "sorted ys" "i < length ys"
  shows "i < length (filter (\<lambda>y. y \<le> ys ! i) ys)" "length (filter (\<lambda>y. y < ys ! i) ys) \<le> i"
proof -
  have split: "filter P ys = filter P (take (Suc i) ys) @ filter P (drop (Suc i) ys)"
      "filter P ys = filter P (take i ys) @ filter P (drop i ys)" for P
    by (metis append_take_drop_id filter_append)+
  have "\<forall>y \<in> set (take (Suc i) ys). y \<le> ys ! i"
    using assms by (auto simp: in_set_conv_nth sorted_nth_mono)
  then have "filter (\<lambda>y. y \<le> ys ! i) (take (Suc i) ys) = take (Suc i) ys" by simp
  with split(1)[of "\<lambda>y. y \<le> ys ! i"] assms(2)
  show "i < length (filter (\<lambda>y. y \<le> ys ! i) ys)" by (simp add: min_def)
  have "\<forall>y \<in> set (drop i ys). \<not> y < ys ! i"
    using assms by (auto simp: in_set_conv_nth sorted_nth_mono not_less)
  then have "filter (\<lambda>y. y < ys ! i) (drop i ys) = []" by simp
  with split(2)[of "\<lambda>y. y < ys ! i"]
  have "length (filter (\<lambda>y. y < ys ! i) ys) \<le> length (take i ys)"
    by (simp only: append_Nil2 length_filter_le)
  also have "\<dots> \<le> i" by simp
  finally show "length (filter (\<lambda>y. y < ys ! i) ys) \<le> i" .
qed

lemma length_filter_sort: "length (filter P (sort xs)) = length (filter P xs)"
  by (metis mset_filter mset_sort size_mset)

lemma nearest_rank_index_rank:
  "0 < n \<Longrightarrow> 0 < p \<Longrightarrow> p \<le> 100 \<Longrightarrow> Suc (nearest_rank_index p n) = (p * n + 99) div 100"
proof -
  assume a: "0 < n" "0 < p" "p \<le> 100"
  have "1 \<le> p * n" using a by (simp add: Suc_le_eq)
  then have "1 \<le> (p * n + 99) div 100" by linarith
  moreover have "p * n \<le> 100 * n" using a(3) by simp
  then have "(p * n + 99) div 100 \<le> n" by linarith
  ultimately show ?thesis by (auto simp: nearest_rank_index_def Let_def)
qed

lemma nearest_rank_permutation: "mset ys = mset xs \<Longrightarrow> nearest_rank ys p = nearest_rank xs p"
  using properties_for_sort[of "sort ys" xs] mset_eq_length[of ys xs] by (simp add: nearest_rank_def)

text \<open>
  The median and the 95th percentile are the nearest-rank order statistics.  With
  \<open>r = ceil(percent * n / 100)\<close>, at least \<open>r\<close> samples are not above the result, fewer than \<open>r\<close> are
  below it, and the result is one of the samples.
\<close>

theorem nearest_rank_spec:
  assumes "xs \<noteq> []" and "0 < p" and "p \<le> 100"
  shows "nearest_rank xs p \<in> set xs
    \<and> (p * length xs + 99) div 100 \<le> length (filter (\<lambda>x. x \<le> nearest_rank xs p) xs)
    \<and> length (filter (\<lambda>x. x < nearest_rank xs p) xs) < (p * length xs + 99) div 100"
proof -
  let ?i = "nearest_rank_index p (length xs)"
  have i: "?i < length (sort xs)" using assms(1) nearest_rank_index_less by simp
  have "Suc ?i = (p * length xs + 99) div 100" using assms by (intro nearest_rank_index_rank) auto
  moreover have "Suc ?i \<le> length (filter (\<lambda>x. x \<le> nearest_rank xs p) xs)"
      "length (filter (\<lambda>x. x < nearest_rank xs p) xs) \<le> ?i"
    using sorted_nth_le_count[OF sorted_sort i] by (simp_all add: nearest_rank_def length_filter_sort)
  ultimately show ?thesis using nearest_rank_mem[OF assms(1)] by simp
qed

theorem nearest_rank_witness:
  "length (filter (\<lambda>x. x < nearest_rank [40, 10, 30, 20] 50) [40, 10, 30, 20 :: int]) < 2"
  using nearest_rank_spec[of "[40, 10, 30, 20]" 50] by simp

section \<open>The weighted score of a valid objective\<close>

fun score_sum :: "score_term list \<Rightarrow> metric_value list \<Rightarrow> int" where
  "score_sum (t # ts) (v # vs) =
     uint (st_weight_bps t) * (goodness_of v * 10000 div md_maximum (describe_metric (mv_kind v))) + score_sum ts vs"
| "score_sum _ _ = 0"

definition weight_sum :: "score_term list \<Rightarrow> int" where
  "weight_sum ts = (\<Sum>t \<leftarrow> ts. uint (st_weight_bps t))"

definition scorable :: "score_term \<Rightarrow> metric_value \<Rightarrow> bool" where
  "scorable t v \<longleftrightarrow> mv_kind v = st_kind t \<and> mv_ok v \<and> mv_valid v"

lemma weight_sum_Cons [simp]: "weight_sum (t # ts) = uint (st_weight_bps t) + weight_sum ts"
  by (simp add: weight_sum_def)

lemma weight_sum_nonneg: "0 \<le> weight_sum ts"
  by (induction ts) (simp_all add: weight_sum_def)

lemma score_numerator_sum:
  "list_all2 scorable ts vs \<Longrightarrow> 0 \<le> acc \<Longrightarrow> acc + 10000 * weight_sum ts \<le> 10 ^ 18 \<Longrightarrow>
     score_numerator acc ts vs = Some (acc + score_sum ts vs) \<and> 0 \<le> score_sum ts vs
       \<and> score_sum ts vs \<le> 10000 * weight_sum ts"
proof (induction ts vs arbitrary: acc rule: list_all2_induct)
  case (Cons t ts v vs)
  obtain w where w: "normalize_to_basis_points v = Some w" "uint w \<le> 10000"
      "uint w = goodness_of v * 10000 div md_maximum (describe_metric (mv_kind v))"
    using normalize_value[of v] Cons.hyps(1) by (auto simp: scorable_def word_le_def)
  let ?p = "uint (st_weight_bps t) * uint w"
  have p: "0 \<le> ?p" "?p \<le> 10000 * uint (st_weight_bps t)"
    using w(2) mult_left_mono[of "uint w" 10000 "uint (st_weight_bps t)"] by simp_all
  have ws: "0 \<le> weight_sum ts" by (rule weight_sum_nonneg)
  have c: "acc + (10000 * uint (st_weight_bps t) + 10000 * weight_sum ts) \<le> 10 ^ 18"
    using Cons.prems(2) by (simp add: algebra_simps)
  have u: "0 \<le> uint (st_weight_bps t)" by simp
  have small: "i64 (uint (st_weight_bps t))" "i64 ?p" "i64 (acc + ?p)" "i64 acc"
    by (rule i64_nonneg; use c p ws u Cons.prems(1) in linarith)+
  have "i64 (uint w)" by (rule i64_nonneg; use w(2) in simp)
  note small = small this
  have "score_numerator acc (t # ts) (v # vs) = score_numerator (acc + ?p) ts vs"
    using w(1) Cons.hyps(1) small by (simp add: scorable_def multiply_ok_eq add_ok_eq)
  moreover have "score_numerator (acc + ?p) ts vs = Some (acc + ?p + score_sum ts vs) \<and> 0 \<le> score_sum ts vs
      \<and> score_sum ts vs \<le> 10000 * weight_sum ts"
    by (rule Cons.IH) (use p Cons.prems in simp_all)
  ultimately show ?case using p w(3) by simp
qed (simp add: weight_sum_def)

text \<open>
  Weights that sum to 10000 basis points over present, comparable values: the score is defined,
  never exceeds 10000, and is the weighted sum of the normalised values rounded half up.
\<close>

lemma weighted_score_spec:
  assumes "list_all2 scorable ts vs" and "ts \<noteq> []" and "weight_sum ts = 10000"
  shows "\<exists>w. weighted_score ts vs = Some w \<and> w \<le> 10000 \<and> uint w = (score_sum ts vs + 5000) div 10000"
proof -
  have n: "score_numerator 0 ts vs = Some (score_sum ts vs)" "0 \<le> score_sum ts vs" "score_sum ts vs \<le> 100000000"
    using score_numerator_sum[OF assms(1), of 0] assms(3) by simp_all
  let ?r = "(score_sum ts vs + 5000) div 10000"
  have r: "0 \<le> ?r" "?r \<le> 10000" using n by simp_all
  have "weighted_score ts vs = Some (word_of_int ?r)"
    using n assms(2) list_all2_lengthD[OF assms(1)] r
    by (simp add: weighted_score_def scale_def cdiv_nonneg i64_small Let_def)
  moreover have "uint (word_of_int ?r :: u64) = ?r"
    using r by (simp add: uint_word_of_int take_bit_eq_mod)
  ultimately show ?thesis using r by (simp add: word_le_def)
qed

end
