(* ===== verification/Lifecycle.thy ===== *)
theory Lifecycle
  imports Metrics
begin

text \<open>
  Policy and decision lifecycles and the currentness values (\<^verbatim>\<open>include/adaptive_routing/lifecycle.hpp\<close>,
  \<^verbatim>\<open>src/lifecycle.cpp\<close>): the two transition tables, the step relations they induce, and what no
  run of events can undo.
\<close>

section \<open>\<^verbatim>\<open>PolicyLifecycle\<close>\<close>

datatype policy_lifecycle = PL_DECLARED | PL_ACTIVE | PL_SUSPENDED | PL_REVALIDATION_REQUIRED | PL_REVOKED
  | PL_SUPERSEDED | PL_RETIRED

definition policy_lifecycle_to_string :: "policy_lifecycle \<Rightarrow> string" where
  "policy_lifecycle_to_string x = (case x of
     PL_DECLARED \<Rightarrow> ''DECLARED'' | PL_ACTIVE \<Rightarrow> ''ACTIVE'' | PL_SUSPENDED \<Rightarrow> ''SUSPENDED''
   | PL_REVALIDATION_REQUIRED \<Rightarrow> ''REVALIDATION_REQUIRED'' | PL_REVOKED \<Rightarrow> ''REVOKED'' | PL_SUPERSEDED \<Rightarrow> ''SUPERSEDED''
   | PL_RETIRED \<Rightarrow> ''RETIRED'')"

definition all_policy_lifecycle :: "policy_lifecycle list" where
  "all_policy_lifecycle = [PL_DECLARED, PL_ACTIVE, PL_SUSPENDED, PL_REVALIDATION_REQUIRED, PL_REVOKED,
     PL_SUPERSEDED, PL_RETIRED]"

definition parse_policy_lifecycle :: "string \<Rightarrow> policy_lifecycle option" where
  "parse_policy_lifecycle = parse_by policy_lifecycle_to_string all_policy_lifecycle"

definition valid_policy_lifecycle :: "u8 \<Rightarrow> bool" where
  "valid_policy_lifecycle raw = (1 \<le> raw \<and> raw \<le> 7)"

definition policy_lifecycle_raw :: "policy_lifecycle \<Rightarrow> u8" where
  "policy_lifecycle_raw x = (case x of
     PL_DECLARED \<Rightarrow> 1 | PL_ACTIVE \<Rightarrow> 2 | PL_SUSPENDED \<Rightarrow> 3 | PL_REVALIDATION_REQUIRED \<Rightarrow> 4
   | PL_REVOKED \<Rightarrow> 5 | PL_SUPERSEDED \<Rightarrow> 6 | PL_RETIRED \<Rightarrow> 7)"

lemma policy_lifecycle_roundtrip: "parse_policy_lifecycle (policy_lifecycle_to_string x) = Some x \<and> valid_policy_lifecycle (policy_lifecycle_raw x)"
  by (cases x) (simp_all add: parse_policy_lifecycle_def all_policy_lifecycle_def policy_lifecycle_to_string_def valid_policy_lifecycle_def policy_lifecycle_raw_def)

section \<open>\<^verbatim>\<open>PolicyEvent\<close>\<close>

datatype policy_event = PE_ACTIVATE | PE_SUSPEND | PE_RESUME | PE_REQUIRE_REVALIDATION | PE_REVALIDATE
  | PE_REVOKE | PE_SUPERSEDE | PE_RETIRE

definition policy_event_to_string :: "policy_event \<Rightarrow> string" where
  "policy_event_to_string x = (case x of
     PE_ACTIVATE \<Rightarrow> ''ACTIVATE'' | PE_SUSPEND \<Rightarrow> ''SUSPEND'' | PE_RESUME \<Rightarrow> ''RESUME''
   | PE_REQUIRE_REVALIDATION \<Rightarrow> ''REQUIRE_REVALIDATION'' | PE_REVALIDATE \<Rightarrow> ''REVALIDATE'' | PE_REVOKE \<Rightarrow> ''REVOKE''
   | PE_SUPERSEDE \<Rightarrow> ''SUPERSEDE'' | PE_RETIRE \<Rightarrow> ''RETIRE'')"

definition all_policy_event :: "policy_event list" where
  "all_policy_event = [PE_ACTIVATE, PE_SUSPEND, PE_RESUME, PE_REQUIRE_REVALIDATION, PE_REVALIDATE,
     PE_REVOKE, PE_SUPERSEDE, PE_RETIRE]"

definition parse_policy_event :: "string \<Rightarrow> policy_event option" where
  "parse_policy_event = parse_by policy_event_to_string all_policy_event"

definition valid_policy_event :: "u8 \<Rightarrow> bool" where
  "valid_policy_event raw = (1 \<le> raw \<and> raw \<le> 8)"

definition policy_event_raw :: "policy_event \<Rightarrow> u8" where
  "policy_event_raw x = (case x of
     PE_ACTIVATE \<Rightarrow> 1 | PE_SUSPEND \<Rightarrow> 2 | PE_RESUME \<Rightarrow> 3 | PE_REQUIRE_REVALIDATION \<Rightarrow> 4
   | PE_REVALIDATE \<Rightarrow> 5 | PE_REVOKE \<Rightarrow> 6 | PE_SUPERSEDE \<Rightarrow> 7 | PE_RETIRE \<Rightarrow> 8)"

lemma policy_event_roundtrip: "parse_policy_event (policy_event_to_string x) = Some x \<and> valid_policy_event (policy_event_raw x)"
  by (cases x) (simp_all add: parse_policy_event_def all_policy_event_def policy_event_to_string_def valid_policy_event_def policy_event_raw_def)

section \<open>\<^verbatim>\<open>DecisionLifecycle\<close>\<close>

datatype decision_lifecycle = DL_PROPOSED | DL_ELIGIBLE | DL_SUPPRESSED | DL_COMMITTED | DL_SUPERSEDED
  | DL_ROLLED_BACK | DL_REVALIDATION_REQUIRED | DL_EXPIRED | DL_REJECTED

definition decision_lifecycle_to_string :: "decision_lifecycle \<Rightarrow> string" where
  "decision_lifecycle_to_string x = (case x of
     DL_PROPOSED \<Rightarrow> ''PROPOSED'' | DL_ELIGIBLE \<Rightarrow> ''ELIGIBLE'' | DL_SUPPRESSED \<Rightarrow> ''SUPPRESSED''
   | DL_COMMITTED \<Rightarrow> ''COMMITTED'' | DL_SUPERSEDED \<Rightarrow> ''SUPERSEDED'' | DL_ROLLED_BACK \<Rightarrow> ''ROLLED_BACK''
   | DL_REVALIDATION_REQUIRED \<Rightarrow> ''REVALIDATION_REQUIRED'' | DL_EXPIRED \<Rightarrow> ''EXPIRED'' | DL_REJECTED \<Rightarrow> ''REJECTED'')"

definition all_decision_lifecycle :: "decision_lifecycle list" where
  "all_decision_lifecycle = [DL_PROPOSED, DL_ELIGIBLE, DL_SUPPRESSED, DL_COMMITTED, DL_SUPERSEDED,
     DL_ROLLED_BACK, DL_REVALIDATION_REQUIRED, DL_EXPIRED, DL_REJECTED]"

definition parse_decision_lifecycle :: "string \<Rightarrow> decision_lifecycle option" where
  "parse_decision_lifecycle = parse_by decision_lifecycle_to_string all_decision_lifecycle"

definition valid_decision_lifecycle :: "u8 \<Rightarrow> bool" where
  "valid_decision_lifecycle raw = (1 \<le> raw \<and> raw \<le> 9)"

definition decision_lifecycle_raw :: "decision_lifecycle \<Rightarrow> u8" where
  "decision_lifecycle_raw x = (case x of
     DL_PROPOSED \<Rightarrow> 1 | DL_ELIGIBLE \<Rightarrow> 2 | DL_SUPPRESSED \<Rightarrow> 3 | DL_COMMITTED \<Rightarrow> 4
   | DL_SUPERSEDED \<Rightarrow> 5 | DL_ROLLED_BACK \<Rightarrow> 6 | DL_REVALIDATION_REQUIRED \<Rightarrow> 7 | DL_EXPIRED \<Rightarrow> 8
   | DL_REJECTED \<Rightarrow> 9)"

lemma decision_lifecycle_roundtrip: "parse_decision_lifecycle (decision_lifecycle_to_string x) = Some x \<and> valid_decision_lifecycle (decision_lifecycle_raw x)"
  by (cases x) (simp_all add: parse_decision_lifecycle_def all_decision_lifecycle_def decision_lifecycle_to_string_def valid_decision_lifecycle_def decision_lifecycle_raw_def)

section \<open>\<^verbatim>\<open>DecisionEvent\<close>\<close>

datatype decision_event = DE_MARK_ELIGIBLE | DE_SUPPRESS | DE_COMMIT | DE_SUPERSEDE | DE_ROLLBACK
  | DE_REQUIRE_REVALIDATION | DE_EXPIRE | DE_REJECT

definition decision_event_to_string :: "decision_event \<Rightarrow> string" where
  "decision_event_to_string x = (case x of
     DE_MARK_ELIGIBLE \<Rightarrow> ''MARK_ELIGIBLE'' | DE_SUPPRESS \<Rightarrow> ''SUPPRESS'' | DE_COMMIT \<Rightarrow> ''COMMIT''
   | DE_SUPERSEDE \<Rightarrow> ''SUPERSEDE'' | DE_ROLLBACK \<Rightarrow> ''ROLLBACK'' | DE_REQUIRE_REVALIDATION \<Rightarrow> ''REQUIRE_REVALIDATION''
   | DE_EXPIRE \<Rightarrow> ''EXPIRE'' | DE_REJECT \<Rightarrow> ''REJECT'')"

definition all_decision_event :: "decision_event list" where
  "all_decision_event = [DE_MARK_ELIGIBLE, DE_SUPPRESS, DE_COMMIT, DE_SUPERSEDE, DE_ROLLBACK,
     DE_REQUIRE_REVALIDATION, DE_EXPIRE, DE_REJECT]"

definition parse_decision_event :: "string \<Rightarrow> decision_event option" where
  "parse_decision_event = parse_by decision_event_to_string all_decision_event"

definition valid_decision_event :: "u8 \<Rightarrow> bool" where
  "valid_decision_event raw = (1 \<le> raw \<and> raw \<le> 8)"

definition decision_event_raw :: "decision_event \<Rightarrow> u8" where
  "decision_event_raw x = (case x of
     DE_MARK_ELIGIBLE \<Rightarrow> 1 | DE_SUPPRESS \<Rightarrow> 2 | DE_COMMIT \<Rightarrow> 3 | DE_SUPERSEDE \<Rightarrow> 4
   | DE_ROLLBACK \<Rightarrow> 5 | DE_REQUIRE_REVALIDATION \<Rightarrow> 6 | DE_EXPIRE \<Rightarrow> 7 | DE_REJECT \<Rightarrow> 8)"

lemma decision_event_roundtrip: "parse_decision_event (decision_event_to_string x) = Some x \<and> valid_decision_event (decision_event_raw x)"
  by (cases x) (simp_all add: parse_decision_event_def all_decision_event_def decision_event_to_string_def valid_decision_event_def decision_event_raw_def)

section \<open>\<^verbatim>\<open>Currentness\<close>\<close>

datatype currentness = Cur_CURRENT | Cur_STALE_EVIDENCE | Cur_STALE_PATH_AUTHORITY | Cur_STALE_MULTIPATH_SET | Cur_STALE_ROUTE
  | Cur_STALE_POLICY | Cur_STALE_EPOCH | Cur_FENCED_PUBLISHER | Cur_HOLD_DOWN_ACTIVE | Cur_COOLDOWN_ACTIVE
  | Cur_REVALIDATION_REQUIRED

definition currentness_to_string :: "currentness \<Rightarrow> string" where
  "currentness_to_string x = (case x of
     Cur_CURRENT \<Rightarrow> ''CURRENT'' | Cur_STALE_EVIDENCE \<Rightarrow> ''STALE_EVIDENCE'' | Cur_STALE_PATH_AUTHORITY \<Rightarrow> ''STALE_PATH_AUTHORITY''
   | Cur_STALE_MULTIPATH_SET \<Rightarrow> ''STALE_MULTIPATH_SET'' | Cur_STALE_ROUTE \<Rightarrow> ''STALE_ROUTE'' | Cur_STALE_POLICY \<Rightarrow> ''STALE_POLICY''
   | Cur_STALE_EPOCH \<Rightarrow> ''STALE_EPOCH'' | Cur_FENCED_PUBLISHER \<Rightarrow> ''FENCED_PUBLISHER'' | Cur_HOLD_DOWN_ACTIVE \<Rightarrow> ''HOLD_DOWN_ACTIVE''
   | Cur_COOLDOWN_ACTIVE \<Rightarrow> ''COOLDOWN_ACTIVE'' | Cur_REVALIDATION_REQUIRED \<Rightarrow> ''REVALIDATION_REQUIRED'')"

definition all_currentness :: "currentness list" where
  "all_currentness = [Cur_CURRENT, Cur_STALE_EVIDENCE, Cur_STALE_PATH_AUTHORITY, Cur_STALE_MULTIPATH_SET, Cur_STALE_ROUTE,
     Cur_STALE_POLICY, Cur_STALE_EPOCH, Cur_FENCED_PUBLISHER, Cur_HOLD_DOWN_ACTIVE, Cur_COOLDOWN_ACTIVE,
     Cur_REVALIDATION_REQUIRED]"

definition parse_currentness :: "string \<Rightarrow> currentness option" where
  "parse_currentness = parse_by currentness_to_string all_currentness"

definition valid_currentness :: "u8 \<Rightarrow> bool" where
  "valid_currentness raw = (1 \<le> raw \<and> raw \<le> 11)"

definition currentness_raw :: "currentness \<Rightarrow> u8" where
  "currentness_raw x = (case x of
     Cur_CURRENT \<Rightarrow> 1 | Cur_STALE_EVIDENCE \<Rightarrow> 2 | Cur_STALE_PATH_AUTHORITY \<Rightarrow> 3 | Cur_STALE_MULTIPATH_SET \<Rightarrow> 4
   | Cur_STALE_ROUTE \<Rightarrow> 5 | Cur_STALE_POLICY \<Rightarrow> 6 | Cur_STALE_EPOCH \<Rightarrow> 7 | Cur_FENCED_PUBLISHER \<Rightarrow> 8
   | Cur_HOLD_DOWN_ACTIVE \<Rightarrow> 9 | Cur_COOLDOWN_ACTIVE \<Rightarrow> 10 | Cur_REVALIDATION_REQUIRED \<Rightarrow> 11)"

lemma currentness_roundtrip: "parse_currentness (currentness_to_string x) = Some x \<and> valid_currentness (currentness_raw x)"
  by (cases x) (simp_all add: parse_currentness_def all_currentness_def currentness_to_string_def valid_currentness_def currentness_raw_def)

section \<open>The transition tables\<close>

definition apply_policy_event :: "policy_lifecycle \<Rightarrow> policy_event \<Rightarrow> policy_lifecycle option" where
  "apply_policy_event state event = (case state of
     PL_DECLARED \<Rightarrow> (case event of PE_ACTIVATE \<Rightarrow> Some PL_ACTIVE | PE_REQUIRE_REVALIDATION \<Rightarrow> Some PL_REVALIDATION_REQUIRED | PE_REVOKE \<Rightarrow> Some PL_REVOKED | PE_SUPERSEDE \<Rightarrow> Some PL_SUPERSEDED | PE_RETIRE \<Rightarrow> Some PL_RETIRED | _ \<Rightarrow> None)
   | PL_ACTIVE \<Rightarrow> (case event of PE_SUSPEND \<Rightarrow> Some PL_SUSPENDED | PE_REQUIRE_REVALIDATION \<Rightarrow> Some PL_REVALIDATION_REQUIRED | PE_REVOKE \<Rightarrow> Some PL_REVOKED | PE_SUPERSEDE \<Rightarrow> Some PL_SUPERSEDED | PE_RETIRE \<Rightarrow> Some PL_RETIRED | _ \<Rightarrow> None)
   | PL_SUSPENDED \<Rightarrow> (case event of PE_RESUME \<Rightarrow> Some PL_ACTIVE | PE_REQUIRE_REVALIDATION \<Rightarrow> Some PL_REVALIDATION_REQUIRED | PE_REVOKE \<Rightarrow> Some PL_REVOKED | PE_SUPERSEDE \<Rightarrow> Some PL_SUPERSEDED | PE_RETIRE \<Rightarrow> Some PL_RETIRED | _ \<Rightarrow> None)
   | PL_REVALIDATION_REQUIRED \<Rightarrow> (case event of PE_REVALIDATE \<Rightarrow> Some PL_ACTIVE | PE_SUSPEND \<Rightarrow> Some PL_SUSPENDED | PE_REVOKE \<Rightarrow> Some PL_REVOKED | PE_SUPERSEDE \<Rightarrow> Some PL_SUPERSEDED | PE_RETIRE \<Rightarrow> Some PL_RETIRED | _ \<Rightarrow> None)
   | _ \<Rightarrow> None)"

definition apply_decision_event :: "decision_lifecycle \<Rightarrow> decision_event \<Rightarrow> decision_lifecycle option" where
  "apply_decision_event state event = (case state of
     DL_PROPOSED \<Rightarrow> (case event of DE_MARK_ELIGIBLE \<Rightarrow> Some DL_ELIGIBLE | DE_SUPPRESS \<Rightarrow> Some DL_SUPPRESSED | DE_REJECT \<Rightarrow> Some DL_REJECTED | _ \<Rightarrow> None)
   | DL_ELIGIBLE \<Rightarrow> (case event of DE_COMMIT \<Rightarrow> Some DL_COMMITTED | DE_SUPPRESS \<Rightarrow> Some DL_SUPPRESSED | DE_REJECT \<Rightarrow> Some DL_REJECTED | DE_EXPIRE \<Rightarrow> Some DL_EXPIRED | DE_REQUIRE_REVALIDATION \<Rightarrow> Some DL_REVALIDATION_REQUIRED | _ \<Rightarrow> None)
   | DL_COMMITTED \<Rightarrow> (case event of DE_SUPERSEDE \<Rightarrow> Some DL_SUPERSEDED | DE_ROLLBACK \<Rightarrow> Some DL_ROLLED_BACK | DE_REQUIRE_REVALIDATION \<Rightarrow> Some DL_REVALIDATION_REQUIRED | DE_EXPIRE \<Rightarrow> Some DL_EXPIRED | _ \<Rightarrow> None)
   | DL_REVALIDATION_REQUIRED \<Rightarrow> (case event of DE_SUPERSEDE \<Rightarrow> Some DL_SUPERSEDED | DE_EXPIRE \<Rightarrow> Some DL_EXPIRED | DE_REJECT \<Rightarrow> Some DL_REJECTED | _ \<Rightarrow> None)
   | _ \<Rightarrow> None)"

definition policy_lifecycle_terminal :: "policy_lifecycle \<Rightarrow> bool" where
  "policy_lifecycle_terminal s = (s = PL_REVOKED \<or> s = PL_SUPERSEDED \<or> s = PL_RETIRED)"

definition policy_lifecycle_adaptable :: "policy_lifecycle \<Rightarrow> bool" where
  "policy_lifecycle_adaptable s = (s = PL_ACTIVE)"

definition decision_lifecycle_terminal :: "decision_lifecycle \<Rightarrow> bool" where
  "decision_lifecycle_terminal s = (case s of DL_SUPPRESSED \<Rightarrow> True | DL_SUPERSEDED \<Rightarrow> True
     | DL_ROLLED_BACK \<Rightarrow> True | DL_EXPIRED \<Rightarrow> True | DL_REJECTED \<Rightarrow> True | _ \<Rightarrow> False)"

definition currentness_is_current :: "currentness \<Rightarrow> bool" where
  "currentness_is_current c = (c = Cur_CURRENT)"

section \<open>Runs of events\<close>

inductive policy_step :: "policy_lifecycle \<Rightarrow> policy_event \<Rightarrow> policy_lifecycle \<Rightarrow> bool" where
  policy_stepI: "apply_policy_event s e = Some t \<Longrightarrow> policy_step s e t"

inductive_simps policy_step_iff: "policy_step s e t"

inductive policy_run :: "policy_lifecycle \<Rightarrow> policy_event list \<Rightarrow> policy_lifecycle \<Rightarrow> bool" where
  policy_run_nil: "policy_run s [] s"
| policy_run_step: "policy_step s e t \<Longrightarrow> policy_run t es u \<Longrightarrow> policy_run s (e # es) u"

inductive_cases policy_run_ConsE: "policy_run s (e # es) u"
inductive_cases policy_run_NilE: "policy_run s [] u"

lemma policy_step_terminal: "policy_step s e t \<Longrightarrow> \<not> policy_lifecycle_terminal s"
  by (cases s) (auto simp: policy_step_iff apply_policy_event_def policy_lifecycle_terminal_def)

lemma policy_step_determ: "policy_step s e t \<Longrightarrow> policy_step s e u \<Longrightarrow> t = u"
  by (simp add: policy_step_iff)

lemma policy_step_declared: "policy_step s e t \<Longrightarrow> t \<noteq> PL_DECLARED"
  by (cases s; cases e) (auto simp: policy_step_iff apply_policy_event_def)

lemma policy_step_active:
  "policy_step s e PL_ACTIVE \<Longrightarrow> (s, e) \<in> {(PL_DECLARED, PE_ACTIVATE), (PL_SUSPENDED, PE_RESUME), (PL_REVALIDATION_REQUIRED, PE_REVALIDATE)}"
  by (cases s; cases e) (auto simp: policy_step_iff apply_policy_event_def)

lemma policy_run_terminal: "policy_run s es u \<Longrightarrow> policy_lifecycle_terminal s \<Longrightarrow> es = [] \<and> u = s"
  by (induction rule: policy_run.induct) (auto dest: policy_step_terminal)

lemma decision_terminal_iff: "decision_lifecycle_terminal s \<longleftrightarrow> (\<forall>e. apply_decision_event s e = None)"
proof
  assume "\<forall>e. apply_decision_event s e = None"
  then have "apply_decision_event s DE_REJECT = None" "apply_decision_event s DE_EXPIRE = None" by blast+
  then show "decision_lifecycle_terminal s"
    by (cases s) (simp_all add: apply_decision_event_def decision_lifecycle_terminal_def)
qed (cases s; simp add: apply_decision_event_def decision_lifecycle_terminal_def)

text \<open>
  a policy that leaves service for good stays out: a lifecycle admits no event exactly when it
  is REVOKED, SUPERSEDED or RETIRED, so no sequence of lifecycle events brings a terminal policy
  back to one that may adapt; every other lifecycle can still be retired.
\<close>

theorem policy_lifecycle_no_resurrection:
  "(policy_lifecycle_terminal s \<longleftrightarrow> (\<forall>e. apply_policy_event s e = None))
   \<and> (policy_run s es u \<and> policy_lifecycle_terminal s \<longrightarrow> u = s \<and> \<not> policy_lifecycle_adaptable u)
   \<and> (\<not> policy_lifecycle_terminal s \<longrightarrow> apply_policy_event s PE_RETIRE = Some PL_RETIRED)"
proof -
  have r: "apply_policy_event s PE_RETIRE = Some PL_RETIRED" if "\<not> policy_lifecycle_terminal s"
    using that by (cases s) (simp_all add: apply_policy_event_def policy_lifecycle_terminal_def)
  have "policy_lifecycle_terminal s \<longleftrightarrow> (\<forall>e. apply_policy_event s e = None)"
  proof
    assume "policy_lifecycle_terminal s"
    then show "\<forall>e. apply_policy_event s e = None"
      by (auto simp: policy_lifecycle_terminal_def apply_policy_event_def)
  next
    assume "\<forall>e. apply_policy_event s e = None"
    then show "policy_lifecycle_terminal s" using r by fastforce
  qed
  with r show ?thesis
    by (auto dest!: policy_run_terminal simp: policy_lifecycle_terminal_def policy_lifecycle_adaptable_def)
qed

theorem policy_lifecycle_no_resurrection_witness:
  "policy_run PL_REVOKED [] PL_REVOKED \<and> \<not> policy_lifecycle_adaptable PL_REVOKED"
  using policy_lifecycle_no_resurrection[of PL_REVOKED "[]" PL_REVOKED]
  by (simp add: policy_run_nil policy_lifecycle_terminal_def)

text \<open>
  A policy is adaptable only after an explicit event made it so: a run that ends ACTIVE and is
  not empty ends with ACTIVATE out of DECLARED, RESUME out of SUSPENDED or REVALIDATE out of
  REVALIDATION_REQUIRED, and no run returns to DECLARED.
\<close>

theorem policy_run_to_active:
  "policy_run s es u \<Longrightarrow> es \<noteq> [] \<Longrightarrow>
     (policy_lifecycle_adaptable u \<longrightarrow> last es \<in> {PE_ACTIVATE, PE_RESUME, PE_REVALIDATE}) \<and> u \<noteq> PL_DECLARED"
proof (induction rule: policy_run.induct)
  case (policy_run_step s e t es u)
  show ?case
  proof (cases es)
    case Nil
    with policy_run_step.hyps(2) have "u = t" by (auto elim: policy_run_NilE)
    with policy_run_step.hyps(1) Nil show ?thesis
      using policy_step_active[of s e] policy_step_declared[of s e t]
      by (auto simp: policy_lifecycle_adaptable_def)
  next
    case (Cons e' es')
    with policy_run_step.IH show ?thesis by auto
  qed
qed simp

theorem policy_run_to_active_witness:
  "PL_ACTIVE \<noteq> PL_DECLARED \<and> last [PE_ACTIVATE, PE_SUSPEND, PE_RESUME] \<in> {PE_ACTIVATE, PE_RESUME, PE_REVALIDATE}"
proof -
  have "policy_run PL_DECLARED [PE_ACTIVATE, PE_SUSPEND, PE_RESUME] PL_ACTIVE"
    by (rule policy_run_step[of _ _ PL_ACTIVE], simp add: policy_step_iff apply_policy_event_def,
        rule policy_run_step[of _ _ PL_SUSPENDED], simp add: policy_step_iff apply_policy_event_def,
        rule policy_run_step[of _ _ PL_ACTIVE], simp add: policy_step_iff apply_policy_event_def,
        rule policy_run_nil)
  from policy_run_to_active[OF this] show ?thesis by (simp add: policy_lifecycle_adaptable_def)
qed

end
