(* ===== verification/Evidence.thy ===== *)
theory Evidence
  imports Lifecycle "HOL-Library.Product_Lexorder"
begin

text \<open>
  Resource limits (\<^verbatim>\<open>limits.hpp\<close>, \<^verbatim>\<open>limits.cpp\<close>), the monotonic time unit (\<^verbatim>\<open>clock.hpp\<close>) and the
  evidence contracts (\<^verbatim>\<open>include/adaptive_routing/evidence.hpp\<close>, \<^verbatim>\<open>src/evidence.cpp\<close>): qualities,
  aggregates, requirements, and the immutable evidence snapshot with its binary search.
\<close>

section \<open>Limits\<close>

record limits =
  lim_max_policies :: u64
  lim_max_candidates_per_policy :: u64
  lim_max_total_candidates :: u64
  lim_max_evidence_sources :: u64
  lim_max_evidence_samples_per_series :: u64
  lim_max_evidence_requirements_per_policy :: u64
  lim_max_thresholds_per_policy :: u64
  lim_max_objective_terms :: u64
  lim_max_history_per_policy :: u64
  lim_max_decision_history :: u64
  lim_max_simultaneous_evaluations :: u64
  lim_max_pending_transitions :: u64
  lim_max_frame_bytes :: u64
  lim_max_batch_size :: u64
  lim_max_publishers :: u64
  lim_max_sessions :: u64
  lim_max_explanation_entries :: u64
  lim_max_persistence_record_bytes :: u64
  lim_max_store_bytes :: u64
  lim_max_attempts :: u64
  lim_max_revocations :: u64
  lim_max_snapshot_history :: u64
  lim_max_scope_routes :: u64
  lim_max_scope_multipath_sets :: u64
  lim_max_adaptations_per_window :: u64
  lim_max_dampening_penalty :: u64
  lim_max_receive_stall_millis :: u64
  lim_max_policies_per_path :: u64

definition default_limits :: limits where
  "default_limits = \<lparr>
     lim_max_policies = 100000,
     lim_max_candidates_per_policy = 32,
     lim_max_total_candidates = 1000000,
     lim_max_evidence_sources = 4096,
     lim_max_evidence_samples_per_series = 64,
     lim_max_evidence_requirements_per_policy = 8,
     lim_max_thresholds_per_policy = 8,
     lim_max_objective_terms = 8,
     lim_max_history_per_policy = 32,
     lim_max_decision_history = 4096,
     lim_max_simultaneous_evaluations = 256,
     lim_max_pending_transitions = 256,
     lim_max_frame_bytes = 1048576,
     lim_max_batch_size = 256,
     lim_max_publishers = 64,
     lim_max_sessions = 128,
     lim_max_explanation_entries = 512,
     lim_max_persistence_record_bytes = 16777216,
     lim_max_store_bytes = 67108864,
     lim_max_attempts = 8192,
     lim_max_revocations = 4096,
     lim_max_snapshot_history = 16,
     lim_max_scope_routes = 256,
     lim_max_scope_multipath_sets = 256,
     lim_max_adaptations_per_window = 64,
     lim_max_dampening_penalty = 1024,
     lim_max_receive_stall_millis = 30000,
     lim_max_policies_per_path = 4096\<rparr>"

definition limits_describe :: "limits \<Rightarrow> (string \<times> u64) list" where
  "limits_describe l =
    [(''max_policies'', lim_max_policies l),
     (''max_candidates_per_policy'', lim_max_candidates_per_policy l),
     (''max_total_candidates'', lim_max_total_candidates l),
     (''max_evidence_sources'', lim_max_evidence_sources l),
     (''max_evidence_samples_per_series'', lim_max_evidence_samples_per_series l),
     (''max_evidence_requirements_per_policy'', lim_max_evidence_requirements_per_policy l),
     (''max_thresholds_per_policy'', lim_max_thresholds_per_policy l),
     (''max_objective_terms'', lim_max_objective_terms l),
     (''max_history_per_policy'', lim_max_history_per_policy l),
     (''max_decision_history'', lim_max_decision_history l),
     (''max_simultaneous_evaluations'', lim_max_simultaneous_evaluations l),
     (''max_pending_transitions'', lim_max_pending_transitions l),
     (''max_frame_bytes'', lim_max_frame_bytes l),
     (''max_batch_size'', lim_max_batch_size l),
     (''max_publishers'', lim_max_publishers l),
     (''max_sessions'', lim_max_sessions l),
     (''max_explanation_entries'', lim_max_explanation_entries l),
     (''max_persistence_record_bytes'', lim_max_persistence_record_bytes l),
     (''max_store_bytes'', lim_max_store_bytes l),
     (''max_attempts'', lim_max_attempts l),
     (''max_revocations'', lim_max_revocations l),
     (''max_snapshot_history'', lim_max_snapshot_history l),
     (''max_scope_routes'', lim_max_scope_routes l),
     (''max_scope_multipath_sets'', lim_max_scope_multipath_sets l),
     (''max_adaptations_per_window'', lim_max_adaptations_per_window l),
     (''max_dampening_penalty'', lim_max_dampening_penalty l),
     (''max_receive_stall_millis'', lim_max_receive_stall_millis l),
     (''max_policies_per_path'', lim_max_policies_per_path l)]"

section \<open>Time\<close>

type_synonym ticks = u64

definition ticks_per_microsecond :: ticks where "ticks_per_microsecond = 1000"
definition ticks_per_millisecond :: ticks where "ticks_per_millisecond = 1000000"
definition ticks_per_second :: ticks where "ticks_per_second = 1000000000"

definition elapsed :: "ticks \<Rightarrow> ticks \<Rightarrow> ticks" where
  "elapsed now since = (if now \<ge> since then now - since else 0)"

section \<open>Quality\<close>

datatype evidence_quality = PRIMARY | AGGREGATED | OPERATOR | ESTIMATED

definition quality_to_string :: "evidence_quality \<Rightarrow> string" where
  "quality_to_string q = (case q of PRIMARY \<Rightarrow> ''PRIMARY'' | AGGREGATED \<Rightarrow> ''AGGREGATED''
     | OPERATOR \<Rightarrow> ''OPERATOR'' | ESTIMATED \<Rightarrow> ''ESTIMATED'')"

definition parse_evidence_quality :: "string \<Rightarrow> evidence_quality option" where
  "parse_evidence_quality = parse_by quality_to_string [PRIMARY, AGGREGATED, OPERATOR, ESTIMATED]"

definition evidence_quality_raw :: "evidence_quality \<Rightarrow> u8" where
  "evidence_quality_raw q = (case q of PRIMARY \<Rightarrow> 1 | AGGREGATED \<Rightarrow> 2 | OPERATOR \<Rightarrow> 3 | ESTIMATED \<Rightarrow> 4)"

definition valid_evidence_quality :: "u8 \<Rightarrow> bool" where
  "valid_evidence_quality raw = (1 \<le> raw \<and> raw \<le> 4)"

definition evidence_quality_rank :: "evidence_quality \<Rightarrow> nat" where
  "evidence_quality_rank q = (case q of PRIMARY \<Rightarrow> 4 | AGGREGATED \<Rightarrow> 3 | OPERATOR \<Rightarrow> 2 | ESTIMATED \<Rightarrow> 1)"

section \<open>Samples, aggregates, publications\<close>

record evidence_sample =
  es_path :: path_id
  es_value :: metric_value
  es_accepted_at :: ticks
  es_sequence :: u64

record evidence_aggregate =
  ea_value :: metric_value
  ea_sample_count :: u32
  ea_oldest_observed_at :: ticks
  ea_newest_observed_at :: ticks
  ea_aggregation :: aggregation_kind
  ea_ewma_alpha_bps :: u32

definition default_aggregate :: evidence_aggregate where
  "default_aggregate = \<lparr>ea_value = default_metric_value, ea_sample_count = 0, ea_oldest_observed_at = 0,
     ea_newest_observed_at = 0, ea_aggregation = MEAN, ea_ewma_alpha_bps = 0\<rparr>"

definition ea_valid :: "evidence_aggregate \<Rightarrow> bool" where
  "ea_valid a = (ea_sample_count a \<noteq> 0 \<and> mv_valid (ea_value a))"

definition ea_age :: "evidence_aggregate \<Rightarrow> ticks \<Rightarrow> ticks" where
  "ea_age a now = (if now \<ge> ea_newest_observed_at a then now - ea_newest_observed_at a else 0)"

definition ea_window :: "evidence_aggregate \<Rightarrow> ticks" where
  "ea_window a = (if ea_newest_observed_at a \<ge> ea_oldest_observed_at a
     then ea_newest_observed_at a - ea_oldest_observed_at a else 0)"

definition ea_render :: "evidence_aggregate \<Rightarrow> string" where
  "ea_render a = (if \<not> ea_valid a then ''absent''
     else mv_render (ea_value a) @ '' samples='' @ dec (unat (ea_sample_count a))
       @ '' window_us='' @ dec (unat (ea_window a div ticks_per_microsecond))
       @ '' agg='' @ aggregation_kind_to_string (ea_aggregation a))"

record evidence_publication =
  ep_source :: evidence_source_id
  ep_source_generation :: evidence_source_generation
  ep_quality :: evidence_quality
  ep_path :: path_id
  ep_value :: metric_value
  ep_sequence :: u64

definition ep_well_formed :: "evidence_publication \<Rightarrow> bool" where
  "ep_well_formed p = (id_valid (ep_source p) \<and> gen_valid (ep_source_generation p) \<and> id_valid (ep_path p)
     \<and> mv_valid (ep_value p))"

record evidence_requirement =
  er_kind :: metric_kind
  er_aggregation :: aggregation_kind
  er_ewma_alpha_bps :: u32
  er_min_samples :: u32
  er_max_age :: ticks
  er_min_window :: ticks
  er_min_quality :: evidence_quality
  er_required :: bool

definition er_valid :: "evidence_requirement \<Rightarrow> bool" where
  "er_valid r =
    (if \<not> valid_metric_kind (metric_kind_raw (er_kind r)) then False
     else if \<not> valid_aggregation_kind (aggregation_kind_raw (er_aggregation r)) then False
     else if er_min_samples r = 0 then False
     else if er_max_age r = 0 then False
     else if er_aggregation r = EWMA \<and> (er_ewma_alpha_bps r = 0 \<or> er_ewma_alpha_bps r > basis_points_scale) then False
     else if er_aggregation r \<noteq> EWMA \<and> er_ewma_alpha_bps r \<noteq> 0 then False
     else if \<not> valid_evidence_quality (evidence_quality_raw (er_min_quality r)) then False
     else er_min_window r \<le> er_max_age r)"

definition ms_text :: "ticks \<Rightarrow> string" where
  "ms_text t = dec (unat (t div ticks_per_millisecond))"

definition er_render :: "evidence_requirement \<Rightarrow> string" where
  "er_render r = metric_kind_to_string (er_kind r) @ '' '' @ aggregation_kind_to_string (er_aggregation r)
     @ (if er_aggregation r = EWMA then '':'' @ dec (unat (er_ewma_alpha_bps r)) else [])
     @ '' min_samples='' @ dec (unat (er_min_samples r))
     @ '' max_age_ms='' @ ms_text (er_max_age r)
     @ '' min_window_ms='' @ ms_text (er_min_window r)
     @ '' min_quality='' @ quality_to_string (er_min_quality r)
     @ (if er_required r then '' required'' else '' optional'')"

section \<open>Evidence snapshots\<close>

record evidence_binding =
  eb_source :: evidence_source_id
  eb_source_generation :: evidence_source_generation
  eb_path :: path_id
  eb_kind :: metric_kind

definition eb_less :: "evidence_binding \<Rightarrow> evidence_binding \<Rightarrow> bool" where
  "eb_less a b =
    (if eb_source a \<noteq> eb_source b then eb_source a < eb_source b
     else if eb_source_generation a \<noteq> eb_source_generation b then eb_source_generation a < eb_source_generation b
     else if eb_path a \<noteq> eb_path b then eb_path a < eb_path b
     else metric_kind_raw (eb_kind a) < metric_kind_raw (eb_kind b))"

record resolved_evidence =
  re_path :: path_id
  re_kind :: metric_kind
  re_quality :: evidence_quality
  re_source :: evidence_source_id
  re_source_generation :: evidence_source_generation
  re_aggregate :: evidence_aggregate

definition re_less :: "resolved_evidence \<Rightarrow> resolved_evidence \<Rightarrow> bool" where
  "re_less a b = (if re_path a \<noteq> re_path b then re_path a < re_path b
     else metric_kind_raw (re_kind a) < metric_kind_raw (re_kind b))"

record evidence_snapshot =
  ev_id :: evidence_snapshot_id
  ev_generation :: evidence_generation
  ev_epoch :: coordinator_epoch
  ev_captured_at :: ticks
  ev_bindings :: "evidence_binding list"
  ev_values :: "resolved_evidence list"

definition builder_new :: "evidence_snapshot_id \<Rightarrow> evidence_generation \<Rightarrow> coordinator_epoch \<Rightarrow> ticks \<Rightarrow> evidence_snapshot" where
  "builder_new i g e t = \<lparr>ev_id = i, ev_generation = g, ev_epoch = e, ev_captured_at = t, ev_bindings = [], ev_values = []\<rparr>"

definition builder_add_binding :: "evidence_binding \<Rightarrow> evidence_snapshot \<Rightarrow> evidence_snapshot" where
  "builder_add_binding b s = s\<lparr>ev_bindings := ev_bindings s @ [b]\<rparr>"

definition builder_add_value :: "resolved_evidence \<Rightarrow> evidence_snapshot \<Rightarrow> evidence_snapshot" where
  "builder_add_value v s = s\<lparr>ev_values := ev_values s @ [v]\<rparr>"

definition builder_finish :: "evidence_snapshot \<Rightarrow> evidence_snapshot" where
  "builder_finish s = s\<lparr>ev_bindings := remdups_adj (sort_by eb_less (ev_bindings s)),
     ev_values := sort_by re_less (ev_values s)\<rparr>"

definition before :: "resolved_evidence \<Rightarrow> path_id \<Rightarrow> metric_kind \<Rightarrow> bool" where
  "before e path kind = (re_path e < path \<or> (re_path e = path \<and> metric_kind_raw (re_kind e) < metric_kind_raw kind))"

definition lower_bound :: "resolved_evidence list \<Rightarrow> path_id \<Rightarrow> metric_kind \<Rightarrow> nat" where
  "lower_bound vs path kind = partition_point (\<lambda>e. before e path kind) vs 0 (length vs)"

definition snapshot_find :: "evidence_snapshot \<Rightarrow> path_id \<Rightarrow> metric_kind \<Rightarrow> resolved_evidence option" where
  "snapshot_find s path kind =
    (let vs = ev_values s; low = lower_bound vs path kind in
     if low = length vs then None
     else let candidate = vs ! low in
       if re_path candidate = path \<and> re_kind candidate = kind then Some candidate else None)"

section \<open>Canonical order and lookup\<close>

definition eb_key :: "evidence_binding \<Rightarrow> evidence_source_id \<times> evidence_source_generation \<times> path_id \<times> metric_kind" where
  "eb_key b = (eb_source b, eb_source_generation b, eb_path b, eb_kind b)"

definition re_key :: "resolved_evidence \<Rightarrow> path_id \<times> metric_kind" where
  "re_key r = (re_path r, re_kind r)"

lemma eb_less_key: "eb_less a b \<longleftrightarrow> eb_key a < eb_key b"
  by (auto simp: eb_less_def eb_key_def less_prod_simp less_metric_kind_def)

lemma re_less_key: "re_less a b \<longleftrightarrow> re_key a < re_key b"
  by (auto simp: re_less_def re_key_def less_prod_simp less_metric_kind_def)

lemma before_key: "before e path kind \<longleftrightarrow> re_key e < (path, kind)"
  by (auto simp: before_def re_key_def less_prod_simp less_metric_kind_def)

lemma eb_key_inject: "eb_key a = eb_key b \<longleftrightarrow> a = b"
  by (auto simp: eb_key_def)

interpretation binding_order: ranking eb_less "\<lambda>_. True"
proof
  show "x \<noteq> y \<Longrightarrow> eb_less x y \<or> eb_less y x" for x y
    unfolding eb_less_key eb_key_inject[symmetric] by auto
qed (auto simp: eb_less_key)

lemma re_less_ranking: "inj_on re_key S \<Longrightarrow> ranking re_less (\<lambda>x. x \<in> S)"
proof
  show "inj_on re_key S \<Longrightarrow> x \<in> S \<Longrightarrow> y \<in> S \<Longrightarrow> x \<noteq> y \<Longrightarrow> re_less x y \<or> re_less y x" for x y
    unfolding re_less_key by (metis inj_onD neq_iff)
qed (auto simp: re_less_key)

lemma re_less_fun: "re_less = (\<lambda>a b. re_key a < re_key b)"
  by (simp add: fun_eq_iff re_less_key)

lemma builder_finish_sorted: "sorted (map re_key (ev_values (builder_finish s)))"
  by (simp add: builder_finish_def re_less_fun sort_by_key)

lemma snapshot_find_linear:
  "snapshot_find (builder_finish s) path kind
     = find (\<lambda>e. re_path e = path \<and> re_kind e = kind) (ev_values (builder_finish s))"
proof -
  define vs where "vs = ev_values (builder_finish s)"
  let ?P = "\<lambda>e. re_path e = path \<and> re_kind e = kind"
  have "snapshot_find (builder_finish s) path kind
      = map_option ((!) vs) (search (\<lambda>e. before e path kind) ?P vs)"
    by (simp only: snapshot_find_def search_def lower_bound_def Let_def vs_def[symmetric]) simp
  also have "\<dots> = find ?P vs"
    by (rule search_find[where key = re_key]) (auto simp: vs_def builder_finish_sorted before_key re_key_def)
  finally show ?thesis by (simp only: vs_def)
qed

text \<open>
  The binary search of a finished snapshot is exactly a linear scan for the first value of
  that path and metric: it never misses a value that is present and never reads out of bounds.
\<close>

theorem snapshot_find_is_linear_search:
  "snapshot_find (builder_finish s) path kind
     = find (\<lambda>e. re_path e = path \<and> re_kind e = kind) (ev_values (builder_finish s))"
  by (rule snapshot_find_linear)

text \<open>
  a finished snapshot does not depend on the order in which its facts were added: permuted
  bindings give the same canonical binding vector, and permuted values with distinct
  (path, metric) keys give the same value vector.
\<close>

theorem snapshot_canonical:
  assumes "mset (ev_bindings a) = mset (ev_bindings b)" and "mset (ev_values a) = mset (ev_values b)"
    and "distinct (map re_key (ev_values a))"
  shows "ev_bindings (builder_finish a) = ev_bindings (builder_finish b)
    \<and> ev_values (builder_finish a) = ev_values (builder_finish b)"
proof -
  have "ranking re_less (\<lambda>x. x \<in> set (ev_values a))"
    using assms(3) by (intro re_less_ranking) (simp add: distinct_map)
  from ranking.sort_canonical[OF this assms(2)] show ?thesis
    using binding_order.sort_canonical[OF assms(1)] by (simp add: builder_finish_def)
qed

definition sample_binding :: "string \<Rightarrow> evidence_binding" where
  "sample_binding t = \<lparr>eb_source = StrongId t, eb_source_generation = gen_first, eb_path = StrongId t, eb_kind = PATH_LATENCY\<rparr>"

definition sample_resolved :: "string \<Rightarrow> resolved_evidence" where
  "sample_resolved t = \<lparr>re_path = StrongId t, re_kind = PATH_LATENCY, re_quality = PRIMARY, re_source = StrongId t,
     re_source_generation = gen_first, re_aggregate = default_aggregate\<rparr>"

definition sample_snapshot :: "string list \<Rightarrow> evidence_snapshot" where
  "sample_snapshot ts = \<lparr>ev_id = no_id, ev_generation = gen_first, ev_epoch = gen_first, ev_captured_at = 0,
     ev_bindings = map sample_binding ts, ev_values = map sample_resolved ts\<rparr>"

theorem snapshot_canonical_witness:
  "ev_bindings (builder_finish (sample_snapshot [''a'', ''b''])) = ev_bindings (builder_finish (sample_snapshot [''b'', ''a'']))
   \<and> ev_values (builder_finish (sample_snapshot [''a'', ''b''])) = ev_values (builder_finish (sample_snapshot [''b'', ''a'']))"
  using snapshot_canonical[of "sample_snapshot [''a'', ''b'']" "sample_snapshot [''b'', ''a'']"]
  by (simp add: sample_snapshot_def sample_binding_def sample_resolved_def re_key_def add_mset_commute)

end
