(* ===== verification/Policy.thy ===== *)
theory Policy
  imports Evidence
begin

text \<open>
  The adaptation policy (\<^verbatim>\<open>include/adaptive_routing/policy.hpp\<close>, \<^verbatim>\<open>src/policy.cpp\<close>): scope, target,
  triggers, hold-down, cooldown, dampening, churn, objective, emergency rule, their validation and
  their canonical text.  \<open>ps_valid\<close> returns the reason the code writes on failure, \<open>None\<close> when the
  semantics are accepted.
\<close>

section \<open>Scope and target\<close>

record policy_scope =
  sc_fabric :: fabric_id
  sc_namespace :: routing_namespace
  sc_site :: "site_id option"
  sc_path_class :: path_class
  sc_routes :: "route_id list"
  sc_multipath_sets :: "multipath_set_id list"

definition sc_well_formed :: "policy_scope \<Rightarrow> bool" where
  "sc_well_formed s =
    (if \<not> id_valid (sc_fabric s) \<or> \<not> id_valid (sc_namespace s) then False
     else if has_duplicates (sc_routes s) \<or> has_duplicates (sc_multipath_sets s) then False
     else True)"

definition site_covered :: "site_id option \<Rightarrow> site_id option \<Rightarrow> bool" where
  "site_covered required actual =
    (case required of None \<Rightarrow> True
     | Some s \<Rightarrow> (case actual of None \<Rightarrow> False | Some a \<Rightarrow> a = s))"

definition sc_covers_route ::
    "policy_scope \<Rightarrow> fabric_id \<Rightarrow> routing_namespace \<Rightarrow> site_id option \<Rightarrow> route_id \<Rightarrow> bool" where
  "sc_covers_route s fabric namespace site route =
    (if sc_fabric s \<noteq> fabric \<or> sc_namespace s \<noteq> namespace then False
     else if \<not> site_covered (sc_site s) site then False
     else if sc_routes s = [] then True
     else route \<in> set (sc_routes s))"

definition sc_covers_multipath_set ::
    "policy_scope \<Rightarrow> fabric_id \<Rightarrow> routing_namespace \<Rightarrow> site_id option \<Rightarrow> multipath_set_id \<Rightarrow> bool" where
  "sc_covers_multipath_set s fabric namespace site set_id =
    (if sc_fabric s \<noteq> fabric \<or> sc_namespace s \<noteq> namespace then False
     else if \<not> site_covered (sc_site s) site then False
     else if sc_multipath_sets s = [] then True
     else set_id \<in> set (sc_multipath_sets s))"

definition sc_covers_path_class :: "policy_scope \<Rightarrow> path_class \<Rightarrow> bool" where
  "sc_covers_path_class s v = (if \<not> id_valid (sc_path_class s) then True else id_valid v \<and> v = sc_path_class s)"

fun join_with :: "string \<Rightarrow> string list \<Rightarrow> string" where
  "join_with sep [] = []"
| "join_with sep [x] = x"
| "join_with sep (x # y # zs) = x @ sep @ join_with sep (y # zs)"

definition ids_or_star :: "'a strong_id list \<Rightarrow> string" where
  "ids_or_star is = (if is = [] then ''*'' else join_with '','' (map id_text is))"

definition sc_render :: "policy_scope \<Rightarrow> string" where
  "sc_render s = ''fabric='' @ id_text (sc_fabric s) @ '' namespace='' @ id_text (sc_namespace s)
     @ (case sc_site s of None \<Rightarrow> [] | Some x \<Rightarrow> '' site='' @ id_text x)
     @ (if id_valid (sc_path_class s) then '' path_class='' @ id_text (sc_path_class s) else [])
     @ '' routes='' @ ids_or_star (sc_routes s) @ '' multipath_sets='' @ ids_or_star (sc_multipath_sets s)"

record policy_target =
  pt_route :: route_id
  pt_multipath_set :: "multipath_set_id option"

definition pt_well_formed :: "policy_target \<Rightarrow> bool" where
  "pt_well_formed t = id_valid (pt_route t)"

definition pt_render :: "policy_target \<Rightarrow> string" where
  "pt_render t = ''route='' @ id_text (pt_route t)
     @ (case pt_multipath_set t of None \<Rightarrow> [] | Some m \<Rightarrow> '' multipath_set='' @ id_text m)"

section \<open>Trigger conditions\<close>

definition at_least_as_bad :: "metric_value \<Rightarrow> metric_value \<Rightarrow> bool" where
  "at_least_as_bad v reference =
    (if md_orientation (describe_metric (mv_kind v)) = LOWER_IS_BETTER
     then mv_value v \<ge> mv_value reference else mv_value v \<le> mv_value reference)"

definition at_least_as_good :: "metric_value \<Rightarrow> metric_value \<Rightarrow> bool" where
  "at_least_as_good v reference =
    (if md_orientation (describe_metric (mv_kind v)) = LOWER_IS_BETTER
     then mv_value v \<le> mv_value reference else mv_value v \<ge> mv_value reference)"

record threshold_rule =
  tr_kind :: metric_kind
  tr_switch_value :: metric_value
  tr_clear_value :: metric_value

definition tr_valid :: "threshold_rule \<Rightarrow> bool" where
  "tr_valid r =
    (if \<not> mv_valid (tr_switch_value r) \<or> \<not> mv_valid (tr_clear_value r) then False
     else if mv_kind (tr_switch_value r) \<noteq> tr_kind r \<or> mv_kind (tr_clear_value r) \<noteq> tr_kind r then False
     else if \<not> mv_comparable (tr_switch_value r) (tr_clear_value r) then False
     else if at_least_as_good (tr_switch_value r) (tr_clear_value r) then False
     else at_least_as_bad (tr_switch_value r) (tr_clear_value r))"

definition tr_render :: "threshold_rule \<Rightarrow> string" where
  "tr_render r = metric_kind_to_string (tr_kind r)
     @ '' switch>='' @ dec_int (if mv_valid (tr_switch_value r) then mv_value (tr_switch_value r) else 0)
     @ '' clear<='' @ dec_int (if mv_valid (tr_clear_value r) then mv_value (tr_clear_value r) else 0)"

record improvement_rule =
  ir_kind :: metric_kind
  ir_switch_bps :: u32
  ir_reverse_bps :: u32

definition ir_valid :: "improvement_rule \<Rightarrow> bool" where
  "ir_valid r =
    (if ir_switch_bps r > basis_points_scale \<or> ir_reverse_bps r > basis_points_scale then False
     else ir_switch_bps r \<noteq> 0 \<or> ir_reverse_bps r \<noteq> 0)"

definition u32_text :: "u32 \<Rightarrow> string" where
  "u32_text w = dec (unat w)"

definition ir_render :: "improvement_rule \<Rightarrow> string" where
  "ir_render r = metric_kind_to_string (ir_kind r) @ '' switch_bps='' @ u32_text (ir_switch_bps r)
     @ '' reverse_bps='' @ u32_text (ir_reverse_bps r)"

section \<open>Hold-down, cooldown, dampening, churn\<close>

definition duration_render :: "ticks \<Rightarrow> string" where
  "duration_render d = ''duration_ms='' @ ms_text d"

record dampening_rule =
  dr_enabled :: bool
  dr_penalty_increment :: u32
  dr_max_penalty :: u32
  dr_penalty_decay_interval :: ticks
  dr_penalty_decay_step :: u32
  dr_hold_down_escalation_step :: ticks
  dr_max_effective_hold_down :: ticks

definition dr_valid :: "dampening_rule \<Rightarrow> bool" where
  "dr_valid r =
    (if \<not> dr_enabled r then
       dr_penalty_increment r = 0 \<and> dr_max_penalty r = 0 \<and> dr_penalty_decay_interval r = 0
       \<and> dr_penalty_decay_step r = 0 \<and> dr_hold_down_escalation_step r = 0 \<and> dr_max_effective_hold_down r = 0
     else if dr_penalty_increment r = 0 \<or> dr_max_penalty r < dr_penalty_increment r then False
     else if dr_penalty_decay_interval r = 0 \<or> dr_penalty_decay_step r = 0 then False
     else if dr_hold_down_escalation_step r = 0 \<or> dr_max_effective_hold_down r = 0 then False
     else True)"

definition dr_render :: "dampening_rule \<Rightarrow> string" where
  "dr_render r = (if \<not> dr_enabled r then ''disabled''
     else ''increment='' @ u32_text (dr_penalty_increment r) @ '' max_penalty='' @ u32_text (dr_max_penalty r)
       @ '' decay_ms='' @ ms_text (dr_penalty_decay_interval r)
       @ '' decay_step='' @ u32_text (dr_penalty_decay_step r)
       @ '' escalation_ms='' @ ms_text (dr_hold_down_escalation_step r)
       @ '' max_hold_down_ms='' @ ms_text (dr_max_effective_hold_down r))"

record churn_bounds =
  cb_max_adaptations :: u32
  cb_window :: ticks

definition cb_enabled :: "churn_bounds \<Rightarrow> bool" where
  "cb_enabled c = (cb_max_adaptations c \<noteq> 0)"

definition cb_valid :: "churn_bounds \<Rightarrow> bool" where
  "cb_valid c = (\<not> cb_enabled c \<or> cb_window c \<noteq> 0)"

definition cb_render :: "churn_bounds \<Rightarrow> string" where
  "cb_render c = (if \<not> cb_enabled c then ''unbounded''
     else ''max_per_window='' @ u32_text (cb_max_adaptations c) @ '' window_ms='' @ ms_text (cb_window c))"

section \<open>Objective and emergency\<close>

datatype objective_mode = LEXICOGRAPHIC | WEIGHTED_SCORE

definition objective_mode_to_string :: "objective_mode \<Rightarrow> string" where
  "objective_mode_to_string m = (case m of LEXICOGRAPHIC \<Rightarrow> ''LEXICOGRAPHIC'' | WEIGHTED_SCORE \<Rightarrow> ''WEIGHTED_SCORE'')"

definition parse_objective_mode :: "string \<Rightarrow> objective_mode option" where
  "parse_objective_mode = parse_by objective_mode_to_string [LEXICOGRAPHIC, WEIGHTED_SCORE]"

definition valid_objective_mode :: "u8 \<Rightarrow> bool" where
  "valid_objective_mode raw = (1 \<le> raw \<and> raw \<le> 2)"

record objective_spec =
  os_mode :: objective_mode
  os_terms :: "score_term list"
  os_scoring_version :: u32

fun os_terms_ok :: "objective_mode \<Rightarrow> score_term list \<Rightarrow> bool" where
  "os_terms_ok mode [] = True"
| "os_terms_ok mode (t # ts) =
    (if \<not> valid_metric_kind (metric_kind_raw (st_kind t)) then False
     else if mode = LEXICOGRAPHIC then (if st_weight_bps t \<noteq> 0 then False else os_terms_ok mode ts)
     else if st_weight_bps t = 0 \<or> st_weight_bps t > basis_points_scale then False
     else os_terms_ok mode ts)"

definition os_weight_sum :: "score_term list \<Rightarrow> u64" where
  "os_weight_sum ts = fold (\<lambda>t acc. acc + ucast (st_weight_bps t)) ts 0"

definition os_valid :: "objective_spec \<Rightarrow> bool" where
  "os_valid s =
    (if os_terms s = [] then False
     else if os_scoring_version s \<noteq> weighted_score_formula_version then False
     else if \<not> os_terms_ok (os_mode s) (os_terms s) then False
     else if has_duplicates (map st_kind (os_terms s)) then False
     else if os_mode s = WEIGHTED_SCORE \<and> os_weight_sum (os_terms s) \<noteq> ucast basis_points_scale then False
     else True)"

definition os_render :: "objective_spec \<Rightarrow> string" where
  "os_render s = objective_mode_to_string (os_mode s) @ ''(v'' @ u32_text (os_scoring_version s) @ '')''
     @ concat (map (\<lambda>t. '' '' @ metric_kind_to_string (st_kind t)
         @ (if os_mode s = WEIGHTED_SCORE then '':'' @ u32_text (st_weight_bps t) else [])) (os_terms s))"

record candidate_priority =
  cp_path :: path_id
  cp_priority :: u32

record emergency_rule =
  em_enabled :: bool
  em_on_unauthorized :: bool
  em_on_unavailable :: bool
  em_on_hard_failure :: bool

definition em_valid :: "emergency_rule \<Rightarrow> bool" where
  "em_valid e = (\<not> em_enabled e \<or> (em_on_unauthorized e \<or> em_on_unavailable e \<or> em_on_hard_failure e))"

definition em_render :: "emergency_rule \<Rightarrow> string" where
  "em_render e = (if \<not> em_enabled e then ''disabled''
     else ''enabled('' @ join_with '',''
       ((if em_on_unauthorized e then [''unauthorized''] else [])
        @ (if em_on_unavailable e then [''unavailable''] else [])
        @ (if em_on_hard_failure e then [''hard_failure''] else [])) @ '')'')"

section \<open>Policy semantics\<close>

definition policy_semantics_version :: u32 where "policy_semantics_version = 1"

record policy_semantics =
  ps_version :: u32
  ps_target :: policy_target
  ps_thresholds :: "threshold_rule list"
  ps_improvements :: "improvement_rule list"
  ps_evidence :: "evidence_requirement list"
  ps_hold_down :: ticks
  ps_cooldown :: ticks
  ps_dampening :: dampening_rule
  ps_churn :: churn_bounds
  ps_objective :: objective_spec
  ps_emergency :: emergency_rule
  ps_priorities :: "candidate_priority list"

definition ps_has_trigger :: "policy_semantics \<Rightarrow> bool" where
  "ps_has_trigger s = (ps_thresholds s \<noteq> [] \<or> ps_improvements s \<noteq> [])"

definition evidence_covers :: "policy_semantics \<Rightarrow> metric_kind \<Rightarrow> bool" where
  "evidence_covers s kind = (\<exists>r \<in> set (ps_evidence s). er_kind r = kind)"

definition ps_valid :: "policy_semantics \<Rightarrow> string option" where
  "ps_valid s =
    (if ps_version s \<noteq> policy_semantics_version then Some ''unsupported policy semantics version''
     else if \<not> pt_well_formed (ps_target s) then Some ''policy target is not well formed''
     else if \<not> ps_has_trigger s then Some ''policy declares no trigger condition''
     else if \<exists>r \<in> set (ps_thresholds s). \<not> tr_valid r then
       Some ''threshold rule is inverted, degenerate or incomparable''
     else if \<exists>r \<in> set (ps_improvements s). \<not> ir_valid r then
       Some ''improvement rule is out of range or requires nothing''
     else if has_duplicates (map ir_kind (ps_improvements s)) then Some ''duplicate improvement rule for one metric''
     else if has_duplicates (map tr_kind (ps_thresholds s)) then Some ''duplicate threshold rule for one metric''
     else if ps_evidence s = [] then Some ''policy declares no evidence requirement''
     else if \<exists>r \<in> set (ps_evidence s). \<not> er_valid r then
       Some ''evidence requirement is malformed or lacks a freshness bound''
     else if has_duplicates (map er_kind (ps_evidence s)) then Some ''duplicate evidence requirement for one metric''
     else if \<not> dr_valid (ps_dampening s) then Some ''dampening rule is not bounded or is partially configured''
     else if dr_enabled (ps_dampening s) \<and> ps_hold_down s = 0 then Some ''dampening requires a non-zero base hold-down''
     else if dr_enabled (ps_dampening s) \<and> dr_max_effective_hold_down (ps_dampening s) < ps_hold_down s then
       Some ''dampening cap is below the base hold-down''
     else if \<not> cb_valid (ps_churn s) then Some ''churn bound has no window''
     else if \<not> os_valid (ps_objective s) then Some ''objective specification is empty, duplicated or not normalized''
     else if \<not> em_valid (ps_emergency s) then Some ''emergency override is enabled without a condition''
     else if \<exists>p \<in> set (ps_priorities s). \<not> id_valid (cp_path p) then Some ''candidate priority names an invalid path''
     else if has_duplicates (map cp_path (ps_priorities s)) then Some ''duplicate candidate priority for one path''
     else if \<exists>r \<in> set (ps_improvements s). \<not> evidence_covers s (ir_kind r) then
       Some ''improvement rule uses a metric with no evidence requirement''
     else if \<exists>r \<in> set (ps_thresholds s). \<not> evidence_covers s (tr_kind r) then
       Some ''threshold rule uses a metric with no evidence requirement''
     else if \<exists>t \<in> set (os_terms (ps_objective s)). \<not> evidence_covers s (st_kind t) then
       Some ''objective term uses a metric with no evidence requirement''
     else None)"

definition ps_render :: "policy_semantics \<Rightarrow> string" where
  "ps_render s = ''semantics_version='' @ u32_text (ps_version s) @ '' target['' @ pt_render (ps_target s) @ '']''
     @ concat (map (\<lambda>r. '' threshold['' @ tr_render r @ '']'') (ps_thresholds s))
     @ concat (map (\<lambda>r. '' improvement['' @ ir_render r @ '']'') (ps_improvements s))
     @ concat (map (\<lambda>r. '' evidence['' @ er_render r @ '']'') (ps_evidence s))
     @ '' hold_down['' @ duration_render (ps_hold_down s) @ '']''
     @ '' cooldown['' @ duration_render (ps_cooldown s) @ '']''
     @ '' dampening['' @ dr_render (ps_dampening s) @ '']''
     @ '' churn['' @ cb_render (ps_churn s) @ '']''
     @ '' objective['' @ os_render (ps_objective s) @ '']''
     @ '' emergency['' @ em_render (ps_emergency s) @ '']''
     @ concat (map (\<lambda>p. '' priority['' @ id_text (cp_path p) @ ''='' @ u32_text (cp_priority p) @ '']'') (ps_priorities s))"

section \<open>The policy object\<close>

record adaptive_policy =
  ap_id :: policy_id
  ap_name :: policy_name
  ap_scope :: policy_scope
  ap_semantics :: policy_semantics
  ap_generation :: policy_generation
  ap_lifecycle :: policy_lifecycle
  ap_epoch :: coordinator_epoch
  ap_owner :: publisher_id
  ap_authority_generation :: adaptive_authority_generation
  ap_declared_at :: ticks
  ap_updated_at :: ticks

definition ap_well_formed :: "adaptive_policy \<Rightarrow> bool" where
  "ap_well_formed p = (id_valid (ap_id p) \<and> id_valid (ap_name p) \<and> sc_well_formed (ap_scope p)
     \<and> pt_well_formed (ps_target (ap_semantics p)) \<and> gen_valid (ap_generation p) \<and> gen_valid (ap_epoch p)
     \<and> id_valid (ap_owner p))"

record policy_update =
  pu_scope :: policy_scope
  pu_semantics :: policy_semantics

section \<open>What validation guarantees\<close>

lemma basis_points_scale_uint [simp]: "uint basis_points_scale = 10000"
  by (simp add: basis_points_scale_def)

lemma os_terms_weights:
  "os_terms_ok WEIGHTED_SCORE ts \<Longrightarrow> t \<in> set ts \<Longrightarrow> uint (st_weight_bps t) \<le> 10000"
  by (induction ts) (auto simp: word_le_def not_less word_less_def basis_points_scale_def split: if_splits)

lemma metric_kinds_finite: "distinct (ks :: metric_kind list) \<Longrightarrow> length ks \<le> 10"
proof -
  assume d: "distinct ks"
  have "set ks \<subseteq> set [PATH_UTILIZATION, LINK_UTILIZATION, PATH_LATENCY, QUEUE_PRESSURE, PACKET_LOSS,
      ERROR_RATE, HEALTH_DEGRADATION, CONGESTION_SCORE, PATH_QUALITY, OPERATOR_POLICY_SIGNAL]" (is "_ \<subseteq> set ?l")
    using metric_kind.exhaust by auto
  then have "card (set ks) \<le> card (set ?l)" by (intro card_mono) auto
  also have "\<dots> \<le> 10" by (rule order_trans[OF card_length]) simp
  finally show ?thesis using d by (simp add: distinct_card)
qed

lemma os_weight_sum_uint:
  "length ts \<le> 10 \<Longrightarrow> (\<forall>t \<in> set ts. uint (st_weight_bps t) \<le> 10000) \<Longrightarrow>
   uint (os_weight_sum ts) = weight_sum ts"
proof -
  have gen: "uint acc + 10000 * int (length ts) \<le> 2 ^ 63 \<Longrightarrow> (\<forall>t \<in> set ts. uint (st_weight_bps t) \<le> 10000) \<Longrightarrow>
      uint (fold (\<lambda>t acc. acc + ucast (st_weight_bps t)) ts acc) = uint acc + weight_sum ts" for acc :: u64
  proof (induction ts arbitrary: acc)
    case (Cons t ts)
    have t: "uint (st_weight_bps t) \<le> 10000" using Cons.prems by simp
    have uc: "uint (ucast (st_weight_bps t) :: u64) = uint (st_weight_bps t)"
      by (rule uint_up_ucast) (simp add: is_up_def source_size_def target_size_def word_size)
    have "uint acc + uint (st_weight_bps t) < 2 ^ 64"
      using Cons.prems(1) t uint_lt2p[of acc] by simp
    then have s: "uint (acc + ucast (st_weight_bps t)) = uint acc + uint (st_weight_bps t)"
      by (simp add: uint_word_ariths uc)
    have "uint (acc + ucast (st_weight_bps t)) + 10000 * int (length ts) \<le> 2 ^ 63"
      using Cons.prems(1) t unfolding s by simp
    from Cons.IH[OF this] Cons.prems(2) show ?case by (simp add: s)
  qed (simp add: weight_sum_def)
  assume "length ts \<le> 10" "\<forall>t \<in> set ts. uint (st_weight_bps t) \<le> 10000"
  then show ?thesis using gen[of 0] by (simp add: os_weight_sum_def)
qed

lemma os_valid_weights:
  assumes "os_valid spec" "os_mode spec = WEIGHTED_SCORE"
  shows "weight_sum (os_terms spec) = 10000" "os_terms spec \<noteq> []"
proof -
  from assms have d: "distinct (map st_kind (os_terms spec))" and ok: "os_terms_ok WEIGHTED_SCORE (os_terms spec)"
    and sum: "os_weight_sum (os_terms spec) = ucast basis_points_scale" and ne: "os_terms spec \<noteq> []"
    by (auto simp: os_valid_def split: if_splits)
  have "length (os_terms spec) \<le> 10" using metric_kinds_finite[OF d] by simp
  then have "weight_sum (os_terms spec) = uint (os_weight_sum (os_terms spec))"
    using os_weight_sum_uint os_terms_weights[OF ok] by simp
  also have "\<dots> = 10000" by (simp add: sum basis_points_scale_def)
  finally show "weight_sum (os_terms spec) = 10000" "os_terms spec \<noteq> []" using ne by simp_all
qed

lemma ps_validD:
  assumes "ps_valid s = None"
  shows "ps_version s = policy_semantics_version" "pt_well_formed (ps_target s)" "ps_has_trigger s"
    and "\<forall>r \<in> set (ps_thresholds s). tr_valid r" "\<forall>r \<in> set (ps_improvements s). ir_valid r"
    and "distinct (map ir_kind (ps_improvements s))" "distinct (map tr_kind (ps_thresholds s))"
    and "ps_evidence s \<noteq> []" "\<forall>r \<in> set (ps_evidence s). er_valid r" "distinct (map er_kind (ps_evidence s))"
    and "dr_valid (ps_dampening s)"
    and "dr_enabled (ps_dampening s) \<Longrightarrow> ps_hold_down s \<noteq> 0 \<and> ps_hold_down s \<le> dr_max_effective_hold_down (ps_dampening s)"
    and "cb_valid (ps_churn s)" "os_valid (ps_objective s)" "em_valid (ps_emergency s)"
    and "\<forall>p \<in> set (ps_priorities s). id_valid (cp_path p)" "distinct (map cp_path (ps_priorities s))"
    and "\<forall>r \<in> set (ps_improvements s). evidence_covers s (ir_kind r)"
    and "\<forall>r \<in> set (ps_thresholds s). evidence_covers s (tr_kind r)"
    and "\<forall>t \<in> set (os_terms (ps_objective s)). evidence_covers s (st_kind t)"
  using assms unfolding ps_valid_def by (simp_all split: if_splits add: not_less)

text \<open>
  the hysteresis band of an accepted threshold is a real gap: no value of that metric is at once
  bad enough to leave the current path and good enough to be entered, and the two edges themselves
  are on opposite sides of it.
\<close>

theorem hysteresis_gap:
  assumes "tr_valid r" and "mv_kind v = tr_kind r"
  shows "\<not> (at_least_as_bad v (tr_switch_value r) \<and> at_least_as_good v (tr_clear_value r))
    \<and> \<not> at_least_as_good (tr_switch_value r) (tr_clear_value r) \<and> \<not> at_least_as_bad (tr_clear_value r) (tr_switch_value r)"
  using assms by (auto simp: tr_valid_def at_least_as_bad_def at_least_as_good_def split: if_splits)

definition sample_value :: "int \<Rightarrow> metric_value" where
  "sample_value n = \<lparr>mv_kind = PATH_LATENCY, mv_unit = MICROSECONDS, mv_semantics_version = 1, mv_value = n, mv_valid = True\<rparr>"

lemma latency_orientation: "md_orientation (describe_metric PATH_LATENCY) = LOWER_IS_BETTER"
  by (simp add: describe_metric_def find_entry_def metric_table_def mk_descriptor_def del: find_entry_some)

theorem hysteresis_gap_witness:
  "\<not> (at_least_as_bad (sample_value 150) (sample_value 200) \<and> at_least_as_good (sample_value 150) (sample_value 100))"
  using hysteresis_gap[of "\<lparr>tr_kind = PATH_LATENCY, tr_switch_value = sample_value 200, tr_clear_value = sample_value 100\<rparr>" "sample_value 150"]
  by (simp add: sample_value_def tr_valid_def mv_comparable_def at_least_as_bad_def at_least_as_good_def latency_orientation)

text \<open>
  accepted semantics are evaluable: every metric a trigger or the objective names has exactly one
  evidence requirement, that requirement carries a freshness bound and a sample minimum, and a
  weighted objective scores every complete set of values to a defined score of at most 10000.
\<close>

theorem accepted_semantics_evaluable:
  assumes "ps_valid s = None"
  shows "(\<forall>k \<in> tr_kind ` set (ps_thresholds s) \<union> ir_kind ` set (ps_improvements s) \<union> st_kind ` set (os_terms (ps_objective s)).
            \<exists>!r. r \<in> set (ps_evidence s) \<and> er_kind r = k)
    \<and> (\<forall>r \<in> set (ps_evidence s). er_max_age r \<noteq> 0 \<and> er_min_samples r \<noteq> 0 \<and> er_min_window r \<le> er_max_age r)
    \<and> (\<forall>vs. os_mode (ps_objective s) = WEIGHTED_SCORE \<and> list_all2 scorable (os_terms (ps_objective s)) vs \<longrightarrow>
         (\<exists>w. weighted_score (os_terms (ps_objective s)) vs = Some w \<and> w \<le> 10000))"
proof (intro conjI ballI allI impI)
  note v = ps_validD[OF assms]
  have inj: "inj_on er_kind (set (ps_evidence s))" using v(10) by (simp add: distinct_map)
  fix k assume "k \<in> tr_kind ` set (ps_thresholds s) \<union> ir_kind ` set (ps_improvements s) \<union> st_kind ` set (os_terms (ps_objective s))"
  then have "evidence_covers s k" using v(18-20) by auto
  then show "\<exists>!r. r \<in> set (ps_evidence s) \<and> er_kind r = k"
    using inj by (auto simp: evidence_covers_def dest: inj_onD)
next
  fix r assume "r \<in> set (ps_evidence s)"
  then have "er_valid r" using ps_validD(9)[OF assms] by blast
  then show "er_max_age r \<noteq> 0" "er_min_samples r \<noteq> 0" "er_min_window r \<le> er_max_age r"
    by (auto simp: er_valid_def split: if_splits)
next
  fix vs assume "os_mode (ps_objective s) = WEIGHTED_SCORE \<and> list_all2 scorable (os_terms (ps_objective s)) vs"
  then show "\<exists>w. weighted_score (os_terms (ps_objective s)) vs = Some w \<and> w \<le> 10000"
    using weighted_score_spec os_valid_weights[OF ps_validD(14)[OF assms]] by blast
qed

definition sample_requirement :: evidence_requirement where
  "sample_requirement = \<lparr>er_kind = PATH_LATENCY, er_aggregation = MEAN, er_ewma_alpha_bps = 0, er_min_samples = 1,
     er_max_age = 5000000000, er_min_window = 0, er_min_quality = AGGREGATED, er_required = True\<rparr>"

definition sample_semantics :: policy_semantics where
  "sample_semantics = \<lparr>ps_version = 1, ps_target = \<lparr>pt_route = StrongId ''r1'', pt_multipath_set = None\<rparr>,
     ps_thresholds = [],
     ps_improvements = [\<lparr>ir_kind = PATH_LATENCY, ir_switch_bps = 1000, ir_reverse_bps = 2000\<rparr>],
     ps_evidence = [sample_requirement], ps_hold_down = 1000000000, ps_cooldown = 0,
     ps_dampening = \<lparr>dr_enabled = False, dr_penalty_increment = 0, dr_max_penalty = 0, dr_penalty_decay_interval = 0,
       dr_penalty_decay_step = 0, dr_hold_down_escalation_step = 0, dr_max_effective_hold_down = 0\<rparr>,
     ps_churn = \<lparr>cb_max_adaptations = 0, cb_window = 0\<rparr>,
     ps_objective = \<lparr>os_mode = WEIGHTED_SCORE, os_terms = [\<lparr>st_kind = PATH_LATENCY, st_weight_bps = 10000\<rparr>], os_scoring_version = 1\<rparr>,
     ps_emergency = \<lparr>em_enabled = False, em_on_unauthorized = False, em_on_unavailable = False, em_on_hard_failure = False\<rparr>,
     ps_priorities = []\<rparr>"

lemma sample_semantics_valid: "ps_valid sample_semantics = None"
  by (simp add: ps_valid_def sample_semantics_def sample_requirement_def policy_semantics_version_def pt_well_formed_def
    id_valid_def ps_has_trigger_def ir_valid_def basis_points_scale_def er_valid_def valid_metric_kind_def metric_table_def
    metric_kind_raw_def valid_aggregation_kind_def aggregation_kind_raw_def valid_evidence_quality_def evidence_quality_raw_def
    dr_valid_def cb_valid_def cb_enabled_def os_valid_def weighted_score_formula_version_def os_weight_sum_def em_valid_def
    evidence_covers_def)

theorem accepted_semantics_evaluable_witness:
  "\<exists>w. weighted_score (os_terms (ps_objective sample_semantics)) [sample_value 1000] = Some w \<and> w \<le> 10000"
proof -
  have "mv_decode PATH_LATENCY MICROSECONDS 1 1000 = Some (sample_value 1000)"
    by (simp add: mv_decode_def sample_value_def describe_metric_def find_entry_def metric_table_def mk_descriptor_def
      latency_max_def del: find_entry_some)
  then have "list_all2 scorable (os_terms (ps_objective sample_semantics)) [sample_value 1000]"
    by (simp add: sample_semantics_def scorable_def mv_ok_def sample_value_def)
  moreover have "os_mode (ps_objective sample_semantics) = WEIGHTED_SCORE" by (simp add: sample_semantics_def)
  ultimately show ?thesis using accepted_semantics_evaluable[OF sample_semantics_valid] by blast
qed

end
