(* ===== verification/Authority.thy ===== *)
theory Authority
  imports Policy
begin

text \<open>
  Mutation authority (\<^verbatim>\<open>include/adaptive_routing/authority.hpp\<close>, \<^verbatim>\<open>src/authority.cpp\<close>) and the upstream
  binding contracts (\<^verbatim>\<open>include/adaptive_routing/upstream.hpp\<close>, \<^verbatim>\<open>src/upstream.cpp\<close>): scopes,
  registrations, fences, revocations, provenance, mutation contexts, candidate bindings and upstream
  notifications.
\<close>

section \<open>Authority scope\<close>

record authority_scope =
  as_fabric :: fabric_id
  as_namespace :: routing_namespace
  as_routes :: "route_id list"
  as_multipath_sets :: "multipath_set_id list"

definition as_well_formed :: "authority_scope \<Rightarrow> bool" where
  "as_well_formed s =
    (if \<not> id_valid (as_fabric s) \<or> \<not> id_valid (as_namespace s) then False
     else if has_duplicates (as_routes s) then False
     else \<not> has_duplicates (as_multipath_sets s))"

definition as_covers_namespace :: "authority_scope \<Rightarrow> fabric_id \<Rightarrow> routing_namespace \<Rightarrow> bool" where
  "as_covers_namespace s f n = (as_fabric s = f \<and> as_namespace s = n)"

definition as_covers_route :: "authority_scope \<Rightarrow> fabric_id \<Rightarrow> routing_namespace \<Rightarrow> route_id \<Rightarrow> bool" where
  "as_covers_route s f n route =
    (if \<not> as_covers_namespace s f n then False
     else if as_routes s = [] then True
     else route \<in> set (as_routes s))"

definition as_covers_multipath_set ::
    "authority_scope \<Rightarrow> fabric_id \<Rightarrow> routing_namespace \<Rightarrow> multipath_set_id \<Rightarrow> bool" where
  "as_covers_multipath_set s f n set_id =
    (if \<not> as_covers_namespace s f n then False
     else if as_multipath_sets s = [] then True
     else set_id \<in> set (as_multipath_sets s))"

definition as_render :: "authority_scope \<Rightarrow> string" where
  "as_render s = ''fabric='' @ id_text (as_fabric s) @ '' namespace='' @ id_text (as_namespace s)
     @ '' routes='' @ ids_or_star (as_routes s) @ '' multipath_sets='' @ ids_or_star (as_multipath_sets s)"

definition gen_text :: "'a generation \<Rightarrow> string" where
  "gen_text g = dec (unat (gen_value g))"

section \<open>Registrations, fences, revocations\<close>

record publisher_registration =
  pr_publisher :: publisher_id
  pr_worker_boot :: worker_boot_id
  pr_scope :: authority_scope
  pr_epoch :: coordinator_epoch
  pr_authority_generation :: adaptive_authority_generation
  pr_session :: session_id

definition pr_render :: "publisher_registration \<Rightarrow> string" where
  "pr_render r = ''publisher='' @ id_text (pr_publisher r) @ '' boot='' @ id_text (pr_worker_boot r)
     @ '' epoch='' @ gen_text (pr_epoch r) @ '' authority='' @ gen_text (pr_authority_generation r)
     @ '' session='' @ id_text (pr_session r) @ '' scope['' @ as_render (pr_scope r) @ '']''"

record fence_record =
  fr_publisher :: publisher_id
  fr_worker_boot :: worker_boot_id
  fr_epoch :: coordinator_epoch
  fr_cause :: string

definition fr_render :: "fence_record \<Rightarrow> string" where
  "fr_render f = ''publisher='' @ id_text (fr_publisher f) @ '' boot='' @ id_text (fr_worker_boot f)
     @ '' epoch='' @ gen_text (fr_epoch f) @ '' cause='' @ fr_cause f"

datatype revocation_reason =
    RR_ADMINISTRATIVE | RR_SECURITY | RR_POLICY_VIOLATION | RR_AUTHORITY_REVOKED
  | RR_OPERATOR_REQUEST

definition revocation_reason_to_string :: "revocation_reason \<Rightarrow> string" where
  "revocation_reason_to_string x = (case x of
     RR_ADMINISTRATIVE \<Rightarrow> ''ADMINISTRATIVE'' | RR_SECURITY \<Rightarrow> ''SECURITY'' | RR_POLICY_VIOLATION \<Rightarrow> ''POLICY_VIOLATION''
   | RR_AUTHORITY_REVOKED \<Rightarrow> ''AUTHORITY_REVOKED'' | RR_OPERATOR_REQUEST \<Rightarrow> ''OPERATOR_REQUEST'')"

definition revocation_reason_raw :: "revocation_reason \<Rightarrow> u8" where
  "revocation_reason_raw x = (case x of
     RR_ADMINISTRATIVE \<Rightarrow> 1 | RR_SECURITY \<Rightarrow> 2 | RR_POLICY_VIOLATION \<Rightarrow> 3 | RR_AUTHORITY_REVOKED \<Rightarrow> 4
   | RR_OPERATOR_REQUEST \<Rightarrow> 5)"

definition valid_revocation_reason :: "u8 \<Rightarrow> bool" where
  "valid_revocation_reason raw = (1 \<le> raw \<and> raw \<le> 5)"

definition parse_revocation_reason :: "string \<Rightarrow> revocation_reason option" where
  "parse_revocation_reason = parse_by revocation_reason_to_string [
     RR_ADMINISTRATIVE, RR_SECURITY, RR_POLICY_VIOLATION, RR_AUTHORITY_REVOKED,
     RR_OPERATOR_REQUEST]"

record revocation_record =
  rv_policy :: policy_id
  rv_generation :: policy_generation
  rv_authority_generation :: adaptive_authority_generation
  rv_epoch :: coordinator_epoch
  rv_publisher :: publisher_id
  rv_reason :: revocation_reason
  rv_detail :: string

definition rv_render :: "revocation_record \<Rightarrow> string" where
  "rv_render r = ''policy='' @ id_text (rv_policy r) @ '' generation='' @ gen_text (rv_generation r)
     @ '' epoch='' @ gen_text (rv_epoch r) @ '' reason='' @ revocation_reason_to_string (rv_reason r)
     @ '' publisher='' @ id_text (rv_publisher r)
     @ (if rv_detail r \<noteq> [] then '' detail='' @ rv_detail r else [])"

section \<open>Provenance and mutation contexts\<close>

datatype adaptation_cause =
    AC_DECLARED | AC_POLICY_UPDATED | AC_EVIDENCE_OBSERVED | AC_TRIGGER_SATISFIED
  | AC_EMERGENCY_OVERRIDE | AC_ROLLBACK_REQUESTED | AC_PATH_AUTHORITY_INVALIDATED | AC_MULTIPATH_SET_INVALIDATED
  | AC_ROUTE_INVALIDATED | AC_EPOCH_ADVANCE | AC_RECOVERED | AC_REVALIDATED
  | AC_REVOKED | AC_RETIRED

definition adaptation_cause_to_string :: "adaptation_cause \<Rightarrow> string" where
  "adaptation_cause_to_string x = (case x of
     AC_DECLARED \<Rightarrow> ''DECLARED'' | AC_POLICY_UPDATED \<Rightarrow> ''POLICY_UPDATED'' | AC_EVIDENCE_OBSERVED \<Rightarrow> ''EVIDENCE_OBSERVED''
   | AC_TRIGGER_SATISFIED \<Rightarrow> ''TRIGGER_SATISFIED'' | AC_EMERGENCY_OVERRIDE \<Rightarrow> ''EMERGENCY_OVERRIDE'' | AC_ROLLBACK_REQUESTED \<Rightarrow> ''ROLLBACK_REQUESTED''
   | AC_PATH_AUTHORITY_INVALIDATED \<Rightarrow> ''PATH_AUTHORITY_INVALIDATED'' | AC_MULTIPATH_SET_INVALIDATED \<Rightarrow> ''MULTIPATH_SET_INVALIDATED'' | AC_ROUTE_INVALIDATED \<Rightarrow> ''ROUTE_INVALIDATED''
   | AC_EPOCH_ADVANCE \<Rightarrow> ''EPOCH_ADVANCE'' | AC_RECOVERED \<Rightarrow> ''RECOVERED'' | AC_REVALIDATED \<Rightarrow> ''REVALIDATED''
   | AC_REVOKED \<Rightarrow> ''REVOKED'' | AC_RETIRED \<Rightarrow> ''RETIRED'')"

definition adaptation_cause_raw :: "adaptation_cause \<Rightarrow> u8" where
  "adaptation_cause_raw x = (case x of
     AC_DECLARED \<Rightarrow> 1 | AC_POLICY_UPDATED \<Rightarrow> 2 | AC_EVIDENCE_OBSERVED \<Rightarrow> 3 | AC_TRIGGER_SATISFIED \<Rightarrow> 4
   | AC_EMERGENCY_OVERRIDE \<Rightarrow> 5 | AC_ROLLBACK_REQUESTED \<Rightarrow> 6 | AC_PATH_AUTHORITY_INVALIDATED \<Rightarrow> 7 | AC_MULTIPATH_SET_INVALIDATED \<Rightarrow> 8
   | AC_ROUTE_INVALIDATED \<Rightarrow> 9 | AC_EPOCH_ADVANCE \<Rightarrow> 10 | AC_RECOVERED \<Rightarrow> 11 | AC_REVALIDATED \<Rightarrow> 12
   | AC_REVOKED \<Rightarrow> 13 | AC_RETIRED \<Rightarrow> 14)"

definition valid_adaptation_cause :: "u8 \<Rightarrow> bool" where
  "valid_adaptation_cause raw = (1 \<le> raw \<and> raw \<le> 14)"

record adaptation_provenance =
  av_publisher :: publisher_id
  av_worker_boot :: worker_boot_id
  av_epoch :: coordinator_epoch
  av_attempt :: mutation_attempt_id
  av_policy_generation :: policy_generation
  av_cause :: adaptation_cause

definition no_provenance :: adaptation_provenance where
  "no_provenance = \<lparr>av_publisher = no_id, av_worker_boot = no_id, av_epoch = no_gen, av_attempt = no_id,
     av_policy_generation = no_gen, av_cause = AC_DECLARED\<rparr>"

definition av_render :: "adaptation_provenance \<Rightarrow> string" where
  "av_render p = ''publisher='' @ id_text (av_publisher p) @ '' boot='' @ id_text (av_worker_boot p)
     @ '' epoch='' @ gen_text (av_epoch p) @ '' cause='' @ adaptation_cause_to_string (av_cause p)
     @ (if id_valid (av_attempt p) then '' attempt='' @ id_text (av_attempt p) else [])
     @ (if gen_valid (av_policy_generation p) then '' policy_generation='' @ gen_text (av_policy_generation p) else [])"

record upstream_provenance =
  up_publisher :: publisher_id
  up_worker_boot :: worker_boot_id
  up_epoch :: coordinator_epoch
  up_attempt :: mutation_attempt_id
  up_origin :: string

definition up_render :: "upstream_provenance \<Rightarrow> string" where
  "up_render p = ''origin='' @ up_origin p @ '' publisher='' @ id_text (up_publisher p)
     @ '' boot='' @ id_text (up_worker_boot p) @ '' epoch='' @ gen_text (up_epoch p)
     @ (if id_valid (up_attempt p) then '' attempt='' @ id_text (up_attempt p) else [])"

record mutation_context =
  mc_epoch :: coordinator_epoch
  mc_publisher :: publisher_id
  mc_worker_boot :: worker_boot_id
  mc_session :: session_id
  mc_attempt :: mutation_attempt_id
  mc_expected_policy_generation :: "policy_generation option"
  mc_expected_evidence_generation :: "evidence_generation option"

definition mc_has_caller_identity :: "mutation_context \<Rightarrow> bool" where
  "mc_has_caller_identity c = (gen_valid (mc_epoch c) \<and> id_valid (mc_publisher c) \<and> id_valid (mc_worker_boot c)
     \<and> id_valid (mc_session c) \<and> id_valid (mc_attempt c))"

definition mc_render :: "mutation_context \<Rightarrow> string" where
  "mc_render c = ''epoch='' @ gen_text (mc_epoch c) @ '' publisher='' @ id_text (mc_publisher c)
     @ '' boot='' @ id_text (mc_worker_boot c) @ '' session='' @ id_text (mc_session c)
     @ '' attempt='' @ id_text (mc_attempt c)
     @ (case mc_expected_policy_generation c of None \<Rightarrow> [] | Some g \<Rightarrow> '' expect_policy='' @ gen_text g)
     @ (case mc_expected_evidence_generation c of None \<Rightarrow> [] | Some g \<Rightarrow> '' expect_evidence='' @ gen_text g)"

record authority_description =
  ad_epoch :: coordinator_epoch
  ad_authority_generation :: adaptive_authority_generation
  ad_registrations :: "publisher_registration list"
  ad_fence_records :: "fence_record list"

definition ad_render :: "authority_description \<Rightarrow> string" where
  "ad_render d = ''epoch='' @ gen_text (ad_epoch d) @ '' authority='' @ gen_text (ad_authority_generation d)
     @ concat (map (\<lambda>r. [char_of (10 :: nat)] @ ''  registration['' @ pr_render r @ '']'') (ad_registrations d))
     @ concat (map (\<lambda>f. [char_of (10 :: nat)] @ ''  fence['' @ fr_render f @ '']'') (ad_fence_records d))"

section \<open>Upstream bindings\<close>

record path_authority_binding =
  pa_path :: path_id
  pa_generation :: path_authority_generation
  pa_legal :: bool
  pa_denial_reason :: string

definition pa_well_formed :: "path_authority_binding \<Rightarrow> bool" where
  "pa_well_formed b = (id_valid (pa_path b) \<and> gen_valid (pa_generation b))"

definition pa_render :: "path_authority_binding \<Rightarrow> string" where
  "pa_render b = ''path='' @ id_text (pa_path b) @ '' generation='' @ gen_text (pa_generation b)
     @ (if pa_legal b then '' legal'' else '' denied'')
     @ (if pa_denial_reason b \<noteq> [] then ''('' @ pa_denial_reason b @ '')'' else [])"

record multipath_binding =
  mb_set :: multipath_set_id
  mb_generation :: multipath_set_generation
  mb_members :: "path_id list"
  mb_current :: bool

definition mb_well_formed :: "multipath_binding \<Rightarrow> bool" where
  "mb_well_formed b = (id_valid (mb_set b) \<and> gen_valid (mb_generation b))"

definition mb_contains :: "multipath_binding \<Rightarrow> path_id \<Rightarrow> bool" where
  "mb_contains b p = (p \<in> set (mb_members b))"

definition mb_render :: "multipath_binding \<Rightarrow> string" where
  "mb_render b = ''set='' @ id_text (mb_set b) @ '' generation='' @ gen_text (mb_generation b)
     @ (if mb_current b then '' current'' else '' stale'') @ '' members='' @ join_with '','' (map id_text (mb_members b))"

record route_binding =
  rb_route :: route_id
  rb_generation :: route_generation
  rb_site :: site_id
  rb_current :: bool
  rb_state :: string

definition rb_well_formed :: "route_binding \<Rightarrow> bool" where
  "rb_well_formed b = (id_valid (rb_route b) \<and> gen_valid (rb_generation b))"

definition rb_render :: "route_binding \<Rightarrow> string" where
  "rb_render b = ''route='' @ id_text (rb_route b) @ '' generation='' @ gen_text (rb_generation b)
     @ (if rb_current b then '' current'' else '' stale'')
     @ (if id_valid (rb_site b) then '' site='' @ id_text (rb_site b) else [])
     @ (if rb_state b \<noteq> [] then '' state='' @ rb_state b else [])"

record weighted_policy_binding =
  wb_set :: weighted_path_set_id
  wb_generation :: weight_policy_generation
  wb_current :: bool

definition wb_well_formed :: "weighted_policy_binding \<Rightarrow> bool" where
  "wb_well_formed b = (id_valid (wb_set b) \<and> gen_valid (wb_generation b))"

definition wb_render :: "weighted_policy_binding \<Rightarrow> string" where
  "wb_render b = ''set='' @ id_text (wb_set b) @ '' generation='' @ gen_text (wb_generation b)
     @ (if wb_current b then '' current'' else '' stale'')"

record candidate_binding =
  cd_path :: path_id
  cd_path_authority :: path_authority_binding
  cd_multipath :: "multipath_binding option"
  cd_route :: route_binding
  cd_weighted :: "weighted_policy_binding option"
  cd_path_class :: path_class
  cd_available :: bool
  cd_hard_failure :: bool

definition cd_well_formed :: "candidate_binding \<Rightarrow> bool" where
  "cd_well_formed c = (id_valid (cd_path c) \<and> pa_well_formed (cd_path_authority c) \<and> rb_well_formed (cd_route c))"

definition cd_render :: "candidate_binding \<Rightarrow> string" where
  "cd_render c = ''path='' @ id_text (cd_path c) @ '' authority['' @ pa_render (cd_path_authority c) @ '']''
     @ '' route['' @ rb_render (cd_route c) @ '']''
     @ (case cd_multipath c of None \<Rightarrow> [] | Some m \<Rightarrow> '' multipath['' @ mb_render m @ '']'')
     @ (case cd_weighted c of None \<Rightarrow> [] | Some w \<Rightarrow> '' weighted['' @ wb_render w @ '']'')
     @ (if id_valid (cd_path_class c) then '' class='' @ id_text (cd_path_class c) else [])
     @ (if cd_available c then '' available'' else '' unavailable'')
     @ (if cd_hard_failure c then '' hard_failure'' else [])"

section \<open>Upstream notifications\<close>

datatype upstream_event =
    UE_DECLARE_CANDIDATE | UE_ADVANCE_PATH_AUTHORITY | UE_INVALIDATE_PATH | UE_SET_MEMBERSHIP
  | UE_INVALIDATE_MULTIPATH_SET | UE_ADVANCE_ROUTE | UE_INVALIDATE_ROUTE | UE_ADVANCE_WEIGHT_POLICY
  | UE_MARK_UNAVAILABLE | UE_MARK_AVAILABLE | UE_HARD_FAILURE_SIGNAL | UE_CLEAR_HARD_FAILURE_SIGNAL

definition upstream_event_to_string :: "upstream_event \<Rightarrow> string" where
  "upstream_event_to_string x = (case x of
     UE_DECLARE_CANDIDATE \<Rightarrow> ''DECLARE_CANDIDATE'' | UE_ADVANCE_PATH_AUTHORITY \<Rightarrow> ''ADVANCE_PATH_AUTHORITY'' | UE_INVALIDATE_PATH \<Rightarrow> ''INVALIDATE_PATH''
   | UE_SET_MEMBERSHIP \<Rightarrow> ''SET_MEMBERSHIP'' | UE_INVALIDATE_MULTIPATH_SET \<Rightarrow> ''INVALIDATE_MULTIPATH_SET'' | UE_ADVANCE_ROUTE \<Rightarrow> ''ADVANCE_ROUTE''
   | UE_INVALIDATE_ROUTE \<Rightarrow> ''INVALIDATE_ROUTE'' | UE_ADVANCE_WEIGHT_POLICY \<Rightarrow> ''ADVANCE_WEIGHT_POLICY'' | UE_MARK_UNAVAILABLE \<Rightarrow> ''MARK_UNAVAILABLE''
   | UE_MARK_AVAILABLE \<Rightarrow> ''MARK_AVAILABLE'' | UE_HARD_FAILURE_SIGNAL \<Rightarrow> ''HARD_FAILURE_SIGNAL'' | UE_CLEAR_HARD_FAILURE_SIGNAL \<Rightarrow> ''CLEAR_HARD_FAILURE_SIGNAL'')"

definition upstream_event_raw :: "upstream_event \<Rightarrow> u8" where
  "upstream_event_raw x = (case x of
     UE_DECLARE_CANDIDATE \<Rightarrow> 1 | UE_ADVANCE_PATH_AUTHORITY \<Rightarrow> 2 | UE_INVALIDATE_PATH \<Rightarrow> 3 | UE_SET_MEMBERSHIP \<Rightarrow> 4
   | UE_INVALIDATE_MULTIPATH_SET \<Rightarrow> 5 | UE_ADVANCE_ROUTE \<Rightarrow> 6 | UE_INVALIDATE_ROUTE \<Rightarrow> 7 | UE_ADVANCE_WEIGHT_POLICY \<Rightarrow> 8
   | UE_MARK_UNAVAILABLE \<Rightarrow> 9 | UE_MARK_AVAILABLE \<Rightarrow> 10 | UE_HARD_FAILURE_SIGNAL \<Rightarrow> 11 | UE_CLEAR_HARD_FAILURE_SIGNAL \<Rightarrow> 12)"

definition valid_upstream_event :: "u8 \<Rightarrow> bool" where
  "valid_upstream_event raw = (1 \<le> raw \<and> raw \<le> 12)"

definition parse_upstream_event :: "string \<Rightarrow> upstream_event option" where
  "parse_upstream_event = parse_by upstream_event_to_string [
     UE_DECLARE_CANDIDATE, UE_ADVANCE_PATH_AUTHORITY, UE_INVALIDATE_PATH, UE_SET_MEMBERSHIP,
     UE_INVALIDATE_MULTIPATH_SET, UE_ADVANCE_ROUTE, UE_INVALIDATE_ROUTE, UE_ADVANCE_WEIGHT_POLICY,
     UE_MARK_UNAVAILABLE, UE_MARK_AVAILABLE, UE_HARD_FAILURE_SIGNAL, UE_CLEAR_HARD_FAILURE_SIGNAL]"

definition upstream_event_invalidates :: "upstream_event \<Rightarrow> bool" where
  "upstream_event_invalidates e = (case e of
     UE_ADVANCE_PATH_AUTHORITY \<Rightarrow> True | UE_INVALIDATE_PATH \<Rightarrow> True | UE_SET_MEMBERSHIP \<Rightarrow> True
   | UE_INVALIDATE_MULTIPATH_SET \<Rightarrow> True | UE_ADVANCE_ROUTE \<Rightarrow> True | UE_INVALIDATE_ROUTE \<Rightarrow> True
   | UE_MARK_UNAVAILABLE \<Rightarrow> True | UE_HARD_FAILURE_SIGNAL \<Rightarrow> True | _ \<Rightarrow> False)"

record upstream_notification =
  un_event :: upstream_event
  un_policy :: policy_id
  un_binding :: candidate_binding
  un_provenance :: upstream_provenance
  un_expected_previous :: "u64 option"

definition un_render :: "upstream_notification \<Rightarrow> string" where
  "un_render n = upstream_event_to_string (un_event n) @ '' policy='' @ id_text (un_policy n)
     @ '' binding['' @ cd_render (un_binding n) @ ''] provenance['' @ up_render (un_provenance n) @ '']''
     @ (case un_expected_previous n of None \<Rightarrow> [] | Some g \<Rightarrow> '' expected_previous='' @ dec (unat g))"

lemma enum_tables:
  "parse_revocation_reason (revocation_reason_to_string r) = Some r"
  "parse_upstream_event (upstream_event_to_string e) = Some e"
  by (cases r; simp add: parse_revocation_reason_def revocation_reason_to_string_def)
     (cases e; simp add: parse_upstream_event_def upstream_event_to_string_def)

text \<open>
  an authority scope is default deny: it covers a route or a multipath set only inside the exact
  fabric and routing namespace it names, and a non-empty list covers nothing but its own entries;
  the scope of a policy obeys the same rule and adds its site, which an unknown site never meets.
\<close>

theorem scope_default_deny:
  "(as_covers_route a f n r \<longrightarrow> as_fabric a = f \<and> as_namespace a = n \<and> (as_routes a = [] \<or> r \<in> set (as_routes a)))
   \<and> (as_covers_multipath_set a f n m \<longrightarrow> as_fabric a = f \<and> as_namespace a = n
        \<and> (as_multipath_sets a = [] \<or> m \<in> set (as_multipath_sets a)))
   \<and> (sc_covers_route s f n site r \<longrightarrow> sc_fabric s = f \<and> sc_namespace s = n
        \<and> (sc_site s = None \<or> (site \<noteq> None \<and> site = sc_site s)) \<and> (sc_routes s = [] \<or> r \<in> set (sc_routes s)))"
  by (auto simp: as_covers_route_def as_covers_multipath_set_def as_covers_namespace_def sc_covers_route_def
      site_covered_def split: if_splits option.splits)

definition sample_scope :: authority_scope where
  "sample_scope = \<lparr>as_fabric = StrongId ''f'', as_namespace = StrongId ''n'', as_routes = [StrongId ''r1''], as_multipath_sets = []\<rparr>"

definition sample_policy_scope :: policy_scope where
  "sample_policy_scope = \<lparr>sc_fabric = StrongId ''f'', sc_namespace = StrongId ''n'', sc_site = None, sc_path_class = no_id,
     sc_routes = [StrongId ''r1''], sc_multipath_sets = []\<rparr>"

theorem scope_default_deny_witness:
  "StrongId ''r1'' \<in> set (as_routes sample_scope) \<and> StrongId ''r1'' \<in> set (sc_routes sample_policy_scope)"
  using scope_default_deny[of sample_scope "StrongId ''f''" "StrongId ''n''" "StrongId ''r1''" no_id sample_policy_scope None]
  by (simp add: sample_scope_def sample_policy_scope_def as_covers_route_def as_covers_namespace_def sc_covers_route_def site_covered_def)

end
