(* ===== verification/Codec.thy ===== *)
theory Codec
  imports Ids
begin

text \<open>
  The canonical little-endian byte codec (\<^verbatim>\<open>include/adaptive_routing/codec.hpp\<close>, \<^verbatim>\<open>src/codec.cpp\<close>) and
  the incremental digest (\<^verbatim>\<open>Digest\<close> of \<^verbatim>\<open>src/view.cpp\<close>).  A byte string is a \<open>string\<close>, as in the code.
  A writer is the bytes it appends; a reader maps the remaining input to a value and the rest, and is
  \<open>None\<close> where the code returns \<^verbatim>\<open>std::nullopt\<close> (no caller reads on after a failure).
\<close>

section \<open>Little-endian words\<close>

definition byte_of :: "'a::len word \<Rightarrow> nat \<Rightarrow> char" where
  "byte_of w i = char_of (unat (drop_bit (8 * i) w AND 0xFF))"

definition le_bytes :: "nat \<Rightarrow> 'a::len word \<Rightarrow> string" where
  "le_bytes n w = map (byte_of w) [0..<n]"

definition le_word :: "nat \<Rightarrow> string \<Rightarrow> 'a::len word" where
  "le_word n bs = fold (\<lambda>i acc. acc OR push_bit (8 * i) (of_char (bs ! i))) [0..<n] 0"

definition put_u8 :: "u8 \<Rightarrow> string" where "put_u8 w = [char_of (unat w)]"
definition put_u16 :: "u16 \<Rightarrow> string" where "put_u16 w = le_bytes 2 w"
definition put_u32 :: "u32 \<Rightarrow> string" where "put_u32 w = le_bytes 4 w"
definition put_u64 :: "u64 \<Rightarrow> string" where "put_u64 w = le_bytes 8 w"
definition put_i64 :: "int \<Rightarrow> string" where "put_i64 v = put_u64 (word_of_int v)"
definition put_bool :: "bool \<Rightarrow> string" where "put_bool b = put_u8 (if b then 1 else 0)"

definition put_bytes :: "string \<Rightarrow> string" where
  "put_bytes bs = put_u64 (word_of_nat (length bs)) @ bs"

definition put_string :: "string \<Rightarrow> string" where "put_string = put_bytes"

type_synonym 'a reader = "string \<Rightarrow> ('a \<times> string) option"

definition take_bytes :: "nat \<Rightarrow> string reader" where
  "take_bytes n bs = (if n > length bs then None else Some (take n bs, drop n bs))"

definition get_u8 :: "u8 reader" where
  "get_u8 bs = (case take_bytes 1 bs of None \<Rightarrow> None | Some (s, rest) \<Rightarrow> Some (of_char (s ! 0), rest))"

definition get_u16 :: "u16 reader" where
  "get_u16 bs = (case take_bytes 2 bs of None \<Rightarrow> None | Some (s, rest) \<Rightarrow> Some (le_word 2 s, rest))"

definition get_u32 :: "u32 reader" where
  "get_u32 bs = (case take_bytes 4 bs of None \<Rightarrow> None | Some (s, rest) \<Rightarrow> Some (le_word 4 s, rest))"

definition get_u64 :: "u64 reader" where
  "get_u64 bs = (case take_bytes 8 bs of None \<Rightarrow> None | Some (s, rest) \<Rightarrow> Some (le_word 8 s, rest))"

definition get_i64 :: "int reader" where
  "get_i64 bs = (case get_u64 bs of None \<Rightarrow> None | Some (w, rest) \<Rightarrow> Some (sint w, rest))"

definition get_bool :: "bool reader" where
  "get_bool bs = (case get_u8 bs of None \<Rightarrow> None
     | Some (raw, rest) \<Rightarrow> if raw > 1 then None else Some (raw = 1, rest))"

definition get_bytes :: "u64 \<Rightarrow> string reader" where
  "get_bytes limit bs =
    (case get_u64 bs of None \<Rightarrow> None
     | Some (len, rest) \<Rightarrow> if len > limit then None else take_bytes (unat len) rest)"

definition get_string :: "u64 \<Rightarrow> string reader" where "get_string = get_bytes"

section \<open>Reading back what was written\<close>

lemma of_byte_of: "(of_char (byte_of w i) :: 'a::len word) = take_bit 8 (drop_bit (8 * i) (w :: 'a word))"
proof -
  have m: "drop_bit (8 * i) w AND 0xFF = take_bit 8 (drop_bit (8 * i) w)"
    by (simp add: take_bit_eq_mask mask_eq_exp_minus_1)
  have lt: "unat (take_bit 8 (drop_bit (8 * i) w)) < 256"
    using take_bit_nat_less_exp[of 8] by (simp only: unsigned_take_bit_eq) simp
  have "(of_char (byte_of w i) :: nat) = unat (take_bit 8 (drop_bit (8 * i) w))"
    using lt by (simp add: byte_of_def m)
  then have "(word_of_nat (of_char (byte_of w i)) :: 'a word) = take_bit 8 (drop_bit (8 * i) w)"
    by simp
  then show ?thesis by (simp only: of_nat_of_char)
qed

lemma le_fold:
  "fold (\<lambda>i acc. acc OR push_bit (8 * i) (take_bit 8 (drop_bit (8 * i) w))) [0..<n] 0 = take_bit (8 * n) (w :: 'a::len word)"
proof (induction n)
  case (Suc n)
  have "take_bit (8 * n) w OR push_bit (8 * n) (take_bit 8 (drop_bit (8 * n) w)) = take_bit (8 * Suc n) w"
    by (rule bit_word_eqI) (auto simp: bit_simps)
  with Suc show ?case by simp
qed simp

lemma le_word_bytes:
  assumes "LENGTH('a) \<le> 8 * n"
  shows "le_word n (le_bytes n w) = (w :: 'a::len word)"
proof -
  have "le_word n (le_bytes n w) = fold (\<lambda>i acc. acc OR push_bit (8 * i) (of_char (byte_of w i))) [0..<n] 0"
    unfolding le_word_def by (rule fold_cong) (auto simp: le_bytes_def)
  also have "\<dots> = take_bit (8 * n) w" by (simp add: of_byte_of le_fold)
  also have "\<dots> = w" by (rule bit_word_eqI) (use assms in \<open>auto simp: bit_simps dest: bit_imp_le_length\<close>)
  finally show ?thesis .
qed

lemma le_bytes_length [simp]: "length (le_bytes n w) = n"
  by (simp add: le_bytes_def)

lemma take_bytes_append: "n = length xs \<Longrightarrow> take_bytes n (xs @ rest) = Some (xs, rest)"
  by (simp add: take_bytes_def)

named_theorems codec_simps \<open>reading back what a writer appended\<close>

lemma get_put_u8 [codec_simps]: "get_u8 (put_u8 w @ rest) = Some (w, rest)"
proof -
  have n: "(of_char (char_of (unat w)) :: nat) = unat w"
    using unsigned_less[of w, where 'a = nat] by simp
  have "(word_of_nat (of_char (char_of (unat w))) :: u8) = w" by (simp only: n) simp
  then have "(of_char (char_of (unat w)) :: u8) = w" by (simp only: of_nat_of_char)
  then show ?thesis by (simp add: get_u8_def put_u8_def take_bytes_def)
qed

lemma get_put_u16 [codec_simps]: "get_u16 (put_u16 w @ rest) = Some (w, rest)"
  by (simp add: get_u16_def put_u16_def take_bytes_append le_word_bytes)

lemma get_put_u32 [codec_simps]: "get_u32 (put_u32 w @ rest) = Some (w, rest)"
  by (simp add: get_u32_def put_u32_def take_bytes_append le_word_bytes)

lemma get_put_u64 [codec_simps]: "get_u64 (put_u64 w @ rest) = Some (w, rest)"
  by (simp add: get_u64_def put_u64_def take_bytes_append le_word_bytes)

lemma get_put_i64 [codec_simps]:
  "- (2 ^ 63) \<le> v \<Longrightarrow> v < 2 ^ 63 \<Longrightarrow> get_i64 (put_i64 v @ rest) = Some (v, rest)"
  by (simp add: get_i64_def put_i64_def get_put_u64 int_word_sint)

lemma get_put_bool [codec_simps]: "get_bool (put_bool b @ rest) = Some (b, rest)"
  by (cases b) (simp_all add: get_bool_def put_bool_def get_put_u8)

lemma get_put_bytes [codec_simps]:
  assumes "length bs < 2 ^ 64" "length bs \<le> unat limit"
  shows "get_bytes limit (put_bytes bs @ rest) = Some (bs, rest)"
proof -
  have n: "unat (word_of_nat (length bs) :: u64) = length bs"
    using assms(1) by (simp add: unat_of_nat take_bit_eq_mod)
  then have "\<not> (word_of_nat (length bs) :: u64) > limit" using assms(2) by (simp add: word_less_unat not_less)
  then show ?thesis by (simp add: get_bytes_def put_bytes_def get_put_u64 n take_bytes_append)
qed

lemma get_put_string [codec_simps]:
  "length bs < 2 ^ 64 \<Longrightarrow> length bs \<le> unat limit \<Longrightarrow> get_string limit (put_string bs @ rest) = Some (bs, rest)"
  by (simp add: get_string_def put_string_def get_put_bytes)

lemma get_u64_consumes: "get_u64 bs = Some (w, rest) \<Longrightarrow> length bs = length rest + 8"
  by (auto simp: get_u64_def take_bytes_def split: if_splits)

lemma get_bytes_bound:
  "get_bytes limit bs = Some (s, rest) \<Longrightarrow> length s \<le> unat limit \<and> length bs = length s + length rest + 8"
  by (auto simp: get_bytes_def take_bytes_def word_less_unat not_less dest!: get_u64_consumes
      split: option.splits if_splits)

section \<open>The digest\<close>

definition fnv_offset_a :: u64 where "fnv_offset_a = 14695981039346656037"
definition fnv_offset_b :: u64 where "fnv_offset_b = 0x9E3779B97F4A7C15"
definition fnv_prime :: u64 where "fnv_prime = 1099511628211"

definition mix :: "u64 \<Rightarrow> u8 \<Rightarrow> u64" where
  "mix lane byte = (lane XOR ucast byte) * fnv_prime"

record digest =
  dg_low :: u64
  dg_high :: u64

definition digest_new :: digest where
  "digest_new = \<lparr>dg_low = fnv_offset_a, dg_high = fnv_offset_b\<rparr>"

definition write_u8 :: "u8 \<Rightarrow> digest \<Rightarrow> digest" where
  "write_u8 v d = \<lparr>dg_low = mix (dg_low d) v, dg_high = mix (dg_high d) v\<rparr>"

definition write_le :: "nat \<Rightarrow> 'a::len word \<Rightarrow> digest \<Rightarrow> digest" where
  "write_le n v d = fold (\<lambda>i. write_u8 (ucast (drop_bit (8 * i) v AND 0xFF))) [0..<n] d"

definition write_u16 :: "u16 \<Rightarrow> digest \<Rightarrow> digest" where "write_u16 = write_le 2"
definition write_u32 :: "u32 \<Rightarrow> digest \<Rightarrow> digest" where "write_u32 = write_le 4"
definition write_u64 :: "u64 \<Rightarrow> digest \<Rightarrow> digest" where "write_u64 = write_le 8"
definition write_i64 :: "int \<Rightarrow> digest \<Rightarrow> digest" where "write_i64 v = write_u64 (word_of_int v)"
definition write_bool :: "bool \<Rightarrow> digest \<Rightarrow> digest" where "write_bool b = write_u8 (if b then 1 else 0)"

definition write_bytes :: "string \<Rightarrow> digest \<Rightarrow> digest" where
  "write_bytes bs d = fold (\<lambda>c. write_u8 (of_char c)) bs d"

definition write_string :: "string \<Rightarrow> digest \<Rightarrow> digest" where
  "write_string t d = write_bytes t (write_u64 (word_of_nat (length t)) d)"

definition write_tag :: "string \<Rightarrow> digest \<Rightarrow> digest" where
  "write_tag tag d = write_string tag (write_u8 0x1F d)"

definition hex_digit :: "nat \<Rightarrow> char" where
  "hex_digit n = (if n < 10 then char_of (48 + n) else char_of (87 + n))"

definition hex16 :: "u64 \<Rightarrow> string" where
  "hex16 w = map (\<lambda>i. hex_digit (unat (drop_bit (4 * (15 - i)) w AND 0xF))) [0..<16]"

definition digest_hex :: "digest \<Rightarrow> string" where
  "digest_hex d = hex16 (dg_low d) @ hex16 (dg_high d)"

definition write_id :: "'a strong_id \<Rightarrow> digest \<Rightarrow> digest" where
  "write_id i = write_string (id_text i)"

definition write_generation :: "'a generation \<Rightarrow> digest \<Rightarrow> digest" where
  "write_generation g = write_u64 (gen_value g)"

definition write_option :: "('a \<Rightarrow> digest \<Rightarrow> digest) \<Rightarrow> 'a option \<Rightarrow> digest \<Rightarrow> digest" where
  "write_option w v d = (case v of None \<Rightarrow> write_bool False d | Some x \<Rightarrow> w x (write_bool True d))"

definition write_list :: "('a \<Rightarrow> digest \<Rightarrow> digest) \<Rightarrow> 'a list \<Rightarrow> digest \<Rightarrow> digest" where
  "write_list w xs d = fold w xs (write_u64 (word_of_nat (length xs)) d)"

lemma digest_hex_length: "length (digest_hex d) = 32"
  by (simp add: digest_hex_def hex16_def)

text \<open>
  every primitive of the codec reads back exactly what was written and leaves the rest of the
  input untouched, and a byte string is accepted only within the limit the reader passes, never past
  the end of the input.
\<close>

theorem codec_roundtrip:
  "get_u8 (put_u8 a @ rest) = Some (a, rest) \<and> get_u16 (put_u16 b @ rest) = Some (b, rest)
   \<and> get_u32 (put_u32 c @ rest) = Some (c, rest) \<and> get_u64 (put_u64 d @ rest) = Some (d, rest)
   \<and> get_bool (put_bool e @ rest) = Some (e, rest)
   \<and> (- (2 ^ 63) \<le> v \<and> v < 2 ^ 63 \<longrightarrow> get_i64 (put_i64 v @ rest) = Some (v, rest))
   \<and> (length s < 2 ^ 64 \<and> length s \<le> unat limit \<longrightarrow> get_bytes limit (put_bytes s @ rest) = Some (s, rest))
   \<and> (get_bytes limit input = Some (t, left) \<longrightarrow> length t \<le> unat limit \<and> length input = length t + length left + 8)"
  using get_bytes_bound[of limit input t left] by (simp add: codec_simps)

theorem codec_roundtrip_witness:
  "get_i64 (put_i64 (-5) @ ''x'') = Some (-5, ''x'') \<and> get_bytes 3 (put_bytes ''abc'' @ ''x'') = Some (''abc'', ''x'')"
  using codec_roundtrip[of 0 "''x''" 0 0 0 True "-5" "''abc''" 3 "[]" "[]" "[]"] by simp

end
