(* ===== verification/Decision.thy ===== *)
theory Decision
  imports Authority Outcome Codec
begin

text \<open>
  Preferences, decisions and evaluation tickets (\<^verbatim>\<open>include/adaptive_routing/decision.hpp\<close>,
  \<^verbatim>\<open>src/decision.cpp\<close>) and the semantic digests of policies and decisions (\<^verbatim>\<open>src/view.cpp\<close>).
\<close>

section \<open>Weight proposals and transition plans\<close>

record path_weight =
  pw_path :: path_id
  pw_weight_bps :: u32

record weight_proposal =
  wp_set :: weighted_path_set_id
  wp_base_generation :: weight_policy_generation
  wp_weights :: "path_weight list"

definition wp_well_formed :: "weight_proposal \<Rightarrow> bool" where
  "wp_well_formed w =
    (if \<not> id_valid (wp_set w) \<or> \<not> gen_valid (wp_base_generation w) \<or> wp_weights w = [] then False
     else \<forall>x \<in> set (wp_weights w). id_valid (pw_path x) \<and> \<not> pw_weight_bps x > basis_points_scale)"

definition wp_render :: "weight_proposal \<Rightarrow> string" where
  "wp_render w = ''set='' @ id_text (wp_set w) @ '' base='' @ gen_text (wp_base_generation w)
     @ concat (map (\<lambda>x. '' '' @ id_text (pw_path x) @ ''='' @ u32_text (pw_weight_bps x)) (wp_weights w))"

record transition_plan =
  tp_id :: transition_plan_id
  tp_generation :: transition_generation
  tp_route :: route_id
  tp_from_path :: path_id
  tp_from_authority :: path_authority_generation
  tp_to_path :: path_id
  tp_to_authority :: path_authority_generation
  tp_adaptation_generation :: adaptation_generation
  tp_rollback :: bool

definition tp_well_formed :: "transition_plan \<Rightarrow> bool" where
  "tp_well_formed t = (id_valid (tp_id t) \<and> gen_valid (tp_generation t) \<and> id_valid (tp_route t) \<and> id_valid (tp_to_path t))"

section \<open>Preference and stable state\<close>

record routing_preference =
  rp_route :: route_id
  rp_multipath_set :: "multipath_set_id option"
  rp_multipath_generation :: multipath_set_generation
  rp_preferred_path :: path_id
  rp_path_authority_generation :: path_authority_generation
  rp_previous_path :: path_id
  rp_route_generation :: route_generation
  rp_adaptation_generation :: adaptation_generation
  rp_transition_generation :: transition_generation
  rp_transition :: transition_plan_id
  rp_weight_proposal :: "weight_proposal option"
  rp_decision :: decision_id
  rp_provenance :: adaptation_provenance
  rp_committed_at :: ticks
  rp_established :: bool

definition no_preference :: routing_preference where
  "no_preference = \<lparr>rp_route = no_id, rp_multipath_set = None, rp_multipath_generation = no_gen,
     rp_preferred_path = no_id, rp_path_authority_generation = no_gen, rp_previous_path = no_id,
     rp_route_generation = no_gen, rp_adaptation_generation = no_gen, rp_transition_generation = no_gen,
     rp_transition = no_id, rp_weight_proposal = None, rp_decision = no_id, rp_provenance = no_provenance,
     rp_committed_at = 0, rp_established = False\<rparr>"

definition rp_well_formed :: "routing_preference \<Rightarrow> bool" where
  "rp_well_formed p = (id_valid (rp_route p) \<and> id_valid (rp_preferred_path p)
     \<and> gen_valid (rp_adaptation_generation p) \<and> gen_valid (rp_transition_generation p))"

definition rp_render :: "routing_preference \<Rightarrow> string" where
  "rp_render p = (if \<not> rp_established p then ''route='' @ id_text (rp_route p) @ '' preferred=<none>''
     else ''route='' @ id_text (rp_route p) @ '' preferred='' @ id_text (rp_preferred_path p)
       @ ''@'' @ gen_text (rp_path_authority_generation p)
       @ (if id_valid (rp_previous_path p) then '' previous='' @ id_text (rp_previous_path p) else [])
       @ (case rp_multipath_set p of None \<Rightarrow> []
          | Some m \<Rightarrow> '' set='' @ id_text m @ ''@'' @ gen_text (rp_multipath_generation p))
       @ '' route_generation='' @ gen_text (rp_route_generation p)
       @ '' adaptation='' @ gen_text (rp_adaptation_generation p)
       @ '' transition='' @ gen_text (rp_transition_generation p)
       @ (case rp_weight_proposal p of None \<Rightarrow> [] | Some w \<Rightarrow> '' weight_proposal['' @ wp_render w @ '']''))"

record stable_state =
  ss_established :: bool
  ss_path :: path_id
  ss_path_authority_generation :: path_authority_generation
  ss_route_generation :: route_generation
  ss_multipath_generation :: multipath_set_generation
  ss_adaptation_generation :: adaptation_generation
  ss_stabilized_at :: ticks

definition no_stable_state :: stable_state where
  "no_stable_state = \<lparr>ss_established = False, ss_path = no_id, ss_path_authority_generation = no_gen,
     ss_route_generation = no_gen, ss_multipath_generation = no_gen, ss_adaptation_generation = no_gen,
     ss_stabilized_at = 0\<rparr>"

definition ss_render :: "stable_state \<Rightarrow> string" where
  "ss_render s = (if \<not> ss_established s then ''<never stable>''
     else ''path='' @ id_text (ss_path s) @ ''@'' @ gen_text (ss_path_authority_generation s)
       @ '' route_generation='' @ gen_text (ss_route_generation s)
       @ '' adaptation='' @ gen_text (ss_adaptation_generation s))"

section \<open>Candidate evaluations, dependency snapshots, tickets\<close>

record candidate_evaluation =
  ce_path :: path_id
  ce_eligible :: bool
  ce_rejection :: suppression_reason
  ce_rejection_outcome :: outcome
  ce_quality :: evidence_quality
  ce_score :: "u64 option"
  ce_metrics :: "metric_value list"
  ce_priority :: u32
  ce_current_preference :: bool
  ce_previous_preference :: bool
  ce_required_improvement :: u32
  ce_observed_improvement :: "u32 option"
  ce_path_authority_generation :: path_authority_generation
  ce_multipath_generation :: multipath_set_generation
  ce_route_generation :: route_generation

record dependency_snapshot =
  ds_evaluation :: evaluation_id
  ds_policy :: policy_id
  ds_policy_generation :: policy_generation
  ds_evidence_generation :: evidence_generation
  ds_evidence_watermark :: watermark
  ds_upstream_watermark :: watermark
  ds_epoch :: coordinator_epoch
  ds_authority_generation :: adaptive_authority_generation
  ds_route_generation :: route_generation
  ds_multipath_set :: "multipath_set_id option"
  ds_multipath_generation :: multipath_set_generation
  ds_candidate_path_authority :: "path_authority_binding list"
  ds_candidate_path_watermarks :: "u64 list"
  ds_candidates :: "path_id list"
  ds_captured_at :: ticks

fun ds_render_candidates :: "path_id list \<Rightarrow> path_authority_binding list \<Rightarrow> u64 list \<Rightarrow> string" where
  "ds_render_candidates [] as ws = []"
| "ds_render_candidates (p # ps) as ws =
     '' candidate['' @ id_text p
     @ (case as of [] \<Rightarrow> [] | a # _ \<Rightarrow> ''@'' @ gen_text (pa_generation a))
     @ (case ws of [] \<Rightarrow> [] | w # _ \<Rightarrow> '' wm='' @ dec (unat w))
     @ '']'' @ ds_render_candidates ps (tl as) (tl ws)"

definition ds_render :: "dependency_snapshot \<Rightarrow> string" where
  "ds_render d = ''evaluation='' @ id_text (ds_evaluation d)
     @ '' policy='' @ id_text (ds_policy d) @ ''@'' @ gen_text (ds_policy_generation d)
     @ '' evidence='' @ gen_text (ds_evidence_generation d)
     @ '' evidence_watermark='' @ dec (unat (wm_value (ds_evidence_watermark d)))
     @ '' upstream_watermark='' @ dec (unat (wm_value (ds_upstream_watermark d)))
     @ '' epoch='' @ gen_text (ds_epoch d) @ '' authority='' @ gen_text (ds_authority_generation d)
     @ '' route_generation='' @ gen_text (ds_route_generation d)
     @ (case ds_multipath_set d of None \<Rightarrow> [] | Some m \<Rightarrow> '' set='' @ id_text m @ ''@'' @ gen_text (ds_multipath_generation d))
     @ ds_render_candidates (ds_candidates d) (ds_candidate_path_authority d) (ds_candidate_path_watermarks d)"

record evaluation_ticket =
  et_dependencies :: dependency_snapshot
  et_lifecycle :: decision_lifecycle
  et_decision :: decision_id
  et_evidence_snapshot :: evidence_snapshot_id
  et_outcome :: outcome
  et_suppression :: suppression_reason
  et_detail :: string
  et_current_preference :: path_id
  et_target_preference :: path_id
  et_target_authority_generation :: path_authority_generation
  et_adaptation_generation :: adaptation_generation
  et_transition_generation :: transition_generation
  et_target_score :: "u64 option"
  et_improvement_bps :: "u32 option"
  et_required_improvement_bps :: u32
  et_weight_proposal :: "weight_proposal option"
  et_rollback :: bool
  et_emergency :: bool
  et_ranking :: "candidate_evaluation list"
  et_evaluated_at :: ticks

definition et_committable :: "evaluation_ticket \<Rightarrow> bool" where
  "et_committable t = (et_lifecycle t = DL_ELIGIBLE)"

section \<open>Decisions and requests\<close>

record adaptation_decision =
  dn_id :: decision_id
  dn_policy :: policy_id
  dn_policy_generation :: policy_generation
  dn_lifecycle :: decision_lifecycle
  dn_cause :: adaptation_cause
  dn_suppression :: suppression_reason
  dn_outcome :: outcome
  dn_epoch :: coordinator_epoch
  dn_authority_generation :: adaptive_authority_generation
  dn_route :: route_id
  dn_route_generation :: route_generation
  dn_multipath_set :: "multipath_set_id option"
  dn_multipath_generation :: multipath_set_generation
  dn_evidence_snapshot :: evidence_snapshot_id
  dn_evidence_generation :: evidence_generation
  dn_evidence_watermark :: watermark
  dn_upstream_watermark :: watermark
  dn_had_current_preference :: bool
  dn_current_preference :: path_id
  dn_current_authority_generation :: path_authority_generation
  dn_target_preference :: path_id
  dn_target_authority_generation :: path_authority_generation
  dn_adaptation_generation :: adaptation_generation
  dn_transition_generation :: transition_generation
  dn_target_score :: "u64 option"
  dn_improvement_bps :: "u32 option"
  dn_required_improvement_bps :: u32
  dn_candidates_considered :: u32
  dn_candidates_eligible :: u32
  dn_ranking :: "candidate_evaluation list"
  dn_digest :: string
  dn_evaluated_at :: ticks
  dn_committed_at :: ticks
  dn_provenance :: adaptation_provenance

definition dn_well_formed :: "adaptation_decision \<Rightarrow> bool" where
  "dn_well_formed d =
    (if \<not> id_valid (dn_id d) \<or> \<not> id_valid (dn_policy d) \<or> \<not> gen_valid (dn_policy_generation d) \<or> \<not> id_valid (dn_route d) then False
     else if \<not> gen_valid (dn_epoch d) \<or> \<not> gen_valid (dn_evidence_generation d) then False
     else True)"

record create_policy_request =
  cr_name :: policy_name
  cr_scope :: policy_scope
  cr_semantics :: policy_semantics
  cr_context :: mutation_context

record update_policy_request =
  ur_policy :: policy_id
  ur_update :: policy_update
  ur_context :: mutation_context

record policy_lifecycle_request =
  lr_policy :: policy_id
  lr_event :: policy_event
  lr_detail :: string
  lr_context :: mutation_context

record publish_evidence_request =
  er_publications :: "evidence_publication list"
  er_context :: mutation_context

record evaluate_request =
  vr_policy :: policy_id
  vr_context :: mutation_context
  vr_defer_commit :: bool

record commit_decision_request =
  kr_ticket :: evaluation_ticket
  kr_context :: mutation_context

record rollback_request =
  br_policy :: policy_id
  br_reason :: string
  br_context :: mutation_context

record upstream_notify_request =
  nr_notifications :: "upstream_notification list"
  nr_context :: mutation_context

section \<open>Semantic digests\<close>

definition digest_encoding_version :: u32 where "digest_encoding_version = 1"

definition write_metric :: "metric_value \<Rightarrow> digest \<Rightarrow> digest" where
  "write_metric v d = (if \<not> mv_valid v then write_u8 0 d
     else write_i64 (mv_value v) (write_u32 (mv_semantics_version v) (write_u8 (metric_unit_raw (mv_unit v))
       (write_u8 (metric_kind_raw (mv_kind v)) (write_u8 1 d)))))"

definition write_threshold :: "threshold_rule \<Rightarrow> digest \<Rightarrow> digest" where
  "write_threshold r d = write_metric (tr_clear_value r) (write_metric (tr_switch_value r) (write_u8 (metric_kind_raw (tr_kind r)) d))"

definition write_improvement :: "improvement_rule \<Rightarrow> digest \<Rightarrow> digest" where
  "write_improvement r d = write_u32 (ir_reverse_bps r) (write_u32 (ir_switch_bps r) (write_u8 (metric_kind_raw (ir_kind r)) d))"

definition write_requirement :: "evidence_requirement \<Rightarrow> digest \<Rightarrow> digest" where
  "write_requirement r d = write_bool (er_required r) (write_u8 (evidence_quality_raw (er_min_quality r))
     (write_u64 (er_min_window r) (write_u64 (er_max_age r) (write_u32 (er_min_samples r) (write_u32 (er_ewma_alpha_bps r)
       (write_u8 (aggregation_kind_raw (er_aggregation r)) (write_u8 (metric_kind_raw (er_kind r)) d)))))))"

definition by_kind :: "('a \<Rightarrow> metric_kind) \<Rightarrow> 'a list \<Rightarrow> 'a list" where
  "by_kind kind = sort_by (\<lambda>a b. metric_kind_raw (kind a) < metric_kind_raw (kind b))"

definition objective_mode_raw :: "objective_mode \<Rightarrow> u8" where
  "objective_mode_raw m = (case m of LEXICOGRAPHIC \<Rightarrow> 1 | WEIGHTED_SCORE \<Rightarrow> 2)"

definition write_dampening :: "dampening_rule \<Rightarrow> digest \<Rightarrow> digest" where
  "write_dampening r d = write_u64 (dr_max_effective_hold_down r) (write_u64 (dr_hold_down_escalation_step r)
     (write_u32 (dr_penalty_decay_step r) (write_u64 (dr_penalty_decay_interval r) (write_u32 (dr_max_penalty r)
       (write_u32 (dr_penalty_increment r) (write_bool (dr_enabled r) d))))))"

definition write_semantics :: "policy_semantics \<Rightarrow> digest \<Rightarrow> digest" where
  "write_semantics s d0 =
    (let d1 = write_u32 (ps_version s) (write_tag ''semantics'' d0);
         d2 = write_option write_id (pt_multipath_set (ps_target s)) (write_id (pt_route (ps_target s)) d1);
         d3 = write_list write_threshold (by_kind tr_kind (ps_thresholds s)) d2;
         d4 = write_list write_improvement (by_kind ir_kind (ps_improvements s)) d3;
         d5 = write_list write_requirement (by_kind er_kind (ps_evidence s)) d4;
         d6 = write_u64 (ps_cooldown s) (write_u64 (ps_hold_down s) d5);
         d7 = write_dampening (ps_dampening s) d6;
         d8 = write_u64 (cb_window (ps_churn s)) (write_u32 (cb_max_adaptations (ps_churn s)) d7);
         d9 = write_u32 (os_scoring_version (ps_objective s)) (write_u8 (objective_mode_raw (os_mode (ps_objective s))) d8);
         d10 = write_list (\<lambda>t d. write_u32 (st_weight_bps t) (write_u8 (metric_kind_raw (st_kind t)) d)) (os_terms (ps_objective s)) d9;
         d11 = write_bool (em_on_hard_failure (ps_emergency s)) (write_bool (em_on_unavailable (ps_emergency s))
                 (write_bool (em_on_unauthorized (ps_emergency s)) (write_bool (em_enabled (ps_emergency s)) d10)))
     in write_list (\<lambda>p d. write_u32 (cp_priority p) (write_id (cp_path p) d))
          (sort_by (\<lambda>a b. cp_path a < cp_path b) (ps_priorities s)) d11)"

definition write_scope :: "policy_scope \<Rightarrow> digest \<Rightarrow> digest" where
  "write_scope s d0 =
    (let d1 = write_id (sc_namespace s) (write_id (sc_fabric s) (write_tag ''scope'' d0));
         d2 = write_option write_id (sc_site s) d1;
         d3 = write_bool (id_valid (sc_path_class s)) d2;
         d4 = (if id_valid (sc_path_class s) then write_id (sc_path_class s) d3 else d3);
         d5 = write_list write_id (sort_by (<) (sc_routes s)) d4
     in write_list write_id (sort_by (<) (sc_multipath_sets s)) d5)"

definition policy_semantic_digest :: "adaptive_policy \<Rightarrow> string" where
  "policy_semantic_digest p =
    (let d1 = write_u32 digest_encoding_version (write_tag ''adaptive-policy'' digest_new);
         d2 = write_semantics (ap_semantics p) (write_scope (ap_scope p) (write_id (ap_name p) (write_id (ap_id p) d1)))
     in digest_hex (write_generation (ap_generation p) (write_u8 (policy_lifecycle_raw (ap_lifecycle p)) d2)))"

definition write_evaluation :: "candidate_evaluation \<Rightarrow> digest \<Rightarrow> digest" where
  "write_evaluation e d0 =
    (let d1 = write_u8 (evidence_quality_raw (ce_quality e)) (write_u8 (suppression_raw (ce_rejection e))
                (write_bool (ce_eligible e) (write_id (ce_path e) d0)));
         d2 = write_list write_metric (ce_metrics e) (write_option write_u64 (ce_score e) d1);
         d3 = write_bool (ce_previous_preference e) (write_bool (ce_current_preference e) (write_u32 (ce_priority e) d2))
     in write_option write_u32 (ce_observed_improvement e) (write_u32 (ce_required_improvement e) d3))"

definition decision_digest :: "adaptation_decision \<Rightarrow> string" where
  "decision_digest n =
    (let d1 = write_u32 digest_encoding_version (write_tag ''adaptation-decision'' digest_new);
         d2 = write_generation (dn_policy_generation n) (write_id (dn_policy n) d1);
         d3 = write_u8 (adaptation_cause_raw (dn_cause n)) (write_u8 (decision_lifecycle_raw (dn_lifecycle n)) d2);
         d4 = write_u8 (suppression_raw (dn_suppression n)) (write_u16 (outcome_raw (dn_outcome n)) d3);
         d5 = write_generation (dn_authority_generation n) (write_generation (dn_epoch n) d4);
         d6 = write_generation (dn_route_generation n) (write_id (dn_route n) d5);
         d7 = write_option (\<lambda>m d. write_generation (dn_multipath_generation n) (write_id m d)) (dn_multipath_set n) d6;
         d8 = write_u64 (wm_value (dn_upstream_watermark n)) (write_u64 (wm_value (dn_evidence_watermark n))
                (write_generation (dn_evidence_generation n) d7));
         d9 = write_id (dn_current_preference n) (write_bool (dn_had_current_preference n) d8);
         d10 = write_generation (dn_current_authority_generation n) d9;
         d11 = write_generation (dn_target_authority_generation n) (write_id (dn_target_preference n) d10);
         d12 = write_generation (dn_transition_generation n) (write_generation (dn_adaptation_generation n) d11);
         d13 = write_option write_u32 (dn_improvement_bps n) (write_option write_u64 (dn_target_score n) d12);
         d14 = write_u32 (dn_required_improvement_bps n) d13
     in digest_hex (write_list write_evaluation (dn_ranking n) d14))"

lemma by_kind_canonical:
  "distinct (map k xs) \<Longrightarrow> mset xs = mset ys \<Longrightarrow> by_kind k xs = by_kind k ys"
  using sort_by_key_canonical[of k xs ys] by (simp add: by_kind_def less_metric_kind_def)

text \<open>
  the semantic digest of a policy does not depend on the order in which its rules are declared:
  two accepted semantics that hold the same thresholds, improvements, evidence requirements and
  priorities, and agree otherwise, leave the digest in the same state, and so do two scopes with the
  same routes and multipath sets.
\<close>

theorem policy_digest_order_independent:
  assumes "ps_valid s = None"
    and "mset (ps_thresholds s) = mset ts" "mset (ps_improvements s) = mset is"
    and "mset (ps_evidence s) = mset es" "mset (ps_priorities s) = mset prios"
    and "mset (sc_routes c) = mset rs" "mset (sc_multipath_sets c) = mset ms"
  shows "policy_semantic_digest (p\<lparr>ap_semantics := s, ap_scope := c\<rparr>)
    = policy_semantic_digest (p\<lparr>ap_semantics := s\<lparr>ps_thresholds := ts, ps_improvements := is, ps_evidence := es, ps_priorities := prios\<rparr>,
        ap_scope := c\<lparr>sc_routes := rs, sc_multipath_sets := ms\<rparr>\<rparr>)"
proof -
  note v = ps_validD[OF assms(1)]
  have "write_semantics s d = write_semantics (s\<lparr>ps_thresholds := ts, ps_improvements := is, ps_evidence := es, ps_priorities := prios\<rparr>) d" for d
    using by_kind_canonical[OF v(7) assms(2)] by_kind_canonical[OF v(6) assms(3)] by_kind_canonical[OF v(10) assms(4)]
      sort_by_key_canonical[OF v(17) assms(5)]
    by (simp add: write_semantics_def)
  moreover have "write_scope c d = write_scope (c\<lparr>sc_routes := rs, sc_multipath_sets := ms\<rparr>) d" for d
    using linord.sort_canonical[OF assms(6)] linord.sort_canonical[OF assms(7)] by (simp add: write_scope_def Let_def)
  ultimately show ?thesis by (simp add: policy_semantic_digest_def)
qed

definition sample_policy :: adaptive_policy where
  "sample_policy = \<lparr>ap_id = StrongId ''p1'', ap_name = StrongId ''name'', ap_scope = sample_policy_scope,
     ap_semantics = sample_semantics, ap_generation = gen_first, ap_lifecycle = PL_DECLARED, ap_epoch = gen_first,
     ap_owner = StrongId ''pub'', ap_authority_generation = gen_first, ap_declared_at = 0, ap_updated_at = 0\<rparr>"

theorem policy_digest_order_independent_witness:
  "policy_semantic_digest (sample_policy\<lparr>ap_semantics := sample_semantics, ap_scope := sample_policy_scope\<lparr>sc_routes := [StrongId ''a'', StrongId ''b'']\<rparr>\<rparr>)
   = policy_semantic_digest (sample_policy\<lparr>ap_semantics := sample_semantics, ap_scope := sample_policy_scope\<lparr>sc_routes := [StrongId ''b'', StrongId ''a'']\<rparr>\<rparr>)"
  using policy_digest_order_independent[OF sample_semantics_valid refl refl refl refl,
      of "sample_policy_scope\<lparr>sc_routes := [StrongId ''a'', StrongId ''b'']\<rparr>" "[StrongId ''b'', StrongId ''a'']" "[]" sample_policy]
  by (simp add: sample_policy_scope_def add_mset_commute)

end
