(* ===== verification/Engine_State.thy ===== *)
theory Engine_State
  imports Outcome Decision
begin

text \<open>
  The guarded state of the engine (\<^verbatim>\<open>src/engine_impl.hpp\<close>, the frozen views of
  \<^verbatim>\<open>include/adaptive_routing/view.hpp\<close> and the statistics of \<^verbatim>\<open>include/adaptive_routing/fabric.hpp\<close>)
  and the helpers every entry point shares (\<^verbatim>\<open>src/fabric.cpp\<close>): candidate lookup, result
  construction, replay recognition, bounded retention, the reverse indexes and targeted
  invalidation.  The mutex is not modelled: every entry point runs under it, so an operation is a
  function from the engine before to the engine after.  The clock reading is an argument.
\<close>

section \<open>Ordered sets\<close>

text \<open>A \<^verbatim>\<open>std::set\<close> is the key-ordered map without values.\<close>

type_synonym 'k oset = "('k, unit) omap"

definition oset_insert :: "'k::linorder \<Rightarrow> 'k oset \<Rightarrow> 'k oset" where
  "oset_insert k s = om_put k () s"

definition oset_erase :: "'k \<Rightarrow> 'k oset \<Rightarrow> 'k oset" where
  "oset_erase k s = om_erase k s"

definition oset_member :: "'k \<Rightarrow> 'k oset \<Rightarrow> bool" where
  "oset_member k s = (om_find s k \<noteq> None)"

definition oset_elems :: "'k oset \<Rightarrow> 'k list" where
  "oset_elems s = map fst s"

lemma oset_member_insert [simp]: "oset_member j (oset_insert k s) \<longleftrightarrow> j = k \<or> oset_member j s"
  by (simp add: oset_member_def oset_insert_def om_find_put)

lemma oset_member_erase: "om_ok s \<Longrightarrow> oset_member j (oset_erase k s) \<longleftrightarrow> j \<noteq> k \<and> oset_member j s"
  by (simp add: oset_member_def oset_erase_def om_find_erase)

lemma oset_member_elems: "oset_member k s \<longleftrightarrow> k \<in> set (oset_elems s)"
  unfolding oset_member_def oset_elems_def set_map by (rule om_find_dom)

lemma oset_member_Nil [simp]: "\<not> oset_member k []"
  by (simp add: oset_member_def)

lemma oset_ok_insert [simp]: "om_ok s \<Longrightarrow> om_ok (oset_insert k s)"
  by (simp add: oset_insert_def om_ok_put)

section \<open>Frozen views\<close>

record candidate_view =
  cv_binding :: candidate_binding
  cv_eligible :: bool
  cv_rejection :: suppression_reason
  cv_quality :: evidence_quality
  cv_score :: "u64 option"
  cv_metrics :: "metric_value list"
  cv_priority :: u32
  cv_current_preference :: bool
  cv_previous_preference :: bool
  cv_path_watermark :: u64

record adaptation_record =
  hr_decision :: decision_id
  hr_lifecycle :: decision_lifecycle
  hr_outcome :: outcome
  hr_suppression :: suppression_reason
  hr_cause :: adaptation_cause
  hr_from_path :: path_id
  hr_to_path :: path_id
  hr_adaptation_generation :: adaptation_generation
  hr_evidence_generation :: evidence_generation
  hr_epoch :: coordinator_epoch
  hr_committed_at :: ticks
  hr_digest :: string

record adaptation_snapshot =
  sn_id :: snapshot_id
  sn_epoch :: coordinator_epoch
  sn_authority_generation :: adaptive_authority_generation
  sn_policy :: policy_id
  sn_policy_generation :: policy_generation
  sn_policy_name :: policy_name
  sn_scope :: policy_scope
  sn_lifecycle :: policy_lifecycle
  sn_semantics :: policy_semantics
  sn_preference :: routing_preference
  sn_stable :: stable_state
  sn_candidates :: "candidate_view list"
  sn_evidence :: "evidence_snapshot option"
  sn_currentness :: currentness
  sn_blockers :: "currentness list"
  sn_hold_down_active :: bool
  sn_hold_down_remaining :: ticks
  sn_cooldown_active :: bool
  sn_cooldown_remaining :: ticks
  sn_dampening_penalty :: u32
  sn_adaptation_generation :: adaptation_generation
  sn_transition_generation :: transition_generation
  sn_evidence_generation :: evidence_generation
  sn_evidence_watermark :: watermark
  sn_upstream_watermark :: watermark
  sn_history :: "adaptation_record list"
  sn_digest :: string
  sn_captured_at :: ticks

section \<open>The state\<close>

type_synonym evidence_key = "evidence_source_id \<times> path_id \<times> metric_kind"

record evidence_series =
  se_source :: evidence_source_id
  se_source_generation :: evidence_source_generation
  se_quality :: evidence_quality
  se_path :: path_id
  se_kind :: metric_kind
  se_samples :: "evidence_sample list"
  se_total_published :: u64

record candidate_record =
  ca_binding :: candidate_binding
  ca_path_watermark :: u64

record timing_state =
  ti_hold_down_active :: bool
  ti_hold_down_deadline :: ticks
  ti_hold_down_locked_path :: path_id
  ti_cooldown_active :: bool
  ti_cooldown_deadline :: ticks
  ti_dampening_penalty :: u32
  ti_dampening_last_decay :: ticks
  ti_churn_commits :: "ticks list"

definition no_timing :: timing_state where
  "no_timing = \<lparr>ti_hold_down_active = False, ti_hold_down_deadline = 0, ti_hold_down_locked_path = no_id,
     ti_cooldown_active = False, ti_cooldown_deadline = 0, ti_dampening_penalty = 0,
     ti_dampening_last_decay = 0, ti_churn_commits = []\<rparr>"

record policy_record =
  pc_policy :: adaptive_policy
  pc_candidates :: "candidate_record list"
  pc_preference :: routing_preference
  pc_stable :: stable_state
  pc_timing :: timing_state
  pc_history :: "adaptation_record list"
  pc_revocation :: "revocation_record option"

record attempt_record =
  at_attempt :: mutation_attempt_id
  at_fingerprint :: string
  at_outcome :: outcome
  at_detail :: string

record state =
  g_epoch :: coordinator_epoch
  g_authority_generation :: adaptive_authority_generation
  g_evidence_generation :: evidence_generation
  g_evidence_watermark :: watermark
  g_upstream_watermark :: watermark
  g_policies :: "(policy_id, policy_record) omap"
  g_policy_names :: "(policy_name, policy_id) omap"
  g_registrations :: "(publisher_id, publisher_registration) omap"
  g_live_boots :: "(worker_boot_id, publisher_id) omap"
  g_fenced_boots :: "worker_boot_id oset"
  g_fences :: "fence_record list"
  g_revocations :: "(policy_id, revocation_record) omap"
  g_evidence :: "(evidence_key, evidence_series) omap"
  g_attempts :: "(mutation_attempt_id, attempt_record) omap"
  g_attempt_order :: "mutation_attempt_id list"
  g_snapshots :: "(snapshot_id, adaptation_snapshot) omap"
  g_snapshot_order :: "snapshot_id list"
  g_decision_journal :: "adaptation_decision list"
  g_by_path :: "(path_id, policy_id oset) omap"
  g_by_route :: "(route_id, policy_id oset) omap"
  g_by_set :: "(multipath_set_id, policy_id oset) omap"
  g_by_source :: "(evidence_source_id, policy_id oset) omap"

record fabric_stats =
  fb_policies :: u64
  fb_adaptable_policies :: u64
  fb_revoked_policies :: u64
  fb_retired_policies :: u64
  fb_candidates :: u64
  fb_evidence_series :: u64
  fb_evidence_samples :: u64
  fb_decisions_committed :: u64
  fb_decisions_suppressed :: u64
  fb_decisions_rejected :: u64
  fb_evaluations :: u64
  fb_stale_commit_rejections :: u64
  fb_idempotent_replays :: u64
  fb_attempt_conflicts :: u64
  fb_publishers :: u64
  fb_fenced_workers :: u64
  fb_revocations :: u64
  fb_recoveries :: u64
  fb_epoch :: coordinator_epoch
  fb_authority_generation :: adaptive_authority_generation
  fb_evidence_generation :: evidence_generation

text \<open>
  The members of \<^verbatim>\<open>Impl\<close> that operations read or write.  The evaluation hook of the configuration
  must not mutate the engine and has no counterpart.
\<close>

record engine =
  en_limits :: limits
  en_ids :: id_factory
  en_state :: state
  en_counters :: fabric_stats
  en_outstanding :: u64

definition no_stats :: fabric_stats where
  "no_stats = \<lparr>fb_policies = 0, fb_adaptable_policies = 0, fb_revoked_policies = 0, fb_retired_policies = 0,
     fb_candidates = 0, fb_evidence_series = 0, fb_evidence_samples = 0, fb_decisions_committed = 0,
     fb_decisions_suppressed = 0, fb_decisions_rejected = 0, fb_evaluations = 0,
     fb_stale_commit_rejections = 0, fb_idempotent_replays = 0, fb_attempt_conflicts = 0, fb_publishers = 0,
     fb_fenced_workers = 0, fb_revocations = 0, fb_recoveries = 0, fb_epoch = no_gen,
     fb_authority_generation = no_gen, fb_evidence_generation = no_gen\<rparr>"

definition initial_state :: state where
  "initial_state = \<lparr>g_epoch = gen_first, g_authority_generation = gen_first, g_evidence_generation = gen_first,
     g_evidence_watermark = Watermark 0, g_upstream_watermark = Watermark 0, g_policies = [],
     g_policy_names = [], g_registrations = [], g_live_boots = [], g_fenced_boots = [], g_fences = [],
     g_revocations = [], g_evidence = [], g_attempts = [], g_attempt_order = [], g_snapshots = [],
     g_snapshot_order = [], g_decision_journal = [], g_by_path = [], g_by_route = [], g_by_set = [],
     g_by_source = []\<rparr>"

definition new_engine :: "limits \<Rightarrow> id_factory \<Rightarrow> engine" where
  "new_engine l ids = \<lparr>en_limits = l, en_ids = ids, en_state = initial_state, en_counters = no_stats, en_outstanding = 0\<rparr>"

definition put_policy :: "policy_id \<Rightarrow> policy_record \<Rightarrow> state \<Rightarrow> state" where
  "put_policy p r s = s\<lparr>g_policies := om_put p r (g_policies s)\<rparr>"

end
