(* ===== verification/Engine.thy ===== *)
theory Engine
  imports Engine_State
begin

text \<open>
  The shared helpers and the authority operations of \<^verbatim>\<open>src/fabric.cpp\<close>: candidate lookup, result
  construction, caller authority, replay recognition, bounded retention, the reverse indexes,
  targeted invalidation, registration, fencing, epoch advance and statistics.
\<close>

section \<open>Candidate lookup\<close>

text \<open>The pointer the code returns is the index of the candidate in the record.\<close>

definition find_candidate :: "candidate_record list \<Rightarrow> path_id \<Rightarrow> nat option" where
  "find_candidate cs path =
     search (\<lambda>c. cd_path (ca_binding c) < path) (\<lambda>c. cd_path (ca_binding c) = path) cs"

definition candidates_ok :: "candidate_record list \<Rightarrow> bool" where
  "candidates_ok cs = (sorted (map (cd_path \<circ> ca_binding) cs) \<and> distinct (map (cd_path \<circ> ca_binding) cs))"

lemma find_candidate_cases:
  assumes "candidates_ok cs"
  shows "case find_candidate cs path of
      None \<Rightarrow> path \<notin> (cd_path \<circ> ca_binding) ` set cs
    | Some i \<Rightarrow> i < length cs \<and> cd_path (ca_binding (cs ! i)) = path"
proof -
  have "sorted (map (cd_path \<circ> ca_binding) cs)" using assms by (simp add: candidates_ok_def)
  from search_cases[OF this, of "\<lambda>c. cd_path (ca_binding c) < path" path "\<lambda>c. cd_path (ca_binding c) = path"]
  show ?thesis by (auto simp: find_candidate_def split: option.splits)
qed

section \<open>Results\<close>

definition lifecycle_outcome :: "policy_lifecycle \<Rightarrow> outcome" where
  "lifecycle_outcome l = (case l of
     PL_ACTIVE \<Rightarrow> Out_NO_CHANGE | PL_DECLARED \<Rightarrow> Out_SUSPENDED | PL_SUSPENDED \<Rightarrow> Out_SUSPENDED
   | PL_REVALIDATION_REQUIRED \<Rightarrow> Out_REVALIDATION_REQUIRED | PL_REVOKED \<Rightarrow> Out_REVOKED
   | PL_SUPERSEDED \<Rightarrow> Out_POLICY_SUPERSEDED | PL_RETIRED \<Rightarrow> Out_RETIRED)"

definition make_result :: "outcome \<Rightarrow> string \<Rightarrow> policy_id \<Rightarrow> state \<Rightarrow> operation_result" where
  "make_result outcome detail policy s =
    (let r = (or_make outcome detail)\<lparr>or_policy := policy, or_epoch := g_epoch s,
               or_evidence_generation := g_evidence_generation s\<rparr> in
     if id_valid policy then
       (case om_find (g_policies s) policy of
          None \<Rightarrow> r
        | Some p \<Rightarrow> r\<lparr>or_policy_generation := ap_generation (pc_policy p),
            or_adaptation_generation := rp_adaptation_generation (pc_preference p),
            or_transition_generation := rp_transition_generation (pc_preference p)\<rparr>)
     else r)"

lemma make_result_simps [simp]:
  "or_outcome (make_result c d p s) = c" "or_detail (make_result c d p s) = d"
  "or_mutated (make_result c d p s) = False" "or_policy (make_result c d p s) = p"
  "or_epoch (make_result c d p s) = g_epoch s" "or_suppression (make_result c d p s) = Sup_NONE"
  by (auto simp: make_result_def Let_def or_make_def split: option.splits)

lemma make_result_ok [simp]: "or_ok (make_result c d p s) = outcome_is_success c"
  by (simp add: or_ok_def)

section \<open>Caller authority\<close>

text \<open>The result is the refusal, or the registration the caller acts under.\<close>

definition check_caller ::
    "state \<Rightarrow> mutation_context \<Rightarrow> route_id option \<Rightarrow> multipath_set_id option \<Rightarrow> (outcome \<times> string) + publisher_registration" where
  "check_caller s ctx route set_id =
    (if \<not> mc_has_caller_identity ctx then Inl (Out_UNAUTHORIZED, ''caller identity is incomplete'')
     else if g_epoch s \<noteq> mc_epoch ctx then
       Inl (Out_STALE_EPOCH, ''request epoch '' @ gen_text (mc_epoch ctx) @ '' is not the current epoch '' @ gen_text (g_epoch s))
     else if oset_member (mc_worker_boot ctx) (g_fenced_boots s) then
       Inl (Out_FENCED_WORKER, ''worker boot '' @ id_text (mc_worker_boot ctx) @ '' is permanently fenced'')
     else (case om_find (g_registrations s) (mc_publisher ctx) of
       None \<Rightarrow> Inl (Out_UNAUTHORIZED, ''publisher '' @ id_text (mc_publisher ctx) @ '' is not registered'')
     | Some reg \<Rightarrow>
       if pr_worker_boot reg \<noteq> mc_worker_boot ctx then
         Inl (Out_STALE_WORKER, ''worker boot '' @ id_text (mc_worker_boot ctx) @ '' is not the live incarnation of '' @ id_text (mc_publisher ctx))
       else if pr_session reg \<noteq> mc_session ctx then
         Inl (Out_UNAUTHORIZED, ''session does not own this publisher registration'')
       else if \<not> as_well_formed (pr_scope reg) then
         Inl (Out_UNAUTHORIZED_SCOPE, ''registered authority scope is malformed'')
       else (let fabric = as_fabric (pr_scope reg); namespace = as_namespace (pr_scope reg) in
         if route \<noteq> None \<and> \<not> as_covers_route (pr_scope reg) fabric namespace (the route) then
           Inl (Out_UNAUTHORIZED_SCOPE, ''authority scope does not cover route '' @ id_text (the route))
         else if set_id \<noteq> None \<and> \<not> as_covers_multipath_set (pr_scope reg) fabric namespace (the set_id) then
           Inl (Out_UNAUTHORIZED_SCOPE, ''authority scope does not cover multipath set '' @ id_text (the set_id))
         else Inr reg)))"

section \<open>Replay recognition\<close>

definition replay_check :: "mutation_attempt_id \<Rightarrow> string \<Rightarrow> engine \<Rightarrow> engine \<times> operation_result option" where
  "replay_check attempt fingerprint e =
    (let s = en_state e; c = en_counters e in
     if \<not> id_valid attempt then (e, Some (make_result Out_MALFORMED_REQUEST ''mutation attempt id is invalid'' no_id s))
     else (case om_find (g_attempts s) attempt of
       None \<Rightarrow> (e, None)
     | Some a \<Rightarrow>
       if at_fingerprint a = fingerprint then
         (e\<lparr>en_counters := c\<lparr>fb_idempotent_replays := fb_idempotent_replays c + 1\<rparr>\<rparr>,
          Some (make_result Out_IDEMPOTENT
            (''exact replay of '' @ outcome_to_string (at_outcome a) @ (if at_detail a = [] then [] else '' '' @ at_detail a)) no_id s))
       else
         (e\<lparr>en_counters := c\<lparr>fb_attempt_conflicts := fb_attempt_conflicts c + 1\<rparr>\<rparr>,
          Some (make_result Out_ATTEMPT_CONFLICT ''attempt id reused with a different payload'' no_id s))))"

text \<open>
  The attempt table and the snapshot history are both a map with the order in which its keys came
  in; the oldest keys leave first.
\<close>

fun prune_oldest :: "nat \<Rightarrow> 'k list \<Rightarrow> ('k, 'v) omap \<Rightarrow> 'k list \<times> ('k, 'v) omap" where
  "prune_oldest n [] m = ([], m)"
| "prune_oldest n (oldest # rest) m =
    (if n < length (oldest # rest) then prune_oldest n rest (om_erase oldest m) else (oldest # rest, m))"

definition prune_attempts :: "limits \<Rightarrow> state \<Rightarrow> state" where
  "prune_attempts l s =
    (let (order, kept) = prune_oldest (unat (lim_max_attempts l)) (g_attempt_order s) (g_attempts s) in
     s\<lparr>g_attempts := kept, g_attempt_order := order\<rparr>)"

definition record_attempt :: "limits \<Rightarrow> mutation_attempt_id \<Rightarrow> string \<Rightarrow> outcome \<Rightarrow> string \<Rightarrow> state \<Rightarrow> state" where
  "record_attempt l attempt fingerprint outcome detail s =
    (if \<not> id_valid attempt then s
     else
       (let r = \<lparr>at_attempt = attempt, at_fingerprint = fingerprint, at_outcome = outcome, at_detail = detail\<rparr>;
            s1 = s\<lparr>g_attempts := om_put attempt r (g_attempts s)\<rparr> in
        (case om_find (g_attempts s) attempt of
           Some old \<Rightarrow> s1
         | None \<Rightarrow> prune_attempts l (s1\<lparr>g_attempt_order := g_attempt_order s @ [attempt]\<rparr>))))"

definition fingerprint_policy :: "policy_scope \<Rightarrow> policy_semantics \<Rightarrow> string option" where
  "fingerprint_policy scope semantics =
     Some (digest_hex (write_string (ps_render semantics) (write_string (sc_render scope)
       (write_tag ''policy-payload'' digest_new))))"

definition prune_history :: "limits \<Rightarrow> policy_record \<Rightarrow> policy_record" where
  "prune_history l r = r\<lparr>pc_history := fifo_trim (unat (lim_max_history_per_policy l)) (pc_history r)\<rparr>"

definition retain_snapshot :: "limits \<Rightarrow> adaptation_snapshot \<Rightarrow> state \<Rightarrow> state" where
  "retain_snapshot l snapshot s =
    (let (order, kept) = prune_oldest (unat (lim_max_snapshot_history l)) (g_snapshot_order s @ [sn_id snapshot])
                           (om_put (sn_id snapshot) snapshot (g_snapshots s)) in
     s\<lparr>g_snapshots := kept, g_snapshot_order := order\<rparr>)"

section \<open>Reverse indexes\<close>

text \<open>\<open>index_drop\<close> is the erase-and-forget-empty step; \<open>index_add\<close> is \<^verbatim>\<open>index[key].insert(policy)\<close>.\<close>

definition index_drop :: "'k::linorder \<Rightarrow> policy_id \<Rightarrow> ('k, policy_id oset) omap \<Rightarrow> ('k, policy_id oset) omap" where
  "index_drop key policy index =
    (case om_find index key of
       None \<Rightarrow> index
     | Some ps \<Rightarrow> (let rest = oset_erase policy ps in if rest = [] then om_erase key index else om_put key rest index))"

definition index_add :: "'k::linorder \<Rightarrow> policy_id \<Rightarrow> ('k, policy_id oset) omap \<Rightarrow> ('k, policy_id oset) omap" where
  "index_add key policy index =
     om_put key (oset_insert policy (case om_find index key of None \<Rightarrow> [] | Some ps \<Rightarrow> ps)) index"

definition candidate_paths :: "policy_record \<Rightarrow> path_id list" where
  "candidate_paths r = map (cd_path \<circ> ca_binding) (pc_candidates r)"

definition bound_sources :: "state \<Rightarrow> policy_record \<Rightarrow> evidence_source_id oset" where
  "bound_sources s r =
     foldl (\<lambda>acc entry. if fst (snd (fst entry)) \<in> set (candidate_paths r) then oset_insert (fst (fst entry)) acc else acc)
       [] (g_evidence s)"

definition unindex_policy :: "policy_id \<Rightarrow> state \<Rightarrow> state" where
  "unindex_policy policy s =
    (case om_find (g_policies s) policy of
       None \<Rightarrow> s
     | Some r \<Rightarrow>
       (let target = ps_target (ap_semantics (pc_policy r)) in
        s\<lparr>g_by_path := foldl (\<lambda>ix path. index_drop path policy ix) (g_by_path s) (candidate_paths r),
          g_by_route := index_drop (pt_route target) policy (g_by_route s),
          g_by_set := (case pt_multipath_set target of None \<Rightarrow> g_by_set s | Some m \<Rightarrow> index_drop m policy (g_by_set s)),
          g_by_source := foldl (\<lambda>ix source. index_drop source policy ix) (g_by_source s) (oset_elems (bound_sources s r))\<rparr>))"

fun index_paths :: "u64 \<Rightarrow> policy_id \<Rightarrow> path_id list \<Rightarrow> (path_id, policy_id oset) omap \<Rightarrow> (path_id, policy_id oset) omap" where
  "index_paths fanout policy [] index = index"
| "index_paths fanout policy (path # paths) index =
    (if length index \<ge> unat (fanout * 16) then index
     else index_paths fanout policy paths (index_add path policy index))"

definition reindex_policy :: "limits \<Rightarrow> policy_id \<Rightarrow> state \<Rightarrow> state" where
  "reindex_policy l policy s =
    (case om_find (g_policies s) policy of
       None \<Rightarrow> s
     | Some r \<Rightarrow>
       (let target = ps_target (ap_semantics (pc_policy r)) in
        s\<lparr>g_by_path := index_paths (lim_max_policies_per_path l) policy (candidate_paths r) (g_by_path s),
          g_by_route := index_add (pt_route target) policy (g_by_route s),
          g_by_set := (case pt_multipath_set target of None \<Rightarrow> g_by_set s | Some m \<Rightarrow> index_add m policy (g_by_set s)),
          g_by_source := foldl (\<lambda>ix source. index_add source policy ix) (g_by_source s)
            (concat (map (\<lambda>entry. map (\<lambda>_. fst (fst entry)) (filter (\<lambda>path. fst (snd (fst entry)) = path) (candidate_paths r)))
              (g_evidence s)))\<rparr>))"

section \<open>Invalidation\<close>

definition touch_candidate :: "path_id \<Rightarrow> policy_record \<Rightarrow> policy_record" where
  "touch_candidate path r =
    (case find_candidate (pc_candidates r) path of
       None \<Rightarrow> r
     | Some i \<Rightarrow> r\<lparr>pc_candidates := (pc_candidates r)[i :=
         (pc_candidates r ! i)\<lparr>ca_path_watermark := ca_path_watermark (pc_candidates r ! i) + 1\<rparr>]\<rparr>)"

definition touch_policy :: "path_id \<Rightarrow> state \<Rightarrow> policy_id \<Rightarrow> state" where
  "touch_policy path s policy =
    (case om_find (g_policies s) policy of
       None \<Rightarrow> s
     | Some r \<Rightarrow> put_policy policy (touch_candidate path r) s)"

definition apply_invalidation :: "path_id \<Rightarrow> state \<Rightarrow> state" where
  "apply_invalidation path s =
    (let s1 = (case wm_next (g_upstream_watermark s) of None \<Rightarrow> s | Some w \<Rightarrow> s\<lparr>g_upstream_watermark := w\<rparr>) in
     (case om_find (g_by_path s1) path of
        None \<Rightarrow> s1
      | Some dependents \<Rightarrow> foldl (touch_policy path) s1 (oset_elems dependents)))"

section \<open>Authority operations\<close>

definition fence_worker :: "publisher_id \<Rightarrow> worker_boot_id \<Rightarrow> string \<Rightarrow> state \<Rightarrow> state" where
  "fence_worker publisher boot cause s =
     s\<lparr>g_fences := g_fences s @ [\<lparr>fr_publisher = publisher, fr_worker_boot = boot, fr_epoch = g_epoch s, fr_cause = cause\<rparr>],
       g_fenced_boots := oset_insert boot (g_fenced_boots s)\<rparr>"

definition register_publisher ::
    "publisher_id \<Rightarrow> worker_boot_id \<Rightarrow> authority_scope \<Rightarrow> session_id \<Rightarrow> engine \<Rightarrow> engine \<times> operation_result" where
  "register_publisher publisher boot scope session e =
    (let s = en_state e; c = en_counters e; refuse = (\<lambda>outcome detail. (e, make_result outcome detail no_id s)) in
     if \<not> id_valid publisher \<or> \<not> id_valid boot \<or> \<not> id_valid session then
       refuse Out_MALFORMED_REQUEST ''publisher, worker boot and session are required''
     else if \<not> as_well_formed scope then
       refuse Out_MALFORMED_REQUEST ''authority scope must name a fabric and a routing namespace''
     else if oset_member boot (g_fenced_boots s) then
       refuse Out_FENCED_WORKER (''worker boot '' @ id_text boot @ '' is permanently fenced'')
     else if om_find (g_registrations s) publisher = None
         \<and> length (g_registrations s) \<ge> unat (lim_max_publishers (en_limits e)) then
       refuse Out_RESOURCE_LIMIT ''publisher limit reached''
     else
       (let install = (\<lambda>s c.
            let r = \<lparr>pr_publisher = publisher, pr_worker_boot = boot, pr_scope = scope, pr_epoch = g_epoch s,
                      pr_authority_generation = g_authority_generation s, pr_session = session\<rparr>;
                s' = s\<lparr>g_registrations := om_put publisher r (g_registrations s),
                       g_live_boots := om_put boot publisher (g_live_boots s)\<rparr> in
            (e\<lparr>en_state := s', en_counters := c\<lparr>fb_publishers := of_nat (length (g_registrations s'))\<rparr>\<rparr>,
             make_result Out_POLICY_UPDATED ''publisher registered'' no_id s')) in
        (case om_find (g_registrations s) publisher of
           None \<Rightarrow> install s c
         | Some existing \<Rightarrow>
           if pr_worker_boot existing = boot then
             (let r = existing\<lparr>pr_scope := scope, pr_session := session, pr_epoch := g_epoch s,
                                pr_authority_generation := g_authority_generation s\<rparr>;
                  s' = s\<lparr>g_registrations := om_put publisher r (g_registrations s)\<rparr> in
              (e\<lparr>en_state := s'\<rparr>, make_result Out_IDEMPOTENT ''publisher incarnation re-registered'' no_id s'))
           else
             (let s1 = fence_worker publisher (pr_worker_boot existing) ''REINCARNATION'' s;
                  s2 = s1\<lparr>g_live_boots := om_erase (pr_worker_boot existing) (g_live_boots s1)\<rparr> in
              install s2 (c\<lparr>fb_fenced_workers := fb_fenced_workers c + 1\<rparr>)))))"

definition fence_publisher :: "publisher_id \<Rightarrow> worker_boot_id \<Rightarrow> string \<Rightarrow> engine \<Rightarrow> engine \<times> operation_result" where
  "fence_publisher publisher boot cause e =
    (let s = en_state e; c = en_counters e;
         refuse = (e, make_result Out_NOT_FOUND ''no live registration for that publisher incarnation'' no_id s) in
     case om_find (g_registrations s) publisher of
       None \<Rightarrow> refuse
     | Some existing \<Rightarrow>
       if pr_worker_boot existing \<noteq> boot then refuse
       else
         (let s1 = fence_worker publisher boot (if cause = [] then ''EXPLICIT'' else cause) s;
              s2 = s1\<lparr>g_live_boots := om_erase boot (g_live_boots s1),
                      g_registrations := om_erase publisher (g_registrations s1)\<rparr> in
          (e\<lparr>en_state := s2, en_counters := c\<lparr>fb_fenced_workers := fb_fenced_workers c + 1,
               fb_publishers := of_nat (length (g_registrations s2))\<rparr>\<rparr>,
           make_result Out_POLICY_UPDATED ''publisher fenced'' no_id s2)))"

definition epoch_reset_policy :: "policy_record \<Rightarrow> policy_record" where
  "epoch_reset_policy r =
    (let t = pc_timing r;
         r1 = r\<lparr>pc_timing := t\<lparr>ti_hold_down_active := False, ti_hold_down_deadline := 0,
                ti_cooldown_active := False, ti_cooldown_deadline := 0, ti_churn_commits := []\<rparr>\<rparr> in
     if policy_lifecycle_terminal (ap_lifecycle (pc_policy r1)) then r1
     else r1\<lparr>pc_policy := (pc_policy r1)\<lparr>ap_lifecycle := PL_REVALIDATION_REQUIRED\<rparr>\<rparr>)"

definition advance_epoch :: "string \<Rightarrow> engine \<Rightarrow> engine \<times> operation_result" where
  "advance_epoch reason e =
    (let s = en_state e; c = en_counters e in
     case gen_next (g_epoch s) of
       None \<Rightarrow> (e, make_result Out_GENERATION_OVERFLOW ''coordinator epoch is exhausted'' no_id s)
     | Some epoch \<Rightarrow>
       (let s1 = s\<lparr>g_epoch := epoch\<rparr> in
        case gen_next (g_authority_generation s1) of
          None \<Rightarrow> (e\<lparr>en_state := s1\<rparr>,
            make_result Out_GENERATION_OVERFLOW ''authority generation is exhausted'' no_id s1)
        | Some authority \<Rightarrow>
          (let s2 = s1\<lparr>g_authority_generation := authority\<rparr>;
               s3 = foldl (\<lambda>s entry. fence_worker (fst entry) (pr_worker_boot (snd entry)) ''EPOCH_ADVANCE'' s) s2 (g_registrations s2);
               s4 = s3\<lparr>g_registrations := [], g_live_boots := [], g_attempts := [], g_attempt_order := [],
                       g_policies := map (\<lambda>entry. (fst entry, epoch_reset_policy (snd entry))) (g_policies s3)\<rparr>;
               c' = c\<lparr>fb_fenced_workers := fb_fenced_workers c + of_nat (length (g_registrations s2)),
                      fb_publishers := 0, fb_epoch := g_epoch s4, fb_authority_generation := g_authority_generation s4\<rparr> in
           (e\<lparr>en_state := s4, en_counters := c'\<rparr>,
            make_result Out_POLICY_UPDATED (''epoch advanced to '' @ gen_text (g_epoch s4) @ '': '' @ reason) no_id s4))))"

definition describe_authority :: "engine \<Rightarrow> authority_description" where
  "describe_authority e = (let s = en_state e in
     \<lparr>ad_epoch = g_epoch s, ad_authority_generation = g_authority_generation s,
      ad_registrations = om_values (g_registrations s), ad_fence_records = g_fences s\<rparr>)"

definition is_fenced :: "engine \<Rightarrow> publisher_id \<Rightarrow> worker_boot_id \<Rightarrow> bool" where
  "is_fenced e publisher boot = oset_member boot (g_fenced_boots (en_state e))"

section \<open>Diagnostics\<close>

definition count_policies :: "(policy_lifecycle \<Rightarrow> bool) \<Rightarrow> state \<Rightarrow> u64" where
  "count_policies P s = of_nat (length (filter (\<lambda>r. P (ap_lifecycle (pc_policy r))) (om_values (g_policies s))))"

definition stats :: "engine \<Rightarrow> fabric_stats" where
  "stats e = (let s = en_state e in
     (en_counters e)\<lparr>fb_policies := of_nat (length (g_policies s)),
       fb_adaptable_policies := count_policies policy_lifecycle_adaptable s,
       fb_revoked_policies := count_policies (\<lambda>l. l = PL_REVOKED) s,
       fb_retired_policies := count_policies (\<lambda>l. l = PL_RETIRED) s,
       fb_candidates := foldl (\<lambda>n r. n + of_nat (length (pc_candidates r))) 0 (om_values (g_policies s)),
       fb_evidence_series := of_nat (length (g_evidence s)),
       fb_evidence_samples := foldl (\<lambda>n r. n + of_nat (length (se_samples r))) 0 (om_values (g_evidence s)),
       fb_publishers := of_nat (length (g_registrations s)),
       fb_revocations := of_nat (length (g_revocations s)),
       fb_epoch := g_epoch s,
       fb_authority_generation := g_authority_generation s,
       fb_evidence_generation := g_evidence_generation s\<rparr>)"

end
