(* ===== verification/Contract.thy ===== *)
theory Contract
  imports Engine
begin

text \<open>
  What every entry point of the engine promises: it keeps the structural invariant of the guarded
  state (\<open>engine_ok\<close>) and it only moves forward (\<open>engine_extends\<close>): fenced boots stay fenced,
  generations and watermarks never go back, a policy is never forgotten and a terminal policy keeps
  its lifecycle.  The locale \<open>engine_operation\<close> states the contract; the authority operations are
  its first interpretations.
\<close>

section \<open>The reverse indexes\<close>

text \<open>
  A reverse index is a relation between keys and policies; entries without a policy are forgotten.
\<close>

locale reverse_index =
  fixes has :: "'ix \<Rightarrow> 'k \<Rightarrow> 'p \<Rightarrow> bool" and add :: "'k \<Rightarrow> 'p \<Rightarrow> 'ix \<Rightarrow> 'ix"
    and drop :: "'k \<Rightarrow> 'p \<Rightarrow> 'ix \<Rightarrow> 'ix" and wf :: "'ix \<Rightarrow> bool"
  assumes has_add: "has (add k p ix) j q \<longleftrightarrow> (j = k \<and> q = p) \<or> has ix j q"
    and has_drop: "wf ix \<Longrightarrow> has (drop k p ix) j q \<longleftrightarrow> has ix j q \<and> \<not> (j = k \<and> q = p)"
    and wf_add: "wf ix \<Longrightarrow> wf (add k p ix)"
    and wf_drop: "wf ix \<Longrightarrow> wf (drop k p ix)"
begin

lemma wf_drops: "wf ix \<Longrightarrow> wf (foldl (\<lambda>ix k. drop k p ix) ix ks)"
  by (induction ks arbitrary: ix) (auto simp: wf_drop)

lemma has_drops:
  "wf ix \<Longrightarrow> has (foldl (\<lambda>ix k. drop k p ix) ix ks) j q \<longleftrightarrow> has ix j q \<and> \<not> (j \<in> set ks \<and> q = p)"
  by (induction ks arbitrary: ix) (auto simp: wf_drop has_drop)

lemma wf_adds: "wf ix \<Longrightarrow> wf (foldl (\<lambda>ix k. add k p ix) ix ks)"
  by (induction ks arbitrary: ix) (auto simp: wf_add)

lemma has_adds: "has (foldl (\<lambda>ix k. add k p ix) ix ks) j q \<longleftrightarrow> (j \<in> set ks \<and> q = p) \<or> has ix j q"
  by (induction ks arbitrary: ix) (auto simp: has_add)

text \<open>Dropping every key under which a policy is listed forgets the policy, and nothing else.\<close>

lemma drops_forget:
  assumes "wf ix" and "\<And>k. has ix k p \<Longrightarrow> k \<in> set ks"
  shows "has (foldl (\<lambda>ix k. drop k p ix) ix ks) j q \<longleftrightarrow> has ix j q \<and> q \<noteq> p"
  using assms by (auto simp: has_drops)

end

definition index_has :: "('k, policy_id oset) omap \<Rightarrow> 'k \<Rightarrow> policy_id \<Rightarrow> bool" where
  "index_has ix k p = (case om_find ix k of None \<Rightarrow> False | Some ps \<Rightarrow> oset_member p ps)"

definition index_wf :: "('k::linorder, policy_id oset) omap \<Rightarrow> bool" where
  "index_wf ix = (om_ok ix \<and> (\<forall>k ps. om_find ix k = Some ps \<longrightarrow> om_ok ps \<and> ps \<noteq> []))"

lemma oset_empty_member: "rest = [] \<longleftrightarrow> (\<forall>p. \<not> oset_member p rest)"
  by (cases rest) (auto simp: oset_member_def split: prod.splits if_splits)

lemma om_put_nonempty [simp]: "om_put k v m \<noteq> []"
  by (cases m) (auto split: if_splits)

lemma index_has_drop:
  assumes "index_wf ix"
  shows "index_has (index_drop k p ix) j q \<longleftrightarrow> index_has ix j q \<and> \<not> (j = k \<and> q = p)"
proof (cases "om_find ix k")
  case None
  then show ?thesis by (auto simp: index_drop_def index_has_def)
next
  case (Some ps)
  have ps: "om_ok ps" and ix: "om_ok ix" using assms Some by (auto simp: index_wf_def)
  show ?thesis
  proof (cases "oset_erase p ps = []")
    case True
    then have "\<forall>q. oset_member q ps \<longrightarrow> q = p" using oset_member_erase[OF ps, of _ p] by auto
    with Some True ix show ?thesis by (auto simp: index_drop_def index_has_def om_find_erase)
  next
    case False
    with Some ps show ?thesis by (auto simp: index_drop_def index_has_def om_find_put oset_member_erase Let_def)
  qed
qed

lemma index_wf_drop: "index_wf ix \<Longrightarrow> index_wf (index_drop k p ix)"
  by (auto simp: index_wf_def index_drop_def om_simps oset_erase_def Let_def split: option.split if_splits)

lemma index_has_add: "index_has (index_add k p ix) j q \<longleftrightarrow> (j = k \<and> q = p) \<or> index_has ix j q"
  by (auto simp: index_add_def index_has_def om_find_put split: option.split)

lemma index_wf_add: "index_wf ix \<Longrightarrow> index_wf (index_add k p ix)"
  by (auto simp: index_wf_def index_add_def om_simps oset_insert_def split: option.split if_splits)

interpretation rindex: reverse_index index_has index_add index_drop index_wf
  by unfold_locales (simp_all add: index_has_add index_has_drop index_wf_add index_wf_drop)

lemma index_paths_sound:
  "index_has (index_paths n p paths ix) j q \<Longrightarrow> (j \<in> set paths \<and> q = p) \<or> index_has ix j q"
  by (induction n p paths ix rule: index_paths.induct) (auto simp: index_has_add split: if_splits)

lemma index_paths_keeps: "index_has ix j q \<Longrightarrow> index_has (index_paths n p paths ix) j q"
  by (induction n p paths ix rule: index_paths.induct) (auto simp: index_has_add)

lemma index_paths_wf: "index_wf ix \<Longrightarrow> index_wf (index_paths n p paths ix)"
  by (induction n p paths ix rule: index_paths.induct) (auto simp: index_wf_add)

lemma index_add_length: "length (index_add k p ix) \<le> Suc (length ix)"
  by (simp add: index_add_def om_put_length)

lemma index_paths_complete:
  "length ix + length paths \<le> unat (n * 16) \<Longrightarrow> path \<in> set paths \<Longrightarrow> index_has (index_paths n p paths ix) path p"
proof (induction n p paths ix rule: index_paths.induct)
  case (2 n p q paths ix)
  have "length (index_add q p ix) + length paths \<le> unat (n * 16)"
    using 2(2) index_add_length[of q p ix] by simp
  with 2 show ?case by (auto simp: index_has_add index_paths_keeps)
qed simp

section \<open>The structural invariant\<close>

definition policy_record_ok :: "limits \<Rightarrow> policy_id \<Rightarrow> policy_record \<Rightarrow> bool" where
  "policy_record_ok l p r =
    (ap_id (pc_policy r) = p \<and> candidates_ok (pc_candidates r)
     \<and> (\<forall>c \<in> set (pc_candidates r). cd_well_formed (ca_binding c))
     \<and> length (pc_candidates r) \<le> unat (lim_max_candidates_per_policy l)
     \<and> length (pc_history r) \<le> unat (lim_max_history_per_policy l)
     \<and> ps_valid (ap_semantics (pc_policy r)) = None \<and> sc_well_formed (ap_scope (pc_policy r)))"

definition policies_ok :: "limits \<Rightarrow> (policy_id, policy_record) omap \<Rightarrow> bool" where
  "policies_ok l m = (om_ok m \<and> (\<forall>p r. om_find m p = Some r \<longrightarrow> policy_record_ok l p r))"

definition registrations_ok :: "(publisher_id, publisher_registration) omap \<Rightarrow> bool" where
  "registrations_ok m = (om_ok m \<and> (\<forall>p r. om_find m p = Some r \<longrightarrow> pr_publisher r = p \<and> as_well_formed (pr_scope r)))"

definition table_ok :: "nat \<Rightarrow> 'k::linorder list \<Rightarrow> ('k, 'v) omap \<Rightarrow> bool" where
  "table_ok n order m = (om_ok m \<and> distinct order \<and> (\<forall>k. om_find m k \<noteq> None \<longleftrightarrow> k \<in> set order) \<and> length order \<le> n)"

text \<open>Every entry of a reverse index is a policy that really has the key.\<close>

definition index_ok :: "('k::linorder \<Rightarrow> policy_id \<Rightarrow> bool) \<Rightarrow> ('k, policy_id oset) omap \<Rightarrow> bool" where
  "index_ok has ix = (index_wf ix \<and> (\<forall>k p. index_has ix k p \<longrightarrow> has k p))"

definition binds_path :: "(policy_id, policy_record) omap \<Rightarrow> path_id \<Rightarrow> policy_id \<Rightarrow> bool" where
  "binds_path m path p = (case om_find m p of None \<Rightarrow> False | Some r \<Rightarrow> path \<in> set (candidate_paths r))"

definition series_ok :: "limits \<Rightarrow> evidence_key \<Rightarrow> evidence_series \<Rightarrow> bool" where
  "series_ok l k x = (k = (se_source x, se_path x, se_kind x)
     \<and> length (se_samples x) \<le> unat (lim_max_evidence_samples_per_series l)
     \<and> (\<forall>v \<in> set (se_samples x). es_path v = se_path x \<and> mv_ok (es_value v) \<and> mv_kind (es_value v) = se_kind x)
     \<and> sorted (map es_sequence (se_samples x)))"

definition evidence_ok :: "limits \<Rightarrow> (evidence_key, evidence_series) omap \<Rightarrow> bool" where
  "evidence_ok l m = (om_ok m \<and> (\<forall>k x. om_find m k = Some x \<longrightarrow> series_ok l k x))"

definition revocations_ok :: "state \<Rightarrow> bool" where
  "revocations_ok s = (om_ok (g_revocations s) \<and> (\<forall>p v. om_find (g_revocations s) p = Some v \<longrightarrow>
     rv_policy v = p \<and> (\<exists>r. om_find (g_policies s) p = Some r \<and> ap_lifecycle (pc_policy r) = PL_REVOKED)))"

definition state_ok :: "limits \<Rightarrow> state \<Rightarrow> bool" where
  "state_ok l s = (policies_ok l (g_policies s) \<and> registrations_ok (g_registrations s) \<and> om_ok (g_fenced_boots s)
     \<and> table_ok (unat (lim_max_attempts l)) (g_attempt_order s) (g_attempts s)
     \<and> index_ok (binds_path (g_policies s)) (g_by_path s) \<and> evidence_ok l (g_evidence s) \<and> revocations_ok s)"

definition engine_ok :: "engine \<Rightarrow> bool" where
  "engine_ok e = state_ok (en_limits e) (en_state e)"

section \<open>Forward steps\<close>

definition policy_extends :: "policy_record \<Rightarrow> policy_record \<Rightarrow> bool" where
  "policy_extends r r' = (ap_id (pc_policy r') = ap_id (pc_policy r) \<and> ap_name (pc_policy r') = ap_name (pc_policy r)
     \<and> ap_generation (pc_policy r) \<le> ap_generation (pc_policy r')
     \<and> (policy_lifecycle_terminal (ap_lifecycle (pc_policy r)) \<longrightarrow> ap_lifecycle (pc_policy r') = ap_lifecycle (pc_policy r)
          \<and> ap_generation (pc_policy r') = ap_generation (pc_policy r)
          \<and> ap_semantics (pc_policy r') = ap_semantics (pc_policy r)))"

definition policies_extend :: "(policy_id, policy_record) omap \<Rightarrow> (policy_id, policy_record) omap \<Rightarrow> bool" where
  "policies_extend m m' = (\<forall>p r. om_find m p = Some r \<longrightarrow> (\<exists>r'. om_find m' p = Some r' \<and> policy_extends r r'))"

text \<open>A live incarnation stays the live one of its publisher or is fenced; it is never dropped quietly.\<close>

definition incarnations_extend ::
    "(publisher_id, publisher_registration) omap \<Rightarrow> (publisher_id, publisher_registration) omap \<Rightarrow> worker_boot_id oset \<Rightarrow> bool" where
  "incarnations_extend m m' fenced = (\<forall>p r. om_find m p = Some r \<longrightarrow> oset_member (pr_worker_boot r) fenced
     \<or> (\<exists>r'. om_find m' p = Some r' \<and> pr_worker_boot r' = pr_worker_boot r))"

definition state_extends :: "state \<Rightarrow> state \<Rightarrow> bool" where
  "state_extends s s' = (g_epoch s \<le> g_epoch s' \<and> g_authority_generation s \<le> g_authority_generation s'
     \<and> g_evidence_generation s \<le> g_evidence_generation s'
     \<and> g_evidence_watermark s \<le> g_evidence_watermark s' \<and> g_upstream_watermark s \<le> g_upstream_watermark s'
     \<and> (\<forall>b. oset_member b (g_fenced_boots s) \<longrightarrow> oset_member b (g_fenced_boots s'))
     \<and> set (g_fences s) \<subseteq> set (g_fences s')
     \<and> incarnations_extend (g_registrations s) (g_registrations s') (g_fenced_boots s')
     \<and> policies_extend (g_policies s) (g_policies s')
     \<and> (\<forall>p v. om_find (g_revocations s) p = Some v \<longrightarrow> om_find (g_revocations s') p = Some v))"

definition engine_extends :: "engine \<Rightarrow> engine \<Rightarrow> bool" where
  "engine_extends e e' = (en_limits e' = en_limits e \<and> state_extends (en_state e) (en_state e'))"

lemma policy_extends_refl [simp]: "policy_extends r r"
  by (simp add: policy_extends_def)

lemma policy_extends_trans: "policy_extends a b \<Longrightarrow> policy_extends b c \<Longrightarrow> policy_extends a c"
  by (auto simp: policy_extends_def)

lemma policies_extend_refl [simp]: "policies_extend m m"
  by (simp add: policies_extend_def)

lemma policies_extend_trans: "policies_extend a b \<Longrightarrow> policies_extend b c \<Longrightarrow> policies_extend a c"
  unfolding policies_extend_def by (meson policy_extends_trans)

lemma policies_extend_put:
  assumes "om_find m p = None \<or> (\<exists>r. om_find m p = Some r \<and> policy_extends r r')"
  shows "policies_extend m (om_put p r' m)"
  using assms by (auto simp: policies_extend_def om_find_put)

lemma incarnations_extend_refl [simp]: "incarnations_extend m m f"
  by (simp add: incarnations_extend_def)

lemma incarnations_extend_trans:
  "incarnations_extend a b f \<Longrightarrow> incarnations_extend b c g \<Longrightarrow> (\<forall>x. oset_member x f \<longrightarrow> oset_member x g) \<Longrightarrow> incarnations_extend a c g"
  unfolding incarnations_extend_def by metis

lemma state_extends_refl [simp]: "state_extends s s"
  by (simp add: state_extends_def)

lemma state_extends_trans: "state_extends a b \<Longrightarrow> state_extends b c \<Longrightarrow> state_extends a c"
  unfolding state_extends_def
  by (elim conjE, intro conjI) (blast intro: order_trans policies_extend_trans incarnations_extend_trans)+

lemma engine_extends_refl [simp]: "engine_extends e e"
  by (simp add: engine_extends_def)

lemma engine_extends_trans: "engine_extends a b \<Longrightarrow> engine_extends b c \<Longrightarrow> engine_extends a c"
  unfolding engine_extends_def using state_extends_trans by metis

lemma engine_extends_policy:
  "engine_extends e e' \<Longrightarrow> om_find (g_policies (en_state e)) p = Some r \<Longrightarrow>
     \<exists>r'. om_find (g_policies (en_state e')) p = Some r' \<and> policy_extends r r'"
  by (simp add: engine_extends_def state_extends_def policies_extend_def)

lemma engine_extends_terminal:
  assumes "engine_extends e e'" "om_find (g_policies (en_state e)) p = Some x" "policy_lifecycle_terminal (ap_lifecycle (pc_policy x))"
  shows "\<exists>y. om_find (g_policies (en_state e')) p = Some y \<and> ap_lifecycle (pc_policy y) = ap_lifecycle (pc_policy x)"
proof -
  obtain y where "om_find (g_policies (en_state e')) p = Some y" "policy_extends x y"
    using engine_extends_policy[OF assms(1,2)] by blast
  with assms(3) show ?thesis by (auto simp: policy_extends_def)
qed

section \<open>The contract\<close>

text \<open>An operation that ends the process (an identity cannot be minted) yields \<open>None\<close>.\<close>

locale engine_operation =
  fixes run :: "engine \<Rightarrow> (engine \<times> 'r) option"
  assumes contract: "engine_ok e \<Longrightarrow> run e = Some (e', r) \<Longrightarrow> engine_ok e' \<and> engine_extends e e'"
begin

lemma keeps: "engine_ok e \<Longrightarrow> run e = Some (e', r) \<Longrightarrow> engine_ok e'"
  using contract by blast

lemma fenced_stays:
  "engine_ok e \<Longrightarrow> run e = Some (e', r) \<Longrightarrow> oset_member b (g_fenced_boots (en_state e)) \<Longrightarrow>
     oset_member b (g_fenced_boots (en_state e'))"
  using contract[of e e' r] by (auto simp: engine_extends_def state_extends_def)

lemma terminal_stays:
  assumes "engine_ok e" "run e = Some (e', r)" "om_find (g_policies (en_state e)) p = Some x"
    and "policy_lifecycle_terminal (ap_lifecycle (pc_policy x))"
  shows "\<exists>y. om_find (g_policies (en_state e')) p = Some y \<and> ap_lifecycle (pc_policy y) = ap_lifecycle (pc_policy x)"
  by (rule engine_extends_terminal[OF conjunct2[OF contract[OF assms(1,2)]] assms(3,4)])

end

text \<open>An operation that only replaces the guarded state and the counters.\<close>

lemma engine_okI:
  assumes "state_ok (en_limits e) s \<and> state_extends (en_state e) s"
  shows "engine_ok (e\<lparr>en_state := s\<rparr>) \<and> engine_extends e (e\<lparr>en_state := s\<rparr>)"
    and "engine_ok (e\<lparr>en_state := s, en_counters := c\<rparr>) \<and> engine_extends e (e\<lparr>en_state := s, en_counters := c\<rparr>)"
  using assms by (simp_all add: engine_ok_def engine_extends_def)

lemma engine_ok_counters [simp]:
  "engine_ok (e\<lparr>en_counters := c\<rparr>) = engine_ok e" "engine_extends e' (e\<lparr>en_counters := c\<rparr>) = engine_extends e' e"
  by (simp_all add: engine_ok_def engine_extends_def)

section \<open>The attempt table\<close>

lemma prune_oldest_spec:
  assumes "om_ok m" "distinct order" "\<forall>k. om_find m k \<noteq> None \<longleftrightarrow> k \<in> set order"
    and "prune_oldest n order m = (order', m')"
  shows "table_ok n order' m' \<and> order' = drop (length order - n) order \<and> (\<forall>k \<in> set order'. om_find m' k = om_find m k)"
  using assms
proof (induction n order m rule: prune_oldest.induct)
  case (2 n oldest rest m)
  show ?case
  proof (cases "n < length (oldest # rest)")
    case True
    have "om_ok (om_erase oldest m)" "distinct rest" using 2(2,3) om_simps by auto
    moreover have "\<forall>k. om_find (om_erase oldest m) k \<noteq> None \<longleftrightarrow> k \<in> set rest"
      using 2(2,3,4) by (auto simp: om.find_erase)
    moreover have "prune_oldest n rest (om_erase oldest m) = (order', m')" using True 2(5) by simp
    ultimately have ih: "table_ok n order' m' \<and> order' = drop (length rest - n) rest
        \<and> (\<forall>k \<in> set order'. om_find m' k = om_find (om_erase oldest m) k)"
      by (rule 2(1)[OF True])
    moreover have "oldest \<notin> set order'" using ih 2(3) set_drop_subset[of "length rest - n" rest] by auto
    moreover have "drop (length (oldest # rest) - n) (oldest # rest) = drop (length rest - n) rest"
      using True by (simp add: Suc_diff_le)
    ultimately show ?thesis using 2(2) by (auto simp: om.find_erase)
  next
    case False
    with 2(2-5) show ?thesis by (auto simp: table_ok_def)
  qed
qed (auto simp: table_ok_def)

lemma prune_attempts_frame [simp]:
  "g_policies (prune_attempts l s) = g_policies s" "g_registrations (prune_attempts l s) = g_registrations s"
  "g_fenced_boots (prune_attempts l s) = g_fenced_boots s" "g_fences (prune_attempts l s) = g_fences s"
  "g_by_path (prune_attempts l s) = g_by_path s" "g_evidence (prune_attempts l s) = g_evidence s"
  "g_revocations (prune_attempts l s) = g_revocations s" "g_epoch (prune_attempts l s) = g_epoch s"
  "g_authority_generation (prune_attempts l s) = g_authority_generation s"
  "g_evidence_generation (prune_attempts l s) = g_evidence_generation s"
  "g_evidence_watermark (prune_attempts l s) = g_evidence_watermark s"
  "g_upstream_watermark (prune_attempts l s) = g_upstream_watermark s"
  by (simp_all add: prune_attempts_def split: prod.split)

lemma record_attempt_frame [simp]:
  "g_policies (record_attempt l a f c d s) = g_policies s" "g_registrations (record_attempt l a f c d s) = g_registrations s"
  "g_fenced_boots (record_attempt l a f c d s) = g_fenced_boots s" "g_fences (record_attempt l a f c d s) = g_fences s"
  "g_by_path (record_attempt l a f c d s) = g_by_path s" "g_evidence (record_attempt l a f c d s) = g_evidence s"
  "g_revocations (record_attempt l a f c d s) = g_revocations s" "g_epoch (record_attempt l a f c d s) = g_epoch s"
  "g_authority_generation (record_attempt l a f c d s) = g_authority_generation s"
  "g_evidence_generation (record_attempt l a f c d s) = g_evidence_generation s"
  "g_evidence_watermark (record_attempt l a f c d s) = g_evidence_watermark s"
  "g_upstream_watermark (record_attempt l a f c d s) = g_upstream_watermark s"
  by (simp_all add: record_attempt_def Let_def split: option.split)

lemma record_attempt_table:
  fixes a f c d
  assumes "table_ok (unat (lim_max_attempts l)) (g_attempt_order s) (g_attempts s)"
  defines "s' \<equiv> record_attempt l a f c d s"
  shows "table_ok (unat (lim_max_attempts l)) (g_attempt_order s') (g_attempts s')"
    and "id_valid a \<Longrightarrow> 0 < lim_max_attempts l \<Longrightarrow>
      om_find (g_attempts s') a = Some \<lparr>at_attempt = a, at_fingerprint = f, at_outcome = c, at_detail = d\<rparr>"
proof -
  let ?r = "\<lparr>at_attempt = a, at_fingerprint = f, at_outcome = c, at_detail = d\<rparr>"
  let ?n = "unat (lim_max_attempts l)"
  note t = assms(1)[unfolded table_ok_def]
  have ok: "om_ok (om_put a ?r (g_attempts s))" using t by (simp add: om_simps)
  have "table_ok ?n (g_attempt_order s') (g_attempts s') \<and>
      (id_valid a \<longrightarrow> 0 < lim_max_attempts l \<longrightarrow> om_find (g_attempts s') a = Some ?r)"
  proof (cases "id_valid a \<and> om_find (g_attempts s) a = None")
    case False
    then consider "\<not> id_valid a" | old where "id_valid a" "om_find (g_attempts s) a = Some old" by auto
    then show ?thesis
    proof cases
      case 1
      with assms(1) show ?thesis by (simp add: s'_def record_attempt_def)
    next
      case 2
      then have "s' = s\<lparr>g_attempts := om_put a ?r (g_attempts s)\<rparr>" by (simp add: s'_def record_attempt_def)
      moreover have "a \<in> set (g_attempt_order s)" using t 2 by auto
      ultimately show ?thesis using t ok by (auto simp: table_ok_def om_find_put)
    qed
  next
    case True
    then have new: "a \<notin> set (g_attempt_order s)" "om_find (g_attempts s) a = None" "id_valid a" using t by metis+
    obtain order m where pr: "prune_oldest ?n (g_attempt_order s @ [a]) (om_put a ?r (g_attempts s)) = (order, m)"
      by (cases "prune_oldest ?n (g_attempt_order s @ [a]) (om_put a ?r (g_attempts s))")
    have dom: "\<forall>k. om_find (om_put a ?r (g_attempts s)) k \<noteq> None \<longleftrightarrow> k \<in> set (g_attempt_order s @ [a])"
      using t by (auto simp: om_find_put)
    have dist: "distinct (g_attempt_order s @ [a])" using t new by simp
    from prune_oldest_spec[OF ok dist dom pr] have sp: "table_ok ?n order m"
        "order = drop (length (g_attempt_order s @ [a]) - ?n) (g_attempt_order s @ [a])"
        "\<forall>k \<in> set order. om_find m k = om_find (om_put a ?r (g_attempts s)) k" by blast+
    have "om_find m a = Some ?r" if "0 < lim_max_attempts l"
    proof -
      have "0 < ?n" using that by (simp add: word_less_nat_alt)
      then have "a \<in> set order" unfolding sp(2) by simp
      with sp(3) show ?thesis by (simp add: om_find_put)
    qed
    moreover have "g_attempts s' = m" "g_attempt_order s' = order"
      using new pr by (simp_all add: s'_def record_attempt_def prune_attempts_def)
    ultimately show ?thesis using sp(1) by simp
  qed
  then show "table_ok ?n (g_attempt_order s') (g_attempts s')"
    and "id_valid a \<Longrightarrow> 0 < lim_max_attempts l \<Longrightarrow> om_find (g_attempts s') a = Some ?r" by blast+
qed

lemma record_attempt_ok:
  "state_ok l s \<Longrightarrow> state_ok l (record_attempt l a f c d s)"
  using record_attempt_table(1)[of l s a f c d] by (simp add: state_ok_def revocations_ok_def)

lemma record_attempt_extends: "state_extends s (record_attempt l a f c d s)"
  by (simp add: state_extends_def)

lemma replay_check_engine: "\<exists>c. fst (replay_check a f e) = e\<lparr>en_counters := c\<rparr>"
proof -
  have "\<exists>c. e = e\<lparr>en_counters := c\<rparr>" by (rule exI[of _ "en_counters e"]) simp
  then show ?thesis by (auto simp: replay_check_def Let_def split: option.split)
qed

lemma replay_check_ok:
  "engine_ok (fst (replay_check a f e)) = engine_ok e" "engine_extends e' (fst (replay_check a f e)) = engine_extends e' e"
  "en_state (fst (replay_check a f e)) = en_state e" "en_limits (fst (replay_check a f e)) = en_limits e"
  using replay_check_engine[of a f e] by auto

section \<open>The authority operations\<close>

lemma fence_worker_frame [simp]:
  "g_policies (fence_worker p b c s) = g_policies s" "g_registrations (fence_worker p b c s) = g_registrations s"
  "g_fenced_boots (fence_worker p b c s) = oset_insert b (g_fenced_boots s)"
  "g_by_path (fence_worker p b c s) = g_by_path s" "g_evidence (fence_worker p b c s) = g_evidence s"
  "g_revocations (fence_worker p b c s) = g_revocations s" "g_epoch (fence_worker p b c s) = g_epoch s"
  "g_authority_generation (fence_worker p b c s) = g_authority_generation s"
  "g_evidence_generation (fence_worker p b c s) = g_evidence_generation s"
  "g_evidence_watermark (fence_worker p b c s) = g_evidence_watermark s"
  "g_upstream_watermark (fence_worker p b c s) = g_upstream_watermark s"
  "g_attempts (fence_worker p b c s) = g_attempts s" "g_attempt_order (fence_worker p b c s) = g_attempt_order s"
  "set (g_fences s) \<subseteq> set (g_fences (fence_worker p b c s))"
  by (auto simp: fence_worker_def)

lemma registrations_ok_put:
  "registrations_ok m \<Longrightarrow> pr_publisher r = p \<Longrightarrow> as_well_formed (pr_scope r) \<Longrightarrow> registrations_ok (om_put p r m)"
  by (auto simp: registrations_ok_def om_simps)

lemma registrations_ok_erase: "registrations_ok m \<Longrightarrow> registrations_ok (om_erase p m)"
  by (auto simp: registrations_ok_def om_simps)

lemma register_publisher_contract:
  assumes "engine_ok e"
  shows "engine_ok (fst (register_publisher p b sc se e)) \<and> engine_extends e (fst (register_publisher p b sc se e))"
  using assms
  by (auto simp: register_publisher_def Let_def engine_ok_def engine_extends_def state_ok_def state_extends_def
      revocations_ok_def intro!: registrations_ok_put split: option.split)
    (auto simp: registrations_ok_def incarnations_extend_def om_simps)

lemma fence_publisher_contract:
  assumes "engine_ok e"
  shows "engine_ok (fst (fence_publisher p b cause e)) \<and> engine_extends e (fst (fence_publisher p b cause e))"
  using assms
  by (auto simp: fence_publisher_def Let_def engine_ok_def engine_extends_def state_ok_def state_extends_def
      revocations_ok_def intro!: registrations_ok_erase split: option.split)
    (auto simp: registrations_ok_def incarnations_extend_def om_simps)

interpretation register: engine_operation "\<lambda>e. Some (register_publisher p b sc se e)" for p b sc se
  by unfold_locales (metis register_publisher_contract fst_conv option.inject)

interpretation fence: engine_operation "\<lambda>e. Some (fence_publisher p b cause e)" for p b cause
  by unfold_locales (metis fence_publisher_contract fst_conv option.inject)

lemma om_find_map [om_simps]: "om_find (map (\<lambda>entry. (fst entry, f (snd entry))) m) k = map_option f (om_find m k)"
  by (induction m k rule: om_find.induct) auto

lemma om_ok_map [om_simps]: "om_ok (map (\<lambda>entry. (fst entry, f (snd entry))) m) = om_ok m"
  by (simp add: om_ok_def comp_def)

definition fence_all :: "(publisher_id, publisher_registration) omap \<Rightarrow> state \<Rightarrow> state" where
  "fence_all regs s = foldl (\<lambda>s entry. fence_worker (fst entry) (pr_worker_boot (snd entry)) ''EPOCH_ADVANCE'' s) s regs"

lemma fence_all_frame [simp]:
  "g_policies (fence_all regs s) = g_policies s" "g_by_path (fence_all regs s) = g_by_path s"
  "g_evidence (fence_all regs s) = g_evidence s" "g_revocations (fence_all regs s) = g_revocations s"
  "g_epoch (fence_all regs s) = g_epoch s" "g_authority_generation (fence_all regs s) = g_authority_generation s"
  "g_evidence_generation (fence_all regs s) = g_evidence_generation s"
  "g_evidence_watermark (fence_all regs s) = g_evidence_watermark s"
  "g_upstream_watermark (fence_all regs s) = g_upstream_watermark s"
  unfolding fence_all_def by (induction regs arbitrary: s) simp_all

lemma fence_all_fenced:
  "oset_member b (g_fenced_boots (fence_all regs s)) \<longleftrightarrow>
     b \<in> (\<lambda>entry. pr_worker_boot (snd entry)) ` set regs \<or> oset_member b (g_fenced_boots s)"
  "om_ok (g_fenced_boots s) \<Longrightarrow> om_ok (g_fenced_boots (fence_all regs s))"
  unfolding fence_all_def by (induction regs arbitrary: s) auto

lemma fence_all_fences: "set (g_fences s) \<subseteq> set (g_fences (fence_all regs s))"
  unfolding fence_all_def
proof (induction regs arbitrary: s)
  case (Cons x regs)
  let ?s = "fence_worker (fst x) (pr_worker_boot (snd x)) ''EPOCH_ADVANCE'' s"
  have "set (g_fences s) \<subseteq> set (g_fences ?s)" by (rule fence_worker_frame(14))
  also note Cons[of ?s]
  finally show ?case by simp
qed simp

lemma epoch_reset_policy_ok: "policy_record_ok l p r \<Longrightarrow> policy_record_ok l p (epoch_reset_policy r)"
  by (simp add: policy_record_ok_def epoch_reset_policy_def Let_def)

lemma epoch_reset_policy_extends: "policy_extends r (epoch_reset_policy r)"
  by (simp add: policy_extends_def epoch_reset_policy_def Let_def)

lemma epoch_reset_policy_frame [simp]:
  "candidate_paths (epoch_reset_policy r) = candidate_paths r"
  "policy_lifecycle_terminal (ap_lifecycle (pc_policy r)) \<Longrightarrow>
     ap_lifecycle (pc_policy (epoch_reset_policy r)) = ap_lifecycle (pc_policy r)"
  "\<not> policy_lifecycle_adaptable (ap_lifecycle (pc_policy (epoch_reset_policy r)))"
  by (auto simp: candidate_paths_def epoch_reset_policy_def Let_def policy_lifecycle_terminal_def policy_lifecycle_adaptable_def)

text \<open>The three ways \<open>advance_epoch\<close> ends.\<close>

definition epoch_state :: "coordinator_epoch \<Rightarrow> adaptive_authority_generation \<Rightarrow> state \<Rightarrow> state" where
  "epoch_state epoch authority s =
     (fence_all (g_registrations s) (s\<lparr>g_epoch := epoch, g_authority_generation := authority\<rparr>))
       \<lparr>g_registrations := [], g_live_boots := [], g_attempts := [], g_attempt_order := [],
        g_policies := map (\<lambda>entry. (fst entry, epoch_reset_policy (snd entry))) (g_policies s)\<rparr>"

lemma advance_epoch_cases:
  obtains (exhausted) "gen_next (g_epoch (en_state e)) = None" "fst (advance_epoch reason e) = e"
      "or_outcome (snd (advance_epoch reason e)) = Out_GENERATION_OVERFLOW"
  | (half) epoch where "gen_next (g_epoch (en_state e)) = Some epoch"
      "gen_next (g_authority_generation (en_state e)) = None"
      "fst (advance_epoch reason e) = e\<lparr>en_state := (en_state e)\<lparr>g_epoch := epoch\<rparr>\<rparr>"
      "or_outcome (snd (advance_epoch reason e)) = Out_GENERATION_OVERFLOW"
  | (full) epoch authority c where "gen_next (g_epoch (en_state e)) = Some epoch"
      "gen_next (g_authority_generation (en_state e)) = Some authority"
      "fst (advance_epoch reason e) = e\<lparr>en_state := epoch_state epoch authority (en_state e), en_counters := c\<rparr>"
      "or_outcome (snd (advance_epoch reason e)) = Out_POLICY_UPDATED"
proof (cases "gen_next (g_epoch (en_state e))")
  case None
  then show ?thesis by (intro exhausted) (simp_all add: advance_epoch_def)
next
  case E: (Some epoch)
  show ?thesis
  proof (cases "gen_next (g_authority_generation (en_state e))")
    case None
    with E show ?thesis by (intro half[OF E None]) (simp_all add: advance_epoch_def Let_def)
  next
    case (Some authority)
    with E show ?thesis
      by (intro full[OF E Some]) (simp_all add: advance_epoch_def epoch_state_def fence_all_def[symmetric] Let_def)
  qed
qed

lemma epoch_state_policy:
  "om_find (g_policies (epoch_state ep au s)) p = map_option epoch_reset_policy (om_find (g_policies s) p)"
  by (simp add: epoch_state_def om_simps)

lemma epoch_state_contract:
  assumes "state_ok l s" and "g_epoch s \<le> ep" and "g_authority_generation s \<le> au"
  shows "state_ok l (epoch_state ep au s) \<and> state_extends s (epoch_state ep au s)"
proof -
  let ?m = "map (\<lambda>entry. (fst entry, epoch_reset_policy (snd entry))) (g_policies s)"
  have pol: "policies_ok l ?m" "policies_extend (g_policies s) ?m"
    using assms(1) by (auto simp: state_ok_def policies_ok_def policies_extend_def om_simps epoch_reset_policy_ok
        epoch_reset_policy_extends)
  have bp: "binds_path ?m = binds_path (g_policies s)"
    by (auto simp: binds_path_def om_simps fun_eq_iff split: option.split)
  have rev: "\<exists>r. om_find ?m p = Some r \<and> ap_lifecycle (pc_policy r) = PL_REVOKED"
    if "\<exists>r. om_find (g_policies s) p = Some r \<and> ap_lifecycle (pc_policy r) = PL_REVOKED" for p
    using that by (auto simp: om_simps policy_lifecycle_terminal_def)
  have inc: "incarnations_extend (g_registrations s) [] (g_fenced_boots (fence_all (g_registrations s) t))" for t
    by (force simp: incarnations_extend_def fence_all_fenced dest: om_find_in_set)
  show ?thesis
    using assms pol rev inc fence_all_fences[of "s\<lparr>g_epoch := ep, g_authority_generation := au\<rparr>" "g_registrations s"]
    by (auto simp: state_ok_def state_extends_def epoch_state_def fence_all_fenced bp registrations_ok_def table_ok_def
        revocations_ok_def)
qed

lemma advance_epoch_contract:
  assumes "engine_ok e"
  shows "engine_ok (fst (advance_epoch reason e)) \<and> engine_extends e (fst (advance_epoch reason e))"
proof (cases rule: advance_epoch_cases[of e reason])
  case exhausted
  with assms show ?thesis by simp
next
  case (half epoch)
  have "state_ok (en_limits e) ((en_state e)\<lparr>g_epoch := epoch\<rparr>) \<and> state_extends (en_state e) ((en_state e)\<lparr>g_epoch := epoch\<rparr>)"
    using assms gen_next_SomeD(2)[OF half(1)] by (auto simp: engine_ok_def state_ok_def state_extends_def revocations_ok_def)
  then show ?thesis unfolding half(3) by (rule engine_okI)
next
  case (full epoch authority c)
  have "state_ok (en_limits e) (epoch_state epoch authority (en_state e)) \<and> state_extends (en_state e) (epoch_state epoch authority (en_state e))"
    using assms gen_next_SomeD(2)[OF full(1)] gen_next_SomeD(2)[OF full(2)]
    by (intro epoch_state_contract) (auto simp: engine_ok_def)
  then show ?thesis unfolding full(3) by (rule engine_okI)
qed

interpretation advance: engine_operation "\<lambda>e. Some (advance_epoch reason e)" for reason
  by unfold_locales (metis advance_epoch_contract fst_conv option.inject)

section \<open>Invalidation\<close>

lemma map_list_update_same: "f x = f (xs ! i) \<Longrightarrow> map f (xs[i := x]) = map f xs"
  by (cases "i < length xs") (metis list_update_id map_update nth_map, simp add: list_update_beyond)

lemma touch_candidate_frame [simp]:
  "candidate_paths (touch_candidate path r) = candidate_paths r" "pc_policy (touch_candidate path r) = pc_policy r"
  "pc_history (touch_candidate path r) = pc_history r" "pc_preference (touch_candidate path r) = pc_preference r"
  "pc_timing (touch_candidate path r) = pc_timing r" "pc_stable (touch_candidate path r) = pc_stable r"
  "length (pc_candidates (touch_candidate path r)) = length (pc_candidates r)"
  "map ca_binding (pc_candidates (touch_candidate path r)) = map ca_binding (pc_candidates r)"
  by (auto simp: touch_candidate_def candidate_paths_def map_list_update_same split: option.split)

lemma candidates_okI: "candidates_ok cs \<Longrightarrow> map ca_binding cs' = map ca_binding cs \<Longrightarrow> candidates_ok cs'"
  unfolding candidates_ok_def by (metis map_map)

lemma touch_candidate_bindings: "ca_binding ` set (pc_candidates (touch_candidate path r)) = ca_binding ` set (pc_candidates r)"
  by (metis touch_candidate_frame(8) list.set_map)

lemma bindings_all:
  "ca_binding ` set cs' = ca_binding ` set cs \<Longrightarrow> \<forall>c \<in> set cs. P (ca_binding c) \<Longrightarrow> \<forall>c \<in> set cs'. P (ca_binding c)"
  by (metis image_eqI image_iff)

lemma touch_candidate_ok: "policy_record_ok l p r \<Longrightarrow> policy_record_ok l p (touch_candidate path r)"
  using candidates_okI[OF _ touch_candidate_frame(8), of r path]
    bindings_all[OF touch_candidate_bindings[of path r], of cd_well_formed]
  by (simp add: policy_record_ok_def)

lemma touch_candidate_extends: "policy_extends r (touch_candidate path r)"
  by (simp add: policy_extends_def)

lemma touch_policy_state: "touch_policy path s p = s\<lparr>g_policies := g_policies (touch_policy path s p)\<rparr>"
  by (simp add: touch_policy_def put_policy_def split: option.split)

lemma touch_policy_find:
  "om_find (g_policies (touch_policy path s p)) q =
     (if q = p then map_option (touch_candidate path) (om_find (g_policies s) q) else om_find (g_policies s) q)"
  by (auto simp: touch_policy_def put_policy_def om_find_put split: option.split)

lemma touch_policy_om_ok: "om_ok (g_policies s) \<Longrightarrow> om_ok (g_policies (touch_policy path s p))"
  by (auto simp: touch_policy_def put_policy_def om_simps split: option.split)

lemma touch_fold_state: "foldl (touch_policy path) s ps = s\<lparr>g_policies := g_policies (foldl (touch_policy path) s ps)\<rparr>"
proof (induction ps arbitrary: s)
  case (Cons p ps)
  define t where "t = touch_policy path s p"
  have t: "t = s\<lparr>g_policies := g_policies t\<rparr>" unfolding t_def by (rule touch_policy_state)
  have "foldl (touch_policy path) t ps = t\<lparr>g_policies := g_policies (foldl (touch_policy path) t ps)\<rparr>" by (rule Cons)
  also have "\<dots> = s\<lparr>g_policies := g_policies (foldl (touch_policy path) t ps)\<rparr>" by (subst t) simp
  finally show ?case by (simp add: t_def)
qed simp

lemma touch_fold_find:
  "distinct ps \<Longrightarrow> om_find (g_policies (foldl (touch_policy path) s ps)) q =
     (if q \<in> set ps then map_option (touch_candidate path) (om_find (g_policies s) q) else om_find (g_policies s) q)"
  by (induction ps arbitrary: s) (auto simp: touch_policy_find)

lemma touch_fold_om_ok: "om_ok (g_policies s) \<Longrightarrow> om_ok (g_policies (foldl (touch_policy path) s ps))"
  by (induction ps arbitrary: s) (auto simp: touch_policy_om_ok)

lemma oset_elems_distinct: "om_ok ps \<Longrightarrow> distinct (oset_elems ps)"
  unfolding om_ok_def oset_elems_def by (induction ps) auto

definition dependents_of :: "path_id \<Rightarrow> state \<Rightarrow> policy_id list" where
  "dependents_of path s = (case om_find (g_by_path s) path of None \<Rightarrow> [] | Some ps \<Rightarrow> oset_elems ps)"

definition advance_upstream :: "state \<Rightarrow> state" where
  "advance_upstream s = (case wm_next (g_upstream_watermark s) of None \<Rightarrow> s | Some w \<Rightarrow> s\<lparr>g_upstream_watermark := w\<rparr>)"

lemma advance_upstream_state:
  "\<exists>w. g_upstream_watermark s \<le> w \<and> advance_upstream s = s\<lparr>g_upstream_watermark := w\<rparr>"
proof (cases "wm_next (g_upstream_watermark s)")
  case None
  then show ?thesis by (intro exI[of _ "g_upstream_watermark s"]) (simp add: advance_upstream_def)
next
  case (Some w)
  then show ?thesis using wm_next_SomeD(2)[OF Some] by (intro exI[of _ w]) (simp add: advance_upstream_def)
qed

lemma apply_invalidation_eq:
  "apply_invalidation path s = foldl (touch_policy path) (advance_upstream s) (dependents_of path s)"
  using advance_upstream_state[of s]
  by (auto simp: apply_invalidation_def advance_upstream_def[symmetric] dependents_of_def Let_def split: option.split)

lemma apply_invalidation_state:
  "\<exists>w m. g_upstream_watermark s \<le> w \<and> apply_invalidation path s = s\<lparr>g_upstream_watermark := w, g_policies := m\<rparr>"
proof -
  obtain w where "g_upstream_watermark s \<le> w" and e: "advance_upstream s = s\<lparr>g_upstream_watermark := w\<rparr>"
    using advance_upstream_state by blast
  moreover have "apply_invalidation path s = s\<lparr>g_upstream_watermark := w,
      g_policies := g_policies (foldl (touch_policy path) (advance_upstream s) (dependents_of path s))\<rparr>"
    unfolding apply_invalidation_eq by (subst touch_fold_state) (simp add: e)
  ultimately show ?thesis by blast
qed

lemma dependents_distinct: "index_ok has (g_by_path s) \<Longrightarrow> distinct (dependents_of path s)"
  by (auto simp: dependents_of_def index_ok_def index_wf_def oset_elems_distinct split: option.split)

lemma apply_invalidation_find:
  assumes "index_ok has (g_by_path s)"
  shows "om_find (g_policies (apply_invalidation path s)) q =
     (if q \<in> set (dependents_of path s) then map_option (touch_candidate path) (om_find (g_policies s) q)
      else om_find (g_policies s) q)"
proof -
  have "g_policies (advance_upstream s) = g_policies s" using advance_upstream_state[of s] by auto
  then show ?thesis unfolding apply_invalidation_eq touch_fold_find[OF dependents_distinct[OF assms]] by simp
qed

lemma apply_invalidation_contract:
  assumes "state_ok l s"
  shows "state_ok l (apply_invalidation path s) \<and> state_extends s (apply_invalidation path s)"
proof -
  have ix: "index_ok (binds_path (g_policies s)) (g_by_path s)" using assms by (simp add: state_ok_def)
  note find = apply_invalidation_find[OF ix, of path]
  obtain w m where w: "g_upstream_watermark s \<le> w" and st: "apply_invalidation path s = s\<lparr>g_upstream_watermark := w, g_policies := m\<rparr>"
    using apply_invalidation_state by blast
  have m: "g_policies (apply_invalidation path s) = m" using st by simp
  have "g_policies (advance_upstream s) = g_policies s" using advance_upstream_state[of s] by auto
  then have "om_ok m"
    using assms touch_fold_om_ok[of "advance_upstream s" path "dependents_of path s"]
    unfolding m[symmetric] apply_invalidation_eq by (simp add: state_ok_def policies_ok_def)
  then have pol: "policies_ok l m" "policies_extend (g_policies s) m"
    using assms find unfolding m
    by (auto simp: state_ok_def policies_ok_def policies_extend_def touch_candidate_ok touch_candidate_extends split: if_splits)
  have bp: "binds_path m = binds_path (g_policies s)"
    using find unfolding m by (auto simp: binds_path_def fun_eq_iff split: option.split)
  have rev: "\<exists>r. om_find m p = Some r \<and> ap_lifecycle (pc_policy r) = PL_REVOKED"
    if "\<exists>r. om_find (g_policies s) p = Some r \<and> ap_lifecycle (pc_policy r) = PL_REVOKED" for p
    using that find unfolding m by auto
  show ?thesis using assms w pol rev unfolding st
    by (auto simp: state_ok_def state_extends_def bp revocations_ok_def)
qed

section \<open>Properties of the authority operations\<close>

lemma check_caller_Inr:
  "check_caller s ctx route set_id = Inr reg \<Longrightarrow>
     mc_has_caller_identity ctx \<and> g_epoch s = mc_epoch ctx \<and> \<not> oset_member (mc_worker_boot ctx) (g_fenced_boots s)
     \<and> om_find (g_registrations s) (mc_publisher ctx) = Some reg \<and> pr_worker_boot reg = mc_worker_boot ctx
     \<and> pr_session reg = mc_session ctx \<and> as_well_formed (pr_scope reg)
     \<and> (\<forall>r. route = Some r \<longrightarrow> as_routes (pr_scope reg) = [] \<or> r \<in> set (as_routes (pr_scope reg)))
     \<and> (\<forall>m. set_id = Some m \<longrightarrow> as_multipath_sets (pr_scope reg) = [] \<or> m \<in> set (as_multipath_sets (pr_scope reg)))"
  by (auto simp: check_caller_def Let_def as_covers_route_def as_covers_multipath_set_def as_covers_namespace_def
      split: if_splits option.splits)

lemma check_caller_accepts:
  assumes "mc_has_caller_identity ctx" "g_epoch s = mc_epoch ctx" "\<not> oset_member (mc_worker_boot ctx) (g_fenced_boots s)"
    and "om_find (g_registrations s) (mc_publisher ctx) = Some reg" "pr_worker_boot reg = mc_worker_boot ctx"
    and "pr_session reg = mc_session ctx" "as_well_formed (pr_scope reg)"
    and "\<forall>r. route = Some r \<longrightarrow> as_routes (pr_scope reg) = [] \<or> r \<in> set (as_routes (pr_scope reg))"
    and "\<forall>m. set_id = Some m \<longrightarrow> as_multipath_sets (pr_scope reg) = [] \<or> m \<in> set (as_multipath_sets (pr_scope reg))"
  shows "check_caller s ctx route set_id = Inr reg"
  using assms
  by (cases route; cases set_id)
    (auto simp: check_caller_def Let_def as_covers_route_def as_covers_multipath_set_def as_covers_namespace_def)

text \<open>
  C24: who may act.  A caller is accepted exactly when its identity is complete, its epoch is the
  current one, its boot is not fenced, the publisher is registered with that very boot and session
  and with a well-formed scope, and the scope covers the route and the multipath set of the request;
  the registration handed on is the caller's own.
\<close>

theorem caller_accepted_iff:
  "check_caller s ctx route set_id = Inr reg \<longleftrightarrow>
     mc_has_caller_identity ctx \<and> g_epoch s = mc_epoch ctx \<and> \<not> oset_member (mc_worker_boot ctx) (g_fenced_boots s)
     \<and> om_find (g_registrations s) (mc_publisher ctx) = Some reg \<and> pr_worker_boot reg = mc_worker_boot ctx
     \<and> pr_session reg = mc_session ctx \<and> as_well_formed (pr_scope reg)
     \<and> (case route of None \<Rightarrow> True | Some r \<Rightarrow> r \<in> set (as_routes (pr_scope reg)) \<union> {x. as_routes (pr_scope reg) = []})
     \<and> (case set_id of None \<Rightarrow> True
        | Some m \<Rightarrow> m \<in> set (as_multipath_sets (pr_scope reg)) \<union> {x. as_multipath_sets (pr_scope reg) = []})"
  using check_caller_Inr[of s ctx route set_id reg] check_caller_accepts[of ctx s reg route set_id]
  by (auto split: option.splits)

text \<open>
  C25: advancing the epoch takes every authority away at once.  After a successful advance no
  mutation context that was valid before is accepted, whatever route or set it names, even when
  it is re-sent with the new epoch; no policy may adapt until it is revalidated; a terminal policy
  keeps its lifecycle; and no attempt of the old epoch is recognised as a replay.
\<close>

theorem advance_epoch_withdraws_authority:
  assumes "engine_ok e" and "or_ok (snd (advance_epoch reason e))"
    and "check_caller (en_state e) ctx route set_id = Inr reg"
    and "s' = en_state (fst (advance_epoch reason e))"
  shows "check_caller s' ctx route' set' \<noteq> Inr reg'
    \<and> check_caller s' (ctx\<lparr>mc_epoch := g_epoch s'\<rparr>) route' set' \<noteq> Inr reg'
    \<and> oset_member (mc_worker_boot ctx) (g_fenced_boots s')
    \<and> (\<forall>p r. om_find (g_policies s') p = Some r \<longrightarrow> \<not> policy_lifecycle_adaptable (ap_lifecycle (pc_policy r)))
    \<and> (\<forall>p r. om_find (g_policies (en_state e)) p = Some r \<and> policy_lifecycle_terminal (ap_lifecycle (pc_policy r)) \<longrightarrow>
         (\<exists>r'. om_find (g_policies s') p = Some r' \<and> ap_lifecycle (pc_policy r') = ap_lifecycle (pc_policy r)))
    \<and> (\<forall>a. om_find (g_attempts s') a = None)"
proof -
  obtain epoch authority where s': "s' = epoch_state epoch authority (en_state e)"
    using assms(2) by (cases rule: advance_epoch_cases[of e reason])
      (auto simp: assms(4) or_ok_def outcome_is_success_def)
  have regs: "om_find (g_registrations s') q = None" for q by (simp add: s' epoch_state_def)
  then have "check_caller s' c route' set' \<noteq> Inr reg'" for c using check_caller_Inr by fastforce
  moreover have "oset_member (mc_worker_boot ctx) (g_fenced_boots s')"
    using check_caller_Inr[OF assms(3)] om_find_in_set[of "g_registrations (en_state e)" "mc_publisher ctx" reg]
    by (force simp: s' epoch_state_def fence_all_fenced)
  moreover have "om_find (g_policies s') p = map_option epoch_reset_policy (om_find (g_policies (en_state e)) p)" for p
    by (simp add: s' epoch_state_policy)
  moreover have "om_find (g_attempts s') a = None" for a by (simp add: s' epoch_state_def)
  ultimately show ?thesis by auto
qed

section \<open>A small engine\<close>

definition sample_factory :: id_factory where
  "sample_factory = \<lparr>idf_prefix = ''arf'', idf_nonce = ''n1'', idf_counter = 0\<rparr>"

definition sample_context :: mutation_context where
  "sample_context = \<lparr>mc_epoch = gen_first, mc_publisher = StrongId ''pub'', mc_worker_boot = StrongId ''boot1'',
     mc_session = StrongId ''sess'', mc_attempt = StrongId ''att1'', mc_expected_policy_generation = None,
     mc_expected_evidence_generation = None\<rparr>"

definition sample_engine :: engine where
  "sample_engine = fst (register_publisher (StrongId ''pub'') (StrongId ''boot1'') sample_scope (StrongId ''sess'')
     (new_engine default_limits sample_factory))"

lemma new_engine_ok: "engine_ok (new_engine l ids)"
  by (simp add: engine_ok_def state_ok_def new_engine_def initial_state_def policies_ok_def registrations_ok_def
      table_ok_def index_ok_def index_wf_def index_has_def evidence_ok_def revocations_ok_def)

lemma sample_engine_ok: "engine_ok sample_engine"
  unfolding sample_engine_def using register_publisher_contract[OF new_engine_ok] by blast

lemma sample_caller:
  "\<exists>reg. check_caller (en_state sample_engine) sample_context None None = Inr reg"
proof -
  have "isl (check_caller (en_state sample_engine) sample_context None None) = False" by code_simp
  then show ?thesis by (cases "check_caller (en_state sample_engine) sample_context None None") auto
qed

lemma sample_advance: "or_ok (snd (advance_epoch ''restart'' sample_engine))"
  by code_simp

theorem advance_epoch_withdraws_authority_witness:
  "oset_member (StrongId ''boot1'') (g_fenced_boots (en_state (fst (advance_epoch ''restart'' sample_engine))))"
proof -
  obtain reg where "check_caller (en_state sample_engine) sample_context None None = Inr reg" using sample_caller by blast
  from advance_epoch_withdraws_authority[OF sample_engine_ok sample_advance this refl] show ?thesis
    by (simp add: sample_context_def)
qed

text \<open>
  C26: a publisher has one live incarnation.  When a known publisher registers successfully from
  another boot, the previous boot is fenced and no context naming it is accepted any more.  The new
  boot with its session is accepted in the current epoch for exactly what its own scope covers: a
  request that names a route or a multipath set is accepted if and only if the scope lists it or
  lists none, whatever generations the caller expects and whatever the predecessor's scope was; and
  the registration it is accepted under is the one just made.
\<close>

theorem reincarnation_fences_predecessor:
  assumes "om_find (g_registrations (en_state e)) p = Some old" and "pr_worker_boot old \<noteq> b"
    and "or_ok (snd (register_publisher p b sc se e))"
    and "s' = en_state (fst (register_publisher p b sc se e))"
  shows "oset_member (pr_worker_boot old) (g_fenced_boots s')
    \<and> (mc_worker_boot ctx = pr_worker_boot old \<longrightarrow> check_caller s' ctx route set_id \<noteq> Inr reg)
    \<and> (gen_valid (g_epoch s') \<and> id_valid a \<longrightarrow>
         (check_caller s' \<lparr>mc_epoch = g_epoch s', mc_publisher = p, mc_worker_boot = b, mc_session = se, mc_attempt = a,
            mc_expected_policy_generation = pg, mc_expected_evidence_generation = eg\<rparr> route set_id = Inr reg
          \<longleftrightarrow> reg = \<lparr>pr_publisher = p, pr_worker_boot = b, pr_scope = sc, pr_epoch = g_epoch s',
                pr_authority_generation = g_authority_generation s', pr_session = se\<rparr>
            \<and> (\<forall>r. route = Some r \<longrightarrow> as_routes sc = [] \<or> r \<in> set (as_routes sc))
            \<and> (\<forall>m. set_id = Some m \<longrightarrow> as_multipath_sets sc = [] \<or> m \<in> set (as_multipath_sets sc))))"
proof -
  let ?r = "\<lparr>pr_publisher = p, pr_worker_boot = b, pr_scope = sc, pr_epoch = g_epoch s',
    pr_authority_generation = g_authority_generation s', pr_session = se\<rparr>"
  let ?c = "\<lparr>mc_epoch = g_epoch s', mc_publisher = p, mc_worker_boot = b, mc_session = se, mc_attempt = a,
    mc_expected_policy_generation = pg, mc_expected_evidence_generation = eg\<rparr>"
  have g: "id_valid p" "id_valid b" "id_valid se" "as_well_formed sc" "\<not> oset_member b (g_fenced_boots (en_state e))"
    using assms(1-3) by (auto simp: register_publisher_def Let_def outcome_is_success_def split: if_splits)
  have f: "g_fenced_boots s' = oset_insert (pr_worker_boot old) (g_fenced_boots (en_state e))"
    and r: "om_find (g_registrations s') p = Some ?r"
    using assms(1,2) g by (simp_all add: assms(4) register_publisher_def Let_def om_find_put)
  from f have fenced: "oset_member (pr_worker_boot old) (g_fenced_boots s')" by simp
  moreover have "check_caller s' ctx route set_id \<noteq> Inr reg" if "mc_worker_boot ctx = pr_worker_boot old"
    using check_caller_Inr[of s' ctx route set_id reg] fenced that by auto
  moreover have "check_caller s' ?c route set_id = Inr reg \<longleftrightarrow> reg = ?r
      \<and> (\<forall>r. route = Some r \<longrightarrow> as_routes sc = [] \<or> r \<in> set (as_routes sc))
      \<and> (\<forall>m. set_id = Some m \<longrightarrow> as_multipath_sets sc = [] \<or> m \<in> set (as_multipath_sets sc))"
    if "gen_valid (g_epoch s')" "id_valid a"
  proof
    assume "check_caller s' ?c route set_id = Inr reg"
    from check_caller_Inr[OF this] r show "reg = ?r
      \<and> (\<forall>r. route = Some r \<longrightarrow> as_routes sc = [] \<or> r \<in> set (as_routes sc))
      \<and> (\<forall>m. set_id = Some m \<longrightarrow> as_multipath_sets sc = [] \<or> m \<in> set (as_multipath_sets sc))" by auto
  next
    assume "reg = ?r
      \<and> (\<forall>r. route = Some r \<longrightarrow> as_routes sc = [] \<or> r \<in> set (as_routes sc))
      \<and> (\<forall>m. set_id = Some m \<longrightarrow> as_multipath_sets sc = [] \<or> m \<in> set (as_multipath_sets sc))"
    with g f assms(2) that r show "check_caller s' ?c route set_id = Inr reg"
      by (intro check_caller_accepts) (simp_all add: mc_has_caller_identity_def)
  qed
  ultimately show ?thesis by blast
qed

text \<open>The next incarnation is registered for another route: it is accepted for that one, and no more for the first.\<close>

definition moved_scope :: authority_scope where
  "moved_scope = sample_scope\<lparr>as_routes := [StrongId ''r2''], as_multipath_sets := []\<rparr>"

theorem reincarnation_fences_predecessor_witness:
  "\<exists>s' c. s' = en_state (fst (register_publisher (StrongId ''pub'') (StrongId ''boot2'') moved_scope (StrongId ''s2'') sample_engine))
     \<and> mc_worker_boot c = StrongId ''boot2'' \<and> oset_member (StrongId ''boot1'') (g_fenced_boots s')
     \<and> (\<exists>reg. check_caller s' c (Some (StrongId ''r2'')) (Some (StrongId ''m1'')) = Inr reg \<and> pr_scope reg = moved_scope)
     \<and> (\<forall>reg. check_caller s' c (Some (StrongId ''r1'')) None \<noteq> Inr reg)"
proof -
  let ?s = "en_state (fst (register_publisher (StrongId ''pub'') (StrongId ''boot2'') moved_scope (StrongId ''s2'') sample_engine))"
  let ?c = "\<lparr>mc_epoch = g_epoch ?s, mc_publisher = StrongId ''pub'', mc_worker_boot = StrongId ''boot2'', mc_session = StrongId ''s2'',
    mc_attempt = StrongId ''a2'', mc_expected_policy_generation = Some gen_first, mc_expected_evidence_generation = None\<rparr>"
  have "\<exists>old. om_find (g_registrations (en_state sample_engine)) (StrongId ''pub'') = Some old \<and> pr_worker_boot old = StrongId ''boot1''"
    using sample_caller check_caller_Inr by (fastforce simp: sample_context_def)
  then obtain old where old: "om_find (g_registrations (en_state sample_engine)) (StrongId ''pub'') = Some old"
    "pr_worker_boot old = StrongId ''boot1''" by blast
  have new: "pr_worker_boot old \<noteq> StrongId ''boot2''" by (simp add: old(2))
  have ok: "or_ok (snd (register_publisher (StrongId ''pub'') (StrongId ''boot2'') moved_scope (StrongId ''s2'') sample_engine))"
    by code_simp
  have valid: "gen_valid (g_epoch ?s)" "id_valid (StrongId ''a2'' :: mutation_attempt_id)" by code_simp+
  note theorem_here = reincarnation_fences_predecessor[OF old(1) new ok refl]
  have "oset_member (StrongId ''boot1'') (g_fenced_boots ?s)" using theorem_here old(2) by simp
  moreover have "\<exists>reg. check_caller ?s ?c (Some (StrongId ''r2'')) (Some (StrongId ''m1'')) = Inr reg \<and> pr_scope reg = moved_scope"
    using theorem_here valid by (simp add: moved_scope_def)
  moreover have "check_caller ?s ?c (Some (StrongId ''r1'')) None \<noteq> Inr reg" for reg
    using theorem_here valid by (simp add: moved_scope_def)
  ultimately show ?thesis by (intro exI[of _ ?s] exI[of _ ?c]) simp
qed

text \<open>
  C29: replay recognition.  Once an attempt is recorded, the same attempt id with the same payload
  fingerprint is answered IDEMPOTENT, with any other fingerprint ATTEMPT_CONFLICT, and neither
  answer changes the guarded state; an id that is not in the table is never answered; and the table
  never outgrows its limit.
\<close>

theorem attempt_recognition:
  assumes "engine_ok e" and "id_valid a" and "0 < lim_max_attempts (en_limits e)"
    and "e' = e\<lparr>en_state := record_attempt (en_limits e) a f c d (en_state e)\<rparr>"
  shows "(\<exists>r. snd (replay_check a g e') = Some r
        \<and> or_outcome r = (if g = f then Out_IDEMPOTENT else Out_ATTEMPT_CONFLICT) \<and> \<not> or_mutated r)
    \<and> en_state (fst (replay_check a g e')) = en_state e'
    \<and> (om_find (g_attempts (en_state e')) b = None \<and> id_valid b \<longrightarrow> replay_check b g e' = (e', None))
    \<and> length (g_attempt_order (en_state e')) \<le> unat (lim_max_attempts (en_limits e))"
proof -
  have t: "table_ok (unat (lim_max_attempts (en_limits e))) (g_attempt_order (en_state e)) (g_attempts (en_state e))"
    using assms(1) by (simp add: engine_ok_def state_ok_def)
  have "om_find (g_attempts (en_state e')) a = Some \<lparr>at_attempt = a, at_fingerprint = f, at_outcome = c, at_detail = d\<rparr>"
    using record_attempt_table(2)[OF t assms(2,3)] by (simp add: assms(4))
  then have "\<exists>r. snd (replay_check a g e') = Some r
      \<and> or_outcome r = (if g = f then Out_IDEMPOTENT else Out_ATTEMPT_CONFLICT) \<and> \<not> or_mutated r"
    using assms(2) by (auto simp: replay_check_def Let_def)
  moreover have "replay_check b g e' = (e', None)" if "om_find (g_attempts (en_state e')) b = None" "id_valid b"
    using that by (simp add: replay_check_def Let_def)
  ultimately show ?thesis
    using record_attempt_table(1)[OF t] by (simp add: replay_check_ok assms(4) table_ok_def)
qed

theorem attempt_recognition_witness:
  "\<exists>r. snd (replay_check (StrongId ''att1'') ''y'' (sample_engine\<lparr>en_state := record_attempt (en_limits sample_engine)
     (StrongId ''att1'') ''x'' Out_POLICY_UPDATED [] (en_state sample_engine)\<rparr>)) = Some r \<and> or_outcome r = Out_ATTEMPT_CONFLICT"
proof -
  have "id_valid (StrongId ''att1'')" "0 < lim_max_attempts (en_limits sample_engine)" by code_simp+
  from attempt_recognition[OF sample_engine_ok this refl, where f = "''x''" and c = Out_POLICY_UPDATED and d = "[]" and g = "''y''"]
  show ?thesis by auto
qed

text \<open>
  invalidation is targeted.  Invalidating a path raises the watermark of that path's candidate
  in every policy the path index lists, by one, and leaves every other candidate and every policy
  that is not listed exactly as it was; it never shortens a candidate list, never changes a
  binding, and the upstream watermark advances unless it is exhausted.
\<close>

theorem invalidation_is_targeted:
  assumes "engine_ok e" and "s = en_state e"
  shows "(\<forall>p r. om_find (g_policies s) p = Some r \<and> \<not> index_has (g_by_path s) path p \<longrightarrow>
        om_find (g_policies (apply_invalidation path s)) p = Some r)
    \<and> (\<forall>p r. om_find (g_policies s) p = Some r \<and> index_has (g_by_path s) path p \<longrightarrow>
        (\<exists>i r'. i < length (pc_candidates r) \<and> cd_path (ca_binding (pc_candidates r ! i)) = path
          \<and> om_find (g_policies (apply_invalidation path s)) p = Some r'
          \<and> r' = r\<lparr>pc_candidates := (pc_candidates r)[i := (pc_candidates r ! i)
               \<lparr>ca_path_watermark := ca_path_watermark (pc_candidates r ! i) + 1\<rparr>]\<rparr>))
    \<and> (g_upstream_watermark s = Watermark u64_max \<or> g_upstream_watermark s < g_upstream_watermark (apply_invalidation path s))"
proof -
  have ok: "state_ok (en_limits e) s" using assms by (simp add: engine_ok_def)
  have ix: "index_ok (binds_path (g_policies s)) (g_by_path s)" using ok by (simp add: state_ok_def)
  note find = apply_invalidation_find[OF ix, of path]
  have dep: "p \<in> set (dependents_of path s) \<longleftrightarrow> index_has (g_by_path s) path p" for p
    by (simp add: dependents_of_def index_has_def oset_member_elems split: option.split)
  have touched: "\<exists>i. i < length (pc_candidates r) \<and> cd_path (ca_binding (pc_candidates r ! i)) = path
      \<and> touch_candidate path r = r\<lparr>pc_candidates := (pc_candidates r)[i := (pc_candidates r ! i)
               \<lparr>ca_path_watermark := ca_path_watermark (pc_candidates r ! i) + 1\<rparr>]\<rparr>"
    if "om_find (g_policies s) p = Some r" "index_has (g_by_path s) path p" for p r
  proof -
    have "candidates_ok (pc_candidates r)"
      using ok that(1) by (auto simp: state_ok_def policies_ok_def policy_record_ok_def)
    moreover have "path \<in> (cd_path \<circ> ca_binding) ` set (pc_candidates r)"
    proof -
      have "binds_path (g_policies s) path p" using ix that(2) by (simp add: index_ok_def)
      with that(1) show ?thesis by (simp add: binds_path_def candidate_paths_def comp_def)
    qed
    ultimately show ?thesis
      using find_candidate_cases[of "pc_candidates r" path] by (auto simp: touch_candidate_def split: option.splits)
  qed
  have "g_upstream_watermark s = Watermark u64_max \<or> g_upstream_watermark s < g_upstream_watermark (apply_invalidation path s)"
  proof (cases "wm_next (g_upstream_watermark s)")
    case None
    then show ?thesis by (cases "g_upstream_watermark s") (simp add: wm_next_def split: if_splits)
  next
    case (Some w)
    moreover have "g_upstream_watermark (apply_invalidation path s) = g_upstream_watermark (advance_upstream s)"
      unfolding apply_invalidation_eq by (subst touch_fold_state) simp
    ultimately show ?thesis using wm_next_SomeD(2)[OF Some] by (simp add: advance_upstream_def)
  qed
  with touched show ?thesis by (auto simp: find dep)
qed

theorem invalidation_is_targeted_witness:
  "g_upstream_watermark (en_state sample_engine) < g_upstream_watermark (apply_invalidation (StrongId ''p1'') (en_state sample_engine))"
proof -
  have "g_upstream_watermark (en_state sample_engine) \<noteq> Watermark u64_max" by code_simp
  with invalidation_is_targeted[OF sample_engine_ok refl, of "StrongId ''p1''"] show ?thesis by blast
qed

end
