(* ===== verification/Policies.thy ===== *)
theory Policies
  imports Contract
begin

text \<open>
  Policy operations and upstream bindings (\<^verbatim>\<open>src/fabric_policy.cpp\<close>): creation, update, lifecycle
  transition, revocation, the upstream notification batch and the queries over the indexes.
\<close>

fun contains :: "string \<Rightarrow> string \<Rightarrow> bool" where
  "contains needle [] = (needle = [])"
| "contains needle (c # cs) = (take (length needle) (c # cs) = needle \<or> contains needle cs)"

definition semantics_refusal :: "string \<Rightarrow> outcome" where
  "semantics_refusal reason =
     (if contains ''hysteresis'' reason \<or> contains ''threshold'' reason then Out_INVALID_HYSTERESIS else Out_MALFORMED_REQUEST)"

section \<open>Creation\<close>

definition fresh_preference :: "policy_target \<Rightarrow> routing_preference" where
  "fresh_preference t = no_preference\<lparr>rp_route := pt_route t, rp_multipath_set := pt_multipath_set t,
     rp_adaptation_generation := gen_first, rp_transition_generation := gen_first\<rparr>"

definition fresh_record :: "adaptive_policy \<Rightarrow> policy_record" where
  "fresh_record p = \<lparr>pc_policy = p, pc_candidates = [], pc_preference = fresh_preference (ps_target (ap_semantics p)),
     pc_stable = no_stable_state, pc_timing = no_timing, pc_history = [], pc_revocation = None\<rparr>"

definition scope_within_limits :: "limits \<Rightarrow> policy_scope \<Rightarrow> bool" where
  "scope_within_limits l sc = (length (sc_routes sc) \<le> unat (lim_max_scope_routes l)
     \<and> length (sc_multipath_sets sc) \<le> unat (lim_max_scope_multipath_sets l))"

definition semantics_within_limits :: "limits \<Rightarrow> policy_semantics \<Rightarrow> bool" where
  "semantics_within_limits l ps = (length (ps_thresholds ps) \<le> unat (lim_max_thresholds_per_policy l)
     \<and> length (ps_evidence ps) \<le> unat (lim_max_evidence_requirements_per_policy l)
     \<and> length (os_terms (ps_objective ps)) \<le> unat (lim_max_objective_terms l))"

text \<open>The successful end of a creation.\<close>

definition created_state :: "limits \<Rightarrow> mutation_attempt_id \<Rightarrow> string \<Rightarrow> adaptive_policy \<Rightarrow> state \<Rightarrow> state" where
  "created_state l attempt fingerprint p s =
    (let s1 = (if om_find (g_policies s) (ap_id p) = None then put_policy (ap_id p) (fresh_record p) s else s);
         s2 = s1\<lparr>g_policy_names := om_put (ap_name p) (ap_id p) (g_policy_names s1)\<rparr> in
     record_attempt l attempt fingerprint Out_POLICY_CREATED ''policy created'' (reindex_policy l (ap_id p) s2))"

definition create_policy :: "ticks \<Rightarrow> create_policy_request \<Rightarrow> engine \<Rightarrow> (engine \<times> operation_result) option" where
  "create_policy now rq e =
    (let s = en_state e; l = en_limits e; sem = cr_semantics rq; ctx = cr_context rq; target = ps_target sem;
         refuse = (\<lambda>outcome detail. Some (e, make_result outcome detail no_id s)) in
     if \<not> id_valid (cr_name rq) \<or> \<not> sc_well_formed (cr_scope rq) then
       refuse Out_MALFORMED_REQUEST ''policy name and a fabric/namespace scope are required''
     else case ps_valid sem of Some reason \<Rightarrow> refuse (semantics_refusal reason) reason
     | None \<Rightarrow>
     case check_caller s ctx (Some (pt_route target)) (pt_multipath_set target) of
       Inl (outcome, detail) \<Rightarrow> refuse outcome detail
     | Inr reg \<Rightarrow>
       if \<not> as_covers_route (pr_scope reg) (sc_fabric (cr_scope rq)) (sc_namespace (cr_scope rq)) (pt_route target) then
         refuse Out_UNAUTHORIZED_SCOPE ''policy scope is outside the registered authority scope''
       else if \<not> scope_within_limits l (cr_scope rq) \<or> \<not> semantics_within_limits l sem
           \<or> length (ps_priorities sem) > unat (lim_max_candidates_per_policy l) then
         refuse Out_RESOURCE_LIMIT ''policy exceeds a configured structural limit''
       else if cb_enabled (ps_churn sem) \<and> unat (cb_max_adaptations (ps_churn sem)) > unat (lim_max_adaptations_per_window l) then
         refuse Out_RESOURCE_LIMIT ''churn bound exceeds the configured maximum''
       else if dr_enabled (ps_dampening sem) \<and> unat (dr_max_penalty (ps_dampening sem)) > unat (lim_max_dampening_penalty l) then
         refuse Out_RESOURCE_LIMIT ''dampening penalty exceeds the configured maximum''
       else case fingerprint_policy (cr_scope rq) sem of
         None \<Rightarrow> refuse Out_INTERNAL_ERROR ''policy fingerprint could not be computed''
       | Some fingerprint \<Rightarrow>
       case replay_check (mc_attempt ctx) fingerprint e of
         (e1, Some r) \<Rightarrow> Some (e1, r)
       | (e1, None) \<Rightarrow>
         if om_find (g_policy_names s) (cr_name rq) \<noteq> None then
           (let s' = record_attempt l (mc_attempt ctx) fingerprint Out_ALREADY_EXISTS ''policy name already exists'' s in
            Some (e1\<lparr>en_state := s'\<rparr>, make_result Out_ALREADY_EXISTS ''policy name already exists'' no_id s'))
         else if length (g_policies s) \<ge> unat (lim_max_policies l) then
           (let s' = record_attempt l (mc_attempt ctx) fingerprint Out_RESOURCE_LIMIT ''policy limit reached'' s in
            Some (e1\<lparr>en_state := s'\<rparr>, make_result Out_RESOURCE_LIMIT ''policy limit reached'' no_id s'))
         else case next_policy_id (en_ids e1) of
           None \<Rightarrow> None
         | Some (ids, pid) \<Rightarrow>
           (let p = \<lparr>ap_id = pid, ap_name = cr_name rq, ap_scope = cr_scope rq, ap_semantics = sem,
                     ap_generation = gen_first, ap_lifecycle = PL_DECLARED, ap_epoch = g_epoch s,
                     ap_owner = mc_publisher ctx, ap_authority_generation = g_authority_generation s,
                     ap_declared_at = now, ap_updated_at = now\<rparr>;
                s4 = created_state l (mc_attempt ctx) fingerprint p s in
            Some (e1\<lparr>en_ids := ids, en_state := s4\<rparr>,
              (make_result Out_POLICY_CREATED ''policy created'' pid s4)\<lparr>or_mutated := True\<rparr>)))"

section \<open>Update\<close>

definition retarget_record :: "ticks \<Rightarrow> coordinator_epoch \<Rightarrow> policy_update \<Rightarrow> policy_generation \<Rightarrow> policy_record \<Rightarrow> policy_record" where
  "retarget_record now epoch u g r =
    (let old = ps_target (ap_semantics (pc_policy r)); new = ps_target (pu_semantics u);
         changed = (pt_route old \<noteq> pt_route new \<or> pt_multipath_set old \<noteq> pt_multipath_set new);
         r1 = r\<lparr>pc_policy := (pc_policy r)\<lparr>ap_scope := pu_scope u, ap_semantics := pu_semantics u,
                  ap_generation := g, ap_updated_at := now, ap_epoch := epoch\<rparr>\<rparr> in
     if changed then r1\<lparr>pc_candidates := [], pc_preference := fresh_preference new, pc_stable := no_stable_state,
                        pc_timing := no_timing\<rparr>
     else r1)"

definition updated_state :: "ticks \<Rightarrow> limits \<Rightarrow> mutation_attempt_id \<Rightarrow> string \<Rightarrow> policy_id \<Rightarrow> policy_update \<Rightarrow>
    policy_generation \<Rightarrow> policy_record \<Rightarrow> state \<Rightarrow> state" where
  "updated_state now l attempt fingerprint pid u g r s =
    (let s1 = unindex_policy pid s;
         s2 = put_policy pid (retarget_record now (g_epoch s1) u g r) s1;
         s3 = reindex_policy l pid s2 in
     record_attempt l attempt fingerprint Out_POLICY_UPDATED ''policy updated'' s3)"

definition update_policy :: "ticks \<Rightarrow> update_policy_request \<Rightarrow> engine \<Rightarrow> engine \<times> operation_result" where
  "update_policy now rq e =
    (let s = en_state e; l = en_limits e; pid = ur_policy rq; u = ur_update rq; ctx = ur_context rq;
         target = ps_target (pu_semantics u);
         refuse = (\<lambda>outcome detail. (e, make_result outcome detail pid s)) in
     if \<not> id_valid pid then (e, make_result Out_MALFORMED_REQUEST ''policy id is required'' no_id s)
     else if \<not> sc_well_formed (pu_scope u) then refuse Out_MALFORMED_REQUEST ''policy update is malformed''
     else case ps_valid (pu_semantics u) of
       Some reason \<Rightarrow> refuse (semantics_refusal reason) (if reason = [] then ''policy update is malformed'' else reason)
     | None \<Rightarrow>
     case om_find (g_policies s) pid of
       None \<Rightarrow> refuse Out_NOT_FOUND ''policy does not exist''
     | Some r \<Rightarrow>
     case check_caller s ctx (Some (pt_route target)) (pt_multipath_set target) of
       Inl (outcome, detail) \<Rightarrow> refuse outcome detail
     | Inr reg \<Rightarrow>
       if \<not> as_covers_route (pr_scope reg) (sc_fabric (pu_scope u)) (sc_namespace (pu_scope u)) (pt_route target) then
         refuse Out_UNAUTHORIZED_SCOPE ''policy scope is outside the registered authority scope''
       else if policy_lifecycle_terminal (ap_lifecycle (pc_policy r)) then
         refuse (lifecycle_outcome (ap_lifecycle (pc_policy r))) ''a terminal policy can never be updated''
       else if mc_expected_policy_generation ctx \<noteq> Some (ap_generation (pc_policy r)) then
         refuse Out_STALE_POLICY_GENERATION ''expected policy generation does not match the current generation''
       else if \<not> scope_within_limits l (pu_scope u) \<or> \<not> semantics_within_limits l (pu_semantics u) then
         refuse Out_RESOURCE_LIMIT ''policy exceeds a configured structural limit''
       else case fingerprint_policy (pu_scope u) (pu_semantics u) of
         None \<Rightarrow> refuse Out_INTERNAL_ERROR ''policy fingerprint could not be computed''
       | Some fingerprint \<Rightarrow>
       case replay_check (mc_attempt ctx) fingerprint e of
         (e1, Some result) \<Rightarrow> (e1, result)
       | (e1, None) \<Rightarrow>
         case gen_next (ap_generation (pc_policy r)) of
           None \<Rightarrow> (e1, make_result Out_GENERATION_OVERFLOW ''policy generation is exhausted'' pid s)
         | Some g \<Rightarrow>
           (let s4 = updated_state now l (mc_attempt ctx) fingerprint pid u g r s in
            (e1\<lparr>en_state := s4\<rparr>, (make_result Out_POLICY_UPDATED ''policy updated'' pid s4)\<lparr>or_mutated := True\<rparr>)))"

section \<open>Lifecycle and revocation\<close>

definition usable_candidate :: "candidate_record \<Rightarrow> bool" where
  "usable_candidate c = (pa_legal (cd_path_authority (ca_binding c)) \<and> rb_current (cd_route (ca_binding c))
     \<and> cd_available (ca_binding c))"

definition transition_policy :: "policy_lifecycle_request \<Rightarrow> engine \<Rightarrow> engine \<times> operation_result" where
  "transition_policy rq e =
    (let s = en_state e; pid = lr_policy rq; refuse = (\<lambda>outcome detail. (e, make_result outcome detail pid s)) in
     if \<not> id_valid pid \<or> \<not> valid_policy_event (policy_event_raw (lr_event rq)) then
       refuse Out_MALFORMED_REQUEST ''policy id and lifecycle event are required''
     else case om_find (g_policies s) pid of
       None \<Rightarrow> refuse Out_NOT_FOUND ''policy does not exist''
     | Some r \<Rightarrow>
     (let target = ps_target (ap_semantics (pc_policy r));
          set_lifecycle = (\<lambda>lc. put_policy pid (r\<lparr>pc_policy := (pc_policy r)\<lparr>ap_lifecycle := lc\<rparr>\<rparr>) s) in
     case check_caller s (lr_context rq) (Some (pt_route target)) (pt_multipath_set target) of
       Inl (outcome, detail) \<Rightarrow> refuse outcome detail
     | Inr reg \<Rightarrow>
       if policy_lifecycle_terminal (ap_lifecycle (pc_policy r)) then
         refuse (lifecycle_outcome (ap_lifecycle (pc_policy r))) ''a terminal policy never accepts a further lifecycle event''
       else case apply_policy_event (ap_lifecycle (pc_policy r)) (lr_event rq) of
         None \<Rightarrow> refuse Out_MALFORMED_REQUEST (''lifecycle event '' @ policy_event_to_string (lr_event rq)
           @ '' is not defined for state '' @ policy_lifecycle_to_string (ap_lifecycle (pc_policy r)))
       | Some lc \<Rightarrow>
         if lr_event rq = PE_REVALIDATE \<and> \<not> (\<exists>c \<in> set (pc_candidates r). usable_candidate c) then
           (let s' = set_lifecycle PL_REVALIDATION_REQUIRED in
            (e\<lparr>en_state := s'\<rparr>, make_result Out_REVALIDATION_REQUIRED ''no candidate binding is currently legal and available'' pid s'))
         else
           (let s' = put_policy pid (r\<lparr>pc_policy := (pc_policy r)\<lparr>ap_lifecycle := lc, ap_epoch := g_epoch s\<rparr>\<rparr>) s in
            (e\<lparr>en_state := s'\<rparr>, (make_result Out_POLICY_UPDATED (''policy lifecycle is now '' @ policy_lifecycle_to_string lc) pid s')
               \<lparr>or_mutated := True\<rparr>))))"

definition revoke_policy ::
    "policy_id \<Rightarrow> revocation_reason \<Rightarrow> string \<Rightarrow> mutation_context \<Rightarrow> engine \<Rightarrow> engine \<times> operation_result" where
  "revoke_policy pid reason detail ctx e =
    (let s = en_state e; refuse = (\<lambda>outcome detail. (e, make_result outcome detail pid s)) in
     if \<not> id_valid pid \<or> \<not> valid_revocation_reason (revocation_reason_raw reason) then
       refuse Out_MALFORMED_REQUEST ''policy id and revocation reason are required''
     else case om_find (g_policies s) pid of
       None \<Rightarrow> refuse Out_NOT_FOUND ''policy does not exist''
     | Some r \<Rightarrow>
     (let target = ps_target (ap_semantics (pc_policy r)) in
     case check_caller s ctx (Some (pt_route target)) (pt_multipath_set target) of
       Inl (outcome, detail) \<Rightarrow> refuse outcome detail
     | Inr reg \<Rightarrow>
     case om_find (g_revocations s) pid of
       Some existing \<Rightarrow>
         if rv_reason existing = reason then refuse Out_IDEMPOTENT ''policy is already revoked for the same reason''
         else refuse Out_REVOKED ''policy is already revoked for a different reason''
     | None \<Rightarrow>
       if policy_lifecycle_terminal (ap_lifecycle (pc_policy r)) then
         refuse (lifecycle_outcome (ap_lifecycle (pc_policy r))) ''a retired or superseded policy cannot be revoked''
       else if length (g_revocations s) \<ge> unat (lim_max_revocations (en_limits e)) then
         refuse Out_RESOURCE_LIMIT ''revocation limit reached''
       else
         (let v = \<lparr>rv_policy = pid, rv_generation = ap_generation (pc_policy r),
                   rv_authority_generation = g_authority_generation s, rv_epoch = g_epoch s,
                   rv_publisher = mc_publisher ctx, rv_reason = reason, rv_detail = detail\<rparr>;
              s1 = s\<lparr>g_revocations := om_put pid v (g_revocations s)\<rparr>;
              s2 = put_policy pid (r\<lparr>pc_revocation := Some v,
                     pc_policy := (pc_policy r)\<lparr>ap_lifecycle := PL_REVOKED, ap_epoch := g_epoch s\<rparr>\<rparr>) s1 in
          (e\<lparr>en_state := s2\<rparr>, (make_result Out_POLICY_UPDATED (''policy revoked: '' @ rv_render v) pid s2)\<lparr>or_mutated := True\<rparr>))))"

definition find_policy :: "engine \<Rightarrow> policy_id \<Rightarrow> adaptive_policy option" where
  "find_policy e pid = map_option pc_policy (om_find (g_policies (en_state e)) pid)"

definition list_policies :: "engine \<Rightarrow> adaptive_policy list" where
  "list_policies e = map pc_policy (om_values (g_policies (en_state e)))"

definition find_revocation :: "engine \<Rightarrow> policy_id \<Rightarrow> revocation_record option" where
  "find_revocation e pid = om_find (g_revocations (en_state e)) pid"

definition list_revocations :: "engine \<Rightarrow> revocation_record list" where
  "list_revocations e = om_values (g_revocations (en_state e))"

section \<open>Upstream bindings\<close>

definition sort_candidates :: "candidate_record list \<Rightarrow> candidate_record list" where
  "sort_candidates = sort_by (\<lambda>a b. cd_path (ca_binding a) < cd_path (ca_binding b))"

definition edit_binding :: "policy_id \<Rightarrow> nat \<Rightarrow> (candidate_binding \<Rightarrow> candidate_binding) \<Rightarrow> policy_record \<Rightarrow> state \<Rightarrow> state" where
  "edit_binding pid i f r s =
     (let c = pc_candidates r ! i in
      put_policy pid (r\<lparr>pc_candidates := (pc_candidates r)[i := c\<lparr>ca_binding := f (ca_binding c)\<rparr>]\<rparr>) s)"

definition edit_declared :: "policy_id \<Rightarrow> nat option \<Rightarrow> (candidate_binding \<Rightarrow> candidate_binding) \<Rightarrow> policy_record \<Rightarrow> state \<Rightarrow> state" where
  "edit_declared pid candidate f r s = (case candidate of None \<Rightarrow> s | Some i \<Rightarrow> edit_binding pid i f r s)"

definition expected_matches :: "upstream_notification \<Rightarrow> path_authority_generation \<Rightarrow> bool" where
  "expected_matches n current = (case un_expected_previous n of None \<Rightarrow> True | Some g \<Rightarrow> g = gen_value current)"

definition declare_candidate :: "limits \<Rightarrow> upstream_notification \<Rightarrow> policy_record \<Rightarrow> nat option \<Rightarrow> state \<Rightarrow> operation_result + state" where
  "declare_candidate l n r candidate s =
    (let pid = un_policy n; b = un_binding n; refuse = (\<lambda>outcome detail. Inl (make_result outcome detail pid s)) in
     case candidate of
       None \<Rightarrow>
         if length (pc_candidates r) \<ge> unat (lim_max_candidates_per_policy l) then
           refuse Out_RESOURCE_LIMIT ''candidate limit reached for this policy''
         else if length (pc_candidates r) + 1 > unat (lim_max_total_candidates l) then
           refuse Out_RESOURCE_LIMIT ''total candidate limit reached''
         else if \<not> pa_legal (cd_path_authority b) then
           refuse Out_MALFORMED_REQUEST ''a candidate is declared only with a current legal path authority binding''
         else
           Inr (reindex_policy l pid (put_policy pid (r\<lparr>pc_candidates :=
             sort_candidates (pc_candidates r @ [\<lparr>ca_binding = b, ca_path_watermark = 0\<rparr>])\<rparr>) s))
     | Some i \<Rightarrow>
         if \<not> expected_matches n (pa_generation (cd_path_authority (ca_binding (pc_candidates r ! i)))) then
           refuse Out_STALE_PATH_AUTHORITY ''expected previous path authority generation does not match''
         else Inr (edit_binding pid i (\<lambda>_. b) r s))"

definition apply_event :: "limits \<Rightarrow> upstream_notification \<Rightarrow> policy_record \<Rightarrow> nat option \<Rightarrow> state \<Rightarrow> operation_result + state" where
  "apply_event l n r candidate s =
    (let pid = un_policy n; b = un_binding n; path = cd_path b;
         not_declared = Inl (make_result Out_NOT_FOUND ''candidate is not declared'' pid s);
         stale = (\<lambda>detail. Inl (make_result Out_STALE_PATH_AUTHORITY detail pid s)) in
     case un_event n of
       UE_DECLARE_CANDIDATE \<Rightarrow> declare_candidate l n r candidate s
     | UE_ADVANCE_PATH_AUTHORITY \<Rightarrow>
         (case candidate of None \<Rightarrow> not_declared
          | Some i \<Rightarrow>
            (let old = cd_path_authority (ca_binding (pc_candidates r ! i)) in
             if \<not> expected_matches n (pa_generation old) then
               stale ''expected previous path authority generation does not match''
             else if \<not> pa_generation (cd_path_authority b) > pa_generation old then
               stale ''path authority generation must advance''
             else Inr (apply_invalidation (cd_path (ca_binding (pc_candidates r ! i)))
               (edit_binding pid i (\<lambda>c. c\<lparr>cd_path_authority := cd_path_authority b\<rparr>) r s))))
     | UE_INVALIDATE_PATH \<Rightarrow>
         (case candidate of None \<Rightarrow> Inr (apply_invalidation path s)
          | Some i \<Rightarrow>
            (let pa = cd_path_authority b;
                 deny = (\<lambda>old. old\<lparr>pa_legal := False,
                   pa_denial_reason := (if pa_denial_reason pa = [] then ''invalidated upstream'' else pa_denial_reason pa),
                   pa_generation := (if gen_valid (pa_generation pa) then pa_generation pa else pa_generation old)\<rparr>) in
             Inr (apply_invalidation (cd_path (ca_binding (pc_candidates r ! i)))
               (edit_binding pid i (\<lambda>c. c\<lparr>cd_path_authority := deny (cd_path_authority c)\<rparr>) r s))))
     | UE_SET_MEMBERSHIP \<Rightarrow>
         (case candidate of None \<Rightarrow> not_declared
          | Some i \<Rightarrow> Inr (apply_invalidation (cd_path (ca_binding (pc_candidates r ! i)))
              (edit_binding pid i (\<lambda>c. c\<lparr>cd_multipath := cd_multipath b\<rparr>) r s)))
     | UE_INVALIDATE_MULTIPATH_SET \<Rightarrow>
         Inr (apply_invalidation path (edit_declared pid candidate
           (\<lambda>c. c\<lparr>cd_multipath := map_option (\<lambda>m. m\<lparr>mb_current := False\<rparr>) (cd_multipath c)\<rparr>) r s))
     | UE_ADVANCE_ROUTE \<Rightarrow>
         (case candidate of None \<Rightarrow> not_declared
          | Some i \<Rightarrow> Inr (apply_invalidation (cd_path (ca_binding (pc_candidates r ! i)))
              (edit_binding pid i (\<lambda>c. c\<lparr>cd_route := cd_route b\<rparr>) r s)))
     | UE_INVALIDATE_ROUTE \<Rightarrow>
         Inr (apply_invalidation path (edit_declared pid candidate
           (\<lambda>c. c\<lparr>cd_route := (cd_route c)\<lparr>rb_current := False\<rparr>\<rparr>) r s))
     | UE_ADVANCE_WEIGHT_POLICY \<Rightarrow>
         (case candidate of None \<Rightarrow> not_declared
          | Some i \<Rightarrow> Inr (edit_binding pid i (\<lambda>c. c\<lparr>cd_weighted := cd_weighted b\<rparr>) r s))
     | UE_MARK_UNAVAILABLE \<Rightarrow>
         Inr (apply_invalidation path (edit_declared pid candidate (\<lambda>c. c\<lparr>cd_available := False\<rparr>) r s))
     | UE_MARK_AVAILABLE \<Rightarrow>
         Inr (apply_invalidation path (edit_declared pid candidate (\<lambda>c. c\<lparr>cd_available := True\<rparr>) r s))
     | UE_HARD_FAILURE_SIGNAL \<Rightarrow>
         Inr (apply_invalidation path (edit_declared pid candidate (\<lambda>c. c\<lparr>cd_hard_failure := True\<rparr>) r s))
     | UE_CLEAR_HARD_FAILURE_SIGNAL \<Rightarrow>
         Inr (edit_declared pid candidate (\<lambda>c. c\<lparr>cd_hard_failure := False\<rparr>) r s))"

definition apply_notification :: "limits \<Rightarrow> mutation_context \<Rightarrow> upstream_notification \<Rightarrow> state \<Rightarrow> operation_result + state" where
  "apply_notification l ctx n s =
    (let pid = un_policy n; b = un_binding n; prov = un_provenance n;
         refuse = (\<lambda>outcome detail. Inl (make_result outcome detail pid s)) in
     if \<not> id_valid pid then Inl (make_result Out_MALFORMED_REQUEST ''notification names no policy'' no_id s)
     else case om_find (g_policies s) pid of
       None \<Rightarrow> refuse Out_NOT_FOUND ''notification names an unknown policy''
     | Some r \<Rightarrow>
     (let policy = pc_policy r; target = ps_target (ap_semantics policy); scope = ap_scope policy in
       if \<not> valid_upstream_event (upstream_event_raw (un_event n)) then refuse Out_MALFORMED_REQUEST ''unknown upstream event''
       else if \<not> cd_well_formed b then refuse Out_MALFORMED_REQUEST ''upstream binding is malformed''
       else if policy_lifecycle_terminal (ap_lifecycle policy) then
         refuse (lifecycle_outcome (ap_lifecycle policy)) ''a terminal policy accepts no upstream binding''
       else if id_valid (up_publisher prov) \<and> up_publisher prov \<noteq> mc_publisher ctx then
         refuse Out_UNAUTHORIZED ''upstream provenance names a different publisher''
       else if id_valid (up_worker_boot prov) \<and> up_worker_boot prov \<noteq> mc_worker_boot ctx then
         refuse Out_STALE_WORKER ''upstream provenance names a different worker incarnation''
       else if gen_valid (up_epoch prov) \<and> up_epoch prov \<noteq> g_epoch s then
         refuse Out_STALE_EPOCH ''upstream provenance carries a stale epoch''
       else case check_caller s ctx (Some (pt_route target)) (pt_multipath_set target) of
         Inl (outcome, detail) \<Rightarrow> refuse outcome detail
       | Inr reg \<Rightarrow>
         if pt_multipath_set target \<noteq> None \<and> cd_multipath b \<noteq> None
             \<and> mb_set (the (cd_multipath b)) \<noteq> the (pt_multipath_set target) then
           refuse Out_MALFORMED_REQUEST ''multipath binding names a different set than the policy target''
         else if rb_route (cd_route b) \<noteq> pt_route target then
           refuse Out_MALFORMED_REQUEST ''route binding names a different route than the policy target''
         else if \<not> sc_covers_route scope (sc_fabric scope) (sc_namespace scope) (Some (rb_site (cd_route b))) (rb_route (cd_route b)) then
           refuse Out_UNAUTHORIZED_SCOPE ''candidate route is outside the policy scope''
         else if \<not> sc_covers_path_class scope (cd_path_class b) then
           refuse Out_UNAUTHORIZED_SCOPE ''candidate path class is outside the policy scope''
         else apply_event l n r (find_candidate (pc_candidates r) (cd_path b)) s))"

text \<open>A refused notification ends the batch; the notifications before it stay applied.\<close>

fun apply_notifications :: "limits \<Rightarrow> mutation_context \<Rightarrow> upstream_notification list \<Rightarrow> state \<Rightarrow> state \<times> operation_result option" where
  "apply_notifications l ctx [] s = (s, None)"
| "apply_notifications l ctx (n # ns) s =
    (case apply_notification l ctx n s of
       Inl r \<Rightarrow> (s, Some r)
     | Inr s' \<Rightarrow> apply_notifications l ctx ns s')"

definition upstream_fingerprint :: "upstream_notification list \<Rightarrow> string" where
  "upstream_fingerprint ns =
     digest_hex (foldl (\<lambda>d n. write_string (un_render n) d) (write_tag ''upstream-batch'' digest_new) ns)"

definition apply_upstream :: "upstream_notify_request \<Rightarrow> engine \<Rightarrow> engine \<times> operation_result" where
  "apply_upstream rq e =
    (let s = en_state e; l = en_limits e; ctx = nr_context rq; ns = nr_notifications rq;
         refuse = (\<lambda>outcome detail. (e, make_result outcome detail no_id s)) in
     if ns = [] then refuse Out_MALFORMED_REQUEST ''no upstream notification supplied''
     else if length ns > unat (lim_max_batch_size l) then
       refuse Out_RESOURCE_LIMIT ''upstream batch exceeds the configured maximum''
     else case replay_check (mc_attempt ctx) (upstream_fingerprint ns) e of
       (e1, Some r) \<Rightarrow> (e1, r)
     | (e1, None) \<Rightarrow>
     case apply_notifications l ctx ns s of
       (s1, Some r) \<Rightarrow> (e1\<lparr>en_state := s1\<rparr>, r)
     | (s1, None) \<Rightarrow>
       (let s2 = record_attempt l (mc_attempt ctx) (upstream_fingerprint ns) Out_POLICY_UPDATED ''upstream bindings applied'' s1 in
        (e1\<lparr>en_state := s2\<rparr>, (make_result Out_POLICY_UPDATED ''upstream bindings applied'' (un_policy (hd ns)) s2)\<lparr>or_mutated := True\<rparr>)))"

section \<open>Queries\<close>

definition policy_set_for :: "('k, policy_id oset) omap \<Rightarrow> 'k \<Rightarrow> policy_id list" where
  "policy_set_for ix key = (case om_find ix key of None \<Rightarrow> [] | Some ps \<Rightarrow> oset_elems ps)"

definition policies_for_path :: "engine \<Rightarrow> path_id \<Rightarrow> policy_id list" where
  "policies_for_path e = policy_set_for (g_by_path (en_state e))"

definition policies_for_route :: "engine \<Rightarrow> route_id \<Rightarrow> policy_id list" where
  "policies_for_route e = policy_set_for (g_by_route (en_state e))"

definition policies_for_multipath_set :: "engine \<Rightarrow> multipath_set_id \<Rightarrow> policy_id list" where
  "policies_for_multipath_set e = policy_set_for (g_by_set (en_state e))"

definition policies_for_evidence_source :: "engine \<Rightarrow> evidence_source_id \<Rightarrow> policy_id list" where
  "policies_for_evidence_source e = policy_set_for (g_by_source (en_state e))"

definition candidates :: "engine \<Rightarrow> policy_id \<Rightarrow> candidate_binding list" where
  "candidates e pid = (case om_find (g_policies (en_state e)) pid of None \<Rightarrow> [] | Some r \<Rightarrow> map ca_binding (pc_candidates r))"

end
