(* ===== verification/Policy_Contract.thy ===== *)
theory Policy_Contract
  imports Policies
begin

text \<open>
  The policy operations honour the engine contract, and what they guarantee beyond it.
\<close>

section \<open>Replacing one record\<close>

lemma put_policy_frame [simp]:
  "g_registrations (put_policy p r s) = g_registrations s" "g_fenced_boots (put_policy p r s) = g_fenced_boots s"
  "g_by_path (put_policy p r s) = g_by_path s" "g_evidence (put_policy p r s) = g_evidence s"
  "g_revocations (put_policy p r s) = g_revocations s" "g_attempts (put_policy p r s) = g_attempts s"
  "g_attempt_order (put_policy p r s) = g_attempt_order s" "g_epoch (put_policy p r s) = g_epoch s"
  "g_policies (put_policy p r s) = om_put p r (g_policies s)" "g_fences (put_policy p r s) = g_fences s"
  "g_authority_generation (put_policy p r s) = g_authority_generation s"
  "g_evidence_generation (put_policy p r s) = g_evidence_generation s"
  "g_evidence_watermark (put_policy p r s) = g_evidence_watermark s"
  "g_upstream_watermark (put_policy p r s) = g_upstream_watermark s"
  "g_by_route (put_policy p r s) = g_by_route s" "g_by_set (put_policy p r s) = g_by_set s"
  "g_by_source (put_policy p r s) = g_by_source s"
  by (simp_all add: put_policy_def)

lemma policies_ok_put: "policies_ok l m \<Longrightarrow> policy_record_ok l p r \<Longrightarrow> policies_ok l (om_put p r m)"
  by (auto simp: policies_ok_def om_simps)

lemma state_ok_record: "state_ok l s \<Longrightarrow> om_find (g_policies s) p = Some r \<Longrightarrow> policy_record_ok l p r"
  by (simp add: state_ok_def policies_ok_def)

lemma index_ok_mono: "index_ok has ix \<Longrightarrow> (\<And>k p. index_has ix k p \<Longrightarrow> has k p \<Longrightarrow> has' k p) \<Longrightarrow> index_ok has' ix"
  by (simp add: index_ok_def)

lemma revocations_ok_put:
  assumes "revocations_ok s" and "om_find (g_policies s) p = Some r" and "policy_extends r r'"
  shows "revocations_ok (put_policy p r' s)"
  using assms by (fastforce simp: revocations_ok_def om_find_put policy_extends_def policy_lifecycle_terminal_def)

lemma put_policy_contract_gen:
  assumes "state_ok l s" and "om_find (g_policies s) p = Some r" and "policy_record_ok l p r'" and "policy_extends r r'"
    and "index_ok (binds_path (om_put p r' (g_policies s))) (g_by_path s)"
  shows "state_ok l (put_policy p r' s) \<and> state_extends s (put_policy p r' s)"
proof -
  have "revocations_ok (put_policy p r' s)" using assms revocations_ok_put by (simp add: state_ok_def)
  moreover have "policies_extend (g_policies s) (om_put p r' (g_policies s))"
    using assms by (intro policies_extend_put) blast
  ultimately show ?thesis
    using assms by (simp add: state_ok_def state_extends_def policies_ok_put)
qed

lemma put_policy_contract:
  assumes "state_ok l s" and "om_find (g_policies s) p = Some r" and "policy_record_ok l p r'" and "policy_extends r r'"
    and "set (candidate_paths r) \<subseteq> set (candidate_paths r')"
  shows "state_ok l (put_policy p r' s) \<and> state_extends s (put_policy p r' s)"
proof (rule put_policy_contract_gen[OF assms(1-4)])
  have "index_ok (binds_path (g_policies s)) (g_by_path s)" using assms(1) by (simp add: state_ok_def)
  then show "index_ok (binds_path (om_put p r' (g_policies s))) (g_by_path s)"
    by (rule index_ok_mono) (use assms(2,5) in \<open>auto simp: binds_path_def om_find_put\<close>)
qed

section \<open>Reindexing\<close>

lemma unindex_policy_frame [simp]:
  "g_registrations (unindex_policy p s) = g_registrations s" "g_fenced_boots (unindex_policy p s) = g_fenced_boots s"
  "g_evidence (unindex_policy p s) = g_evidence s" "g_revocations (unindex_policy p s) = g_revocations s"
  "g_attempts (unindex_policy p s) = g_attempts s" "g_attempt_order (unindex_policy p s) = g_attempt_order s"
  "g_epoch (unindex_policy p s) = g_epoch s" "g_policies (unindex_policy p s) = g_policies s"
  "g_fences (unindex_policy p s) = g_fences s"
  "g_authority_generation (unindex_policy p s) = g_authority_generation s"
  "g_evidence_generation (unindex_policy p s) = g_evidence_generation s"
  "g_evidence_watermark (unindex_policy p s) = g_evidence_watermark s"
  "g_upstream_watermark (unindex_policy p s) = g_upstream_watermark s"
  by (simp_all add: unindex_policy_def Let_def split: option.split)

lemma reindex_policy_frame [simp]:
  "g_registrations (reindex_policy l p s) = g_registrations s" "g_fenced_boots (reindex_policy l p s) = g_fenced_boots s"
  "g_evidence (reindex_policy l p s) = g_evidence s" "g_revocations (reindex_policy l p s) = g_revocations s"
  "g_attempts (reindex_policy l p s) = g_attempts s" "g_attempt_order (reindex_policy l p s) = g_attempt_order s"
  "g_epoch (reindex_policy l p s) = g_epoch s" "g_policies (reindex_policy l p s) = g_policies s"
  "g_fences (reindex_policy l p s) = g_fences s"
  "g_authority_generation (reindex_policy l p s) = g_authority_generation s"
  "g_evidence_generation (reindex_policy l p s) = g_evidence_generation s"
  "g_evidence_watermark (reindex_policy l p s) = g_evidence_watermark s"
  "g_upstream_watermark (reindex_policy l p s) = g_upstream_watermark s"
  by (simp_all add: reindex_policy_def Let_def split: option.split)

lemma state_ok_frame:
  assumes "state_ok l s" and "index_ok (binds_path (g_policies s)) (g_by_path t)"
    and "g_policies t = g_policies s" "g_registrations t = g_registrations s" "g_fenced_boots t = g_fenced_boots s"
    "g_attempts t = g_attempts s" "g_attempt_order t = g_attempt_order s" "g_evidence t = g_evidence s"
    "g_revocations t = g_revocations s"
  shows "state_ok l t"
  using assms by (simp add: state_ok_def revocations_ok_def)

lemma unindex_policy_contract:
  assumes "state_ok l s"
  shows "state_ok l (unindex_policy p s) \<and> state_extends s (unindex_policy p s)"
    and "\<not> index_has (g_by_path (unindex_policy p s)) path p"
proof -
  have ix: "index_ok (binds_path (g_policies s)) (g_by_path s)" using assms by (simp add: state_ok_def)
  then have wf: "index_wf (g_by_path s)" and sound: "\<And>k q. index_has (g_by_path s) k q \<Longrightarrow> binds_path (g_policies s) k q"
    by (auto simp: index_ok_def)
  show "\<not> index_has (g_by_path (unindex_policy p s)) path p"
  proof (cases "om_find (g_policies s) p")
    case None
    then show ?thesis using sound[of path p] by (auto simp: unindex_policy_def binds_path_def)
  next
    case (Some r)
    have h: "\<And>k. index_has (g_by_path s) k p \<Longrightarrow> k \<in> set (candidate_paths r)"
      using sound[of _ p] Some by (auto simp: binds_path_def)
    show ?thesis
      using Some rindex.drops_forget[where p = p, OF wf h] by (simp add: unindex_policy_def Let_def)
  qed
  have "index_ok (binds_path (g_policies s)) (g_by_path (unindex_policy p s))"
    using ix by (auto simp: unindex_policy_def Let_def index_ok_def rindex.wf_drops rindex.has_drops split: option.split)
  then have "state_ok l (unindex_policy p s)" by (rule state_ok_frame[OF assms]) simp_all
  then show "state_ok l (unindex_policy p s) \<and> state_extends s (unindex_policy p s)" by (simp add: state_extends_def)
qed

lemma reindex_policy_contract:
  assumes "state_ok l s"
  shows "state_ok l (reindex_policy l p s) \<and> state_extends s (reindex_policy l p s)"
proof -
  have "index_ok (binds_path (g_policies s)) (g_by_path s)" using assms by (simp add: state_ok_def)
  then have "index_ok (binds_path (g_policies s)) (g_by_path (reindex_policy l p s))"
    using index_paths_sound by (fastforce simp: reindex_policy_def Let_def index_ok_def index_paths_wf binds_path_def split: option.split)
  then have "state_ok l (reindex_policy l p s)" by (rule state_ok_frame[OF assms]) simp_all
  then show ?thesis by (simp add: state_extends_def)
qed

section \<open>Creation and update\<close>

lemma fresh_record_ok:
  "ps_valid (ap_semantics p) = None \<Longrightarrow> sc_well_formed (ap_scope p) \<Longrightarrow> policy_record_ok l (ap_id p) (fresh_record p)"
  by (simp add: policy_record_ok_def fresh_record_def candidates_ok_def)

lemma put_fresh_contract:
  assumes "state_ok l s" and "om_find (g_policies s) p = None" and "policy_record_ok l p r"
  shows "state_ok l (put_policy p r s) \<and> state_extends s (put_policy p r s)"
proof -
  have ix: "index_ok (binds_path (g_policies s)) (g_by_path s)" using assms(1) by (simp add: state_ok_def)
  have "index_ok (binds_path (om_put p r (g_policies s))) (g_by_path s)"
    using ix by (rule index_ok_mono) (auto simp: binds_path_def om_find_put assms(2) split: option.splits)
  moreover have "revocations_ok (put_policy p r s)"
    using assms(1,2) by (fastforce simp: state_ok_def revocations_ok_def om_find_put)
  moreover have "policies_extend (g_policies s) (om_put p r (g_policies s))"
    using assms(2) by (intro policies_extend_put) blast
  ultimately show ?thesis
    using assms by (simp add: state_ok_def state_extends_def policies_ok_put)
qed

lemma state_chain:
  "state_ok l s \<Longrightarrow> (state_ok l s \<Longrightarrow> state_ok l t \<and> state_extends s t) \<Longrightarrow>
   (state_ok l t \<Longrightarrow> state_ok l u \<and> state_extends t u) \<Longrightarrow> state_ok l u \<and> state_extends s u"
  using state_extends_trans by blast

lemma record_attempt_contract: "state_ok l s \<Longrightarrow> state_ok l (record_attempt l a f c d s) \<and> state_extends s (record_attempt l a f c d s)"
  using record_attempt_ok record_attempt_extends by blast

lemma names_contract: "state_ok l s \<Longrightarrow> state_ok l (s\<lparr>g_policy_names := m\<rparr>) \<and> state_extends s (s\<lparr>g_policy_names := m\<rparr>)"
  by (simp add: state_ok_def state_extends_def revocations_ok_def)

lemma created_state_contract:
  assumes "state_ok l s" and "ps_valid (ap_semantics p) = None" and "sc_well_formed (ap_scope p)"
  shows "state_ok l (created_state l a f p s) \<and> state_extends s (created_state l a f p s)"
proof -
  let ?s1 = "if om_find (g_policies s) (ap_id p) = None then put_policy (ap_id p) (fresh_record p) s else s"
  have 1: "state_ok l ?s1 \<and> state_extends s ?s1"
    using assms put_fresh_contract[OF assms(1) _ fresh_record_ok[OF assms(2,3)]] by simp
  show ?thesis
    unfolding created_state_def Let_def
    by (rule state_chain[OF assms(1)], rule 1, rule state_chain, assumption, erule names_contract,
        rule state_chain, assumption, erule reindex_policy_contract, erule record_attempt_contract)
qed

lemma replay_check_cases:
  obtains (answered) c r where "replay_check a f e = (e\<lparr>en_counters := c\<rparr>, Some r)" "\<not> or_mutated r"
      "or_outcome r \<in> {Out_MALFORMED_REQUEST, Out_IDEMPOTENT, Out_ATTEMPT_CONFLICT}"
  | (fresh) "replay_check a f e = (e, None)" "id_valid a" "om_find (g_attempts (en_state e)) a = None"
proof -
  obtain c where c: "fst (replay_check a f e) = e\<lparr>en_counters := c\<rparr>" using replay_check_engine by blast
  show ?thesis
  proof (cases "snd (replay_check a f e)")
    case None
    then show ?thesis
      by (intro fresh) (auto simp: replay_check_def Let_def split: option.splits if_splits)
  next
    case (Some r)
    with c show ?thesis
      by (intro answered[of c r]) (auto simp: prod_eq_iff replay_check_def Let_def split: option.splits if_splits)
  qed
qed

text \<open>What a creation can end in: a refusal that leaves the state, a recorded refusal, or the policy.\<close>

lemma create_policy_ends:
  assumes "create_policy now rq e = Some (e', r)"
  obtains (refused) c where "e' = e\<lparr>en_counters := c\<rparr>" "\<not> or_mutated r"
  | (recorded) f c d where "e' = e\<lparr>en_state := record_attempt (en_limits e) (mc_attempt (cr_context rq)) f c d (en_state e)\<rparr>"
      "\<not> or_mutated r"
  | (created) f p ids reg where
      "e' = e\<lparr>en_ids := ids, en_state := created_state (en_limits e) (mc_attempt (cr_context rq)) f p (en_state e)\<rparr>"
      "next_policy_id (en_ids e) = Some (ids, ap_id p)" "ap_name p = cr_name rq" "ap_semantics p = cr_semantics rq"
      "ap_scope p = cr_scope rq" "ap_lifecycle p = PL_DECLARED" "ap_generation p = gen_first"
      "ap_owner p = mc_publisher (cr_context rq)"
      "ps_valid (cr_semantics rq) = None" "sc_well_formed (cr_scope rq)"
      "or_outcome r = Out_POLICY_CREATED" "or_policy r = ap_id p"
      "check_caller (en_state e) (cr_context rq) (Some (pt_route (ps_target (cr_semantics rq))))
         (pt_multipath_set (ps_target (cr_semantics rq))) = Inr reg"
      "as_covers_route (pr_scope reg) (sc_fabric (cr_scope rq)) (sc_namespace (cr_scope rq)) (pt_route (ps_target (cr_semantics rq)))"
      "om_find (g_policy_names (en_state e)) (cr_name rq) = None" "length (g_policies (en_state e)) < unat (lim_max_policies (en_limits e))"
proof -
  let ?sem = "cr_semantics rq"
  let ?f = "digest_hex (write_string (ps_render ?sem) (write_string (sc_render (cr_scope rq))
       (write_tag ''policy-payload'' digest_new)))"
  have id: "e\<lparr>en_counters := en_counters e\<rparr> = e" by simp
  have fp: "fingerprint_policy (cr_scope rq) ?sem = Some ?f" by (simp add: fingerprint_policy_def)
  note def = assms[unfolded create_policy_def Let_def fp, simplified]
  show ?thesis
  proof (cases "\<not> or_mutated r \<and> e' = e")
    case True then show ?thesis using id by (intro refused[of "en_counters e"]) auto
  next
    case F: False
    then show ?thesis
      using def  
      apply (cases rule: replay_check_cases[of "mc_attempt (cr_context rq)" ?f e])
      subgoal for c r0
        by (simp split: if_splits option.splits sum.splits prod.splits) (auto intro: refused)
      subgoal
        by (simp split: if_splits option.splits sum.splits prod.splits) (auto intro: recorded created)
      done
  qed
qed

lemma engine_contract_state:
  "engine_ok e \<Longrightarrow> (state_ok (en_limits e) (en_state e) \<Longrightarrow> state_ok (en_limits e) s \<and> state_extends (en_state e) s) \<Longrightarrow>
   engine_ok (e\<lparr>en_state := s\<rparr>) \<and> engine_extends e (e\<lparr>en_state := s\<rparr>)"
  "engine_ok e \<Longrightarrow> (state_ok (en_limits e) (en_state e) \<Longrightarrow> state_ok (en_limits e) s \<and> state_extends (en_state e) s) \<Longrightarrow>
   engine_ok (e\<lparr>en_ids := ids, en_state := s\<rparr>) \<and> engine_extends e (e\<lparr>en_ids := ids, en_state := s\<rparr>)"
  "engine_ok e \<Longrightarrow> (state_ok (en_limits e) (en_state e) \<Longrightarrow> state_ok (en_limits e) s \<and> state_extends (en_state e) s) \<Longrightarrow>
   engine_ok (e\<lparr>en_counters := c, en_state := s\<rparr>) \<and> engine_extends e (e\<lparr>en_counters := c, en_state := s\<rparr>)"
  by (simp_all add: engine_ok_def engine_extends_def)

lemma create_policy_contract:
  assumes "engine_ok e" and "create_policy now rq e = Some (e', r)"
  shows "engine_ok e' \<and> engine_extends e e'"
  using assms(2)
proof (cases rule: create_policy_ends)
  case (refused c)
  with assms(1) show ?thesis by simp
next
  case (recorded f c d)
  show ?thesis unfolding recorded(1)
    by (rule engine_contract_state(1)[OF assms(1)]) (erule record_attempt_contract)
next
  case (created f p ids reg)
  show ?thesis unfolding created(1)
    by (rule engine_contract_state(2)[OF assms(1)]) (use created created_state_contract in simp)
qed

interpretation create: engine_operation "create_policy now rq" for now rq
  by unfold_locales (rule create_policy_contract)

lemma retarget_record_ok:
  assumes "policy_record_ok l p r" and "ps_valid (pu_semantics u) = None" and "sc_well_formed (pu_scope u)"
    and "gen_next (ap_generation (pc_policy r)) = Some g" and "\<not> policy_lifecycle_terminal (ap_lifecycle (pc_policy r))"
  shows "policy_record_ok l p (retarget_record now ep u g r)" and "policy_extends r (retarget_record now ep u g r)"
proof -
  have "ap_generation (pc_policy r) < g" by (rule gen_next_SomeD(2)[OF assms(4)])
  with assms show "policy_record_ok l p (retarget_record now ep u g r)" and "policy_extends r (retarget_record now ep u g r)"
    by (auto simp: policy_record_ok_def policy_extends_def retarget_record_def Let_def candidates_ok_def)
qed

lemma updated_state_contract:
  assumes "state_ok l s" and "om_find (g_policies s) p = Some r"
    and "ps_valid (pu_semantics u) = None" and "sc_well_formed (pu_scope u)"
    and "gen_next (ap_generation (pc_policy r)) = Some g" and "\<not> policy_lifecycle_terminal (ap_lifecycle (pc_policy r))"
  shows "state_ok l (updated_state now l a f p u g r s) \<and> state_extends s (updated_state now l a f p u g r s)"
proof -
  let ?s1 = "unindex_policy p s"
  let ?r = "retarget_record now (g_epoch ?s1) u g r"
  have 1: "state_ok l ?s1 \<and> state_extends s ?s1" by (rule unindex_policy_contract(1)[OF assms(1)])
  have gone: "\<not> index_has (g_by_path ?s1) k p" for k by (rule unindex_policy_contract(2)[OF assms(1)])
  have ix: "index_ok (binds_path (g_policies ?s1)) (g_by_path ?s1)" using 1 unfolding state_ok_def by blast
  have ix': "index_ok (binds_path (om_put p ?r (g_policies ?s1))) (g_by_path ?s1)"
  proof (rule index_ok_mono[OF ix])
    fix k q assume "index_has (g_by_path ?s1) k q" "binds_path (g_policies ?s1) k q"
    moreover from this have "q \<noteq> p" using gone by blast
    ultimately show "binds_path (om_put p ?r (g_policies ?s1)) k q" by (simp add: binds_path_def om_find_put)
  qed
  have 2: "state_ok l (put_policy p ?r ?s1) \<and> state_extends ?s1 (put_policy p ?r ?s1)"
    using 1 assms retarget_record_ok[OF state_ok_record[OF assms(1,2)] assms(3-6)] ix'
    by (intro put_policy_contract_gen[where r = r]) auto
  show ?thesis
    unfolding updated_state_def Let_def
    by (rule state_chain[OF assms(1)], rule 1, rule state_chain, assumption, rule 2,
        rule state_chain, assumption, erule reindex_policy_contract, erule record_attempt_contract)
qed

lemma update_policy_ends:
  obtains (refused) c where "fst (update_policy now rq e) = e\<lparr>en_counters := c\<rparr>" "\<not> or_mutated (snd (update_policy now rq e))"
  | (updated) f r g reg where
      "fst (update_policy now rq e) = e\<lparr>en_state := updated_state now (en_limits e) (mc_attempt (ur_context rq)) f (ur_policy rq) (ur_update rq) g r (en_state e)\<rparr>"
      "or_outcome (snd (update_policy now rq e)) = Out_POLICY_UPDATED"
      "om_find (g_policies (en_state e)) (ur_policy rq) = Some r"
      "ps_valid (pu_semantics (ur_update rq)) = None" "sc_well_formed (pu_scope (ur_update rq))"
      "gen_next (ap_generation (pc_policy r)) = Some g" "\<not> policy_lifecycle_terminal (ap_lifecycle (pc_policy r))"
      "mc_expected_policy_generation (ur_context rq) = Some (ap_generation (pc_policy r))"
      "check_caller (en_state e) (ur_context rq) (Some (pt_route (ps_target (pu_semantics (ur_update rq)))))
         (pt_multipath_set (ps_target (pu_semantics (ur_update rq)))) = Inr reg"
proof -
  let ?f = "digest_hex (write_string (ps_render (pu_semantics (ur_update rq))) (write_string (sc_render (pu_scope (ur_update rq)))
       (write_tag ''policy-payload'' digest_new)))"
  obtain e' res where u: "update_policy now rq e = (e', res)" by (cases "update_policy now rq e")
  have id: "e\<lparr>en_counters := en_counters e\<rparr> = e" by simp
  have fp: "fingerprint_policy (pu_scope (ur_update rq)) (pu_semantics (ur_update rq)) = Some ?f" by (simp add: fingerprint_policy_def)
  note def = u[unfolded update_policy_def Let_def fp, simplified]
  show ?thesis
  proof (cases "\<not> or_mutated res \<and> e' = e")
    case True then show ?thesis using id u by (intro refused[of "en_counters e"]) auto
  next
    case F: False
    then show ?thesis
      using def
      apply (cases rule: replay_check_cases[of "mc_attempt (ur_context rq)" ?f e])
      subgoal for c r0
        by (simp split: if_splits option.splits sum.splits prod.splits) (auto simp: u intro: refused)
      subgoal
        by (simp split: if_splits option.splits sum.splits prod.splits) (auto simp: u intro: updated)
      done
  qed
qed

lemma update_policy_contract:
  assumes "engine_ok e"
  shows "engine_ok (fst (update_policy now rq e)) \<and> engine_extends e (fst (update_policy now rq e))"
proof (cases rule: update_policy_ends[of now rq e])
  case (refused c)
  with assms show ?thesis by simp
next
  case (updated f r g reg)
  show ?thesis unfolding updated(1)
    by (rule engine_contract_state(1)[OF assms]) (use updated updated_state_contract in blast)
qed

interpretation update: engine_operation "\<lambda>e. Some (update_policy now rq e)" for now rq
  by unfold_locales (metis update_policy_contract fst_conv option.inject)

section \<open>Lifecycle and revocation\<close>

text \<open>A record that differs only in its policy's lifecycle, epoch and revocation.\<close>

definition lifecycle_record :: "policy_lifecycle \<Rightarrow> coordinator_epoch \<Rightarrow> revocation_record option \<Rightarrow> policy_record \<Rightarrow> policy_record" where
  "lifecycle_record lc ep v r = r\<lparr>pc_revocation := v, pc_policy := (pc_policy r)\<lparr>ap_lifecycle := lc, ap_epoch := ep\<rparr>\<rparr>"

lemma lifecycle_record_frame [simp]:
  "candidate_paths (lifecycle_record lc ep v r) = candidate_paths r"
  "policy_record_ok l p r \<Longrightarrow> policy_record_ok l p (lifecycle_record lc ep v r)"
  "\<not> policy_lifecycle_terminal (ap_lifecycle (pc_policy r)) \<Longrightarrow> policy_extends r (lifecycle_record lc ep v r)"
  "pc_candidates (lifecycle_record lc ep v r) = pc_candidates r"
  "ap_lifecycle (pc_policy (lifecycle_record lc ep v r)) = lc"
  by (simp_all add: lifecycle_record_def candidate_paths_def policy_record_ok_def policy_extends_def)

lemma put_lifecycle_contract:
  assumes "state_ok l s" and "om_find (g_policies s) p = Some r" and "\<not> policy_lifecycle_terminal (ap_lifecycle (pc_policy r))"
  shows "state_ok l (put_policy p (lifecycle_record lc ep v r) s) \<and> state_extends s (put_policy p (lifecycle_record lc ep v r) s)"
  by (rule put_policy_contract[OF assms(1,2)]) (use assms state_ok_record[OF assms(1,2)] in simp_all)

lemma transition_policy_ends:
  obtains (refused) "fst (transition_policy rq e) = e" "\<not> or_mutated (snd (transition_policy rq e))"
  | (unusable) r where "om_find (g_policies (en_state e)) (lr_policy rq) = Some r"
      "\<not> policy_lifecycle_terminal (ap_lifecycle (pc_policy r))" "lr_event rq = PE_REVALIDATE"
      "\<not> (\<exists>c \<in> set (pc_candidates r). usable_candidate c)" "or_outcome (snd (transition_policy rq e)) = Out_REVALIDATION_REQUIRED"
      "\<not> or_mutated (snd (transition_policy rq e))"
      "fst (transition_policy rq e) = e\<lparr>en_state := put_policy (lr_policy rq)
         (lifecycle_record PL_REVALIDATION_REQUIRED (ap_epoch (pc_policy r)) (pc_revocation r) r) (en_state e)\<rparr>"
  | (moved) r lc reg where "om_find (g_policies (en_state e)) (lr_policy rq) = Some r"
      "apply_policy_event (ap_lifecycle (pc_policy r)) (lr_event rq) = Some lc"
      "\<not> policy_lifecycle_terminal (ap_lifecycle (pc_policy r))"
      "lr_event rq = PE_REVALIDATE \<Longrightarrow> \<exists>c \<in> set (pc_candidates r). usable_candidate c"
      "check_caller (en_state e) (lr_context rq) (Some (pt_route (ps_target (ap_semantics (pc_policy r)))))
         (pt_multipath_set (ps_target (ap_semantics (pc_policy r)))) = Inr reg"
      "or_outcome (snd (transition_policy rq e)) = Out_POLICY_UPDATED" "or_mutated (snd (transition_policy rq e))"
      "fst (transition_policy rq e) = e\<lparr>en_state := put_policy (lr_policy rq)
         (lifecycle_record lc (g_epoch (en_state e)) (pc_revocation r) r) (en_state e)\<rparr>"
proof -
  obtain e' res where t: "transition_policy rq e = (e', res)" by (cases "transition_policy rq e")
  have same: "r\<lparr>pc_policy := (pc_policy r)\<lparr>ap_lifecycle := lc\<rparr>\<rparr> = lifecycle_record lc (ap_epoch (pc_policy r)) (pc_revocation r) r"
    "r\<lparr>pc_policy := (pc_policy r)\<lparr>ap_lifecycle := lc, ap_epoch := ep\<rparr>\<rparr> = lifecycle_record lc ep (pc_revocation r) r"
    for lc ep and r :: policy_record
    by (simp_all add: lifecycle_record_def)
  note def = t[unfolded transition_policy_def Let_def same, simplified]
  show ?thesis
  proof (cases "e' = e \<and> \<not> or_mutated res")
    case True then show ?thesis using t by (intro refused) auto
  next
    case False
    then show ?thesis using def
      by (simp split: if_splits option.splits sum.splits prod.splits)
        (auto simp: t intro: unusable moved)
  qed
qed

lemma transition_policy_contract:
  assumes "engine_ok e"
  shows "engine_ok (fst (transition_policy rq e)) \<and> engine_extends e (fst (transition_policy rq e))"
proof (cases rule: transition_policy_ends[of rq e])
  case refused
  with assms show ?thesis by simp
next
  case (unusable r)
  show ?thesis unfolding unusable(7)
    by (rule engine_contract_state(1)[OF assms]) (use unusable put_lifecycle_contract in blast)
next
  case (moved r lc reg)
  show ?thesis unfolding moved(8)
    by (rule engine_contract_state(1)[OF assms]) (use moved put_lifecycle_contract in blast)
qed

interpretation transition: engine_operation "\<lambda>e. Some (transition_policy rq e)" for rq
  by unfold_locales (metis transition_policy_contract fst_conv option.inject)

definition revoked_state :: "policy_id \<Rightarrow> revocation_record \<Rightarrow> policy_record \<Rightarrow> state \<Rightarrow> state" where
  "revoked_state p v r s =
     put_policy p (lifecycle_record PL_REVOKED (g_epoch s) (Some v) r) (s\<lparr>g_revocations := om_put p v (g_revocations s)\<rparr>)"

lemma revoked_state_contract:
  assumes "state_ok l s" and "om_find (g_policies s) p = Some r" and "\<not> policy_lifecycle_terminal (ap_lifecycle (pc_policy r))"
    and "om_find (g_revocations s) p = None" and "rv_policy v = p"
  shows "state_ok l (revoked_state p v r s) \<and> state_extends s (revoked_state p v r s)"
proof -
  let ?r = "lifecycle_record PL_REVOKED (g_epoch s) (Some v) r"
  have 1: "state_ok l (put_policy p ?r s) \<and> state_extends s (put_policy p ?r s)" by (rule put_lifecycle_contract[OF assms(1-3)])
  have eq: "revoked_state p v r s = (put_policy p ?r s)\<lparr>g_revocations := om_put p v (g_revocations s)\<rparr>"
    by (simp add: revoked_state_def put_policy_def)
  have "revocations_ok ((put_policy p ?r s)\<lparr>g_revocations := om_put p v (g_revocations s)\<rparr>)"
  proof -
    have old: "revocations_ok (put_policy p ?r s)" using 1 by (simp add: state_ok_def)
    have "rv_policy w = q \<and> (\<exists>x. om_find (om_put p ?r (g_policies s)) q = Some x \<and> ap_lifecycle (pc_policy x) = PL_REVOKED)"
      if w: "om_find (om_put p v (g_revocations s)) q = Some w" for q w
    proof (cases "q = p")
      case True
      with w assms(5) show ?thesis by (simp add: om_find_put)
    next
      case False
      with w have "om_find (g_revocations s) q = Some w" by (simp add: om_find_put)
      with old show ?thesis by (simp add: revocations_ok_def)
    qed
    moreover have "om_ok (om_put p v (g_revocations s))" using old by (simp add: revocations_ok_def om_simps)
    ultimately show ?thesis by (simp add: revocations_ok_def)
  qed
  with 1 assms(4) show ?thesis unfolding eq
    by (auto simp: state_ok_def state_extends_def om_simps)
qed

lemma revoke_policy_ends:
  obtains (refused) "fst (revoke_policy p reason d ctx e) = e" "\<not> or_mutated (snd (revoke_policy p reason d ctx e))"
  | (revoked) r v reg where "fst (revoke_policy p reason d ctx e) = e\<lparr>en_state := revoked_state p v r (en_state e)\<rparr>"
      "om_find (g_policies (en_state e)) p = Some r"
      "\<not> policy_lifecycle_terminal (ap_lifecycle (pc_policy r))" "om_find (g_revocations (en_state e)) p = None"
      "rv_policy v = p" "rv_reason v = reason" "rv_publisher v = mc_publisher ctx"
      "length (g_revocations (en_state e)) < unat (lim_max_revocations (en_limits e))"
      "check_caller (en_state e) ctx (Some (pt_route (ps_target (ap_semantics (pc_policy r)))))
         (pt_multipath_set (ps_target (ap_semantics (pc_policy r)))) = Inr reg"
      "or_outcome (snd (revoke_policy p reason d ctx e)) = Out_POLICY_UPDATED"
proof -
  obtain e' res where t: "revoke_policy p reason d ctx e = (e', res)" by (cases "revoke_policy p reason d ctx e")
  have same: "put_policy p (r\<lparr>pc_revocation := Some v, pc_policy := (pc_policy r)\<lparr>ap_lifecycle := PL_REVOKED, ap_epoch := g_epoch s\<rparr>\<rparr>)
      (s\<lparr>g_revocations := om_put p v (g_revocations s)\<rparr>) = revoked_state p v r s" for r v and s :: state
    by (simp add: revoked_state_def lifecycle_record_def)
  note def = t[unfolded revoke_policy_def Let_def same, simplified]
  show ?thesis
  proof (cases "e' = e \<and> \<not> or_mutated res")
    case True then show ?thesis using t by (intro refused) auto
  next
    case False
    then show ?thesis using def
      by (simp split: if_splits option.splits sum.splits prod.splits)
        (auto simp: t intro: revoked)
  qed
qed

lemma revoke_policy_contract:
  assumes "engine_ok e"
  shows "engine_ok (fst (revoke_policy p reason d ctx e)) \<and> engine_extends e (fst (revoke_policy p reason d ctx e))"
proof (cases rule: revoke_policy_ends[of p reason d ctx e])
  case refused
  with assms show ?thesis by simp
next
  case (revoked r v reg)
  show ?thesis unfolding revoked(1)
    by (rule engine_contract_state(1)[OF assms]) (use revoked revoked_state_contract in blast)
qed

interpretation revoke: engine_operation "\<lambda>e. Some (revoke_policy p reason d ctx e)" for p reason d ctx
  by unfold_locales (metis revoke_policy_contract fst_conv option.inject)

end
