(* ===== verification/Upstream.thy ===== *)
theory Upstream
  imports Policy_Contract
begin

text \<open>
  The upstream notification batch (\<^verbatim>\<open>apply_upstream\<close> of \<^verbatim>\<open>src/fabric_policy.cpp\<close>) honours the engine
  contract, and what the policy operations guarantee beyond it.
\<close>

section \<open>Editing a declared binding\<close>

lemma edit_record_ok:
  assumes "policy_record_ok l p r" and "i < length (pc_candidates r)"
    and "cd_path (f (ca_binding (pc_candidates r ! i))) = cd_path (ca_binding (pc_candidates r ! i))"
    and "cd_well_formed (f (ca_binding (pc_candidates r ! i)))"
    and "r' = r\<lparr>pc_candidates := (pc_candidates r)[i := (pc_candidates r ! i)\<lparr>ca_binding := f (ca_binding (pc_candidates r ! i))\<rparr>]\<rparr>"
  shows "policy_record_ok l p r' \<and> candidate_paths r' = candidate_paths r \<and> policy_extends r r'"
proof -
  have paths: "map (cd_path \<circ> ca_binding) (pc_candidates r') = map (cd_path \<circ> ca_binding) (pc_candidates r)"
    using assms(3) by (simp add: assms(5) map_list_update_same)
  have "cd_well_formed (ca_binding c)" if "c \<in> set (pc_candidates r')" for c
    using subsetD[OF set_update_subset_insert] that assms(1,4) by (fastforce simp: assms(5) policy_record_ok_def)
  with paths assms(1) show ?thesis
    by (simp add: policy_record_ok_def candidates_ok_def candidate_paths_def policy_extends_def) (simp add: assms(5))
qed

lemma edit_binding_contract:
  assumes "state_ok l s" and "om_find (g_policies s) p = Some r" and "find_candidate (pc_candidates r) path = Some i"
    and "\<And>b. cd_well_formed b \<Longrightarrow> cd_path b = path \<Longrightarrow> cd_path (f b) = path \<and> cd_well_formed (f b)"
  shows "state_ok l (edit_binding p i f r s) \<and> state_extends s (edit_binding p i f r s)"
proof -
  let ?c = "pc_candidates r ! i"
  have r: "policy_record_ok l p r" by (rule state_ok_record[OF assms(1,2)])
  have i: "i < length (pc_candidates r)" "cd_path (ca_binding ?c) = path"
    using find_candidate_cases[of "pc_candidates r" path] r assms(3) by (simp_all add: policy_record_ok_def)
  have "?c \<in> set (pc_candidates r)" using i by simp
  then have "cd_well_formed (ca_binding ?c)" using r unfolding policy_record_ok_def by blast
  with assms(4) i have f: "cd_path (f (ca_binding ?c)) = cd_path (ca_binding ?c)" "cd_well_formed (f (ca_binding ?c))" by auto
  from edit_record_ok[where f = f, OF r i(1) f refl] show ?thesis
    unfolding edit_binding_def Let_def by (intro put_policy_contract[OF assms(1,2)]) auto
qed

lemma edit_declared_contract:
  assumes "state_ok l s" and "om_find (g_policies s) p = Some r"
    and "\<And>b. cd_well_formed b \<Longrightarrow> cd_path b = path \<Longrightarrow> cd_path (f b) = path \<and> cd_well_formed (f b)"
  shows "state_ok l (edit_declared p (find_candidate (pc_candidates r) path) f r s)
    \<and> state_extends s (edit_declared p (find_candidate (pc_candidates r) path) f r s)"
  using assms edit_binding_contract by (auto simp: edit_declared_def split: option.split)

lemma sort_candidates_key: "sort_candidates = sort_key (cd_path \<circ> ca_binding)"
  by (simp add: sort_candidates_def fun_eq_iff sort_by_key[symmetric])

lemma declared_record_ok:
  assumes "policy_record_ok l p r" and "find_candidate (pc_candidates r) (cd_path b) = None" and "cd_well_formed b"
    and "length (pc_candidates r) < unat (lim_max_candidates_per_policy l)"
    and "r' = r\<lparr>pc_candidates := sort_candidates (pc_candidates r @ [\<lparr>ca_binding = b, ca_path_watermark = w\<rparr>])\<rparr>"
  shows "policy_record_ok l p r' \<and> set (candidate_paths r') = insert (cd_path b) (set (candidate_paths r)) \<and> policy_extends r r'"
proof -
  let ?xs = "pc_candidates r @ [\<lparr>ca_binding = b, ca_path_watermark = w\<rparr>]"
  have cs: "candidates_ok (pc_candidates r)" using assms(1) by (simp add: policy_record_ok_def)
  have "cd_path b \<notin> (cd_path \<circ> ca_binding) ` set (pc_candidates r)"
    using find_candidate_cases[OF cs, of "cd_path b"] assms(2) by simp
  then have d: "distinct (map (cd_path \<circ> ca_binding) ?xs)" using cs by (simp add: candidates_ok_def)
  have m: "mset (map (cd_path \<circ> ca_binding) (sort_candidates ?xs)) = mset (map (cd_path \<circ> ca_binding) ?xs)"
    unfolding mset_map sort_candidates_key by simp
  have "candidates_ok (sort_candidates ?xs)"
    unfolding candidates_ok_def using d mset_eq_imp_distinct_iff[OF m] by (simp add: sort_candidates_key)
  then show ?thesis
    using assms(1,3,4) by (auto simp: assms(5) policy_record_ok_def candidate_paths_def policy_extends_def sort_candidates_key)
qed

lemma declare_candidate_contract:
  assumes "state_ok l s" and "om_find (g_policies s) (un_policy n) = Some r" and "cd_well_formed (un_binding n)"
    and "declare_candidate l n r (find_candidate (pc_candidates r) (cd_path (un_binding n))) s = Inr s'"
  shows "state_ok l s' \<and> state_extends s s'"
proof (cases "find_candidate (pc_candidates r) (cd_path (un_binding n))")
  case (Some i)
  then have "s' = edit_binding (un_policy n) i (\<lambda>_. un_binding n) r s"
    using assms(4) by (auto simp: declare_candidate_def Let_def split: if_splits)
  with edit_binding_contract[OF assms(1,2) Some] assms(3) show ?thesis by simp
next
  case None
  let ?r = "r\<lparr>pc_candidates := sort_candidates (pc_candidates r @ [\<lparr>ca_binding = un_binding n, ca_path_watermark = 0\<rparr>])\<rparr>"
  have s': "s' = reindex_policy l (un_policy n) (put_policy (un_policy n) ?r s)"
    and len: "length (pc_candidates r) < unat (lim_max_candidates_per_policy l)"
    using assms(4) None by (auto simp: declare_candidate_def Let_def split: if_splits)
  note rec = declared_record_ok[OF state_ok_record[OF assms(1,2)] None assms(3) len refl, of 0]
  have "state_ok l (put_policy (un_policy n) ?r s) \<and> state_extends s (put_policy (un_policy n) ?r s)"
    using rec by (intro put_policy_contract[OF assms(1,2)]) auto
  then show ?thesis unfolding s'
    by (rule state_chain[OF assms(1)]) (erule reindex_policy_contract)
qed

lemma invalidate_after:
  "state_ok l s \<Longrightarrow> state_ok l t \<and> state_extends s t \<Longrightarrow>
   state_ok l (apply_invalidation path t) \<and> state_extends s (apply_invalidation path t)"
  using apply_invalidation_contract state_extends_trans by blast

lemma apply_event_contract:
  assumes "state_ok l s" and "om_find (g_policies s) (un_policy n) = Some r" and "cd_well_formed (un_binding n)"
    and "apply_event l n r (find_candidate (pc_candidates r) (cd_path (un_binding n))) s = Inr s'"
  shows "state_ok l s' \<and> state_extends s s'"
  using assms(3,4)
  by (cases "un_event n")
    (auto simp: apply_event_def Let_def cd_well_formed_def pa_well_formed_def rb_well_formed_def
      split: option.splits if_splits
      intro!: invalidate_after[OF assms(1)] edit_binding_contract[OF assms(1,2)] edit_declared_contract[OF assms(1,2)]
        apply_invalidation_contract[OF assms(1)]
      dest!: declare_candidate_contract[OF assms(1-3)])

section \<open>The batch\<close>

lemma apply_notification_applied:
  assumes "apply_notification l ctx n s = Inr s'"
  obtains r reg where "om_find (g_policies s) (un_policy n) = Some r" "cd_well_formed (un_binding n)"
    "\<not> policy_lifecycle_terminal (ap_lifecycle (pc_policy r))"
    "check_caller s ctx (Some (pt_route (ps_target (ap_semantics (pc_policy r)))))
       (pt_multipath_set (ps_target (ap_semantics (pc_policy r)))) = Inr reg"
    "rb_route (cd_route (un_binding n)) = pt_route (ps_target (ap_semantics (pc_policy r)))"
    "apply_event l n r (find_candidate (pc_candidates r) (cd_path (un_binding n))) s = Inr s'"
  using assms
  by (auto simp: apply_notification_def Let_def split: if_splits option.splits sum.splits prod.splits)

lemma apply_notification_contract:
  "state_ok l s \<Longrightarrow> apply_notification l ctx n s = Inr s' \<Longrightarrow> state_ok l s' \<and> state_extends s s'"
  by (erule apply_notification_applied) (rule apply_event_contract)

lemma apply_event_refused: "apply_event l n r c s = Inl res \<Longrightarrow> \<not> or_mutated res"
  by (cases "un_event n") (auto simp: apply_event_def declare_candidate_def Let_def split: if_splits option.splits)

lemma apply_notification_refused: "apply_notification l ctx n s = Inl r \<Longrightarrow> \<not> or_mutated r"
  by (auto simp: apply_notification_def Let_def split: if_splits option.splits sum.splits prod.splits dest: apply_event_refused)

lemma apply_notifications_contract:
  "state_ok l s \<Longrightarrow> state_ok l (fst (apply_notifications l ctx ns s)) \<and> state_extends s (fst (apply_notifications l ctx ns s))"
proof (induction ns arbitrary: s)
  case (Cons n ns)
  show ?case
  proof (cases "apply_notification l ctx n s")
    case (Inl r)
    with Cons(2) show ?thesis by simp
  next
    case (Inr t)
    then show ?thesis
      using apply_notification_contract[OF Cons(2) Inr] Cons(1)[of t] state_extends_trans by auto
  qed
qed simp

lemma apply_notifications_refused: "apply_notifications l ctx ns s = (s', Some r) \<Longrightarrow> \<not> or_mutated r"
  by (induction ns arbitrary: s) (auto dest: apply_notification_refused split: sum.splits)

lemma apply_upstream_ends:
  obtains (refused) c where "fst (apply_upstream rq e) = e\<lparr>en_counters := c\<rparr>" "\<not> or_mutated (snd (apply_upstream rq e))"
  | (partial) s r where "apply_notifications (en_limits e) (nr_context rq) (nr_notifications rq) (en_state e) = (s, Some r)"
      "apply_upstream rq e = (e\<lparr>en_state := s\<rparr>, r)" "\<not> or_mutated r"
  | (applied) s where "apply_notifications (en_limits e) (nr_context rq) (nr_notifications rq) (en_state e) = (s, None)"
      "fst (apply_upstream rq e) = e\<lparr>en_state := record_attempt (en_limits e) (mc_attempt (nr_context rq))
         (upstream_fingerprint (nr_notifications rq)) Out_POLICY_UPDATED ''upstream bindings applied'' s\<rparr>"
      "or_mutated (snd (apply_upstream rq e))"
      "or_outcome (snd (apply_upstream rq e)) = Out_POLICY_UPDATED"
      "om_find (g_attempts (en_state e)) (mc_attempt (nr_context rq)) = None"
proof -
  let ?b = "apply_notifications (en_limits e) (nr_context rq) (nr_notifications rq) (en_state e)"
  have id: "e\<lparr>en_counters := en_counters e\<rparr> = e" by simp
  obtain e' res where u: "apply_upstream rq e = (e', res)" by (cases "apply_upstream rq e")
  note def = u[unfolded apply_upstream_def Let_def, simplified]
  show ?thesis
  proof (cases "e' = e \<and> \<not> or_mutated res")
    case True then show ?thesis using id u by (intro refused[of "en_counters e"]) auto
  next
    case F: False
    then show ?thesis
      using def
      apply (cases rule: replay_check_cases[of "mc_attempt (nr_context rq)" "upstream_fingerprint (nr_notifications rq)" e])
      subgoal for c r0
        by (simp split: if_splits) (auto simp: u intro: refused)
      subgoal
        by (simp split: if_splits option.splits prod.splits) (auto simp: u intro: partial applied dest: apply_notifications_refused)
      done
  qed
qed

lemma apply_upstream_contract:
  assumes "engine_ok e"
  shows "engine_ok (fst (apply_upstream rq e)) \<and> engine_extends e (fst (apply_upstream rq e))"
proof (cases rule: apply_upstream_ends[of rq e])
  case (refused c)
  with assms show ?thesis by simp
next
  case (partial s r)
  have "fst (apply_upstream rq e) = e\<lparr>en_state := s\<rparr>" using partial(2) by simp
  then show ?thesis
    using engine_contract_state(1)[OF assms, of s] apply_notifications_contract partial(1) by (metis fst_conv)
next
  case (applied s)
  have "state_ok (en_limits e) (en_state e)" using assms by (simp add: engine_ok_def)
  from apply_notifications_contract[OF this, of "nr_context rq" "nr_notifications rq"]
  have "state_ok (en_limits e) s \<and> state_extends (en_state e) s" by (simp add: applied(1))
  then show ?thesis unfolding applied(2)
    using engine_contract_state(1)[OF assms] record_attempt_contract state_extends_trans by blast
qed

interpretation upstream: engine_operation "\<lambda>e. Some (apply_upstream rq e)" for rq
  by unfold_locales (metis apply_upstream_contract fst_conv option.inject)

end
