(* ===== verification/Publication.thy ===== *)
theory Publication
  imports Upstream
begin

text \<open>
  Evidence publication, retention, aggregation and snapshot capture (\<^verbatim>\<open>src/fabric_evidence.cpp\<close>).
  A batch is validated in full against the stored series and a per-key view of the batch itself,
  and only then applied.  The clock is read once per accepted sample, so it is a function from the
  index of the sample in the batch to the reading.
\<close>

section \<open>Validation\<close>

definition find_requirement :: "policy_semantics \<Rightarrow> metric_kind \<Rightarrow> evidence_requirement option" where
  "find_requirement sem kind = find (\<lambda>r. er_kind r = kind) (ps_evidence sem)"

record batch_key_state =
  bk_source_generation :: u64
  bk_last_sequence :: u64
  bk_quality :: evidence_quality

type_synonym batch_state = "(evidence_key, batch_key_state) omap"

definition publication_key :: "evidence_publication \<Rightarrow> evidence_key" where
  "publication_key p = (ep_source p, ep_path p, mv_kind (ep_value p))"

definition write_publication :: "evidence_publication \<Rightarrow> digest \<Rightarrow> digest" where
  "write_publication p d =
     write_u64 (ep_sequence p) (write_i64 (mv_value (ep_value p)) (write_u8 (metric_kind_raw (mv_kind (ep_value p)))
       (write_string (id_text (ep_path p)) (write_u8 (evidence_quality_raw (ep_quality p))
         (write_u64 (gen_value (ep_source_generation p)) (write_string (id_text (ep_source p)) d))))))"

definition evidence_fingerprint :: "evidence_publication list \<Rightarrow> string" where
  "evidence_fingerprint ps = digest_hex (foldl (\<lambda>d p. write_publication p d) (write_tag ''evidence-batch'' digest_new) ps)"

definition path_authorised :: "state \<Rightarrow> publisher_registration \<Rightarrow> path_id \<Rightarrow> bool" where
  "path_authorised s reg path =
    (case om_find (g_by_path s) path of
       None \<Rightarrow> False
     | Some dependents \<Rightarrow> \<exists>policy \<in> set (oset_elems dependents).
         (case om_find (g_policies s) policy of
            None \<Rightarrow> False
          | Some r \<Rightarrow> as_covers_route (pr_scope reg) (sc_fabric (ap_scope (pc_policy r))) (sc_namespace (ap_scope (pc_policy r)))
              (pt_route (ps_target (ap_semantics (pc_policy r))))))"

definition distinct_sources :: "state \<Rightarrow> batch_state \<Rightarrow> evidence_source_id oset" where
  "distinct_sources s b =
     foldl (\<lambda>acc entry. oset_insert (fst (fst entry)) acc)
       (foldl (\<lambda>acc entry. oset_insert (fst (fst entry)) acc) [] (g_evidence s)) b"

definition check_publication ::
    "limits \<Rightarrow> state \<Rightarrow> publisher_registration \<Rightarrow> batch_state \<Rightarrow> evidence_publication \<Rightarrow> operation_result + batch_state" where
  "check_publication l s reg b p =
    (let refuse = (\<lambda>outcome detail. Inl (make_result outcome detail no_id s)) in
     if \<not> ep_well_formed p then
       refuse Out_MALFORMED_REQUEST (''evidence publication is malformed: source, source generation, path and a ''
         @ ''bounded metric value are required'')
     else if \<not> valid_evidence_quality (evidence_quality_raw (ep_quality p)) then
       refuse Out_MALFORMED_REQUEST ''evidence quality class is unknown''
     else if \<not> path_authorised s reg (ep_path p) then
       refuse Out_UNAUTHORIZED_SCOPE (''no policy in the caller authority scope binds path '' @ id_text (ep_path p))
     else
       (let key = publication_key p;
            in_batch = om_find b key;
            stored = om_find (g_evidence s) key;
            stored_generation = (case stored of None \<Rightarrow> 0 | Some x \<Rightarrow> gen_value (se_source_generation x));
            batch_generation = (case in_batch of None \<Rightarrow> 0 | Some t \<Rightarrow> bk_source_generation t);
            effective = max stored_generation batch_generation;
            generation = gen_value (ep_source_generation p);
            new_incarnation = (effective \<noteq> 0 \<and> generation > effective);
            stored_quality = (if stored \<noteq> None \<and> generation = stored_generation then se_quality (the stored)
              else bk_quality (the in_batch));
            last_sequence = (if new_incarnation then 0
              else case in_batch of
                Some t \<Rightarrow> bk_last_sequence t
              | None \<Rightarrow> (case stored of None \<Rightarrow> 0
                  | Some x \<Rightarrow> if se_samples x = [] then 0 else es_sequence (last (se_samples x)))) in
        if effective \<noteq> 0 \<and> generation < effective then
          refuse Out_STALE_EVIDENCE ''evidence arrives from a superseded source incarnation''
        else if \<not> new_incarnation \<and> effective \<noteq> 0 \<and> stored_quality \<noteq> ep_quality p then
          refuse Out_MALFORMED_REQUEST ''evidence quality class changed without a source generation change''
        else if last_sequence \<noteq> 0 \<and> ep_sequence p \<le> last_sequence then
          refuse Out_STALE_EVIDENCE ''evidence observation sequence is not strictly increasing''
        else if stored = None \<and> in_batch = None \<and> \<not> oset_member (ep_source p) (distinct_sources s b)
            \<and> length (distinct_sources s b) \<ge> unat (lim_max_evidence_sources l) then
          refuse Out_RESOURCE_LIMIT ''evidence source limit reached''
        else Inr (om_put key \<lparr>bk_source_generation = generation, bk_last_sequence = ep_sequence p, bk_quality = ep_quality p\<rparr> b)))"

fun check_batch ::
    "limits \<Rightarrow> state \<Rightarrow> publisher_registration \<Rightarrow> batch_state \<Rightarrow> evidence_publication list \<Rightarrow> operation_result + batch_state" where
  "check_batch l s reg b [] = Inr b"
| "check_batch l s reg b (p # ps) =
    (case check_publication l s reg b p of Inl r \<Rightarrow> Inl r | Inr b' \<Rightarrow> check_batch l s reg b' ps)"

section \<open>Application\<close>

definition fresh_series :: "evidence_publication \<Rightarrow> evidence_series" where
  "fresh_series p = \<lparr>se_source = ep_source p, se_source_generation = ep_source_generation p, se_quality = ep_quality p,
     se_path = ep_path p, se_kind = mv_kind (ep_value p), se_samples = [], se_total_published = 0\<rparr>"

definition push_sample :: "limits \<Rightarrow> evidence_sample \<Rightarrow> evidence_series \<Rightarrow> evidence_series" where
  "push_sample l v x = x\<lparr>se_samples := fifo_trim (unat (lim_max_evidence_samples_per_series l)) (se_samples x @ [v]),
     se_total_published := se_total_published x + 1\<rparr>"

definition apply_publication :: "limits \<Rightarrow> ticks \<Rightarrow> evidence_publication \<Rightarrow> state \<Rightarrow> state" where
  "apply_publication l now p s =
    (let key = publication_key p;
         v = \<lparr>es_path = ep_path p, es_value = ep_value p, es_accepted_at = now, es_sequence = ep_sequence p\<rparr>;
         store = (\<lambda>x s. s\<lparr>g_evidence := om_put key (push_sample l v x) (g_evidence s)\<rparr>) in
     case om_find (g_evidence s) key of
       None \<Rightarrow> store (fresh_series p) s
     | Some x \<Rightarrow>
       if ep_source_generation p > se_source_generation x then
         store (x\<lparr>se_samples := [], se_source_generation := ep_source_generation p, se_quality := ep_quality p\<rparr>)
           (case wm_next (g_evidence_watermark s) of None \<Rightarrow> s | Some w \<Rightarrow> s\<lparr>g_evidence_watermark := w\<rparr>)
       else store x s)"

fun apply_batch :: "limits \<Rightarrow> (nat \<Rightarrow> ticks) \<Rightarrow> evidence_publication list \<Rightarrow> state \<Rightarrow> state" where
  "apply_batch l clock [] s = s"
| "apply_batch l clock (p # ps) s = apply_batch l (clock \<circ> Suc) ps (apply_publication l (clock 0) p s)"

definition link_sources :: "evidence_publication list \<Rightarrow> state \<Rightarrow> state" where
  "link_sources ps s = foldl (\<lambda>s p.
     (case om_find (g_by_path s) (ep_path p) of
        None \<Rightarrow> s
      | Some dependents \<Rightarrow>
          s\<lparr>g_by_source := foldl (\<lambda>ix policy. index_add (ep_source p) policy ix) (g_by_source s) (oset_elems dependents)\<rparr>)) s ps"

definition publish_evidence :: "(nat \<Rightarrow> ticks) \<Rightarrow> publish_evidence_request \<Rightarrow> engine \<Rightarrow> engine \<times> operation_result" where
  "publish_evidence clock rq e =
    (let s = en_state e; l = en_limits e; ctx = er_context rq; ps = er_publications rq;
         refuse = (\<lambda>outcome detail. (e, make_result outcome detail no_id s)) in
     if ps = [] then refuse Out_MALFORMED_REQUEST ''no evidence publication supplied''
     else if length ps > unat (lim_max_batch_size l) then
       refuse Out_RESOURCE_LIMIT ''evidence batch exceeds the configured maximum''
     else case check_caller s ctx None None of
       Inl (outcome, detail) \<Rightarrow> refuse outcome detail
     | Inr reg \<Rightarrow>
     case replay_check (mc_attempt ctx) (evidence_fingerprint ps) e of
       (e1, Some r) \<Rightarrow> (e1, r)
     | (e1, None) \<Rightarrow>
     case check_batch l s reg [] ps of
       Inl r \<Rightarrow> (e1, r)
     | Inr b \<Rightarrow>
       (let s1 = apply_batch l clock ps s in
        case gen_next (g_evidence_generation s1) of
          None \<Rightarrow> (e1\<lparr>en_state := s1\<rparr>, make_result Out_GENERATION_OVERFLOW ''evidence generation is exhausted'' no_id s1)
        | Some g \<Rightarrow>
          (let s2 = link_sources ps (s1\<lparr>g_evidence_generation := g\<rparr>);
               s3 = record_attempt l (mc_attempt ctx) (evidence_fingerprint ps) Out_POLICY_UPDATED ''evidence published'' s2 in
           (e1\<lparr>en_state := s3, en_counters := (en_counters e1)\<lparr>fb_evidence_generation := g\<rparr>\<rparr>,
            (make_result Out_POLICY_UPDATED (''evidence published: '' @ dec (length ps) @ '' sample(s)'') no_id s3)
              \<lparr>or_mutated := True\<rparr>))))"

section \<open>Queries\<close>

definition current_evidence_generation :: "engine \<Rightarrow> evidence_generation" where
  "current_evidence_generation e = g_evidence_generation (en_state e)"

definition current_evidence_watermark :: "engine \<Rightarrow> watermark" where
  "current_evidence_watermark e = g_evidence_watermark (en_state e)"

definition current_upstream_watermark :: "engine \<Rightarrow> watermark" where
  "current_upstream_watermark e = g_upstream_watermark (en_state e)"

record evidence_series_view =
  vw_source :: evidence_source_id
  vw_source_generation :: evidence_source_generation
  vw_quality :: evidence_quality
  vw_path :: path_id
  vw_kind :: metric_kind
  vw_retained :: u32
  vw_total_published :: u64
  vw_oldest_accepted_at :: ticks
  vw_newest_accepted_at :: ticks

definition view_of_series :: "evidence_series \<Rightarrow> evidence_series_view" where
  "view_of_series x = \<lparr>vw_source = se_source x, vw_source_generation = se_source_generation x, vw_quality = se_quality x,
     vw_path = se_path x, vw_kind = se_kind x, vw_retained = of_nat (length (se_samples x)),
     vw_total_published = se_total_published x,
     vw_oldest_accepted_at = (if se_samples x = [] then 0 else es_accepted_at (hd (se_samples x))),
     vw_newest_accepted_at = (if se_samples x = [] then 0 else es_accepted_at (last (se_samples x)))\<rparr>"

definition describe_evidence :: "engine \<Rightarrow> policy_id \<Rightarrow> evidence_series_view list" where
  "describe_evidence e policy =
    (case om_find (g_policies (en_state e)) policy of
       None \<Rightarrow> []
     | Some r \<Rightarrow> concat (map (\<lambda>c. map (\<lambda>entry. view_of_series (snd entry))
         (filter (\<lambda>entry. fst (snd (fst entry)) = cd_path (ca_binding c)) (g_evidence (en_state e)))) (pc_candidates r)))"

section \<open>Aggregation\<close>

definition eligible_series :: "path_id \<Rightarrow> evidence_requirement \<Rightarrow> evidence_key \<times> evidence_series \<Rightarrow> bool" where
  "eligible_series path rq entry = (fst (snd (fst entry)) = path \<and> snd (snd (fst entry)) = er_kind rq
     \<and> \<not> evidence_quality_rank (se_quality (snd entry)) < evidence_quality_rank (er_min_quality rq)
     \<and> se_samples (snd entry) \<noteq> [])"

definition choose_series :: "state \<Rightarrow> path_id \<Rightarrow> evidence_requirement \<Rightarrow> evidence_series option" where
  "choose_series s path rq = foldl (\<lambda>chosen entry.
     if \<not> eligible_series path rq entry then chosen
     else case chosen of
       None \<Rightarrow> Some (snd entry)
     | Some c \<Rightarrow>
         (let rank = evidence_quality_rank (se_quality (snd entry)); best = evidence_quality_rank (se_quality c) in
          if rank > best \<or> (rank = best \<and> fst (fst entry) < se_source c) then Some (snd entry) else chosen))
     None (g_evidence s)"

definition aggregate_of :: "evidence_requirement \<Rightarrow> evidence_series \<Rightarrow> evidence_aggregate option" where
  "aggregate_of rq c =
    (let ordered = sort_by (\<lambda>a b. es_sequence a < es_sequence b) (se_samples c);
         vs = map (mv_value \<circ> es_value) ordered in
     case aggregate_samples (er_aggregation rq) vs (er_ewma_alpha_bps rq) of
       None \<Rightarrow> None
     | Some aggregated \<Rightarrow>
       (case mv_make (er_kind rq) aggregated of
          None \<Rightarrow> None
        | Some v \<Rightarrow> Some \<lparr>ea_value = v, ea_sample_count = of_nat (length vs),
            ea_oldest_observed_at = es_accepted_at (hd ordered), ea_newest_observed_at = es_accepted_at (last ordered),
            ea_aggregation = er_aggregation rq, ea_ewma_alpha_bps = er_ewma_alpha_bps rq\<rparr>))"

definition aggregate_for :: "state \<Rightarrow> path_id \<Rightarrow> evidence_requirement \<Rightarrow> (evidence_aggregate \<times> evidence_series) option" where
  "aggregate_for s path rq =
    (case choose_series s path rq of
       None \<Rightarrow> None
     | Some c \<Rightarrow> (case aggregate_of rq c of None \<Rightarrow> None | Some a \<Rightarrow> Some (a, c)))"

definition metric_for :: "ticks \<Rightarrow> state \<Rightarrow> path_id \<Rightarrow> metric_kind \<Rightarrow> policy_semantics \<Rightarrow> metric_value option" where
  "metric_for now s path kind sem =
    (case find_requirement sem kind of
       None \<Rightarrow> None
     | Some rq \<Rightarrow>
       (case aggregate_for s path rq of
          None \<Rightarrow> None
        | Some (a, c) \<Rightarrow>
          if ea_sample_count a < er_min_samples rq then None
          else if ea_age a now > er_max_age rq then None
          else if ea_window a < er_min_window rq then None
          else Some (ea_value a)))"

section \<open>Snapshot capture\<close>

definition resolve :: "state \<Rightarrow> path_id \<Rightarrow> evidence_requirement \<Rightarrow> resolved_evidence option" where
  "resolve s path rq =
    (case aggregate_for s path rq of
       None \<Rightarrow> None
     | Some (a, c) \<Rightarrow> Some \<lparr>re_path = path, re_kind = er_kind rq, re_quality = se_quality c, re_source = se_source c,
         re_source_generation = se_source_generation c, re_aggregate = a\<rparr>)"

definition add_resolved :: "evidence_snapshot \<Rightarrow> resolved_evidence option \<Rightarrow> evidence_snapshot" where
  "add_resolved b found =
    (case found of
       None \<Rightarrow> b
     | Some v \<Rightarrow>
       (let b1 = builder_add_value v b in
        if id_valid (re_source v) then
          builder_add_binding \<lparr>eb_source = re_source v, eb_source_generation = re_source_generation v,
            eb_path = re_path v, eb_kind = re_kind v\<rparr> b1
        else b1))"

definition capture_evidence_locked :: "ticks \<Rightarrow> state \<Rightarrow> policy_record \<Rightarrow> id_factory \<Rightarrow> (id_factory \<times> evidence_snapshot) option" where
  "capture_evidence_locked now s r ids =
    (case next_evidence_snapshot_id ids of
       None \<Rightarrow> None
     | Some (ids', i) \<Rightarrow> Some (ids', builder_finish (foldl (\<lambda>b c. foldl (\<lambda>b rq. add_resolved b (resolve s (cd_path (ca_binding c)) rq)) b
         (ps_evidence (ap_semantics (pc_policy r)))) (builder_new i (g_evidence_generation s) (g_epoch s) now) (pc_candidates r))))"

definition capture_evidence :: "ticks \<Rightarrow> policy_id \<Rightarrow> engine \<Rightarrow> (engine \<times> evidence_snapshot option) option" where
  "capture_evidence now policy e =
    (case om_find (g_policies (en_state e)) policy of
       None \<Rightarrow> Some (e, None)
     | Some r \<Rightarrow> (case capture_evidence_locked now (en_state e) r (en_ids e) of
         None \<Rightarrow> None
       | Some (ids, snapshot) \<Rightarrow> Some (e\<lparr>en_ids := ids\<rparr>, Some snapshot)))"

end
