(* ===== verification/Evaluation.thy ===== *)
theory Evaluation
  imports Publication
begin

text \<open>
  Phase one of an adaptation (\<^verbatim>\<open>src/fabric_evaluate.cpp\<close>): the inputs an evaluation copies out of the
  state, the eligibility gates and the ranking of candidates, the suppression rules, and the ticket
  that phase two will verify.
\<close>

section \<open>Default values\<close>

definition no_evaluation :: candidate_evaluation where
  "no_evaluation = \<lparr>ce_path = no_id, ce_eligible = False, ce_rejection = Sup_NONE, ce_rejection_outcome = Out_NO_CHANGE,
     ce_quality = ESTIMATED, ce_score = None, ce_metrics = [], ce_priority = 0, ce_current_preference = False,
     ce_previous_preference = False, ce_required_improvement = 0, ce_observed_improvement = None,
     ce_path_authority_generation = no_gen, ce_multipath_generation = no_gen, ce_route_generation = no_gen\<rparr>"

definition no_dependencies :: dependency_snapshot where
  "no_dependencies = \<lparr>ds_evaluation = no_id, ds_policy = no_id, ds_policy_generation = no_gen, ds_evidence_generation = no_gen,
     ds_evidence_watermark = Watermark 0, ds_upstream_watermark = Watermark 0, ds_epoch = no_gen, ds_authority_generation = no_gen,
     ds_route_generation = no_gen, ds_multipath_set = None, ds_multipath_generation = no_gen, ds_candidate_path_authority = [],
     ds_candidate_path_watermarks = [], ds_candidates = [], ds_captured_at = 0\<rparr>"

definition no_ticket :: evaluation_ticket where
  "no_ticket = \<lparr>et_dependencies = no_dependencies, et_lifecycle = DL_PROPOSED, et_decision = no_id, et_evidence_snapshot = no_id,
     et_outcome = Out_NO_CHANGE, et_suppression = Sup_NONE, et_detail = [], et_current_preference = no_id,
     et_target_preference = no_id, et_target_authority_generation = no_gen, et_adaptation_generation = no_gen,
     et_transition_generation = no_gen, et_target_score = None, et_improvement_bps = None, et_required_improvement_bps = 0,
     et_weight_proposal = None, et_rollback = False, et_emergency = False, et_ranking = [], et_evaluated_at = 0\<rparr>"

record metric_lookup =
  lk_ok :: bool
  lk_value :: metric_value
  lk_reason :: suppression_reason
  lk_quality :: evidence_quality
  lk_age :: ticks
  lk_window :: ticks
  lk_samples :: u32

definition no_lookup :: metric_lookup where
  "no_lookup = \<lparr>lk_ok = False, lk_value = default_metric_value, lk_reason = Sup_EVIDENCE_UNKNOWN, lk_quality = ESTIMATED,
     lk_age = 0, lk_window = 0, lk_samples = 0\<rparr>"

record evaluation_inputs =
  vi_policy :: adaptive_policy
  vi_candidates :: "candidate_record list"
  vi_preference :: routing_preference
  vi_stable :: stable_state
  vi_timing :: timing_state
  vi_epoch :: coordinator_epoch
  vi_authority_generation :: adaptive_authority_generation
  vi_evidence_generation :: evidence_generation
  vi_evidence_watermark :: watermark
  vi_upstream_watermark :: watermark
  vi_evidence :: "evidence_snapshot option"
  vi_now :: ticks
  vi_limits :: limits

section \<open>Evidence lookup and metric comparisons\<close>

definition priority_of :: "policy_semantics \<Rightarrow> path_id \<Rightarrow> u32" where
  "priority_of sem path = (case find (\<lambda>p. cp_path p = path) (ps_priorities sem) of None \<Rightarrow> 0 | Some p \<Rightarrow> cp_priority p)"

definition metric_is_better :: "metric_value \<Rightarrow> metric_value \<Rightarrow> bool" where
  "metric_is_better a b = (if md_orientation (describe_metric (mv_kind a)) = LOWER_IS_BETTER
     then mv_value a < mv_value b else mv_value a > mv_value b)"

definition lookup_metric :: "evaluation_inputs \<Rightarrow> path_id \<Rightarrow> evidence_requirement \<Rightarrow> metric_lookup" where
  "lookup_metric inputs path rq =
    (case vi_evidence inputs of
       None \<Rightarrow> no_lookup
     | Some ev \<Rightarrow>
     case snapshot_find ev path (er_kind rq) of
       None \<Rightarrow> no_lookup
     | Some r \<Rightarrow>
       if \<not> ea_valid (re_aggregate r) then no_lookup
       else
         (let a = re_aggregate r;
              lk = no_lookup\<lparr>lk_quality := re_quality r, lk_age := ea_age a (vi_now inputs), lk_window := ea_window a,
                             lk_samples := ea_sample_count a\<rparr> in
          if evidence_quality_rank (re_quality r) < evidence_quality_rank (er_min_quality rq) then
            lk\<lparr>lk_reason := Sup_EVIDENCE_UNKNOWN\<rparr>
          else if ea_sample_count a < er_min_samples rq then lk\<lparr>lk_reason := Sup_INSUFFICIENT_SAMPLES\<rparr>
          else if lk_age lk > er_max_age rq then lk\<lparr>lk_reason := Sup_STALE_EVIDENCE\<rparr>
          else if lk_window lk < er_min_window rq then lk\<lparr>lk_reason := Sup_INSUFFICIENT_SAMPLES\<rparr>
          else lk\<lparr>lk_ok := True, lk_value := ea_value a\<rparr>))"

definition threshold_permits_departure :: "metric_value \<Rightarrow> metric_value \<Rightarrow> bool" where
  "threshold_permits_departure current switch_value =
    (if md_orientation (describe_metric (mv_kind current)) = LOWER_IS_BETTER
     then mv_value current \<ge> mv_value switch_value else mv_value current \<le> mv_value switch_value)"

definition threshold_permits_entry :: "metric_value \<Rightarrow> metric_value \<Rightarrow> bool" where
  "threshold_permits_entry candidate clear_value =
    (if md_orientation (describe_metric (mv_kind candidate)) = LOWER_IS_BETTER
     then mv_value candidate \<le> mv_value clear_value else mv_value candidate \<ge> mv_value clear_value)"

section \<open>Ranking\<close>

text \<open>The comparison of the objective terms; \<open>None\<close> when no term decides.\<close>

fun lexicographic :: "nat \<Rightarrow> metric_value list \<Rightarrow> metric_value list \<Rightarrow> bool option" where
  "lexicographic (Suc n) (x # xs) (y # ys) =
    (if \<not> mv_valid x \<or> \<not> mv_valid y then None
     else if mv_value x \<noteq> mv_value y then Some (metric_is_better x y)
     else lexicographic n xs ys)"
| "lexicographic _ _ _ = None"

definition score_or_zero :: "candidate_evaluation \<Rightarrow> u64" where
  "score_or_zero c = (case ce_score c of None \<Rightarrow> 0 | Some v \<Rightarrow> v)"

definition ranks_ahead :: "policy_semantics \<Rightarrow> candidate_evaluation \<Rightarrow> candidate_evaluation \<Rightarrow> bool" where
  "ranks_ahead sem a b =
    (if ce_eligible a \<noteq> ce_eligible b then ce_eligible a
     else if ce_priority a \<noteq> ce_priority b then ce_priority a > ce_priority b
     else if evidence_quality_rank (ce_quality a) \<noteq> evidence_quality_rank (ce_quality b) then
       evidence_quality_rank (ce_quality a) > evidence_quality_rank (ce_quality b)
     else if os_mode (ps_objective sem) = WEIGHTED_SCORE then
       (if score_or_zero a \<noteq> score_or_zero b then score_or_zero a > score_or_zero b else ce_path a < ce_path b)
     else (case lexicographic (length (os_terms (ps_objective sem))) (ce_metrics a) (ce_metrics b) of
       Some better \<Rightarrow> better | None \<Rightarrow> ce_path a < ce_path b))"

section \<open>Eligibility of one candidate\<close>

definition reject :: "suppression_reason \<Rightarrow> outcome \<Rightarrow> candidate_evaluation \<Rightarrow> candidate_evaluation" where
  "reject reason outcome c = c\<lparr>ce_eligible := False, ce_rejection := reason, ce_rejection_outcome := outcome\<rparr>"

definition blank_evaluation :: "evaluation_inputs \<Rightarrow> candidate_record \<Rightarrow> candidate_evaluation" where
  "blank_evaluation inputs c =
    (let b = ca_binding c; pref = vi_preference inputs in
     no_evaluation\<lparr>ce_path := cd_path b, ce_path_authority_generation := pa_generation (cd_path_authority b),
       ce_route_generation := rb_generation (cd_route b),
       ce_multipath_generation := (case cd_multipath b of None \<Rightarrow> no_gen | Some m \<Rightarrow> mb_generation m),
       ce_priority := priority_of (ap_semantics (vi_policy inputs)) (cd_path b),
       ce_current_preference := (rp_established pref \<and> rp_preferred_path pref = cd_path b),
       ce_previous_preference := (id_valid (rp_previous_path pref) \<and> rp_previous_path pref = cd_path b),
       ce_eligible := True, ce_rejection := Sup_NONE, ce_rejection_outcome := Out_NO_CHANGE, ce_quality := PRIMARY\<rparr>)"

definition in_target_set :: "policy_semantics \<Rightarrow> candidate_binding \<Rightarrow> bool" where
  "in_target_set sem b =
    (case pt_multipath_set (ps_target sem) of
       None \<Rightarrow> True
     | Some wanted \<Rightarrow> (case cd_multipath b of None \<Rightarrow> False
         | Some m \<Rightarrow> mb_current m \<and> mb_set m = wanted \<and> mb_contains m (cd_path b)))"

definition binding_gate :: "policy_semantics \<Rightarrow> candidate_binding \<Rightarrow> candidate_evaluation \<Rightarrow> candidate_evaluation" where
  "binding_gate sem b c =
    (if \<not> pa_legal (cd_path_authority b) then reject Sup_UPSTREAM_DEPENDENCY_STALE Out_STALE_PATH_AUTHORITY c
     else if \<not> rb_current (cd_route b) then reject Sup_UPSTREAM_DEPENDENCY_STALE Out_STALE_ROUTE c
     else if \<not> cd_available b then reject Sup_UPSTREAM_DEPENDENCY_STALE Out_WITHDRAWN_UPSTREAM c
     else if \<not> in_target_set sem b then reject Sup_UPSTREAM_DEPENDENCY_STALE Out_STALE_MULTIPATH_SET c
     else c)"

definition evidence_step :: "evaluation_inputs \<Rightarrow> path_id \<Rightarrow> candidate_evaluation \<times> nat \<Rightarrow> evidence_requirement \<Rightarrow> candidate_evaluation \<times> nat" where
  "evidence_step inputs path acc rq =
    (let (c, weakest) = acc; lk = lookup_metric inputs path rq in
     if \<not> lk_ok lk then
       (if er_required rq then reject (lk_reason lk) (suppression_outcome (lk_reason lk)) c else c, weakest)
     else (c, min weakest (evidence_quality_rank (lk_quality lk))))"

definition quality_of_rank :: "nat \<Rightarrow> evidence_quality" where
  "quality_of_rank w = (if w \<ge> 4 then PRIMARY else if w = 3 then AGGREGATED else if w = 2 then OPERATOR else ESTIMATED)"

definition evidence_gate :: "evaluation_inputs \<Rightarrow> path_id \<Rightarrow> candidate_evaluation \<Rightarrow> candidate_evaluation" where
  "evidence_gate inputs path c =
    (if \<not> ce_eligible c then c
     else (let (c', weakest) = foldl (evidence_step inputs path) (c, 4) (ps_evidence (ap_semantics (vi_policy inputs))) in
       if ce_eligible c' then c'\<lparr>ce_quality := quality_of_rank weakest\<rparr> else c'))"

fun objective_metrics :: "evaluation_inputs \<Rightarrow> path_id \<Rightarrow> score_term list \<Rightarrow> suppression_reason + metric_value list" where
  "objective_metrics inputs path [] = Inr []"
| "objective_metrics inputs path (t # ts) =
    (case find_requirement (ap_semantics (vi_policy inputs)) (st_kind t) of
       None \<Rightarrow> Inl Sup_NO_TRIGGER_DECLARED
     | Some rq \<Rightarrow>
       (let lk = lookup_metric inputs path rq in
        if \<not> lk_ok lk then Inl (lk_reason lk)
        else (case objective_metrics inputs path ts of Inl r \<Rightarrow> Inl r | Inr vs \<Rightarrow> Inr (lk_value lk # vs))))"

definition objective_gate :: "evaluation_inputs \<Rightarrow> path_id \<Rightarrow> candidate_evaluation \<Rightarrow> candidate_evaluation" where
  "objective_gate inputs path c =
    (if \<not> ce_eligible c then c
     else
       (let objective = ps_objective (ap_semantics (vi_policy inputs)) in
        case objective_metrics inputs path (os_terms objective) of
          Inl missing \<Rightarrow> reject missing (suppression_outcome missing) c
        | Inr metrics \<Rightarrow>
          (let c1 = c\<lparr>ce_metrics := metrics\<rparr> in
           if os_mode objective = WEIGHTED_SCORE then
             (case weighted_score (os_terms objective) metrics of
                None \<Rightarrow> reject Sup_EVIDENCE_UNKNOWN Out_INCOMPATIBLE_METRIC c1
              | Some score \<Rightarrow> c1\<lparr>ce_score := Some score\<rparr>)
           else c1)))"

definition evaluate_candidate :: "evaluation_inputs \<Rightarrow> candidate_record \<Rightarrow> candidate_evaluation" where
  "evaluate_candidate inputs c =
    (let path = cd_path (ca_binding c) in
     objective_gate inputs path (evidence_gate inputs path
       (binding_gate (ap_semantics (vi_policy inputs)) (ca_binding c) (blank_evaluation inputs c))))"

definition rank_candidates :: "evaluation_inputs \<Rightarrow> candidate_evaluation list" where
  "rank_candidates inputs =
     sort_by (ranks_ahead (ap_semantics (vi_policy inputs))) (map (evaluate_candidate inputs) (vi_candidates inputs))"

section \<open>Suppression rules\<close>

definition suppress :: "suppression_reason \<Rightarrow> outcome \<Rightarrow> string \<Rightarrow> evaluation_ticket \<Rightarrow> evaluation_ticket" where
  "suppress reason outcome detail t =
     t\<lparr>et_lifecycle := DL_SUPPRESSED, et_suppression := reason, et_outcome := outcome, et_detail := detail\<rparr>"

definition current_binding :: "evaluation_inputs \<Rightarrow> candidate_record option" where
  "current_binding inputs = (if rp_established (vi_preference inputs)
     then find (\<lambda>c. cd_path (ca_binding c) = rp_preferred_path (vi_preference inputs)) (vi_candidates inputs) else None)"

text \<open>The last condition that holds names the reason.\<close>

definition emergency_condition :: "evaluation_inputs \<Rightarrow> bool \<times> string" where
  "emergency_condition inputs =
    (let rule = ps_emergency (ap_semantics (vi_policy inputs)); current = current_binding inputs in
     if \<not> (em_enabled rule \<and> rp_established (vi_preference inputs)) then (False, [])
     else
       (let step = (\<lambda>hit reason acc. if hit then (True, reason) else acc) in
        step (em_on_hard_failure rule \<and> (case current of None \<Rightarrow> False | Some c \<Rightarrow> cd_hard_failure (ca_binding c)))
          ''hard failure signal on the current preferred path''
          (step (em_on_unavailable rule \<and> (case current of None \<Rightarrow> True | Some c \<Rightarrow> \<not> cd_available (ca_binding c)))
            ''current preferred path is unavailable''
            (step (em_on_unauthorized rule \<and> (case current of None \<Rightarrow> True | Some c \<Rightarrow> \<not> pa_legal (cd_path_authority (ca_binding c))))
              ''current preferred path is not authorized'' (False, [])))))"

fun establish_rules :: "evaluation_inputs \<Rightarrow> path_id \<Rightarrow> threshold_rule list \<Rightarrow> evaluation_ticket \<Rightarrow> evaluation_ticket + evaluation_ticket" where
  "establish_rules inputs best [] t = Inr t"
| "establish_rules inputs best (rule # rules) t =
    (case find_requirement (ap_semantics (vi_policy inputs)) (tr_kind rule) of
       None \<Rightarrow> Inl (suppress Sup_NO_TRIGGER_DECLARED Out_NO_CHANGE ''threshold rule has no declared evidence requirement'' t)
     | Some rq \<Rightarrow>
       (let lk = lookup_metric inputs best rq in
        if \<not> lk_ok lk \<or> \<not> threshold_permits_entry (lk_value lk) (tr_clear_value rule) then
          (let reason = (if lk_ok lk then Sup_HYSTERESIS_NOT_CLEARED else lk_reason lk) in
           Inl (suppress reason (suppression_outcome reason)
             (''best candidate does not clear the declared entry threshold for '' @ metric_kind_to_string (tr_kind rule)) t))
        else establish_rules inputs best rules t))"

definition with_target :: "candidate_evaluation \<Rightarrow> evaluation_ticket \<Rightarrow> evaluation_ticket" where
  "with_target best t = t\<lparr>et_target_preference := ce_path best,
     et_target_authority_generation := ce_path_authority_generation best, et_target_score := ce_score best\<rparr>"

definition establish :: "evaluation_inputs \<Rightarrow> candidate_evaluation \<Rightarrow> evaluation_ticket \<Rightarrow> evaluation_ticket" where
  "establish inputs best t =
    (case establish_rules inputs (ce_path best) (ps_thresholds (ap_semantics (vi_policy inputs))) t of
       Inl refused \<Rightarrow> refused
     | Inr t' \<Rightarrow> (with_target best (t'\<lparr>et_lifecycle := DL_ELIGIBLE\<rparr>))
         \<lparr>et_detail := ''initial routing preference established from policy and current evidence''\<rparr>)"

text \<open>The incumbent's own rejection is reported when it is an evidence problem.\<close>

definition report_ineligible :: "evaluation_inputs \<Rightarrow> evaluation_ticket \<Rightarrow> evaluation_ticket" where
  "report_ineligible inputs t =
    (let t1 = suppress Sup_CURRENT_PREFERENCE_INELIGIBLE Out_REVALIDATION_REQUIRED
        (if current_binding inputs = None then ''the current preferred path is no longer part of the candidate set''
         else ''the current preferred path is no longer eligible'') t in
     case find (\<lambda>r. ce_path r = rp_preferred_path (vi_preference inputs)) (et_ranking t1) of
       None \<Rightarrow> t1
     | Some r \<Rightarrow>
       if ce_rejection r = Sup_STALE_EVIDENCE then
         t1\<lparr>et_suppression := Sup_STALE_EVIDENCE, et_outcome := Out_STALE_EVIDENCE,
            et_detail := ''the current preferred path has no current evidence''\<rparr>
       else if ce_rejection r = Sup_INSUFFICIENT_SAMPLES \<or> ce_rejection r = Sup_EVIDENCE_UNKNOWN then
         t1\<lparr>et_suppression := ce_rejection r, et_outcome := Out_INSUFFICIENT_EVIDENCE,
            et_detail := ''the current preferred path has insufficient evidence''\<rparr>
       else t1)"

definition current_eligible :: "evaluation_inputs \<Rightarrow> candidate_evaluation list \<Rightarrow> bool" where
  "current_eligible inputs ranked = (current_binding inputs \<noteq> None \<and>
     (case find (\<lambda>r. ce_path r = rp_preferred_path (vi_preference inputs)) ranked of None \<Rightarrow> True | Some r \<Rightarrow> ce_eligible r))"

text \<open>The product and the sum wrap at 64 bits as they do in the code.\<close>

definition escalated_hold_down :: "policy_semantics \<Rightarrow> u32 \<Rightarrow> ticks" where
  "escalated_hold_down sem penalty = min (ps_hold_down sem + ucast penalty * dr_hold_down_escalation_step (ps_dampening sem))
     (dr_max_effective_hold_down (ps_dampening sem))"

definition effective_hold_down :: "policy_semantics \<Rightarrow> timing_state \<Rightarrow> ticks \<times> bool" where
  "effective_hold_down sem ti =
    (if dr_enabled (ps_dampening sem) \<and> ti_dampening_penalty ti \<noteq> 0
        \<and> escalated_hold_down sem (ti_dampening_penalty ti) > ps_hold_down sem
     then (escalated_hold_down sem (ti_dampening_penalty ti), True) else (ps_hold_down sem, False))"

definition recent_commits :: "policy_semantics \<Rightarrow> ticks \<Rightarrow> timing_state \<Rightarrow> u32" where
  "recent_commits sem now ti =
     of_nat (length (filter (\<lambda>stamp. now \<ge> stamp \<and> now - stamp \<le> cb_window (ps_churn sem)) (ti_churn_commits ti)))"

definition hold_down_rule :: "evaluation_inputs \<Rightarrow> path_id \<Rightarrow> bool \<Rightarrow> evaluation_ticket \<Rightarrow> evaluation_ticket + evaluation_ticket" where
  "hold_down_rule inputs best reverse t =
    (let ti = vi_timing inputs; now = vi_now inputs; (effective, extended) = effective_hold_down (ap_semantics (vi_policy inputs)) ti;
         left = (if now \<ge> ti_hold_down_deadline ti then 0 else ti_hold_down_deadline ti - now);
         base_remaining = (if ti_hold_down_deadline ti > now then ti_hold_down_deadline ti - now else 0) in
     if ti_hold_down_active ti \<and> effective \<noteq> 0 \<and> reverse \<and> left \<noteq> 0 then
       Inl (suppress (if extended \<and> base_remaining = 0 then Sup_DAMPENING_EXTENDED_HOLD_DOWN else Sup_HOLD_DOWN_ACTIVE)
         Out_HOLD_DOWN_ACTIVE (''hold-down suppresses the reverse adaptation to '' @ id_text best) t)
     else Inr t)"

definition cooldown_rule :: "evaluation_inputs \<Rightarrow> evaluation_ticket \<Rightarrow> evaluation_ticket + evaluation_ticket" where
  "cooldown_rule inputs t =
    (if ti_cooldown_active (vi_timing inputs) \<and> vi_now inputs < ti_cooldown_deadline (vi_timing inputs) then
       Inl (suppress Sup_COOLDOWN_ACTIVE Out_COOLDOWN_ACTIVE ''cooldown suppresses the adaptation'' t)
     else Inr t)"

definition threshold_check :: "evaluation_inputs \<Rightarrow> path_id \<Rightarrow> threshold_rule \<Rightarrow> evaluation_ticket \<Rightarrow> evaluation_ticket + evaluation_ticket" where
  "threshold_check inputs best rule t =
    (let name = metric_kind_to_string (tr_kind rule) in
     case (find_requirement (ap_semantics (vi_policy inputs)) (tr_kind rule), current_binding inputs) of
       (Some rq, Some current_record) \<Rightarrow>
         (let current = lookup_metric inputs (cd_path (ca_binding current_record)) rq; candidate = lookup_metric inputs best rq in
          if \<not> lk_ok current \<or> \<not> lk_ok candidate then
            (let reason = (if lk_ok current then lk_reason candidate else lk_reason current) in
             Inl (suppress reason (suppression_outcome reason) (''threshold rule lacks current evidence for '' @ name) t))
          else if \<not> threshold_permits_departure (lk_value current) (tr_switch_value rule) then
            Inl (suppress Sup_BELOW_THRESHOLD Out_NO_CHANGE (''current preference has not crossed the switch threshold for '' @ name) t)
          else if \<not> threshold_permits_entry (lk_value candidate) (tr_clear_value rule) then
            Inl (suppress Sup_HYSTERESIS_NOT_CLEARED Out_HYSTERESIS_NOT_CLEARED
              (''candidate has not cleared the hysteresis band for '' @ name) t)
          else Inr t)
     | _ \<Rightarrow> Inl (suppress Sup_HYSTERESIS_NOT_CLEARED Out_HYSTERESIS_NOT_CLEARED (''threshold rule cannot be evaluated for '' @ name) t))"

definition improvement_check ::
    "evaluation_inputs \<Rightarrow> path_id \<Rightarrow> bool \<Rightarrow> improvement_rule \<Rightarrow> evaluation_ticket \<Rightarrow> evaluation_ticket + evaluation_ticket" where
  "improvement_check inputs best reverse rule t =
    (let name = metric_kind_to_string (ir_kind rule) in
     case (find_requirement (ap_semantics (vi_policy inputs)) (ir_kind rule), current_binding inputs) of
       (Some rq, Some current_record) \<Rightarrow>
         (let current = lookup_metric inputs (cd_path (ca_binding current_record)) rq; candidate = lookup_metric inputs best rq in
          if \<not> lk_ok current \<or> \<not> lk_ok candidate then
            (let reason = (if lk_ok current then lk_reason candidate else lk_reason current) in
             Inl (suppress reason (suppression_outcome reason) (''improvement rule lacks current evidence for '' @ name) t))
          else case relative_improvement_bps (lk_value current) (lk_value candidate) of
            None \<Rightarrow> Inl (suppress Sup_BELOW_THRESHOLD Out_INCOMPATIBLE_METRIC (''improvement comparison is not defined for '' @ name) t)
          | Some improvement \<Rightarrow>
            (let required = (if reverse then ir_reverse_bps rule else ir_switch_bps rule);
                 t1 = t\<lparr>et_improvement_bps := Some improvement, et_required_improvement_bps := required\<rparr> in
             if improvement < required then
               (let reason = (if reverse then Sup_HYSTERESIS_NOT_CLEARED else Sup_BELOW_THRESHOLD) in
                Inl (suppress reason (suppression_outcome reason)
                  (''observed improvement '' @ u32_text improvement @ '' bps is below the required '' @ u32_text required @ '' bps''
                   @ (if reverse then '' for a reverse adaptation'' else [])) t1))
             else Inr t1))
     | _ \<Rightarrow> Inl (suppress Sup_BELOW_THRESHOLD Out_NO_CHANGE (''improvement rule cannot be evaluated for '' @ name) t))"

text \<open>Checks in sequence: the first refusal ends the evaluation.\<close>

fun check_all :: "('r \<Rightarrow> 't \<Rightarrow> 't + 't) \<Rightarrow> 'r list \<Rightarrow> 't \<Rightarrow> 't + 't" where
  "check_all check [] t = Inr t"
| "check_all check (r # rs) t = (case check r t of Inl refused \<Rightarrow> Inl refused | Inr t' \<Rightarrow> check_all check rs t')"

definition churn_rule :: "evaluation_inputs \<Rightarrow> evaluation_ticket \<Rightarrow> evaluation_ticket + evaluation_ticket" where
  "churn_rule inputs t =
    (let sem = ap_semantics (vi_policy inputs); recent = recent_commits sem (vi_now inputs) (vi_timing inputs) in
     if cb_enabled (ps_churn sem) \<and> recent \<ge> cb_max_adaptations (ps_churn sem) then
       Inl (suppress Sup_CHURN_LIMIT_REACHED Out_CHURN_LIMIT_REACHED
         (''churn bound reached: '' @ u32_text recent @ '' adaptation(s) inside the declared window'') t)
     else Inr t)"

definition ordinary_checks :: "evaluation_inputs \<Rightarrow> path_id \<Rightarrow> bool \<Rightarrow> evaluation_ticket \<Rightarrow> evaluation_ticket + evaluation_ticket" where
  "ordinary_checks inputs best reverse t =
    (let sem = ap_semantics (vi_policy inputs) in
     case hold_down_rule inputs best reverse t of Inl r \<Rightarrow> Inl r | Inr t1 \<Rightarrow>
     case cooldown_rule inputs t1 of Inl r \<Rightarrow> Inl r | Inr t2 \<Rightarrow>
     case check_all (threshold_check inputs best) (ps_thresholds sem) t2 of Inl r \<Rightarrow> Inl r | Inr t3 \<Rightarrow>
     case check_all (improvement_check inputs best reverse) (ps_improvements sem) t3 of Inl r \<Rightarrow> Inl r | Inr t4 \<Rightarrow>
     churn_rule inputs t4)"

section \<open>The ticket\<close>

definition propose_weights :: "evaluation_inputs \<Rightarrow> path_id \<Rightarrow> evaluation_ticket \<Rightarrow> evaluation_ticket" where
  "propose_weights inputs best t =
    (if pt_multipath_set (ps_target (ap_semantics (vi_policy inputs))) = None then t
     else case find (\<lambda>c. cd_path (ca_binding c) = best \<and> cd_weighted (ca_binding c) \<noteq> None) (vi_candidates inputs) of
       None \<Rightarrow> t
     | Some c \<Rightarrow>
       (let w = the (cd_weighted (ca_binding c));
            proposal = \<lparr>wp_set = wb_set w, wp_base_generation = wb_generation w,
              wp_weights = map (\<lambda>m. \<lparr>pw_path = cd_path (ca_binding m),
                pw_weight_bps = (if cd_path (ca_binding m) = best then basis_points_scale else 0)\<rparr>) (vi_candidates inputs)\<rparr> in
        if wp_well_formed proposal then t\<lparr>et_weight_proposal := Some proposal\<rparr> else t))"

definition base_ticket :: "evaluation_inputs \<Rightarrow> dependency_snapshot \<Rightarrow> evaluation_ticket" where
  "base_ticket inputs deps =
    (let pref = vi_preference inputs in
     no_ticket\<lparr>et_dependencies := deps, et_decision := no_id, et_evaluated_at := vi_now inputs,
       et_current_preference := (if rp_established pref then rp_preferred_path pref else no_id),
       et_adaptation_generation := rp_adaptation_generation pref, et_transition_generation := rp_transition_generation pref,
       et_evidence_snapshot := (case vi_evidence inputs of None \<Rightarrow> no_id | Some ev \<Rightarrow> ev_id ev),
       et_ranking := rank_candidates inputs, et_required_improvement_bps := 0\<rparr>)"

definition reverse_move :: "routing_preference \<Rightarrow> path_id \<Rightarrow> bool" where
  "reverse_move pref target = (id_valid (rp_previous_path pref) \<and> rp_previous_path pref = target)"

definition evaluate_inputs :: "evaluation_inputs \<Rightarrow> dependency_snapshot \<Rightarrow> evaluation_ticket" where
  "evaluate_inputs inputs deps =
    (let t1 = base_ticket inputs deps; ranked = et_ranking t1; pref = vi_preference inputs in
     case find ce_eligible ranked of
       None \<Rightarrow> suppress Sup_NO_ELIGIBLE_ALTERNATIVE Out_NO_ELIGIBLE_CANDIDATE
         (''no candidate satisfies path authority, multipath membership, scope and '' @ ''evidence requirements'') t1
     | Some best \<Rightarrow>
       (let (emergency, emergency_reason) = emergency_condition inputs; t2 = t1\<lparr>et_emergency := emergency\<rparr> in
        if \<not> rp_established pref then establish inputs best t2
        else if ce_path best = rp_preferred_path pref then
          (with_target best (t2\<lparr>et_lifecycle := DL_SUPPRESSED, et_suppression := Sup_MERIT_NOT_ESTABLISHED, et_outcome := Out_NO_CHANGE\<rparr>))
            \<lparr>et_detail := ''the current preference is already the best eligible candidate''\<rparr>
        else
          (let t3 = with_target best t2; eligible = current_eligible inputs ranked;
               t4 = (if eligible then t3 else report_ineligible inputs t3) in
           if \<not> eligible \<and> \<not> emergency then t4
           else case (if emergency then Inr t4
                      else ordinary_checks inputs (ce_path best) (reverse_move pref (ce_path best)) t4) of
             Inl refused \<Rightarrow> refused
           | Inr t5 \<Rightarrow> (propose_weights inputs (ce_path best) t5)\<lparr>et_lifecycle := DL_ELIGIBLE,
               et_detail := (if emergency then ''emergency override: '' @ emergency_reason
                             else ''trigger satisfied for '' @ id_text (ce_path best))\<rparr>)))"

section \<open>Phase one\<close>

definition build_dependencies :: "ticks \<Rightarrow> state \<Rightarrow> policy_record \<Rightarrow> evaluation_id \<Rightarrow> dependency_snapshot" where
  "build_dependencies now s r evaluation =
    (let cs = map ca_binding (pc_candidates r);
         front_route = (case cs of [] \<Rightarrow> no_gen | b # _ \<Rightarrow> rb_generation (cd_route b)) in
     \<lparr>ds_evaluation = evaluation, ds_policy = ap_id (pc_policy r), ds_policy_generation = ap_generation (pc_policy r),
      ds_evidence_generation = g_evidence_generation s, ds_evidence_watermark = g_evidence_watermark s,
      ds_upstream_watermark = g_upstream_watermark s, ds_epoch = g_epoch s,
      ds_authority_generation = g_authority_generation s,
      ds_route_generation = foldl (\<lambda>g b. if gen_valid (rb_generation (cd_route b)) then rb_generation (cd_route b) else g) front_route cs,
      ds_multipath_set = pt_multipath_set (ps_target (ap_semantics (pc_policy r))),
      ds_multipath_generation = (case cs of [] \<Rightarrow> no_gen | b # _ \<Rightarrow>
        (case cd_multipath b of None \<Rightarrow> no_gen | Some m \<Rightarrow> mb_generation m)),
      ds_candidate_path_authority = map cd_path_authority cs,
      ds_candidate_path_watermarks = map ca_path_watermark (pc_candidates r), ds_candidates = map cd_path cs,
      ds_captured_at = now\<rparr>)"

text \<open>The clock is read when the evidence is captured and once more for the evaluation.\<close>

definition copy_inputs :: "(nat \<Rightarrow> ticks) \<Rightarrow> limits \<Rightarrow> state \<Rightarrow> policy_record \<Rightarrow> id_factory \<Rightarrow> (id_factory \<times> evaluation_inputs) option" where
  "copy_inputs clock l s r ids =
    (case capture_evidence_locked (clock 0) s r ids of
       None \<Rightarrow> None
     | Some (ids', ev) \<Rightarrow> Some (ids',
        \<lparr>vi_policy = pc_policy r, vi_candidates = pc_candidates r, vi_preference = pc_preference r, vi_stable = pc_stable r,
         vi_timing = pc_timing r, vi_epoch = g_epoch s, vi_authority_generation = g_authority_generation s,
         vi_evidence_generation = g_evidence_generation s, vi_evidence_watermark = g_evidence_watermark s,
         vi_upstream_watermark = g_upstream_watermark s, vi_evidence = Some ev, vi_now = clock 1, vi_limits = l\<rparr>))"

definition refused_ticket :: "outcome \<Rightarrow> string \<Rightarrow> evaluation_ticket" where
  "refused_ticket outcome detail = no_ticket\<lparr>et_lifecycle := DL_REJECTED, et_outcome := outcome, et_detail := detail\<rparr>"

text \<open>
  The result is the engine with its new identifiers and the ticket; \<open>None\<close> when an identifier cannot
  be minted.
\<close>

definition begin_evaluation :: "(nat \<Rightarrow> ticks) \<Rightarrow> evaluate_request \<Rightarrow> engine \<Rightarrow> (engine \<times> evaluation_ticket) option" where
  "begin_evaluation clock rq e =
    (let s = en_state e; ctx = vr_context rq; refuse = (\<lambda>outcome detail. Some (e, refused_ticket outcome detail)) in
     if \<not> id_valid (vr_policy rq) then refuse Out_MALFORMED_REQUEST ''policy id is required''
     else if en_outstanding e \<ge> lim_max_simultaneous_evaluations (en_limits e) then
       refuse Out_EVALUATION_LIMIT ''simultaneous evaluation limit reached''
     else case om_find (g_policies s) (vr_policy rq) of
       None \<Rightarrow> refuse Out_NOT_FOUND ''policy does not exist''
     | Some r \<Rightarrow>
     (let policy = pc_policy r; target = ps_target (ap_semantics policy) in
     case check_caller s ctx (Some (pt_route target)) (pt_multipath_set target) of
       Inl (outcome, detail) \<Rightarrow> refuse outcome detail
     | Inr reg \<Rightarrow>
       if ap_lifecycle policy \<noteq> PL_ACTIVE then
         refuse (lifecycle_outcome (ap_lifecycle policy)) (''policy lifecycle is '' @ policy_lifecycle_to_string (ap_lifecycle policy))
       else if mc_expected_policy_generation ctx \<noteq> None \<and> the (mc_expected_policy_generation ctx) \<noteq> ap_generation policy then
         refuse Out_STALE_POLICY_GENERATION ''expected policy generation does not match''
       else if mc_expected_evidence_generation ctx \<noteq> None \<and> the (mc_expected_evidence_generation ctx) \<noteq> g_evidence_generation s then
         refuse Out_STALE_EVIDENCE ''expected evidence generation does not match''
       else case next_evaluation_id (en_ids e) of
         None \<Rightarrow> None
       | Some (ids1, evaluation) \<Rightarrow>
       case copy_inputs (clock \<circ> Suc) (en_limits e) s r ids1 of
         None \<Rightarrow> None
       | Some (ids2, inputs) \<Rightarrow>
       case next_decision_id ids2 of
         None \<Rightarrow> None
       | Some (ids3, decision) \<Rightarrow>
         Some (e\<lparr>en_ids := ids3, en_outstanding := en_outstanding e + 1\<rparr>,
           (evaluate_inputs inputs (build_dependencies (clock 0) s r evaluation))\<lparr>et_decision := decision\<rparr>)))"

end
