(* ===== verification/Commit.thy ===== *)
theory Commit
  imports Evaluation
begin

text \<open>
  Phase two (\<^verbatim>\<open>src/fabric_evaluate.cpp\<close>): a ticket is verified against the state as it is now and
  committed atomically, or recorded as suppressed, or refused with the dependency that moved.
  Rollback restores the last known stable preference; revalidation is a lifecycle event.
\<close>

section \<open>Dependency drift\<close>

definition authority_moved :: "dependency_snapshot \<Rightarrow> nat \<Rightarrow> candidate_binding \<Rightarrow> bool" where
  "authority_moved d i b = (i < length (ds_candidate_path_authority d) \<and>
     (let recorded = ds_candidate_path_authority d ! i in
      pa_generation recorded \<noteq> pa_generation (cd_path_authority b) \<or> pa_legal recorded \<noteq> pa_legal (cd_path_authority b)))"

definition drift_at :: "dependency_snapshot \<Rightarrow> nat \<Rightarrow> candidate_record \<Rightarrow> outcome option" where
  "drift_at d i c =
    (let b = ca_binding c in
     if cd_path b \<noteq> ds_candidates d ! i then Some Out_REVALIDATION_REQUIRED
     else if i < length (ds_candidate_path_watermarks d) \<and> ca_path_watermark c \<noteq> ds_candidate_path_watermarks d ! i then
       (if authority_moved d i b then Some Out_STALE_PATH_AUTHORITY
        else if (case cd_multipath b of None \<Rightarrow> False
            | Some m \<Rightarrow> \<not> mb_current m \<or> \<not> gen_valid (ds_multipath_generation d) \<or> mb_generation m \<noteq> ds_multipath_generation d) then
          Some Out_STALE_MULTIPATH_SET
        else if rb_generation (cd_route b) \<noteq> ds_route_generation d then Some Out_STALE_ROUTE
        else Some Out_STALE_PATH_AUTHORITY)
     else if authority_moved d i b then Some Out_STALE_PATH_AUTHORITY
     else None)"

fun first_drift :: "dependency_snapshot \<Rightarrow> nat \<Rightarrow> candidate_record list \<Rightarrow> outcome option" where
  "first_drift d i [] = None"
| "first_drift d i (c # cs) = (case drift_at d i c of Some stale \<Rightarrow> Some stale | None \<Rightarrow> first_drift d (Suc i) cs)"

definition dependency_drift :: "policy_record \<Rightarrow> dependency_snapshot \<Rightarrow> outcome option" where
  "dependency_drift r d =
    (if length (pc_candidates r) \<noteq> length (ds_candidates d) then Some Out_REVALIDATION_REQUIRED
     else first_drift d 0 (pc_candidates r))"

section \<open>Decisions and history entries\<close>

definition no_decision :: adaptation_decision where
  "no_decision = \<lparr>dn_id = no_id, dn_policy = no_id, dn_policy_generation = no_gen, dn_lifecycle = DL_PROPOSED, dn_cause = AC_DECLARED,
     dn_suppression = Sup_NONE, dn_outcome = Out_NO_CHANGE, dn_epoch = no_gen, dn_authority_generation = no_gen, dn_route = no_id,
     dn_route_generation = no_gen, dn_multipath_set = None, dn_multipath_generation = no_gen, dn_evidence_snapshot = no_id,
     dn_evidence_generation = no_gen, dn_evidence_watermark = Watermark 0, dn_upstream_watermark = Watermark 0,
     dn_had_current_preference = False, dn_current_preference = no_id, dn_current_authority_generation = no_gen,
     dn_target_preference = no_id, dn_target_authority_generation = no_gen, dn_adaptation_generation = no_gen,
     dn_transition_generation = no_gen, dn_target_score = None, dn_improvement_bps = None, dn_required_improvement_bps = 0,
     dn_candidates_considered = 0, dn_candidates_eligible = 0, dn_ranking = [], dn_digest = [], dn_evaluated_at = 0,
     dn_committed_at = 0, dn_provenance = no_provenance\<rparr>"

definition provenance_of :: "state \<Rightarrow> mutation_context \<Rightarrow> policy_record \<Rightarrow> adaptation_cause \<Rightarrow> adaptation_provenance" where
  "provenance_of s ctx r cause = \<lparr>av_publisher = mc_publisher ctx, av_worker_boot = mc_worker_boot ctx, av_epoch = g_epoch s,
     av_attempt = mc_attempt ctx, av_policy_generation = ap_generation (pc_policy r), av_cause = cause\<rparr>"

definition with_digest :: "adaptation_decision \<Rightarrow> adaptation_decision" where
  "with_digest d = d\<lparr>dn_digest := decision_digest d\<rparr>"

definition count_eligible :: "candidate_evaluation list \<Rightarrow> u32" where
  "count_eligible ranked = of_nat (length (filter ce_eligible ranked))"

definition history_entry :: "ticks \<Rightarrow> adaptation_decision \<Rightarrow> adaptation_record" where
  "history_entry now d = \<lparr>hr_decision = dn_id d, hr_lifecycle = dn_lifecycle d, hr_outcome = dn_outcome d,
     hr_suppression = dn_suppression d, hr_cause = dn_cause d, hr_from_path = dn_current_preference d,
     hr_to_path = dn_target_preference d, hr_adaptation_generation = dn_adaptation_generation d,
     hr_evidence_generation = dn_evidence_generation d, hr_epoch = dn_epoch d, hr_committed_at = now, hr_digest = dn_digest d\<rparr>"

definition journal :: "limits \<Rightarrow> adaptation_decision \<Rightarrow> state \<Rightarrow> state" where
  "journal l d s = s\<lparr>g_decision_journal := fifo_trim (unat (lim_max_decision_history l)) (g_decision_journal s @ [d])\<rparr>"

definition remember :: "limits \<Rightarrow> ticks \<Rightarrow> adaptation_decision \<Rightarrow> policy_record \<Rightarrow> policy_record" where
  "remember l now d r = prune_history l (r\<lparr>pc_history := pc_history r @ [history_entry now d]\<rparr>)"

section \<open>Suppressed evaluations\<close>

definition suppressed_decision :: "decision_id \<Rightarrow> state \<Rightarrow> policy_record \<Rightarrow> evaluation_ticket \<Rightarrow> mutation_context \<Rightarrow> adaptation_decision" where
  "suppressed_decision i s r t ctx =
    (let p = pc_policy r; pref = pc_preference r; target = ps_target (ap_semantics p) in
     with_digest (no_decision\<lparr>dn_id := i, dn_policy := ap_id p, dn_policy_generation := ap_generation p, dn_lifecycle := DL_SUPPRESSED,
       dn_cause := AC_TRIGGER_SATISFIED, dn_suppression := et_suppression t, dn_outcome := et_outcome t, dn_epoch := g_epoch s,
       dn_authority_generation := g_authority_generation s, dn_route := pt_route target,
       dn_route_generation := rp_route_generation pref, dn_multipath_set := pt_multipath_set target,
       dn_multipath_generation := rp_multipath_generation pref, dn_evidence_generation := g_evidence_generation s,
       dn_evidence_watermark := g_evidence_watermark s, dn_upstream_watermark := g_upstream_watermark s,
       dn_had_current_preference := rp_established pref, dn_current_preference := rp_preferred_path pref,
       dn_current_authority_generation := rp_path_authority_generation pref, dn_target_preference := et_target_preference t,
       dn_target_authority_generation := et_target_authority_generation t,
       dn_adaptation_generation := rp_adaptation_generation pref, dn_transition_generation := rp_transition_generation pref,
       dn_required_improvement_bps := et_required_improvement_bps t, dn_improvement_bps := et_improvement_bps t,
       dn_candidates_considered := of_nat (length (et_ranking t)), dn_candidates_eligible := count_eligible (et_ranking t),
       dn_ranking := et_ranking t, dn_evaluated_at := et_evaluated_at t,
       dn_provenance := provenance_of s ctx r AC_TRIGGER_SATISFIED\<rparr>))"

definition decision_id_for :: "evaluation_ticket \<Rightarrow> id_factory \<Rightarrow> (id_factory \<times> decision_id) option" where
  "decision_id_for t ids = (if id_valid (et_decision t) then Some (ids, et_decision t) else next_decision_id ids)"

section \<open>Verification and the atomic transition\<close>

definition committed_hold_down :: "policy_semantics \<Rightarrow> timing_state \<Rightarrow> ticks" where
  "committed_hold_down sem ti = (if dr_enabled (ps_dampening sem) \<and> ti_dampening_penalty ti \<noteq> 0
     then escalated_hold_down sem (ti_dampening_penalty ti) else ps_hold_down sem)"

definition pending_transitions :: "ticks \<Rightarrow> state \<Rightarrow> nat" where
  "pending_transitions now s = length (filter (\<lambda>entry. ti_hold_down_active (pc_timing (snd entry))
     \<and> now < ti_hold_down_deadline (pc_timing (snd entry))) (g_policies s))"

text \<open>The refusal, or the candidate that becomes preferred with the two next generations.\<close>

definition verify ::
    "ticks \<Rightarrow> limits \<Rightarrow> state \<Rightarrow> policy_record \<Rightarrow> evaluation_ticket \<Rightarrow>
     (outcome \<times> string) + (candidate_binding \<times> adaptation_generation \<times> transition_generation)" where
  "verify now l s r t =
    (let sem = ap_semantics (pc_policy r); ti = pc_timing r; pref = pc_preference r;
         reverse = reverse_move pref (et_target_preference t) in
     if \<not> et_emergency t \<and> ti_hold_down_active ti \<and> reverse \<and> committed_hold_down sem ti \<noteq> 0 \<and> now < ti_hold_down_deadline ti then
       Inl (Out_HOLD_DOWN_ACTIVE, ''hold-down became active before the commit'')
     else if \<not> et_emergency t \<and> ti_cooldown_active ti \<and> now < ti_cooldown_deadline ti then
       Inl (Out_COOLDOWN_ACTIVE, ''cooldown became active before the commit'')
     else if \<not> et_emergency t \<and> cb_enabled (ps_churn sem) \<and> recent_commits sem now ti \<ge> cb_max_adaptations (ps_churn sem) then
       Inl (Out_CHURN_LIMIT_REACHED, ''churn bound reached before the commit'')
     else case find_candidate (pc_candidates r) (et_target_preference t) of
       None \<Rightarrow> Inl (Out_REVALIDATION_REQUIRED, ''the target candidate disappeared before the commit'')
     | Some i \<Rightarrow>
       (let b = ca_binding (pc_candidates r ! i) in
        if \<not> pa_legal (cd_path_authority b) then
          Inl (Out_STALE_PATH_AUTHORITY, ''the target candidate is no longer authorized'')
        else if gen_valid (et_target_authority_generation t) \<and> pa_generation (cd_path_authority b) \<noteq> et_target_authority_generation t then
          Inl (Out_STALE_PATH_AUTHORITY, ''the target path authority generation moved before the commit'')
        else if pending_transitions now s \<ge> unat (lim_max_pending_transitions l) then
          Inl (Out_RESOURCE_LIMIT, ''pending transition limit reached'')
        else case (gen_next (rp_adaptation_generation pref), gen_next (rp_transition_generation pref)) of
          (Some adaptation, Some transition) \<Rightarrow> Inr (b, adaptation, transition)
        | _ \<Rightarrow> Inl (Out_GENERATION_OVERFLOW, ''adaptation or transition generation is exhausted'')))"

definition committed_preference ::
    "ticks \<Rightarrow> state \<Rightarrow> mutation_context \<Rightarrow> evaluation_ticket \<Rightarrow> candidate_binding \<Rightarrow> adaptation_generation \<Rightarrow>
     transition_generation \<Rightarrow> transition_plan_id \<Rightarrow> decision_id \<Rightarrow> policy_record \<Rightarrow> routing_preference" where
  "committed_preference now s ctx t b adaptation transition plan decision r =
    (let pref = pc_preference r in
     pref\<lparr>rp_previous_path := (if rp_established pref then rp_preferred_path pref else no_id),
       rp_preferred_path := cd_path b, rp_path_authority_generation := pa_generation (cd_path_authority b),
       rp_route_generation := rb_generation (cd_route b),
       rp_multipath_set := pt_multipath_set (ps_target (ap_semantics (pc_policy r))),
       rp_multipath_generation := (case cd_multipath b of None \<Rightarrow> rp_multipath_generation pref | Some m \<Rightarrow> mb_generation m),
       rp_adaptation_generation := adaptation, rp_transition_generation := transition, rp_transition := plan,
       rp_weight_proposal := et_weight_proposal t, rp_committed_at := now, rp_established := True,
       rp_provenance := provenance_of s ctx r (if et_emergency t then AC_EMERGENCY_OVERRIDE else AC_TRIGGER_SATISFIED),
       rp_decision := decision\<rparr>)"

definition displaced_state :: "ticks \<Rightarrow> routing_preference \<Rightarrow> stable_state" where
  "displaced_state now pref = \<lparr>ss_established = True, ss_path = rp_preferred_path pref,
     ss_path_authority_generation = rp_path_authority_generation pref, ss_route_generation = rp_route_generation pref,
     ss_multipath_generation = rp_multipath_generation pref, ss_adaptation_generation = rp_adaptation_generation pref,
     ss_stabilized_at = now\<rparr>"

definition committed_timing :: "ticks \<Rightarrow> limits \<Rightarrow> policy_record \<Rightarrow> timing_state" where
  "committed_timing now l r =
    (let sem = ap_semantics (pc_policy r); ti = pc_timing r; pref = pc_preference r; damp = ps_dampening sem in
     if \<not> rp_established pref then ti
     else
       (let penalty = min (dr_max_penalty damp) (ti_dampening_penalty ti + dr_penalty_increment damp);
            ti1 = (if dr_enabled damp then ti\<lparr>ti_dampening_penalty := penalty, ti_dampening_last_decay := now\<rparr> else ti);
            hold = (if dr_enabled damp then escalated_hold_down sem penalty else ps_hold_down sem) in
        ti1\<lparr>ti_hold_down_active := (hold \<noteq> 0), ti_hold_down_deadline := now + hold,
          ti_hold_down_locked_path := rp_preferred_path pref,
          ti_cooldown_active := (ps_cooldown sem \<noteq> 0), ti_cooldown_deadline := now + ps_cooldown sem,
          ti_churn_commits := fifo_trim (unat (lim_max_adaptations_per_window l)) (ti_churn_commits ti @ [now])\<rparr>))"

definition superseded_authority :: "dependency_snapshot \<Rightarrow> path_id \<Rightarrow> path_authority_generation" where
  "superseded_authority d superseded =
     foldl (\<lambda>g i. if ds_candidates d ! i = superseded \<and> i < length (ds_candidate_path_authority d)
                  then pa_generation (ds_candidate_path_authority d ! i) else g) no_gen [0..<length (ds_candidates d)]"

definition committed_decision ::
    "ticks \<Rightarrow> state \<Rightarrow> evaluation_ticket \<Rightarrow> decision_id \<Rightarrow> policy_record \<Rightarrow> routing_preference \<Rightarrow> adaptation_decision" where
  "committed_decision now s t i r pref' =
    (let p = pc_policy r; pref = pc_preference r; d = et_dependencies t; target = ps_target (ap_semantics p) in
     with_digest (no_decision\<lparr>dn_id := i, dn_policy := ap_id p, dn_policy_generation := ap_generation p, dn_lifecycle := DL_COMMITTED,
       dn_cause := av_cause (rp_provenance pref'), dn_suppression := Sup_NONE, dn_outcome := Out_DECISION_COMMITTED,
       dn_epoch := g_epoch s, dn_authority_generation := g_authority_generation s, dn_route := pt_route target,
       dn_route_generation := rp_route_generation pref', dn_multipath_set := pt_multipath_set target,
       dn_multipath_generation := rp_multipath_generation pref', dn_evidence_snapshot := et_evidence_snapshot t,
       dn_evidence_generation := ds_evidence_generation d, dn_evidence_watermark := ds_evidence_watermark d,
       dn_upstream_watermark := ds_upstream_watermark d, dn_had_current_preference := rp_established pref,
       dn_current_preference := (if rp_established pref then rp_preferred_path pref else no_id),
       dn_current_authority_generation := superseded_authority d (rp_preferred_path pref),
       dn_target_preference := rp_preferred_path pref', dn_target_authority_generation := rp_path_authority_generation pref',
       dn_adaptation_generation := rp_adaptation_generation pref', dn_transition_generation := rp_transition_generation pref',
       dn_target_score := et_target_score t, dn_improvement_bps := et_improvement_bps t,
       dn_required_improvement_bps := et_required_improvement_bps t,
       dn_candidates_considered := of_nat (length (et_ranking t)), dn_candidates_eligible := count_eligible (et_ranking t),
       dn_ranking := et_ranking t, dn_evaluated_at := et_evaluated_at t, dn_committed_at := now,
       dn_provenance := rp_provenance pref'\<rparr>))"

text \<open>The record after the transition, with the decision that goes into the journal.\<close>

definition committed_record ::
    "ticks \<Rightarrow> limits \<Rightarrow> state \<Rightarrow> mutation_context \<Rightarrow> evaluation_ticket \<Rightarrow> candidate_binding \<Rightarrow> adaptation_generation \<Rightarrow>
     transition_generation \<Rightarrow> transition_plan_id \<Rightarrow> decision_id \<Rightarrow> policy_record \<Rightarrow> adaptation_decision \<times> policy_record" where
  "committed_record now l s ctx t b adaptation transition plan i r =
    (let pref' = committed_preference now s ctx t b adaptation transition plan i r;
         d = committed_decision now s t i r pref' in
     (d, remember l now d (r\<lparr>pc_preference := pref',
        pc_stable := (if rp_established (pc_preference r) then displaced_state now (pc_preference r) else no_stable_state),
        pc_timing := committed_timing now l r\<rparr>)))"

definition verify_and_commit ::
    "ticks \<Rightarrow> limits \<Rightarrow> policy_id \<Rightarrow> policy_record \<Rightarrow> evaluation_ticket \<Rightarrow> mutation_context \<Rightarrow> id_factory \<Rightarrow> state \<Rightarrow>
     ((outcome \<times> string) + (id_factory \<times> state)) option" where
  "verify_and_commit now l pid r t ctx ids s =
    (case verify now l s r t of
       Inl refusal \<Rightarrow> Some (Inl refusal)
     | Inr (b, adaptation, transition) \<Rightarrow>
     case next_transition_id ids of
       None \<Rightarrow> None
     | Some (ids1, plan) \<Rightarrow>
     case decision_id_for t ids1 of
       None \<Rightarrow> None
     | Some (ids2, i) \<Rightarrow>
       (let (d, r') = committed_record now l s ctx t b adaptation transition plan i r in
        Some (Inr (ids2, journal l d (put_policy pid r' s)))))"

section \<open>Phase two\<close>

definition commit_fingerprint :: "evaluation_ticket \<Rightarrow> string" where
  "commit_fingerprint t = (let d = et_dependencies t in
     digest_hex (write_string (et_detail t) (write_string (id_text (et_target_preference t))
       (write_u64 (gen_value (ds_evidence_generation d)) (write_u64 (gen_value (ds_policy_generation d))
         (write_string (id_text (ds_policy d)) (write_tag ''commit-decision'' digest_new)))))))"

text \<open>Every answer of phase two settles one outstanding evaluation.\<close>

definition settle :: "engine \<Rightarrow> engine" where
  "settle e = e\<lparr>en_outstanding := (if en_outstanding e \<noteq> 0 then en_outstanding e - 1 else 0),
     en_counters := (en_counters e)\<lparr>fb_evaluations := fb_evaluations (en_counters e) + 1\<rparr>\<rparr>"

text \<open>The refusal of a ticket before anything is written, and whether it counts as a stale commit.\<close>

definition ticket_refusal :: "state \<Rightarrow> policy_record \<Rightarrow> evaluation_ticket \<Rightarrow> (outcome \<times> string \<times> bool) option" where
  "ticket_refusal s r t =
    (let d = et_dependencies t; p = pc_policy r in
     if g_epoch s \<noteq> ds_epoch d then Some (Out_STALE_EPOCH, ''epoch advanced after the evaluation started'', False)
     else if g_authority_generation s \<noteq> ds_authority_generation d then
       Some (Out_REVALIDATION_REQUIRED, ''authority generation advanced after the evaluation started'', False)
     else if ap_lifecycle p \<noteq> PL_ACTIVE then
       Some (lifecycle_outcome (ap_lifecycle p), ''policy lifecycle is '' @ policy_lifecycle_to_string (ap_lifecycle p), False)
     else if ap_generation p \<noteq> ds_policy_generation d then
       Some (Out_STALE_POLICY_GENERATION, ''policy generation advanced after the evaluation started'', False)
     else if et_lifecycle t = DL_ELIGIBLE then
       (if g_evidence_generation s \<noteq> ds_evidence_generation d then
          Some (Out_STALE_EVIDENCE, ''evidence generation advanced after the evaluation started'', True)
        else if g_evidence_watermark s \<noteq> ds_evidence_watermark d then
          Some (Out_STALE_EVIDENCE, ''the evidence watermark advanced after the evaluation started'', True)
        else case dependency_drift r d of
          Some drift \<Rightarrow> Some (drift, ''an upstream dependency changed after the evaluation started'', True)
        | None \<Rightarrow> None)
     else None)"

definition record_suppressed ::
    "ticks \<Rightarrow> limits \<Rightarrow> policy_id \<Rightarrow> policy_record \<Rightarrow> evaluation_ticket \<Rightarrow> mutation_context \<Rightarrow> decision_id \<Rightarrow> state \<Rightarrow> state" where
  "record_suppressed now l pid r t ctx i s =
    (let d = suppressed_decision i s r t ctx in
     record_attempt l (mc_attempt ctx) (commit_fingerprint t) (dn_outcome d) (dn_digest d)
       (journal l d (put_policy pid (remember l now d r) s)))"

definition commit_evaluation :: "ticks \<Rightarrow> commit_decision_request \<Rightarrow> engine \<Rightarrow> (engine \<times> operation_result) option" where
  "commit_evaluation now rq e =
    (let s = en_state e; l = en_limits e; t = kr_ticket rq; ctx = kr_context rq; pid = ds_policy (et_dependencies t);
         finish = (\<lambda>e res. Some (settle e, res)) in
     if et_lifecycle t = DL_REJECTED then finish e (make_result (et_outcome t) (et_detail t) no_id s)
     else if \<not> id_valid pid then finish e (make_result Out_MALFORMED_REQUEST ''evaluation ticket is malformed'' no_id s)
     else case check_caller s ctx None None of
       Inl (outcome, detail) \<Rightarrow> finish e (make_result outcome detail pid s)
     | Inr reg \<Rightarrow>
     case om_find (g_policies s) pid of
       None \<Rightarrow> finish e (make_result Out_NOT_FOUND ''policy does not exist'' pid s)
     | Some r \<Rightarrow>
     case ticket_refusal s r t of
       Some (outcome, detail, stale) \<Rightarrow>
         finish (if stale then e\<lparr>en_counters := (en_counters e)\<lparr>fb_stale_commit_rejections := fb_stale_commit_rejections (en_counters e) + 1\<rparr>\<rparr>
                 else e) (make_result outcome detail pid s)
     | None \<Rightarrow>
     case replay_check (mc_attempt ctx) (commit_fingerprint t) e of
       (e1, Some replayed) \<Rightarrow> finish e1 replayed
     | (e1, None) \<Rightarrow>
       if et_lifecycle t \<noteq> DL_ELIGIBLE then
         (case decision_id_for t (en_ids e1) of
            None \<Rightarrow> None
          | Some (ids, i) \<Rightarrow>
            (let d = suppressed_decision i s r t ctx; s' = record_suppressed now l pid r t ctx i s;
                 c = en_counters e1 in
             finish (e1\<lparr>en_ids := ids, en_state := s', en_counters := c\<lparr>fb_decisions_suppressed := fb_decisions_suppressed c + 1\<rparr>\<rparr>)
               ((make_result (dn_outcome d) (et_detail t @ '' digest='' @ dn_digest d) (ap_id (pc_policy r)) s')
                  \<lparr>or_decision := i, or_suppression := dn_suppression d\<rparr>)))
       else if rp_established (pc_preference r) \<and> rp_preferred_path (pc_preference r) = et_target_preference t then
         (let s' = record_attempt l (mc_attempt ctx) (commit_fingerprint t) Out_NO_CHANGE ''the target preference is already current'' s in
          finish (e1\<lparr>en_state := s'\<rparr>)
            ((make_result Out_NO_CHANGE ''the target preference is already current'' (ap_id (pc_policy r)) s')
               \<lparr>or_decision := rp_decision (pc_preference r)\<rparr>))
       else case verify_and_commit now l pid r t ctx (en_ids e1) s of
         None \<Rightarrow> None
       | Some (Inl (outcome, detail)) \<Rightarrow> finish e1 (make_result outcome detail (ap_id (pc_policy r)) s)
       | Some (Inr (ids, s1)) \<Rightarrow>
         (let s' = record_attempt l (mc_attempt ctx) (commit_fingerprint t) Out_DECISION_COMMITTED ''decision committed'' s1;
              c = en_counters e1 in
          finish (e1\<lparr>en_ids := ids, en_state := s', en_counters := c\<lparr>fb_decisions_committed := fb_decisions_committed c + 1\<rparr>\<rparr>)
            ((make_result Out_DECISION_COMMITTED (et_detail t) (ap_id (pc_policy r)) s')
               \<lparr>or_decision := (case om_find (g_policies s1) pid of None \<Rightarrow> no_id | Some r' \<Rightarrow> rp_decision (pc_preference r')),
                or_mutated := True\<rparr>)))"

text \<open>
  The one-call evaluation is the two phases with the engine unlocked in between: \<open>meanwhile\<close> is what
  other callers do to it there.  Clock readings 0 to 2 belong to phase one, reading 3 to phase two.
\<close>

definition evaluate :: "(nat \<Rightarrow> ticks) \<Rightarrow> evaluate_request \<Rightarrow> (engine \<Rightarrow> engine) \<Rightarrow> engine \<Rightarrow> (engine \<times> operation_result) option" where
  "evaluate clock rq meanwhile e =
    (case begin_evaluation clock rq e of
       None \<Rightarrow> None
     | Some (e1, t) \<Rightarrow>
       if et_lifecycle t = DL_REJECTED \<and> \<not> id_valid (ds_policy (et_dependencies t)) then
         Some (meanwhile e1, or_make (et_outcome t) (et_detail t))
       else if vr_defer_commit rq then
         (if et_lifecycle t = DL_REJECTED then Some (meanwhile e1, or_make (et_outcome t) (et_detail t))
          else Some (meanwhile e1, (or_make (et_outcome t) (et_detail t))\<lparr>or_decision := et_decision t, or_suppression := et_suppression t\<rparr>))
       else commit_evaluation (clock 3) \<lparr>kr_ticket = t, kr_context = vr_context rq\<rparr> (meanwhile e1))"

section \<open>Rollback and revalidation\<close>

definition rollback_fingerprint :: "rollback_request \<Rightarrow> string" where
  "rollback_fingerprint rq = digest_hex (write_string (br_reason rq) (write_string (id_text (br_policy rq))
     (write_tag ''rollback'' digest_new)))"

text \<open>The refusals of a rollback target: the outcome, the answer, and the detail that is recorded, if any.\<close>

definition rollback_refusal :: "policy_record \<Rightarrow> candidate_record option \<Rightarrow> (outcome \<times> string \<times> string option) option" where
  "rollback_refusal r found =
    (case found of
       None \<Rightarrow> Some (Out_ROLLBACK_REFUSED, ''the last known stable path is no longer a candidate'', Some ''stable path is not a candidate'')
     | Some c \<Rightarrow>
       (let b = ca_binding c; path = ss_path (pc_stable r) in
        if \<not> pa_legal (cd_path_authority b) then
          Some (Out_STALE_PATH_AUTHORITY, ''the last known stable path is no longer authorized'', Some ''stable path is not authorized'')
        else if \<not> rb_current (cd_route b) then Some (Out_STALE_ROUTE, ''the last known stable path has a stale route'', None)
        else if \<not> cd_available b then
          Some (Out_WITHDRAWN_UPSTREAM, ''the last known stable path is no longer available'', None)
        else if pt_multipath_set (ps_target (ap_semantics (pc_policy r))) \<noteq> None
            \<and> (case cd_multipath b of None \<Rightarrow> True | Some m \<Rightarrow> \<not> mb_current m \<or> \<not> mb_contains m path) then
          Some (Out_STALE_MULTIPATH_SET, ''the last known stable path left the multipath set'', None)
        else if rp_established (pc_preference r) \<and> rp_preferred_path (pc_preference r) = path then
          Some (Out_NO_CHANGE, ''the current preference is already the last known stable preference'',
            Some ''already at the stable preference'')
        else None))"

definition rollback_decision ::
    "ticks \<Rightarrow> decision_id \<Rightarrow> state \<Rightarrow> mutation_context \<Rightarrow> candidate_binding \<Rightarrow> adaptation_generation \<Rightarrow> transition_generation \<Rightarrow>
     policy_record \<Rightarrow> adaptation_decision" where
  "rollback_decision now i s ctx b adaptation transition r =
    (let p = pc_policy r; pref = pc_preference r; target = ps_target (ap_semantics p) in
     with_digest (no_decision\<lparr>dn_id := i, dn_policy := ap_id p, dn_policy_generation := ap_generation p,
       dn_lifecycle := DL_ROLLED_BACK, dn_cause := AC_ROLLBACK_REQUESTED, dn_outcome := Out_DECISION_COMMITTED,
       dn_epoch := g_epoch s, dn_authority_generation := g_authority_generation s, dn_route := pt_route target,
       dn_route_generation := rb_generation (cd_route b), dn_multipath_set := pt_multipath_set target,
       dn_evidence_generation := g_evidence_generation s, dn_evidence_watermark := g_evidence_watermark s,
       dn_upstream_watermark := g_upstream_watermark s, dn_had_current_preference := True,
       dn_current_preference := rp_preferred_path pref, dn_current_authority_generation := rp_path_authority_generation pref,
       dn_target_preference := ss_path (pc_stable r), dn_target_authority_generation := pa_generation (cd_path_authority b),
       dn_adaptation_generation := adaptation, dn_transition_generation := transition, dn_committed_at := now,
       dn_evaluated_at := now, dn_provenance := provenance_of s ctx r AC_ROLLBACK_REQUESTED\<rparr>))"

definition rolled_back_record ::
    "ticks \<Rightarrow> limits \<Rightarrow> candidate_binding \<Rightarrow> transition_plan_id \<Rightarrow> adaptation_decision \<Rightarrow> policy_record \<Rightarrow> policy_record" where
  "rolled_back_record now l b plan d r =
    (let pref = pc_preference r; ti = pc_timing r; sem = ap_semantics (pc_policy r); displaced = rp_preferred_path pref in
     remember l now d (r\<lparr>pc_stable := displaced_state now pref,
       pc_preference := pref\<lparr>rp_previous_path := displaced, rp_preferred_path := ss_path (pc_stable r),
         rp_path_authority_generation := pa_generation (cd_path_authority b), rp_route_generation := rb_generation (cd_route b),
         rp_multipath_generation := (case cd_multipath b of None \<Rightarrow> rp_multipath_generation pref | Some m \<Rightarrow> mb_generation m),
         rp_adaptation_generation := dn_adaptation_generation d, rp_transition_generation := dn_transition_generation d,
         rp_transition := plan, rp_decision := dn_id d, rp_provenance := dn_provenance d, rp_committed_at := now\<rparr>,
       pc_timing := ti\<lparr>ti_hold_down_active := (ps_hold_down sem \<noteq> 0), ti_hold_down_deadline := now + ps_hold_down sem,
         ti_hold_down_locked_path := displaced, ti_cooldown_active := (ps_cooldown sem \<noteq> 0),
         ti_cooldown_deadline := now + ps_cooldown sem, ti_churn_commits := ti_churn_commits ti @ [now]\<rparr>\<rparr>))"

definition rollback :: "ticks \<Rightarrow> rollback_request \<Rightarrow> engine \<Rightarrow> (engine \<times> operation_result) option" where
  "rollback now rq e =
    (let s = en_state e; l = en_limits e; pid = br_policy rq; ctx = br_context rq;
         answer = (\<lambda>e outcome detail s. Some (e, make_result outcome detail pid s)) in
     if \<not> id_valid pid then answer e Out_MALFORMED_REQUEST ''policy id is required'' s
     else case om_find (g_policies s) pid of
       None \<Rightarrow> answer e Out_NOT_FOUND ''policy does not exist'' s
     | Some r \<Rightarrow>
     (let target = ps_target (ap_semantics (pc_policy r)); pref = pc_preference r; path = ss_path (pc_stable r) in
     case check_caller s ctx (Some (pt_route target)) (pt_multipath_set target) of
       Inl (outcome, detail) \<Rightarrow> answer e outcome detail s
     | Inr reg \<Rightarrow>
       if ap_lifecycle (pc_policy r) \<noteq> PL_ACTIVE then
         answer e (lifecycle_outcome (ap_lifecycle (pc_policy r))) ''rollback requires an active policy'' s
       else case replay_check (mc_attempt ctx) (rollback_fingerprint rq) e of
         (e1, Some replayed) \<Rightarrow> Some (e1, replayed)
       | (e1, None) \<Rightarrow>
         (let note = (\<lambda>outcome detail. record_attempt l (mc_attempt ctx) (rollback_fingerprint rq) outcome detail s) in
          if \<not> ss_established (pc_stable r) then
            (let s' = note Out_ROLLBACK_REFUSED ''no last known stable state'' in
             answer (e1\<lparr>en_state := s'\<rparr>) Out_ROLLBACK_REFUSED ''there is no last known stable state to restore'' s')
          else
            (let found = map_option ((!) (pc_candidates r)) (find_candidate (pc_candidates r) path) in
             case rollback_refusal r found of
               Some (outcome, detail, recorded) \<Rightarrow>
                 (case recorded of
                    None \<Rightarrow> answer e1 outcome detail s
                  | Some text \<Rightarrow> (let s' = note outcome text in answer (e1\<lparr>en_state := s'\<rparr>) outcome detail s'))
             | None \<Rightarrow>
               (case (gen_next (rp_adaptation_generation pref), gen_next (rp_transition_generation pref)) of
                  (Some adaptation, Some transition) \<Rightarrow>
                    (case next_decision_id (en_ids e1) of
                       None \<Rightarrow> None
                     | Some (ids1, i) \<Rightarrow>
                     case next_transition_id ids1 of
                       None \<Rightarrow> None
                     | Some (ids2, plan) \<Rightarrow>
                       (let b = ca_binding (the found); d = rollback_decision now i s ctx b adaptation transition r;
                            s1 = journal l d (put_policy pid (rolled_back_record now l b plan d r) s);
                            s' = record_attempt l (mc_attempt ctx) (rollback_fingerprint rq) Out_DECISION_COMMITTED ''rollback committed'' s1;
                            c = en_counters e1 in
                        Some (e1\<lparr>en_ids := ids2, en_state := s', en_counters := c\<lparr>fb_decisions_committed := fb_decisions_committed c + 1\<rparr>\<rparr>,
                          (make_result Out_DECISION_COMMITTED ''rolled back to the last known stable preference'' pid s')
                            \<lparr>or_decision := i, or_mutated := True\<rparr>)))
                | _ \<Rightarrow> answer e1 Out_GENERATION_OVERFLOW ''generation is exhausted'' s)))))"

definition revalidate :: "policy_id \<Rightarrow> revalidation_attempt_id \<Rightarrow> mutation_context \<Rightarrow> engine \<Rightarrow> engine \<times> operation_result" where
  "revalidate policy attempt ctx e =
     transition_policy \<lparr>lr_policy = policy, lr_event = PE_REVALIDATE, lr_detail = ''operator requested revalidation'', lr_context = ctx\<rparr> e"

end
