(* ===== verification/Sample.thy ===== *)
theory Sample
  imports Upstream
begin

text \<open>
  A small policy on the small engine of the authority operations: one route, one improvement rule
  on path latency, two candidate paths.  The witnesses evaluate the model on it.
\<close>

definition latency_requirement :: evidence_requirement where
  "latency_requirement = \<lparr>er_kind = PATH_LATENCY, er_aggregation = MEAN, er_ewma_alpha_bps = 0, er_min_samples = 1,
     er_max_age = 1000, er_min_window = 0, er_min_quality = ESTIMATED, er_required = True\<rparr>"

definition latency_semantics :: policy_semantics where
  "latency_semantics = \<lparr>ps_version = 1, ps_target = \<lparr>pt_route = StrongId ''r1'', pt_multipath_set = None\<rparr>, ps_thresholds = [],
     ps_improvements = [\<lparr>ir_kind = PATH_LATENCY, ir_switch_bps = 1000, ir_reverse_bps = 500\<rparr>],
     ps_evidence = [latency_requirement], ps_hold_down = 100, ps_cooldown = 50,
     ps_dampening = \<lparr>dr_enabled = False, dr_penalty_increment = 0, dr_max_penalty = 0, dr_penalty_decay_interval = 0,
       dr_penalty_decay_step = 0, dr_hold_down_escalation_step = 0, dr_max_effective_hold_down = 0\<rparr>,
     ps_churn = \<lparr>cb_max_adaptations = 4, cb_window = 1000\<rparr>,
     ps_objective = \<lparr>os_mode = LEXICOGRAPHIC, os_terms = [\<lparr>st_kind = PATH_LATENCY, st_weight_bps = 0\<rparr>], os_scoring_version = 1\<rparr>,
     ps_emergency = \<lparr>em_enabled = False, em_on_unauthorized = False, em_on_unavailable = False, em_on_hard_failure = False\<rparr>,
     ps_priorities = []\<rparr>"

definition sample_candidate :: "path_id \<Rightarrow> candidate_binding" where
  "sample_candidate path = \<lparr>cd_path = path,
     cd_path_authority = \<lparr>pa_path = path, pa_generation = gen_first, pa_legal = True, pa_denial_reason = []\<rparr>,
     cd_multipath = None,
     cd_route = \<lparr>rb_route = StrongId ''r1'', rb_generation = gen_first, rb_site = no_id, rb_current = True, rb_state = []\<rparr>,
     cd_weighted = None, cd_path_class = no_id, cd_available = True, cd_hard_failure = False\<rparr>"

definition web_policy :: adaptive_policy where
  "web_policy = \<lparr>ap_id = StrongId ''pol'', ap_name = StrongId ''web'', ap_scope = sample_policy_scope,
     ap_semantics = latency_semantics, ap_generation = gen_first, ap_lifecycle = PL_ACTIVE, ap_epoch = gen_first,
     ap_owner = StrongId ''pub'', ap_authority_generation = gen_first, ap_declared_at = 0, ap_updated_at = 0\<rparr>"

definition sample_record :: policy_record where
  "sample_record = (fresh_record web_policy)\<lparr>pc_candidates :=
     [\<lparr>ca_binding = sample_candidate (StrongId ''p1''), ca_path_watermark = 0\<rparr>,
      \<lparr>ca_binding = sample_candidate (StrongId ''p2''), ca_path_watermark = 0\<rparr>]\<rparr>"

definition sample_active :: engine where
  "sample_active = sample_engine\<lparr>en_state := put_policy (StrongId ''pol'') sample_record (en_state sample_engine)\<rparr>"

lemma latency_semantics_valid: "ps_valid latency_semantics = None"
  by code_simp

lemma sample_record_ok: "policy_record_ok default_limits (StrongId ''pol'') sample_record"
  unfolding policy_record_ok_def by (intro conjI; code_simp)

lemma sample_limits: "en_limits sample_engine = default_limits"
  by code_simp

lemma sample_active_ok: "engine_ok sample_active"
proof -
  have "state_ok default_limits (en_state sample_engine)" using sample_engine_ok by (simp add: engine_ok_def sample_limits)
  moreover have "om_find (g_policies (en_state sample_engine)) (StrongId ''pol'') = None" by code_simp
  ultimately show ?thesis
    using put_fresh_contract[OF _ _ sample_record_ok] by (simp add: engine_ok_def sample_active_def sample_limits)
qed

lemma sample_active_record: "om_find (g_policies (en_state sample_active)) (StrongId ''pol'') = Some sample_record"
  by (simp add: sample_active_def om_find_put)

lemma sample_active_limits: "en_limits sample_active = default_limits"
  by (simp add: sample_active_def sample_limits)

definition sample_create :: create_policy_request where
  "sample_create = \<lparr>cr_name = StrongId ''web'', cr_scope = sample_policy_scope, cr_semantics = latency_semantics,
     cr_context = sample_context\<rparr>"

definition sample_update :: update_policy_request where
  "sample_update = \<lparr>ur_policy = StrongId ''pol'', ur_update = \<lparr>pu_scope = sample_policy_scope, pu_semantics = latency_semantics\<rparr>,
     ur_context = sample_context\<lparr>mc_expected_policy_generation := Some gen_first\<rparr>\<rparr>"

definition sample_notification :: "upstream_event \<Rightarrow> path_id \<Rightarrow> upstream_notification" where
  "sample_notification ev path = \<lparr>un_event = ev, un_policy = StrongId ''pol'', un_binding = sample_candidate path,
     un_provenance = \<lparr>up_publisher = no_id, up_worker_boot = no_id, up_epoch = no_gen, up_attempt = no_id, up_origin = []\<rparr>,
     un_expected_previous = None\<rparr>"

lemma sample_fingerprint: "fingerprint_policy sc ps \<noteq> None"
  by (simp add: fingerprint_policy_def)

lemma create_policy_accepts:
  assumes "id_valid (cr_name rq)" "sc_well_formed (cr_scope rq)" "ps_valid (cr_semantics rq) = None"
    and "check_caller (en_state e) (cr_context rq) (Some (pt_route (ps_target (cr_semantics rq))))
      (pt_multipath_set (ps_target (cr_semantics rq))) = Inr reg"
    and "as_covers_route (pr_scope reg) (sc_fabric (cr_scope rq)) (sc_namespace (cr_scope rq)) (pt_route (ps_target (cr_semantics rq)))"
    and "scope_within_limits (en_limits e) (cr_scope rq)" "semantics_within_limits (en_limits e) (cr_semantics rq)"
    and "length (ps_priorities (cr_semantics rq)) \<le> unat (lim_max_candidates_per_policy (en_limits e))"
    and "unat (cb_max_adaptations (ps_churn (cr_semantics rq))) \<le> unat (lim_max_adaptations_per_window (en_limits e))"
    and "\<not> dr_enabled (ps_dampening (cr_semantics rq))"
    and "id_valid (mc_attempt (cr_context rq))" "om_find (g_attempts (en_state e)) (mc_attempt (cr_context rq)) = None"
    and "om_find (g_policy_names (en_state e)) (cr_name rq) = None"
    and "length (g_policies (en_state e)) < unat (lim_max_policies (en_limits e))"
    and "next_policy_id (en_ids e) = Some (ids, pid)"
  shows "\<exists>e' res. create_policy now rq e = Some (e', res) \<and> or_mutated res"
proof -
  have "replay_check (mc_attempt (cr_context rq)) f e = (e, None)" for f
    using assms(11,12) by (simp add: replay_check_def Let_def)
  then show ?thesis
    using assms by (simp add: create_policy_def Let_def fingerprint_policy_def not_less not_le)
qed

lemma sample_create_mutates: "\<exists>e' res. create_policy 7 sample_create sample_engine = Some (e', res) \<and> or_mutated res"
proof -
  have "case check_caller (en_state sample_engine) (cr_context sample_create)
      (Some (pt_route (ps_target (cr_semantics sample_create)))) (pt_multipath_set (ps_target (cr_semantics sample_create))) of
      Inl _ \<Rightarrow> False | Inr reg \<Rightarrow> as_covers_route (pr_scope reg) (sc_fabric (cr_scope sample_create))
        (sc_namespace (cr_scope sample_create)) (pt_route (ps_target (cr_semantics sample_create)))" by code_simp
  then obtain reg where reg: "check_caller (en_state sample_engine) (cr_context sample_create)
      (Some (pt_route (ps_target (cr_semantics sample_create)))) (pt_multipath_set (ps_target (cr_semantics sample_create))) = Inr reg"
    "as_covers_route (pr_scope reg) (sc_fabric (cr_scope sample_create)) (sc_namespace (cr_scope sample_create))
       (pt_route (ps_target (cr_semantics sample_create)))" by (auto split: sum.splits)
  have "next_policy_id (en_ids sample_engine) \<noteq> None" by code_simp
  then obtain ids pid where id: "next_policy_id (en_ids sample_engine) = Some (ids, pid)" by auto
  have "g_policies (en_state sample_engine) = []" by code_simp
  then have room: "length (g_policies (en_state sample_engine)) < unat (lim_max_policies (en_limits sample_engine))"
    by (simp add: sample_limits default_limits_def)
  show ?thesis by (rule create_policy_accepts[OF _ _ _ reg _ _ _ _ _ _ _ _ room id]; code_simp)
qed

lemma sample_update_mutates: "or_mutated (snd (update_policy 7 sample_update sample_active))"
proof -
  obtain f where f: "fingerprint_policy (pu_scope (ur_update sample_update)) (pu_semantics (ur_update sample_update)) = Some f"
    using sample_fingerprint by (metis not_None_eq)
  have "case check_caller (en_state sample_active) (ur_context sample_update)
        (Some (pt_route (ps_target (pu_semantics (ur_update sample_update))))) (pt_multipath_set (ps_target (pu_semantics (ur_update sample_update)))) of
        Inl _ \<Rightarrow> False | Inr reg \<Rightarrow> as_covers_route (pr_scope reg) (sc_fabric (pu_scope (ur_update sample_update)))
          (sc_namespace (pu_scope (ur_update sample_update))) (pt_route (ps_target (pu_semantics (ur_update sample_update))))" by code_simp
  then obtain reg where reg: "check_caller (en_state sample_active) (ur_context sample_update)
        (Some (pt_route (ps_target (pu_semantics (ur_update sample_update))))) (pt_multipath_set (ps_target (pu_semantics (ur_update sample_update)))) = Inr reg"
    "as_covers_route (pr_scope reg) (sc_fabric (pu_scope (ur_update sample_update)))
          (sc_namespace (pu_scope (ur_update sample_update))) (pt_route (ps_target (pu_semantics (ur_update sample_update))))"
    by (auto split: sum.splits)
  have g: "id_valid (ur_policy sample_update)" "sc_well_formed (pu_scope (ur_update sample_update))"
    "ps_valid (pu_semantics (ur_update sample_update)) = None"
    "\<not> policy_lifecycle_terminal (ap_lifecycle (pc_policy sample_record))"
    "mc_expected_policy_generation (ur_context sample_update) = Some (ap_generation (pc_policy sample_record))"
    "scope_within_limits (en_limits sample_active) (pu_scope (ur_update sample_update))"
    "semantics_within_limits (en_limits sample_active) (pu_semantics (ur_update sample_update))"
    "id_valid (mc_attempt (ur_context sample_update))" "om_find (g_attempts (en_state sample_active)) (mc_attempt (ur_context sample_update)) = None"
    "gen_next (ap_generation (pc_policy sample_record)) \<noteq> None"
    by code_simp+
  have r: "om_find (g_policies (en_state sample_active)) (ur_policy sample_update) = Some sample_record"
    by (simp add: sample_update_def sample_active_record)
  have "replay_check (mc_attempt (ur_context sample_update)) f sample_active = (sample_active, None)"
    using g by (simp add: replay_check_def)
  with f reg g r show ?thesis by (auto simp: update_policy_def Let_def)
qed

end
