(* ===== verification/Publication_Contract.thy ===== *)
theory Publication_Contract
  imports Publication Sample
begin

text \<open>
  Evidence publication honours the engine contract.  The heart of it is that the per-key view the
  validation pass keeps (\<open>batch_state\<close>) is exactly what the application pass will find: \<open>tracks\<close>.
\<close>

section \<open>What validation knows\<close>

definition tracks :: "state \<Rightarrow> batch_state \<Rightarrow> state \<Rightarrow> bool" where
  "tracks s b t \<longleftrightarrow> (\<forall>k. case om_find b k of
       None \<Rightarrow> om_find (g_evidence t) k = om_find (g_evidence s) k
     | Some y \<Rightarrow> (\<exists>x. om_find (g_evidence t) k = Some x \<and> gen_value (se_source_generation x) = bk_source_generation y
         \<and> se_quality x = bk_quality y \<and> bk_source_generation y \<noteq> 0
         \<and> (case om_find (g_evidence s) k of None \<Rightarrow> True | Some z \<Rightarrow> gen_value (se_source_generation z) \<le> bk_source_generation y
              \<and> (gen_value (se_source_generation z) = bk_source_generation y \<longrightarrow> se_quality z = bk_quality y))
         \<and> (se_samples x \<noteq> [] \<longrightarrow> es_sequence (last (se_samples x)) = bk_last_sequence y)))"

text \<open>What an admitted publication is in relation to the series it will be appended to.\<close>

definition follows :: "evidence_publication \<Rightarrow> evidence_series option \<Rightarrow> bool" where
  "follows p found = (case found of None \<Rightarrow> True
     | Some x \<Rightarrow> se_source_generation x \<le> ep_source_generation p
         \<and> (se_source_generation x = ep_source_generation p \<longrightarrow> se_quality x = ep_quality p
             \<and> (se_samples x = [] \<or> es_sequence (last (se_samples x)) = 0 \<or> es_sequence (last (se_samples x)) < ep_sequence p)))"

lemma generation_eq_value: "a = b \<longleftrightarrow> gen_value a = gen_value b" for a b :: "'a generation"
  by (cases a; cases b) simp

lemma tracks_refl: "tracks s [] s"
  by (simp add: tracks_def)

lemma check_publication_admits:
  assumes "check_publication l s reg b p = Inr b'" and "tracks s b t"
  shows "b' = om_put (publication_key p) \<lparr>bk_source_generation = gen_value (ep_source_generation p),
           bk_last_sequence = ep_sequence p, bk_quality = ep_quality p\<rparr> b"
    and "ep_well_formed p" and "path_authorised s reg (ep_path p)"
    and "follows p (om_find (g_evidence t) (publication_key p))"
    and "case om_find (g_evidence s) (publication_key p) of None \<Rightarrow> True
      | Some z \<Rightarrow> gen_value (se_source_generation z) \<le> gen_value (ep_source_generation p)
          \<and> (gen_value (se_source_generation z) = gen_value (ep_source_generation p) \<longrightarrow> se_quality z = ep_quality p)"
proof -
  show b': "b' = om_put (publication_key p) \<lparr>bk_source_generation = gen_value (ep_source_generation p),
           bk_last_sequence = ep_sequence p, bk_quality = ep_quality p\<rparr> b"
    and wf: "ep_well_formed p" and "path_authorised s reg (ep_path p)"
    using assms(1) by (auto simp: check_publication_def Let_def split: if_splits)
  have g: "gen_value (ep_source_generation p) \<noteq> 0" using wf by (simp add: ep_well_formed_def gen_valid_def)
  note tr = spec[OF assms(2)[unfolded tracks_def], of "publication_key p"]
  show "case om_find (g_evidence s) (publication_key p) of None \<Rightarrow> True
      | Some z \<Rightarrow> gen_value (se_source_generation z) \<le> gen_value (ep_source_generation p)
          \<and> (gen_value (se_source_generation z) = gen_value (ep_source_generation p) \<longrightarrow> se_quality z = ep_quality p)"
    using assms(1) g
    by (auto simp: check_publication_def Let_def max_def not_less split: if_splits option.splits)
  show "follows p (om_find (g_evidence t) (publication_key p))"
  proof (cases "om_find b (publication_key p)")
    case None
    with tr assms(1) g show ?thesis
      by (cases "om_find (g_evidence s) (publication_key p)")
        (auto simp: follows_def check_publication_def Let_def less_generation_def gen_less_def less_eq_generation_def gen_less_eq_def generation_eq_value
          not_less max_def split: if_splits)
  next
    case (Some y)
    with tr obtain x where x: "om_find (g_evidence t) (publication_key p) = Some x"
      "gen_value (se_source_generation x) = bk_source_generation y" "se_quality x = bk_quality y" "bk_source_generation y \<noteq> 0"
      "se_samples x \<noteq> [] \<longrightarrow> es_sequence (last (se_samples x)) = bk_last_sequence y"
      "case om_find (g_evidence s) (publication_key p) of None \<Rightarrow> True | Some z \<Rightarrow> gen_value (se_source_generation z) \<le> bk_source_generation y
         \<and> (gen_value (se_source_generation z) = bk_source_generation y \<longrightarrow> se_quality z = bk_quality y)"
      by auto
    show ?thesis
      using assms(1) g x Some
      by (cases "om_find (g_evidence s) (publication_key p)")
        (auto simp: follows_def check_publication_def Let_def less_generation_def gen_less_def less_eq_generation_def gen_less_eq_def generation_eq_value
          not_less max_def split: if_splits)
  qed
qed

lemma fifo_trim_last: "fifo_trim n (xs @ [v]) \<noteq> [] \<Longrightarrow> last (fifo_trim n (xs @ [v])) = v"
  by (auto simp: fifo_trim_drop)

lemma push_sample_ok:
  assumes "series_ok l k x" and "es_path v = se_path x" "mv_ok (es_value v)" "mv_kind (es_value v) = se_kind x"
    and "se_samples x = [] \<or> es_sequence (last (se_samples x)) \<le> es_sequence v"
  shows "series_ok l k (push_sample l v x)"
proof -
  let ?n = "unat (lim_max_evidence_samples_per_series l)"
  have "sorted (map es_sequence (se_samples x @ [v]))"
    using assms(1,5) by (cases "se_samples x" rule: rev_cases) (auto simp: series_ok_def sorted_append)
  then have "sorted (map es_sequence (fifo_trim ?n (se_samples x @ [v])))"
    unfolding fifo_trim_drop drop_map[symmetric] by (rule sorted_wrt_drop)
  moreover have "set (fifo_trim ?n (se_samples x @ [v])) \<subseteq> insert v (set (se_samples x))"
    by (auto simp: fifo_trim_drop dest: in_set_dropD)
  ultimately show ?thesis
    using assms(1-4) by (auto simp: series_ok_def push_sample_def fifo_trim_drop)
qed

text \<open>One admitted publication.\<close>

lemma apply_publication_find:
  "\<exists>x. (\<forall>k. om_find (g_evidence (apply_publication l now p s)) k =
     (if k = publication_key p then Some (push_sample l \<lparr>es_path = ep_path p, es_value = ep_value p, es_accepted_at = now,
        es_sequence = ep_sequence p\<rparr> x) else om_find (g_evidence s) k))
   \<and> (case om_find (g_evidence s) (publication_key p) of None \<Rightarrow> x = fresh_series p
      | Some y \<Rightarrow> if se_source_generation y < ep_source_generation p
          then x = y\<lparr>se_samples := [], se_source_generation := ep_source_generation p, se_quality := ep_quality p\<rparr> else x = y)"
  by (cases "om_find (g_evidence s) (publication_key p)")
    (auto simp: apply_publication_def Let_def om_find_put split: option.split)

definition same_core :: "state \<Rightarrow> state \<Rightarrow> bool" where
  "same_core s t \<longleftrightarrow> g_policies t = g_policies s \<and> g_registrations t = g_registrations s
     \<and> g_fenced_boots t = g_fenced_boots s \<and> g_fences t = g_fences s \<and> g_by_path t = g_by_path s
     \<and> g_revocations t = g_revocations s \<and> g_attempts t = g_attempts s \<and> g_attempt_order t = g_attempt_order s
     \<and> g_epoch t = g_epoch s \<and> g_authority_generation t = g_authority_generation s
     \<and> g_evidence_generation t = g_evidence_generation s \<and> g_upstream_watermark t = g_upstream_watermark s
     \<and> g_evidence_watermark s \<le> g_evidence_watermark t"

lemma same_core_trans: "same_core a b \<Longrightarrow> same_core b c \<Longrightarrow> same_core a c"
  by (auto simp: same_core_def)

lemma apply_publication_core: "same_core s (apply_publication l now p s)"
  using wm_next_SomeD(2)[of "g_evidence_watermark s"]
  by (auto simp: same_core_def apply_publication_def Let_def split: option.split)

lemma apply_publication_om_ok: "om_ok (g_evidence s) \<Longrightarrow> om_ok (g_evidence (apply_publication l now p s))"
  by (auto simp: apply_publication_def Let_def om_simps split: option.split)

lemma fresh_series_ok: "series_ok l (publication_key p) (fresh_series p)"
  by (simp add: series_ok_def fresh_series_def publication_key_def)

lemma apply_publication_step:
  assumes "check_publication l s reg b p = Inr b'" and "tracks s b t" and "evidence_ok l (g_evidence t)" and "mv_ok (ep_value p)"
  shows "tracks s b' (apply_publication l now p t) \<and> evidence_ok l (g_evidence (apply_publication l now p t))"
proof -
  let ?k = "publication_key p"
  let ?v = "\<lparr>es_path = ep_path p, es_value = ep_value p, es_accepted_at = now, es_sequence = ep_sequence p\<rparr>"
  note adm = check_publication_admits[OF assms(1,2)]
  obtain x where find: "\<And>j. om_find (g_evidence (apply_publication l now p t)) j
      = (if j = ?k then Some (push_sample l ?v x) else om_find (g_evidence t) j)"
    and x: "case om_find (g_evidence t) ?k of None \<Rightarrow> x = fresh_series p
      | Some y \<Rightarrow> if se_source_generation y < ep_source_generation p
          then x = y\<lparr>se_samples := [], se_source_generation := ep_source_generation p, se_quality := ep_quality p\<rparr> else x = y"
    using apply_publication_find[of l now p t] by blast
  have old: "series_ok l ?k y" if "om_find (g_evidence t) ?k = Some y" for y
    using assms(3) that unfolding evidence_ok_def by blast
  have gen: "se_source_generation x = ep_source_generation p" "se_quality x = ep_quality p" "series_ok l ?k x"
    "se_samples x = [] \<or> es_sequence (last (se_samples x)) \<le> ep_sequence p"
    using x adm(4) old fresh_series_ok[of l p]
    by (auto simp: follows_def fresh_series_def series_ok_def split: option.splits if_splits)
  have ok: "series_ok l ?k (push_sample l ?v x)"
    using gen assms(4) by (intro push_sample_ok) (auto simp: series_ok_def publication_key_def)
  have "evidence_ok l (g_evidence (apply_publication l now p t))"
    using assms(3) ok apply_publication_om_ok find by (auto simp: evidence_ok_def split: if_splits)
  moreover have "tracks s b' (apply_publication l now p t)"
    using assms(2) adm gen unfolding tracks_def adm(1) find om_find_put
    by (auto simp: push_sample_def fifo_trim_last ep_well_formed_def gen_valid_def split: option.splits)
  ultimately show ?thesis by blast
qed

section \<open>The batch\<close>

lemma apply_batch_core: "same_core s (apply_batch l clock ps s)"
proof (induction ps arbitrary: s clock)
  case (Cons p ps)
  show ?case using same_core_trans[OF apply_publication_core Cons] by simp
qed (simp add: same_core_def)

lemma apply_batch_step:
  assumes "check_batch l s reg b ps = Inr b'" and "tracks s b t" and "evidence_ok l (g_evidence t)" and "\<forall>p \<in> set ps. mv_ok (ep_value p)"
  shows "tracks s b' (apply_batch l clock ps t) \<and> evidence_ok l (g_evidence (apply_batch l clock ps t))"
  using assms
proof (induction ps arbitrary: b t clock)
  case (Cons p ps)
  then obtain b1 where b1: "check_publication l s reg b p = Inr b1" "check_batch l s reg b1 ps = Inr b'"
    by (auto split: sum.splits)
  have "tracks s b1 (apply_publication l (clock 0) p t) \<and> evidence_ok l (g_evidence (apply_publication l (clock 0) p t))"
    using apply_publication_step[OF b1(1)] Cons.prems by simp
  with Cons.IH[OF b1(2)] Cons.prems show ?case by simp
qed simp

lemma check_publication_refused: "check_publication l s reg b p = Inl r \<Longrightarrow> \<not> or_mutated r \<and> \<not> or_ok r"
  by (auto simp: check_publication_def Let_def outcome_is_success_def split: if_splits)

lemma check_batch_refused: "check_batch l s reg b ps = Inl r \<Longrightarrow> \<not> or_mutated r \<and> \<not> or_ok r"
  by (induction ps arbitrary: b) (auto dest: check_publication_refused split: sum.splits)

lemma link_sources_state: "\<exists>m. link_sources ps s = s\<lparr>g_by_source := m\<rparr>"
proof -
  have "\<exists>m. foldl (\<lambda>s p. (case om_find (g_by_path s) (ep_path p) of None \<Rightarrow> s
      | Some dependents \<Rightarrow> s\<lparr>g_by_source := foldl (\<lambda>ix policy. index_add (ep_source p) policy ix) (g_by_source s) (oset_elems dependents)\<rparr>))
      (s\<lparr>g_by_source := i\<rparr>) ps = s\<lparr>g_by_source := m\<rparr>" for i
    by (induction ps arbitrary: i) (auto split: option.split)
  from this[of "g_by_source s"] show ?thesis by (simp add: link_sources_def)
qed

definition published_state :: "limits \<Rightarrow> (nat \<Rightarrow> ticks) \<Rightarrow> mutation_attempt_id \<Rightarrow> evidence_publication list \<Rightarrow> evidence_generation \<Rightarrow> state \<Rightarrow> state" where
  "published_state l clock a ps g s =
     record_attempt l a (evidence_fingerprint ps) Out_POLICY_UPDATED ''evidence published''
       (link_sources ps ((apply_batch l clock ps s)\<lparr>g_evidence_generation := g\<rparr>))"

lemma publish_evidence_ends:
  obtains (refused) c where "fst (publish_evidence clock rq e) = e\<lparr>en_counters := c\<rparr>" "\<not> or_mutated (snd (publish_evidence clock rq e))"
  | (exhausted) reg b where "check_caller (en_state e) (er_context rq) None None = Inr reg"
      "check_batch (en_limits e) (en_state e) reg [] (er_publications rq) = Inr b"
      "gen_next (g_evidence_generation (en_state e)) = None"
      "fst (publish_evidence clock rq e) = e\<lparr>en_state := apply_batch (en_limits e) clock (er_publications rq) (en_state e)\<rparr>"
      "\<not> or_mutated (snd (publish_evidence clock rq e))"
      "or_outcome (snd (publish_evidence clock rq e)) = Out_GENERATION_OVERFLOW"
  | (published) reg b g c where "check_caller (en_state e) (er_context rq) None None = Inr reg"
      "check_batch (en_limits e) (en_state e) reg [] (er_publications rq) = Inr b"
      "gen_next (g_evidence_generation (en_state e)) = Some g"
      "fst (publish_evidence clock rq e) = e\<lparr>en_state := published_state (en_limits e) clock (mc_attempt (er_context rq))
         (er_publications rq) g (en_state e), en_counters := c\<rparr>"
      "or_mutated (snd (publish_evidence clock rq e))" "or_outcome (snd (publish_evidence clock rq e)) = Out_POLICY_UPDATED"
proof -
  obtain e' res where u: "publish_evidence clock rq e = (e', res)" by (cases "publish_evidence clock rq e")
  have id: "e\<lparr>en_counters := en_counters e\<rparr> = e" by simp
  have gen: "g_evidence_generation (apply_batch l clock ps s) = g_evidence_generation s" for l ps s
    using apply_batch_core[of s l clock ps] by (simp add: same_core_def)
  note def = u[unfolded publish_evidence_def Let_def published_state_def[symmetric] gen, simplified]
  show ?thesis
  proof (cases "e' = e \<and> \<not> or_mutated res")
    case True then show ?thesis using id u by (intro refused[of "en_counters e"]) auto
  next
    case F: False
    then have g: "er_publications rq \<noteq> []" "\<not> unat (lim_max_batch_size (en_limits e)) < length (er_publications rq)"
      using def by (auto split: if_splits)
    from F def g obtain reg where reg: "check_caller (en_state e) (er_context rq) None None = Inr reg"
      by (cases "check_caller (en_state e) (er_context rq) None None") auto
    show ?thesis
    proof (cases rule: replay_check_cases[of "mc_attempt (er_context rq)" "evidence_fingerprint (er_publications rq)" e])
      case (answered c r)
      with def g reg have "e' = e\<lparr>en_counters := c\<rparr>" "res = r" by simp_all
      with answered u show ?thesis by (intro refused[of c]) simp_all
    next
      case fresh
      note def' = def[unfolded fresh reg, simplified g, simplified]
      show ?thesis
      proof (cases "check_batch (en_limits e) (en_state e) reg [] (er_publications rq)")
        case (Inl r)
        with def' F check_batch_refused[OF Inl] show ?thesis by simp
      next
        case b: (Inr b)
        show ?thesis
        proof (cases "gen_next (g_evidence_generation (en_state e))")
          case None
          with def' b have "e' = e\<lparr>en_state := apply_batch (en_limits e) clock (er_publications rq) (en_state e)\<rparr>"
            "or_outcome res = Out_GENERATION_OVERFLOW" "\<not> or_mutated res" by auto
          with u show ?thesis by (intro exhausted[OF reg b None]) simp_all
        next
          case (Some g)
          with def' b have "e' = e\<lparr>en_state := published_state (en_limits e) clock (mc_attempt (er_context rq))
              (er_publications rq) g (en_state e), en_counters := (en_counters e)\<lparr>fb_evidence_generation := g\<rparr>\<rparr>"
            "or_outcome res = Out_POLICY_UPDATED" "or_mutated res" by auto
          with u show ?thesis by (intro published[OF reg b Some]) simp_all
        qed
      qed
    qed
  qed
qed

lemma evidence_state_ok:
  assumes "state_ok l s" and "same_core s t" and "evidence_ok l (g_evidence t)"
  shows "state_ok l t \<and> state_extends s t"
  using assms by (simp add: state_ok_def state_extends_def same_core_def revocations_ok_def)

lemma published_state_contract:
  assumes "state_ok l s" and "check_batch l s reg [] ps = Inr b" and "\<forall>p \<in> set ps. mv_ok (ep_value p)"
    and "gen_next (g_evidence_generation s) = Some g"
  shows "state_ok l (apply_batch l clock ps s) \<and> state_extends s (apply_batch l clock ps s)"
    and "state_ok l (published_state l clock a ps g s) \<and> state_extends s (published_state l clock a ps g s)"
proof -
  let ?t = "apply_batch l clock ps s"
  have ev: "evidence_ok l (g_evidence s)" using assms(1) by (simp add: state_ok_def)
  show 1: "state_ok l ?t \<and> state_extends s ?t"
    using evidence_state_ok[OF assms(1) apply_batch_core] apply_batch_step[OF assms(2) tracks_refl ev assms(3)] by blast
  have "g_evidence_generation ?t \<le> g"
    using apply_batch_core[of s l clock ps] gen_next_SomeD(2)[OF assms(4)] by (simp add: same_core_def)
  then have 2: "state_ok l (?t\<lparr>g_evidence_generation := g\<rparr>) \<and> state_extends ?t (?t\<lparr>g_evidence_generation := g\<rparr>)"
    using 1 by (simp add: state_ok_def state_extends_def revocations_ok_def)
  obtain m where m: "link_sources ps (?t\<lparr>g_evidence_generation := g\<rparr>) = ?t\<lparr>g_evidence_generation := g\<rparr>\<lparr>g_by_source := m\<rparr>"
    using link_sources_state by blast
  have "state_extends s (?t\<lparr>g_evidence_generation := g\<rparr>)" using 1 2 state_extends_trans by blast
  then have "state_ok l (?t\<lparr>g_evidence_generation := g\<rparr>\<lparr>g_by_source := m\<rparr>) \<and> state_extends s (?t\<lparr>g_evidence_generation := g\<rparr>\<lparr>g_by_source := m\<rparr>)"
    using 2 by (simp add: state_ok_def state_extends_def revocations_ok_def)
  then show "state_ok l (published_state l clock a ps g s) \<and> state_extends s (published_state l clock a ps g s)"
    unfolding published_state_def m using record_attempt_contract state_extends_trans by blast
qed

lemma publish_evidence_contract:
  assumes "engine_ok e" and "\<forall>p \<in> set (er_publications rq). mv_ok (ep_value p)"
  shows "engine_ok (fst (publish_evidence clock rq e)) \<and> engine_extends e (fst (publish_evidence clock rq e))"
proof (cases rule: publish_evidence_ends[of clock rq e])
  case (refused c)
  with assms show ?thesis by simp
next
  case (exhausted reg b)
  have "engine_ok (e\<lparr>en_state := apply_batch (en_limits e) clock (er_publications rq) (en_state e)\<rparr>)
      \<and> engine_extends e (e\<lparr>en_state := apply_batch (en_limits e) clock (er_publications rq) (en_state e)\<rparr>)"
    by (rule engine_contract_state(1)[OF assms(1)])
      (use evidence_state_ok[OF _ apply_batch_core] apply_batch_step[OF exhausted(2) tracks_refl _ assms(2)] in \<open>auto simp: state_ok_def\<close>)
  then show ?thesis unfolding exhausted(4) .
next
  case (published reg b g c)
  have "state_ok (en_limits e) (en_state e)" using assms(1) by (simp add: engine_ok_def)
  from published_state_contract(2)[OF this published(2) assms(2) published(3)]
  show ?thesis unfolding published(4) by (rule engine_okI)
qed

text \<open>
  A metric value of the code is built by a checking constructor only, so a request that holds other
  values does not exist: on such an argument of the model the operation is no operation at all.
\<close>

definition publication_typed :: "publish_evidence_request \<Rightarrow> bool" where
  "publication_typed rq = (\<forall>p \<in> set (er_publications rq). mv_ok (ep_value p))"

interpretation publish: engine_operation "\<lambda>e. if publication_typed rq then Some (publish_evidence clock rq e) else None" for rq clock
  by unfold_locales (metis publish_evidence_contract publication_typed_def fst_conv option.inject option.distinct(1))

end
