(* ===== verification/Policy_Guarantees.thy ===== *)
theory Policy_Guarantees
  imports Sample
begin

text \<open>
  What the policy operations and the upstream batch of \<^verbatim>\<open>src/fabric_policy.cpp\<close> guarantee beyond the
  engine contract: authorised creation, optimistic update, lifecycle, and who makes a path legal.
\<close>

section \<open>Guarantees of the policy operations\<close>

lemma created_state_policies:
  "g_policies (created_state l a f p s) =
     (if om_find (g_policies s) (ap_id p) = None then om_put (ap_id p) (fresh_record p) (g_policies s) else g_policies s)"
  by (simp add: created_state_def Let_def)

lemma record_attempt_names [simp]: "g_policy_names (record_attempt l a f c d s) = g_policy_names s"
  by (simp add: record_attempt_def prune_attempts_def Let_def split: option.split prod.split)

lemma reindex_policy_names [simp]: "g_policy_names (reindex_policy l p s) = g_policy_names s"
  by (simp add: reindex_policy_def Let_def split: option.split)

lemma put_policy_names [simp]: "g_policy_names (put_policy p r s) = g_policy_names s"
  by (simp add: put_policy_def)

lemma created_state_names: "g_policy_names (created_state l a f p s) = om_put (ap_name p) (ap_id p) (g_policy_names s)"
  by (simp add: created_state_def Let_def)

text \<open>
  a policy comes into being only under authority.  A creation that mutates had a caller accepted
  for the target's route and set, a policy scope inside that caller's scope, semantics that pass
  validation, a name not in use and room in the policy table; the policy it answers with bears the
  requested name, scope and semantics, is owned by the caller, DECLARED (so it may not adapt yet),
  at generation one and without candidates; the name leads to it; no other policy is touched.
\<close>

theorem creation_is_authorised:
  assumes "create_policy now rq e = Some (e', res)" and "or_mutated res"
  shows "\<exists>reg p. check_caller (en_state e) (cr_context rq) (Some (pt_route (ps_target (cr_semantics rq))))
            (pt_multipath_set (ps_target (cr_semantics rq))) = Inr reg
     \<and> as_covers_route (pr_scope reg) (sc_fabric (cr_scope rq)) (sc_namespace (cr_scope rq)) (pt_route (ps_target (cr_semantics rq)))
     \<and> ps_valid (cr_semantics rq) = None \<and> om_find (g_policy_names (en_state e)) (cr_name rq) = None
     \<and> length (g_policies (en_state e)) < unat (lim_max_policies (en_limits e))
     \<and> ap_name p = cr_name rq \<and> ap_scope p = cr_scope rq \<and> ap_semantics p = cr_semantics rq
     \<and> ap_owner p = mc_publisher (cr_context rq) \<and> ap_lifecycle p = PL_DECLARED \<and> ap_generation p = gen_first
     \<and> or_policy res = ap_id p \<and> om_find (g_policy_names (en_state e')) (cr_name rq) = Some (ap_id p)
     \<and> (find_policy e (ap_id p) = None \<longrightarrow> find_policy e' (ap_id p) = Some p \<and> candidates e' (ap_id p) = [])
     \<and> (\<forall>q. q \<noteq> ap_id p \<longrightarrow> om_find (g_policies (en_state e')) q = om_find (g_policies (en_state e)) q)"
  using assms(1)
proof (cases rule: create_policy_ends)
  case (created f p ids reg)
  have "om_find (g_policy_names (en_state e')) (cr_name rq) = Some (ap_id p)"
    using created by (simp add: created_state_names om_find_put)
  moreover have "find_policy e' (ap_id p) = Some p \<and> candidates e' (ap_id p) = []" if "find_policy e (ap_id p) = None"
    using that created by (simp add: find_policy_def candidates_def created_state_policies om_find_put fresh_record_def)
  moreover have "om_find (g_policies (en_state e')) q = om_find (g_policies (en_state e)) q" if "q \<noteq> ap_id p" for q
    using that created by (simp add: created_state_policies om_find_put)
  ultimately show ?thesis using created by (intro exI[of _ reg] exI[of _ p]) simp
next
  case (refused c)
  with assms(2) show ?thesis by blast
next
  case (recorded f c d)
  with assms(2) show ?thesis by blast
qed

theorem creation_is_authorised_witness:
  "\<exists>e' res p. create_policy 7 sample_create sample_engine = Some (e', res) \<and> find_policy e' (or_policy res) = Some p
     \<and> ap_lifecycle p = PL_DECLARED \<and> ap_owner p = StrongId ''pub''"
proof -
  obtain e' res where c: "create_policy 7 sample_create sample_engine = Some (e', res)" "or_mutated res"
    using sample_create_mutates by blast
  from creation_is_authorised[OF c] obtain p where p: "or_policy res = ap_id p" "ap_lifecycle p = PL_DECLARED"
      "ap_owner p = mc_publisher (cr_context sample_create)"
      "find_policy sample_engine (ap_id p) = None \<longrightarrow> find_policy e' (ap_id p) = Some p \<and> candidates e' (ap_id p) = []" by (elim exE conjE) (rule that; simp)
  have "g_policies (en_state sample_engine) = []" by code_simp
  then have "find_policy sample_engine (ap_id p) = None" by (simp add: find_policy_def)
  moreover have "mc_publisher (cr_context sample_create) = StrongId ''pub''" by code_simp
  ultimately have "find_policy e' (or_policy res) = Some p \<and> ap_lifecycle p = PL_DECLARED \<and> ap_owner p = StrongId ''pub''"
    using p by simp
  with c(1) show ?thesis by blast
qed

lemma unindex_reindex_policies: "g_policies (updated_state now l a f p u g r s) =
    om_put p (retarget_record now (g_epoch s) u g r) (g_policies s)"
  by (simp add: updated_state_def Let_def)

text \<open>
  an update is optimistic and loses nothing.  An update that mutates named the generation the
  policy had, of a policy that is not terminal; the policy then carries the new scope and semantics
  under the next generation with its name, owner and lifecycle unchanged, and forgets its candidates
  and timing exactly when the target changed; a second update that still names the old generation is
  refused, whatever it carries.
\<close>

theorem update_is_optimistic:
  assumes "or_mutated (snd (update_policy now rq e))" and "e' = fst (update_policy now rq e)"
    and "ur_policy rq' = ur_policy rq"
    and "mc_expected_policy_generation (ur_context rq') = mc_expected_policy_generation (ur_context rq)"
  shows "(\<exists>r r'. om_find (g_policies (en_state e)) (ur_policy rq) = Some r
      \<and> om_find (g_policies (en_state e')) (ur_policy rq) = Some r'
      \<and> mc_expected_policy_generation (ur_context rq) = Some (ap_generation (pc_policy r))
      \<and> gen_next (ap_generation (pc_policy r)) = Some (ap_generation (pc_policy r'))
      \<and> \<not> policy_lifecycle_terminal (ap_lifecycle (pc_policy r))
      \<and> ap_lifecycle (pc_policy r') = ap_lifecycle (pc_policy r) \<and> ap_name (pc_policy r') = ap_name (pc_policy r)
      \<and> ap_owner (pc_policy r') = ap_owner (pc_policy r)
      \<and> ap_semantics (pc_policy r') = pu_semantics (ur_update rq) \<and> ap_scope (pc_policy r') = pu_scope (ur_update rq)
      \<and> (if ps_target (ap_semantics (pc_policy r)) = ps_target (pu_semantics (ur_update rq))
         then pc_candidates r' = pc_candidates r \<and> pc_timing r' = pc_timing r \<and> pc_preference r' = pc_preference r
         else pc_candidates r' = [] \<and> pc_timing r' = no_timing))
    \<and> \<not> or_mutated (snd (update_policy now' rq' e'))"
proof (cases rule: update_policy_ends[of now rq e])
  case (refused c)
  with assms(1) show ?thesis by simp
next
  case (updated f r g reg)
  let ?r = "retarget_record now (g_epoch (en_state e)) (ur_update rq) g r"
  have find: "om_find (g_policies (en_state e')) (ur_policy rq) = Some ?r"
    unfolding assms(2) updated(1) by (simp add: unindex_reindex_policies om_find_put)
  have rec: "ap_generation (pc_policy ?r) = g" "ap_lifecycle (pc_policy ?r) = ap_lifecycle (pc_policy r)"
    "ap_name (pc_policy ?r) = ap_name (pc_policy r)" "ap_owner (pc_policy ?r) = ap_owner (pc_policy r)"
    "ap_semantics (pc_policy ?r) = pu_semantics (ur_update rq)" "ap_scope (pc_policy ?r) = pu_scope (ur_update rq)"
    by (simp_all add: retarget_record_def Let_def)
  have same: "if ps_target (ap_semantics (pc_policy r)) = ps_target (pu_semantics (ur_update rq))
         then pc_candidates ?r = pc_candidates r \<and> pc_timing ?r = pc_timing r \<and> pc_preference ?r = pc_preference r
         else pc_candidates ?r = [] \<and> pc_timing ?r = no_timing"
    by (auto simp: retarget_record_def Let_def intro: policy_target.equality)
  have "ap_generation (pc_policy r) < g" by (rule gen_next_SomeD(2)[OF updated(6)])
  then have stale: "mc_expected_policy_generation (ur_context rq') \<noteq> Some (ap_generation (pc_policy ?r))"
    using updated(8) assms(4) rec(1) by auto
  have "\<not> or_mutated (snd (update_policy now' rq' e'))"
    by (cases rule: update_policy_ends[of now' rq' e']) (use stale find assms(3) in auto)
  with find rec same updated show ?thesis by auto
qed

theorem update_is_optimistic_witness:
  "\<not> or_mutated (snd (update_policy 8 sample_update (fst (update_policy 7 sample_update sample_active))))"
  by (rule conjunct2[OF update_is_optimistic[OF sample_update_mutates refl refl refl]])

text \<open>
  a transition follows the lifecycle machine.  Whatever the request, a policy's record either
  stays as it was, or the policy is the one named, it was not terminal, the caller was accepted for
  its target, and its lifecycle is the one the machine gives for the event (for REVALIDATE only with
  a legal, routed and available candidate; without one it is REVALIDATION_REQUIRED); nothing else
  of the record changes but the epoch, and no policy appears or disappears.
\<close>

theorem transition_follows_machine:
  "case om_find (g_policies (en_state e)) p of
     None \<Rightarrow> om_find (g_policies (en_state (fst (transition_policy rq e)))) p = None
   | Some r \<Rightarrow> \<exists>r'. om_find (g_policies (en_state (fst (transition_policy rq e)))) p = Some r'
       \<and> (r' = r \<or> (\<exists>lc ep. r' = r\<lparr>pc_policy := (pc_policy r)\<lparr>ap_lifecycle := lc, ap_epoch := ep\<rparr>\<rparr>
            \<and> p = lr_policy rq \<and> \<not> policy_lifecycle_terminal (ap_lifecycle (pc_policy r))
            \<and> (if lr_event rq = PE_REVALIDATE \<and> \<not> (\<exists>c \<in> set (pc_candidates r). usable_candidate c)
               then lc = PL_REVALIDATION_REQUIRED \<and> \<not> or_mutated (snd (transition_policy rq e))
               else apply_policy_event (ap_lifecycle (pc_policy r)) (lr_event rq) = Some lc \<and> ep = g_epoch (en_state e)
                 \<and> (\<exists>reg. check_caller (en_state e) (lr_context rq) (Some (pt_route (ps_target (ap_semantics (pc_policy r)))))
                      (pt_multipath_set (ps_target (ap_semantics (pc_policy r)))) = Inr reg))))"
proof (cases rule: transition_policy_ends[of rq e])
  case refused
  then show ?thesis by (simp split: option.split)
next
  case (unusable r)
  show ?thesis
  proof (cases "p = lr_policy rq")
    case True
    with unusable show ?thesis
      by (auto simp: om_find_put lifecycle_record_def intro!: exI[of _ PL_REVALIDATION_REQUIRED] exI[of _ "ap_epoch (pc_policy r)"])
  next
    case False
    with unusable show ?thesis by (simp add: om_find_put split: option.split)
  qed
next
  case (moved r lc reg)
  show ?thesis
  proof (cases "p = lr_policy rq")
    case True
    with moved show ?thesis
      by (auto simp: om_find_put lifecycle_record_def intro!: exI[of _ lc] exI[of _ "g_epoch (en_state e)"])
  next
    case False
    with moved show ?thesis by (simp add: om_find_put split: option.split)
  qed
qed

section \<open>Guarantees of the upstream batch\<close>

text \<open>What an event does to the declared binding of its path, as a function of the two bindings.\<close>

definition event_edit :: "upstream_notification \<Rightarrow> candidate_binding \<Rightarrow> candidate_binding" where
  "event_edit n c = (let b = un_binding n; pa = cd_path_authority b; old = cd_path_authority c in
     case un_event n of
       UE_DECLARE_CANDIDATE \<Rightarrow> b
     | UE_ADVANCE_PATH_AUTHORITY \<Rightarrow> c\<lparr>cd_path_authority := pa\<rparr>
     | UE_INVALIDATE_PATH \<Rightarrow> c\<lparr>cd_path_authority := old\<lparr>pa_legal := False,
         pa_denial_reason := (if pa_denial_reason pa = [] then ''invalidated upstream'' else pa_denial_reason pa),
         pa_generation := (if gen_valid (pa_generation pa) then pa_generation pa else pa_generation old)\<rparr>\<rparr>
     | UE_SET_MEMBERSHIP \<Rightarrow> c\<lparr>cd_multipath := cd_multipath b\<rparr>
     | UE_INVALIDATE_MULTIPATH_SET \<Rightarrow> c\<lparr>cd_multipath := map_option (\<lambda>m. m\<lparr>mb_current := False\<rparr>) (cd_multipath c)\<rparr>
     | UE_ADVANCE_ROUTE \<Rightarrow> c\<lparr>cd_route := cd_route b\<rparr>
     | UE_INVALIDATE_ROUTE \<Rightarrow> c\<lparr>cd_route := (cd_route c)\<lparr>rb_current := False\<rparr>\<rparr>
     | UE_ADVANCE_WEIGHT_POLICY \<Rightarrow> c\<lparr>cd_weighted := cd_weighted b\<rparr>
     | UE_MARK_UNAVAILABLE \<Rightarrow> c\<lparr>cd_available := False\<rparr>
     | UE_MARK_AVAILABLE \<Rightarrow> c\<lparr>cd_available := True\<rparr>
     | UE_HARD_FAILURE_SIGNAL \<Rightarrow> c\<lparr>cd_hard_failure := True\<rparr>
     | UE_CLEAR_HARD_FAILURE_SIGNAL \<Rightarrow> c\<lparr>cd_hard_failure := False\<rparr>)"

text \<open>The bindings the \<open>candidates\<close> query reports.\<close>

definition bindings :: "state \<Rightarrow> policy_id \<Rightarrow> candidate_binding list" where
  "bindings s p = (case om_find (g_policies s) p of None \<Rightarrow> [] | Some r \<Rightarrow> map ca_binding (pc_candidates r))"

lemma candidates_bindings: "candidates e p = bindings (en_state e) p"
  by (simp add: candidates_def bindings_def)

lemma bindings_invalidation [simp]:
  assumes "index_ok has (g_by_path s)"
  shows "bindings (apply_invalidation path s) p = bindings s p"
  by (simp add: bindings_def apply_invalidation_find[OF assms] split: option.split)

lemma bindings_edit:
  assumes "om_find (g_policies s) q = Some r" and "i < length (pc_candidates r)"
  shows "bindings (edit_binding q i f r s) p = (if p = q then (bindings s q)[i := f (bindings s q ! i)] else bindings s p)"
  using assms by (simp add: bindings_def edit_binding_def Let_def om_find_put map_update)

lemma edit_binding_index: "g_by_path (edit_binding q i f r s) = g_by_path s"
  by (simp add: edit_binding_def Let_def)

lemma mem_list_update: "x \<in> set (xs[i := y]) \<Longrightarrow> x = y \<or> x \<in> set xs"
  using set_update_subset_insert[of xs i y] by blast

lemma apply_event_bindings:
  assumes "apply_event l n r candidate s = Inr s'" and "om_find (g_policies s) (un_policy n) = Some r"
    and "index_ok has (g_by_path s)" and "candidate = Some i" and "i < length (pc_candidates r)"
  shows "bindings s' p = (if p = un_policy n then (bindings s p)[i := event_edit n (bindings s p ! i)] else bindings s p)"
  using assms
  by (cases "un_event n")
    (auto simp: apply_event_def declare_candidate_def event_edit_def edit_declared_def Let_def edit_binding_index
      bindings_edit split: if_splits)

lemma apply_event_undeclared:
  assumes "apply_event l n r None s = Inr s'" and "om_find (g_policies s) (un_policy n) = Some r"
    and "index_ok has (g_by_path s)" and "un_event n \<noteq> UE_DECLARE_CANDIDATE"
  shows "bindings s' p = bindings s p"
  using assms
  by (cases "un_event n") (auto simp: apply_event_def edit_declared_def Let_def)

lemma apply_event_declares:
  assumes "apply_event l n r None s = Inr s'" and "om_find (g_policies s) (un_policy n) = Some r"
    and "un_event n = UE_DECLARE_CANDIDATE"
  shows "mset (bindings s' p) = mset (bindings s p) + (if p = un_policy n then {#un_binding n#} else {#})
    \<and> pa_legal (cd_path_authority (un_binding n))"
  using assms
  by (auto simp: apply_event_def declare_candidate_def Let_def bindings_def om_find_put sort_candidates_def split: if_splits)

lemma apply_event_advances:
  assumes "apply_event l n r (Some i) s = Inr s'" and "un_event n = UE_ADVANCE_PATH_AUTHORITY"
  shows "pa_generation (cd_path_authority (ca_binding (pc_candidates r ! i))) < pa_generation (cd_path_authority (un_binding n))"
  using assms by (auto simp: apply_event_def Let_def split: if_splits)

text \<open>
  every applied upstream event edits one binding.  In a well-formed state an accepted
  notification replaces the binding its policy has declared for the path by \<open>event_edit\<close> of it,
  keeps that path and keeps the binding well formed, and leaves all other bindings of all policies
  as they were; when the path is not declared, only a declaration adds it (with a legal path
  authority), and every other event leaves all bindings alone.
\<close>

theorem upstream_event_edits_one_binding:
  assumes "state_ok l s" and "apply_notification l ctx n s = Inr s'"
  shows "(if \<exists>b \<in> set (bindings s (un_policy n)). cd_path b = cd_path (un_binding n)
      then \<exists>i < length (bindings s (un_policy n)). cd_path (bindings s (un_policy n) ! i) = cd_path (un_binding n)
         \<and> cd_path (event_edit n (bindings s (un_policy n) ! i)) = cd_path (un_binding n)
         \<and> bindings s' (un_policy n) = (bindings s (un_policy n))[i := event_edit n (bindings s (un_policy n) ! i)]
      else if un_event n = UE_DECLARE_CANDIDATE
      then mset (bindings s' (un_policy n)) = add_mset (un_binding n) (mset (bindings s (un_policy n)))
         \<and> pa_legal (cd_path_authority (un_binding n))
      else bindings s' (un_policy n) = bindings s (un_policy n))
    \<and> (\<forall>q. q \<noteq> un_policy n \<longrightarrow> mset (bindings s' q) = mset (bindings s q))"
proof -
  obtain r where r: "om_find (g_policies s) (un_policy n) = Some r" "cd_well_formed (un_binding n)"
      "apply_event l n r (find_candidate (pc_candidates r) (cd_path (un_binding n))) s = Inr s'"
    by (rule apply_notification_applied[OF assms(2)]) blast
  have ix: "index_ok (binds_path (g_policies s)) (g_by_path s)" using assms(1) by (simp add: state_ok_def)
  have cs: "candidates_ok (pc_candidates r)"
    using state_ok_record[OF assms(1) r(1)] by (simp add: policy_record_ok_def)
  have b: "bindings s (un_policy n) = map ca_binding (pc_candidates r)" using r(1) by (simp add: bindings_def)
  show ?thesis
  proof (cases "find_candidate (pc_candidates r) (cd_path (un_binding n))")
    case None
    then have no: "\<not> (\<exists>b \<in> set (bindings s (un_policy n)). cd_path b = cd_path (un_binding n))"
      using find_candidate_cases[OF cs, of "cd_path (un_binding n)"] by (force simp: b)
    note ev = r(3)[unfolded None]
    show ?thesis
      using no apply_event_undeclared[OF ev r(1) ix] apply_event_declares[OF ev r(1)] by (auto simp del: mset_eq_setD)
  next
    case (Some i)
    then have i: "i < length (pc_candidates r)" "cd_path (ca_binding (pc_candidates r ! i)) = cd_path (un_binding n)"
      using find_candidate_cases[OF cs, of "cd_path (un_binding n)"] by simp_all
    have yes: "\<exists>b \<in> set (bindings s (un_policy n)). cd_path b = cd_path (un_binding n)"
      using i by (auto simp: b intro!: bexI[of _ "pc_candidates r ! i"])
    have keeps: "cd_path (event_edit n c) = cd_path c \<or> event_edit n c = un_binding n" for c
      by (cases "un_event n") (simp_all add: event_edit_def Let_def)
    note ev = apply_event_bindings[OF r(3) r(1) ix Some i(1)]
    have "cd_path (event_edit n (bindings s (un_policy n) ! i)) = cd_path (un_binding n)"
      using keeps[of "bindings s (un_policy n) ! i"] i by (auto simp: b)
    with yes ev i show ?thesis by (auto simp: b intro!: exI[of _ i])
  qed
qed

lemma sample_invalidate:
  "\<exists>s'. apply_notification default_limits sample_context (sample_notification UE_INVALIDATE_PATH (StrongId ''p2''))
     (en_state sample_active) = Inr s' \<and> map (pa_legal \<circ> cd_path_authority) (bindings s' (StrongId ''pol'')) = [True, False]"
proof -
  have "case apply_notification default_limits sample_context (sample_notification UE_INVALIDATE_PATH (StrongId ''p2''))
     (en_state sample_active) of Inl _ \<Rightarrow> False
     | Inr s' \<Rightarrow> map (pa_legal \<circ> cd_path_authority) (bindings s' (StrongId ''pol'')) = [True, False]"
    by code_simp
  then show ?thesis by (auto split: sum.splits)
qed

lemma sample_active_state_ok: "state_ok default_limits (en_state sample_active)"
  using sample_active_ok by (simp add: engine_ok_def sample_active_limits)

theorem upstream_event_edits_one_binding_witness:
  "\<exists>s' i. apply_notification default_limits sample_context (sample_notification UE_INVALIDATE_PATH (StrongId ''p2''))
     (en_state sample_active) = Inr s' \<and> i < length (bindings (en_state sample_active) (StrongId ''pol''))
     \<and> bindings s' (StrongId ''pol'') = (bindings (en_state sample_active) (StrongId ''pol''))[i :=
         event_edit (sample_notification UE_INVALIDATE_PATH (StrongId ''p2'')) (bindings (en_state sample_active) (StrongId ''pol'') ! i)]"
proof -
  obtain s' where s': "apply_notification default_limits sample_context (sample_notification UE_INVALIDATE_PATH (StrongId ''p2''))
     (en_state sample_active) = Inr s'" using sample_invalidate by blast
  have yes: "\<exists>b \<in> set (bindings (en_state sample_active) (un_policy (sample_notification UE_INVALIDATE_PATH (StrongId ''p2'')))).
      cd_path b = cd_path (un_binding (sample_notification UE_INVALIDATE_PATH (StrongId ''p2'')))" by code_simp
  from conjunct1[OF upstream_event_edits_one_binding[OF sample_active_state_ok s'], unfolded if_P[OF yes]] s'
  show ?thesis by (auto simp: sample_notification_def)
qed

lemma event_edit_legal:
  "pa_legal (cd_path_authority (event_edit n c)) \<Longrightarrow> pa_legal (cd_path_authority c)
     \<or> un_event n \<in> {UE_DECLARE_CANDIDATE, UE_ADVANCE_PATH_AUTHORITY} \<and> pa_legal (cd_path_authority (un_binding n))"
  by (cases "un_event n") (simp_all add: event_edit_def Let_def)

text \<open>
  C39: legality comes from path authority alone.  After an accepted notification a candidate is legal
  only if it already was, or the notification declares it or advances its path authority and itself
  carries a legal path authority binding for that very policy and path; an advance of a declared
  candidate has a strictly greater path authority generation.
\<close>

theorem legality_needs_path_authority:
  assumes "state_ok l s" and "apply_notification l ctx n s = Inr s'"
    and "b' \<in> set (bindings s' p)" and "pa_legal (cd_path_authority b')"
  shows "(\<exists>b \<in> set (bindings s p). cd_path b = cd_path b' \<and> pa_legal (cd_path_authority b))
    \<or> p = un_policy n \<and> cd_path b' = cd_path (un_binding n) \<and> pa_legal (cd_path_authority (un_binding n))
      \<and> (un_event n = UE_DECLARE_CANDIDATE
         \<or> un_event n = UE_ADVANCE_PATH_AUTHORITY \<and> (\<exists>b \<in> set (bindings s p). cd_path b = cd_path b'
              \<and> pa_generation (cd_path_authority b) < pa_generation (cd_path_authority (un_binding n))))"
proof -
  obtain r where r: "om_find (g_policies s) (un_policy n) = Some r" "cd_well_formed (un_binding n)"
      "apply_event l n r (find_candidate (pc_candidates r) (cd_path (un_binding n))) s = Inr s'"
    by (rule apply_notification_applied[OF assms(2)]) blast
  have ix: "index_ok (binds_path (g_policies s)) (g_by_path s)" using assms(1) by (simp add: state_ok_def)
  have cs: "candidates_ok (pc_candidates r)"
    using state_ok_record[OF assms(1) r(1)] by (simp add: policy_record_ok_def)
  have b: "bindings s (un_policy n) = map ca_binding (pc_candidates r)" using r(1) by (simp add: bindings_def)
  show ?thesis
  proof (cases "find_candidate (pc_candidates r) (cd_path (un_binding n))")
    case None
    note ev = r(3)[unfolded None]
    show ?thesis
    proof (cases "un_event n = UE_DECLARE_CANDIDATE")
      case True
      have "b' \<in># mset (bindings s' p)" using assms(3) by simp
      with apply_event_declares[OF ev r(1) True, of p] assms(4) True show ?thesis by (auto split: if_splits)
    next
      case False
      with apply_event_undeclared[OF ev r(1) ix False] assms(3,4) show ?thesis by auto
    qed
  next
    case (Some i)
    then have i: "i < length (pc_candidates r)" "cd_path (ca_binding (pc_candidates r ! i)) = cd_path (un_binding n)"
      using find_candidate_cases[OF cs, of "cd_path (un_binding n)"] by simp_all
    let ?c = "ca_binding (pc_candidates r ! i)"
    have c: "?c \<in> set (bindings s (un_policy n))" using i by (auto simp: b)
    have keeps: "cd_path (event_edit n ?c) = cd_path ?c"
      using i by (cases "un_event n") (simp_all add: event_edit_def Let_def)
    note ev = apply_event_bindings[OF r(3) r(1) ix Some i(1), of p]
    show ?thesis
    proof (cases "b' \<in> set (bindings s p)")
      case True
      with assms(4) show ?thesis by blast
    next
      case False
      then have "p = un_policy n" "b' = event_edit n ?c"
        using assms(3) ev i mem_list_update[of b' "bindings s p" i] by (auto simp: b split: if_splits)
      moreover from this have "un_event n = UE_ADVANCE_PATH_AUTHORITY \<Longrightarrow>
          pa_generation (cd_path_authority ?c) < pa_generation (cd_path_authority (un_binding n))"
        using apply_event_advances r(3) Some by simp
      ultimately show ?thesis using event_edit_legal[of n ?c] keeps c i assms(4) by auto
    qed
  qed
qed

theorem legality_needs_path_authority_witness:
  "\<exists>s' b'. apply_notification default_limits sample_context (sample_notification UE_INVALIDATE_PATH (StrongId ''p2''))
     (en_state sample_active) = Inr s' \<and> b' \<in> set (bindings s' (StrongId ''pol''))
     \<and> (\<exists>b \<in> set (bindings (en_state sample_active) (StrongId ''pol'')). cd_path b = cd_path b' \<and> pa_legal (cd_path_authority b))"
proof -
  obtain s' where s': "apply_notification default_limits sample_context (sample_notification UE_INVALIDATE_PATH (StrongId ''p2''))
     (en_state sample_active) = Inr s'" "map (pa_legal \<circ> cd_path_authority) (bindings s' (StrongId ''pol'')) = [True, False]"
    using sample_invalidate by (elim exE conjE) (rule that)
  from s'(2) obtain b' where b': "b' \<in> set (bindings s' (StrongId ''pol''))" "pa_legal (cd_path_authority b')"
    by (cases "bindings s' (StrongId ''pol'')") auto
  have "un_event (sample_notification UE_INVALIDATE_PATH (StrongId ''p2'')) = UE_INVALIDATE_PATH"
    by (simp add: sample_notification_def)
  with legality_needs_path_authority[OF sample_active_state_ok s'(1) b']
  have "\<exists>b \<in> set (bindings (en_state sample_active) (StrongId ''pol'')). cd_path b = cd_path b' \<and> pa_legal (cd_path_authority b)"
    by simp
  with s'(1) b'(1) show ?thesis by blast
qed

lemma apply_invalidation_frame [simp]:
  "g_attempts (apply_invalidation path s) = g_attempts s" "g_epoch (apply_invalidation path s) = g_epoch s"
  "g_fenced_boots (apply_invalidation path s) = g_fenced_boots s"
  "g_registrations (apply_invalidation path s) = g_registrations s"
  "g_attempt_order (apply_invalidation path s) = g_attempt_order s"
  using apply_invalidation_state[of s path] by auto

definition same_authority :: "state \<Rightarrow> state \<Rightarrow> bool" where
  "same_authority s t = (g_attempts t = g_attempts s \<and> g_epoch t = g_epoch s \<and> g_fenced_boots t = g_fenced_boots s
     \<and> g_registrations t = g_registrations s)"

lemma apply_event_authority: "apply_event l n r c s = Inr s' \<Longrightarrow> same_authority s s'"
  by (cases "un_event n")
    (auto simp: same_authority_def apply_event_def declare_candidate_def edit_declared_def edit_binding_def Let_def
      split: if_splits option.splits)

lemma apply_notifications_authority: "same_authority s (fst (apply_notifications l ctx ns s))"
proof (induction ns arbitrary: s)
  case (Cons n ns)
  show ?case
  proof (cases "apply_notification l ctx n s")
    case (Inr t)
    then have "same_authority s t" by (rule apply_notification_applied) (rule apply_event_authority)
    with Inr Cons[of t] show ?thesis by (simp add: same_authority_def)
  qed (simp add: same_authority_def)
qed (simp add: same_authority_def)

lemma apply_notifications_prefix:
  "apply_notifications l ctx ns s = (s', Some res) \<Longrightarrow>
     \<exists>k < length ns. apply_notifications l ctx (take k ns) s = (s', None) \<and> apply_notification l ctx (ns ! k) s' = Inl res"
proof (induction ns arbitrary: s)
  case (Cons n ns)
  show ?case
  proof (cases "apply_notification l ctx n s")
    case (Inl r)
    with Cons(2) show ?thesis by (intro exI[of _ 0]) simp
  next
    case (Inr t)
    with Cons obtain k where "k < length ns" "apply_notifications l ctx (take k ns) t = (s', None)"
        "apply_notification l ctx (ns ! k) s' = Inl res" by auto
    with Inr show ?thesis by (intro exI[of _ "Suc k"]) simp
  qed
qed simp

text \<open>
  a batch applies a prefix.  When one notification of a batch is refused, exactly the
  notifications before it have taken effect, the refusal is the answer and claims no mutation, and
  the attempt is not recorded, so the very same batch is not taken for a replay; a batch never
  changes the epoch, the fences or the registrations.
\<close>

theorem refused_batch_applies_a_prefix:
  "(case apply_notifications l ctx ns s of
      (s', None) \<Rightarrow> True
    | (s', Some res) \<Rightarrow> \<not> or_mutated res \<and> (\<exists>k < length ns. apply_notifications l ctx (take k ns) s = (s', None)
        \<and> apply_notification l ctx (ns ! k) s' = Inl res))
    \<and> same_authority s (fst (apply_notifications l ctx ns s))"
  using apply_notifications_prefix[of l ctx ns s] apply_notifications_authority apply_notifications_refused[of l ctx ns s]
  by (fastforce split: prod.split option.split)

end
