(* ===== verification/Publication_Guarantees.thy ===== *)
theory Publication_Guarantees
  imports Publication_Contract Policy_Guarantees
begin

text \<open>
  What the evidence operations of \<^verbatim>\<open>src/fabric_evidence.cpp\<close> guarantee: all-or-nothing batches, series
  that never go back, the choice of the evidence a policy sees, and snapshots that hold exactly it.
\<close>

section \<open>Publication\<close>

lemma check_batch_admits:
  "check_batch l s reg b ps = Inr b' \<Longrightarrow> set ps \<subseteq> {p. ep_well_formed p \<and> path_authorised s reg (ep_path p)}"
  by (induction ps arbitrary: b) (auto simp: check_publication_def Let_def split: sum.splits if_splits)

lemma link_sources_frame [simp]:
  "g_evidence_generation (link_sources ps s) = g_evidence_generation s" "g_policies (link_sources ps s) = g_policies s"
  "g_evidence (link_sources ps s) = g_evidence s" "g_by_path (link_sources ps s) = g_by_path s"
  using link_sources_state[of ps s] by auto

lemma published_state_frame [simp]:
  "g_evidence_generation (published_state l clock a ps g s) = g"
  "g_evidence (published_state l clock a ps g s) = g_evidence (apply_batch l clock ps s)"
  "g_policies (published_state l clock a ps g s) = g_policies s"
  using apply_batch_core[of s l clock ps] by (simp_all add: published_state_def same_core_def)

text \<open>
  C27: a publication is authorised and all or nothing.  When it mutates, the caller was accepted,
  every sample is well formed and belongs to a path that some policy inside the caller's scope
  binds, and the evidence generation has moved to the next one with no policy touched; when it does
  not, the guarded state is exactly what it was, unless the evidence generation is exhausted.
\<close>

theorem publication_is_all_or_nothing:
  "case publish_evidence clock rq e of (e', res) \<Rightarrow>
     if or_mutated res
     then (\<exists>reg. check_caller (en_state e) (er_context rq) None None = Inr reg
         \<and> set (er_publications rq) \<subseteq> {p. ep_well_formed p \<and> path_authorised (en_state e) reg (ep_path p)})
       \<and> gen_next (g_evidence_generation (en_state e)) = Some (g_evidence_generation (en_state e'))
       \<and> g_policies (en_state e') = g_policies (en_state e)
     else en_state e' = en_state e
       \<or> or_outcome res = Out_GENERATION_OVERFLOW \<and> gen_next (g_evidence_generation (en_state e)) = None"
proof (cases rule: publish_evidence_ends[of clock rq e])
  case (refused c)
  then show ?thesis by (simp add: case_prod_beta)
next
  case (exhausted reg b)
  then show ?thesis by (simp add: case_prod_beta)
next
  case (published reg b g c)
  then show ?thesis using check_batch_admits[OF published(2)] by (auto simp: case_prod_beta)
qed

text \<open>How a series may change.\<close>

definition published_sample :: "evidence_publication list \<Rightarrow> evidence_key \<Rightarrow> evidence_source_generation \<Rightarrow> evidence_sample \<Rightarrow> bool" where
  "published_sample ps k g v = (\<exists>p \<in> set ps. publication_key p = k \<and> ep_source_generation p = g
     \<and> es_path v = ep_path p \<and> es_value v = ep_value p \<and> es_sequence v = ep_sequence p)"

definition series_advances :: "evidence_publication list \<Rightarrow> evidence_key \<Rightarrow> evidence_series \<Rightarrow> evidence_series \<Rightarrow> bool" where
  "series_advances ps k x y = (se_source_generation x \<le> se_source_generation y
     \<and> (se_source_generation x = se_source_generation y \<longrightarrow> se_quality y = se_quality x)
     \<and> (\<exists>n new. se_samples y = drop n ((if se_source_generation x = se_source_generation y then se_samples x else []) @ new)
          \<and> set new \<subseteq> Collect (published_sample ps k (se_source_generation y))))"

lemma series_advances_refl: "series_advances ps k x x"
  unfolding series_advances_def by (intro conjI exI[of _ 0] exI[of _ "[]"]) simp_all

lemma drop_drop_append: "drop n (drop m xs @ ys) = drop (n + min m (length xs)) (xs @ ys)"
  by (cases "m \<le> length xs") (simp_all add: add.commute)

lemma published_sample_mono: "published_sample ps k g v \<Longrightarrow> set ps \<subseteq> set qs \<Longrightarrow> published_sample qs k g v"
  by (auto simp: published_sample_def)

lemma series_advances_trans:
  assumes "series_advances ps k x y" and "series_advances qs k y z" and "set ps \<union> set qs \<subseteq> set rs"
  shows "series_advances rs k x z"
proof -
  let ?X = "if se_source_generation x = se_source_generation y then se_samples x else []"
  let ?Y = "if se_source_generation y = se_source_generation z then se_samples y else []"
  obtain n new where xy: "se_samples y = drop n (?X @ new)" "set new \<subseteq> Collect (published_sample ps k (se_source_generation y))"
    using assms(1) by (auto simp: series_advances_def)
  obtain m new' where yz: "se_samples z = drop m (?Y @ new')" "set new' \<subseteq> Collect (published_sample qs k (se_source_generation z))"
    using assms(2) by (auto simp: series_advances_def)
  have le: "se_source_generation x \<le> se_source_generation y" "se_source_generation y \<le> se_source_generation z"
    using assms(1,2) by (auto simp: series_advances_def)
  have new': "set new' \<subseteq> Collect (published_sample rs k (se_source_generation z))"
    using yz(2) assms(3) published_sample_mono by fastforce
  have "\<exists>i news. se_samples z = drop i ((if se_source_generation x = se_source_generation z then se_samples x else []) @ news)
      \<and> set news \<subseteq> Collect (published_sample rs k (se_source_generation z))"
  proof (cases "se_source_generation y = se_source_generation z")
    case True
    have "set new \<subseteq> Collect (published_sample rs k (se_source_generation z))"
      using xy(2) assms(3) published_sample_mono unfolding True by fastforce
    moreover have "se_samples z = drop (m + min n (length (?X @ new))) (?X @ (new @ new'))"
      using yz(1) True xy(1) drop_drop_append[of m n "?X @ new" new'] by simp
    ultimately show ?thesis using new' True by (intro exI[of _ "m + min n (length (?X @ new))"] exI[of _ "new @ new'"]) simp
  next
    case False
    then have "se_source_generation x \<noteq> se_source_generation z" using le by auto
    with False yz(1) new' show ?thesis by (intro exI[of _ m] exI[of _ new']) simp
  qed
  then show ?thesis using assms(1,2) le by (auto simp: series_advances_def)
qed

lemma apply_publication_advances:
  assumes "follows p (om_find (g_evidence t) (publication_key p))" and "om_find (g_evidence t) k = Some x"
  shows "\<exists>y. om_find (g_evidence (apply_publication l now p t)) k = Some y \<and> series_advances [p] k x y"
proof -
  let ?v = "\<lparr>es_path = ep_path p, es_value = ep_value p, es_accepted_at = now, es_sequence = ep_sequence p\<rparr>"
  obtain z where find: "\<And>j. om_find (g_evidence (apply_publication l now p t)) j
      = (if j = publication_key p then Some (push_sample l ?v z) else om_find (g_evidence t) j)"
    and z: "case om_find (g_evidence t) (publication_key p) of None \<Rightarrow> z = fresh_series p
      | Some y \<Rightarrow> if se_source_generation y < ep_source_generation p
          then z = y\<lparr>se_samples := [], se_source_generation := ep_source_generation p, se_quality := ep_quality p\<rparr> else z = y"
    using apply_publication_find[of l now p t] by blast
  show ?thesis
  proof (cases "k = publication_key p")
    case False
    with assms(2) find series_advances_refl show ?thesis by auto
  next
    case True
    have old: "om_find (g_evidence t) (publication_key p) = Some x" using assms(2) True by simp
    have fl: "se_source_generation x \<le> ep_source_generation p"
      "se_source_generation x = ep_source_generation p \<longrightarrow> se_quality x = ep_quality p"
      using assms(1) by (auto simp: old follows_def)
    have zz: "if se_source_generation x < ep_source_generation p
        then z = x\<lparr>se_samples := [], se_source_generation := ep_source_generation p, se_quality := ep_quality p\<rparr> else z = x"
      using z by (simp only: old option.case)
    have z': "se_source_generation z = ep_source_generation p \<and> se_source_generation x \<le> se_source_generation z
      \<and> (se_source_generation x = se_source_generation z \<longrightarrow> se_quality z = se_quality x)
      \<and> se_samples z = (if se_source_generation x = se_source_generation z then se_samples x else [])"
    proof (cases "se_source_generation x < ep_source_generation p")
      case True
      with zz have "z = x\<lparr>se_samples := [], se_source_generation := ep_source_generation p, se_quality := ep_quality p\<rparr>" by simp
      with True show ?thesis by auto
    next
      case False
      with fl(1) have "se_source_generation x = ep_source_generation p" by simp
      moreover have "z = x" using False zz by simp
      ultimately show ?thesis by simp
    qed
    have new: "published_sample [p] k (se_source_generation z) ?v" using z' True by (simp add: published_sample_def)
    have "\<exists>n new. se_samples (push_sample l ?v z) = drop n ((if se_source_generation x = se_source_generation z then se_samples x else []) @ new)
        \<and> set new \<subseteq> Collect (published_sample [p] k (se_source_generation z))"
      using new z'
      by (intro exI[of _ "length (se_samples z @ [?v]) - unat (lim_max_evidence_samples_per_series l)"] exI[of _ "[?v]"])
        (simp add: push_sample_def fifo_trim_drop)
    then have "series_advances [p] k x (push_sample l ?v z)"
      using z' by (elim conjE) (simp add: series_advances_def push_sample_def)
    with True find show ?thesis by auto
  qed
qed

lemma apply_batch_advances:
  assumes "check_batch l s reg b ps = Inr b'" and "tracks s b t" and "evidence_ok l (g_evidence t)" and "\<forall>p \<in> set ps. mv_ok (ep_value p)"
    and "om_find (g_evidence t) k = Some x"
  shows "\<exists>y. om_find (g_evidence (apply_batch l clock ps t)) k = Some y \<and> series_advances ps k x y"
  using assms
proof (induction ps arbitrary: b t clock x)
  case Nil
  then show ?case using series_advances_refl by simp
next
  case (Cons p ps)
  then obtain b1 where b1: "check_publication l s reg b p = Inr b1" "check_batch l s reg b1 ps = Inr b'"
    by (auto split: sum.splits)
  let ?t = "apply_publication l (clock 0) p t"
  have st: "tracks s b1 ?t \<and> evidence_ok l (g_evidence ?t)" using apply_publication_step[OF b1(1)] Cons.prems by simp
  obtain y where y: "om_find (g_evidence ?t) k = Some y" "series_advances [p] k x y"
    using apply_publication_advances[OF check_publication_admits(4)[OF b1(1) Cons.prems(2)] Cons.prems(5)] by blast
  obtain z where "om_find (g_evidence (apply_batch l (clock \<circ> Suc) ps ?t)) k = Some z" "series_advances ps k y z"
    using Cons.IH[OF b1(2) conjunct1[OF st] conjunct2[OF st] _ y(1), of "clock \<circ> Suc"] Cons.prems(4) by (meson list.set_intros(2))
  then show ?case using series_advances_trans[OF y(2), of ps z "p # ps"] by auto
qed

text \<open>
  C28: a series never goes back.  Through a publication every stored series survives; its source
  generation only grows; within one generation its quality class is fixed and its samples are a
  suffix of the old ones followed by samples of the batch; a new generation drops every old sample,
  and what it holds comes from the batch and that generation.  Afterwards every series is within
  the retention limit and ordered by observation sequence.
\<close>

theorem series_never_goes_back:
  assumes "engine_ok e" and "publication_typed rq" and "om_find (g_evidence (en_state e)) k = Some x"
    and "e' = fst (publish_evidence clock rq e)"
  shows "\<exists>y. om_find (g_evidence (en_state e')) k = Some y \<and> series_advances (er_publications rq) k x y
    \<and> length (se_samples y) \<le> unat (lim_max_evidence_samples_per_series (en_limits e))
    \<and> sorted (map es_sequence (se_samples y))"
proof -
  have ev: "evidence_ok (en_limits e) (g_evidence (en_state e))" using assms(1) by (simp add: engine_ok_def state_ok_def)
  have typed: "\<forall>p \<in> set (er_publications rq). mv_ok (ep_value p)" using assms(2) by (simp add: publication_typed_def)
  have "\<exists>y. om_find (g_evidence (en_state e')) k = Some y \<and> series_advances (er_publications rq) k x y"
  proof (cases rule: publish_evidence_ends[of clock rq e])
    case (refused c)
    then show ?thesis using assms(3,4) series_advances_refl by auto
  next
    case (exhausted reg b)
    then show ?thesis using apply_batch_advances[OF exhausted(2) tracks_refl ev typed assms(3)] assms(4) by auto
  next
    case (published reg b g c)
    then show ?thesis using apply_batch_advances[OF published(2) tracks_refl ev typed assms(3)] assms(4) by auto
  qed
  moreover have "engine_ok e'" "en_limits e' = en_limits e"
    using publish_evidence_contract[OF assms(1) typed] by (simp_all add: assms(4) engine_extends_def)
  then have "evidence_ok (en_limits e) (g_evidence (en_state e'))" by (simp add: engine_ok_def state_ok_def)
  then have "series_ok (en_limits e) k y" if "om_find (g_evidence (en_state e')) k = Some y" for y
    using that unfolding evidence_ok_def by blast
  ultimately show ?thesis by (auto simp: series_ok_def)
qed

end
