(* ===== verification/Commit_Contract.thy ===== *)
theory Commit_Contract
  imports Commit Publication_Guarantees
begin

text \<open>
  Evaluation, commit and rollback honour the engine contract; the ways a commit and a rollback end.
\<close>

section \<open>Records with a longer history\<close>

definition same_policy :: "policy_record \<Rightarrow> policy_record \<Rightarrow> bool" where
  "same_policy r r' = (pc_policy r' = pc_policy r \<and> pc_candidates r' = pc_candidates r \<and> pc_revocation r' = pc_revocation r)"

lemma remember_frame [simp]:
  "pc_policy (remember l now d r) = pc_policy r" "pc_candidates (remember l now d r) = pc_candidates r"
  "pc_revocation (remember l now d r) = pc_revocation r" "pc_preference (remember l now d r) = pc_preference r"
  "pc_stable (remember l now d r) = pc_stable r" "pc_timing (remember l now d r) = pc_timing r"
  by (simp_all add: remember_def prune_history_def)

lemma remember_history: "length (pc_history (remember l now d r)) \<le> unat (lim_max_history_per_policy l)"
  by (simp add: remember_def prune_history_def fifo_trim_drop)

lemma journal_frame [simp]:
  "g_registrations (journal l d s) = g_registrations s" "g_fenced_boots (journal l d s) = g_fenced_boots s"
  "g_by_path (journal l d s) = g_by_path s" "g_evidence (journal l d s) = g_evidence s"
  "g_revocations (journal l d s) = g_revocations s" "g_attempts (journal l d s) = g_attempts s"
  "g_attempt_order (journal l d s) = g_attempt_order s" "g_epoch (journal l d s) = g_epoch s"
  "g_policies (journal l d s) = g_policies s" "g_fences (journal l d s) = g_fences s"
  "g_authority_generation (journal l d s) = g_authority_generation s"
  "g_evidence_generation (journal l d s) = g_evidence_generation s"
  "g_evidence_watermark (journal l d s) = g_evidence_watermark s"
  "g_upstream_watermark (journal l d s) = g_upstream_watermark s"
  by (simp_all add: journal_def)

lemma journal_bounded: "length (g_decision_journal (journal l d s)) \<le> unat (lim_max_decision_history l)"
  by (simp add: journal_def fifo_trim_drop)

lemma same_policy_ok:
  assumes "policy_record_ok l p r" and "same_policy r r'" and "length (pc_history r') \<le> unat (lim_max_history_per_policy l)"
  shows "policy_record_ok l p r' \<and> policy_extends r r' \<and> candidate_paths r' = candidate_paths r"
  using assms by (simp add: policy_record_ok_def same_policy_def policy_extends_def candidate_paths_def)

lemma put_same_policy_contract:
  assumes "state_ok l s" and "om_find (g_policies s) p = Some r" and "same_policy r r'"
    and "length (pc_history r') \<le> unat (lim_max_history_per_policy l)"
  shows "state_ok l (journal l d (put_policy p r' s)) \<and> state_extends s (journal l d (put_policy p r' s))"
proof -
  have "state_ok l (put_policy p r' s) \<and> state_extends s (put_policy p r' s)"
    using same_policy_ok[OF state_ok_record[OF assms(1,2)] assms(3,4)] by (intro put_policy_contract[OF assms(1,2)]) auto
  then show ?thesis by (simp add: state_ok_def state_extends_def revocations_ok_def)
qed

lemma settle_frame [simp]:
  "en_state (settle e) = en_state e" "en_limits (settle e) = en_limits e" "en_ids (settle e) = en_ids e"
  "engine_ok (settle e) = engine_ok e" "engine_extends e' (settle e) = engine_extends e' e"
  by (simp_all add: settle_def engine_ok_def engine_extends_def)

section \<open>Phase one\<close>

lemma begin_evaluation_ends:
  assumes "begin_evaluation clock rq e = Some (e', t)"
  obtains (refused) outcome detail where "e' = e" "t = refused_ticket outcome detail"
  | (issued) r reg ids1 ids2 ids3 evaluation inputs decision where
      "om_find (g_policies (en_state e)) (vr_policy rq) = Some r" "ap_lifecycle (pc_policy r) = PL_ACTIVE"
      "check_caller (en_state e) (vr_context rq) (Some (pt_route (ps_target (ap_semantics (pc_policy r)))))
         (pt_multipath_set (ps_target (ap_semantics (pc_policy r)))) = Inr reg"
      "id_valid (vr_policy rq)" "en_outstanding e < lim_max_simultaneous_evaluations (en_limits e)"
      "copy_inputs (clock \<circ> Suc) (en_limits e) (en_state e) r ids1 = Some (ids2, inputs)"
      "next_decision_id ids2 = Some (ids3, decision)"
      "e' = e\<lparr>en_ids := ids3, en_outstanding := en_outstanding e + 1\<rparr>"
      "t = (evaluate_inputs inputs (build_dependencies (clock 0) (en_state e) r evaluation))\<lparr>et_decision := decision\<rparr>"
proof (cases "\<exists>outcome detail. e' = e \<and> t = refused_ticket outcome detail")
  case True
  then show ?thesis using refused by blast
next
  case False
  note nr = this[simplified]
  have v1: "id_valid (vr_policy rq)"
    using assms nr by (rule_tac ccontr) (auto simp: begin_evaluation_def Let_def)
  have v2: "en_outstanding e < lim_max_simultaneous_evaluations (en_limits e)"
    using assms nr v1 by (rule_tac ccontr) (auto simp: begin_evaluation_def Let_def not_less)
  note v = v1 v2
  have v3: "\<not> lim_max_simultaneous_evaluations (en_limits e) \<le> en_outstanding e" using v2 by simp
  note def = assms[unfolded begin_evaluation_def Let_def if_not_P[OF v3], simplified v1 not_True_eq_False if_False]
  obtain r where r: "om_find (g_policies (en_state e)) (vr_policy rq) = Some r"
    using def nr by (cases "om_find (g_policies (en_state e)) (vr_policy rq)") auto
  obtain reg where reg: "check_caller (en_state e) (vr_context rq) (Some (pt_route (ps_target (ap_semantics (pc_policy r)))))
         (pt_multipath_set (ps_target (ap_semantics (pc_policy r)))) = Inr reg"
    using def nr r by (cases "check_caller (en_state e) (vr_context rq) (Some (pt_route (ps_target (ap_semantics (pc_policy r)))))
         (pt_multipath_set (ps_target (ap_semantics (pc_policy r))))") auto
  have act: "ap_lifecycle (pc_policy r) = PL_ACTIVE"
    using def nr r reg by (rule_tac ccontr) auto
  show ?thesis
    using def nr r reg act
    by (auto split: if_splits option.splits prod.splits intro: issued[OF r act reg v])
qed

lemma begin_evaluation_contract:
  assumes "engine_ok e" and "begin_evaluation clock rq e = Some (e', t)"
  shows "engine_ok e' \<and> engine_extends e e'"
  using assms(2) by (cases rule: begin_evaluation_ends) (use assms(1) in \<open>auto simp: engine_ok_def engine_extends_def\<close>)

interpretation begin_phase: engine_operation "begin_evaluation clock rq" for clock rq
  by unfold_locales (rule begin_evaluation_contract)

section \<open>Phase two\<close>

lemma committed_record_same:
  "same_policy r (snd (committed_record now l s ctx t b ad tr plan i r))"
  "length (pc_history (snd (committed_record now l s ctx t b ad tr plan i r))) \<le> unat (lim_max_history_per_policy l)"
  by (simp_all add: committed_record_def same_policy_def remember_history Let_def)

lemma verify_and_commit_contract:
  assumes "state_ok l s" and "om_find (g_policies s) pid = Some r" and "verify_and_commit now l pid r t ctx ids s = Some (Inr (ids', s'))"
  shows "state_ok l s' \<and> state_extends s s'"
  using assms(3) committed_record_same put_same_policy_contract[OF assms(1,2)]
  by (auto simp: verify_and_commit_def Let_def split: sum.splits option.splits prod.splits) (metis snd_conv)+

lemma record_suppressed_contract:
  assumes "state_ok l s" and "om_find (g_policies s) pid = Some r"
  shows "state_ok l (record_suppressed now l pid r t ctx i s) \<and> state_extends s (record_suppressed now l pid r t ctx i s)"
proof -
  let ?r = "remember l now (suppressed_decision i s r t ctx) r"
  have "same_policy r ?r" by (simp add: same_policy_def)
  from put_same_policy_contract[OF assms this remember_history] show ?thesis
    unfolding record_suppressed_def Let_def using record_attempt_contract state_extends_trans by blast
qed

text \<open>What holds of a ticket once phase two has got past every refusal.\<close>

definition admitted :: "engine \<Rightarrow> mutation_context \<Rightarrow> evaluation_ticket \<Rightarrow> policy_record \<Rightarrow> bool" where
  "admitted e ctx t r \<longleftrightarrow> et_lifecycle t \<noteq> DL_REJECTED \<and> id_valid (ds_policy (et_dependencies t))
     \<and> (\<exists>reg. check_caller (en_state e) ctx None None = Inr reg)
     \<and> om_find (g_policies (en_state e)) (ds_policy (et_dependencies t)) = Some r
     \<and> ticket_refusal (en_state e) r t = None \<and> id_valid (mc_attempt ctx)
     \<and> om_find (g_attempts (en_state e)) (mc_attempt ctx) = None"

lemma commit_evaluation_admitted:
  assumes "commit_evaluation now rq e = Some (e', res)"
  obtains (refused) c where "e' = settle (e\<lparr>en_counters := c\<rparr>)" "\<not> or_mutated res"
  | (admitted) r where "admitted e (kr_context rq) (kr_ticket rq) r"
      "replay_check (mc_attempt (kr_context rq)) (commit_fingerprint (kr_ticket rq)) e = (e, None)"
proof (cases "\<exists>c. e' = settle (e\<lparr>en_counters := c\<rparr>) \<and> \<not> or_mutated res")
  case True
  then show ?thesis using refused by blast
next
  case F: False
  let ?t = "kr_ticket rq" and ?ctx = "kr_context rq" and ?s = "en_state e"
  let ?pid = "ds_policy (et_dependencies ?t)"
  have id: "e = e\<lparr>en_counters := en_counters e\<rparr>" by simp
  have out: "False" if "Some (e', res) = Some (settle (e\<lparr>en_counters := c\<rparr>), q)" "\<not> or_mutated q" for c q
    using F that by auto
  have out0: "False" if "commit_evaluation now rq e = Some (settle e, q)" "\<not> or_mutated q" for q
    using out[of "en_counters e" q] that assms by simp
  have 1: "et_lifecycle ?t \<noteq> DL_REJECTED"
    by (rule ccontr) (rule out0[of "make_result (et_outcome ?t) (et_detail ?t) no_id ?s"], simp_all add: commit_evaluation_def Let_def)
  have 2: "id_valid ?pid"
    by (rule ccontr) (rule out0[of "make_result Out_MALFORMED_REQUEST ''evaluation ticket is malformed'' no_id ?s"],
      simp_all add: commit_evaluation_def Let_def 1)
  obtain reg where 3: "check_caller ?s ?ctx None None = Inr reg"
  proof (cases "check_caller ?s ?ctx None None")
    case (Inl a)
    then have False by (cases a) (rule out0[of "make_result (fst a) (snd a) ?pid ?s"], simp_all add: commit_evaluation_def Let_def 1 2)
    then show thesis ..
  qed
  obtain r where 4: "om_find (g_policies ?s) ?pid = Some r"
  proof (cases "om_find (g_policies ?s) ?pid")
    case None
    then have False
      by (intro out0[of "make_result Out_NOT_FOUND ''policy does not exist'' ?pid ?s"]) (simp_all add: commit_evaluation_def Let_def 1 2 3)
    then show thesis ..
  qed
  note run = commit_evaluation_def[of now rq e, unfolded Let_def, simplified 1 2 3 4 if_False not_True_eq_False sum.case option.case]
  have 5: "ticket_refusal ?s r ?t = None"
  proof (rule ccontr)
    assume "ticket_refusal ?s r ?t \<noteq> None"
    then obtain oc dt st where tr: "ticket_refusal ?s r ?t = Some (oc, dt, st)" by (metis option.exhaust prod_cases3)
    show False
    proof (cases st)
      case True
      show ?thesis
        by (rule out[of "(en_counters e)\<lparr>fb_stale_commit_rejections := fb_stale_commit_rejections (en_counters e) + 1\<rparr>" "make_result oc dt ?pid ?s"])
          (simp_all add: assms[symmetric] run tr True)
    next
      case False
      show ?thesis by (rule out0[of "make_result oc dt ?pid ?s"]) (simp_all add: run tr False)
    qed
  qed
  show ?thesis
  proof (cases rule: replay_check_cases[of "mc_attempt ?ctx" "commit_fingerprint ?t" e])
    case (answered c q)
    then have False by (intro out[of c q]) (simp_all add: assms[symmetric] run 5)
    then show ?thesis ..
  next
    case fresh
    then show ?thesis using 1 2 3 4 5 by (intro admitted[of r]) (simp_all add: admitted_def)
  qed
qed

lemma commit_evaluation_ends:
  assumes "commit_evaluation now rq e = Some (e', res)"
  obtains (refused) c where "e' = settle (e\<lparr>en_counters := c\<rparr>)" "\<not> or_mutated res"
  | (suppressed) r ids i c where "admitted e (kr_context rq) (kr_ticket rq) r" "et_lifecycle (kr_ticket rq) \<noteq> DL_ELIGIBLE"
      "e' = settle (e\<lparr>en_ids := ids, en_state := record_suppressed now (en_limits e) (ds_policy (et_dependencies (kr_ticket rq))) r
         (kr_ticket rq) (kr_context rq) i (en_state e), en_counters := c\<rparr>)"
      "\<not> or_mutated res" "or_suppression res = et_suppression (kr_ticket rq)" "or_outcome res = et_outcome (kr_ticket rq)"
  | (repeated) r where "admitted e (kr_context rq) (kr_ticket rq) r" "et_lifecycle (kr_ticket rq) = DL_ELIGIBLE"
      "rp_established (pc_preference r)" "rp_preferred_path (pc_preference r) = et_target_preference (kr_ticket rq)"
      "e' = settle (e\<lparr>en_state := record_attempt (en_limits e) (mc_attempt (kr_context rq)) (commit_fingerprint (kr_ticket rq))
         Out_NO_CHANGE ''the target preference is already current'' (en_state e)\<rparr>)"
      "\<not> or_mutated res" "or_outcome res = Out_NO_CHANGE"
  | (committed) r ids s1 c where "admitted e (kr_context rq) (kr_ticket rq) r" "et_lifecycle (kr_ticket rq) = DL_ELIGIBLE"
      "\<not> (rp_established (pc_preference r) \<and> rp_preferred_path (pc_preference r) = et_target_preference (kr_ticket rq))"
      "verify_and_commit now (en_limits e) (ds_policy (et_dependencies (kr_ticket rq))) r (kr_ticket rq) (kr_context rq) (en_ids e) (en_state e)
         = Some (Inr (ids, s1))"
      "e' = settle (e\<lparr>en_ids := ids, en_state := record_attempt (en_limits e) (mc_attempt (kr_context rq)) (commit_fingerprint (kr_ticket rq))
         Out_DECISION_COMMITTED ''decision committed'' s1, en_counters := c\<rparr>)"
      "or_mutated res" "or_outcome res = Out_DECISION_COMMITTED"
  using assms
proof (cases rule: commit_evaluation_admitted)
  case (refused c)
  then show ?thesis by (rule that(1))
next
  case (admitted r)
  let ?t = "kr_ticket rq" and ?ctx = "kr_context rq" and ?s = "en_state e" and ?l = "en_limits e"
  let ?pid = "ds_policy (et_dependencies ?t)"
  have id: "e\<lparr>en_counters := en_counters e\<rparr> = e" by simp
  from admitted(1) obtain reg where a: "et_lifecycle ?t \<noteq> DL_REJECTED" "id_valid ?pid" "check_caller ?s ?ctx None None = Inr reg"
    "om_find (g_policies ?s) ?pid = Some r" "ticket_refusal ?s r ?t = None" by (auto simp: admitted_def)
  note run = assms[unfolded commit_evaluation_def Let_def admitted(2),
      simplified a if_False not_True_eq_False sum.case option.case prod.case]
  show ?thesis
  proof (cases "et_lifecycle ?t = DL_ELIGIBLE")
    case False
    then show ?thesis
    proof (cases "decision_id_for ?t (en_ids e)")
      case None
      with run False show ?thesis by simp
    next
      case (Some q)
      then obtain ids i where q: "decision_id_for ?t (en_ids e) = Some (ids, i)" by (cases q) auto
      let ?c = "(en_counters e)\<lparr>fb_decisions_suppressed := fb_decisions_suppressed (en_counters e) + 1\<rparr>"
      have "e' = settle (e\<lparr>en_ids := ids, en_state := record_suppressed now ?l ?pid r ?t ?ctx i ?s, en_counters := ?c\<rparr>)"
        "\<not> or_mutated res" "or_suppression res = et_suppression ?t" "or_outcome res = et_outcome ?t"
        using run False q by (auto simp: suppressed_decision_def with_digest_def Let_def)
      then show ?thesis by (rule that(2)[OF admitted(1) False])
    qed
  next
    case True
    show ?thesis
    proof (cases "rp_established (pc_preference r) \<and> rp_preferred_path (pc_preference r) = et_target_preference ?t")
      case T2: True
      with run True have "e' = settle (e\<lparr>en_state := record_attempt ?l (mc_attempt ?ctx) (commit_fingerprint ?t)
         Out_NO_CHANGE ''the target preference is already current'' ?s\<rparr>)" "\<not> or_mutated res" "or_outcome res = Out_NO_CHANGE"
        by auto
      then show ?thesis using that(3)[OF admitted(1) True] T2 by blast
    next
      case F2: False
      let ?v = "verify_and_commit now ?l ?pid r ?t ?ctx (en_ids e) ?s"
      consider "?v = None" | x where "?v = Some (Inl x)" | ids s1 where "?v = Some (Inr (ids, s1))"
        by (metis option.exhaust sum.exhaust prod.exhaust)
      then show ?thesis
      proof cases
        case 1
        with run True F2 show ?thesis by (simp split: if_splits)
      next
        case 2
        with run True F2 have "e' = settle (e\<lparr>en_counters := en_counters e\<rparr>)" "\<not> or_mutated res"
          by (cases x; force split: if_splits)+
        then show ?thesis by (rule that(1))
      next
        case (3 ids s1)
        let ?c = "(en_counters e)\<lparr>fb_decisions_committed := fb_decisions_committed (en_counters e) + 1\<rparr>"
        have "e' = settle (e\<lparr>en_ids := ids, en_state := record_attempt ?l (mc_attempt ?ctx) (commit_fingerprint ?t)
            Out_DECISION_COMMITTED ''decision committed'' s1, en_counters := ?c\<rparr>)" "or_mutated res" "or_outcome res = Out_DECISION_COMMITTED"
          using run True F2 3 by (auto split: if_splits)
        then show ?thesis by (rule that(4)[OF admitted(1) True F2 3])
      qed
    qed
  qed
qed

lemma commit_evaluation_contract:
  assumes "engine_ok e" and "commit_evaluation now rq e = Some (e', res)"
  shows "engine_ok e' \<and> engine_extends e e'"
  using assms(2)
proof (cases rule: commit_evaluation_ends)
  case (refused c)
  with assms(1) show ?thesis by simp
next
  case (suppressed r ids i c)
  let ?s = "record_suppressed now (en_limits e) (ds_policy (et_dependencies (kr_ticket rq))) r (kr_ticket rq) (kr_context rq) i (en_state e)"
  have "state_ok (en_limits e) ?s \<and> state_extends (en_state e) ?s"
    using assms(1) suppressed(1) by (intro record_suppressed_contract) (auto simp: engine_ok_def admitted_def)
  then show ?thesis unfolding suppressed(3) by (simp add: engine_ok_def engine_extends_def)
next
  case (repeated r)
  have "state_ok (en_limits e) (en_state e)" using assms(1) by (simp add: engine_ok_def)
  then show ?thesis unfolding repeated(5) using record_attempt_contract by (simp add: engine_ok_def engine_extends_def)
next
  case (committed r ids s1 c)
  have "state_ok (en_limits e) s1 \<and> state_extends (en_state e) s1"
    using assms(1) committed(1) by (intro verify_and_commit_contract[OF _ _ committed(4)]) (auto simp: engine_ok_def admitted_def)
  then show ?thesis
    unfolding committed(5) using record_attempt_contract state_extends_trans by (simp add: engine_ok_def engine_extends_def) blast
qed

interpretation commit_phase: engine_operation "commit_evaluation now rq" for now rq
  by unfold_locales (rule commit_evaluation_contract)

lemma evaluate_contract:
  assumes "engine_ok e" and "\<And>x. engine_ok x \<Longrightarrow> engine_ok (meanwhile x) \<and> engine_extends x (meanwhile x)"
    and "evaluate clock rq meanwhile e = Some (e', res)"
  shows "engine_ok e' \<and> engine_extends e e'"
proof -
  obtain e1 t where b: "begin_evaluation clock rq e = Some (e1, t)" using assms(3) by (auto simp: evaluate_def split: option.splits)
  have 1: "engine_ok e1 \<and> engine_extends e e1" using begin_evaluation_contract[OF assms(1) b] .
  then have 2: "engine_ok (meanwhile e1) \<and> engine_extends e (meanwhile e1)" using assms(2) engine_extends_trans by blast
  then show ?thesis
    using assms(3) b commit_evaluation_contract[of "meanwhile e1" "clock 3" "\<lparr>kr_ticket = t, kr_context = vr_context rq\<rparr>" e' res]
      engine_extends_trans[of e "meanwhile e1" e']
    by (auto simp: evaluate_def split: if_splits)
qed

section \<open>Rollback\<close>

lemma rolled_back_same:
  "same_policy r (rolled_back_record now l b plan d r)"
  "length (pc_history (rolled_back_record now l b plan d r)) \<le> unat (lim_max_history_per_policy l)"
  by (simp_all add: rolled_back_record_def same_policy_def remember_history Let_def)

lemma rollback_ends:
  assumes "rollback now rq e = Some (e', res)"
  obtains (refused) c where "e' = e\<lparr>en_counters := c\<rparr>" "\<not> or_mutated res"
  | (noted) oc dt where "e' = e\<lparr>en_state := record_attempt (en_limits e) (mc_attempt (br_context rq)) (rollback_fingerprint rq) oc dt (en_state e)\<rparr>"
      "\<not> or_mutated res"
  | (restored) r reg j i ad tr ids plan c where "om_find (g_policies (en_state e)) (br_policy rq) = Some r"
      "check_caller (en_state e) (br_context rq) (Some (pt_route (ps_target (ap_semantics (pc_policy r)))))
         (pt_multipath_set (ps_target (ap_semantics (pc_policy r)))) = Inr reg"
      "ap_lifecycle (pc_policy r) = PL_ACTIVE" "ss_established (pc_stable r)"
      "find_candidate (pc_candidates r) (ss_path (pc_stable r)) = Some j"
      "rollback_refusal r (Some (pc_candidates r ! j)) = None"
      "gen_next (rp_adaptation_generation (pc_preference r)) = Some ad" "gen_next (rp_transition_generation (pc_preference r)) = Some tr"
      "e' = e\<lparr>en_ids := ids, en_state := record_attempt (en_limits e) (mc_attempt (br_context rq)) (rollback_fingerprint rq)
         Out_DECISION_COMMITTED ''rollback committed''
         (journal (en_limits e) (rollback_decision now i (en_state e) (br_context rq) (ca_binding (pc_candidates r ! j)) ad tr r)
           (put_policy (br_policy rq) (rolled_back_record now (en_limits e) (ca_binding (pc_candidates r ! j)) plan
             (rollback_decision now i (en_state e) (br_context rq) (ca_binding (pc_candidates r ! j)) ad tr r) r) (en_state e))),
         en_counters := c\<rparr>"
      "or_mutated res" "or_outcome res = Out_DECISION_COMMITTED"
proof (cases "\<exists>c. e' = e\<lparr>en_counters := c\<rparr> \<and> \<not> or_mutated res")
  case True
  then show ?thesis using refused by blast
next
  case F: False
  let ?ctx = "br_context rq" and ?s = "en_state e"
  have same: "e = e\<lparr>en_counters := en_counters e\<rparr>" by simp
  have out0: "False" if "rollback now rq e = Some (e, q)" "\<not> or_mutated q" for q
    using F that assms same by (metis option.inject prod.inject)
  have 1: "id_valid (br_policy rq)"
    by (rule ccontr) (rule out0[of "make_result Out_MALFORMED_REQUEST ''policy id is required'' (br_policy rq) ?s"], simp_all add: rollback_def Let_def)
  obtain r where 2: "om_find (g_policies ?s) (br_policy rq) = Some r"
  proof (cases "om_find (g_policies ?s) (br_policy rq)")
    case None
    then have False by (intro out0[of "make_result Out_NOT_FOUND ''policy does not exist'' (br_policy rq) ?s"]) (simp_all add: rollback_def Let_def 1)
    then show thesis ..
  qed
  obtain reg where 3: "check_caller ?s ?ctx (Some (pt_route (ps_target (ap_semantics (pc_policy r)))))
         (pt_multipath_set (ps_target (ap_semantics (pc_policy r)))) = Inr reg"
  proof (cases "check_caller ?s ?ctx (Some (pt_route (ps_target (ap_semantics (pc_policy r))))) (pt_multipath_set (ps_target (ap_semantics (pc_policy r))))")
    case (Inl a)
    then have False by (cases a) (rule out0[of "make_result (fst a) (snd a) (br_policy rq) ?s"], simp_all add: rollback_def Let_def 1 2)
    then show thesis ..
  qed
  note run = rollback_def[of now rq e, unfolded Let_def, simplified 1 2 3 if_False not_True_eq_False sum.case option.case]
  have 4: "ap_lifecycle (pc_policy r) = PL_ACTIVE"
    by (rule ccontr) (rule out0[of "make_result (lifecycle_outcome (ap_lifecycle (pc_policy r))) ''rollback requires an active policy'' (br_policy rq) ?s"],
      simp_all add: run)
  show ?thesis
  proof (cases rule: replay_check_cases[of "mc_attempt ?ctx" "rollback_fingerprint rq" e])
    case (answered c q)
    with F assms run 4 show ?thesis by auto
  next
    case fresh
    note run' = assms[unfolded run fresh(1), simplified 4 if_False not_True_eq_False prod.case option.case simp_thms]
    show ?thesis
    proof (cases "ss_established (pc_stable r)")
      case False
      with run' show ?thesis by (intro noted) auto
    next
      case est: True
      show ?thesis
      proof (cases "find_candidate (pc_candidates r) (ss_path (pc_stable r))")
        case None
        with run' est show ?thesis by (intro noted) (auto simp: rollback_refusal_def)
      next
        case j: (Some j)
        show ?thesis
        proof (cases "rollback_refusal r (Some (pc_candidates r ! j))")
          case (Some x)
          then obtain oc dt nt where x: "rollback_refusal r (Some (pc_candidates r ! j)) = Some (oc, dt, nt)" by (cases x) auto
          show ?thesis
          proof (cases nt)
            case None
            with run' est j x have "e' = e" "\<not> or_mutated res" by auto
            with F same show ?thesis by metis
          next
            case (Some recorded)
            with run' est j x show ?thesis by (intro noted) auto
          qed
        next
          case ok: None
          have gens: "gen_next (rp_adaptation_generation (pc_preference r)) \<noteq> None \<and> gen_next (rp_transition_generation (pc_preference r)) \<noteq> None"
          proof (rule ccontr)
            assume "\<not> ?thesis"
            then have "e' = e" "\<not> or_mutated res" using run' est j ok by (auto split: option.splits)
            with F same show False by metis
          qed
          then obtain ad tr where g: "gen_next (rp_adaptation_generation (pc_preference r)) = Some ad"
            "gen_next (rp_transition_generation (pc_preference r)) = Some tr" by auto
          from run' est j ok g show ?thesis
            by (auto split: option.splits prod.splits intro!: restored[OF 2 3 4 est j ok g])
        qed
      qed
    qed
  qed
qed

lemma rollback_contract:
  assumes "engine_ok e" and "rollback now rq e = Some (e', res)"
  shows "engine_ok e' \<and> engine_extends e e'"
  using assms(2)
proof (cases rule: rollback_ends)
  case (refused c)
  with assms(1) show ?thesis by simp
next
  case (noted oc dt)
  show ?thesis unfolding noted(1) by (rule engine_contract_state(1)[OF assms(1)]) (erule record_attempt_contract)
next
  case (restored r reg j i ad tr ids plan c)
  have "state_ok (en_limits e) (en_state e)" using assms(1) by (simp add: engine_ok_def)
  from put_same_policy_contract[OF this restored(1) rolled_back_same] record_attempt_contract state_extends_trans
  show ?thesis unfolding restored(9) by (simp add: engine_ok_def engine_extends_def) blast
qed

interpretation rollback_op: engine_operation "rollback now rq" for now rq
  by unfold_locales (rule rollback_contract)

interpretation revalidate_op: engine_operation "\<lambda>e. Some (revalidate p a ctx e)" for p a ctx
  unfolding revalidate_def by unfold_locales (metis transition_policy_contract fst_conv option.inject)

end
