(* ===== verification/Measured.thy ===== *)
theory Measured
  imports Publication_Guarantees
begin

text \<open>
  The small policy with measurements: one series per candidate path, one latency sample each, and a
  preference held on the first path.  The witnesses of the evidence and evaluation properties run
  on these engines.
\<close>

section \<open>Engines with evidence\<close>

definition probe_series :: "path_id \<Rightarrow> int \<Rightarrow> evidence_series" where
  "probe_series path latency = \<lparr>se_source = StrongId ''probe'', se_source_generation = gen_first, se_quality = PRIMARY,
     se_path = path, se_kind = PATH_LATENCY,
     se_samples = [\<lparr>es_path = path, es_value = sample_value latency, es_accepted_at = 10, es_sequence = 1\<rparr>],
     se_total_published = 1\<rparr>"

definition probe_evidence :: "int \<Rightarrow> int \<Rightarrow> (evidence_key, evidence_series) omap" where
  "probe_evidence latency1 latency2 =
     [((StrongId ''probe'', StrongId ''p1'', PATH_LATENCY), probe_series (StrongId ''p1'') latency1),
      ((StrongId ''probe'', StrongId ''p2'', PATH_LATENCY), probe_series (StrongId ''p2'') latency2)]"

definition measured_state :: "policy_record \<Rightarrow> int \<Rightarrow> int \<Rightarrow> state" where
  "measured_state r latency1 latency2 =
     (put_policy (StrongId ''pol'') r (en_state sample_active))\<lparr>g_evidence := probe_evidence latency1 latency2\<rparr>"

definition measured :: "policy_record \<Rightarrow> int \<Rightarrow> int \<Rightarrow> engine" where
  "measured r latency1 latency2 = sample_active\<lparr>en_state := measured_state r latency1 latency2\<rparr>"

definition held_record :: policy_record where
  "held_record = sample_record\<lparr>pc_preference := (pc_preference sample_record)\<lparr>rp_preferred_path := StrongId ''p1'',
     rp_path_authority_generation := gen_first, rp_route_generation := gen_first, rp_established := True\<rparr>\<rparr>"

lemma measured_frame [simp]:
  "en_limits (measured r a b) = default_limits" "g_evidence (en_state (measured r a b)) = probe_evidence a b"
  "om_find (g_policies (en_state (measured r a b))) (StrongId ''pol'') = Some r"
  by (simp_all add: measured_def measured_state_def sample_active_limits put_policy_def om_find_put)

lemma probe_evidence_ok:
  assumes "mv_ok (sample_value a)" and "mv_ok (sample_value b)"
  shows "evidence_ok default_limits (probe_evidence a b)"
proof -
  have "om_ok (probe_evidence a b)" by (simp add: probe_evidence_def) code_simp
  moreover have "Suc 0 \<le> unat (lim_max_evidence_samples_per_series default_limits)" by code_simp
  ultimately show ?thesis
    using assms by (auto simp: evidence_ok_def series_ok_def probe_evidence_def probe_series_def sample_value_def split: if_splits)
qed

lemma sample_value_ok: "0 \<le> n \<Longrightarrow> n \<le> 1000 \<Longrightarrow> mv_ok (sample_value n)"
proof -
  have "md_unit (describe_metric PATH_LATENCY) = MICROSECONDS" "md_semantics_version (describe_metric PATH_LATENCY) = 1"
    "1000 \<le> md_maximum (describe_metric PATH_LATENCY)" by code_simp+
  then show "0 \<le> n \<Longrightarrow> n \<le> 1000 \<Longrightarrow> mv_ok (sample_value n)" by (simp add: mv_ok_def sample_value_def mv_decode_def)
qed

lemma measured_ok:
  assumes "policy_record_ok default_limits (StrongId ''pol'') r" and "candidate_paths r = candidate_paths sample_record"
    and "policy_extends sample_record r" and "0 \<le> a" "a \<le> 1000" "0 \<le> b" "b \<le> 1000"
  shows "engine_ok (measured r a b)"
proof -
  have "state_ok default_limits (put_policy (StrongId ''pol'') r (en_state sample_active))"
    using put_policy_contract[OF sample_active_state_ok sample_active_record assms(1)] assms(2,3) by simp
  then show ?thesis
    using probe_evidence_ok[of a b] sample_value_ok assms
    by (simp add: engine_ok_def measured_def measured_state_def sample_active_limits state_ok_def revocations_ok_def put_policy_def)
qed

lemma sample_measured_ok: "0 \<le> a \<Longrightarrow> a \<le> 1000 \<Longrightarrow> 0 \<le> b \<Longrightarrow> b \<le> 1000 \<Longrightarrow> engine_ok (measured sample_record a b)"
  by (rule measured_ok[OF sample_record_ok]) (simp_all add: policy_extends_def)

lemma held_record_ok: "policy_record_ok default_limits (StrongId ''pol'') held_record"
  using sample_record_ok by (simp add: policy_record_ok_def held_record_def)

lemma held_measured_ok: "0 \<le> a \<Longrightarrow> a \<le> 1000 \<Longrightarrow> 0 \<le> b \<Longrightarrow> b \<le> 1000 \<Longrightarrow> engine_ok (measured held_record a b)"
  by (rule measured_ok[OF held_record_ok]) (simp_all add: policy_extends_def held_record_def candidate_paths_def)

section \<open>A publication\<close>

definition sample_publication :: "path_id \<Rightarrow> int \<Rightarrow> u64 \<Rightarrow> evidence_publication" where
  "sample_publication path latency n = \<lparr>ep_source = StrongId ''probe'', ep_source_generation = gen_first, ep_quality = PRIMARY,
     ep_path = path, ep_value = sample_value latency, ep_sequence = n\<rparr>"

definition sample_publish :: publish_evidence_request where
  "sample_publish = \<lparr>er_publications = [sample_publication (StrongId ''p1'') 70 2], er_context = sample_context\<rparr>"

theorem series_never_goes_back_witness:
  "\<exists>y. om_find (g_evidence (en_state (fst (publish_evidence (\<lambda>_. 20) sample_publish (measured sample_record 90 50)))))
      (StrongId ''probe'', StrongId ''p1'', PATH_LATENCY) = Some y
    \<and> series_advances (er_publications sample_publish) (StrongId ''probe'', StrongId ''p1'', PATH_LATENCY) (probe_series (StrongId ''p1'') 90) y"
proof -
  have "publication_typed sample_publish"
    using sample_value_ok[of 70] by (simp add: publication_typed_def sample_publish_def sample_publication_def)
  moreover have "om_find (g_evidence (en_state (measured sample_record 90 50))) (StrongId ''probe'', StrongId ''p1'', PATH_LATENCY)
      = Some (probe_series (StrongId ''p1'') 90)" by (simp add: probe_evidence_def)
  ultimately show ?thesis
    using series_never_goes_back[OF sample_measured_ok[of 90 50] _ _ refl, of sample_publish] by fastforce
qed

end
