(* ===== verification/Ranking.thy ===== *)
theory Ranking
  imports Commit_Contract Measured "HOL-Library.List_Lexorder"
begin

text \<open>
  The ranking of \<^verbatim>\<open>src/fabric_evaluate.cpp\<close> (\<open>ranks_ahead\<close>, the eligibility gates and the stable sort of
  \<open>evaluate_inputs\<close>): on captured evidence the comparison is a strict total order given by a key, so
  the order in which candidates were declared has no influence.
\<close>

section \<open>What the gates let through\<close>

lemma reject_fields [simp]:
  "ce_eligible (reject a b c) = False" "ce_path (reject a b c) = ce_path c" "ce_metrics (reject a b c) = ce_metrics c"
  "ce_priority (reject a b c) = ce_priority c" "ce_path_authority_generation (reject a b c) = ce_path_authority_generation c"
  "ce_rejection (reject a b c) = a"
  by (simp_all add: reject_def)

definition gated :: "candidate_evaluation \<Rightarrow> candidate_evaluation \<Rightarrow> bool" where
  "gated c c' = (ce_path c' = ce_path c \<and> ce_path_authority_generation c' = ce_path_authority_generation c
     \<and> (ce_eligible c' \<longrightarrow> ce_eligible c))"

lemma gated_trans: "gated a b \<Longrightarrow> gated b c \<Longrightarrow> gated a c"
  by (simp add: gated_def)

lemma binding_gate_gated: "gated c (binding_gate sem b c) \<and> ce_metrics (binding_gate sem b c) = ce_metrics c"
  by (simp add: binding_gate_def gated_def)

lemma binding_gate_eligible: "ce_eligible (binding_gate sem b c) \<longleftrightarrow> ce_eligible c \<and> pa_legal (cd_path_authority b)
    \<and> rb_current (cd_route b) \<and> cd_available b \<and> in_target_set sem b"
  by (simp add: binding_gate_def)

lemma evidence_steps:
  "gated c (fst (foldl (evidence_step inputs path) (c, w) rqs)) \<and> ce_metrics (fst (foldl (evidence_step inputs path) (c, w) rqs)) = ce_metrics c
   \<and> (ce_eligible (fst (foldl (evidence_step inputs path) (c, w) rqs))
      \<longleftrightarrow> ce_eligible c \<and> (\<forall>rq \<in> set rqs. er_required rq \<longrightarrow> lk_ok (lookup_metric inputs path rq)))"
proof (induction rqs arbitrary: c w)
  case (Cons rq rqs)
  obtain c1 w1 where step: "evidence_step inputs path (c, w) rq = (c1, w1)" by (cases "evidence_step inputs path (c, w) rq")
  then have one: "gated c c1" "ce_metrics c1 = ce_metrics c"
    "ce_eligible c1 \<longleftrightarrow> ce_eligible c \<and> (er_required rq \<longrightarrow> lk_ok (lookup_metric inputs path rq))"
    by (auto simp: evidence_step_def gated_def Let_def split: if_splits)
  show ?case
    using Cons.IH[of c1 w1] one(2,3) gated_trans[OF one(1)] by (simp add: step)
qed (simp add: gated_def)

lemma evidence_gate_gated: "gated c (evidence_gate inputs path c) \<and> ce_metrics (evidence_gate inputs path c) = ce_metrics c"
  using evidence_steps[of c inputs path 4 "ps_evidence (ap_semantics (vi_policy inputs))"]
  by (auto simp: evidence_gate_def gated_def case_prod_beta Let_def)

lemma evidence_gate_eligible: "ce_eligible (evidence_gate inputs path c) \<longleftrightarrow> ce_eligible c
    \<and> (\<forall>rq \<in> set (ps_evidence (ap_semantics (vi_policy inputs))). er_required rq \<longrightarrow> lk_ok (lookup_metric inputs path rq))"
  using evidence_steps[of c inputs path 4 "ps_evidence (ap_semantics (vi_policy inputs))"]
  by (auto simp: evidence_gate_def case_prod_beta Let_def)

definition objective_computable :: "evaluation_inputs \<Rightarrow> path_id \<Rightarrow> bool" where
  "objective_computable inputs path =
    (let objective = ps_objective (ap_semantics (vi_policy inputs)) in
     case objective_metrics inputs path (os_terms objective) of
       Inl _ \<Rightarrow> False
     | Inr ms \<Rightarrow> os_mode objective = WEIGHTED_SCORE \<longrightarrow> weighted_score (os_terms objective) ms \<noteq> None)"

lemma objective_gate_gated: "gated c (objective_gate inputs path c)"
  by (auto simp: objective_gate_def gated_def Let_def split: sum.splits option.splits)

lemma objective_gate_eligible: "ce_eligible (objective_gate inputs path c) \<longleftrightarrow> ce_eligible c \<and> objective_computable inputs path"
  by (auto simp: objective_gate_def objective_computable_def Let_def split: sum.splits option.splits)

lemma evaluate_candidate_fields [simp]:
  "ce_path (evaluate_candidate inputs c) = cd_path (ca_binding c)"
  "ce_path_authority_generation (evaluate_candidate inputs c) = pa_generation (cd_path_authority (ca_binding c))"
proof -
  have "gated (blank_evaluation inputs c) (evaluate_candidate inputs c)"
    unfolding evaluate_candidate_def Let_def
    by (meson gated_trans objective_gate_gated evidence_gate_gated[THEN conjunct1] binding_gate_gated[THEN conjunct1])
  then show "ce_path (evaluate_candidate inputs c) = cd_path (ca_binding c)"
    "ce_path_authority_generation (evaluate_candidate inputs c) = pa_generation (cd_path_authority (ca_binding c))"
    by (simp_all add: gated_def blank_evaluation_def Let_def)
qed

text \<open>A candidate is eligible exactly when it passes every gate.\<close>

definition passes_gates :: "evaluation_inputs \<Rightarrow> candidate_binding \<Rightarrow> bool" where
  "passes_gates inputs b =
    (let sem = ap_semantics (vi_policy inputs) in
     pa_legal (cd_path_authority b) \<and> rb_current (cd_route b) \<and> cd_available b \<and> in_target_set sem b
     \<and> list_all (\<lambda>rq. er_required rq \<longrightarrow> lk_ok (lookup_metric inputs (cd_path b) rq)) (ps_evidence sem)
     \<and> objective_computable inputs (cd_path b))"

lemma evaluate_candidate_eligible: "ce_eligible (evaluate_candidate inputs c) \<longleftrightarrow> passes_gates inputs (ca_binding c)"
  by (auto simp: evaluate_candidate_def passes_gates_def objective_gate_eligible evidence_gate_eligible binding_gate_eligible
      Let_def list_all_iff blank_evaluation_def)

section \<open>The metrics of an eligible candidate\<close>

definition evidence_typed :: "evaluation_inputs \<Rightarrow> bool" where
  "evidence_typed inputs = (case vi_evidence inputs of None \<Rightarrow> True
     | Some ev \<Rightarrow> list_all (\<lambda>v. mv_kind (ea_value (re_aggregate v)) = re_kind v) (ev_values ev))"

lemma partition_point_le: "low \<le> high \<Longrightarrow> partition_point P vs low high \<le> high"
  by (induction P vs low high rule: partition_point.induct) (subst partition_point.simps, auto simp: Let_def)

lemma snapshot_find_in:
  assumes "snapshot_find ev path kind = Some r"
  shows "r \<in> set (ev_values ev) \<and> re_kind r = kind \<and> re_path r = path"
proof -
  have "lower_bound (ev_values ev) path kind \<le> length (ev_values ev)" by (simp add: lower_bound_def partition_point_le)
  moreover have "lower_bound (ev_values ev) path kind \<noteq> length (ev_values ev)"
    "ev_values ev ! lower_bound (ev_values ev) path kind = r" "re_kind r = kind" "re_path r = path"
    using assms by (auto simp: snapshot_find_def Let_def split: if_splits)
  ultimately show ?thesis by (metis le_neq_implies_less nth_mem)
qed

lemma lookup_metric_value:
  assumes "evidence_typed inputs" and "lk_ok (lookup_metric inputs path rq)"
  shows "mv_valid (lk_value (lookup_metric inputs path rq)) \<and> mv_kind (lk_value (lookup_metric inputs path rq)) = er_kind rq"
  using assms snapshot_find_in
  by (auto simp: lookup_metric_def no_lookup_def evidence_typed_def list_all_iff ea_valid_def Let_def split: option.splits if_splits)

lemma find_requirement_kind: "find_requirement sem k = Some rq \<Longrightarrow> er_kind rq = k \<and> rq \<in> set (ps_evidence sem)"
  by (auto simp: find_requirement_def find_Some_iff)

lemma objective_metrics_shape:
  assumes "evidence_typed inputs" and "objective_metrics inputs path ts = Inr ms"
  shows "map mv_kind ms = map st_kind ts \<and> list_all mv_valid ms"
  using assms(2)
proof (induction ts arbitrary: ms)
  case (Cons t ts)
  then show ?case using lookup_metric_value[OF assms(1)] find_requirement_kind
    by (auto simp: Let_def split: option.splits if_splits sum.splits)
qed simp

section \<open>The ranking key\<close>

definition oriented :: "metric_value \<Rightarrow> int" where
  "oriented v = (if md_orientation (describe_metric (mv_kind v)) = LOWER_IS_BETTER then mv_value v else - mv_value v)"

definition objective_key :: "policy_semantics \<Rightarrow> candidate_evaluation \<Rightarrow> int list" where
  "objective_key sem x = (if os_mode (ps_objective sem) = WEIGHTED_SCORE then [- uint (score_or_zero x)] else map oriented (ce_metrics x))"

definition rank_key :: "policy_semantics \<Rightarrow> candidate_evaluation \<Rightarrow> bool \<times> int \<times> int \<times> int list \<times> path_id" where
  "rank_key sem x = (\<not> ce_eligible x, - uint (ce_priority x), - int (evidence_quality_rank (ce_quality x)), objective_key sem x, ce_path x)"

text \<open>The metrics an evaluation carries: all terms of the objective, or none.\<close>

definition metrics_shaped :: "policy_semantics \<Rightarrow> candidate_evaluation \<Rightarrow> bool" where
  "metrics_shaped sem x = (os_mode (ps_objective sem) = WEIGHTED_SCORE
     \<or> (if ce_eligible x then map mv_kind (ce_metrics x) = map st_kind (os_terms (ps_objective sem)) \<and> list_all mv_valid (ce_metrics x)
        else ce_metrics x = []))"

lemma evaluate_candidate_shaped:
  assumes "evidence_typed inputs"
  shows "metrics_shaped (ap_semantics (vi_policy inputs)) (evaluate_candidate inputs c)"
proof -
  let ?sem = "ap_semantics (vi_policy inputs)" and ?path = "cd_path (ca_binding c)"
  let ?c = "evidence_gate inputs ?path (binding_gate ?sem (ca_binding c) (blank_evaluation inputs c))"
  have "ce_metrics ?c = []"
    using evidence_gate_gated binding_gate_gated by (simp add: blank_evaluation_def no_evaluation_def Let_def)
  then show ?thesis
    using objective_metrics_shape[OF assms]
    by (auto simp: evaluate_candidate_def metrics_shaped_def objective_gate_def Let_def split: sum.splits option.splits)
qed

lemma lexicographic_oriented:
  assumes "map mv_kind xs = map mv_kind ys" and "list_all mv_valid xs" and "list_all mv_valid ys" and "length xs = n"
  shows "lexicographic n xs ys = (if map oriented xs = map oriented ys then None else Some (map oriented xs < map oriented ys))"
  using assms
proof (induction n xs ys rule: lexicographic.induct)
  case (1 n x xs y ys)
  have "oriented x = oriented y \<longleftrightarrow> mv_value x = mv_value y" "mv_value x \<noteq> mv_value y \<Longrightarrow> metric_is_better x y \<longleftrightarrow> oriented x < oriented y"
    using "1.prems"(1) by (auto simp: oriented_def metric_is_better_def)
  with 1 show ?case by auto
qed auto

lemma ranks_ahead_key:
  assumes "metrics_shaped sem a" and "metrics_shaped sem b"
  shows "ranks_ahead sem a b \<longleftrightarrow> rank_key sem a < rank_key sem b"
proof -
  have prio: "ce_priority a = ce_priority b \<longleftrightarrow> uint (ce_priority a) = uint (ce_priority b)"
    "ce_priority b < ce_priority a \<longleftrightarrow> uint (ce_priority b) < uint (ce_priority a)"
    by (simp_all add: word_uint_eq_iff word_less_def)
  have score: "score_or_zero a = score_or_zero b \<longleftrightarrow> uint (score_or_zero a) = uint (score_or_zero b)"
    "score_or_zero b < score_or_zero a \<longleftrightarrow> uint (score_or_zero b) < uint (score_or_zero a)"
    by (simp_all add: word_uint_eq_iff word_less_def)
  have lex: "(case lexicographic (length (os_terms (ps_objective sem))) (ce_metrics a) (ce_metrics b) of
       Some better \<Rightarrow> better | None \<Rightarrow> ce_path a < ce_path b)
     \<longleftrightarrow> (objective_key sem a, ce_path a) < (objective_key sem b, ce_path b)"
    if "os_mode (ps_objective sem) \<noteq> WEIGHTED_SCORE" "ce_eligible a = ce_eligible b"
  proof (cases "ce_eligible a")
    case True
    then have "map mv_kind (ce_metrics a) = map mv_kind (ce_metrics b)" "list_all mv_valid (ce_metrics a)" "list_all mv_valid (ce_metrics b)"
      "length (ce_metrics a) = length (os_terms (ps_objective sem))"
      using assms that by (auto simp: metrics_shaped_def dest: map_eq_imp_length_eq)
    from lexicographic_oriented[OF this] that show ?thesis by (auto simp: objective_key_def less_prod_simp)
  next
    case False
    with assms that show ?thesis by (simp add: metrics_shaped_def objective_key_def less_prod_simp)
  qed
  show ?thesis
    using lex score by (auto simp: ranks_ahead_def rank_key_def less_prod_simp prio objective_key_def)
qed

end
