(* ===== verification/Evaluation_Guarantees.thy ===== *)
theory Evaluation_Guarantees
  imports Ranking
begin

text \<open>
  What an evaluation guarantees (\<open>evaluate_inputs\<close> of \<^verbatim>\<open>src/fabric_evaluate.cpp\<close>): the target it proposes
  passed every gate and is the best, an ordinary adaptation obeys every declared rule, an emergency
  has its cause, and nothing is suppressed without a reason.
\<close>

section \<open>The ways an evaluation ends\<close>

lemma evaluate_inputs_ends:
  obtains (barren) "find ce_eligible (rank_candidates inputs) = None" "et_lifecycle (evaluate_inputs inputs deps) = DL_SUPPRESSED"
      "et_suppression (evaluate_inputs inputs deps) = Sup_NO_ELIGIBLE_ALTERNATIVE"
  | (unestablished) best t where "find ce_eligible (rank_candidates inputs) = Some best"
      "establish_rules inputs (ce_path best) (ps_thresholds (ap_semantics (vi_policy inputs))) t = Inl (evaluate_inputs inputs deps)"
  | (established) best t t' where "find ce_eligible (rank_candidates inputs) = Some best" "\<not> rp_established (vi_preference inputs)"
      "establish_rules inputs (ce_path best) (ps_thresholds (ap_semantics (vi_policy inputs))) t = Inr t'" "\<not> et_emergency t"
      "et_dependencies t = deps"
      "evaluate_inputs inputs deps = (with_target best (t'\<lparr>et_lifecycle := DL_ELIGIBLE\<rparr>))
         \<lparr>et_detail := ''initial routing preference established from policy and current evidence''\<rparr>"
  | (merit) "et_lifecycle (evaluate_inputs inputs deps) = DL_SUPPRESSED" "et_suppression (evaluate_inputs inputs deps) = Sup_MERIT_NOT_ESTABLISHED"
  | (ineligible) t where "evaluate_inputs inputs deps = report_ineligible inputs t"
  | (held) best t where "find ce_eligible (rank_candidates inputs) = Some best"
      "ordinary_checks inputs (ce_path best) (reverse_move (vi_preference inputs) (ce_path best)) t = Inl (evaluate_inputs inputs deps)"
  | (adapted) best t t' emergency reason where "find ce_eligible (rank_candidates inputs) = Some best" "rp_established (vi_preference inputs)"
      "ce_path best \<noteq> rp_preferred_path (vi_preference inputs)" "emergency_condition inputs = (emergency, reason)"
      "emergency \<or> current_eligible inputs (rank_candidates inputs)"
      "\<not> emergency \<Longrightarrow> ordinary_checks inputs (ce_path best) (reverse_move (vi_preference inputs) (ce_path best)) t = Inr t'"
      "emergency \<Longrightarrow> t' = t"
      "et_emergency t = emergency" "et_dependencies t = deps" "et_target_preference t = ce_path best"
      "et_target_authority_generation t = ce_path_authority_generation best"
      "evaluate_inputs inputs deps = (propose_weights inputs (ce_path best) t')\<lparr>et_lifecycle := DL_ELIGIBLE,
         et_detail := (if emergency then ''emergency override: '' @ reason else ''trigger satisfied for '' @ id_text (ce_path best))\<rparr>"
proof (cases "find ce_eligible (rank_candidates inputs)")
  case None
  have ranked: "et_ranking (base_ticket inputs deps) = rank_candidates inputs" by (simp add: base_ticket_def Let_def)
  show ?thesis
    using None evaluate_inputs_def[of inputs deps, unfolded Let_def ranked None option.case]
    by (intro barren) (simp_all add: suppress_def)
next
  case best: (Some best)
  obtain emergency reason where em: "emergency_condition inputs = (emergency, reason)" by (cases "emergency_condition inputs")
  let ?t1 = "base_ticket inputs deps" and ?pref = "vi_preference inputs"
  let ?t2 = "?t1\<lparr>et_emergency := emergency\<rparr>"
  have ranked: "et_ranking ?t1 = rank_candidates inputs" by (simp add: base_ticket_def Let_def)
  note run = evaluate_inputs_def[of inputs deps, unfolded Let_def ranked best em option.case prod.case]
  show ?thesis
  proof (cases "rp_established ?pref")
    case False
    have no_em: "\<not> emergency" using em False by (simp add: emergency_condition_def Let_def)
    show ?thesis
    proof (cases "establish_rules inputs (ce_path best) (ps_thresholds (ap_semantics (vi_policy inputs))) ?t2")
      case (Inl refused)
      with False run best show ?thesis by (intro unestablished[of best ?t2]) (simp_all add: establish_def)
    next
      case (Inr t')
      with False run best no_em show ?thesis by (intro established[of best ?t2 t']) (simp_all add: establish_def base_ticket_def Let_def)
    qed
  next
    case est: True
    show ?thesis
    proof (cases "ce_path best = rp_preferred_path ?pref")
      case True
      with est run show ?thesis by (intro merit) (simp_all add: with_target_def)
    next
      case other: False
      let ?ok = "current_eligible inputs (rank_candidates inputs)"
      define t4 where "t4 = (if ?ok then with_target best ?t2 else report_ineligible inputs (with_target best ?t2))"
      have t4: "et_emergency t4 = emergency" "et_dependencies t4 = deps" "et_target_preference t4 = ce_path best"
        "et_target_authority_generation t4 = ce_path_authority_generation best"
        by (simp_all add: t4_def report_ineligible_def suppress_def with_target_def base_ticket_def Let_def split: option.split)
      note run = run[simplified est other simp_thms if_False not_True_eq_False, folded t4_def]
      show ?thesis
      proof (cases "\<not> ?ok \<and> \<not> emergency")
        case True
        with run show ?thesis by (intro ineligible[of "with_target best ?t2"]) (simp add: t4_def)
      next
        case act: False
        show ?thesis
        proof (cases "if emergency then Inr t4 else ordinary_checks inputs (ce_path best) (reverse_move ?pref (ce_path best)) t4")
          case (Inl refused)
          with run act best show ?thesis by (intro held[of best t4]) (auto split: if_splits)
        next
          case (Inr t5)
          then show ?thesis using run act t4 em est other best by (intro adapted[of best emergency reason t4 t5]) (auto split: if_splits)
        qed
      qed
    qed
  qed
qed

section \<open>What a passed check says\<close>

definition same_target :: "evaluation_ticket \<Rightarrow> evaluation_ticket \<Rightarrow> bool" where
  "same_target t t' = (et_target_preference t' = et_target_preference t
     \<and> et_target_authority_generation t' = et_target_authority_generation t \<and> et_emergency t' = et_emergency t
     \<and> et_dependencies t' = et_dependencies t)"

definition refused_with_reason :: "evaluation_ticket \<Rightarrow> bool" where
  "refused_with_reason t = (et_lifecycle t = DL_SUPPRESSED \<and> et_suppression t \<noteq> Sup_NONE)"

lemma suppress_reason [simp]: "refused_with_reason (suppress reason outcome detail t) \<longleftrightarrow> reason \<noteq> Sup_NONE"
  by (simp add: refused_with_reason_def suppress_def)

lemma lookup_reason: "\<not> lk_ok (lookup_metric inputs path rq) \<Longrightarrow> lk_reason (lookup_metric inputs path rq) \<noteq> Sup_NONE"
  by (auto simp: lookup_metric_def no_lookup_def Let_def split: option.splits if_splits)

definition threshold_crossed :: "evaluation_inputs \<Rightarrow> path_id \<Rightarrow> path_id \<Rightarrow> threshold_rule \<Rightarrow> bool" where
  "threshold_crossed inputs current best rule =
    (case find_requirement (ap_semantics (vi_policy inputs)) (tr_kind rule) of
       None \<Rightarrow> False
     | Some rq \<Rightarrow> lk_ok (lookup_metric inputs current rq) \<and> lk_ok (lookup_metric inputs best rq)
         \<and> threshold_permits_departure (lk_value (lookup_metric inputs current rq)) (tr_switch_value rule)
         \<and> threshold_permits_entry (lk_value (lookup_metric inputs best rq)) (tr_clear_value rule))"

definition improvement_reached :: "evaluation_inputs \<Rightarrow> path_id \<Rightarrow> path_id \<Rightarrow> bool \<Rightarrow> improvement_rule \<Rightarrow> bool" where
  "improvement_reached inputs current best reverse rule =
    (case find_requirement (ap_semantics (vi_policy inputs)) (ir_kind rule) of
       None \<Rightarrow> False
     | Some rq \<Rightarrow> lk_ok (lookup_metric inputs current rq) \<and> lk_ok (lookup_metric inputs best rq)
         \<and> (case relative_improvement_bps (lk_value (lookup_metric inputs current rq)) (lk_value (lookup_metric inputs best rq)) of
              None \<Rightarrow> False
            | Some observed \<Rightarrow> (if reverse then ir_reverse_bps rule else ir_switch_bps rule) \<le> observed))"

lemma threshold_check_ends:
  "case threshold_check inputs best rule t of
     Inl t' \<Rightarrow> refused_with_reason t'
   | Inr t' \<Rightarrow> t' = t \<and> (\<exists>c. current_binding inputs = Some c \<and> threshold_crossed inputs (cd_path (ca_binding c)) best rule)"
  using lookup_reason by (auto simp: threshold_check_def threshold_crossed_def Let_def split: option.splits)

lemma improvement_check_ends:
  "case improvement_check inputs best reverse rule t of
     Inl t' \<Rightarrow> refused_with_reason t'
   | Inr t' \<Rightarrow> same_target t t' \<and> (\<exists>c. current_binding inputs = Some c \<and> improvement_reached inputs (cd_path (ca_binding c)) best reverse rule)"
  using lookup_reason
  by (auto simp: improvement_check_def improvement_reached_def same_target_def Let_def not_less split: option.splits)

lemma check_all_thresholds:
  "case check_all (threshold_check inputs best) rules t of
     Inl t' \<Rightarrow> refused_with_reason t'
   | Inr t' \<Rightarrow> t' = t \<and> (rules = [] \<or> (\<exists>c. current_binding inputs = Some c
       \<and> list_all (threshold_crossed inputs (cd_path (ca_binding c)) best) rules))"
proof (induction rules arbitrary: t)
  case (Cons rule rules)
  show ?case
  proof (cases "threshold_check inputs best rule t")
    case (Inl t')
    with threshold_check_ends[where inputs = inputs and best = best and rule = rule and t = t] show ?thesis by simp
  next
    case (Inr t')
    with threshold_check_ends[where inputs = inputs and best = best and rule = rule and t = t] Cons.IH[of t'] show ?thesis by (auto split: sum.splits)
  qed
qed simp

lemma check_all_improvements:
  "case check_all (improvement_check inputs best reverse) rules t of
     Inl t' \<Rightarrow> refused_with_reason t'
   | Inr t' \<Rightarrow> same_target t t' \<and> (rules = [] \<or> (\<exists>c. current_binding inputs = Some c
       \<and> list_all (improvement_reached inputs (cd_path (ca_binding c)) best reverse) rules))"
proof (induction rules arbitrary: t)
  case (Cons rule rules)
  show ?case
  proof (cases "improvement_check inputs best reverse rule t")
    case (Inl t')
    with improvement_check_ends[where inputs = inputs and best = best and reverse = reverse and rule = rule and t = t] show ?thesis by simp
  next
    case (Inr t')
    with improvement_check_ends[where inputs = inputs and best = best and reverse = reverse and rule = rule and t = t] Cons.IH[of t'] show ?thesis
      by (auto simp: same_target_def split: sum.splits)
  qed
qed (simp add: same_target_def)

text \<open>The rules an ordinary adaptation from \<open>current\<close> to \<open>best\<close> obeys.\<close>

definition timing_permits :: "evaluation_inputs \<Rightarrow> bool \<Rightarrow> bool" where
  "timing_permits inputs reverse =
    (let ti = vi_timing inputs; sem = ap_semantics (vi_policy inputs); now = vi_now inputs in
     \<not> (reverse \<and> ti_hold_down_active ti \<and> fst (effective_hold_down sem ti) \<noteq> 0 \<and> now < ti_hold_down_deadline ti)
     \<and> \<not> (ti_cooldown_active ti \<and> now < ti_cooldown_deadline ti)
     \<and> \<not> (cb_enabled (ps_churn sem) \<and> cb_max_adaptations (ps_churn sem) \<le> recent_commits sem now ti))"

definition merit_shown :: "evaluation_inputs \<Rightarrow> path_id \<Rightarrow> path_id \<Rightarrow> bool \<Rightarrow> bool" where
  "merit_shown inputs current best reverse =
    (let sem = ap_semantics (vi_policy inputs) in
     list_all (threshold_crossed inputs current best) (ps_thresholds sem)
     \<and> list_all (improvement_reached inputs current best reverse) (ps_improvements sem))"

lemma hold_down_rule_ends:
  "case hold_down_rule inputs best reverse t of
     Inl t' \<Rightarrow> refused_with_reason t'
   | Inr t' \<Rightarrow> t' = t \<and> \<not> (reverse \<and> ti_hold_down_active (vi_timing inputs)
       \<and> fst (effective_hold_down (ap_semantics (vi_policy inputs)) (vi_timing inputs)) \<noteq> 0 \<and> vi_now inputs < ti_hold_down_deadline (vi_timing inputs))"
  by (auto simp: hold_down_rule_def Let_def case_prod_beta)

lemma cooldown_rule_ends:
  "case cooldown_rule inputs t of
     Inl t' \<Rightarrow> refused_with_reason t'
   | Inr t' \<Rightarrow> t' = t \<and> \<not> (ti_cooldown_active (vi_timing inputs) \<and> vi_now inputs < ti_cooldown_deadline (vi_timing inputs))"
  by (auto simp: cooldown_rule_def)

lemma churn_rule_ends:
  "case churn_rule inputs t of
     Inl t' \<Rightarrow> refused_with_reason t'
   | Inr t' \<Rightarrow> t' = t \<and> \<not> (cb_enabled (ps_churn (ap_semantics (vi_policy inputs)))
       \<and> cb_max_adaptations (ps_churn (ap_semantics (vi_policy inputs))) \<le> recent_commits (ap_semantics (vi_policy inputs)) (vi_now inputs) (vi_timing inputs))"
  by (auto simp: churn_rule_def Let_def)

lemma ordinary_checks_ends:
  "case ordinary_checks inputs best reverse t of
     Inl t' \<Rightarrow> refused_with_reason t'
   | Inr t' \<Rightarrow> same_target t t' \<and> timing_permits inputs reverse
       \<and> (\<forall>c. current_binding inputs = Some c \<longrightarrow> merit_shown inputs (cd_path (ca_binding c)) best reverse)"
proof -
  let ?sem = "ap_semantics (vi_policy inputs)"
  note hold = hold_down_rule_ends[where inputs = inputs and best = best and reverse = reverse and t = t]
  note cool = cooldown_rule_ends[where inputs = inputs and t = t]
  note thresholds = check_all_thresholds[where inputs = inputs and best = best and t = t and rules = "ps_thresholds ?sem"]
  note improvements = check_all_improvements[where inputs = inputs and best = best and reverse = reverse and t = t and rules = "ps_improvements ?sem"]
  note run = ordinary_checks_def[of inputs best reverse t, unfolded Let_def]
  show ?thesis
  proof (cases "hold_down_rule inputs best reverse t")
    case (Inl t')
    with hold run show ?thesis by simp
  next
    case h: (Inr t1)
    show ?thesis
    proof (cases "cooldown_rule inputs t")
      case (Inl t')
      with cool hold run h show ?thesis by simp
    next
      case c: (Inr t2)
      show ?thesis
      proof (cases "check_all (threshold_check inputs best) (ps_thresholds ?sem) t")
        case (Inl t')
        with thresholds cool hold run h c show ?thesis by simp
      next
        case th: (Inr t3)
        show ?thesis
        proof (cases "check_all (improvement_check inputs best reverse) (ps_improvements ?sem) t")
          case (Inl t')
          with improvements thresholds cool hold run h c th show ?thesis by simp
        next
          case im: (Inr t4)
          have t: "t1 = t" "t2 = t" "t3 = t" using hold cool thresholds h c th by auto
          have "ordinary_checks inputs best reverse t = churn_rule inputs t4" using run h c th im t by simp
          then show ?thesis
            using churn_rule_ends[where inputs = inputs and t = t4] hold cool thresholds improvements h c th im
            by (cases "churn_rule inputs t4") (auto simp: timing_permits_def merit_shown_def Let_def)
        qed
      qed
    qed
  qed
qed

lemma ordinary_checks_refused: "ordinary_checks inputs best reverse t = Inl t' \<Longrightarrow> refused_with_reason t'"
  using ordinary_checks_ends[where inputs = inputs and best = best and reverse = reverse and t = t] by simp

lemma establish_rules_refused: "establish_rules inputs best rules t = Inl t' \<Longrightarrow> refused_with_reason t'"
  using lookup_reason by (induction rules) (auto simp: Let_def split: option.splits if_splits)

lemma establish_rules_same: "establish_rules inputs best rules t = Inr t' \<Longrightarrow> t' = t"
  by (induction rules) (auto simp: Let_def split: option.splits if_splits)

lemma report_ineligible_reason: "refused_with_reason (report_ineligible inputs t)"
  by (auto simp: report_ineligible_def refused_with_reason_def suppress_def Let_def split: option.splits)

lemma refused_not_eligible: "refused_with_reason t \<Longrightarrow> et_lifecycle t \<noteq> DL_ELIGIBLE"
  by (simp add: refused_with_reason_def)

lemma propose_weights_same: "same_target t (propose_weights inputs best t)"
  by (simp add: propose_weights_def same_target_def Let_def split: option.split)

section \<open>Guarantees\<close>

lemma evaluation_proposes_or_refuses:
  "et_lifecycle (evaluate_inputs inputs deps) = DL_ELIGIBLE \<or> refused_with_reason (evaluate_inputs inputs deps)"
proof (cases rule: evaluate_inputs_ends[of inputs deps])
  case barren
  then show ?thesis by (simp add: refused_with_reason_def)
next
  case (unestablished best t)
  then show ?thesis using establish_rules_refused by blast
next
  case (established best t t')
  then show ?thesis by (simp add: with_target_def)
next
  case merit
  then show ?thesis by (simp add: refused_with_reason_def)
next
  case (ineligible t)
  then show ?thesis using report_ineligible_reason by metis
next
  case (held best t)
  then show ?thesis using ordinary_checks_refused by blast
next
  case (adapted best t t' emergency reason)
  then show ?thesis by simp
qed

text \<open>
  C38: nothing is suppressed silently.  Every evaluation proposes an adaptation or is suppressed with
  a declared reason; there is no third way and no suppression without a reason.
\<close>

theorem no_silent_suppression:
  "et_lifecycle (evaluate_inputs inputs deps) = DL_ELIGIBLE \<or> refused_with_reason (evaluate_inputs inputs deps)"
  by (rule evaluation_proposes_or_refuses)

text \<open>The cause an emergency override needs.\<close>

definition emergency_cause :: "evaluation_inputs \<Rightarrow> bool" where
  "emergency_cause inputs =
    (let rule = ps_emergency (ap_semantics (vi_policy inputs)) in
     em_enabled rule \<and> rp_established (vi_preference inputs)
     \<and> (case current_binding inputs of
          None \<Rightarrow> em_on_unauthorized rule \<or> em_on_unavailable rule
        | Some c \<Rightarrow> em_on_unauthorized rule \<and> \<not> pa_legal (cd_path_authority (ca_binding c))
            \<or> em_on_unavailable rule \<and> \<not> cd_available (ca_binding c)
            \<or> em_on_hard_failure rule \<and> cd_hard_failure (ca_binding c)))"

lemma emergency_condition_cause: "fst (emergency_condition inputs) \<longleftrightarrow> emergency_cause inputs"
  by (auto simp: emergency_condition_def emergency_cause_def Let_def split: option.splits)

lemma eligible_ends:
  assumes "et_lifecycle (evaluate_inputs inputs deps) = DL_ELIGIBLE"
  obtains best where "find ce_eligible (rank_candidates inputs) = Some best" "et_dependencies (evaluate_inputs inputs deps) = deps"
    "et_target_preference (evaluate_inputs inputs deps) = ce_path best"
    "et_target_authority_generation (evaluate_inputs inputs deps) = ce_path_authority_generation best"
    "rp_established (vi_preference inputs) \<Longrightarrow> ce_path best \<noteq> rp_preferred_path (vi_preference inputs)"
    "rp_established (vi_preference inputs) \<Longrightarrow> et_emergency (evaluate_inputs inputs deps) \<longleftrightarrow> emergency_cause inputs"
    "rp_established (vi_preference inputs) \<Longrightarrow> \<not> emergency_cause inputs \<Longrightarrow> current_eligible inputs (rank_candidates inputs)
       \<and> timing_permits inputs (reverse_move (vi_preference inputs) (ce_path best))
       \<and> (\<forall>c. current_binding inputs = Some c \<longrightarrow>
            merit_shown inputs (cd_path (ca_binding c)) (ce_path best) (reverse_move (vi_preference inputs) (ce_path best)))"
proof (cases rule: evaluate_inputs_ends[of inputs deps])
  case barren
  then show ?thesis using assms by simp
next
  case (unestablished best t)
  then show ?thesis using establish_rules_refused refused_not_eligible assms by blast
next
  case (established best t t')
  moreover have "et_dependencies t' = deps" using established establish_rules_same by metis
  ultimately show ?thesis by (intro that[of best]) (simp_all add: with_target_def)
next
  case merit
  then show ?thesis using assms by simp
next
  case (ineligible t)
  then show ?thesis using report_ineligible_reason refused_not_eligible assms by metis
next
  case (held best t)
  then show ?thesis using ordinary_checks_refused refused_not_eligible assms by blast
next
  case (adapted best t t' emergency reason)
  have cause: "emergency \<longleftrightarrow> emergency_cause inputs" using adapted(4) emergency_condition_cause[of inputs] by simp
  have "same_target t t' \<and> (\<not> emergency \<longrightarrow> timing_permits inputs (reverse_move (vi_preference inputs) (ce_path best))
       \<and> (\<forall>c. current_binding inputs = Some c \<longrightarrow>
            merit_shown inputs (cd_path (ca_binding c)) (ce_path best) (reverse_move (vi_preference inputs) (ce_path best))))"
  proof (cases emergency)
    case True
    with adapted(7) show ?thesis by (simp add: same_target_def)
  next
    case False
    with adapted(6) ordinary_checks_ends[where inputs = inputs and best = "ce_path best" and t = t
        and reverse = "reverse_move (vi_preference inputs) (ce_path best)"]
    show ?thesis by simp
  qed
  then show ?thesis
    using adapted(1,3,5,8-12) cause propose_weights_same[of t' inputs "ce_path best"]
    by (intro that[of best]) (auto simp: same_target_def)
qed

text \<open>
  C18: a proposed target passed every gate.  The target of an evaluation that proposes an adaptation
  is one of the policy's candidates, with the path authority generation recorded on it, and that
  candidate is legal, current on its route, available, inside the target set, has every required
  piece of evidence and a computable objective.
\<close>

theorem proposed_target_passed_every_gate:
  assumes "et_lifecycle (evaluate_inputs inputs deps) = DL_ELIGIBLE"
  shows "\<exists>c \<in> set (vi_candidates inputs). passes_gates inputs (ca_binding c)
    \<and> cd_path (ca_binding c) = et_target_preference (evaluate_inputs inputs deps)
    \<and> pa_generation (cd_path_authority (ca_binding c)) = et_target_authority_generation (evaluate_inputs inputs deps)"
proof -
  obtain best where best: "find ce_eligible (rank_candidates inputs) = Some best"
    "et_target_preference (evaluate_inputs inputs deps) = ce_path best"
    "et_target_authority_generation (evaluate_inputs inputs deps) = ce_path_authority_generation best"
    by (rule eligible_ends[OF assms])
  then have "best \<in> set (rank_candidates inputs)" "ce_eligible best" by (auto simp: find_Some_iff)
  then obtain c where "c \<in> set (vi_candidates inputs)" "best = evaluate_candidate inputs c" by (auto simp: rank_candidates_def)
  with best \<open>ce_eligible best\<close> show ?thesis by (auto simp: evaluate_candidate_eligible)
qed

text \<open>
  C17: an adaptation is justified.  An evaluation that proposes to leave an established preference
  proposes another path, and either an enabled emergency rule has its cause on the current path, or
  the current preference is itself eligible, hold-down, cooldown and churn bound permit the move,
  and every threshold and improvement rule is satisfied by current evidence of both paths.
\<close>

theorem adaptation_is_justified:
  assumes "et_lifecycle (evaluate_inputs inputs deps) = DL_ELIGIBLE" and "rp_established (vi_preference inputs)"
  shows "et_target_preference (evaluate_inputs inputs deps) \<noteq> rp_preferred_path (vi_preference inputs)
    \<and> (if et_emergency (evaluate_inputs inputs deps) then emergency_cause inputs
       else (\<exists>c. current_binding inputs = Some c \<and> current_eligible inputs (rank_candidates inputs)
         \<and> timing_permits inputs (reverse_move (vi_preference inputs) (et_target_preference (evaluate_inputs inputs deps)))
         \<and> merit_shown inputs (cd_path (ca_binding c)) (et_target_preference (evaluate_inputs inputs deps))
             (reverse_move (vi_preference inputs) (et_target_preference (evaluate_inputs inputs deps)))))"
proof (rule eligible_ends[OF assms(1)], goal_cases)
  case (1 best)
  then show ?case using assms(2) by (auto simp: current_eligible_def)
qed

section \<open>The ranking\<close>

lemma lookup_metric_candidates [simp]: "lookup_metric (inputs\<lparr>vi_candidates := cs\<rparr>) = lookup_metric inputs"
proof -
  have same: "vi_evidence (inputs\<lparr>vi_candidates := cs\<rparr>) = vi_evidence inputs" "vi_now (inputs\<lparr>vi_candidates := cs\<rparr>) = vi_now inputs" by simp_all
  show ?thesis unfolding fun_eq_iff lookup_metric_def same by (intro allI refl)
qed

lemma objective_metrics_candidates [simp]: "objective_metrics (inputs\<lparr>vi_candidates := cs\<rparr>) path ts = objective_metrics inputs path ts"
  by (induction ts) (auto simp: Let_def split: option.split sum.split)

lemma evaluate_candidate_candidates [simp]: "evaluate_candidate (inputs\<lparr>vi_candidates := cs\<rparr>) = evaluate_candidate inputs"
proof (rule ext)
  fix c
  have "evidence_step (inputs\<lparr>vi_candidates := cs\<rparr>) = evidence_step inputs" by (simp add: fun_eq_iff evidence_step_def)
  moreover have "vi_policy (inputs\<lparr>vi_candidates := cs\<rparr>) = vi_policy inputs" "vi_preference (inputs\<lparr>vi_candidates := cs\<rparr>) = vi_preference inputs"
    by simp_all
  ultimately show "evaluate_candidate (inputs\<lparr>vi_candidates := cs\<rparr>) c = evaluate_candidate inputs c"
    unfolding evaluate_candidate_def evidence_gate_def objective_gate_def blank_evaluation_def
    by (simp only: objective_metrics_candidates)
qed

lemma copy_inputs_shape:
  assumes "copy_inputs clock l s r ids = Some (ids', inputs)"
  shows "evidence_typed inputs \<and> vi_candidates inputs = pc_candidates r \<and> vi_policy inputs = pc_policy r
    \<and> vi_preference inputs = pc_preference r \<and> vi_timing inputs = pc_timing r \<and> vi_now inputs = clock 1"
proof -
  obtain ev where ev: "capture_evidence_locked (clock 0) s r ids = Some (ids', ev)" "vi_evidence inputs = Some ev"
    and rest: "vi_candidates inputs = pc_candidates r" "vi_policy inputs = pc_policy r" "vi_preference inputs = pc_preference r"
      "vi_timing inputs = pc_timing r" "vi_now inputs = clock 1"
    using assms by (auto simp: copy_inputs_def split: option.splits)
  let ?typed = "\<lambda>b. list_all (\<lambda>v. mv_kind (ea_value (re_aggregate v)) = re_kind v) (ev_values b)"
  have one: "mv_kind (ea_value (re_aggregate v)) = re_kind v" if "resolve s path rq = Some v" for v path rq
    using that mv_decode_ok
    by (auto simp: resolve_def aggregate_for_def aggregate_of_def mv_make_def Let_def split: option.splits)
  have add: "?typed (add_resolved b (resolve s path rq))" if "?typed b" for b path rq
    using that one[of path rq] by (auto simp: add_resolved_def builder_add_value_def builder_add_binding_def Let_def split: option.split)
  have inner: "?typed (foldl (\<lambda>b rq. add_resolved b (resolve s path rq)) b rqs)" if "?typed b" for b path rqs
    using that by (induction rqs arbitrary: b) (simp_all add: add)
  have outer: "?typed (foldl (\<lambda>b c. foldl (\<lambda>b rq. add_resolved b (resolve s (cd_path (ca_binding c)) rq)) b rqs) b cs)" if "?typed b" for b rqs cs
    using that by (induction cs arbitrary: b) (simp_all add: inner)
  have finish: "?typed (builder_finish b)" if "?typed b" for b using that by (simp add: builder_finish_def list_all_iff)
  have new: "?typed (builder_new i g ep t)" for i g ep t by (simp add: builder_new_def)
  have "?typed ev"
    using ev(1) finish[OF outer[OF new]] by (auto simp: capture_evidence_locked_def split: option.splits)
  with ev(2) rest show ?thesis by (simp add: evidence_typed_def)
qed

text \<open>
  C35: the ranking is a function of the facts alone.  On the inputs copied for a well-formed policy,
  declaring the candidates in another order gives the same ranking, and the first entry ranks
  strictly ahead of every other.
\<close>

theorem ranking_ignores_declaration_order:
  assumes "policy_record_ok l p r" and "copy_inputs clock l s r ids = Some (ids', inputs)" and "mset cs = mset (pc_candidates r)"
  shows "rank_candidates (inputs\<lparr>vi_candidates := cs\<rparr>) = rank_candidates inputs
    \<and> (case rank_candidates inputs of [] \<Rightarrow> True | best # others \<Rightarrow> list_all (ranks_ahead (ap_semantics (pc_policy r)) best) others)"
proof -
  let ?sem = "ap_semantics (pc_policy r)" and ?xs = "map (evaluate_candidate inputs) (vi_candidates inputs)"
  let ?ys = "map (evaluate_candidate inputs) cs"
  note shape = copy_inputs_shape[OF assms(2)]
  have paths: "distinct (map ce_path ?xs)"
    using assms(1) shape by (simp add: policy_record_ok_def candidates_ok_def comp_def)
  have eq: "mset ?xs = mset ?ys" using assms(3) shape by simp
  have good: "metrics_shaped ?sem x" if "x \<in> set ?xs" for x
    using that evaluate_candidate_shaped[of inputs] shape by auto
  have rank: "ranking (ranks_ahead ?sem) (\<lambda>x. x \<in> set ?xs)"
  proof
    fix x y assume xy: "x \<in> set ?xs" "y \<in> set ?xs" "x \<noteq> y"
    then have "ce_path x \<noteq> ce_path y" using paths unfolding distinct_map by (meson inj_onD)
    then have "rank_key ?sem x \<noteq> rank_key ?sem y" by (simp add: rank_key_def)
    then show "ranks_ahead ?sem x y \<or> ranks_ahead ?sem y x" using ranks_ahead_key good xy by (metis neq_iff)
  next
    show "\<not> ranks_ahead ?sem x x" if "x \<in> set ?xs" for x using ranks_ahead_key[OF good[OF that] good[OF that]] by simp
  next
    fix x y z assume m: "x \<in> set ?xs" "y \<in> set ?xs" "z \<in> set ?xs" and lt: "ranks_ahead ?sem x y" "ranks_ahead ?sem y z"
    have "rank_key ?sem x < rank_key ?sem y" "rank_key ?sem y < rank_key ?sem z"
      using lt ranks_ahead_key good m by blast+
    then have "rank_key ?sem x < rank_key ?sem z" by (rule less_trans)
    then show "ranks_ahead ?sem x z" using ranks_ahead_key good m by blast
  qed
  have "rank_candidates (inputs\<lparr>vi_candidates := cs\<rparr>) = sort_by (ranks_ahead ?sem) ?ys"
    using shape by (simp add: rank_candidates_def)
  moreover have sorted: "rank_candidates inputs = sort_by (ranks_ahead ?sem) ?xs" using shape by (simp add: rank_candidates_def)
  moreover have "sort_by (ranks_ahead ?sem) ?ys = sort_by (ranks_ahead ?sem) ?xs"
    using ranking.sort_canonical[OF rank eq] by simp
  moreover have "list_all (ranks_ahead ?sem best) others" if "sort_by (ranks_ahead ?sem) ?xs = best # others" for best others
  proof -
    have "distinct (best # others)"
      using paths that by (metis distinct_map mset_eq_imp_distinct_iff mset_sort_by)
    moreover have "set others \<subseteq> set ?xs" using that by (metis set_sort_by set_subset_Cons)
    ultimately show ?thesis using ranking.sort_head[OF rank _ that] by (auto simp: list_all_iff)
  qed
  ultimately show ?thesis by (auto split: list.split)
qed

section \<open>Witnesses\<close>

text \<open>
  The held preference on the first path with latency 100 against 50 on the second: an improvement of
  5000 basis points where 1000 are required.
\<close>

definition sample_inputs :: "(id_factory \<times> evaluation_inputs) option" where
  "sample_inputs = copy_inputs (\<lambda>_. 20) default_limits (measured_state held_record 100 50) held_record sample_factory"

lemma sample_inputs_eligible:
  "case sample_inputs of None \<Rightarrow> False | Some x \<Rightarrow> et_lifecycle (evaluate_inputs (snd x) no_dependencies) = DL_ELIGIBLE
     \<and> rp_established (vi_preference (snd x)) \<and> et_target_preference (evaluate_inputs (snd x) no_dependencies) = StrongId ''p2''"
  by code_simp

lemma sample_inputs_run:
  obtains x where "sample_inputs = Some x" "et_lifecycle (evaluate_inputs (snd x) no_dependencies) = DL_ELIGIBLE"
    "rp_established (vi_preference (snd x))" "et_target_preference (evaluate_inputs (snd x) no_dependencies) = StrongId ''p2''"
proof (cases sample_inputs)
  case None
  then show ?thesis using sample_inputs_eligible by (simp only: option.case)
next
  case (Some x)
  show ?thesis using sample_inputs_eligible unfolding Some option.case by (elim conjE) (rule that[OF Some])
qed

theorem proposed_target_passed_every_gate_witness:
  "case sample_inputs of None \<Rightarrow> False | Some x \<Rightarrow>
     \<exists>c \<in> set (vi_candidates (snd x)). passes_gates (snd x) (ca_binding c) \<and> cd_path (ca_binding c) = StrongId ''p2''"
proof (rule sample_inputs_run)
  fix x assume x: "sample_inputs = Some x" "et_lifecycle (evaluate_inputs (snd x) no_dependencies) = DL_ELIGIBLE"
    "et_target_preference (evaluate_inputs (snd x) no_dependencies) = StrongId ''p2''"
  show ?thesis unfolding x(1) option.case using proposed_target_passed_every_gate[OF x(2)] unfolding x(3) by blast
qed

theorem adaptation_is_justified_witness:
  "case sample_inputs of None \<Rightarrow> False | Some x \<Rightarrow>
     (if et_emergency (evaluate_inputs (snd x) no_dependencies) then emergency_cause (snd x)
      else (\<exists>c. current_binding (snd x) = Some c \<and> merit_shown (snd x) (cd_path (ca_binding c)) (StrongId ''p2'')
        (reverse_move (vi_preference (snd x)) (StrongId ''p2''))))"
proof (rule sample_inputs_run)
  fix x assume x: "sample_inputs = Some x" "et_lifecycle (evaluate_inputs (snd x) no_dependencies) = DL_ELIGIBLE"
    "rp_established (vi_preference (snd x))" "et_target_preference (evaluate_inputs (snd x) no_dependencies) = StrongId ''p2''"
  show ?thesis unfolding x(1) option.case using adaptation_is_justified[OF x(2,3)] unfolding x(4) by (auto split: if_splits)
qed

theorem ranking_ignores_declaration_order_witness:
  "case sample_inputs of None \<Rightarrow> False | Some x \<Rightarrow>
     rank_candidates ((snd x)\<lparr>vi_candidates := rev (pc_candidates held_record)\<rparr>) = rank_candidates (snd x)"
proof (rule sample_inputs_run)
  fix x assume x: "sample_inputs = Some x"
  then have "copy_inputs (\<lambda>_. 20) default_limits (measured_state held_record 100 50) held_record sample_factory = Some (fst x, snd x)"
    by (simp add: sample_inputs_def)
  from ranking_ignores_declaration_order[OF held_record_ok this, of "rev (pc_candidates held_record)"]
  show ?thesis unfolding x option.case by simp
qed

end
