(* ===== verification/Commit_Guarantees.thy ===== *)
theory Commit_Guarantees
  imports Evaluation_Guarantees
begin

text \<open>
  What the two-phase commit guarantees (\<open>commit_evaluation\<close>, \<open>verify_and_commit\<close> and \<open>rollback\<close> of
  \<^verbatim>\<open>src/fabric_evaluate.cpp\<close>): a decision commits only on the state it was computed from, exactly
  one policy moves and by exactly one generation, a fresh move cannot be undone inside its
  hold-down, the same target commits once, and rollback swaps with a legal stable path.
\<close>

section \<open>Verification and drift\<close>

lemma verify_ends:
  assumes "verify now l s r t = Inr (b, ad, tr)"
  shows "\<exists>i. find_candidate (pc_candidates r) (et_target_preference t) = Some i \<and> b = ca_binding (pc_candidates r ! i)
    \<and> pa_legal (cd_path_authority b)
    \<and> (gen_valid (et_target_authority_generation t) \<longrightarrow> pa_generation (cd_path_authority b) = et_target_authority_generation t)
    \<and> gen_next (rp_adaptation_generation (pc_preference r)) = Some ad
    \<and> gen_next (rp_transition_generation (pc_preference r)) = Some tr"
  using assms by (auto simp: verify_def Let_def split: option.splits if_splits)

lemma verify_timing:
  assumes "verify now l s r t = Inr x" and "\<not> et_emergency t"
  shows "\<not> (ti_hold_down_active (pc_timing r) \<and> reverse_move (pc_preference r) (et_target_preference t)
      \<and> committed_hold_down (ap_semantics (pc_policy r)) (pc_timing r) \<noteq> 0 \<and> now < ti_hold_down_deadline (pc_timing r))"
    and "\<not> (ti_cooldown_active (pc_timing r) \<and> now < ti_cooldown_deadline (pc_timing r))"
    and "\<not> (cb_enabled (ps_churn (ap_semantics (pc_policy r)))
      \<and> cb_max_adaptations (ps_churn (ap_semantics (pc_policy r))) \<le> recent_commits (ap_semantics (pc_policy r)) now (pc_timing r))"
  using assms by (auto simp: verify_def Let_def split: if_splits)

lemma verify_and_commit_ends:
  assumes "verify_and_commit now l pid r t ctx ids s = Some (Inr (ids', s'))"
  obtains b ad tr plan i where "verify now l s r t = Inr (b, ad, tr)"
    "s' = journal l (fst (committed_record now l s ctx t b ad tr plan i r))
       (put_policy pid (snd (committed_record now l s ctx t b ad tr plan i r)) s)"
  using assms
  by (auto simp: verify_and_commit_def case_prod_beta Let_def split: sum.splits option.splits)

lemma first_drift_none: "first_drift d k cs = None \<longleftrightarrow> (\<forall>i < length cs. drift_at d (k + i) (cs ! i) = None)"
proof (induction cs arbitrary: k)
  case (Cons c cs)
  show ?case
  proof
    assume "first_drift d k (c # cs) = None"
    then have "drift_at d k c = None" "\<forall>i < length cs. drift_at d (Suc k + i) (cs ! i) = None"
      using Cons.IH[of "Suc k"] by (auto split: option.splits)
    then show "\<forall>i < length (c # cs). drift_at d (k + i) ((c # cs) ! i) = None" by (auto simp: less_Suc_eq_0_disj)
  next
    assume *: "\<forall>i < length (c # cs). drift_at d (k + i) ((c # cs) ! i) = None"
    then have "drift_at d k c = None" by force
    moreover have "\<forall>i < length cs. drift_at d (Suc k + i) (cs ! i) = None" using * by force
    ultimately show "first_drift d k (c # cs) = None" using Cons.IH[of "Suc k"] by simp
  qed
qed simp

text \<open>The facts about a candidate that a decision depends on.\<close>

definition candidate_facts :: "candidate_record \<Rightarrow> path_id \<times> u64 \<times> path_authority_generation \<times> bool" where
  "candidate_facts c = (cd_path (ca_binding c), ca_path_watermark c, pa_generation (cd_path_authority (ca_binding c)),
     pa_legal (cd_path_authority (ca_binding c)))"

lemma no_drift_no_change:
  assumes "dependency_drift r' (build_dependencies now s r ev) = None"
  shows "map candidate_facts (pc_candidates r') = map candidate_facts (pc_candidates r)"
proof -
  let ?d = "build_dependencies now s r ev"
  have len: "length (pc_candidates r') = length (pc_candidates r)"
    using assms by (auto simp: dependency_drift_def build_dependencies_def Let_def split: if_splits)
  moreover have "candidate_facts (pc_candidates r' ! i) = candidate_facts (pc_candidates r ! i)" if i: "i < length (pc_candidates r)" for i
  proof -
    have "drift_at ?d i (pc_candidates r' ! i) = None"
      using assms i len first_drift_none[of ?d 0] by (auto simp: dependency_drift_def split: if_splits)
    then show ?thesis
      using i by (auto simp: drift_at_def authority_moved_def build_dependencies_def candidate_facts_def Let_def split: if_splits option.splits)
  qed
  ultimately show ?thesis by (simp add: list_eq_iff_nth_eq)
qed

section \<open>Nothing stale commits\<close>

text \<open>
  C1: a stale decision never commits.  Whatever happened to the engine between the two phases, a
  commit of the ticket that phase one issued mutates only if the caller is accepted now, epoch,
  authority generation, evidence generation and evidence watermark are those of the evaluation, the
  policy is active in the same generation, and every candidate has the path, watermark, authority
  generation and legality that the evaluation read; the target is one of them and is legal.
\<close>

theorem stale_decision_never_commits:
  assumes "engine_ok e" and "begin_evaluation clock rq e = Some (e1, t)"
    and "engine_ok e2" and "commit_evaluation now \<lparr>kr_ticket = t, kr_context = ctx\<rparr> e2 = Some (e3, res)" and "or_mutated res"
  shows "\<exists>r r2. om_find (g_policies (en_state e)) (vr_policy rq) = Some r \<and> om_find (g_policies (en_state e2)) (vr_policy rq) = Some r2
    \<and> (\<exists>reg. check_caller (en_state e2) ctx None None = Inr reg)
    \<and> g_epoch (en_state e2) = g_epoch (en_state e) \<and> g_authority_generation (en_state e2) = g_authority_generation (en_state e)
    \<and> g_evidence_generation (en_state e2) = g_evidence_generation (en_state e)
    \<and> g_evidence_watermark (en_state e2) = g_evidence_watermark (en_state e)
    \<and> ap_lifecycle (pc_policy r2) = PL_ACTIVE \<and> ap_generation (pc_policy r2) = ap_generation (pc_policy r)
    \<and> map candidate_facts (pc_candidates r2) = map candidate_facts (pc_candidates r)
    \<and> (\<exists>c \<in> set (pc_candidates r2). cd_path (ca_binding c) = et_target_preference t \<and> pa_legal (cd_path_authority (ca_binding c)))"
  using assms(2)
proof (cases rule: begin_evaluation_ends)
  case (refused outcome detail)
  then show ?thesis
    using assms(4,5) by (simp add: commit_evaluation_def refused_ticket_def Let_def) auto
next
  case (issued r reg ids1 ids2 ids3 ev inputs decision)
  let ?d = "build_dependencies (clock 0) (en_state e) r ev"
  have id: "ap_id (pc_policy r) = vr_policy rq"
    using state_ok_record[OF _ issued(1)] assms(1) by (simp add: engine_ok_def policy_record_ok_def)
  show ?thesis
    using assms(4)
  proof (cases rule: commit_evaluation_ends)
    case (committed r2 ids s1 c)
    have el: "et_lifecycle (evaluate_inputs inputs ?d) = DL_ELIGIBLE" using committed(2) issued(9) by simp
    have deps: "et_dependencies t = ?d" using eligible_ends[OF el] issued(9) by auto
    have pid: "ds_policy ?d = vr_policy rq" by (simp add: build_dependencies_def Let_def id)
    note ad = committed(1)[unfolded admitted_def, simplified, unfolded deps pid]
    have ok: "ticket_refusal (en_state e2) r2 t = None" using ad by blast
    have eq: "g_epoch (en_state e2) = ds_epoch ?d" "g_authority_generation (en_state e2) = ds_authority_generation ?d"
      "g_evidence_generation (en_state e2) = ds_evidence_generation ?d" "g_evidence_watermark (en_state e2) = ds_evidence_watermark ?d"
      "ap_lifecycle (pc_policy r2) = PL_ACTIVE" "ap_generation (pc_policy r2) = ds_policy_generation ?d"
      "dependency_drift r2 ?d = None"
      using ok committed(2) unfolding ticket_refusal_def Let_def deps by (auto split: if_splits option.splits)
    obtain b adg tr where v: "verify now (en_limits e2) (en_state e2) r2 t = Inr (b, adg, tr)"
      using committed(4) by (auto elim: verify_and_commit_ends)
    have "candidates_ok (pc_candidates r2)"
      using state_ok_record[of _ "en_state e2" "vr_policy rq" r2] ad assms(3) by (auto simp: engine_ok_def policy_record_ok_def)
    from find_candidate_cases[OF this, of "et_target_preference t"] verify_ends[OF v]
    have "\<exists>c \<in> set (pc_candidates r2). cd_path (ca_binding c) = et_target_preference t \<and> pa_legal (cd_path_authority (ca_binding c))"
      by (auto intro!: bexI[of _ "pc_candidates r2 ! i" for i])
    then show ?thesis
      using issued(1) ad eq(1-6) no_drift_no_change[OF eq(7)] by (auto simp: build_dependencies_def Let_def)
  qed (use assms(5) in auto)
qed

section \<open>What a commit does\<close>

lemma journal_bound: "length (g_decision_journal (journal l d s)) \<le> unat (lim_max_decision_history l)"
  by (simp add: journal_def fifo_trim_drop)

lemma record_attempt_journal [simp]: "g_decision_journal (record_attempt l a f oc dt s) = g_decision_journal s"
  by (simp add: record_attempt_def Let_def prune_attempts_def split: option.splits prod.splits)

lemma commit_mutates:
  assumes "commit_evaluation now rq e = Some (e', res)" and "or_mutated res"
  obtains r b ad tr plan i where "admitted e (kr_context rq) (kr_ticket rq) r" "et_lifecycle (kr_ticket rq) = DL_ELIGIBLE"
    "\<not> (rp_established (pc_preference r) \<and> rp_preferred_path (pc_preference r) = et_target_preference (kr_ticket rq))"
    "verify now (en_limits e) (en_state e) r (kr_ticket rq) = Inr (b, ad, tr)"
    "g_policies (en_state e') = om_put (ds_policy (et_dependencies (kr_ticket rq)))
       (snd (committed_record now (en_limits e) (en_state e) (kr_context rq) (kr_ticket rq) b ad tr plan i r)) (g_policies (en_state e))"
    "length (g_decision_journal (en_state e')) \<le> unat (lim_max_decision_history (en_limits e))"
  using assms(1)
proof (cases rule: commit_evaluation_ends)
  case (committed r ids s1 c)
  obtain b ad tr plan i where v: "verify now (en_limits e) (en_state e) r (kr_ticket rq) = Inr (b, ad, tr)"
    "s1 = journal (en_limits e) (fst (committed_record now (en_limits e) (en_state e) (kr_context rq) (kr_ticket rq) b ad tr plan i r))
       (put_policy (ds_policy (et_dependencies (kr_ticket rq)))
         (snd (committed_record now (en_limits e) (en_state e) (kr_context rq) (kr_ticket rq) b ad tr plan i r)) (en_state e))"
    by (rule verify_and_commit_ends[OF committed(4)])
  have "g_policies (en_state e') = om_put (ds_policy (et_dependencies (kr_ticket rq)))
       (snd (committed_record now (en_limits e) (en_state e) (kr_context rq) (kr_ticket rq) b ad tr plan i r)) (g_policies (en_state e))"
    "length (g_decision_journal (en_state e')) \<le> unat (lim_max_decision_history (en_limits e))"
    unfolding committed(5) v(2) by (simp_all add: put_policy_def journal_bound)
  then show ?thesis by (rule that[OF committed(1-3) v(1)])
qed (use assms(2) in auto)

lemma committed_record_fields:
  assumes "verify now l s r t = Inr (b, ad, tr)" and "r' = snd (committed_record now l s ctx t b ad tr plan i r)"
    and "candidates_ok (pc_candidates r)"
  shows "rp_established (pc_preference r')" and "rp_preferred_path (pc_preference r') = et_target_preference t"
    and "rp_previous_path (pc_preference r') = (if rp_established (pc_preference r) then rp_preferred_path (pc_preference r) else no_id)"
    and "rp_adaptation_generation (pc_preference r') = ad" and "rp_transition_generation (pc_preference r') = tr"
    and "pc_stable r' = (if rp_established (pc_preference r) then displaced_state now (pc_preference r) else no_stable_state)"
    and "pc_timing r' = committed_timing now l r" and "pc_policy r' = pc_policy r" and "pc_candidates r' = pc_candidates r"
proof -
  have path: "cd_path b = et_target_preference t"
    using verify_ends[OF assms(1)] find_candidate_cases[OF assms(3), of "et_target_preference t"] by auto
  show "rp_established (pc_preference r')" "rp_preferred_path (pc_preference r') = et_target_preference t"
    "rp_previous_path (pc_preference r') = (if rp_established (pc_preference r) then rp_preferred_path (pc_preference r) else no_id)"
    "rp_adaptation_generation (pc_preference r') = ad" "rp_transition_generation (pc_preference r') = tr"
    "pc_stable r' = (if rp_established (pc_preference r) then displaced_state now (pc_preference r) else no_stable_state)"
    "pc_timing r' = committed_timing now l r" "pc_policy r' = pc_policy r" "pc_candidates r' = pc_candidates r"
    using path by (simp_all add: assms(2) committed_record_def committed_preference_def Let_def)
qed

lemma admitted_record:
  assumes "admitted e ctx t r" and "engine_ok e"
  shows "candidates_ok (pc_candidates r)" and "om_find (g_policies (en_state e)) (ds_policy (et_dependencies t)) = Some r"
  using assms state_ok_record[of "en_limits e" "en_state e" "ds_policy (et_dependencies t)" r]
  by (auto simp: admitted_def engine_ok_def policy_record_ok_def)

text \<open>
  C22: a commit is one transition of one policy.  The preference becomes the target, both
  generations are the next ones, the displaced preference is the previous path and the rollback
  anchor (a first preference leaves neither), the policy's terms and candidates do not change, no
  other policy is touched, and the decision journal stays within its limit.
\<close>

theorem commit_is_one_transition:
  assumes "engine_ok e" and "commit_evaluation now rq e = Some (e', res)" and "or_mutated res"
    and "om_find (g_policies (en_state e)) (ds_policy (et_dependencies (kr_ticket rq))) = Some r"
  shows "\<exists>r'. om_find (g_policies (en_state e')) (ds_policy (et_dependencies (kr_ticket rq))) = Some r'
    \<and> (\<forall>q. q \<noteq> ds_policy (et_dependencies (kr_ticket rq)) \<longrightarrow> om_find (g_policies (en_state e')) q = om_find (g_policies (en_state e)) q)
    \<and> pc_policy r' = pc_policy r \<and> pc_candidates r' = pc_candidates r
    \<and> rp_established (pc_preference r') \<and> rp_preferred_path (pc_preference r') = et_target_preference (kr_ticket rq)
    \<and> gen_next (rp_adaptation_generation (pc_preference r)) = Some (rp_adaptation_generation (pc_preference r'))
    \<and> gen_next (rp_transition_generation (pc_preference r)) = Some (rp_transition_generation (pc_preference r'))
    \<and> (if rp_established (pc_preference r)
       then rp_previous_path (pc_preference r') = rp_preferred_path (pc_preference r)
         \<and> ss_established (pc_stable r') \<and> ss_path (pc_stable r') = rp_preferred_path (pc_preference r)
       else rp_previous_path (pc_preference r') = no_id \<and> \<not> ss_established (pc_stable r'))
    \<and> length (g_decision_journal (en_state e')) \<le> unat (lim_max_decision_history (en_limits e))"
proof (rule commit_mutates[OF assms(2,3)], goal_cases)
  case (1 r1 b ad tr plan i)
  note ok = admitted_record[OF 1(1) assms(1)]
  have r: "r1 = r" using ok(2) assms(4) by simp
  note f = committed_record_fields[OF 1(4) refl ok(1)]
  show ?case
    using verify_ends[OF 1(4)] 1(6) unfolding r
    by (simp add: 1(5) om_find_put f(1-6,8,9)[unfolded r] r displaced_state_def no_stable_state_def) blast
qed

section \<open>No flapping\<close>

text \<open>The hold-down a commit arms when it displaces a preference.\<close>

definition armed_hold_down :: "policy_record \<Rightarrow> ticks" where
  "armed_hold_down r =
    (let sem = ap_semantics (pc_policy r); damp = ps_dampening sem in
     if dr_enabled damp
     then escalated_hold_down sem (min (dr_max_penalty damp) (ti_dampening_penalty (pc_timing r) + dr_penalty_increment damp))
     else ps_hold_down sem)"

lemma armed_timing:
  assumes "rp_established (pc_preference r)"
  shows "ti_hold_down_active (committed_timing now l r) \<longleftrightarrow> armed_hold_down r \<noteq> 0"
    and "ti_hold_down_deadline (committed_timing now l r) = now + armed_hold_down r"
    and "armed_hold_down r \<noteq> 0 \<Longrightarrow> committed_hold_down (ap_semantics (pc_policy r)) (committed_timing now l r) \<noteq> 0"
  using assms
  by (auto simp: committed_timing_def armed_hold_down_def committed_hold_down_def escalated_hold_down_def Let_def min_def split: if_splits)

text \<open>
  C4: a fresh move is not undone.  After a commit that displaced an established preference, as long
  as the policy record stays as that commit left it, no ordinary decision back to the displaced path
  commits before the armed hold-down, escalated by dampening where it is enabled, has passed.
\<close>

theorem fresh_move_is_not_undone:
  assumes "engine_ok e" and "commit_evaluation now rq e = Some (e1, res)" and "or_mutated res"
    and "pid = ds_policy (et_dependencies (kr_ticket rq))" and "om_find (g_policies (en_state e)) pid = Some r"
    and "rp_established (pc_preference r)" and "id_valid (rp_preferred_path (pc_preference r))"
    and "engine_ok e2" and "om_find (g_policies (en_state e2)) pid = om_find (g_policies (en_state e1)) pid"
    and "commit_evaluation now2 rq2 e2 = Some (e3, res2)" and "ds_policy (et_dependencies (kr_ticket rq2)) = pid"
    and "\<not> et_emergency (kr_ticket rq2)" and "et_target_preference (kr_ticket rq2) = rp_preferred_path (pc_preference r)"
    and "armed_hold_down r \<noteq> 0" and "now2 < now + armed_hold_down r"
  shows "\<not> or_mutated res2"
proof
  assume "or_mutated res2"
  obtain r1 b ad tr plan i where c1: "admitted e (kr_context rq) (kr_ticket rq) r1" "verify now (en_limits e) (en_state e) r1 (kr_ticket rq) = Inr (b, ad, tr)"
    "g_policies (en_state e1) = om_put (ds_policy (et_dependencies (kr_ticket rq)))
       (snd (committed_record now (en_limits e) (en_state e) (kr_context rq) (kr_ticket rq) b ad tr plan i r1)) (g_policies (en_state e))"
    by (rule commit_mutates[OF assms(2,3)])
  note ok = admitted_record[OF c1(1) assms(1)]
  have r: "r1 = r" using ok(2) assms(4,5) by simp
  note f = committed_record_fields[OF c1(2) refl ok(1)]
  obtain r2 b2 ad2 tr2 where c2: "admitted e2 (kr_context rq2) (kr_ticket rq2) r2" "verify now2 (en_limits e2) (en_state e2) r2 (kr_ticket rq2) = Inr (b2, ad2, tr2)"
    by (rule commit_mutates[OF assms(10) \<open>or_mutated res2\<close>])
  have r2: "r2 = snd (committed_record now (en_limits e) (en_state e) (kr_context rq) (kr_ticket rq) b ad tr plan i r1)"
    using admitted_record(2)[OF c2(1) assms(8)] assms(9,11) c1(3) assms(4) by (simp add: om_find_put)
  note r2 = r2[unfolded r] and f = f[unfolded r]
  have "reverse_move (pc_preference r2) (et_target_preference (kr_ticket rq2))"
    unfolding r2 reverse_move_def f(3) using assms(6,7,13) by simp
  moreover have "ti_hold_down_active (pc_timing r2)" "ti_hold_down_deadline (pc_timing r2) = now + armed_hold_down r"
    "committed_hold_down (ap_semantics (pc_policy r2)) (pc_timing r2) \<noteq> 0"
    unfolding r2 f(7,8) using armed_timing[OF assms(6)] assms(14) by simp_all
  ultimately show False using verify_timing(1)[OF c2(2) assms(12)] assms(15) by simp
qed

text \<open>
  the same target commits once.  After a commit, while the policy's record stays as the commit
  left it, no ticket for the same target of that policy mutates again, in whatever attempt it comes.
\<close>

theorem same_target_commits_once:
  assumes "engine_ok e" and "commit_evaluation now rq e = Some (e1, res)" and "or_mutated res"
    and "pid = ds_policy (et_dependencies (kr_ticket rq))"
    and "engine_ok e2" and "om_find (g_policies (en_state e2)) pid = om_find (g_policies (en_state e1)) pid"
    and "commit_evaluation now2 rq2 e2 = Some (e3, res2)" and "ds_policy (et_dependencies (kr_ticket rq2)) = pid"
    and "et_target_preference (kr_ticket rq2) = et_target_preference (kr_ticket rq)"
  shows "\<not> or_mutated res2"
proof
  assume "or_mutated res2"
  obtain r1 b ad tr plan i where c1: "admitted e (kr_context rq) (kr_ticket rq) r1" "verify now (en_limits e) (en_state e) r1 (kr_ticket rq) = Inr (b, ad, tr)"
    "g_policies (en_state e1) = om_put (ds_policy (et_dependencies (kr_ticket rq)))
       (snd (committed_record now (en_limits e) (en_state e) (kr_context rq) (kr_ticket rq) b ad tr plan i r1)) (g_policies (en_state e))"
    by (rule commit_mutates[OF assms(2,3)])
  note f = committed_record_fields[OF c1(2) refl admitted_record(1)[OF c1(1) assms(1)]]
  obtain r2 where c2: "admitted e2 (kr_context rq2) (kr_ticket rq2) r2"
    "\<not> (rp_established (pc_preference r2) \<and> rp_preferred_path (pc_preference r2) = et_target_preference (kr_ticket rq2))"
    by (rule commit_mutates[OF assms(7) \<open>or_mutated res2\<close>])
  have "r2 = snd (committed_record now (en_limits e) (en_state e) (kr_context rq) (kr_ticket rq) b ad tr plan i r1)"
    using admitted_record(2)[OF c2(1) assms(5)] assms(6,8) c1(3) assms(4) by (simp add: om_find_put)
  with c2(2) f(1,2) assms(9) show False by simp
qed

section \<open>A commit on the small policy\<close>

definition sample_evaluate :: evaluate_request where
  "sample_evaluate = \<lparr>vr_policy = StrongId ''pol'', vr_context = sample_context, vr_defer_commit = False\<rparr>"

definition sample_begin :: "(engine \<times> evaluation_ticket) option" where
  "sample_begin = begin_evaluation (\<lambda>_. 20) sample_evaluate (measured held_record 100 50)"

lemma commit_accepts:
  assumes "admitted e ctx t r" and "et_lifecycle t = DL_ELIGIBLE"
    and "\<not> (rp_established (pc_preference r) \<and> rp_preferred_path (pc_preference r) = et_target_preference t)"
    and "verify now (en_limits e) (en_state e) r t = Inr x" and "id_valid (et_decision t)" and "next_transition_id (en_ids e) \<noteq> None"
  shows "\<exists>e' res. commit_evaluation now \<lparr>kr_ticket = t, kr_context = ctx\<rparr> e = Some (e', res) \<and> or_mutated res"
proof -
  obtain reg where a: "check_caller (en_state e) ctx None None = Inr reg" "id_valid (ds_policy (et_dependencies t))"
    "om_find (g_policies (en_state e)) (ds_policy (et_dependencies t)) = Some r" "ticket_refusal (en_state e) r t = None"
    "id_valid (mc_attempt ctx)" "om_find (g_attempts (en_state e)) (mc_attempt ctx) = None"
    using assms(1) by (auto simp: admitted_def)
  have "replay_check (mc_attempt ctx) f e = (e, None)" for f using a(5,6) by (simp add: replay_check_def Let_def)
  moreover obtain b ad tr where x: "x = (b, ad, tr)" by (cases x)
  moreover obtain ids plan where "next_transition_id (en_ids e) = Some (ids, plan)" using assms(6) by auto
  ultimately show ?thesis
    using a assms(2-5) by (auto simp: commit_evaluation_def verify_and_commit_def decision_id_for_def case_prod_beta Let_def)
qed

text \<open>The conditions of a commit, as one test that evaluates.\<close>

definition commits_at :: "ticks \<Rightarrow> mutation_context \<Rightarrow> engine \<times> evaluation_ticket \<Rightarrow> bool" where
  "commits_at now ctx x = (case x of (e, t) \<Rightarrow>
     case om_find (g_policies (en_state e)) (ds_policy (et_dependencies t)) of
       None \<Rightarrow> False
     | Some r \<Rightarrow> et_lifecycle t = DL_ELIGIBLE \<and> id_valid (ds_policy (et_dependencies t)) \<and> ticket_refusal (en_state e) r t = None
         \<and> (case check_caller (en_state e) ctx None None of Inl _ \<Rightarrow> False | Inr _ \<Rightarrow> True)
         \<and> id_valid (mc_attempt ctx) \<and> om_find (g_attempts (en_state e)) (mc_attempt ctx) = None
         \<and> \<not> (rp_established (pc_preference r) \<and> rp_preferred_path (pc_preference r) = et_target_preference t)
         \<and> (case verify now (en_limits e) (en_state e) r t of Inl _ \<Rightarrow> False | Inr _ \<Rightarrow> True)
         \<and> id_valid (et_decision t) \<and> next_transition_id (en_ids e) \<noteq> None)"

lemma commits_at_commits:
  assumes "commits_at now ctx (e, t)"
  shows "\<exists>e' res. commit_evaluation now \<lparr>kr_ticket = t, kr_context = ctx\<rparr> e = Some (e', res) \<and> or_mutated res"
proof -
  obtain r where r: "om_find (g_policies (en_state e)) (ds_policy (et_dependencies t)) = Some r"
    using assms by (auto simp: commits_at_def split: option.splits)
  note c = assms[unfolded commits_at_def prod.case r option.case]
  obtain x where x: "verify now (en_limits e) (en_state e) r t = Inr x" using c by (auto split: sum.splits)
  obtain reg where "check_caller (en_state e) ctx None None = Inr reg" using c by (auto split: sum.splits)
  then have "admitted e ctx t r" using c r by (simp add: admitted_def)
  from commit_accepts[OF this _ _ x] c show ?thesis by simp
qed

lemma sample_begin_commits:
  "case sample_begin of None \<Rightarrow> False | Some x \<Rightarrow> commits_at 20 sample_context x \<and> ds_policy (et_dependencies (snd x)) = StrongId ''pol''
     \<and> et_target_preference (snd x) = StrongId ''p2'' \<and> om_find (g_policies (en_state (fst x))) (StrongId ''pol'') = Some held_record"
  by code_simp

lemma sample_begin_run:
  obtains e t where "sample_begin = Some (e, t)" "commits_at 20 sample_context (e, t)" "ds_policy (et_dependencies t) = StrongId ''pol''"
    "et_target_preference t = StrongId ''p2''" "om_find (g_policies (en_state e)) (StrongId ''pol'') = Some held_record" "engine_ok e"
proof (cases sample_begin)
  case None
  then show ?thesis using sample_begin_commits by (simp only: option.case)
next
  case (Some x)
  have "engine_ok (fst x)"
    using begin_evaluation_contract[OF held_measured_ok, of 100 50 "\<lambda>_. 20" sample_evaluate "fst x" "snd x"] Some
    by (simp add: sample_begin_def)
  then show ?thesis
    using sample_begin_commits unfolding Some option.case by (elim conjE) (rule that[of "fst x" "snd x"], simp_all add: Some)
qed

section \<open>Witnesses\<close>

lemma sample_commit_run:
  obtains e t e' res where "sample_begin = Some (e, t)" "engine_ok e" "ds_policy (et_dependencies t) = StrongId ''pol''"
    "et_target_preference t = StrongId ''p2''" "om_find (g_policies (en_state e)) (StrongId ''pol'') = Some held_record"
    "commit_evaluation 20 \<lparr>kr_ticket = t, kr_context = sample_context\<rparr> e = Some (e', res)" "or_mutated res" "engine_ok e'"
proof (rule sample_begin_run)
  fix e t assume b: "sample_begin = Some (e, t)" "commits_at 20 sample_context (e, t)" "ds_policy (et_dependencies t) = StrongId ''pol''"
    "et_target_preference t = StrongId ''p2''" "om_find (g_policies (en_state e)) (StrongId ''pol'') = Some held_record" "engine_ok e"
  obtain e' res where c: "commit_evaluation 20 \<lparr>kr_ticket = t, kr_context = sample_context\<rparr> e = Some (e', res)" "or_mutated res"
    using commits_at_commits[OF b(2)] by blast
  then show ?thesis using b commit_evaluation_contract[OF b(6) c(1)] by (intro that[of e t e' res]) simp_all
qed

theorem stale_decision_never_commits_witness:
  "\<exists>e t e' res. begin_evaluation (\<lambda>_. 20) sample_evaluate (measured held_record 100 50) = Some (e, t)
     \<and> commit_evaluation 20 \<lparr>kr_ticket = t, kr_context = sample_context\<rparr> e = Some (e', res) \<and> or_mutated res
     \<and> (\<exists>r2. om_find (g_policies (en_state e)) (StrongId ''pol'') = Some r2 \<and> ap_lifecycle (pc_policy r2) = PL_ACTIVE)"
proof (rule sample_commit_run)
  fix e t e' res assume a: "sample_begin = Some (e, t)" "engine_ok e"
    "commit_evaluation 20 \<lparr>kr_ticket = t, kr_context = sample_context\<rparr> e = Some (e', res)" "or_mutated res"
  have m: "engine_ok (measured held_record 100 50)" by (rule held_measured_ok) simp_all
  from stale_decision_never_commits[OF m a(1)[unfolded sample_begin_def] a(2,3,4)] a(1,3,4)
  show ?thesis by (auto simp: sample_begin_def sample_evaluate_def)
qed

theorem commit_is_one_transition_witness:
  "\<exists>e t e' res r'. sample_begin = Some (e, t) \<and> commit_evaluation 20 \<lparr>kr_ticket = t, kr_context = sample_context\<rparr> e = Some (e', res)
     \<and> om_find (g_policies (en_state e')) (StrongId ''pol'') = Some r' \<and> rp_preferred_path (pc_preference r') = StrongId ''p2''
     \<and> rp_previous_path (pc_preference r') = StrongId ''p1'' \<and> ss_path (pc_stable r') = StrongId ''p1''"
proof (rule sample_commit_run)
  fix e t e' res assume a: "sample_begin = Some (e, t)" "engine_ok e" "ds_policy (et_dependencies t) = StrongId ''pol''"
    "et_target_preference t = StrongId ''p2''" "om_find (g_policies (en_state e)) (StrongId ''pol'') = Some held_record"
    "commit_evaluation 20 \<lparr>kr_ticket = t, kr_context = sample_context\<rparr> e = Some (e', res)" "or_mutated res"
  from commit_is_one_transition[OF a(2,6,7), of held_record] a(1,3-6) show ?thesis
    by (simp add: held_record_def) blast
qed

definition sample_back :: "evaluation_ticket \<Rightarrow> commit_decision_request" where
  "sample_back t = \<lparr>kr_ticket = t\<lparr>et_target_preference := StrongId ''p1''\<rparr>, kr_context = sample_context\<lparr>mc_attempt := StrongId ''att2''\<rparr>\<rparr>"

lemma no_emergency_sample: "case sample_begin of None \<Rightarrow> False | Some x \<Rightarrow> \<not> et_emergency (snd x)"
  by code_simp

lemma armed_sample: "armed_hold_down held_record = 100"
  by (simp add: armed_hold_down_def held_record_def sample_record_def fresh_record_def web_policy_def latency_semantics_def Let_def)

theorem fresh_move_is_not_undone_witness:
  "\<exists>e t e1 res. sample_begin = Some (e, t) \<and> commit_evaluation 20 \<lparr>kr_ticket = t, kr_context = sample_context\<rparr> e = Some (e1, res)
     \<and> or_mutated res \<and> (case commit_evaluation 60 (sample_back t) e1 of None \<Rightarrow> True | Some (e3, res2) \<Rightarrow> \<not> or_mutated res2)"
proof (rule sample_commit_run)
  fix e t e' res assume a: "sample_begin = Some (e, t)" "engine_ok e" "ds_policy (et_dependencies t) = StrongId ''pol''"
    "et_target_preference t = StrongId ''p2''" "om_find (g_policies (en_state e)) (StrongId ''pol'') = Some held_record"
    "commit_evaluation 20 \<lparr>kr_ticket = t, kr_context = sample_context\<rparr> e = Some (e', res)" "or_mutated res" "engine_ok e'"
  have em: "\<not> et_emergency t" using no_emergency_sample unfolding a(1) by simp
  have pid: "StrongId ''pol'' = ds_policy (et_dependencies (kr_ticket \<lparr>kr_ticket = t, kr_context = sample_context\<rparr>))" using a(3) by simp
  have held: "rp_established (pc_preference held_record)" "rp_preferred_path (pc_preference held_record) = StrongId ''p1''"
    "id_valid (rp_preferred_path (pc_preference held_record))" by (simp_all add: held_record_def id_valid_def)
  have "\<not> or_mutated res2" if "commit_evaluation 60 (sample_back t) e' = Some (e3, res2)" for e3 res2
    by (rule fresh_move_is_not_undone[OF a(2,6,7) pid a(5) held(1,3) a(8) refl that])
      (use a(3) em held in \<open>simp_all add: sample_back_def armed_sample\<close>)
  then have "case commit_evaluation 60 (sample_back t) e' of None \<Rightarrow> True | Some (e3, res2) \<Rightarrow> \<not> or_mutated res2"
    by (simp split: option.split)
  with a(1,6,7) show ?thesis by (intro exI[of _ e] exI[of _ t] exI[of _ e'] exI[of _ res]) (intro conjI)
qed

theorem same_target_commits_once_witness:
  "\<exists>e t e1 res. sample_begin = Some (e, t) \<and> commit_evaluation 20 \<lparr>kr_ticket = t, kr_context = sample_context\<rparr> e = Some (e1, res)
     \<and> or_mutated res
     \<and> (case commit_evaluation 500 \<lparr>kr_ticket = t, kr_context = sample_context\<lparr>mc_attempt := StrongId ''att2''\<rparr>\<rparr> e1 of
          None \<Rightarrow> True | Some (e3, res2) \<Rightarrow> \<not> or_mutated res2)"
proof (rule sample_commit_run)
  fix e t e' res assume a: "sample_begin = Some (e, t)" "engine_ok e" "ds_policy (et_dependencies t) = StrongId ''pol''"
    "commit_evaluation 20 \<lparr>kr_ticket = t, kr_context = sample_context\<rparr> e = Some (e', res)" "or_mutated res" "engine_ok e'"
  have pid: "StrongId ''pol'' = ds_policy (et_dependencies (kr_ticket \<lparr>kr_ticket = t, kr_context = sample_context\<rparr>))" using a(3) by simp
  have "\<not> or_mutated res2"
    if "commit_evaluation 500 \<lparr>kr_ticket = t, kr_context = sample_context\<lparr>mc_attempt := StrongId ''att2''\<rparr>\<rparr> e' = Some (e3, res2)" for e3 res2
    by (rule same_target_commits_once[OF a(2,4,5) pid a(6) refl that]) (simp_all add: a(3))
  then have "case commit_evaluation 500 \<lparr>kr_ticket = t, kr_context = sample_context\<lparr>mc_attempt := StrongId ''att2''\<rparr>\<rparr> e' of
      None \<Rightarrow> True | Some (e3, res2) \<Rightarrow> \<not> or_mutated res2" by (simp split: option.split)
  with a(1,4,5) show ?thesis by (intro exI[of _ e] exI[of _ t] exI[of _ e'] exI[of _ res]) (intro conjI)
qed

section \<open>Rollback\<close>

lemma rollback_mutates:
  assumes "engine_ok e" and "rollback now rq e = Some (e', res)" and "or_mutated res"
    and "om_find (g_policies (en_state e)) (br_policy rq) = Some r"
  obtains c d plan where "c \<in> set (pc_candidates r)" "cd_path (ca_binding c) = ss_path (pc_stable r)"
    "rollback_refusal r (Some c) = None" "ss_established (pc_stable r)"
    "gen_next (rp_adaptation_generation (pc_preference r)) = Some (dn_adaptation_generation d)"
    "gen_next (rp_transition_generation (pc_preference r)) = Some (dn_transition_generation d)"
    "g_policies (en_state e') = om_put (br_policy rq) (rolled_back_record now (en_limits e) (ca_binding c) plan d r) (g_policies (en_state e))"
  using assms(2)
proof (cases rule: rollback_ends)
  case (restored r' reg j i ad tr ids plan c)
  have r: "r' = r" using restored(1) assms(4) by simp
  have "candidates_ok (pc_candidates r)"
    using state_ok_record[OF _ assms(4)] assms(1) by (auto simp: engine_ok_def policy_record_ok_def)
  with find_candidate_cases[of "pc_candidates r" "ss_path (pc_stable r)"] restored(5)
  have j: "j < length (pc_candidates r)" "cd_path (ca_binding (pc_candidates r ! j)) = ss_path (pc_stable r)" by (simp_all add: r)
  let ?d = "rollback_decision now i (en_state e) (br_context rq) (ca_binding (pc_candidates r ! j)) ad tr r"
  have gen: "dn_adaptation_generation ?d = ad" "dn_transition_generation ?d = tr"
    by (simp_all add: rollback_decision_def with_digest_def Let_def)
  have "g_policies (en_state e') = om_put (br_policy rq)
      (rolled_back_record now (en_limits e) (ca_binding (pc_candidates r ! j)) plan ?d r) (g_policies (en_state e))"
    by (simp add: restored(9) r put_policy_def)
  with restored(4,6,7,8) j gen show ?thesis by (intro that[of "pc_candidates r ! j" ?d plan]) (simp_all add: r)
qed (use assms(3) in auto)

text \<open>
  C36: a rollback restores a legal path and keeps the way back.  A rollback that mutates moves to the
  last known stable path, which is a candidate that is legal, current on its route and available;
  both generations are the next ones, the displaced preference becomes the stable state, and a
  second rollback that mutates returns exactly there.
\<close>

theorem rollback_swaps_with_a_legal_path:
  assumes "engine_ok e" and "rollback now rq e = Some (e', res)" and "or_mutated res"
    and "om_find (g_policies (en_state e)) (br_policy rq) = Some r"
  shows "\<exists>r'. om_find (g_policies (en_state e')) (br_policy rq) = Some r'
    \<and> rp_preferred_path (pc_preference r') = ss_path (pc_stable r)
    \<and> ss_established (pc_stable r') \<and> ss_path (pc_stable r') = rp_preferred_path (pc_preference r)
    \<and> gen_next (rp_adaptation_generation (pc_preference r)) = Some (rp_adaptation_generation (pc_preference r'))
    \<and> gen_next (rp_transition_generation (pc_preference r)) = Some (rp_transition_generation (pc_preference r'))
    \<and> (\<exists>c \<in> set (pc_candidates r). cd_path (ca_binding c) = ss_path (pc_stable r) \<and> pa_legal (cd_path_authority (ca_binding c))
         \<and> rb_current (cd_route (ca_binding c)) \<and> cd_available (ca_binding c))
    \<and> (\<forall>now2 rq2 e2 res2. br_policy rq2 = br_policy rq \<longrightarrow> rollback now2 rq2 e' = Some (e2, res2) \<longrightarrow> or_mutated res2 \<longrightarrow>
         (\<exists>r2. om_find (g_policies (en_state e2)) (br_policy rq) = Some r2
            \<and> rp_preferred_path (pc_preference r2) = rp_preferred_path (pc_preference r)))"
proof (rule rollback_mutates[OF assms], goal_cases)
  case (1 c d plan)
  let ?r = "rolled_back_record now (en_limits e) (ca_binding c) plan d r"
  have f: "rp_preferred_path (pc_preference ?r) = ss_path (pc_stable r)" "ss_path (pc_stable ?r) = rp_preferred_path (pc_preference r)"
    "ss_established (pc_stable ?r)" "rp_adaptation_generation (pc_preference ?r) = dn_adaptation_generation d"
    "rp_transition_generation (pc_preference ?r) = dn_transition_generation d"
    by (simp_all add: rolled_back_record_def displaced_state_def Let_def)
  have find: "om_find (g_policies (en_state e')) (br_policy rq) = Some ?r" using 1(7) by (simp add: om_find_put)
  have legal: "pa_legal (cd_path_authority (ca_binding c)) \<and> rb_current (cd_route (ca_binding c)) \<and> cd_available (ca_binding c)"
    using 1(3) by (auto simp: rollback_refusal_def Let_def split: if_splits)
  have again: "\<exists>r2. om_find (g_policies (en_state e2)) (br_policy rq) = Some r2
      \<and> rp_preferred_path (pc_preference r2) = rp_preferred_path (pc_preference r)"
    if "br_policy rq2 = br_policy rq" "rollback now2 rq2 e' = Some (e2, res2)" "or_mutated res2" for now2 rq2 e2 res2
  proof (rule rollback_mutates[OF conjunct1[OF rollback_contract[OF assms(1,2)]] that(2,3)])
    show "om_find (g_policies (en_state e')) (br_policy rq2) = Some ?r" using find that(1) by simp
  next
    fix c2 d2 plan2
    assume "g_policies (en_state e2) = om_put (br_policy rq2) (rolled_back_record now2 (en_limits e') (ca_binding c2) plan2 d2 ?r) (g_policies (en_state e'))"
    then show ?thesis using that(1) f(2) by (simp add: om_find_put) (simp add: rolled_back_record_def Let_def)
  qed
  show ?case
    by (intro exI[of _ ?r] conjI bexI[of _ c]) (use find f legal 1(1,2,5,6) again in auto)
qed

text \<open>A preference held on the first path with the second as its stable state.\<close>

definition stable_record :: policy_record where
  "stable_record = held_record\<lparr>pc_stable := (pc_stable held_record)\<lparr>ss_established := True, ss_path := StrongId ''p2''\<rparr>\<rparr>"

definition sample_rollback :: rollback_request where
  "sample_rollback = \<lparr>br_policy = StrongId ''pol'', br_reason = ''operator'', br_context = sample_context\<rparr>"

lemma stable_measured_ok: "engine_ok (measured stable_record 100 50)"
  by (rule measured_ok)
    (use held_record_ok in \<open>simp_all add: policy_extends_def held_record_def stable_record_def candidate_paths_def policy_record_ok_def\<close>)

definition rolls_back :: "policy_record \<Rightarrow> rollback_request \<Rightarrow> engine \<Rightarrow> bool" where
  "rolls_back r rq e =
    (let ctx = br_context rq; target = ps_target (ap_semantics (pc_policy r)) in
     id_valid (br_policy rq) \<and> om_find (g_policies (en_state e)) (br_policy rq) = Some r
     \<and> (case check_caller (en_state e) ctx (Some (pt_route target)) (pt_multipath_set target) of Inl _ \<Rightarrow> False | Inr _ \<Rightarrow> True)
     \<and> ap_lifecycle (pc_policy r) = PL_ACTIVE \<and> id_valid (mc_attempt ctx) \<and> om_find (g_attempts (en_state e)) (mc_attempt ctx) = None
     \<and> ss_established (pc_stable r)
     \<and> rollback_refusal r (map_option ((!) (pc_candidates r)) (find_candidate (pc_candidates r) (ss_path (pc_stable r)))) = None
     \<and> gen_next (rp_adaptation_generation (pc_preference r)) \<noteq> None \<and> gen_next (rp_transition_generation (pc_preference r)) \<noteq> None
     \<and> (case next_decision_id (en_ids e) of None \<Rightarrow> False | Some x \<Rightarrow> next_transition_id (fst x) \<noteq> None))"

lemma rolls_back_mutates:
  assumes "rolls_back r rq e"
  shows "\<exists>e' res. rollback now rq e = Some (e', res) \<and> or_mutated res"
proof -
  note c = assms[unfolded rolls_back_def Let_def]
  obtain reg where reg: "check_caller (en_state e) (br_context rq) (Some (pt_route (ps_target (ap_semantics (pc_policy r)))))
      (pt_multipath_set (ps_target (ap_semantics (pc_policy r)))) = Inr reg" using c by (auto split: sum.splits)
  have "replay_check (mc_attempt (br_context rq)) f e = (e, None)" for f using c by (simp add: replay_check_def Let_def)
  moreover obtain ad tr where "gen_next (rp_adaptation_generation (pc_preference r)) = Some ad"
    "gen_next (rp_transition_generation (pc_preference r)) = Some tr" using c by blast
  moreover obtain ids1 i ids2 plan where "next_decision_id (en_ids e) = Some (ids1, i)" "next_transition_id ids1 = Some (ids2, plan)"
    using c by (auto split: option.splits)
  ultimately show ?thesis using c reg by (simp add: rollback_def Let_def)
qed

lemma sample_rolls_back: "rolls_back stable_record sample_rollback (measured stable_record 100 50)"
  by code_simp

theorem rollback_swaps_with_a_legal_path_witness:
  "\<exists>e' res r'. rollback 30 sample_rollback (measured stable_record 100 50) = Some (e', res)
     \<and> om_find (g_policies (en_state e')) (StrongId ''pol'') = Some r' \<and> rp_preferred_path (pc_preference r') = StrongId ''p2''
     \<and> ss_path (pc_stable r') = StrongId ''p1''"
proof -
  obtain e' res where run: "rollback 30 sample_rollback (measured stable_record 100 50) = Some (e', res)" "or_mutated res"
    using rolls_back_mutates[OF sample_rolls_back] by blast
  have r: "om_find (g_policies (en_state (measured stable_record 100 50))) (br_policy sample_rollback) = Some stable_record"
    by (simp add: sample_rollback_def)
  from rollback_swaps_with_a_legal_path[OF stable_measured_ok run r] run(1) show ?thesis
    by (auto simp: sample_rollback_def stable_record_def held_record_def)
qed

end
