(* ===== verification/View.thy ===== *)
theory View
  imports Engine_State "HOL-Library.Sublist"
begin

text \<open>
  Snapshots, diffs and explanations as values (\<^verbatim>\<open>include/adaptive_routing/view.hpp\<close>, the second half of
  \<^verbatim>\<open>src/view.cpp\<close>): the digest and rendering of a snapshot, the ordered list of differences between two
  snapshots, and the bounded list of key/value entries of an explanation.
\<close>

section \<open>Snapshot digest\<close>

definition write_path_weight :: "path_weight \<Rightarrow> digest \<Rightarrow> digest" where
  "write_path_weight w d = write_u32 (pw_weight_bps w) (write_id (pw_path w) d)"

definition write_proposal :: "weight_proposal \<Rightarrow> digest \<Rightarrow> digest" where
  "write_proposal p d = write_list write_path_weight (wp_weights p) (write_generation (wp_base_generation p) (write_id (wp_set p) d))"

definition write_preference :: "routing_preference \<Rightarrow> digest \<Rightarrow> digest" where
  "write_preference p d0 =
    (let d1 = write_bool (rp_established p) d0 in
     if \<not> rp_established p then d1
     else let d2 = write_generation (rp_route_generation p) (write_generation (rp_path_authority_generation p)
                     (write_id (rp_preferred_path p) d1));
              d3 = write_option (\<lambda>m d. write_generation (rp_multipath_generation p) (write_id m d)) (rp_multipath_set p) d2
          in write_option write_proposal (rp_weight_proposal p) d3)"

definition write_stable :: "stable_state \<Rightarrow> digest \<Rightarrow> digest" where
  "write_stable s d0 =
    (let d1 = write_bool (ss_established s) d0 in
     if \<not> ss_established s then d1
     else write_generation (ss_adaptation_generation s) (write_generation (ss_route_generation s)
            (write_generation (ss_path_authority_generation s) (write_id (ss_path s) d1))))"

definition write_candidate_view :: "candidate_view \<Rightarrow> digest \<Rightarrow> digest" where
  "write_candidate_view c d0 =
    (let b = cv_binding c;
         d1 = write_bool (pa_legal (cd_path_authority b)) (write_generation (pa_generation (cd_path_authority b)) (write_id (cd_path b) d0));
         d2 = write_bool (cd_hard_failure b) (write_bool (cd_available b) d1);
         d3 = write_option (\<lambda>m d. write_generation (mb_generation m) (write_id (mb_set m) d)) (cd_multipath b) d2;
         d4 = write_bool (cv_eligible c) (write_generation (rb_generation (cd_route b)) d3);
         d5 = write_u8 (evidence_quality_raw (cv_quality c)) (write_u8 (suppression_raw (cv_rejection c)) d4);
         d6 = write_u32 (cv_priority c) (write_option write_u64 (cv_score c) d5)
     in write_u64 (cv_path_watermark c) (write_bool (cv_previous_preference c) (write_bool (cv_current_preference c) d6)))"

definition write_currentness :: "currentness \<Rightarrow> digest \<Rightarrow> digest" where
  "write_currentness c = write_u8 (currentness_raw c)"

definition write_history :: "adaptation_record \<Rightarrow> digest \<Rightarrow> digest" where
  "write_history h d0 =
    (let d1 = write_u8 (decision_lifecycle_raw (hr_lifecycle h)) (write_string (hr_digest h) d0);
         d2 = write_u8 (suppression_raw (hr_suppression h)) (write_u16 (outcome_raw (hr_outcome h)) d1);
         d3 = write_id (hr_to_path h) (write_id (hr_from_path h) d2)
     in write_generation (hr_evidence_generation h) (write_generation (hr_adaptation_generation h) d3))"

definition snapshot_digest :: "adaptation_snapshot \<Rightarrow> string" where
  "snapshot_digest s =
    (let d1 = write_u32 digest_encoding_version (write_tag ''adaptation-snapshot'' digest_new);
         d2 = write_generation (sn_authority_generation s) (write_generation (sn_epoch s) d1);
         d3 = write_id (sn_policy_name s) (write_generation (sn_policy_generation s) (write_id (sn_policy s) d2));
         d4 = write_u8 (policy_lifecycle_raw (sn_lifecycle s)) (write_scope (sn_scope s) d3);
         d5 = write_stable (sn_stable s) (write_preference (sn_preference s) (write_semantics (sn_semantics s) d4));
         d6 = write_list write_candidate_view (sn_candidates s) d5;
         d7 = write_list write_currentness (sn_blockers s) (write_currentness (sn_currentness s) d6);
         d8 = write_u64 (sn_hold_down_remaining s) (write_bool (sn_hold_down_active s) d7);
         d9 = write_u64 (sn_cooldown_remaining s) (write_bool (sn_cooldown_active s) d8);
         d10 = write_generation (sn_adaptation_generation s) (write_u32 (sn_dampening_penalty s) d9)
     in digest_hex (write_list write_history (sn_history s) (write_generation (sn_transition_generation s) d10)))"

section \<open>Snapshot lookup and rendering\<close>

definition find_candidate_view :: "adaptation_snapshot \<Rightarrow> path_id \<Rightarrow> candidate_view option" where
  "find_candidate_view s path =
    map_option (nth (sn_candidates s))
      (search (\<lambda>c. cd_path (cv_binding c) < path) (\<lambda>c. cd_path (cv_binding c) = path) (sn_candidates s))"

abbreviation newline :: string where "newline \<equiv> [CHR 0x0A]"

definition candidate_view_render :: "candidate_view \<Rightarrow> string" where
  "candidate_view_render c = newline @ ''  candidate['' @ cd_render (cv_binding c)
     @ (if cv_eligible c then '' ELIGIBLE'' else '' INELIGIBLE'')
     @ (if cv_rejection c \<noteq> Sup_NONE then '':'' @ suppression_to_string (cv_rejection c) else [])
     @ (case cv_score c of None \<Rightarrow> [] | Some n \<Rightarrow> '' score='' @ dec (unat n))
     @ (if cv_current_preference c then '' current'' else [])
     @ (if cv_previous_preference c then '' previous'' else []) @ '']''"

definition history_render :: "adaptation_record \<Rightarrow> string" where
  "history_render h = newline @ ''  history['' @ decision_lifecycle_to_string (hr_lifecycle h) @ '' ''
     @ outcome_to_string (hr_outcome h) @ '' '' @ id_text (hr_from_path h) @ ''->'' @ id_text (hr_to_path h)
     @ '' digest='' @ hr_digest h @ '']''"

definition sn_render :: "adaptation_snapshot \<Rightarrow> string" where
  "sn_render s = ''snapshot='' @ id_text (sn_id s) @ '' policy='' @ id_text (sn_policy s) @ ''@'' @ gen_text (sn_policy_generation s)
     @ '' name='' @ id_text (sn_policy_name s) @ '' lifecycle='' @ policy_lifecycle_to_string (sn_lifecycle s)
     @ '' epoch='' @ gen_text (sn_epoch s) @ '' authority='' @ gen_text (sn_authority_generation s)
     @ newline @ ''  scope['' @ sc_render (sn_scope s) @ '']'' @ newline @ ''  semantics['' @ ps_render (sn_semantics s) @ '']''
     @ newline @ ''  preference['' @ rp_render (sn_preference s) @ '']'' @ newline @ ''  stable['' @ ss_render (sn_stable s) @ '']''
     @ newline @ ''  currentness='' @ currentness_to_string (sn_currentness s)
     @ concat (map (\<lambda>b. '' blocker='' @ currentness_to_string b) (sn_blockers s))
     @ newline @ ''  hold_down='' @ (if sn_hold_down_active s then ''active'' else ''clear'') @ '' remaining_ms='' @ ms_text (sn_hold_down_remaining s)
     @ '' cooldown='' @ (if sn_cooldown_active s then ''active'' else ''clear'') @ '' remaining_ms='' @ ms_text (sn_cooldown_remaining s)
     @ '' dampening_penalty='' @ u32_text (sn_dampening_penalty s)
     @ newline @ ''  adaptation='' @ gen_text (sn_adaptation_generation s) @ '' transition='' @ gen_text (sn_transition_generation s)
     @ '' evidence='' @ gen_text (sn_evidence_generation s)
     @ '' evidence_watermark='' @ dec (unat (wm_value (sn_evidence_watermark s)))
     @ '' upstream_watermark='' @ dec (unat (wm_value (sn_upstream_watermark s)))
     @ concat (map candidate_view_render (sn_candidates s)) @ concat (map history_render (sn_history s))
     @ newline @ ''  digest='' @ sn_digest s"

section \<open>Diffs\<close>

datatype diff_kind =
    DK_POLICY_CHANGED | DK_POLICY_LIFECYCLE_CHANGED | DK_CANDIDATE_ELIGIBILITY_CHANGED | DK_EVIDENCE_GENERATION_CHANGED
  | DK_PREFERRED_PATH_CHANGED | DK_ADAPTATION_SUPPRESSED | DK_HOLD_DOWN_ENTERED | DK_HOLD_DOWN_EXITED
  | DK_COOLDOWN_ENTERED | DK_COOLDOWN_EXITED | DK_AUTHORITY_CHANGED | DK_CURRENTNESS_CHANGED
  | DK_STABLE_STATE_CHANGED | DK_DAMPENING_CHANGED | DK_TRANSITION_CHANGED

definition diff_kind_raw :: "diff_kind \<Rightarrow> u8" where
  "diff_kind_raw k = (case k of
     DK_POLICY_CHANGED \<Rightarrow> 1 | DK_POLICY_LIFECYCLE_CHANGED \<Rightarrow> 2 | DK_CANDIDATE_ELIGIBILITY_CHANGED \<Rightarrow> 3
   | DK_EVIDENCE_GENERATION_CHANGED \<Rightarrow> 4 | DK_PREFERRED_PATH_CHANGED \<Rightarrow> 5 | DK_ADAPTATION_SUPPRESSED \<Rightarrow> 6
   | DK_HOLD_DOWN_ENTERED \<Rightarrow> 7 | DK_HOLD_DOWN_EXITED \<Rightarrow> 8 | DK_COOLDOWN_ENTERED \<Rightarrow> 9 | DK_COOLDOWN_EXITED \<Rightarrow> 10
   | DK_AUTHORITY_CHANGED \<Rightarrow> 11 | DK_CURRENTNESS_CHANGED \<Rightarrow> 12 | DK_STABLE_STATE_CHANGED \<Rightarrow> 13
   | DK_DAMPENING_CHANGED \<Rightarrow> 14 | DK_TRANSITION_CHANGED \<Rightarrow> 15)"

definition diff_kind_to_string :: "diff_kind \<Rightarrow> string" where
  "diff_kind_to_string k = (case k of
     DK_POLICY_CHANGED \<Rightarrow> ''POLICY_CHANGED'' | DK_POLICY_LIFECYCLE_CHANGED \<Rightarrow> ''POLICY_LIFECYCLE_CHANGED''
   | DK_CANDIDATE_ELIGIBILITY_CHANGED \<Rightarrow> ''CANDIDATE_ELIGIBILITY_CHANGED''
   | DK_EVIDENCE_GENERATION_CHANGED \<Rightarrow> ''EVIDENCE_GENERATION_CHANGED'' | DK_PREFERRED_PATH_CHANGED \<Rightarrow> ''PREFERRED_PATH_CHANGED''
   | DK_ADAPTATION_SUPPRESSED \<Rightarrow> ''ADAPTATION_SUPPRESSED'' | DK_HOLD_DOWN_ENTERED \<Rightarrow> ''HOLD_DOWN_ENTERED''
   | DK_HOLD_DOWN_EXITED \<Rightarrow> ''HOLD_DOWN_EXITED'' | DK_COOLDOWN_ENTERED \<Rightarrow> ''COOLDOWN_ENTERED''
   | DK_COOLDOWN_EXITED \<Rightarrow> ''COOLDOWN_EXITED'' | DK_AUTHORITY_CHANGED \<Rightarrow> ''AUTHORITY_CHANGED''
   | DK_CURRENTNESS_CHANGED \<Rightarrow> ''CURRENTNESS_CHANGED'' | DK_STABLE_STATE_CHANGED \<Rightarrow> ''STABLE_STATE_CHANGED''
   | DK_DAMPENING_CHANGED \<Rightarrow> ''DAMPENING_CHANGED'' | DK_TRANSITION_CHANGED \<Rightarrow> ''TRANSITION_CHANGED'')"

definition valid_diff_kind :: "u8 \<Rightarrow> bool" where
  "valid_diff_kind raw = (1 \<le> raw \<and> raw \<le> 15)"

record diff_entry =
  de_kind :: diff_kind
  de_field :: string
  de_before :: string
  de_after :: string

record adaptation_diff =
  df_from :: snapshot_id
  df_to :: snapshot_id
  df_policy :: policy_id
  df_entries :: "diff_entry list"

definition candidate_set_render :: "adaptation_snapshot \<Rightarrow> string" where
  "candidate_set_render s = concat (map (\<lambda>c. id_text (cd_path (cv_binding c))
     @ (if cv_eligible c then '':eligible,'' else '':ineligible,'')) (sn_candidates s))"

text \<open>One \<^verbatim>\<open>if (before != after) add_entry(...)\<close> of \<^verbatim>\<open>compute_diff\<close>.\<close>

definition entry_if :: "bool \<Rightarrow> diff_kind \<Rightarrow> string \<Rightarrow> string \<Rightarrow> string \<Rightarrow> diff_entry list" where
  "entry_if changed kind field old new =
    (if changed then [\<lparr>de_kind = kind, de_field = field, de_before = old, de_after = new\<rparr>] else [])"

definition preferred_text :: "adaptation_snapshot \<Rightarrow> string" where
  "preferred_text s = (if rp_established (sn_preference s) then id_text (rp_preferred_path (sn_preference s)) else ''<none>'')"

definition last_outcome_text :: "adaptation_snapshot \<Rightarrow> string" where
  "last_outcome_text s = (if sn_history s = [] then ''<none>'' else outcome_to_string (hr_outcome (last (sn_history s))))"

definition authority_text :: "adaptation_snapshot \<Rightarrow> string" where
  "authority_text s = gen_text (sn_authority_generation s) @ ''@'' @ gen_text (sn_epoch s)"

definition active_text :: "bool \<Rightarrow> string" where
  "active_text b = (if b then ''active'' else ''clear'')"

definition raw_diff :: "adaptation_snapshot \<Rightarrow> adaptation_snapshot \<Rightarrow> diff_entry list" where
  "raw_diff a b =
     entry_if (sn_digest a \<noteq> sn_digest b) DK_POLICY_CHANGED ''semantic_digest'' (sn_digest a) (sn_digest b)
   @ entry_if (sn_lifecycle a \<noteq> sn_lifecycle b) DK_POLICY_LIFECYCLE_CHANGED ''lifecycle''
       (policy_lifecycle_to_string (sn_lifecycle a)) (policy_lifecycle_to_string (sn_lifecycle b))
   @ entry_if (sn_policy_generation a \<noteq> sn_policy_generation b) DK_POLICY_CHANGED ''policy_generation''
       (gen_text (sn_policy_generation a)) (gen_text (sn_policy_generation b))
   @ entry_if (sn_authority_generation a \<noteq> sn_authority_generation b \<or> sn_epoch a \<noteq> sn_epoch b) DK_AUTHORITY_CHANGED ''authority''
       (authority_text a) (authority_text b)
   @ entry_if (candidate_set_render a \<noteq> candidate_set_render b) DK_CANDIDATE_ELIGIBILITY_CHANGED ''candidates''
       (candidate_set_render a) (candidate_set_render b)
   @ entry_if (sn_evidence_generation a \<noteq> sn_evidence_generation b) DK_EVIDENCE_GENERATION_CHANGED ''evidence_generation''
       (gen_text (sn_evidence_generation a)) (gen_text (sn_evidence_generation b))
   @ entry_if (preferred_text a \<noteq> preferred_text b) DK_PREFERRED_PATH_CHANGED ''preferred_path'' (preferred_text a) (preferred_text b)
   @ entry_if (sn_adaptation_generation a \<noteq> sn_adaptation_generation b) DK_TRANSITION_CHANGED ''adaptation_generation''
       (gen_text (sn_adaptation_generation a)) (gen_text (sn_adaptation_generation b))
   @ entry_if (sn_transition_generation a \<noteq> sn_transition_generation b) DK_TRANSITION_CHANGED ''transition_generation''
       (gen_text (sn_transition_generation a)) (gen_text (sn_transition_generation b))
   @ entry_if (sn_hold_down_active a \<noteq> sn_hold_down_active b)
       (if sn_hold_down_active b then DK_HOLD_DOWN_ENTERED else DK_HOLD_DOWN_EXITED) ''hold_down''
       (active_text (sn_hold_down_active a)) (active_text (sn_hold_down_active b))
   @ entry_if (sn_cooldown_active a \<noteq> sn_cooldown_active b)
       (if sn_cooldown_active b then DK_COOLDOWN_ENTERED else DK_COOLDOWN_EXITED) ''cooldown''
       (active_text (sn_cooldown_active a)) (active_text (sn_cooldown_active b))
   @ entry_if (sn_currentness a \<noteq> sn_currentness b) DK_CURRENTNESS_CHANGED ''currentness''
       (currentness_to_string (sn_currentness a)) (currentness_to_string (sn_currentness b))
   @ entry_if (ss_established (sn_stable a) \<noteq> ss_established (sn_stable b) \<or> ss_path (sn_stable a) \<noteq> ss_path (sn_stable b))
       DK_STABLE_STATE_CHANGED ''stable'' (ss_render (sn_stable a)) (ss_render (sn_stable b))
   @ entry_if (sn_dampening_penalty a \<noteq> sn_dampening_penalty b) DK_DAMPENING_CHANGED ''dampening_penalty''
       (u32_text (sn_dampening_penalty a)) (u32_text (sn_dampening_penalty b))
   @ entry_if (last_outcome_text a \<noteq> last_outcome_text b) DK_ADAPTATION_SUPPRESSED ''last_outcome''
       (last_outcome_text a) (last_outcome_text b)"

definition diff_entry_less :: "diff_entry \<Rightarrow> diff_entry \<Rightarrow> bool" where
  "diff_entry_less a b =
    (if de_kind a \<noteq> de_kind b then diff_kind_raw (de_kind a) < diff_kind_raw (de_kind b)
     else bytes_less (de_field a) (de_field b))"

definition compute_diff :: "adaptation_snapshot \<Rightarrow> adaptation_snapshot \<Rightarrow> adaptation_diff" where
  "compute_diff a b = \<lparr>df_from = sn_id a, df_to = sn_id b,
     df_policy = (if id_valid (sn_policy b) then sn_policy b else sn_policy a),
     df_entries = sort_by diff_entry_less (raw_diff a b)\<rparr>"

definition df_render :: "adaptation_diff \<Rightarrow> string" where
  "df_render d = ''diff '' @ id_text (df_from d) @ '' -> '' @ id_text (df_to d) @ '' policy='' @ id_text (df_policy d)
     @ (if df_entries d = [] then newline @ ''  <no semantic change>''
        else concat (map (\<lambda>e. newline @ ''  '' @ diff_kind_to_string (de_kind e) @ '' '' @ de_field e @ '': '' @ de_before e
               @ '' -> '' @ de_after e) (df_entries d)))"

section \<open>Explanations\<close>

datatype explanation_topic =
    ET_WHY_ADAPTED | ET_WHY_NOT_ADAPTED | ET_EVIDENCE_THRESHOLD | ET_STALE_EVIDENCE | ET_REJECTED_CANDIDATE
  | ET_CANDIDATE_COMPARISON | ET_HYSTERESIS | ET_HOLD_DOWN | ET_STALE_GENERATION | ET_ROLLBACK_REFUSED
  | ET_AUTHORITY_OWNER | ET_GOVERNING_EPOCH

definition explanation_topic_raw :: "explanation_topic \<Rightarrow> u8" where
  "explanation_topic_raw t = (case t of
     ET_WHY_ADAPTED \<Rightarrow> 1 | ET_WHY_NOT_ADAPTED \<Rightarrow> 2 | ET_EVIDENCE_THRESHOLD \<Rightarrow> 3 | ET_STALE_EVIDENCE \<Rightarrow> 4
   | ET_REJECTED_CANDIDATE \<Rightarrow> 5 | ET_CANDIDATE_COMPARISON \<Rightarrow> 6 | ET_HYSTERESIS \<Rightarrow> 7 | ET_HOLD_DOWN \<Rightarrow> 8
   | ET_STALE_GENERATION \<Rightarrow> 9 | ET_ROLLBACK_REFUSED \<Rightarrow> 10 | ET_AUTHORITY_OWNER \<Rightarrow> 11 | ET_GOVERNING_EPOCH \<Rightarrow> 12)"

definition explanation_topic_to_string :: "explanation_topic \<Rightarrow> string" where
  "explanation_topic_to_string t = (case t of
     ET_WHY_ADAPTED \<Rightarrow> ''WHY_ADAPTED'' | ET_WHY_NOT_ADAPTED \<Rightarrow> ''WHY_NOT_ADAPTED'' | ET_EVIDENCE_THRESHOLD \<Rightarrow> ''EVIDENCE_THRESHOLD''
   | ET_STALE_EVIDENCE \<Rightarrow> ''STALE_EVIDENCE'' | ET_REJECTED_CANDIDATE \<Rightarrow> ''REJECTED_CANDIDATE''
   | ET_CANDIDATE_COMPARISON \<Rightarrow> ''CANDIDATE_COMPARISON'' | ET_HYSTERESIS \<Rightarrow> ''HYSTERESIS'' | ET_HOLD_DOWN \<Rightarrow> ''HOLD_DOWN''
   | ET_STALE_GENERATION \<Rightarrow> ''STALE_GENERATION'' | ET_ROLLBACK_REFUSED \<Rightarrow> ''ROLLBACK_REFUSED''
   | ET_AUTHORITY_OWNER \<Rightarrow> ''AUTHORITY_OWNER'' | ET_GOVERNING_EPOCH \<Rightarrow> ''GOVERNING_EPOCH'')"

definition all_explanation_topics :: "explanation_topic list" where
  "all_explanation_topics = [ET_WHY_ADAPTED, ET_WHY_NOT_ADAPTED, ET_EVIDENCE_THRESHOLD, ET_STALE_EVIDENCE,
     ET_REJECTED_CANDIDATE, ET_CANDIDATE_COMPARISON, ET_HYSTERESIS, ET_HOLD_DOWN, ET_STALE_GENERATION,
     ET_ROLLBACK_REFUSED, ET_AUTHORITY_OWNER, ET_GOVERNING_EPOCH]"

definition parse_explanation_topic :: "string \<Rightarrow> explanation_topic option" where
  "parse_explanation_topic = parse_by explanation_topic_to_string all_explanation_topics"

definition valid_explanation_topic :: "u8 \<Rightarrow> bool" where
  "valid_explanation_topic raw = (1 \<le> raw \<and> raw \<le> 12)"

record explanation_entry =
  ee_key :: string
  ee_value :: string

record explanation =
  ex_topic :: explanation_topic
  ex_policy :: policy_id
  ex_decision :: decision_id
  ex_outcome :: outcome
  ex_suppression :: suppression_reason
  ex_entries :: "explanation_entry list"

definition explanation_find :: "explanation \<Rightarrow> string \<Rightarrow> string option" where
  "explanation_find x key = map_option ee_value (List.find (\<lambda>e. ee_key e = key) (ex_entries x))"

definition ex_render :: "explanation \<Rightarrow> string" where
  "ex_render x = explanation_topic_to_string (ex_topic x)
     @ (if id_valid (ex_policy x) then '' policy='' @ id_text (ex_policy x) else [])
     @ (if id_valid (ex_decision x) then '' decision='' @ id_text (ex_decision x) else [])
     @ '' outcome='' @ outcome_to_string (ex_outcome x)
     @ (if ex_suppression x \<noteq> Sup_NONE then '' suppression='' @ suppression_to_string (ex_suppression x) else [])
     @ concat (map (\<lambda>e. newline @ ''  '' @ ee_key e @ '': '' @ ee_value e) (ex_entries x))"

section \<open>Facts\<close>

lemma explanation_topic_codec: "parse_explanation_topic (explanation_topic_to_string t) = Some t"
  by (cases t) (simp_all add: parse_explanation_topic_def explanation_topic_to_string_def all_explanation_topics_def)

lemma diff_kind_raw_inject: "diff_kind_raw k = diff_kind_raw l \<longleftrightarrow> k = l"
  by (cases k; cases l) (simp_all add: diff_kind_raw_def)

definition diff_key :: "diff_entry \<Rightarrow> u8 \<times> string" where
  "diff_key e = (diff_kind_raw (de_kind e), de_field e)"

lemma entry_fields: "subseq (map de_field xs) fs \<Longrightarrow> subseq (map de_field (entry_if c k f x y @ xs)) (f # fs)"
  by (auto simp: entry_if_def intro: list_emb.intros)

lemma last_entry_fields: "subseq (map de_field (entry_if c k f x y)) [f]"
  by (simp add: entry_if_def)

lemma subseq_keeps_distinct: "subseq xs ys \<Longrightarrow> distinct ys \<Longrightarrow> distinct xs"
  by (induction rule: list_emb.induct) (auto dest: subseq_order.order_trans list_emb_set)

text \<open>A diff names each field at most once, so its order by kind and field is total.\<close>

lemma raw_diff_fields: "distinct (map de_field (raw_diff a b))"
proof (rule subseq_keeps_distinct)
  show "subseq (map de_field (raw_diff a b)) [''semantic_digest'', ''lifecycle'', ''policy_generation'', ''authority'', ''candidates'',
      ''evidence_generation'', ''preferred_path'', ''adaptation_generation'', ''transition_generation'', ''hold_down'',
      ''cooldown'', ''currentness'', ''stable'', ''dampening_penalty'', ''last_outcome'']"
    unfolding raw_diff_def by (intro entry_fields last_entry_fields)
qed simp

lemma raw_diff_same: "raw_diff a a = []"
  by (simp add: raw_diff_def entry_if_def)

lemma at_split:
  "xs @ CHR ''@'' # ys = xs' @ CHR ''@'' # ys' \<Longrightarrow> CHR ''@'' \<notin> set xs \<Longrightarrow> CHR ''@'' \<notin> set xs' \<Longrightarrow> xs = xs' \<and> ys = ys'"
proof (induction xs arbitrary: xs')
  case Nil
  then show ?case by (cases xs') auto
next
  case (Cons x xs)
  then show ?case by (cases xs') auto
qed

lemma authority_text_inject:
  "authority_text a = authority_text b \<longleftrightarrow> sn_authority_generation a = sn_authority_generation b \<and> sn_epoch a = sn_epoch b"
proof
  have digits: "CHR ''@'' \<notin> set (dec n)" for n using dec_digits[of "CHR ''@''" n] by (auto simp: digitc_def)
  assume "authority_text a = authority_text b"
  then have "dec (unat (gen_value (sn_authority_generation a))) @ CHR ''@'' # dec (unat (gen_value (sn_epoch a)))
      = dec (unat (gen_value (sn_authority_generation b))) @ CHR ''@'' # dec (unat (gen_value (sn_epoch b)))"
    by (simp add: authority_text_def gen_text_def)
  from at_split[OF this digits digits] show "sn_authority_generation a = sn_authority_generation b \<and> sn_epoch a = sn_epoch b"
    by (auto simp flip: word_unat_eq_iff intro: generation.expand)
qed (simp add: authority_text_def)

end
