(* ===== verification/Query.thy ===== *)
theory Query
  imports Commit View
begin

text \<open>
  The queries of the engine (\<^verbatim>\<open>src/fabric_query.cpp\<close>): immutable snapshots with their currentness
  assessment, retained snapshots, decisions and structured explanations.  Capturing evidence mints an
  identifier, so a query that captures returns the engine with its identifiers advanced, and \<open>None\<close> when
  no identifier can be minted.  The argument \<open>clock\<close> gives the successive readings of the clock.
\<close>

section \<open>Snapshots\<close>

definition no_scope :: policy_scope where
  "no_scope = \<lparr>sc_fabric = no_id, sc_namespace = no_id, sc_site = None, sc_path_class = no_id, sc_routes = [], sc_multipath_sets = []\<rparr>"

definition no_semantics :: policy_semantics where
  "no_semantics = \<lparr>ps_version = policy_semantics_version, ps_target = \<lparr>pt_route = no_id, pt_multipath_set = None\<rparr>,
     ps_thresholds = [], ps_improvements = [], ps_evidence = [], ps_hold_down = 0, ps_cooldown = 0,
     ps_dampening = \<lparr>dr_enabled = False, dr_penalty_increment = 0, dr_max_penalty = 0, dr_penalty_decay_interval = 0,
       dr_penalty_decay_step = 0, dr_hold_down_escalation_step = 0, dr_max_effective_hold_down = 0\<rparr>,
     ps_churn = \<lparr>cb_max_adaptations = 0, cb_window = 0\<rparr>,
     ps_objective = \<lparr>os_mode = LEXICOGRAPHIC, os_terms = [], os_scoring_version = weighted_score_formula_version\<rparr>,
     ps_emergency = \<lparr>em_enabled = False, em_on_unauthorized = False, em_on_unavailable = False, em_on_hard_failure = False\<rparr>,
     ps_priorities = []\<rparr>"

definition no_snapshot :: adaptation_snapshot where
  "no_snapshot = \<lparr>sn_id = no_id, sn_epoch = no_gen, sn_authority_generation = no_gen, sn_policy = no_id,
     sn_policy_generation = no_gen, sn_policy_name = no_id, sn_scope = no_scope, sn_lifecycle = PL_DECLARED,
     sn_semantics = no_semantics, sn_preference = no_preference, sn_stable = no_stable_state, sn_candidates = [],
     sn_evidence = None, sn_currentness = Cur_CURRENT, sn_blockers = [], sn_hold_down_active = False,
     sn_hold_down_remaining = 0, sn_cooldown_active = False, sn_cooldown_remaining = 0, sn_dampening_penalty = 0,
     sn_adaptation_generation = no_gen, sn_transition_generation = no_gen, sn_evidence_generation = no_gen,
     sn_evidence_watermark = Watermark 0, sn_upstream_watermark = Watermark 0, sn_history = [], sn_digest = [],
     sn_captured_at = 0\<rparr>"

definition candidate_view_of :: "candidate_evaluation list \<Rightarrow> candidate_record \<Rightarrow> candidate_view" where
  "candidate_view_of ranked c =
    (let blank = \<lparr>cv_binding = ca_binding c, cv_eligible = False, cv_rejection = Sup_NONE, cv_quality = ESTIMATED, cv_score = None,
                  cv_metrics = [], cv_priority = 0, cv_current_preference = False, cv_previous_preference = False,
                  cv_path_watermark = ca_path_watermark c\<rparr> in
     case List.find (\<lambda>e. ce_path e = cd_path (ca_binding c)) ranked of
       None \<Rightarrow> blank
     | Some e \<Rightarrow> blank\<lparr>cv_eligible := ce_eligible e, cv_rejection := ce_rejection e, cv_quality := ce_quality e, cv_score := ce_score e,
         cv_metrics := ce_metrics e, cv_priority := ce_priority e, cv_current_preference := ce_current_preference e,
         cv_previous_preference := ce_previous_preference e\<rparr>)"

definition resolved_in :: "evaluation_inputs \<Rightarrow> path_id \<Rightarrow> metric_kind \<Rightarrow> resolved_evidence option" where
  "resolved_in inputs path kind = (case vi_evidence inputs of None \<Rightarrow> None | Some ev \<Rightarrow> snapshot_find ev path kind)"

definition insufficient :: "evaluation_inputs \<Rightarrow> evidence_requirement \<Rightarrow> evidence_aggregate \<Rightarrow> bool" where
  "insufficient inputs rq a \<longleftrightarrow> ea_sample_count a < er_min_samples rq \<or> ea_age a (vi_now inputs) > er_max_age rq
     \<or> ea_window a < er_min_window rq"

text \<open>The blockers in the order the code notes them; the first one is the reported currentness.\<close>

definition policy_blockers :: "state \<Rightarrow> policy_record \<Rightarrow> currentness list" where
  "policy_blockers s r =
     (if ap_lifecycle (pc_policy r) \<noteq> PL_ACTIVE then [Cur_REVALIDATION_REQUIRED] else [])
   @ (if pc_revocation r \<noteq> None then [Cur_REVALIDATION_REQUIRED] else [])
   @ (if gen_valid (ap_epoch (pc_policy r)) \<and> ap_epoch (pc_policy r) \<noteq> g_epoch s then [Cur_STALE_EPOCH] else [])"

definition preferred_blockers :: "policy_record \<Rightarrow> currentness list" where
  "preferred_blockers r =
    (let p = pc_preference r in
     if \<not> rp_established p then []
     else case find_candidate (pc_candidates r) (rp_preferred_path p) of
       None \<Rightarrow> [Cur_REVALIDATION_REQUIRED]
     | Some i \<Rightarrow>
       (let b = ca_binding (pc_candidates r ! i) in
          (if \<not> pa_legal (cd_path_authority b) \<or> pa_generation (cd_path_authority b) \<noteq> rp_path_authority_generation p
           then [Cur_STALE_PATH_AUTHORITY] else [])
        @ (if \<not> rb_current (cd_route b) then [Cur_STALE_ROUTE] else [])
        @ (if pt_multipath_set (ps_target (ap_semantics (pc_policy r))) \<noteq> None
              \<and> (case cd_multipath b of None \<Rightarrow> True | Some m \<Rightarrow> \<not> mb_current m \<or> mb_generation m \<noteq> rp_multipath_generation p)
           then [Cur_STALE_MULTIPATH_SET] else [])
        @ (if \<not> cd_available b then [Cur_REVALIDATION_REQUIRED] else [])))"

definition evidence_blocker :: "evaluation_inputs \<Rightarrow> path_id \<Rightarrow> evidence_requirement \<Rightarrow> currentness list" where
  "evidence_blocker inputs path rq =
    (if \<not> er_required rq then []
     else case resolved_in inputs path (er_kind rq) of
       None \<Rightarrow> [Cur_STALE_EVIDENCE]
     | Some v \<Rightarrow> if \<not> ea_valid (re_aggregate v) then [Cur_STALE_EVIDENCE]
                 else if insufficient inputs rq (re_aggregate v) then [Cur_STALE_EVIDENCE] else [])"

definition evidence_blockers :: "policy_record \<Rightarrow> evaluation_inputs \<Rightarrow> currentness list" where
  "evidence_blockers r inputs =
    (if \<not> rp_established (pc_preference r) then []
     else concat (map (evidence_blocker inputs (rp_preferred_path (pc_preference r))) (ps_evidence (ap_semantics (pc_policy r)))))"

definition hold_down_left :: "timing_state \<Rightarrow> ticks \<Rightarrow> bool \<times> ticks" where
  "hold_down_left t now = (let active = ti_hold_down_active t \<and> ti_hold_down_deadline t > now in
     (active, if active then ti_hold_down_deadline t - now else 0))"

definition cooldown_left :: "timing_state \<Rightarrow> ticks \<Rightarrow> bool \<times> ticks" where
  "cooldown_left t now = (let active = ti_cooldown_active t \<and> ti_cooldown_deadline t > now in
     (active, if active then ti_cooldown_deadline t - now else 0))"

definition timing_blockers :: "timing_state \<Rightarrow> ticks \<Rightarrow> currentness list" where
  "timing_blockers t now =
     (if ti_hold_down_active t \<and> snd (hold_down_left t now) \<noteq> 0 then [Cur_HOLD_DOWN_ACTIVE] else [])
   @ (if ti_cooldown_active t \<and> snd (cooldown_left t now) \<noteq> 0 then [Cur_COOLDOWN_ACTIVE] else [])"

definition snapshot_blockers :: "state \<Rightarrow> policy_record \<Rightarrow> evaluation_inputs \<Rightarrow> ticks \<Rightarrow> currentness list" where
  "snapshot_blockers s r inputs now =
     policy_blockers s r @ preferred_blockers r @ evidence_blockers r inputs @ timing_blockers (pc_timing r) now"

definition snapshot_view :: "snapshot_id \<Rightarrow> state \<Rightarrow> policy_record \<Rightarrow> evaluation_inputs \<Rightarrow> evaluation_ticket \<Rightarrow> ticks \<Rightarrow> adaptation_snapshot" where
  "snapshot_view i s r inputs ticket now =
    (let p = pc_policy r; t = pc_timing r; blockers = snapshot_blockers s r inputs now in
     \<lparr>sn_id = i, sn_epoch = g_epoch s, sn_authority_generation = g_authority_generation s, sn_policy = ap_id p,
      sn_policy_generation = ap_generation p, sn_policy_name = ap_name p, sn_scope = ap_scope p, sn_lifecycle = ap_lifecycle p,
      sn_semantics = ap_semantics p, sn_preference = pc_preference r, sn_stable = pc_stable r,
      sn_candidates = map (candidate_view_of (et_ranking ticket)) (pc_candidates r), sn_evidence = vi_evidence inputs,
      sn_currentness = (case blockers of [] \<Rightarrow> Cur_CURRENT | b # _ \<Rightarrow> b), sn_blockers = blockers,
      sn_hold_down_active = fst (hold_down_left t now), sn_hold_down_remaining = snd (hold_down_left t now),
      sn_cooldown_active = fst (cooldown_left t now), sn_cooldown_remaining = snd (cooldown_left t now),
      sn_dampening_penalty = ti_dampening_penalty t,
      sn_adaptation_generation = rp_adaptation_generation (pc_preference r),
      sn_transition_generation = rp_transition_generation (pc_preference r),
      sn_evidence_generation = g_evidence_generation s, sn_evidence_watermark = g_evidence_watermark s,
      sn_upstream_watermark = g_upstream_watermark s, sn_history = pc_history r, sn_digest = [], sn_captured_at = now\<rparr>)"

definition snapshot :: "(nat \<Rightarrow> ticks) \<Rightarrow> policy_id \<Rightarrow> engine \<Rightarrow> (engine \<times> adaptation_snapshot) option" where
  "snapshot clock policy e =
    (let s = en_state e in
     case om_find (g_policies s) policy of
       None \<Rightarrow> Some (e, no_snapshot)
     | Some r \<Rightarrow>
     case next_snapshot_id (en_ids e) of
       None \<Rightarrow> None
     | Some (ids1, i) \<Rightarrow>
     case copy_inputs (\<lambda>n. clock (n + 1)) (en_limits e) s r ids1 of
       None \<Rightarrow> None
     | Some (ids2, inputs) \<Rightarrow>
       (let ticket = evaluate_inputs inputs (build_dependencies (clock 3) s r no_id);
            view = snapshot_view i s r inputs ticket (clock 0);
            finished = view\<lparr>sn_digest := snapshot_digest view\<rparr>
        in Some (e\<lparr>en_ids := ids2, en_state := retain_snapshot (en_limits e) finished s\<rparr>, finished)))"

definition retained_snapshots :: "engine \<Rightarrow> snapshot_id list" where
  "retained_snapshots e = g_snapshot_order (en_state e)"

definition find_snapshot :: "engine \<Rightarrow> snapshot_id \<Rightarrow> adaptation_snapshot option" where
  "find_snapshot e i = om_find (g_snapshots (en_state e)) i"

section \<open>Decisions\<close>

definition decision_summary :: "policy_id \<Rightarrow> adaptation_record \<Rightarrow> adaptation_decision" where
  "decision_summary policy h = no_decision\<lparr>dn_id := hr_decision h, dn_policy := policy, dn_lifecycle := hr_lifecycle h,
     dn_outcome := hr_outcome h, dn_suppression := hr_suppression h, dn_cause := hr_cause h,
     dn_current_preference := hr_from_path h, dn_target_preference := hr_to_path h,
     dn_adaptation_generation := hr_adaptation_generation h, dn_evidence_generation := hr_evidence_generation h,
     dn_epoch := hr_epoch h, dn_committed_at := hr_committed_at h, dn_digest := hr_digest h\<rparr>"

definition find_decision :: "engine \<Rightarrow> decision_id \<Rightarrow> adaptation_decision option" where
  "find_decision e i =
    (case List.find (\<lambda>n. dn_id n = i) (g_decision_journal (en_state e)) of
       Some n \<Rightarrow> Some n
     | None \<Rightarrow> map_option (\<lambda>(policy, h). decision_summary policy h)
         (List.find (\<lambda>(policy, h). hr_decision h = i)
           (concat (map (\<lambda>(policy, r). map (Pair policy) (pc_history r)) (g_policies (en_state e))))))"

definition list_decisions :: "engine \<Rightarrow> u64 \<Rightarrow> adaptation_decision list" where
  "list_decisions e limit =
     take (unat (min limit (lim_max_decision_history (en_limits e)))) (rev (g_decision_journal (en_state e)))"

definition decisions_for_policy :: "engine \<Rightarrow> policy_id \<Rightarrow> u64 \<Rightarrow> adaptation_decision list" where
  "decisions_for_policy e policy limit =
     take (unat (min limit (lim_max_decision_history (en_limits e))))
       (filter (\<lambda>n. dn_policy n = policy) (rev (g_decision_journal (en_state e))))"

section \<open>Explanations\<close>

definition add_entry :: "u64 \<Rightarrow> string \<Rightarrow> string \<Rightarrow> explanation \<Rightarrow> explanation" where
  "add_entry max_entries key v x =
    (if length (ex_entries x) \<ge> unat max_entries then x
     else x\<lparr>ex_entries := ex_entries x @ [\<lparr>ee_key = key, ee_value = v\<rparr>]\<rparr>)"

text \<open>A sequence of \<^verbatim>\<open>add_entry\<close> calls.\<close>

definition add_entries :: "u64 \<Rightarrow> (string \<times> string) list \<Rightarrow> explanation \<Rightarrow> explanation" where
  "add_entries max_entries = fold (\<lambda>(key, v). add_entry max_entries key v)"

definition no_explanation :: "explanation_topic \<Rightarrow> explanation" where
  "no_explanation topic = \<lparr>ex_topic = topic, ex_policy = no_id, ex_decision = no_id, ex_outcome = Out_NO_CHANGE,
     ex_suppression = Sup_NONE, ex_entries = []\<rparr>"

definition ticks_ms :: "ticks \<Rightarrow> string" where
  "ticks_ms t = dec (unat (t div ticks_per_millisecond)) @ ''ms''"

definition truth_text :: "bool \<Rightarrow> string" where
  "truth_text b = (if b then ''true'' else ''false'')"

definition last_committed :: "adaptation_record list \<Rightarrow> adaptation_record option" where
  "last_committed hs = (case filter (\<lambda>h. hr_lifecycle h = DL_COMMITTED) hs of [] \<Rightarrow> None | x # xs \<Rightarrow> Some (last (x # xs)))"

definition adapted_header :: "policy_record \<Rightarrow> explanation \<Rightarrow> explanation" where
  "adapted_header r x =
    (case last_committed (pc_history r) of
       None \<Rightarrow> x\<lparr>ex_outcome := Out_NO_CHANGE\<rparr>
     | Some h \<Rightarrow> x\<lparr>ex_decision := hr_decision h, ex_outcome := hr_outcome h\<rparr>)"

definition adapted_entries :: "state \<Rightarrow> policy_record \<Rightarrow> (string \<times> string) list" where
  "adapted_entries s r =
    (case last_committed (pc_history r) of
       None \<Rightarrow> [(''adapted'', ''never'')]
     | Some h \<Rightarrow>
         [(''adapted'', id_text (hr_from_path h) @ '' -> '' @ id_text (hr_to_path h)),
          (''cause'', adaptation_cause_to_string (hr_cause h)),
          (''adaptation_generation'', gen_text (hr_adaptation_generation h)),
          (''evidence_generation'', gen_text (hr_evidence_generation h)), (''decision_digest'', hr_digest h)]
       @ (case List.find (\<lambda>n. dn_id n = hr_decision h) (g_decision_journal s) of
            None \<Rightarrow> []
          | Some n \<Rightarrow>
              (case dn_improvement_bps n of None \<Rightarrow> [] | Some b \<Rightarrow> [(''observed_improvement_bps'', u32_text b)])
            @ [(''required_improvement_bps'', u32_text (dn_required_improvement_bps n))]
            @ (case dn_target_score n of None \<Rightarrow> [] | Some t \<Rightarrow> [(''target_score'', dec (unat t))])))"

definition not_adapted_header :: "policy_record \<Rightarrow> explanation \<Rightarrow> explanation" where
  "not_adapted_header r x =
    (if pc_history r = [] then x
     else let h = last (pc_history r) in
       x\<lparr>ex_decision := hr_decision h, ex_outcome := hr_outcome h, ex_suppression := hr_suppression h\<rparr>)"

definition not_adapted_entries :: "policy_record \<Rightarrow> (string \<times> string) list" where
  "not_adapted_entries r =
     (if pc_history r = [] then [(''last_outcome'', ''never evaluated'')]
      else let h = last (pc_history r) in
        [(''last_outcome'', outcome_to_string (hr_outcome h)), (''last_suppression'', suppression_to_string (hr_suppression h)),
         (''last_decision'', id_text (hr_decision h))])
   @ [(''lifecycle'', policy_lifecycle_to_string (ap_lifecycle (pc_policy r))),
      (''hold_down_active'', truth_text (ti_hold_down_active (pc_timing r))),
      (''cooldown_active'', truth_text (ti_cooldown_active (pc_timing r))),
      (''candidate_count'', dec (length (pc_candidates r)))]"

definition candidate_requirements :: "policy_record \<Rightarrow> (path_id \<times> evidence_requirement) list" where
  "candidate_requirements r = concat (map (\<lambda>c. map (Pair (cd_path (ca_binding c))) (ps_evidence (ap_semantics (pc_policy r)))) (pc_candidates r))"

definition rule_entries :: "string \<Rightarrow> policy_semantics \<Rightarrow> (string \<times> string) list" where
  "rule_entries threshold_key sem =
     map (\<lambda>r. (threshold_key @ metric_kind_to_string (tr_kind r), tr_render r)) (ps_thresholds sem)
   @ map (\<lambda>r. (''improvement.'' @ metric_kind_to_string (ir_kind r), ir_render r)) (ps_improvements sem)"

definition value_entry :: "evaluation_inputs \<Rightarrow> path_id \<times> evidence_requirement \<Rightarrow> string \<times> string" where
  "value_entry inputs pr = (case pr of (path, rq) \<Rightarrow>
    (''value.'' @ id_text path @ ''.'' @ metric_kind_to_string (er_kind rq),
     case resolved_in inputs path (er_kind rq) of
       None \<Rightarrow> ''absent''
     | Some v \<Rightarrow> if \<not> ea_valid (re_aggregate v) then ''absent''
         else ea_render (re_aggregate v) @ '' age_ms='' @ ticks_ms (ea_age (re_aggregate v) (vi_now inputs))))"

definition freshness_entry :: "evaluation_inputs \<Rightarrow> path_id \<times> evidence_requirement \<Rightarrow> string \<times> string" where
  "freshness_entry inputs pr = (case pr of (path, rq) \<Rightarrow>
    (''freshness.'' @ id_text path @ ''.'' @ metric_kind_to_string (er_kind rq),
     case resolved_in inputs path (er_kind rq) of
       None \<Rightarrow> ''no sample retained''
     | Some v \<Rightarrow>
       (let a = re_aggregate v in
        if \<not> ea_valid a then ''no sample retained''
        else (if insufficient inputs rq a then ''stale'' else ''current'') @ '' age_ms='' @ ticks_ms (ea_age a (vi_now inputs))
          @ '' max_age_ms='' @ ticks_ms (er_max_age rq) @ '' samples='' @ u32_text (ea_sample_count a)
          @ '' min_samples='' @ u32_text (er_min_samples rq) @ '' window_ms='' @ ticks_ms (ea_window a)
          @ '' min_window_ms='' @ ticks_ms (er_min_window rq))))"

definition rank_entry :: "nat \<Rightarrow> candidate_evaluation \<Rightarrow> string \<times> string" where
  "rank_entry position e =
    (''rank'' @ dec position @ ''.'' @ id_text (ce_path e),
     (if ce_eligible e then ''eligible'' else ''ineligible:'' @ suppression_to_string (ce_rejection e))
     @ '' quality='' @ quality_to_string (ce_quality e) @ '' priority='' @ u32_text (ce_priority e)
     @ (case ce_score e of None \<Rightarrow> [] | Some n \<Rightarrow> '' score='' @ dec (unat n))
     @ concat (map (\<lambda>v. '' '' @ mv_render v) (ce_metrics e))
     @ (case ce_observed_improvement e of None \<Rightarrow> [] | Some b \<Rightarrow> '' improvement_bps='' @ u32_text b)
     @ (if ce_current_preference e then '' current'' else []) @ (if ce_previous_preference e then '' previous'' else []))"

definition explained_ticket :: "ticks \<Rightarrow> state \<Rightarrow> policy_record \<Rightarrow> evaluation_inputs \<Rightarrow> evaluation_ticket" where
  "explained_ticket now s r inputs = evaluate_inputs inputs (build_dependencies now s r no_id)"

definition ranking_header :: "evaluation_ticket \<Rightarrow> explanation \<Rightarrow> explanation" where
  "ranking_header ticket x = x\<lparr>ex_outcome := et_outcome ticket, ex_suppression := et_suppression ticket\<rparr>"

definition ranking_entries :: "evaluation_ticket \<Rightarrow> (string \<times> string) list" where
  "ranking_entries ticket =
    (let ranked = et_ranking ticket in map (\<lambda>(n, e). rank_entry n e) (zip [1..<length ranked + 1] ranked))"

definition hysteresis_entries :: "policy_record \<Rightarrow> (string \<times> string) list" where
  "hysteresis_entries r =
     rule_entries ''band.'' (ap_semantics (pc_policy r))
   @ [(''reverse_target'', if id_valid (rp_previous_path (pc_preference r)) then id_text (rp_previous_path (pc_preference r)) else ''none''),
      (''dampening_penalty'', u32_text (ti_dampening_penalty (pc_timing r)))]"

definition remaining_ms :: "bool \<Rightarrow> ticks \<Rightarrow> ticks \<Rightarrow> string" where
  "remaining_ms active deadline now = (if active \<and> deadline > now then ticks_ms (deadline - now) else ''0ms'')"

definition hold_down_entries :: "ticks \<Rightarrow> policy_record \<Rightarrow> (string \<times> string) list" where
  "hold_down_entries now r =
    (let sem = ap_semantics (pc_policy r); t = pc_timing r;
         effective = (if dr_enabled (ps_dampening sem)
           then min (ps_hold_down sem + ucast (ti_dampening_penalty t) * dr_hold_down_escalation_step (ps_dampening sem))
                    (dr_max_effective_hold_down (ps_dampening sem))
           else ps_hold_down sem) in
     [(''hold_down_declared_ms'', ticks_ms (ps_hold_down sem)), (''hold_down_effective_ms'', ticks_ms effective),
      (''hold_down_active'', truth_text (ti_hold_down_active t)),
      (''hold_down_remaining_ms'', remaining_ms (ti_hold_down_active t) (ti_hold_down_deadline t) now),
      (''cooldown_declared_ms'', ticks_ms (ps_cooldown sem)), (''cooldown_active'', truth_text (ti_cooldown_active t)),
      (''cooldown_remaining_ms'', remaining_ms (ti_cooldown_active t) (ti_cooldown_deadline t) now)])"

definition generation_entries :: "state \<Rightarrow> policy_record \<Rightarrow> (string \<times> string) list" where
  "generation_entries s r =
     [(''policy_generation'', gen_text (ap_generation (pc_policy r))), (''evidence_generation'', gen_text (g_evidence_generation s)),
      (''evidence_watermark'', dec (unat (wm_value (g_evidence_watermark s)))),
      (''upstream_watermark'', dec (unat (wm_value (g_upstream_watermark s)))),
      (''adaptation_generation'', gen_text (rp_adaptation_generation (pc_preference r))),
      (''transition_generation'', gen_text (rp_transition_generation (pc_preference r)))]
   @ map (\<lambda>c. (''candidate.'' @ id_text (cd_path (ca_binding c)),
        ''authority_generation='' @ gen_text (pa_generation (cd_path_authority (ca_binding c)))
        @ '' route_generation='' @ gen_text (rb_generation (cd_route (ca_binding c)))
        @ '' path_watermark='' @ dec (unat (ca_path_watermark c)))) (pc_candidates r)"

definition rollback_entries :: "policy_record \<Rightarrow> (string \<times> string) list" where
  "rollback_entries r =
    (let st = pc_stable r; p = pc_preference r; found = find_candidate (pc_candidates r) (ss_path st) in
     [(''stable_established'', truth_text (ss_established st))]
   @ (if \<not> ss_established st then []
      else [(''stable_path'', id_text (ss_path st)), (''stable_path_is_candidate'', truth_text (found \<noteq> None))]
        @ (case found of None \<Rightarrow> []
           | Some i \<Rightarrow> [(''stable_path_legal'', truth_text (pa_legal (cd_path_authority (ca_binding (pc_candidates r ! i))))),
                        (''stable_path_available'', truth_text (cd_available (ca_binding (pc_candidates r ! i))))]))
   @ [(''current_preference'', if rp_established p then id_text (rp_preferred_path p) else ''none'')])"

definition owner_entries :: "state \<Rightarrow> policy_record \<Rightarrow> (string \<times> string) list" where
  "owner_entries s r =
     map (\<lambda>(publisher, g). (''publisher.'' @ id_text publisher, pr_render g)) (g_registrations s)
   @ map (\<lambda>f. (''fence.'' @ id_text (fr_worker_boot f), fr_render f)) (g_fences s)
   @ [(''policy_owner'', id_text (ap_owner (pc_policy r)))]"

definition epoch_entries :: "state \<Rightarrow> policy_record \<Rightarrow> (string \<times> string) list" where
  "epoch_entries s r =
     [(''epoch'', gen_text (g_epoch s)), (''authority_generation'', gen_text (g_authority_generation s)),
      (''policy_epoch'', gen_text (ap_epoch (pc_policy r))),
      (''epoch_matches_policy'', truth_text (g_epoch s = ap_epoch (pc_policy r)))]"

text \<open>
  The entries a topic offers to \<open>add_entry\<close>, in the order of the calls, and the fields it sets besides.
\<close>

definition topic_entries :: "ticks \<Rightarrow> state \<Rightarrow> policy_record \<Rightarrow> evaluation_inputs \<Rightarrow> explanation_topic \<Rightarrow> (string \<times> string) list" where
  "topic_entries now s r inputs topic =
    (case topic of
       ET_WHY_ADAPTED \<Rightarrow> adapted_entries s r
     | ET_WHY_NOT_ADAPTED \<Rightarrow> not_adapted_entries r
     | ET_EVIDENCE_THRESHOLD \<Rightarrow> rule_entries ''threshold.'' (ap_semantics (pc_policy r))
          @ map (value_entry inputs) (candidate_requirements r)
     | ET_STALE_EVIDENCE \<Rightarrow> map (freshness_entry inputs) (candidate_requirements r)
     | ET_REJECTED_CANDIDATE \<Rightarrow> ranking_entries (explained_ticket now s r inputs)
     | ET_CANDIDATE_COMPARISON \<Rightarrow> ranking_entries (explained_ticket now s r inputs)
     | ET_HYSTERESIS \<Rightarrow> hysteresis_entries r
     | ET_HOLD_DOWN \<Rightarrow> hold_down_entries now r
     | ET_STALE_GENERATION \<Rightarrow> generation_entries s r
     | ET_ROLLBACK_REFUSED \<Rightarrow> rollback_entries r
     | ET_AUTHORITY_OWNER \<Rightarrow> owner_entries s r
     | ET_GOVERNING_EPOCH \<Rightarrow> epoch_entries s r)"

definition topic_header :: "ticks \<Rightarrow> state \<Rightarrow> policy_record \<Rightarrow> evaluation_inputs \<Rightarrow> explanation_topic \<Rightarrow> explanation \<Rightarrow> explanation" where
  "topic_header now s r inputs topic x =
    (case topic of
       ET_WHY_ADAPTED \<Rightarrow> adapted_header r x
     | ET_WHY_NOT_ADAPTED \<Rightarrow> not_adapted_header r x
     | ET_REJECTED_CANDIDATE \<Rightarrow> ranking_header (explained_ticket now s r inputs) x
     | ET_CANDIDATE_COMPARISON \<Rightarrow> ranking_header (explained_ticket now s r inputs) x
     | _ \<Rightarrow> x)"

definition explain_topic :: "u64 \<Rightarrow> ticks \<Rightarrow> state \<Rightarrow> policy_record \<Rightarrow> evaluation_inputs \<Rightarrow> explanation_topic \<Rightarrow> explanation \<Rightarrow> explanation" where
  "explain_topic m now s r inputs topic x =
     add_entries m (topic_entries now s r inputs topic) (topic_header now s r inputs topic x)"

definition mark_truncated :: "u64 \<Rightarrow> explanation \<Rightarrow> explanation" where
  "mark_truncated m x =
    (if m \<noteq> 0 \<and> length (ex_entries x) \<ge> unat m
     then x\<lparr>ex_entries := butlast (ex_entries x) @ [\<lparr>ee_key = ''truncated'', ee_value = ''explanation entry limit reached''\<rparr>]\<rparr>
     else x)"

definition build_explanation :: "limits \<Rightarrow> ticks \<Rightarrow> state \<Rightarrow> policy_record \<Rightarrow> evaluation_inputs \<Rightarrow> explanation_topic \<Rightarrow> explanation" where
  "build_explanation l now s r inputs topic =
    (let m = lim_max_explanation_entries l in
     mark_truncated m (explain_topic m now s r inputs topic ((no_explanation topic)\<lparr>ex_policy := ap_id (pc_policy r)\<rparr>)))"

definition explain :: "(nat \<Rightarrow> ticks) \<Rightarrow> explanation_topic \<Rightarrow> policy_id \<Rightarrow> engine \<Rightarrow> (engine \<times> explanation) option" where
  "explain clock topic policy e =
    (let s = en_state e; l = en_limits e in
     case om_find (g_policies s) policy of
       None \<Rightarrow> Some (e, add_entry (lim_max_explanation_entries l) ''error'' ''policy does not exist''
          ((no_explanation topic)\<lparr>ex_policy := policy, ex_outcome := Out_NOT_FOUND\<rparr>))
     | Some r \<Rightarrow>
     case copy_inputs clock l s r (en_ids e) of
       None \<Rightarrow> None
     | Some (ids, inputs) \<Rightarrow> Some (e\<lparr>en_ids := ids\<rparr>, build_explanation l (clock 2) s r inputs topic))"

definition decision_entries :: "adaptation_decision \<Rightarrow> (string \<times> string) list" where
  "decision_entries n =
     [(''lifecycle'', decision_lifecycle_to_string (dn_lifecycle n)), (''cause'', adaptation_cause_to_string (dn_cause n)),
      (''epoch'', gen_text (dn_epoch n)), (''route'', id_text (dn_route n)),
      (''current_preference'', if dn_had_current_preference n then id_text (dn_current_preference n) else ''none''),
      (''target_preference'', id_text (dn_target_preference n)), (''policy_generation'', gen_text (dn_policy_generation n)),
      (''evidence_generation'', gen_text (dn_evidence_generation n)), (''evidence_snapshot'', id_text (dn_evidence_snapshot n)),
      (''adaptation_generation'', gen_text (dn_adaptation_generation n)),
      (''transition_generation'', gen_text (dn_transition_generation n)),
      (''required_improvement_bps'', u32_text (dn_required_improvement_bps n))]
   @ (case dn_improvement_bps n of None \<Rightarrow> [] | Some b \<Rightarrow> [(''observed_improvement_bps'', u32_text b)])
   @ (case dn_target_score n of None \<Rightarrow> [] | Some t \<Rightarrow> [(''target_score'', dec (unat t))])
   @ [(''candidates_considered'', u32_text (dn_candidates_considered n)),
      (''candidates_eligible'', u32_text (dn_candidates_eligible n)), (''decision_digest'', dn_digest n),
      (''authority'', av_render (dn_provenance n))]"

definition explain_decision :: "engine \<Rightarrow> decision_id \<Rightarrow> explanation" where
  "explain_decision e i =
    (let m = lim_max_explanation_entries (en_limits e); x = (no_explanation ET_WHY_ADAPTED)\<lparr>ex_decision := i\<rparr> in
     case List.find (\<lambda>n. dn_id n = i) (g_decision_journal (en_state e)) of
       Some n \<Rightarrow> add_entries m (decision_entries n)
         (x\<lparr>ex_policy := dn_policy n, ex_outcome := dn_outcome n, ex_suppression := dn_suppression n\<rparr>)
     | None \<Rightarrow> add_entry m ''error'' ''decision is not retained in the bounded journal and no policy history names it''
         (x\<lparr>ex_outcome := Out_NOT_FOUND\<rparr>))"

end
