(* ===== verification/Query_Guarantees.thy ===== *)
theory Query_Guarantees
  imports Query Measured
begin

text \<open>
  What the queries promise: a snapshot reads current exactly when nothing blocks the policy, taking one
  changes only the retained snapshots, and an explanation is its full answer cut at the bound.
\<close>

section \<open>Snapshots\<close>

lemma snapshot_ends [consumes 1, case_names absent taken]:
  assumes "snapshot clock p e = Some (e', v)"
  obtains (absent) "om_find (g_policies (en_state e)) p = None" "e' = e" "v = no_snapshot"
  | (taken) r ids1 i ids2 inputs where "om_find (g_policies (en_state e)) p = Some r" "next_snapshot_id (en_ids e) = Some (ids1, i)"
      "copy_inputs (\<lambda>n. clock (n + 1)) (en_limits e) (en_state e) r ids1 = Some (ids2, inputs)"
      "e' = e\<lparr>en_ids := ids2, en_state := retain_snapshot (en_limits e) v (en_state e)\<rparr>"
      "\<exists>ticket d. v = (snapshot_view i (en_state e) r inputs ticket (clock 0))\<lparr>sn_digest := d\<rparr>"
proof (cases "om_find (g_policies (en_state e)) p")
  case None
  have "snapshot clock p e = Some (e, no_snapshot)" unfolding snapshot_def Let_def by (simp only: None option.case)
  with None show ?thesis using assms that(1) by auto
next
  case (Some r)
  have "\<exists>ids1 i ids2 inputs. next_snapshot_id (en_ids e) = Some (ids1, i)
      \<and> copy_inputs (\<lambda>n. clock (n + 1)) (en_limits e) (en_state e) r ids1 = Some (ids2, inputs)"
    using assms unfolding snapshot_def Let_def
    by (cases "next_snapshot_id (en_ids e)"; simp only: Some option.case option.distinct prod.case split: prod.splits option.splits; blast?)
  then obtain ids1 i ids2 inputs where n: "next_snapshot_id (en_ids e) = Some (ids1, i)"
      "copy_inputs (\<lambda>n. clock (n + 1)) (en_limits e) (en_state e) r ids1 = Some (ids2, inputs)" by blast
  have step: "snapshot clock p e = (let ticket = evaluate_inputs inputs (build_dependencies (clock 3) (en_state e) r no_id);
      w = snapshot_view i (en_state e) r inputs ticket (clock 0); finished = w\<lparr>sn_digest := snapshot_digest w\<rparr>
      in Some (e\<lparr>en_ids := ids2, en_state := retain_snapshot (en_limits e) finished (en_state e)\<rparr>, finished))"
    unfolding snapshot_def Let_def by (simp only: Some n option.case prod.case)
  have "e' = e\<lparr>en_ids := ids2, en_state := retain_snapshot (en_limits e) v (en_state e)\<rparr>"
      "\<exists>ticket d. v = (snapshot_view i (en_state e) r inputs ticket (clock 0))\<lparr>sn_digest := d\<rparr>"
    using assms unfolding step Let_def option.inject prod.inject by blast+
  with Some n show ?thesis by (rule that(2))
qed

lemma prune_oldest_bound: "length (fst (prune_oldest n order m)) \<le> n"
  by (induction n order m rule: prune_oldest.induct) auto

lemma retain_snapshot_frame: "\<exists>kept order. retain_snapshot l v s = s\<lparr>g_snapshots := kept, g_snapshot_order := order\<rparr>
    \<and> length order \<le> unat (lim_max_snapshot_history l)"
  using prune_oldest_bound[of "unat (lim_max_snapshot_history l)" "g_snapshot_order s @ [sn_id v]" "om_put (sn_id v) v (g_snapshots s)"]
  by (auto simp: retain_snapshot_def split: prod.splits intro!: exI)

lemma state_frame_snapshots:
  "state_ok l s \<Longrightarrow> state_ok l (s\<lparr>g_snapshots := kept, g_snapshot_order := order\<rparr>)
     \<and> state_extends s (s\<lparr>g_snapshots := kept, g_snapshot_order := order\<rparr>)"
  by (simp add: state_ok_def state_extends_def policies_extend_refl revocations_ok_def)

lemma snapshot_contract:
  assumes "engine_ok e" and "snapshot clock p e = Some (e', v)"
  shows "engine_ok e' \<and> engine_extends e e'"
  using assms(2)
proof (cases rule: snapshot_ends)
  case absent
  then show ?thesis using assms(1) by (simp add: engine_extends_refl)
next
  case (taken r ids1 i ids2 inputs)
  obtain kept order where "retain_snapshot (en_limits e) v (en_state e) = (en_state e)\<lparr>g_snapshots := kept, g_snapshot_order := order\<rparr>"
    using retain_snapshot_frame by blast
  then show ?thesis using taken(4) assms(1) state_frame_snapshots by (simp add: engine_ok_def engine_extends_def)
qed

interpretation snapshot_op: engine_operation "snapshot clock p" for clock p
  by unfold_locales (rule snapshot_contract)


text \<open>What a current preference rests on, and where each thing that can block it shows.\<close>

definition preference_sound :: "policy_record \<Rightarrow> bool" where
  "preference_sound r = (\<exists>i < length (pc_candidates r). let b = ca_binding (pc_candidates r ! i); p = pc_preference r in
     cd_path b = rp_preferred_path p \<and> pa_legal (cd_path_authority b)
     \<and> pa_generation (cd_path_authority b) = rp_path_authority_generation p \<and> rb_current (cd_route b) \<and> cd_available b
     \<and> (pt_multipath_set (ps_target (ap_semantics (pc_policy r))) \<noteq> None \<longrightarrow>
          (\<exists>m. cd_multipath b = Some m \<and> mb_current m \<and> mb_generation m = rp_multipath_generation p)))"

definition evidence_fresh :: "policy_record \<Rightarrow> evidence_snapshot \<Rightarrow> ticks \<Rightarrow> bool" where
  "evidence_fresh r ev now = (\<forall>rq \<in> set (ps_evidence (ap_semantics (pc_policy r))). er_required rq \<longrightarrow>
     (\<exists>v. snapshot_find ev (rp_preferred_path (pc_preference r)) (er_kind rq) = Some v \<and> ea_valid (re_aggregate v)
        \<and> er_min_samples rq \<le> ea_sample_count (re_aggregate v) \<and> ea_age (re_aggregate v) now \<le> er_max_age rq
        \<and> er_min_window rq \<le> ea_window (re_aggregate v)))"

lemma preferred_blockers_none:
  assumes ok: "candidates_ok (pc_candidates r)"
  shows "preferred_blockers r = [] \<longleftrightarrow> (rp_established (pc_preference r) \<longrightarrow> preference_sound r)"
proof (cases "find_candidate (pc_candidates r) (rp_preferred_path (pc_preference r))")
  case None
  then have "rp_preferred_path (pc_preference r) \<notin> (cd_path \<circ> ca_binding) ` set (pc_candidates r)"
    using find_candidate_cases[OF ok, of "rp_preferred_path (pc_preference r)"] by simp
  then have "\<not> preference_sound r" by (force simp: preference_sound_def Let_def in_set_conv_nth)
  with None show ?thesis by (simp add: preferred_blockers_def Let_def)
next
  case (Some i)
  have i: "i < length (pc_candidates r)" "cd_path (ca_binding (pc_candidates r ! i)) = rp_preferred_path (pc_preference r)"
    using find_candidate_cases[OF ok, of "rp_preferred_path (pc_preference r)"] Some by simp_all
  have "distinct (map (cd_path \<circ> ca_binding) (pc_candidates r))" using ok by (simp add: candidates_ok_def)
  then have only: "j = i" if "j < length (pc_candidates r)" "cd_path (ca_binding (pc_candidates r ! j)) = rp_preferred_path (pc_preference r)" for j
    using that i nth_eq_iff_index_eq[of "map (cd_path \<circ> ca_binding) (pc_candidates r)" j i] by simp
  have "preference_sound r \<longleftrightarrow> (let b = ca_binding (pc_candidates r ! i); p = pc_preference r in
     cd_path b = rp_preferred_path p \<and> pa_legal (cd_path_authority b)
     \<and> pa_generation (cd_path_authority b) = rp_path_authority_generation p \<and> rb_current (cd_route b) \<and> cd_available b
     \<and> (pt_multipath_set (ps_target (ap_semantics (pc_policy r))) \<noteq> None \<longrightarrow>
          (\<exists>m. cd_multipath b = Some m \<and> mb_current m \<and> mb_generation m = rp_multipath_generation p)))"
    unfolding preference_sound_def Let_def using i only by blast
  with Some i(2) show ?thesis by (auto simp: preferred_blockers_def Let_def split: option.splits)
qed

lemma evidence_blocker_none:
  assumes "vi_evidence inputs = Some ev"
  shows "evidence_blocker inputs path rq = [] \<longleftrightarrow>
     (er_required rq \<longrightarrow> (\<exists>v. snapshot_find ev path (er_kind rq) = Some v \<and> ea_valid (re_aggregate v)
        \<and> er_min_samples rq \<le> ea_sample_count (re_aggregate v) \<and> ea_age (re_aggregate v) (vi_now inputs) \<le> er_max_age rq
        \<and> er_min_window rq \<le> ea_window (re_aggregate v)))"
  using assms by (auto simp: evidence_blocker_def resolved_in_def insufficient_def not_less split: option.splits)

lemma evidence_blockers_none:
  assumes "vi_evidence inputs = Some ev"
  shows "evidence_blockers r inputs = [] \<longleftrightarrow> (rp_established (pc_preference r) \<longrightarrow> evidence_fresh r ev (vi_now inputs))"
  by (simp add: evidence_blockers_def evidence_fresh_def evidence_blocker_none[OF assms])

lemma timing_blockers_none: "timing_blockers t now = [] \<longleftrightarrow>
   \<not> (ti_hold_down_active t \<and> now < ti_hold_down_deadline t) \<and> \<not> (ti_cooldown_active t \<and> now < ti_cooldown_deadline t)"
  by (auto simp: timing_blockers_def hold_down_left_def cooldown_left_def)

lemma policy_blockers_none: "policy_blockers s r = [] \<longleftrightarrow>
   ap_lifecycle (pc_policy r) = PL_ACTIVE \<and> pc_revocation r = None
   \<and> (gen_valid (ap_epoch (pc_policy r)) \<longrightarrow> ap_epoch (pc_policy r) = g_epoch s)"
  by (auto simp: policy_blockers_def)

lemma blockers_not_current: "b \<in> set (snapshot_blockers s r inputs now) \<Longrightarrow> b \<noteq> Cur_CURRENT"
  by (auto simp: snapshot_blockers_def policy_blockers_def preferred_blockers_def evidence_blockers_def evidence_blocker_def timing_blockers_def Let_def
        split: if_splits option.splits)


text \<open>
  C34: a snapshot is honest.  In a well-formed engine a snapshot of a policy reads current exactly when
  the policy is active, unrevoked and of this epoch, neither hold-down nor cooldown is running, and, if a
  preference is established, its preferred path is a legal, available, current candidate at the authority
  generation the preference was committed under and every piece of required evidence of that path is
  present and fresh in the evidence the snapshot carries.  Without an established preference nothing is
  asked of candidates and evidence: an active policy that has neither reads current.  Taking a snapshot
  changes nothing of the engine but the identifiers and the retained snapshots, which stay within their
  limit.
\<close>

theorem snapshot_is_honest:
  assumes "engine_ok e" and "snapshot clock p e = Some (e', v)" and "om_find (g_policies (en_state e)) p = Some r"
  shows "(sn_currentness v = Cur_CURRENT \<longleftrightarrow>
      ap_lifecycle (pc_policy r) = PL_ACTIVE \<and> pc_revocation r = None
      \<and> (gen_valid (ap_epoch (pc_policy r)) \<longrightarrow> ap_epoch (pc_policy r) = g_epoch (en_state e))
      \<and> (rp_established (pc_preference r) \<longrightarrow> preference_sound r \<and> evidence_fresh r (the (sn_evidence v)) (clock 2))
      \<and> \<not> (ti_hold_down_active (pc_timing r) \<and> clock 0 < ti_hold_down_deadline (pc_timing r))
      \<and> \<not> (ti_cooldown_active (pc_timing r) \<and> clock 0 < ti_cooldown_deadline (pc_timing r)))
    \<and> (\<exists>ids kept order. e' = e\<lparr>en_ids := ids, en_state := (en_state e)\<lparr>g_snapshots := kept, g_snapshot_order := order\<rparr>\<rparr>
      \<and> length order \<le> unat (lim_max_snapshot_history (en_limits e)))"
  using assms(2)
proof (cases rule: snapshot_ends)
  case absent
  then show ?thesis using assms(3) by simp
next
  case (taken r1 ids1 i ids2 inputs)
  have r1: "r1 = r" using taken(1) assms(3) by simp
  obtain ev where ev: "vi_evidence inputs = Some ev" "vi_now inputs = clock 2"
    using taken(3) by (auto simp: copy_inputs_def numeral_2_eq_2 split: option.splits)
  have "candidates_ok (pc_candidates r)"
    using assms(1,3) by (auto simp: engine_ok_def state_ok_def policies_ok_def policy_record_ok_def)
  then have none: "snapshot_blockers (en_state e) r inputs (clock 0) = [] \<longleftrightarrow>
      ap_lifecycle (pc_policy r) = PL_ACTIVE \<and> pc_revocation r = None
      \<and> (gen_valid (ap_epoch (pc_policy r)) \<longrightarrow> ap_epoch (pc_policy r) = g_epoch (en_state e))
      \<and> (rp_established (pc_preference r) \<longrightarrow> preference_sound r \<and> evidence_fresh r ev (clock 2))
      \<and> \<not> (ti_hold_down_active (pc_timing r) \<and> clock 0 < ti_hold_down_deadline (pc_timing r))
      \<and> \<not> (ti_cooldown_active (pc_timing r) \<and> clock 0 < ti_cooldown_deadline (pc_timing r))"
    using ev evidence_blockers_none[OF ev(1), of r]
    by (auto simp: snapshot_blockers_def policy_blockers_none preferred_blockers_none timing_blockers_none)
  obtain ticket d where v: "v = (snapshot_view i (en_state e) r inputs ticket (clock 0))\<lparr>sn_digest := d\<rparr>" using taken(5) r1 by blast
  have seen: "sn_evidence v = Some ev" unfolding v snapshot_view_def Let_def by (simp add: ev(1))
  have cur: "sn_currentness v = (case snapshot_blockers (en_state e) r inputs (clock 0) of [] \<Rightarrow> Cur_CURRENT | b # _ \<Rightarrow> b)"
    unfolding v snapshot_view_def Let_def by simp
  have honest: "sn_currentness v = Cur_CURRENT \<longleftrightarrow> snapshot_blockers (en_state e) r inputs (clock 0) = []"
    using cur blockers_not_current[of _ "en_state e" r inputs "clock 0"] by (auto split: list.splits)
  obtain kept order where kept: "retain_snapshot (en_limits e) v (en_state e) = (en_state e)\<lparr>g_snapshots := kept, g_snapshot_order := order\<rparr>"
      "length order \<le> unat (lim_max_snapshot_history (en_limits e))" using retain_snapshot_frame by blast
  show ?thesis unfolding honest none seen option.sel taken(4) kept(1) using kept(2) by blast
qed


lemma snapshot_exists:
  assumes "om_find (g_policies (en_state e)) p = Some r" and "next_snapshot_id (en_ids e) = Some (ids1, i)"
    and "copy_inputs (\<lambda>n. clock (n + 1)) (en_limits e) (en_state e) r ids1 \<noteq> None"
  obtains e' v where "snapshot clock p e = Some (e', v)"
proof -
  obtain ids2 inputs where "copy_inputs (\<lambda>n. clock (n + 1)) (en_limits e) (en_state e) r ids1 = Some (ids2, inputs)"
    using assms(3) by auto
  then have "snapshot clock p e \<noteq> None"
    unfolding snapshot_def Let_def by (simp only: assms(1,2) option.case prod.case option.distinct not_False_eq_True)
  then show ?thesis using that by auto
qed

lemma sample_snapshot_runs: "case next_snapshot_id (en_ids (measured held_record 100 50)) of None \<Rightarrow> False | Some (ids1, i) \<Rightarrow>
    copy_inputs (\<lambda>_. 20) (en_limits (measured held_record 100 50)) (en_state (measured held_record 100 50)) held_record ids1 \<noteq> None"
  by code_simp

theorem snapshot_is_honest_witness:
  "\<exists>e v. snapshot (\<lambda>_. 20) (StrongId ''pol'') (measured held_record 100 50) = Some (e, v) \<and> preference_sound held_record
     \<and> (sn_currentness v = Cur_CURRENT \<longleftrightarrow> evidence_fresh held_record (the (sn_evidence v)) 20)"
proof -
  let ?e = "measured held_record 100 50"
  have found: "om_find (g_policies (en_state ?e)) (StrongId ''pol'') = Some held_record" by simp
  obtain ids1 i where n: "next_snapshot_id (en_ids ?e) = Some (ids1, i)" using sample_snapshot_runs by (auto split: option.splits)
  then have "copy_inputs (\<lambda>_. 20) (en_limits ?e) (en_state ?e) held_record ids1 \<noteq> None" using sample_snapshot_runs by simp
  then obtain e v where s: "snapshot (\<lambda>_. 20) (StrongId ''pol'') ?e = Some (e, v)"
    by (rule snapshot_exists[OF found n, where clock = "\<lambda>_. 20"])
  have ok: "engine_ok ?e" by (rule held_measured_ok) simp_all
  have "let b = ca_binding (pc_candidates held_record ! 0); p = pc_preference held_record in
     cd_path b = rp_preferred_path p \<and> pa_legal (cd_path_authority b)
     \<and> pa_generation (cd_path_authority b) = rp_path_authority_generation p \<and> rb_current (cd_route b) \<and> cd_available b
     \<and> 0 < length (pc_candidates held_record) \<and> pt_multipath_set (ps_target (ap_semantics (pc_policy held_record))) = None" by code_simp
  then have sound: "preference_sound held_record" unfolding preference_sound_def Let_def by (intro exI[of _ 0]) simp
  have facts: "ap_lifecycle (pc_policy held_record) = PL_ACTIVE" "pc_revocation held_record = None" "rp_established (pc_preference held_record)"
    "ap_epoch (pc_policy held_record) = g_epoch (en_state ?e)" "\<not> ti_hold_down_active (pc_timing held_record)" "\<not> ti_cooldown_active (pc_timing held_record)"
    by code_simp+
  from snapshot_is_honest[OF ok s found] s sound facts show ?thesis by blast
qed

section \<open>Explanations\<close>

lemma add_entries_take:
  "length (ex_entries x) \<le> unat m \<Longrightarrow>
     ex_entries (add_entries m es x) = take (unat m) (ex_entries x @ map (\<lambda>(k, v). \<lparr>ee_key = k, ee_value = v\<rparr>) es)"
proof (induction es arbitrary: x)
  case Nil
  then show ?case by (simp add: add_entries_def)
next
  case (Cons e es)
  obtain k v where e: "e = (k, v)" by (cases e)
  have step: "add_entries m (e # es) x = add_entries m es (add_entry m k v x)" by (simp add: add_entries_def e)
  show ?case
  proof (cases "length (ex_entries x) < unat m")
    case True
    then have "ex_entries (add_entry m k v x) = ex_entries x @ [\<lparr>ee_key = k, ee_value = v\<rparr>]" by (simp add: add_entry_def)
    with True Cons.IH[of "add_entry m k v x"] show ?thesis by (simp add: step[unfolded e] e)
  next
    case False
    then have "add_entry m k v x = x" by (simp add: add_entry_def)
    with False Cons show ?thesis by (simp add: step[unfolded e] e)
  qed
qed


lemma add_entry_fields: "ex_topic (add_entry m k v x) = ex_topic x" "ex_policy (add_entry m k v x) = ex_policy x"
  by (simp_all add: add_entry_def)

lemma add_entries_fields: "ex_topic (add_entries m es x) = ex_topic x \<and> ex_policy (add_entries m es x) = ex_policy x"
  by (induction es arbitrary: x) (auto simp: add_entries_def add_entry_fields)

lemma mark_truncated_fields: "ex_topic (mark_truncated m x) = ex_topic x" "ex_policy (mark_truncated m x) = ex_policy x"
  by (simp_all add: mark_truncated_def)

lemma topic_header_fields: "ex_topic (topic_header now s r inputs topic x) = ex_topic x \<and> ex_policy (topic_header now s r inputs topic x) = ex_policy x"
  by (simp add: topic_header_def adapted_header_def not_adapted_header_def ranking_header_def Let_def split: explanation_topic.split option.split)

lemma topic_header_entries: "ex_entries (topic_header now s r inputs topic x) = ex_entries x"
  by (simp add: topic_header_def adapted_header_def not_adapted_header_def ranking_header_def Let_def split: explanation_topic.split option.split)

lemma explain_ends:
  assumes "explain clock topic p e = Some (e', x)"
  obtains (absent) "om_find (g_policies (en_state e)) p = None" "e' = e"
  | (built) r ids inputs where "om_find (g_policies (en_state e)) p = Some r"
      "copy_inputs clock (en_limits e) (en_state e) r (en_ids e) = Some (ids, inputs)" "e' = e\<lparr>en_ids := ids\<rparr>"
      "x = build_explanation (en_limits e) (clock 2) (en_state e) r inputs topic"
  using assms by (auto simp: explain_def Let_def split: option.splits)

lemma explain_contract: "engine_ok e \<Longrightarrow> explain clock topic p e = Some (e', x) \<Longrightarrow> engine_ok e' \<and> engine_extends e e'"
  by (erule explain_ends) (simp_all add: engine_ok_def engine_extends_def state_extends_refl)

interpretation explain_op: engine_operation "explain clock topic p" for clock topic p
  by unfold_locales (rule explain_contract)

text \<open>
  C40: an explanation is its full answer, cut at the bound.  Whatever the topic, the entries of an
  explanation are all the entries the topic offers, in order, when there are fewer than the limit; when
  there are as many or more they are the first ones up to one below the limit and then a marker; with a
  limit of zero there are none.  The engine keeps its state.
\<close>

theorem explanation_is_cut_at_the_bound:
  assumes "explain clock topic p e = Some (e', x)" and "om_find (g_policies (en_state e)) p = Some r"
  shows "en_state e' = en_state e \<and> ex_topic x = topic \<and> ex_policy x = ap_id (pc_policy r)
    \<and> (\<exists>ids inputs. copy_inputs clock (en_limits e) (en_state e) r (en_ids e) = Some (ids, inputs) \<and>
       (let full = map (\<lambda>(k, v). \<lparr>ee_key = k, ee_value = v\<rparr>) (topic_entries (clock 2) (en_state e) r inputs topic);
            m = unat (lim_max_explanation_entries (en_limits e)) in
        ex_entries x = (if length full < m then full else if m = 0 then []
          else take (m - 1) full @ [\<lparr>ee_key = ''truncated'', ee_value = ''explanation entry limit reached''\<rparr>])))"
  using assms(1)
proof (cases rule: explain_ends)
  case absent
  then show ?thesis using assms(2) by simp
next
  case (built r1 ids inputs)
  let ?full = "map (\<lambda>(k, v). \<lparr>ee_key = k, ee_value = v\<rparr>) (topic_entries (clock 2) (en_state e) r inputs topic)"
  let ?m = "lim_max_explanation_entries (en_limits e)"
  have r: "r1 = r" using built(1) assms(2) by simp
  let ?h = "topic_header (clock 2) (en_state e) r inputs topic ((no_explanation topic)\<lparr>ex_policy := ap_id (pc_policy r)\<rparr>)"
  let ?y = "add_entries ?m (topic_entries (clock 2) (en_state e) r inputs topic) ?h"
  have x: "x = mark_truncated ?m ?y" using built(4) r by (simp add: build_explanation_def explain_topic_def Let_def)
  have y: "ex_entries ?y = take (unat ?m) ?full" by (subst add_entries_take) (simp_all add: topic_header_entries no_explanation_def)
  have "ex_entries x = (if length ?full < unat ?m then ?full else if unat ?m = 0 then []
          else take (unat ?m - 1) ?full @ [\<lparr>ee_key = ''truncated'', ee_value = ''explanation entry limit reached''\<rparr>])"
    using y by (auto simp: x mark_truncated_def butlast_take unat_eq_0)
  moreover have "ex_topic x = topic \<and> ex_policy x = ap_id (pc_policy r)"
    by (simp add: x mark_truncated_fields add_entries_fields topic_header_fields no_explanation_def)
  ultimately show ?thesis using built(2,3) r by (auto simp: Let_def)
qed


lemma sample_explain_runs: "copy_inputs (\<lambda>_. 20) (en_limits (measured held_record 100 50)) (en_state (measured held_record 100 50))
    held_record (en_ids (measured held_record 100 50)) \<noteq> None"
  by code_simp

theorem explanation_is_cut_at_the_bound_witness:
  "\<exists>e x. explain (\<lambda>_. 20) ET_GOVERNING_EPOCH (StrongId ''pol'') (measured held_record 100 50) = Some (e, x)
     \<and> ex_entries x = map (\<lambda>(k, v). \<lparr>ee_key = k, ee_value = v\<rparr>) (epoch_entries (en_state (measured held_record 100 50)) held_record)"
proof -
  let ?e = "measured held_record 100 50"
  have found: "om_find (g_policies (en_state ?e)) (StrongId ''pol'') = Some held_record" by simp
  obtain ids inputs where "copy_inputs (\<lambda>_. 20) (en_limits ?e) (en_state ?e) held_record (en_ids ?e) = Some (ids, inputs)"
    using sample_explain_runs by auto
  then obtain e x where x: "explain (\<lambda>_. 20) ET_GOVERNING_EPOCH (StrongId ''pol'') ?e = Some (e, x)"
    unfolding explain_def Let_def by (simp only: found option.case prod.case)
  have "4 < unat (lim_max_explanation_entries default_limits)" by code_simp
  moreover have "length (epoch_entries (en_state ?e) held_record) = 4" by (simp add: epoch_entries_def)
  ultimately show ?thesis using explanation_is_cut_at_the_bound[OF x found] x by (auto simp: topic_entries_def Let_def)
qed

end
