(* ===== verification/System.thy ===== *)
theory System
  imports Commit_Guarantees Query_Guarantees
begin

text \<open>
  The whole engine as a transition system: every entry point of the public surface that changes the engine, if only its
  identifiers or retained snapshots,
  (\<^verbatim>\<open>src/fabric_api.cpp\<close>) is a step, in any order, by any caller, at any clock reading.  What holds
  in every reachable engine, and what can never be taken back.
\<close>

section \<open>Steps and runs\<close>

inductive engine_step :: "engine \<Rightarrow> engine \<Rightarrow> bool" where
  register: "register_publisher p b sc se e = (e', res) \<Longrightarrow> engine_step e e'"
| fence: "fence_publisher p b cause e = (e', res) \<Longrightarrow> engine_step e e'"
| advance: "advance_epoch reason e = (e', res) \<Longrightarrow> engine_step e e'"
| create: "create_policy now crq e = Some (e', res) \<Longrightarrow> engine_step e e'"
| update: "update_policy now urq e = (e', res) \<Longrightarrow> engine_step e e'"
| transition: "transition_policy lrq e = (e', res) \<Longrightarrow> engine_step e e'"
| revoke: "revoke_policy p reason detail ctx e = (e', res) \<Longrightarrow> engine_step e e'"
| notify: "apply_upstream nrq e = (e', res) \<Longrightarrow> engine_step e e'"
| publish: "publication_typed prq \<Longrightarrow> publish_evidence clock prq e = (e', res) \<Longrightarrow> engine_step e e'"
| capture: "capture_evidence now p e = Some (e', sn) \<Longrightarrow> engine_step e e'"
| begin_evaluation: "begin_evaluation clock vrq e = Some (e', t) \<Longrightarrow> engine_step e e'"
| commit: "commit_evaluation now krq e = Some (e', res) \<Longrightarrow> engine_step e e'"
| rollback: "rollback now brq e = Some (e', res) \<Longrightarrow> engine_step e e'"
| revalidate: "revalidate p a ctx e = (e', res) \<Longrightarrow> engine_step e e'"
| snapshot: "snapshot clock p e = Some (e', v) \<Longrightarrow> engine_step e e'"
| explain: "explain clock topic p e = Some (e', x) \<Longrightarrow> engine_step e e'"

inductive reachable :: "limits \<Rightarrow> engine \<Rightarrow> bool" for l where
  start: "reachable l (new_engine l ids)"
| step: "reachable l e \<Longrightarrow> engine_step e e' \<Longrightarrow> reachable l e'"

lemma capture_contract:
  assumes "engine_ok e" and "capture_evidence now p e = Some (e', sn)"
  shows "engine_ok e' \<and> engine_extends e e'"
  using assms by (auto simp: capture_evidence_def engine_ok_def engine_extends_def split: option.splits)

interpretation capture_op: engine_operation "capture_evidence now p" for now p
  by unfold_locales (rule capture_contract)

lemma step_contract: "engine_step e e' \<Longrightarrow> engine_ok e \<Longrightarrow> engine_ok e' \<and> engine_extends e e'"
proof (induction rule: engine_step.induct)
  case (register p b sc se e e' res)
  then show ?case using register_publisher_contract by (metis fst_conv)
next
  case (fence p b cause e e' res)
  then show ?case using fence_publisher_contract by (metis fst_conv)
next
  case (advance reason e e' res)
  then show ?case using advance_epoch_contract by (metis fst_conv)
next
  case (create now crq e e' res)
  then show ?case using create_policy_contract by blast
next
  case (update now urq e e' res)
  then show ?case using update_policy_contract by (metis fst_conv)
next
  case (transition lrq e e' res)
  then show ?case using transition_policy_contract by (metis fst_conv)
next
  case (revoke p reason detail ctx e e' res)
  then show ?case using revoke_policy_contract by (metis fst_conv)
next
  case (notify nrq e e' res)
  then show ?case using apply_upstream_contract by (metis fst_conv)
next
  case (publish prq clock e e' res)
  then show ?case using publish_evidence_contract unfolding publication_typed_def by (metis fst_conv)
next
  case (capture now p e e' sn)
  then show ?case using capture_contract by blast
next
  case (begin_evaluation clock vrq e e' t)
  then show ?case using begin_evaluation_contract by blast
next
  case (commit now krq e e' res)
  then show ?case using commit_evaluation_contract by blast
next
  case (rollback now brq e e' res)
  then show ?case using rollback_contract by blast
next
  case (revalidate p a ctx e e' res)
  then show ?case using transition_policy_contract unfolding revalidate_def by (metis fst_conv)
next
  case (snapshot clock p e e' v)
  then show ?case using snapshot_contract by blast
next
  case (explain clock topic p e e' x)
  then show ?case using explain_contract by blast
qed

lemma run_contract: "engine_step\<^sup>*\<^sup>* e e' \<Longrightarrow> engine_ok e \<Longrightarrow> engine_ok e' \<and> engine_extends e e'"
proof (induction rule: rtranclp_induct)
  case base
  then show ?case by (simp add: engine_extends_refl)
next
  case (step y z)
  then show ?case using step_contract engine_extends_trans by blast
qed

lemma reachable_ok: "reachable l e \<Longrightarrow> engine_ok e \<and> en_limits e = l"
proof (induction rule: reachable.induct)
  case (start ids)
  then show ?case using new_engine_ok by (simp add: new_engine_def)
next
  case (step e e')
  then show ?case using step_contract by (auto simp: engine_extends_def)
qed

lemma reachable_run: "engine_step\<^sup>*\<^sup>* e e' \<Longrightarrow> reachable l e \<Longrightarrow> reachable l e'"
  by (induction rule: rtranclp_induct) (auto intro: reachable.step)

section \<open>What holds everywhere\<close>

text \<open>
  C2: every reachable engine is well formed.  Whatever the callers do, each policy is stored under
  its own identity with valid terms, its candidates sorted and distinct by path and within their
  limit, its history within its limit; the table of attempts is within its limit; every evidence
  series is stored under its own key, within its retention and in observation order; the path index
  names only policies that bind the path; and a recorded revocation is that of a revoked policy.
\<close>

theorem reachable_engine_is_well_formed:
  assumes "reachable l e"
  shows "(\<forall>p r. om_find (g_policies (en_state e)) p = Some r \<longrightarrow> ap_id (pc_policy r) = p \<and> ps_valid (ap_semantics (pc_policy r)) = None
       \<and> sorted (map (cd_path \<circ> ca_binding) (pc_candidates r)) \<and> distinct (map (cd_path \<circ> ca_binding) (pc_candidates r))
       \<and> length (pc_candidates r) \<le> unat (lim_max_candidates_per_policy l) \<and> length (pc_history r) \<le> unat (lim_max_history_per_policy l))
    \<and> length (g_attempt_order (en_state e)) \<le> unat (lim_max_attempts l)
    \<and> (\<forall>k x. om_find (g_evidence (en_state e)) k = Some x \<longrightarrow> k = (se_source x, se_path x, se_kind x)
       \<and> length (se_samples x) \<le> unat (lim_max_evidence_samples_per_series l) \<and> sorted (map es_sequence (se_samples x)))
    \<and> (\<forall>path p. index_has (g_by_path (en_state e)) path p \<longrightarrow> binds_path (g_policies (en_state e)) path p)
    \<and> (\<forall>p v. om_find (g_revocations (en_state e)) p = Some v \<longrightarrow>
       (\<exists>r. om_find (g_policies (en_state e)) p = Some r \<and> ap_lifecycle (pc_policy r) = PL_REVOKED))"
proof -
  have ok: "state_ok l (en_state e)" using reachable_ok[OF assms] by (auto simp: engine_ok_def)
  then have p: "policies_ok l (g_policies (en_state e))" and t: "table_ok (unat (lim_max_attempts l)) (g_attempt_order (en_state e)) (g_attempts (en_state e))"
    and ev: "evidence_ok l (g_evidence (en_state e))" and ix: "index_ok (binds_path (g_policies (en_state e))) (g_by_path (en_state e))"
    and rv: "revocations_ok (en_state e)" by (simp_all add: state_ok_def)
  show ?thesis
    using p t ev ix rv
    by (intro conjI allI impI)
      (auto simp: policies_ok_def policy_record_ok_def candidates_ok_def table_ok_def evidence_ok_def series_ok_def index_ok_def revocations_ok_def)
qed

lemma sample_engine_reachable: "reachable default_limits sample_engine"
  unfolding sample_engine_def by (rule reachable.step[OF reachable.start engine_step.register]) (rule prod.collapse[symmetric])

theorem reachable_engine_is_well_formed_witness:
  "\<exists>e res. create_policy 7 sample_create sample_engine = Some (e, res) \<and> or_mutated res
     \<and> length (g_attempt_order (en_state e)) \<le> unat (lim_max_attempts default_limits)"
proof -
  obtain e res where c: "create_policy 7 sample_create sample_engine = Some (e, res)" "or_mutated res" using sample_create_mutates by blast
  have "reachable default_limits e" by (rule reachable.step[OF sample_engine_reachable engine_step.create[OF c(1)]])
  from reachable_engine_is_well_formed[OF this] c show ?thesis by blast
qed

text \<open>
  C23: a terminal policy is frozen.  From a well-formed engine, whatever operations run, a policy
  that is revoked or retired keeps its lifecycle, generation, terms and identity, and no evaluation
  of it is ever admitted again.
\<close>

theorem terminal_policy_is_frozen:
  assumes "engine_ok e" and "om_find (g_policies (en_state e)) p = Some r" and "policy_lifecycle_terminal (ap_lifecycle (pc_policy r))"
    and "engine_step\<^sup>*\<^sup>* e e'"
  shows "\<exists>r'. om_find (g_policies (en_state e')) p = Some r' \<and> ap_lifecycle (pc_policy r') = ap_lifecycle (pc_policy r)
    \<and> ap_generation (pc_policy r') = ap_generation (pc_policy r) \<and> ap_semantics (pc_policy r') = ap_semantics (pc_policy r)
    \<and> ap_name (pc_policy r') = ap_name (pc_policy r)
    \<and> (\<forall>clock ctx deferred e2 t. begin_evaluation clock \<lparr>vr_policy = p, vr_context = ctx, vr_defer_commit = deferred\<rparr> e' = Some (e2, t)
         \<longrightarrow> e2 = e' \<and> et_lifecycle t = DL_REJECTED)"
proof -
  have "engine_extends e e'" using run_contract[OF assms(4,1)] by blast
  then obtain r' where r': "om_find (g_policies (en_state e')) p = Some r'" "policy_extends r r'"
    using engine_extends_policy assms(2) by blast
  have same: "ap_lifecycle (pc_policy r') = ap_lifecycle (pc_policy r)" using r'(2) assms(3) by (auto simp: policy_extends_def)
  have "e2 = e' \<and> et_lifecycle t = DL_REJECTED"
    if "begin_evaluation clock \<lparr>vr_policy = p, vr_context = ctx, vr_defer_commit = deferred\<rparr> e' = Some (e2, t)" for clock ctx deferred e2 t
    using that
  proof (cases rule: begin_evaluation_ends)
    case (refused outcome detail)
    then show ?thesis by (simp add: refused_ticket_def)
  next
    case (issued q)
    then show ?thesis using r'(1) same assms(3) by (simp add: policy_lifecycle_terminal_def)
  qed
  with r' same assms(3) show ?thesis by (auto simp: policy_extends_def)
qed

definition retired_record :: policy_record where
  "retired_record = sample_record\<lparr>pc_policy := (pc_policy sample_record)\<lparr>ap_lifecycle := PL_RETIRED\<rparr>\<rparr>"

theorem terminal_policy_is_frozen_witness:
  "\<exists>r'. om_find (g_policies (en_state (fst (publish_evidence (\<lambda>_. 30) sample_publish (measured retired_record 100 50))))) (StrongId ''pol'') = Some r'
     \<and> ap_lifecycle (pc_policy r') = PL_RETIRED"
proof -
  have ok: "engine_ok (measured retired_record 100 50)"
    by (rule measured_ok)
      (use sample_record_ok in \<open>simp_all add: policy_extends_def retired_record_def candidate_paths_def policy_record_ok_def sample_record_def
         fresh_record_def web_policy_def policy_lifecycle_terminal_def\<close>)
  have typed: "publication_typed sample_publish"
    using sample_value_ok[of 70] by (simp add: publication_typed_def sample_publish_def sample_publication_def)
  have "engine_step\<^sup>*\<^sup>* (measured retired_record 100 50) (fst (publish_evidence (\<lambda>_. 30) sample_publish (measured retired_record 100 50)))"
    by (rule r_into_rtranclp, rule engine_step.publish[OF typed], rule prod.collapse[symmetric])
  from terminal_policy_is_frozen[OF ok _ _ this, of "StrongId ''pol''" retired_record] show ?thesis
    by (auto simp: retired_record_def policy_lifecycle_terminal_def)
qed

section \<open>The one-call evaluation\<close>

lemma evaluate_run:
  assumes "engine_step\<^sup>*\<^sup>* (fst (the (begin_evaluation clock rq e))) (meanwhile (fst (the (begin_evaluation clock rq e))))"
    and "evaluate clock rq meanwhile e = Some (e', res)"
  shows "engine_step\<^sup>*\<^sup>* e e'"
proof -
  obtain e1 t where b: "begin_evaluation clock rq e = Some (e1, t)" using assms(2) by (auto simp: evaluate_def split: option.splits)
  have "engine_step\<^sup>*\<^sup>* e (meanwhile e1)"
    using assms(1) b converse_rtranclp_into_rtranclp[of engine_step e e1 "meanwhile e1"] engine_step.begin_evaluation[OF b] by simp
  moreover have "e' = meanwhile e1 \<or> engine_step (meanwhile e1) e'"
    using assms(2) b by (auto simp: evaluate_def intro: engine_step.commit split: if_splits)
  ultimately show ?thesis by (auto intro: rtranclp.rtrancl_into_rtrancl)
qed

lemma succ_nonzero: "(a :: u64) < b \<Longrightarrow> a + 1 \<noteq> 0"
  by unat_arith

text \<open>
  C37: slots of outstanding evaluations.  Alone on the engine, a one-call evaluation that commits
  gives its slot back, whatever the outcome; one that defers the commit changes no guarded state and
  keeps at most one slot; and at the limit every evaluation is refused for that reason, on any policy.
\<close>

theorem evaluation_slots:
  assumes "evaluate clock rq (\<lambda>x. x) e = Some (e', res)"
  shows "(if vr_defer_commit rq
      then en_state e' = en_state e \<and> (en_outstanding e' = en_outstanding e \<or> en_outstanding e' = en_outstanding e + 1)
      else en_outstanding e' = en_outstanding e)
    \<and> (lim_max_simultaneous_evaluations (en_limits e) \<le> en_outstanding e \<longrightarrow> id_valid (vr_policy rq) \<longrightarrow>
         e' = e \<and> or_outcome res = Out_EVALUATION_LIMIT)"
proof -
  obtain e1 t where b: "begin_evaluation clock rq e = Some (e1, t)" using assms by (auto simp: evaluate_def split: option.splits)
  have full: "e' = e \<and> or_outcome res = Out_EVALUATION_LIMIT"
    if "lim_max_simultaneous_evaluations (en_limits e) \<le> en_outstanding e" "id_valid (vr_policy rq)"
    using assms that by (auto simp: evaluate_def begin_evaluation_def refused_ticket_def no_ticket_def no_dependencies_def or_make_def id_valid_def no_id_def)
  have settled: "en_outstanding e' = en_outstanding x - (if en_outstanding x = 0 then 0 else 1)"
    if "commit_evaluation now krq x = Some (e', r)" for now krq x r
    using that by (cases rule: commit_evaluation_ends) (simp_all add: settle_def)
  from b have "if vr_defer_commit rq
      then en_state e' = en_state e \<and> (en_outstanding e' = en_outstanding e \<or> en_outstanding e' = en_outstanding e + 1)
      else en_outstanding e' = en_outstanding e"
  proof (cases rule: begin_evaluation_ends)
    case (refused outcome detail)
    then show ?thesis
      using assms b by (auto simp: evaluate_def refused_ticket_def no_ticket_def no_dependencies_def id_valid_def no_id_def split: if_splits)
  next
    case (issued r reg ids1 ids2 ids3 ev inputs decision)
    have "en_outstanding e1 = en_outstanding e + 1" "en_state e1 = en_state e" "en_outstanding e1 \<noteq> 0"
      using issued(5,8) succ_nonzero by simp_all
    moreover have "et_lifecycle t \<noteq> DL_REJECTED"
      using issued(9) evaluation_proposes_or_refuses[of inputs "build_dependencies (clock 0) (en_state e) r ev"]
      by (auto simp: refused_with_reason_def)
    ultimately show ?thesis
      using assms b settled[of "clock 3" "\<lparr>kr_ticket = t, kr_context = vr_context rq\<rparr>" e1 res]
      by (auto simp: evaluate_def split: if_splits)
  qed
  with full show ?thesis by blast
qed

definition sample_deferred :: evaluate_request where
  "sample_deferred = sample_evaluate\<lparr>vr_defer_commit := True\<rparr>"

lemma sample_deferred_run:
  obtains e t res where "sample_begin = Some (e, t)" "evaluate (\<lambda>_. 20) sample_deferred (\<lambda>x. x) (measured held_record 100 50) = Some (e, res)"
proof (rule sample_begin_run)
  fix e t assume b: "sample_begin = Some (e, t)"
  have same: "vr_policy sample_deferred = vr_policy sample_evaluate" "vr_context sample_deferred = vr_context sample_evaluate"
    by (simp_all add: sample_deferred_def)
  have "begin_evaluation clock sample_deferred x = begin_evaluation clock sample_evaluate x" for clock x
    unfolding begin_evaluation_def same by (rule refl)
  with b have "\<exists>res. evaluate (\<lambda>_. 20) sample_deferred (\<lambda>x. x) (measured held_record 100 50) = Some (e, res)"
    by (auto simp: evaluate_def sample_begin_def sample_deferred_def)
  with b show ?thesis by (auto intro: that)
qed

theorem evaluation_slots_witness:
  "\<exists>e res. evaluate (\<lambda>_. 20) sample_deferred (\<lambda>x. x) (measured held_record 100 50) = Some (e, res)
     \<and> en_state e = en_state (measured held_record 100 50)"
proof (rule sample_deferred_run)
  fix e res assume r: "evaluate (\<lambda>_. 20) sample_deferred (\<lambda>x. x) (measured held_record 100 50) = Some (e, res)"
  have "vr_defer_commit sample_deferred" by (simp add: sample_deferred_def)
  with evaluation_slots[OF r] r show ?thesis by simp
qed

end
