(* ===== verification/Refusal.thy ===== *)
theory Refusal
  imports System
begin

text \<open>
  Callers without authority: under a context that the check of the caller refuses, no operation of the
  engine changes its guarded state; and what that makes of a fenced worker.
\<close>

section \<open>A refused caller changes nothing\<close>

text \<open>The operations a caller performs under a context: those of the engine that check their caller.\<close>

inductive acts :: "(engine \<Rightarrow> engine) \<Rightarrow> mutation_context \<Rightarrow> engine \<Rightarrow> engine \<Rightarrow> bool" for meanwhile ctx where
  create: "create_policy now crq e = Some done \<Longrightarrow> cr_context crq = ctx \<Longrightarrow> acts meanwhile ctx e (fst done)"
| update: "ur_context urq = ctx \<Longrightarrow> acts meanwhile ctx e (fst (update_policy now urq e))"
| transition: "lr_context lrq = ctx \<Longrightarrow> acts meanwhile ctx e (fst (transition_policy lrq e))"
| revoke: "acts meanwhile ctx e (fst (revoke_policy p reason detail ctx e))"
| notify: "nr_context nrq = ctx \<Longrightarrow> acts meanwhile ctx e (fst (apply_upstream nrq e))"
| publish: "publication_typed prq \<Longrightarrow> er_context prq = ctx \<Longrightarrow> acts meanwhile ctx e (fst (publish_evidence clock prq e))"
| begin_evaluation: "begin_evaluation clock vrq e = Some done_t \<Longrightarrow> vr_context vrq = ctx \<Longrightarrow> acts meanwhile ctx e (fst done_t)"
| evaluate: "evaluate clock vrq meanwhile e = Some done \<Longrightarrow> vr_context vrq = ctx \<Longrightarrow> acts meanwhile ctx e (fst done)"
| commit: "commit_evaluation now krq e = Some done \<Longrightarrow> kr_context krq = ctx \<Longrightarrow> acts meanwhile ctx e (fst done)"
| rollback: "rollback now brq e = Some done \<Longrightarrow> br_context brq = ctx \<Longrightarrow> acts meanwhile ctx e (fst done)"
| revalidate: "acts meanwhile ctx e (fst (revalidate p a ctx e))"

definition refused_everywhere :: "state \<Rightarrow> mutation_context \<Rightarrow> bool" where
  "refused_everywhere s ctx \<longleftrightarrow> (\<forall>route set_id reg. check_caller s ctx route set_id \<noteq> Inr reg)"

lemma fenced_refused: "oset_member (mc_worker_boot ctx) (g_fenced_boots s) \<Longrightarrow> refused_everywhere s ctx"
  by (auto simp: refused_everywhere_def check_caller_def)

lemma replay_check_state: "en_state (fst (replay_check a f e)) = en_state e"
  by (rule replay_check_ok)

lemma refused_transition: "refused_everywhere (en_state e) (lr_context rq) \<Longrightarrow> en_state (fst (transition_policy rq e)) = en_state e"
  by (auto simp: transition_policy_def refused_everywhere_def Let_def split: option.splits sum.splits)

lemma refused_notification: "refused_everywhere s ctx \<Longrightarrow> \<exists>r. apply_notification l ctx n s = Inl r"
  by (auto simp: apply_notification_def refused_everywhere_def Let_def split: option.splits sum.splits)

lemma refused_notifications:
  assumes "refused_everywhere s ctx" and "ns \<noteq> []"
  shows "\<exists>r. apply_notifications l ctx ns s = (s, Some r)"
proof (cases ns)
  case (Cons n rest)
  then show ?thesis using refused_notification[OF assms(1), of l n] by auto
qed (use assms in simp)

lemma refused_upstream:
  assumes "refused_everywhere (en_state e) (nr_context rq)"
  shows "en_state (fst (apply_upstream rq e)) = en_state e"
proof (cases "nr_notifications rq = []")
  case False
  obtain r where r: "apply_notifications (en_limits e) (nr_context rq) (nr_notifications rq) (en_state e) = (en_state e, Some r)"
    using refused_notifications[OF assms False] by blast
  obtain e1 q where q: "replay_check (mc_attempt (nr_context rq)) (upstream_fingerprint (nr_notifications rq)) e = (e1, q)" by fastforce
  then have "en_state e1 = en_state e" using replay_check_state[of "mc_attempt (nr_context rq)" "upstream_fingerprint (nr_notifications rq)" e] by simp
  then show ?thesis by (simp add: apply_upstream_def Let_def r q split: option.split)
qed (simp add: apply_upstream_def)

lemma refused_create: "refused_everywhere (en_state e) (cr_context rq) \<Longrightarrow> create_policy now rq e = Some d \<Longrightarrow> en_state (fst d) = en_state e"
  by (auto simp: create_policy_def refused_everywhere_def Let_def replay_check_state split: option.splits sum.splits prod.splits if_splits)

lemma refused_rollback: "refused_everywhere (en_state e) (br_context rq) \<Longrightarrow> rollback now rq e = Some d \<Longrightarrow> en_state (fst d) = en_state e"
  by (auto simp: rollback_def refused_everywhere_def Let_def replay_check_state split: option.splits sum.splits prod.splits if_splits)

lemma refused_update: "refused_everywhere (en_state e) (ur_context rq) \<Longrightarrow> en_state (fst (update_policy now rq e)) = en_state e"
  by (cases rule: update_policy_ends[of now rq e]) (auto simp: refused_everywhere_def)

lemma refused_revoke: "refused_everywhere (en_state e) ctx \<Longrightarrow> en_state (fst (revoke_policy p reason d ctx e)) = en_state e"
  by (cases rule: revoke_policy_ends[of p reason d ctx e]) (auto simp: refused_everywhere_def)

lemma refused_publish: "refused_everywhere (en_state e) (er_context rq) \<Longrightarrow> en_state (fst (publish_evidence clock rq e)) = en_state e"
  by (cases rule: publish_evidence_ends[of clock rq e]) (auto simp: refused_everywhere_def)

lemma refused_begin:
  assumes "refused_everywhere (en_state e) (vr_context rq)" and "begin_evaluation clock rq e = Some (e', t)"
  shows "e' = e \<and> et_lifecycle t = DL_REJECTED \<and> \<not> id_valid (ds_policy (et_dependencies t))"
  using assms(2)
proof (cases rule: begin_evaluation_ends)
  case (refused outcome detail)
  then show ?thesis by (simp add: refused_ticket_def no_ticket_def no_dependencies_def id_valid_def no_id_def)
qed (use assms(1) in \<open>auto simp: refused_everywhere_def\<close>)

lemma refused_commit: "refused_everywhere (en_state e) (kr_context rq) \<Longrightarrow> commit_evaluation now rq e = Some (e', r) \<Longrightarrow> en_state e' = en_state e"
  by (erule commit_evaluation_ends) (auto simp: refused_everywhere_def admitted_def settle_def)

lemma refused_evaluate:
  assumes "refused_everywhere (en_state e) (vr_context rq)" and "evaluate clock rq meanwhile e = Some d"
  shows "fst d = meanwhile e"
  using assms refused_begin[OF assms(1), of clock] by (auto simp: evaluate_def split: option.splits if_splits)

lemma refused_acts:
  assumes "acts meanwhile ctx e e'" and "refused_everywhere (en_state e) ctx"
  shows "en_state e' = en_state e \<or> e' = meanwhile e"
  using assms(1)
proof (cases rule: acts.cases)
  case (create now crq x)
  then show ?thesis using refused_create assms(2) by blast
next
  case (begin_evaluation clock vrq x)
  then show ?thesis using refused_begin[of e vrq clock "fst x" "snd x"] assms(2) by simp
next
  case (evaluate clock vrq x)
  then show ?thesis using refused_evaluate assms(2) by blast
next
  case (commit now krq x)
  then show ?thesis using refused_commit[of e krq now "fst x" "snd x"] assms(2) by simp
next
  case (rollback now brq x)
  then show ?thesis using refused_rollback assms(2) by blast
next
  case (revalidate p a)
  then show ?thesis using refused_transition assms(2) by (simp add: revalidate_def)
qed (use assms(2) refused_update refused_transition refused_revoke refused_upstream refused_publish in auto)

text \<open>
  C3: a fenced worker never acts again.  Once a worker boot is fenced, in every engine that any sequence
  of operations can reach from there, no context naming that boot is accepted for any route or set; every
  operation requested under such a context leaves the guarded state as it was (an evaluation leaves what
  others made of it meanwhile); and no publisher can register from that boot.  A repeated attempt may
  still be answered as one, without effect.  The two operations that no context is given to, advancing the
  epoch and fencing, are not the worker's.
\<close>

theorem fenced_worker_never_acts_again:
  assumes "reachable l e" and "oset_member (mc_worker_boot ctx) (g_fenced_boots (en_state e))" and "engine_step\<^sup>*\<^sup>* e e'"
  shows "(\<forall>route set_id. \<exists>outcome detail. check_caller (en_state e') ctx route set_id = Inl (outcome, detail))
    \<and> (\<forall>meanwhile e2. acts meanwhile ctx e' e2 \<longrightarrow> en_state e2 = en_state e' \<or> e2 = meanwhile e')
    \<and> (\<forall>p sc se. en_state (fst (register_publisher p (mc_worker_boot ctx) sc se e')) = en_state e'
         \<and> \<not> or_ok (snd (register_publisher p (mc_worker_boot ctx) sc se e')))"
proof -
  have "engine_extends e e'" using run_contract[OF assms(3)] reachable_ok[OF assms(1)] by blast
  then have f: "oset_member (mc_worker_boot ctx) (g_fenced_boots (en_state e'))"
    using assms(2) by (auto simp: engine_extends_def state_extends_def)
  have "\<exists>outcome detail. check_caller (en_state e') ctx route set_id = Inl (outcome, detail)" for route set_id
    using f by (auto simp: check_caller_def)
  moreover have "en_state e2 = en_state e' \<or> e2 = meanwhile e'" if "acts meanwhile ctx e' e2" for meanwhile e2
    using refused_acts[OF that fenced_refused[OF f]] .
  moreover have "en_state (fst (register_publisher p (mc_worker_boot ctx) sc se e')) = en_state e'
         \<and> \<not> or_ok (snd (register_publisher p (mc_worker_boot ctx) sc se e'))" for p sc se
    using f by (auto simp: register_publisher_def Let_def outcome_is_success_def)
  ultimately show ?thesis by blast
qed

theorem fenced_worker_never_acts_again_witness:
  "let e = fst (register_publisher (StrongId ''pub'') (StrongId ''boot2'') sample_scope (StrongId ''sess'')
       (fst (advance_epoch ''restart'' sample_engine)))
   in en_state (fst (revoke_policy (StrongId ''pol'') RR_SECURITY ''late'' sample_context e)) = en_state e
     \<and> \<not> or_ok (snd (register_publisher (StrongId ''pub'') (StrongId ''boot1'') sample_scope (StrongId ''sess'') e))"
proof -
  let ?e = "fst (advance_epoch ''restart'' sample_engine)"
  let ?e2 = "fst (register_publisher (StrongId ''pub'') (StrongId ''boot2'') sample_scope (StrongId ''sess'') ?e)"
  have "reachable default_limits ?e"
    by (rule reachable.step[OF sample_engine_reachable engine_step.advance]) (rule prod.collapse[symmetric])
  moreover have "oset_member (mc_worker_boot sample_context) (g_fenced_boots (en_state ?e))" by code_simp
  moreover have "engine_step\<^sup>*\<^sup>* ?e ?e2"
    by (rule r_into_rtranclp, rule engine_step.register, rule prod.collapse[symmetric])
  ultimately have never: "\<forall>meanwhile e2. acts meanwhile sample_context ?e2 e2 \<longrightarrow> en_state e2 = en_state ?e2 \<or> e2 = meanwhile ?e2"
      "\<forall>p sc se. \<not> or_ok (snd (register_publisher p (mc_worker_boot sample_context) sc se ?e2))"
    using fenced_worker_never_acts_again[of default_limits ?e sample_context ?e2] by blast+
  have "mc_worker_boot sample_context = StrongId ''boot1''" by (simp add: sample_context_def)
  moreover have "acts (\<lambda>_. ?e2) sample_context ?e2 (fst (revoke_policy (StrongId ''pol'') RR_SECURITY ''late'' sample_context ?e2))"
    by (rule acts.revoke)
  with never(1) have "en_state (fst (revoke_policy (StrongId ''pol'') RR_SECURITY ''late'' sample_context ?e2)) = en_state ?e2" by fastforce
  ultimately show ?thesis using never(2) by (simp add: Let_def)
qed

end
