(* ===== verification/Readers.thy ===== *)
theory Readers
  imports Codec "HOL-Library.Monad_Syntax"
begin

text \<open>
  What the wire and the store decoders share: the interface of a codec, and the vector, option and
  enumeration readers built from one.  A codec is \<^emph>\<open>exact\<close> when reading succeeds precisely on the bytes
  that writing an admissible value produces: reading back what was written always works, and a decoder
  accepts no second spelling of a value.  A decoder is written in the option monad and hands the
  remaining input on, as the code threads its \<^verbatim>\<open>ByteReader\<close>; every C++ decoder returns \<^verbatim>\<open>nullopt\<close> as soon as
  one of its reads failed, so where it checks several reads together the first failure decides here.
\<close>

section \<open>The primitives are exact\<close>

lemma char_bits: "bit (of_char c :: nat) k \<longleftrightarrow> k < 8 \<and> bit (of_char c :: nat) k"
proof -
  have "take_bit 8 (of_char c :: nat) = of_char c" by (simp add: take_bit_eq_mod)
  then show ?thesis using bit_take_bit_iff[of 8 "of_char c :: nat" k] by simp
qed

lemma char_word_bits: "bit (of_char c :: 'a::len word) k \<longleftrightarrow> k < LENGTH('a) \<and> bit (of_char c :: nat) k"
proof -
  have "(of_char c :: 'a word) = word_of_nat (of_char c)" by (simp add: of_nat_of_char)
  then show ?thesis by (simp only:) (simp add: bit_simps)
qed

lemma le_word_bit:
  "bit (le_word n bs :: 'a::len word) j
     \<longleftrightarrow> j < LENGTH('a) \<and> j < 8 * n \<and> bit (of_char (bs ! (j div 8)) :: nat) (j mod 8)"
  unfolding le_word_def
proof (induction n)
  case (Suc n)
  have "bit (push_bit (8 * n) (of_char (bs ! n)) :: 'a word) j
      \<longleftrightarrow> j < LENGTH('a) \<and> 8 * n \<le> j \<and> bit (of_char (bs ! n) :: nat) (j - 8 * n)"
    by (auto simp: bit_simps char_word_bits)
  moreover have "bit (of_char (bs ! n) :: nat) (j - 8 * n) \<longleftrightarrow> j < 8 * Suc n \<and> bit (of_char (bs ! n) :: nat) (j - 8 * n)"
    if "8 * n \<le> j" using char_bits[of "bs ! n" "j - 8 * n"] that by auto
  moreover have "j div 8 = n \<and> j mod 8 = j - 8 * n" if "8 * n \<le> j" "j < 8 * Suc n"
  proof -
    have "j div 8 = n" using that by (intro div_nat_eqI) auto
    then show ?thesis by (simp add: minus_mult_div_eq_mod[symmetric])
  qed
  ultimately show ?case using Suc by (cases "8 * n \<le> j") (auto simp: bit_simps)
qed simp

lemma le_bytes_word:
  assumes "length bs = n" and "8 * n \<le> LENGTH('a)"
  shows "le_bytes n (le_word n bs :: 'a::len word) = bs"
proof (rule nth_equalityI)
  fix i assume "i < length (le_bytes n (le_word n bs :: 'a word))"
  then have i: "i < n" by simp
  have "(of_char (byte_of (le_word n bs :: 'a word) i) :: 'a word) = of_char (bs ! i)"
  proof (rule bit_word_eqI)
    fix k assume "k < LENGTH('a)"
    have "k < 8 \<Longrightarrow> 8 * i + k < 8 * n \<and> (8 * i + k) div 8 = i \<and> (8 * i + k) mod 8 = k" using i by auto
    then show "bit (of_char (byte_of (le_word n bs :: 'a word) i) :: 'a word) k = bit (of_char (bs ! i) :: 'a word) k"
      using assms(2) \<open>k < LENGTH('a)\<close> char_bits[of "bs ! i" k]
      by (auto simp: of_byte_of bit_simps le_word_bit char_word_bits)
  qed
  then have "bit (of_char (byte_of (le_word n bs :: 'a word) i) :: nat) k = bit (of_char (bs ! i) :: nat) k" for k
    using assms(2) i char_bits[of "bs ! i" k] char_bits[of "byte_of (le_word n bs :: 'a word) i" k]
    by (cases "k < 8") (auto simp: bit_eq_iff char_word_bits)
  then have "(of_char (byte_of (le_word n bs :: 'a word) i) :: nat) = of_char (bs ! i)" by (simp add: bit_eq_iff)
  then show "le_bytes n (le_word n bs :: 'a word) ! i = bs ! i" using i by (simp add: le_bytes_def)
qed (use assms in simp)

named_theorems wire_exact \<open>a decoder succeeds exactly on what the encoder writes\<close>

lemma take_bytes_exact: "take_bytes n bs = Some (s, rest) \<longleftrightarrow> length s = n \<and> bs = s @ rest"
  by (auto simp: take_bytes_def)

lemma get_u8_exact [wire_exact]: "get_u8 bs = Some (w, rest) \<longleftrightarrow> bs = put_u8 w @ rest"
proof
  assume "get_u8 bs = Some (w, rest)"
  then obtain c where "bs = c # rest" "w = of_char c"
    by (auto simp: get_u8_def take_bytes_exact length_Suc_conv split: option.splits)
  moreover have "char_of (unat (of_char c :: u8)) = c"
  proof -
    have "unat (of_char c :: u8) = of_char c"
    proof -
      have "(of_char c :: u8) = word_of_nat (of_char c)" by (simp add: of_nat_of_char)
      then show ?thesis by (simp only: unsigned_of_nat) (simp add: take_bit_eq_mod)
    qed
    then show ?thesis by simp
  qed
  ultimately show "bs = put_u8 w @ rest" by (simp add: put_u8_def)
qed (simp add: get_put_u8)

lemma le_exact:
  assumes "8 * n = LENGTH('a)"
  shows "(case take_bytes n bs of None \<Rightarrow> None | Some (s, rest) \<Rightarrow> Some (le_word n s :: 'a::len word, rest)) = Some (w, rest)
         \<longleftrightarrow> bs = le_bytes n w @ rest" (is "?read = _ \<longleftrightarrow> _")
proof
  assume "?read = Some (w, rest)"
  then obtain s where "bs = s @ rest" "length s = n" "w = le_word n s"
    by (auto simp: take_bytes_exact split: option.splits)
  then show "bs = le_bytes n w @ rest" using le_bytes_word[of s n, where 'a = 'a] assms by simp
next
  assume "bs = le_bytes n w @ rest"
  then show "?read = Some (w, rest)" using assms by (simp add: take_bytes_append le_word_bytes)
qed

lemma get_u16_exact [wire_exact]: "get_u16 bs = Some (w, rest) \<longleftrightarrow> bs = put_u16 w @ rest"
  unfolding get_u16_def put_u16_def by (rule le_exact) simp

lemma get_u32_exact [wire_exact]: "get_u32 bs = Some (w, rest) \<longleftrightarrow> bs = put_u32 w @ rest"
  unfolding get_u32_def put_u32_def by (rule le_exact) simp

lemma get_u64_exact [wire_exact]: "get_u64 bs = Some (w, rest) \<longleftrightarrow> bs = put_u64 w @ rest"
  unfolding get_u64_def put_u64_def by (rule le_exact) simp

definition i64_range :: "int \<Rightarrow> bool" where
  "i64_range v \<longleftrightarrow> - (2 ^ 63) \<le> v \<and> v < 2 ^ 63"

lemma get_i64_exact [wire_exact]: "get_i64 bs = Some (v, rest) \<longleftrightarrow> i64_range v \<and> bs = put_i64 v @ rest"
proof
  assume "get_i64 bs = Some (v, rest)"
  then obtain w where "bs = put_u64 w @ rest" "v = sint w"
    by (auto simp: get_i64_def get_u64_exact split: option.splits)
  moreover have "i64_range (sint w)" using sint_range_size[of w] by (simp add: i64_range_def word_size)
  ultimately show "i64_range v \<and> bs = put_i64 v @ rest" by (simp add: put_i64_def)
qed (auto simp: i64_range_def get_put_i64)

lemma get_bool_exact [wire_exact]: "get_bool bs = Some (b, rest) \<longleftrightarrow> bs = put_bool b @ rest"
proof
  assume "get_bool bs = Some (b, rest)"
  then obtain raw where "bs = put_u8 raw @ rest" "raw \<le> 1" "b = (raw = 1)"
    by (auto simp: get_bool_def get_u8_exact not_less split: option.splits if_splits)
  moreover from this(2) have "raw = 0 \<or> raw = 1" by (auto simp: word_le_nat_alt word_unat_eq_iff)
  ultimately show "bs = put_bool b @ rest" by (auto simp: put_bool_def)
qed (simp add: get_put_bool)

definition text_fits :: "u64 \<Rightarrow> string \<Rightarrow> bool" where
  "text_fits limit s \<longleftrightarrow> length s \<le> unat limit"

lemma get_bytes_exact [wire_exact]:
  "get_bytes limit bs = Some (s, rest) \<longleftrightarrow> text_fits limit s \<and> bs = put_bytes s @ rest"
proof
  assume a: "get_bytes limit bs = Some (s, rest)"
  then obtain len where "bs = put_u64 len @ s @ rest" "len \<le> limit" "length s = unat len"
    by (auto simp: get_bytes_def get_u64_exact take_bytes_exact not_less split: option.splits if_splits)
  then show "text_fits limit s \<and> bs = put_bytes s @ rest"
    by (simp add: text_fits_def put_bytes_def word_le_nat_alt)
next
  assume a: "text_fits limit s \<and> bs = put_bytes s @ rest"
  then have "length s < 2 ^ 64" using unsigned_less[of limit, where 'a = nat] by (simp add: text_fits_def)
  with a show "get_bytes limit bs = Some (s, rest)" by (simp add: get_put_bytes text_fits_def)
qed

lemma get_string_exact [wire_exact]:
  "get_string limit bs = Some (s, rest) \<longleftrightarrow> text_fits limit s \<and> bs = put_string s @ rest"
  by (simp add: get_string_def put_string_def get_bytes_exact)

section \<open>Vectors, options, enumerations\<close>

definition put_vector :: "('a \<Rightarrow> string) \<Rightarrow> 'a list \<Rightarrow> string" where
  "put_vector put xs = put_u64 (word_of_nat (length xs)) @ concat (map put xs)"

fun get_many :: "'a reader \<Rightarrow> nat \<Rightarrow> 'a list reader" where
  "get_many get 0 bs = Some ([], bs)"
| "get_many get (Suc n) bs = do {
     (x, bs) \<leftarrow> get bs;
     (xs, bs) \<leftarrow> get_many get n bs;
     Some (x # xs, bs)
   }"

definition get_vector :: "u64 \<Rightarrow> 'a reader \<Rightarrow> 'a list reader" where
  "get_vector limit get bs = do {
     (count, bs) \<leftarrow> get_u64 bs;
     if count > limit then None else get_many get (unat count) bs
   }"

definition put_option :: "('a \<Rightarrow> string) \<Rightarrow> 'a option \<Rightarrow> string" where
  "put_option put v = (case v of None \<Rightarrow> put_bool False | Some x \<Rightarrow> put_bool True @ put x)"

definition get_option :: "'a reader \<Rightarrow> 'a option reader" where
  "get_option get bs = do {
     (present, bs) \<leftarrow> get_bool bs;
     if present then do { (x, bs) \<leftarrow> get bs; Some (Some x, bs) } else Some (None, bs)
   }"

text \<open>\<^verbatim>\<open>static_cast\<close> of a raw value the matching \<^verbatim>\<open>valid_\<close> predicate accepted: the enumerator with that value.\<close>

definition get_enum :: "'w reader \<Rightarrow> ('w \<Rightarrow> bool) \<Rightarrow> ('e \<Rightarrow> 'w) \<Rightarrow> 'e list \<Rightarrow> 'e reader" where
  "get_enum get valid raw enumerators bs = do {
     (r, bs) \<leftarrow> get bs;
     if \<not> valid r then None else do { x \<leftarrow> List.find (\<lambda>x. raw x = r) enumerators; Some (x, bs) }
   }"

text \<open>\<^verbatim>\<open>reader.finished()\<close>: trailing bytes are a rejection.\<close>

definition whole :: "'a reader \<Rightarrow> string \<Rightarrow> 'a option" where
  "whole get payload = do {
     (x, bs) \<leftarrow> get payload;
     if bs \<noteq> [] then None else Some x
   }"

definition vector_ok :: "u64 \<Rightarrow> ('a \<Rightarrow> bool) \<Rightarrow> 'a list \<Rightarrow> bool" where
  "vector_ok limit ok xs \<longleftrightarrow> length xs \<le> unat limit \<and> list_all ok xs"

section \<open>The interface of a codec\<close>

locale wire_codec =
  fixes put :: "'a \<Rightarrow> string" and get :: "'a reader" and ok :: "'a \<Rightarrow> bool"
  assumes exact: "get bs = Some (x, rest) \<longleftrightarrow> ok x \<and> bs = put x @ rest"
begin

lemma reads_back: "ok x \<Longrightarrow> get (put x @ rest) = Some (x, rest)"
  by (simp add: exact)

lemma reads_one_value: "ok x \<Longrightarrow> ok y \<Longrightarrow> put x @ r = put y @ s \<Longrightarrow> x = y \<and> r = s"
  using exact[of "put x @ r" x r] exact[of "put y @ s" y s] by simp

lemma many_exact: "get_many get n bs = Some (xs, rest) \<longleftrightarrow> length xs = n \<and> list_all ok xs \<and> bs = concat (map put xs) @ rest"
proof (induction n arbitrary: bs xs)
  case (Suc n)
  show ?case by (cases xs) (auto simp: Option.bind_eq_Some_conv exact Suc)
qed auto

lemma vector_exact:
  "get_vector limit get bs = Some (xs, rest) \<longleftrightarrow> vector_ok limit ok xs \<and> bs = put_vector put xs @ rest"
proof
  assume "get_vector limit get bs = Some (xs, rest)"
  then obtain count where c: "bs = put_u64 count @ concat (map put xs) @ rest" "count \<le> limit"
      "length xs = unat count" "list_all ok xs"
    by (auto simp: get_vector_def Option.bind_eq_Some_conv get_u64_exact many_exact not_less split: if_splits)
  then show "vector_ok limit ok xs \<and> bs = put_vector put xs @ rest"
    by (simp add: vector_ok_def put_vector_def word_le_nat_alt)
next
  assume a: "vector_ok limit ok xs \<and> bs = put_vector put xs @ rest"
  then have "unat (word_of_nat (length xs) :: u64) = length xs"
    using unsigned_less[of limit, where 'a = nat] by (simp add: vector_ok_def unat_of_nat take_bit_eq_mod)
  with a show "get_vector limit get bs = Some (xs, rest)"
    by (simp add: get_vector_def get_put_u64 many_exact vector_ok_def put_vector_def word_less_unat)
qed

lemma option_exact: "get_option get bs = Some (v, rest) \<longleftrightarrow> pred_option ok v \<and> bs = put_option put v @ rest"
  by (cases v) (auto simp: get_option_def put_option_def Option.bind_eq_Some_conv get_bool_exact exact split: if_splits)

lemma whole_exact: "whole get payload = Some x \<longleftrightarrow> ok x \<and> payload = put x"
  by (auto simp: whole_def Option.bind_eq_Some_conv exact split: if_splits)

end

text \<open>An enumeration travels as its underlying value; decoding it undoes the numbering.\<close>

locale enum_codec = wire_codec put get "\<lambda>_. True" for put :: "'w \<Rightarrow> string" and get +
  fixes valid :: "'w \<Rightarrow> bool" and raw :: "'e \<Rightarrow> 'w" and enumerators :: "'e list"
  assumes valid_raw: "valid (raw x)" and find_raw: "List.find (\<lambda>y. raw y = raw x) enumerators = Some x"
begin

lemma enum_exact: "get_enum get valid raw enumerators bs = Some (x, rest) \<longleftrightarrow> bs = put (raw x) @ rest"
proof
  assume "get_enum get valid raw enumerators bs = Some (x, rest)"
  then obtain r where "bs = put r @ rest" "List.find (\<lambda>x. raw x = r) enumerators = Some x"
    by (auto simp: get_enum_def Option.bind_eq_Some_conv exact split: if_splits)
  then show "bs = put (raw x) @ rest" by (auto simp: find_Some_iff)
qed (simp add: get_enum_def reads_back valid_raw find_raw)

end

interpretation u8_code: wire_codec put_u8 get_u8 "\<lambda>_. True"
  by unfold_locales (simp add: get_u8_exact)

interpretation u16_code: wire_codec put_u16 get_u16 "\<lambda>_. True"
  by unfold_locales (simp add: get_u16_exact)

interpretation u64_code: wire_codec put_u64 get_u64 "\<lambda>_. True"
  by unfold_locales (simp add: get_u64_exact)

interpretation u32_code: wire_codec put_u32 get_u32 "\<lambda>_. True"
  by unfold_locales (simp add: get_u32_exact)

lemmas code_vector_exact [wire_exact] = u64_code.vector_exact
lemmas code_option_exact [wire_exact] = u64_code.option_exact u32_code.option_exact

end
