(* ===== verification/Wire_Elements.thy ===== *)
theory Wire_Elements
  imports Readers Decision
begin

text \<open>
  The element codecs of the wire protocol (\<^verbatim>\<open>src/wire.cpp\<close>): identities, generations, scopes, metrics,
  policy semantics, upstream bindings, publications, notifications and evaluation tickets.  Each
  \<open>put_\<close> is the code's \<^verbatim>\<open>encode_\<close> or \<^verbatim>\<open>put_\<close> function and each \<open>get_\<close> its \<^verbatim>\<open>decode_\<close> or \<^verbatim>\<open>get_\<close> function.  The
  predicate \<open>_fits\<close> of an element says which values the decoder can produce; the exactness lemma next to
  it proves that these are precisely the values that survive the wire, and that each has one encoding.
\<close>

definition wire_max_string_bytes :: u64 where "wire_max_string_bytes = 4096"
definition wire_max_elements :: u64 where "wire_max_elements = 4096"

abbreviation text_ok :: "string \<Rightarrow> bool" where "text_ok \<equiv> text_fits wire_max_string_bytes"

section \<open>Identities, generations, watermarks\<close>

text \<open>The first argument of \<open>get_id\<close> is the length bound of the domain (\<^verbatim>\<open>Tag::max_length\<close>, see \<open>id_domains\<close>).\<close>

definition put_id :: "'a strong_id \<Rightarrow> string" where
  "put_id i = put_string (id_text i)"

definition get_id :: "nat \<Rightarrow> 'a strong_id reader" where
  "get_id n bs = do {
     (text, bs) \<leftarrow> get_string wire_max_string_bytes bs;
     i \<leftarrow> id_parse n text;
     Some (i, bs)
   }"

definition id_fits :: "nat \<Rightarrow> 'a strong_id \<Rightarrow> bool" where
  "id_fits n i \<longleftrightarrow> id_parse n (id_text i) = Some i \<and> text_ok (id_text i)"

definition put_optional_id :: "'a strong_id \<Rightarrow> string" where
  "put_optional_id i = put_bool (id_valid i) @ (if id_valid i then put_id i else [])"

definition get_optional_id :: "nat \<Rightarrow> 'a strong_id reader" where
  "get_optional_id n bs = do {
     (present, bs) \<leftarrow> get_bool bs;
     if \<not> present then Some (no_id, bs) else get_id n bs
   }"

definition put_generation :: "'a generation \<Rightarrow> string" where
  "put_generation g = put_u64 (gen_value g)"

definition get_generation :: "'a generation reader" where
  "get_generation bs = do {
     (raw, bs) \<leftarrow> get_u64 bs;
     g \<leftarrow> gen_from_value raw;
     Some (g, bs)
   }"

definition put_optional_generation :: "'a generation \<Rightarrow> string" where
  "put_optional_generation g = put_bool (gen_valid g) @ (if gen_valid g then put_u64 (gen_value g) else [])"

definition get_optional_generation :: "'a generation reader" where
  "get_optional_generation bs = do {
     (present, bs) \<leftarrow> get_bool bs;
     if \<not> present then Some (no_gen, bs) else get_generation bs
   }"

definition put_watermark :: "watermark \<Rightarrow> string" where
  "put_watermark w = put_u64 (wm_value w)"

definition get_watermark :: "watermark reader" where
  "get_watermark bs = do { (raw, bs) \<leftarrow> get_u64 bs; Some (Watermark raw, bs) }"

lemma get_id_exact [wire_exact]: "get_id n bs = Some (i, rest) \<longleftrightarrow> id_fits n i \<and> bs = put_id i @ rest"
proof
  assume "get_id n bs = Some (i, rest)"
  then obtain t where "bs = put_string t @ rest" "text_ok t" "id_parse n t = Some i"
    by (auto simp: get_id_def Option.bind_eq_Some_conv get_string_exact)
  then show "id_fits n i \<and> bs = put_id i @ rest"
    using id_parse_SomeD[of n t i] by (auto simp: id_fits_def put_id_def)
qed (auto simp: get_id_def Option.bind_eq_Some_conv get_string_exact id_fits_def put_id_def)

lemma id_fits_valid: "id_fits n i \<Longrightarrow> id_valid i"
  by (auto simp: id_fits_def dest: id_parse_valid)

lemma invalid_id: "\<not> id_valid i \<longleftrightarrow> i = no_id"
  by (cases i) (auto simp: id_valid_def no_id_def)

lemma get_optional_id_exact [wire_exact]:
  "get_optional_id n bs = Some (i, rest) \<longleftrightarrow> (id_valid i \<longrightarrow> id_fits n i) \<and> bs = put_optional_id i @ rest"
  using invalid_id[of i]
  by (auto simp: get_optional_id_def put_optional_id_def Option.bind_eq_Some_conv get_bool_exact get_id_exact
      split: if_splits dest: id_fits_valid)

lemma get_generation_exact [wire_exact]:
  "get_generation bs = Some (g, rest) \<longleftrightarrow> gen_valid g \<and> bs = put_generation g @ rest"
  by (cases g) (auto simp: get_generation_def put_generation_def Option.bind_eq_Some_conv get_u64_exact gen_from_value_def
      gen_valid_def split: if_splits)

lemma get_optional_generation_exact [wire_exact]:
  "get_optional_generation bs = Some (g, rest) \<longleftrightarrow> bs = put_optional_generation g @ rest"
  by (cases g) (auto simp: get_optional_generation_def put_optional_generation_def Option.bind_eq_Some_conv get_bool_exact
      get_generation_exact put_generation_def gen_valid_def no_gen_def split: if_splits)

lemma get_watermark_exact [wire_exact]: "get_watermark bs = Some (w, rest) \<longleftrightarrow> bs = put_watermark w @ rest"
  by (cases w) (auto simp: get_watermark_def put_watermark_def Option.bind_eq_Some_conv get_u64_exact)

interpretation id_code: wire_codec put_id "get_id n" "id_fits n" for n
  by unfold_locales (simp add: get_id_exact)

interpretation generation_code: wire_codec put_generation get_generation gen_valid
  by unfold_locales (simp add: get_generation_exact)

lemmas element_vector_exact [wire_exact] = id_code.vector_exact
lemmas element_option_exact [wire_exact] = id_code.option_exact generation_code.option_exact

section \<open>Enumerations\<close>

definition get_metric_kind :: "metric_kind reader" where
  "get_metric_kind = get_enum get_u8 valid_metric_kind metric_kind_raw (map fst metric_table)"

definition get_metric_unit :: "metric_unit reader" where
  "get_metric_unit = get_enum get_u8 valid_metric_unit metric_unit_raw [BASIS_POINTS, MICROSECONDS, PPM, COUNT, FLAG]"

definition get_aggregation :: "aggregation_kind reader" where
  "get_aggregation = get_enum get_u8 valid_aggregation_kind aggregation_kind_raw
     [MINIMUM, MAXIMUM, MEAN, MEDIAN, PERCENTILE_95, EWMA]"

definition get_quality :: "evidence_quality reader" where
  "get_quality = get_enum get_u8 valid_evidence_quality evidence_quality_raw [PRIMARY, AGGREGATED, OPERATOR, ESTIMATED]"

definition get_objective_mode :: "objective_mode reader" where
  "get_objective_mode = get_enum get_u8 valid_objective_mode objective_mode_raw [LEXICOGRAPHIC, WEIGHTED_SCORE]"

definition get_upstream_event :: "upstream_event reader" where
  "get_upstream_event = get_enum get_u8 valid_upstream_event upstream_event_raw
     [UE_DECLARE_CANDIDATE, UE_ADVANCE_PATH_AUTHORITY, UE_INVALIDATE_PATH, UE_SET_MEMBERSHIP,
      UE_INVALIDATE_MULTIPATH_SET, UE_ADVANCE_ROUTE, UE_INVALIDATE_ROUTE, UE_ADVANCE_WEIGHT_POLICY,
      UE_MARK_UNAVAILABLE, UE_MARK_AVAILABLE, UE_HARD_FAILURE_SIGNAL, UE_CLEAR_HARD_FAILURE_SIGNAL]"

definition get_outcome :: "outcome reader" where
  "get_outcome = get_enum get_u16 valid_outcome outcome_raw (map fst outcome_table)"

definition get_suppression :: "suppression_reason reader" where
  "get_suppression = get_enum get_u8 valid_suppression_reason suppression_raw (map fst suppression_table)"

definition get_decision_lifecycle :: "decision_lifecycle reader" where
  "get_decision_lifecycle = get_enum get_u8 valid_decision_lifecycle decision_lifecycle_raw all_decision_lifecycle"

definition get_policy_event :: "policy_event reader" where
  "get_policy_event = get_enum get_u8 valid_policy_event policy_event_raw all_policy_event"

definition get_revocation_reason :: "revocation_reason reader" where
  "get_revocation_reason = get_enum get_u8 valid_revocation_reason revocation_reason_raw
     [RR_ADMINISTRATIVE, RR_SECURITY, RR_POLICY_VIOLATION, RR_AUTHORITY_REVOKED, RR_OPERATOR_REQUEST]"

interpretation metric_kind_code: enum_codec put_u8 get_u8 valid_metric_kind metric_kind_raw "map fst metric_table"
  by unfold_locales (simp_all add: valid_metric_kind_def metric_table_def metric_kind_raw_def split: metric_kind.splits)

interpretation metric_unit_code: enum_codec put_u8 get_u8 valid_metric_unit metric_unit_raw "[BASIS_POINTS, MICROSECONDS, PPM, COUNT, FLAG]"
  by unfold_locales (simp_all add: valid_metric_unit_def metric_unit_raw_def split: metric_unit.splits)

interpretation aggregation_code: enum_codec put_u8 get_u8 valid_aggregation_kind aggregation_kind_raw
    "[MINIMUM, MAXIMUM, MEAN, MEDIAN, PERCENTILE_95, EWMA]"
  by unfold_locales (simp_all add: valid_aggregation_kind_def aggregation_kind_raw_def split: aggregation_kind.splits)

interpretation quality_code: enum_codec put_u8 get_u8 valid_evidence_quality evidence_quality_raw "[PRIMARY, AGGREGATED, OPERATOR, ESTIMATED]"
  by unfold_locales (simp_all add: valid_evidence_quality_def evidence_quality_raw_def split: evidence_quality.splits)

interpretation objective_mode_code: enum_codec put_u8 get_u8 valid_objective_mode objective_mode_raw "[LEXICOGRAPHIC, WEIGHTED_SCORE]"
  by unfold_locales (simp_all add: valid_objective_mode_def objective_mode_raw_def split: objective_mode.splits)

interpretation upstream_event_code: enum_codec put_u8 get_u8 valid_upstream_event upstream_event_raw
    "[UE_DECLARE_CANDIDATE, UE_ADVANCE_PATH_AUTHORITY, UE_INVALIDATE_PATH, UE_SET_MEMBERSHIP,
      UE_INVALIDATE_MULTIPATH_SET, UE_ADVANCE_ROUTE, UE_INVALIDATE_ROUTE, UE_ADVANCE_WEIGHT_POLICY,
      UE_MARK_UNAVAILABLE, UE_MARK_AVAILABLE, UE_HARD_FAILURE_SIGNAL, UE_CLEAR_HARD_FAILURE_SIGNAL]"
  by unfold_locales (simp_all add: valid_upstream_event_def upstream_event_raw_def split: upstream_event.splits)

interpretation suppression_code: enum_codec put_u8 get_u8 valid_suppression_reason suppression_raw "map fst suppression_table"
  by unfold_locales (simp_all add: valid_suppression_reason_def suppression_raw_def suppression_table_def split: suppression_reason.splits)

interpretation decision_lifecycle_code: enum_codec put_u8 get_u8 valid_decision_lifecycle decision_lifecycle_raw all_decision_lifecycle
  by unfold_locales (simp_all add: valid_decision_lifecycle_def decision_lifecycle_raw_def all_decision_lifecycle_def split: decision_lifecycle.splits)

interpretation policy_event_code: enum_codec put_u8 get_u8 valid_policy_event policy_event_raw all_policy_event
  by unfold_locales (simp_all add: valid_policy_event_def policy_event_raw_def all_policy_event_def split: policy_event.splits)

interpretation revocation_reason_code: enum_codec put_u8 get_u8 valid_revocation_reason revocation_reason_raw
    "[RR_ADMINISTRATIVE, RR_SECURITY, RR_POLICY_VIOLATION, RR_AUTHORITY_REVOKED, RR_OPERATOR_REQUEST]"
  by unfold_locales (simp_all add: valid_revocation_reason_def revocation_reason_raw_def split: revocation_reason.splits)

interpretation outcome_code: enum_codec put_u16 get_u16 valid_outcome outcome_raw "map fst outcome_table"
proof
  fix x :: outcome
  show "valid_outcome (outcome_raw x)" using outcome_listed[of x] by (auto simp: valid_outcome_def)
  show "List.find (\<lambda>y. outcome_raw y = outcome_raw x) (map fst outcome_table) = Some x"
    by (cases x) (simp_all add: outcome_table_def outcome_raw_def)
qed

lemmas enum_exacts [wire_exact] = metric_kind_code.enum_exact[folded get_metric_kind_def]
  metric_unit_code.enum_exact[folded get_metric_unit_def] aggregation_code.enum_exact[folded get_aggregation_def]
  quality_code.enum_exact[folded get_quality_def] objective_mode_code.enum_exact[folded get_objective_mode_def]
  upstream_event_code.enum_exact[folded get_upstream_event_def] outcome_code.enum_exact[folded get_outcome_def]
  suppression_code.enum_exact[folded get_suppression_def]
  decision_lifecycle_code.enum_exact[folded get_decision_lifecycle_def]
  policy_event_code.enum_exact[folded get_policy_event_def]
  revocation_reason_code.enum_exact[folded get_revocation_reason_def]

end
