(* ===== verification/Wire_Objects.thy ===== *)
theory Wire_Objects
  imports Wire_Elements
begin

text \<open>
  The structured elements of the wire protocol (\<^verbatim>\<open>src/wire.cpp\<close>): mutation contexts, scopes, metrics,
  evidence requirements and the complete policy semantics.
\<close>

abbreviation elements_ok :: "('a \<Rightarrow> bool) \<Rightarrow> 'a list \<Rightarrow> bool" where
  "elements_ok \<equiv> vector_ok wire_max_elements"

abbreviation get_elements :: "'a reader \<Rightarrow> 'a list reader" where
  "get_elements \<equiv> get_vector wire_max_elements"

lemma guard_eq_Some: "(if b then None else x) = Some y \<longleftrightarrow> \<not> b \<and> x = Some y"
  by simp

lemmas read_steps = Option.bind_eq_Some_conv split_paired_Ex prod.case Let_def guard_eq_Some

section \<open>Contexts and scopes\<close>

definition put_context :: "mutation_context \<Rightarrow> string" where
  "put_context c = put_generation (mc_epoch c) @ put_id (mc_publisher c) @ put_id (mc_worker_boot c)
     @ put_id (mc_session c) @ put_id (mc_attempt c)
     @ put_option put_generation (mc_expected_policy_generation c)
     @ put_option put_generation (mc_expected_evidence_generation c)"

definition get_context :: "mutation_context reader" where
  "get_context bs = do {
     (epoch, bs) \<leftarrow> get_generation bs;
     (publisher, bs) \<leftarrow> get_id 64 bs;
     (boot, bs) \<leftarrow> get_id 64 bs;
     (session, bs) \<leftarrow> get_id 64 bs;
     (attempt, bs) \<leftarrow> get_id 64 bs;
     (expected_policy, bs) \<leftarrow> get_option get_generation bs;
     (expected_evidence, bs) \<leftarrow> get_option get_generation bs;
     Some (\<lparr>mc_epoch = epoch, mc_publisher = publisher, mc_worker_boot = boot, mc_session = session,
            mc_attempt = attempt, mc_expected_policy_generation = expected_policy,
            mc_expected_evidence_generation = expected_evidence\<rparr>, bs)
   }"

definition context_fits :: "mutation_context \<Rightarrow> bool" where
  "context_fits c \<longleftrightarrow> gen_valid (mc_epoch c) \<and> id_fits 64 (mc_publisher c) \<and> id_fits 64 (mc_worker_boot c)
     \<and> id_fits 64 (mc_session c) \<and> id_fits 64 (mc_attempt c)
     \<and> pred_option gen_valid (mc_expected_policy_generation c)
     \<and> pred_option gen_valid (mc_expected_evidence_generation c)"

lemma get_context_exact [wire_exact]:
  "get_context bs = Some (c, rest) \<longleftrightarrow> context_fits c \<and> bs = put_context c @ rest"
  by (cases c) (auto simp: get_context_def put_context_def context_fits_def read_steps wire_exact)

definition put_scope :: "policy_scope \<Rightarrow> string" where
  "put_scope s = put_id (sc_fabric s) @ put_id (sc_namespace s) @ put_option put_id (sc_site s)
     @ put_optional_id (sc_path_class s) @ put_vector put_id (sc_routes s) @ put_vector put_id (sc_multipath_sets s)"

definition get_scope :: "policy_scope reader" where
  "get_scope bs = do {
     (fabric, bs) \<leftarrow> get_id 64 bs;
     (name_space, bs) \<leftarrow> get_id 64 bs;
     (site, bs) \<leftarrow> get_option (get_id 64) bs;
     (path_class, bs) \<leftarrow> get_optional_id 32 bs;
     (routes, bs) \<leftarrow> get_elements (get_id 96) bs;
     (multipath_sets, bs) \<leftarrow> get_elements (get_id 96) bs;
     let scope = \<lparr>sc_fabric = fabric, sc_namespace = name_space, sc_site = site, sc_path_class = path_class,
                  sc_routes = routes, sc_multipath_sets = multipath_sets\<rparr>;
     if \<not> sc_well_formed scope then None else Some (scope, bs)
   }"

definition scope_fits :: "policy_scope \<Rightarrow> bool" where
  "scope_fits s \<longleftrightarrow> id_fits 64 (sc_fabric s) \<and> id_fits 64 (sc_namespace s) \<and> pred_option (id_fits 64) (sc_site s)
     \<and> (id_valid (sc_path_class s) \<longrightarrow> id_fits 32 (sc_path_class s))
     \<and> elements_ok (id_fits 96) (sc_routes s) \<and> elements_ok (id_fits 96) (sc_multipath_sets s) \<and> sc_well_formed s"

lemma get_scope_exact [wire_exact]:
  "get_scope bs = Some (s, rest) \<longleftrightarrow> scope_fits s \<and> bs = put_scope s @ rest"
  by (cases s) (auto simp: get_scope_def put_scope_def scope_fits_def read_steps wire_exact)

definition put_authority_scope :: "authority_scope \<Rightarrow> string" where
  "put_authority_scope s = put_id (as_fabric s) @ put_id (as_namespace s)
     @ put_vector put_id (as_routes s) @ put_vector put_id (as_multipath_sets s)"

definition get_authority_scope :: "authority_scope reader" where
  "get_authority_scope bs = do {
     (fabric, bs) \<leftarrow> get_id 64 bs;
     (name_space, bs) \<leftarrow> get_id 64 bs;
     (routes, bs) \<leftarrow> get_elements (get_id 96) bs;
     (multipath_sets, bs) \<leftarrow> get_elements (get_id 96) bs;
     let scope = \<lparr>as_fabric = fabric, as_namespace = name_space, as_routes = routes, as_multipath_sets = multipath_sets\<rparr>;
     if \<not> as_well_formed scope then None else Some (scope, bs)
   }"

definition authority_scope_fits :: "authority_scope \<Rightarrow> bool" where
  "authority_scope_fits s \<longleftrightarrow> id_fits 64 (as_fabric s) \<and> id_fits 64 (as_namespace s)
     \<and> elements_ok (id_fits 96) (as_routes s) \<and> elements_ok (id_fits 96) (as_multipath_sets s) \<and> as_well_formed s"

lemma get_authority_scope_exact [wire_exact]:
  "get_authority_scope bs = Some (s, rest) \<longleftrightarrow> authority_scope_fits s \<and> bs = put_authority_scope s @ rest"
  by (cases s) (auto simp: get_authority_scope_def put_authority_scope_def authority_scope_fits_def read_steps wire_exact)

section \<open>Metrics and evidence requirements\<close>

definition put_metric :: "metric_value \<Rightarrow> string" where
  "put_metric v = put_bool (mv_valid v) @
     (if \<not> mv_valid v then []
      else put_u8 (metric_kind_raw (mv_kind v)) @ put_u8 (metric_unit_raw (mv_unit v))
        @ put_u32 (mv_semantics_version v) @ put_i64 (mv_value v))"

definition get_metric :: "metric_value reader" where
  "get_metric bs = do {
     (present, bs) \<leftarrow> get_bool bs;
     if \<not> present then Some (default_metric_value, bs)
     else do {
       (kind, bs) \<leftarrow> get_metric_kind bs;
       (unit, bs) \<leftarrow> get_metric_unit bs;
       (version, bs) \<leftarrow> get_u32 bs;
       (value, bs) \<leftarrow> get_i64 bs;
       v \<leftarrow> mv_decode kind unit version value;
       Some (v, bs)
     }
   }"

lemma mv_decode_fields:
  "mv_decode k u s n = Some v \<Longrightarrow> mv_kind v = k \<and> mv_unit v = u \<and> mv_semantics_version v = s \<and> mv_value v = n"
  by (auto simp: mv_decode_def split: if_splits)

lemma mv_ok_i64: "mv_ok v \<Longrightarrow> mv_valid v \<Longrightarrow> i64_range (mv_value v)"
  using mv_ok_valid[of v] descriptor_maximum[of "mv_kind v"] by (simp add: i64_range_def)

lemma mv_ok_cases: "mv_ok v \<longleftrightarrow> (if mv_valid v then mv_decode (mv_kind v) (mv_unit v) (mv_semantics_version v) (mv_value v) = Some v
     else v = default_metric_value)"
  by (auto simp: mv_ok_def default_metric_value_def dest: mv_decode_ok)

lemma get_metric_exact [wire_exact]: "get_metric bs = Some (v, rest) \<longleftrightarrow> mv_ok v \<and> bs = put_metric v @ rest"
proof (cases "mv_valid v")
  case True
  show ?thesis
  proof
    assume "get_metric bs = Some (v, rest)"
    then show "mv_ok v \<and> bs = put_metric v @ rest" using True
      by (auto simp: get_metric_def put_metric_def read_steps wire_exact default_metric_value_def split: if_splits
          dest: mv_decode_fields mv_decode_ok)
  next
    assume "mv_ok v \<and> bs = put_metric v @ rest"
    moreover have "get_metric_kind (put_u8 (metric_kind_raw k) @ r) = Some (k, r)"
      "get_metric_unit (put_u8 (metric_unit_raw u) @ r) = Some (u, r)" for k u r
      by (simp_all add: wire_exact)
    ultimately show "get_metric bs = Some (v, rest)"
      using True mv_ok_i64[of v] mv_ok_cases[of v]
      by (simp add: get_metric_def put_metric_def get_put_bool get_put_u32 get_put_i64 i64_range_def)
  qed
next
  case False
  then show ?thesis
    by (auto simp: get_metric_def put_metric_def read_steps wire_exact mv_ok_cases default_metric_value_def split: if_splits
        dest: mv_decode_ok)
qed

definition put_requirement :: "evidence_requirement \<Rightarrow> string" where
  "put_requirement r = put_u8 (metric_kind_raw (er_kind r)) @ put_u8 (aggregation_kind_raw (er_aggregation r))
     @ put_u32 (er_ewma_alpha_bps r) @ put_u32 (er_min_samples r) @ put_u64 (er_max_age r) @ put_u64 (er_min_window r)
     @ put_u8 (evidence_quality_raw (er_min_quality r)) @ put_bool (er_required r)"

definition get_requirement :: "evidence_requirement reader" where
  "get_requirement bs = do {
     (kind, bs) \<leftarrow> get_metric_kind bs;
     (aggregation, bs) \<leftarrow> get_aggregation bs;
     (alpha, bs) \<leftarrow> get_u32 bs;
     (min_samples, bs) \<leftarrow> get_u32 bs;
     (max_age, bs) \<leftarrow> get_u64 bs;
     (min_window, bs) \<leftarrow> get_u64 bs;
     (quality, bs) \<leftarrow> get_quality bs;
     (required, bs) \<leftarrow> get_bool bs;
     let r = \<lparr>er_kind = kind, er_aggregation = aggregation, er_ewma_alpha_bps = alpha, er_min_samples = min_samples,
              er_max_age = max_age, er_min_window = min_window, er_min_quality = quality, er_required = required\<rparr>;
     if \<not> er_valid r then None else Some (r, bs)
   }"

lemma get_requirement_exact [wire_exact]:
  "get_requirement bs = Some (r, rest) \<longleftrightarrow> er_valid r \<and> bs = put_requirement r @ rest"
  by (cases r) (auto simp: get_requirement_def put_requirement_def read_steps wire_exact)

interpretation metric_code: wire_codec put_metric get_metric mv_ok
  by unfold_locales (simp add: get_metric_exact)

interpretation requirement_code: wire_codec put_requirement get_requirement er_valid
  by unfold_locales (simp add: get_requirement_exact)


section \<open>Policy semantics\<close>

definition put_threshold :: "threshold_rule \<Rightarrow> string" where
  "put_threshold r = put_u8 (metric_kind_raw (tr_kind r)) @ put_metric (tr_switch_value r) @ put_metric (tr_clear_value r)"

definition get_threshold :: "threshold_rule reader" where
  "get_threshold bs = do {
     (kind, bs) \<leftarrow> get_metric_kind bs;
     (switch_value, bs) \<leftarrow> get_metric bs;
     (clear_value, bs) \<leftarrow> get_metric bs;
     Some (\<lparr>tr_kind = kind, tr_switch_value = switch_value, tr_clear_value = clear_value\<rparr>, bs)
   }"

definition threshold_fits :: "threshold_rule \<Rightarrow> bool" where
  "threshold_fits r \<longleftrightarrow> mv_ok (tr_switch_value r) \<and> mv_ok (tr_clear_value r)"

definition put_improvement :: "improvement_rule \<Rightarrow> string" where
  "put_improvement r = put_u8 (metric_kind_raw (ir_kind r)) @ put_u32 (ir_switch_bps r) @ put_u32 (ir_reverse_bps r)"

definition get_improvement :: "improvement_rule reader" where
  "get_improvement bs = do {
     (kind, bs) \<leftarrow> get_metric_kind bs;
     (switch_bps, bs) \<leftarrow> get_u32 bs;
     (reverse_bps, bs) \<leftarrow> get_u32 bs;
     Some (\<lparr>ir_kind = kind, ir_switch_bps = switch_bps, ir_reverse_bps = reverse_bps\<rparr>, bs)
   }"

definition put_term :: "score_term \<Rightarrow> string" where
  "put_term t = put_u8 (metric_kind_raw (st_kind t)) @ put_u32 (st_weight_bps t)"

definition get_term :: "score_term reader" where
  "get_term bs = do {
     (kind, bs) \<leftarrow> get_metric_kind bs;
     (weight, bs) \<leftarrow> get_u32 bs;
     Some (\<lparr>st_kind = kind, st_weight_bps = weight\<rparr>, bs)
   }"

definition put_priority :: "candidate_priority \<Rightarrow> string" where
  "put_priority p = put_id (cp_path p) @ put_u32 (cp_priority p)"

definition get_priority :: "candidate_priority reader" where
  "get_priority bs = do {
     (path, bs) \<leftarrow> get_id 128 bs;
     (priority, bs) \<leftarrow> get_u32 bs;
     Some (\<lparr>cp_path = path, cp_priority = priority\<rparr>, bs)
   }"

definition put_dampening :: "dampening_rule \<Rightarrow> string" where
  "put_dampening r = put_bool (dr_enabled r) @ put_u32 (dr_penalty_increment r) @ put_u32 (dr_max_penalty r)
     @ put_u64 (dr_penalty_decay_interval r) @ put_u32 (dr_penalty_decay_step r)
     @ put_u64 (dr_hold_down_escalation_step r) @ put_u64 (dr_max_effective_hold_down r)"

definition get_dampening :: "dampening_rule reader" where
  "get_dampening bs = do {
     (enabled, bs) \<leftarrow> get_bool bs;
     (increment, bs) \<leftarrow> get_u32 bs;
     (max_penalty, bs) \<leftarrow> get_u32 bs;
     (decay_interval, bs) \<leftarrow> get_u64 bs;
     (decay_step, bs) \<leftarrow> get_u32 bs;
     (escalation, bs) \<leftarrow> get_u64 bs;
     (max_hold_down, bs) \<leftarrow> get_u64 bs;
     Some (\<lparr>dr_enabled = enabled, dr_penalty_increment = increment, dr_max_penalty = max_penalty,
            dr_penalty_decay_interval = decay_interval, dr_penalty_decay_step = decay_step,
            dr_hold_down_escalation_step = escalation, dr_max_effective_hold_down = max_hold_down\<rparr>, bs)
   }"

definition put_objective :: "objective_spec \<Rightarrow> string" where
  "put_objective o1 = put_u8 (objective_mode_raw (os_mode o1)) @ put_u32 (os_scoring_version o1) @ put_vector put_term (os_terms o1)"

definition get_objective :: "objective_spec reader" where
  "get_objective bs = do {
     (mode, bs) \<leftarrow> get_objective_mode bs;
     (scoring_version, bs) \<leftarrow> get_u32 bs;
     (terms, bs) \<leftarrow> get_elements get_term bs;
     Some (\<lparr>os_mode = mode, os_terms = terms, os_scoring_version = scoring_version\<rparr>, bs)
   }"

definition put_emergency :: "emergency_rule \<Rightarrow> string" where
  "put_emergency e = put_bool (em_enabled e) @ put_bool (em_on_unauthorized e)
     @ put_bool (em_on_unavailable e) @ put_bool (em_on_hard_failure e)"

definition get_emergency :: "emergency_rule reader" where
  "get_emergency bs = do {
     (enabled, bs) \<leftarrow> get_bool bs;
     (unauthorized, bs) \<leftarrow> get_bool bs;
     (unavailable, bs) \<leftarrow> get_bool bs;
     (hard_failure, bs) \<leftarrow> get_bool bs;
     Some (\<lparr>em_enabled = enabled, em_on_unauthorized = unauthorized, em_on_unavailable = unavailable,
            em_on_hard_failure = hard_failure\<rparr>, bs)
   }"

lemma get_threshold_exact [wire_exact]:
  "get_threshold bs = Some (r, rest) \<longleftrightarrow> threshold_fits r \<and> bs = put_threshold r @ rest"
  by (cases r) (auto simp: get_threshold_def put_threshold_def threshold_fits_def read_steps wire_exact)

lemma get_improvement_exact [wire_exact]: "get_improvement bs = Some (r, rest) \<longleftrightarrow> bs = put_improvement r @ rest"
  by (cases r) (auto simp: get_improvement_def put_improvement_def read_steps wire_exact)

lemma get_term_exact [wire_exact]: "get_term bs = Some (t, rest) \<longleftrightarrow> bs = put_term t @ rest"
  by (cases t) (auto simp: get_term_def put_term_def read_steps wire_exact)

lemma get_priority_exact [wire_exact]: "get_priority bs = Some (p, rest) \<longleftrightarrow> id_fits 128 (cp_path p) \<and> bs = put_priority p @ rest"
  by (cases p) (auto simp: get_priority_def put_priority_def read_steps wire_exact)

lemma get_dampening_exact [wire_exact]: "get_dampening bs = Some (r, rest) \<longleftrightarrow> bs = put_dampening r @ rest"
  by (cases r) (auto simp: get_dampening_def put_dampening_def read_steps wire_exact)

lemma get_emergency_exact [wire_exact]: "get_emergency bs = Some (e, rest) \<longleftrightarrow> bs = put_emergency e @ rest"
  by (cases e) (auto simp: get_emergency_def put_emergency_def read_steps wire_exact)

interpretation threshold_code: wire_codec put_threshold get_threshold threshold_fits
  by unfold_locales (simp add: get_threshold_exact)

interpretation improvement_code: wire_codec put_improvement get_improvement "\<lambda>_. True"
  by unfold_locales (simp add: get_improvement_exact)

interpretation term_code: wire_codec put_term get_term "\<lambda>_. True"
  by unfold_locales (simp add: get_term_exact)

interpretation priority_code: wire_codec put_priority get_priority "\<lambda>p. id_fits 128 (cp_path p)"
  by unfold_locales (simp add: get_priority_exact)

lemmas object_vector_exact [wire_exact] = metric_code.vector_exact requirement_code.vector_exact
  threshold_code.vector_exact improvement_code.vector_exact term_code.vector_exact priority_code.vector_exact

lemma get_objective_exact [wire_exact]:
  "get_objective bs = Some (o1, rest) \<longleftrightarrow> elements_ok (\<lambda>_. True) (os_terms o1) \<and> bs = put_objective o1 @ rest"
  by (cases o1) (auto simp: get_objective_def put_objective_def read_steps wire_exact)

definition put_semantics_body :: "policy_semantics \<Rightarrow> string" where
  "put_semantics_body s = put_u32 (ps_version s) @ put_id (pt_route (ps_target s))
     @ put_option put_id (pt_multipath_set (ps_target s))
     @ put_vector put_threshold (ps_thresholds s) @ put_vector put_improvement (ps_improvements s)
     @ put_vector put_requirement (ps_evidence s)
     @ put_u64 (ps_hold_down s) @ put_u64 (ps_cooldown s) @ put_dampening (ps_dampening s)
     @ put_u32 (cb_max_adaptations (ps_churn s)) @ put_u64 (cb_window (ps_churn s))
     @ put_objective (ps_objective s) @ put_emergency (ps_emergency s) @ put_vector put_priority (ps_priorities s)"

definition get_semantics_body :: "policy_semantics reader" where
  "get_semantics_body bs = do {
     (version, bs) \<leftarrow> get_u32 bs;
     (route, bs) \<leftarrow> get_id 96 bs;
     (multipath_set, bs) \<leftarrow> get_option (get_id 96) bs;
     (thresholds, bs) \<leftarrow> get_elements get_threshold bs;
     (improvements, bs) \<leftarrow> get_elements get_improvement bs;
     (evidence, bs) \<leftarrow> get_elements get_requirement bs;
     (hold_down, bs) \<leftarrow> get_u64 bs;
     (cooldown, bs) \<leftarrow> get_u64 bs;
     (dampening, bs) \<leftarrow> get_dampening bs;
     (churn_max, bs) \<leftarrow> get_u32 bs;
     (churn_window, bs) \<leftarrow> get_u64 bs;
     (objective, bs) \<leftarrow> get_objective bs;
     (emergency, bs) \<leftarrow> get_emergency bs;
     (priorities, bs) \<leftarrow> get_elements get_priority bs;
     Some (\<lparr>ps_version = version, ps_target = \<lparr>pt_route = route, pt_multipath_set = multipath_set\<rparr>,
            ps_thresholds = thresholds, ps_improvements = improvements, ps_evidence = evidence,
            ps_hold_down = hold_down, ps_cooldown = cooldown, ps_dampening = dampening,
            ps_churn = \<lparr>cb_max_adaptations = churn_max, cb_window = churn_window\<rparr>,
            ps_objective = objective, ps_emergency = emergency, ps_priorities = priorities\<rparr>, bs)
   }"

definition body_fits :: "policy_semantics \<Rightarrow> bool" where
  "body_fits s \<longleftrightarrow> id_fits 96 (pt_route (ps_target s)) \<and> pred_option (id_fits 96) (pt_multipath_set (ps_target s))
     \<and> elements_ok threshold_fits (ps_thresholds s) \<and> elements_ok (\<lambda>_. True) (ps_improvements s)
     \<and> elements_ok er_valid (ps_evidence s) \<and> elements_ok (\<lambda>_. True) (os_terms (ps_objective s))
     \<and> elements_ok (\<lambda>p. id_fits 128 (cp_path p)) (ps_priorities s)"

lemma get_semantics_body_exact [wire_exact]:
  "get_semantics_body bs = Some (s, rest) \<longleftrightarrow> body_fits s \<and> bs = put_semantics_body s @ rest"
proof (cases s)
  case (fields version target thresholds improvements evidence hold cool dampening churn objective emergency priorities)
  then show ?thesis
    by (cases target; cases churn) (auto simp: get_semantics_body_def put_semantics_body_def body_fits_def read_steps wire_exact)
qed

definition put_semantics :: "policy_semantics \<Rightarrow> string" where
  "put_semantics = put_semantics_body"

definition get_semantics :: "policy_semantics reader" where
  "get_semantics bs = do {
     (s, bs) \<leftarrow> get_semantics_body bs;
     if ps_version s \<noteq> policy_semantics_version then None
     else if ps_valid s \<noteq> None then None
     else Some (s, bs)
   }"

definition semantics_fits :: "policy_semantics \<Rightarrow> bool" where
  "semantics_fits s \<longleftrightarrow> body_fits s \<and> ps_version s = policy_semantics_version \<and> ps_valid s = None"

lemma get_semantics_exact [wire_exact]:
  "get_semantics bs = Some (s, rest) \<longleftrightarrow> semantics_fits s \<and> bs = put_semantics s @ rest"
  by (auto simp: get_semantics_def put_semantics_def semantics_fits_def read_steps wire_exact)

end
