(* ===== verification/Wire_Tickets.thy ===== *)
theory Wire_Tickets
  imports Wire_Objects
begin

text \<open>
  Upstream bindings and notifications, evidence publications, candidate evaluations and evaluation
  tickets on the wire (\<^verbatim>\<open>src/wire.cpp\<close>).
\<close>

section \<open>Upstream bindings\<close>

definition put_provenance :: "upstream_provenance \<Rightarrow> string" where
  "put_provenance p = put_id (up_publisher p) @ put_id (up_worker_boot p) @ put_generation (up_epoch p)
     @ put_id (up_attempt p) @ put_string (up_origin p)"

definition get_provenance :: "upstream_provenance reader" where
  "get_provenance bs = do {
     (publisher, bs) \<leftarrow> get_id 64 bs;
     (boot, bs) \<leftarrow> get_id 64 bs;
     (epoch, bs) \<leftarrow> get_generation bs;
     (attempt, bs) \<leftarrow> get_id 64 bs;
     (origin, bs) \<leftarrow> get_string wire_max_string_bytes bs;
     Some (\<lparr>up_publisher = publisher, up_worker_boot = boot, up_epoch = epoch, up_attempt = attempt, up_origin = origin\<rparr>, bs)
   }"

definition provenance_fits :: "upstream_provenance \<Rightarrow> bool" where
  "provenance_fits p \<longleftrightarrow> id_fits 64 (up_publisher p) \<and> id_fits 64 (up_worker_boot p) \<and> gen_valid (up_epoch p)
     \<and> id_fits 64 (up_attempt p) \<and> text_ok (up_origin p)"

definition put_path_authority :: "path_authority_binding \<Rightarrow> string" where
  "put_path_authority b = put_id (pa_path b) @ put_generation (pa_generation b) @ put_bool (pa_legal b)
     @ put_string (pa_denial_reason b)"

definition get_path_authority :: "path_authority_binding reader" where
  "get_path_authority bs = do {
     (path, bs) \<leftarrow> get_id 128 bs;
     (generation, bs) \<leftarrow> get_generation bs;
     (legal, bs) \<leftarrow> get_bool bs;
     (reason, bs) \<leftarrow> get_string wire_max_string_bytes bs;
     Some (\<lparr>pa_path = path, pa_generation = generation, pa_legal = legal, pa_denial_reason = reason\<rparr>, bs)
   }"

definition path_authority_fits :: "path_authority_binding \<Rightarrow> bool" where
  "path_authority_fits b \<longleftrightarrow> id_fits 128 (pa_path b) \<and> gen_valid (pa_generation b) \<and> text_ok (pa_denial_reason b)"

definition put_multipath :: "multipath_binding \<Rightarrow> string" where
  "put_multipath b = put_id (mb_set b) @ put_generation (mb_generation b) @ put_bool (mb_current b)
     @ put_vector put_id (mb_members b)"

definition get_multipath :: "multipath_binding reader" where
  "get_multipath bs = do {
     (set, bs) \<leftarrow> get_id 96 bs;
     (generation, bs) \<leftarrow> get_generation bs;
     (current, bs) \<leftarrow> get_bool bs;
     (members, bs) \<leftarrow> get_elements (get_id 128) bs;
     Some (\<lparr>mb_set = set, mb_generation = generation, mb_members = members, mb_current = current\<rparr>, bs)
   }"

definition multipath_fits :: "multipath_binding \<Rightarrow> bool" where
  "multipath_fits b \<longleftrightarrow> id_fits 96 (mb_set b) \<and> gen_valid (mb_generation b) \<and> elements_ok (id_fits 128) (mb_members b)"

definition put_route :: "route_binding \<Rightarrow> string" where
  "put_route b = put_id (rb_route b) @ put_generation (rb_generation b) @ put_optional_id (rb_site b)
     @ put_bool (rb_current b) @ put_string (rb_state b)"

definition get_route :: "route_binding reader" where
  "get_route bs = do {
     (route, bs) \<leftarrow> get_id 96 bs;
     (generation, bs) \<leftarrow> get_generation bs;
     (site, bs) \<leftarrow> get_optional_id 64 bs;
     (current, bs) \<leftarrow> get_bool bs;
     (state, bs) \<leftarrow> get_string wire_max_string_bytes bs;
     Some (\<lparr>rb_route = route, rb_generation = generation, rb_site = site, rb_current = current, rb_state = state\<rparr>, bs)
   }"

definition route_fits :: "route_binding \<Rightarrow> bool" where
  "route_fits b \<longleftrightarrow> id_fits 96 (rb_route b) \<and> gen_valid (rb_generation b) \<and> (id_valid (rb_site b) \<longrightarrow> id_fits 64 (rb_site b))
     \<and> text_ok (rb_state b)"

definition put_weighted :: "weighted_policy_binding \<Rightarrow> string" where
  "put_weighted b = put_id (wb_set b) @ put_generation (wb_generation b) @ put_bool (wb_current b)"

definition get_weighted :: "weighted_policy_binding reader" where
  "get_weighted bs = do {
     (set, bs) \<leftarrow> get_id 96 bs;
     (generation, bs) \<leftarrow> get_generation bs;
     (current, bs) \<leftarrow> get_bool bs;
     Some (\<lparr>wb_set = set, wb_generation = generation, wb_current = current\<rparr>, bs)
   }"

definition weighted_fits :: "weighted_policy_binding \<Rightarrow> bool" where
  "weighted_fits b \<longleftrightarrow> id_fits 96 (wb_set b) \<and> gen_valid (wb_generation b)"

lemma get_provenance_exact [wire_exact]:
  "get_provenance bs = Some (p, rest) \<longleftrightarrow> provenance_fits p \<and> bs = put_provenance p @ rest"
  by (cases p) (auto simp: get_provenance_def put_provenance_def provenance_fits_def read_steps wire_exact)

lemma get_path_authority_exact [wire_exact]:
  "get_path_authority bs = Some (b, rest) \<longleftrightarrow> path_authority_fits b \<and> bs = put_path_authority b @ rest"
  by (cases b) (auto simp: get_path_authority_def put_path_authority_def path_authority_fits_def read_steps wire_exact)

lemma get_multipath_exact [wire_exact]:
  "get_multipath bs = Some (b, rest) \<longleftrightarrow> multipath_fits b \<and> bs = put_multipath b @ rest"
  by (cases b) (auto simp: get_multipath_def put_multipath_def multipath_fits_def read_steps wire_exact)

lemma get_route_exact [wire_exact]:
  "get_route bs = Some (b, rest) \<longleftrightarrow> route_fits b \<and> bs = put_route b @ rest"
  by (cases b) (auto simp: get_route_def put_route_def route_fits_def read_steps wire_exact)

lemma get_weighted_exact [wire_exact]:
  "get_weighted bs = Some (b, rest) \<longleftrightarrow> weighted_fits b \<and> bs = put_weighted b @ rest"
  by (cases b) (auto simp: get_weighted_def put_weighted_def weighted_fits_def read_steps wire_exact)

interpretation path_authority_code: wire_codec put_path_authority get_path_authority path_authority_fits
  by unfold_locales (simp add: get_path_authority_exact)

interpretation multipath_code: wire_codec put_multipath get_multipath multipath_fits
  by unfold_locales (simp add: get_multipath_exact)

interpretation weighted_code: wire_codec put_weighted get_weighted weighted_fits
  by unfold_locales (simp add: get_weighted_exact)

lemmas binding_part_exact [wire_exact] = path_authority_code.vector_exact multipath_code.option_exact weighted_code.option_exact

definition put_binding :: "candidate_binding \<Rightarrow> string" where
  "put_binding b = put_id (cd_path b) @ put_path_authority (cd_path_authority b) @ put_option put_multipath (cd_multipath b)
     @ put_route (cd_route b) @ put_option put_weighted (cd_weighted b) @ put_optional_id (cd_path_class b)
     @ put_bool (cd_available b) @ put_bool (cd_hard_failure b)"

definition get_binding :: "candidate_binding reader" where
  "get_binding bs = do {
     (path, bs) \<leftarrow> get_id 128 bs;
     (authority, bs) \<leftarrow> get_path_authority bs;
     (multipath, bs) \<leftarrow> get_option get_multipath bs;
     (route, bs) \<leftarrow> get_route bs;
     (weighted, bs) \<leftarrow> get_option get_weighted bs;
     (path_class, bs) \<leftarrow> get_optional_id 32 bs;
     (available, bs) \<leftarrow> get_bool bs;
     (hard_failure, bs) \<leftarrow> get_bool bs;
     let b = \<lparr>cd_path = path, cd_path_authority = authority, cd_multipath = multipath, cd_route = route,
              cd_weighted = weighted, cd_path_class = path_class, cd_available = available, cd_hard_failure = hard_failure\<rparr>;
     if \<not> cd_well_formed b then None else Some (b, bs)
   }"

definition binding_fits :: "candidate_binding \<Rightarrow> bool" where
  "binding_fits b \<longleftrightarrow> id_fits 128 (cd_path b) \<and> path_authority_fits (cd_path_authority b)
     \<and> pred_option multipath_fits (cd_multipath b) \<and> route_fits (cd_route b)
     \<and> pred_option weighted_fits (cd_weighted b) \<and> (id_valid (cd_path_class b) \<longrightarrow> id_fits 32 (cd_path_class b))
     \<and> cd_well_formed b"

lemma get_binding_exact [wire_exact]:
  "get_binding bs = Some (b, rest) \<longleftrightarrow> binding_fits b \<and> bs = put_binding b @ rest"
  by (cases b) (auto simp: get_binding_def put_binding_def binding_fits_def read_steps wire_exact)

section \<open>Publications and notifications\<close>

definition put_publication :: "evidence_publication \<Rightarrow> string" where
  "put_publication p = put_id (ep_source p) @ put_generation (ep_source_generation p)
     @ put_u8 (evidence_quality_raw (ep_quality p)) @ put_id (ep_path p) @ put_metric (ep_value p) @ put_u64 (ep_sequence p)"

definition get_publication :: "evidence_publication reader" where
  "get_publication bs = do {
     (source, bs) \<leftarrow> get_id 96 bs;
     (source_generation, bs) \<leftarrow> get_generation bs;
     (quality, bs) \<leftarrow> get_quality bs;
     (path, bs) \<leftarrow> get_id 128 bs;
     (v, bs) \<leftarrow> get_metric bs;
     (observation, bs) \<leftarrow> get_u64 bs;
     let p = \<lparr>ep_source = source, ep_source_generation = source_generation, ep_quality = quality, ep_path = path,
              ep_value = v, ep_sequence = observation\<rparr>;
     if \<not> ep_well_formed p then None else Some (p, bs)
   }"

definition publication_fits :: "evidence_publication \<Rightarrow> bool" where
  "publication_fits p \<longleftrightarrow> id_fits 96 (ep_source p) \<and> gen_valid (ep_source_generation p) \<and> id_fits 128 (ep_path p)
     \<and> mv_ok (ep_value p) \<and> ep_well_formed p"

lemma get_publication_exact [wire_exact]:
  "get_publication bs = Some (p, rest) \<longleftrightarrow> publication_fits p \<and> bs = put_publication p @ rest"
  by (cases p) (auto simp: get_publication_def put_publication_def publication_fits_def read_steps wire_exact)

definition put_notification :: "upstream_notification \<Rightarrow> string" where
  "put_notification n = put_u8 (upstream_event_raw (un_event n)) @ put_id (un_policy n) @ put_binding (un_binding n)
     @ put_provenance (un_provenance n) @ put_option put_u64 (un_expected_previous n)"

definition get_notification :: "upstream_notification reader" where
  "get_notification bs = do {
     (event, bs) \<leftarrow> get_upstream_event bs;
     (policy, bs) \<leftarrow> get_id 96 bs;
     (binding, bs) \<leftarrow> get_binding bs;
     (provenance, bs) \<leftarrow> get_provenance bs;
     (expected, bs) \<leftarrow> get_option get_u64 bs;
     Some (\<lparr>un_event = event, un_policy = policy, un_binding = binding, un_provenance = provenance,
            un_expected_previous = expected\<rparr>, bs)
   }"

definition notification_fits :: "upstream_notification \<Rightarrow> bool" where
  "notification_fits n \<longleftrightarrow> id_fits 96 (un_policy n) \<and> binding_fits (un_binding n) \<and> provenance_fits (un_provenance n)"

lemma any_option [simp]: "pred_option (\<lambda>_. True) v"
  by (cases v) simp_all

lemma get_notification_exact [wire_exact]:
  "get_notification bs = Some (n, rest) \<longleftrightarrow> notification_fits n \<and> bs = put_notification n @ rest"
  by (cases n) (auto simp: get_notification_def put_notification_def notification_fits_def read_steps wire_exact)

interpretation publication_code: wire_codec put_publication get_publication publication_fits
  by unfold_locales (simp add: get_publication_exact)

interpretation notification_code: wire_codec put_notification get_notification notification_fits
  by unfold_locales (simp add: get_notification_exact)

lemmas message_vector_exact [wire_exact] = publication_code.vector_exact notification_code.vector_exact

section \<open>Candidate evaluations\<close>

definition put_candidate_evaluation :: "candidate_evaluation \<Rightarrow> string" where
  "put_candidate_evaluation e = put_id (ce_path e) @ put_bool (ce_eligible e) @ put_u8 (suppression_raw (ce_rejection e))
     @ put_u16 (outcome_raw (ce_rejection_outcome e)) @ put_u8 (evidence_quality_raw (ce_quality e))
     @ put_option put_u64 (ce_score e) @ put_vector put_metric (ce_metrics e) @ put_u32 (ce_priority e)
     @ put_bool (ce_current_preference e) @ put_bool (ce_previous_preference e) @ put_u32 (ce_required_improvement e)
     @ put_option put_u32 (ce_observed_improvement e)
     @ put_optional_generation (ce_path_authority_generation e) @ put_optional_generation (ce_route_generation e)
     @ put_optional_generation (ce_multipath_generation e)"

text \<open>The flag of the score is read before the enumerations are checked; both must be present, so the order does not show.\<close>

definition get_candidate_evaluation :: "candidate_evaluation reader" where
  "get_candidate_evaluation bs = do {
     (path, bs) \<leftarrow> get_id 128 bs;
     (eligible, bs) \<leftarrow> get_bool bs;
     (rejection, bs) \<leftarrow> get_suppression bs;
     (rejection_outcome, bs) \<leftarrow> get_outcome bs;
     (quality, bs) \<leftarrow> get_quality bs;
     (score, bs) \<leftarrow> get_option get_u64 bs;
     (metrics, bs) \<leftarrow> get_elements get_metric bs;
     (priority, bs) \<leftarrow> get_u32 bs;
     (current, bs) \<leftarrow> get_bool bs;
     (previous, bs) \<leftarrow> get_bool bs;
     (required, bs) \<leftarrow> get_u32 bs;
     (observed, bs) \<leftarrow> get_option get_u32 bs;
     (authority_generation, bs) \<leftarrow> get_optional_generation bs;
     (route_generation, bs) \<leftarrow> get_optional_generation bs;
     (multipath_generation, bs) \<leftarrow> get_optional_generation bs;
     Some (\<lparr>ce_path = path, ce_eligible = eligible, ce_rejection = rejection, ce_rejection_outcome = rejection_outcome,
            ce_quality = quality, ce_score = score, ce_metrics = metrics, ce_priority = priority,
            ce_current_preference = current, ce_previous_preference = previous, ce_required_improvement = required,
            ce_observed_improvement = observed, ce_path_authority_generation = authority_generation,
            ce_multipath_generation = multipath_generation, ce_route_generation = route_generation\<rparr>, bs)
   }"

definition candidate_evaluation_fits :: "candidate_evaluation \<Rightarrow> bool" where
  "candidate_evaluation_fits e \<longleftrightarrow> id_fits 128 (ce_path e) \<and> elements_ok mv_ok (ce_metrics e)"

lemma get_candidate_evaluation_exact [wire_exact]:
  "get_candidate_evaluation bs = Some (e, rest) \<longleftrightarrow> candidate_evaluation_fits e \<and> bs = put_candidate_evaluation e @ rest"
  by (cases e) (auto simp: get_candidate_evaluation_def put_candidate_evaluation_def candidate_evaluation_fits_def read_steps wire_exact)

interpretation evaluation_code: wire_codec put_candidate_evaluation get_candidate_evaluation candidate_evaluation_fits
  by unfold_locales (simp add: get_candidate_evaluation_exact)

lemmas evaluation_vector_exact [wire_exact] = evaluation_code.vector_exact

section \<open>Evaluation tickets\<close>

definition put_dependencies :: "dependency_snapshot \<Rightarrow> string" where
  "put_dependencies d = put_id (ds_evaluation d) @ put_id (ds_policy d) @ put_generation (ds_policy_generation d)
     @ put_generation (ds_evidence_generation d) @ put_watermark (ds_evidence_watermark d)
     @ put_watermark (ds_upstream_watermark d) @ put_generation (ds_epoch d) @ put_generation (ds_authority_generation d)
     @ put_optional_generation (ds_route_generation d) @ put_option put_id (ds_multipath_set d)
     @ put_optional_generation (ds_multipath_generation d)
     @ put_vector put_path_authority (ds_candidate_path_authority d)
     @ put_vector put_u64 (ds_candidate_path_watermarks d) @ put_vector put_id (ds_candidates d) @ put_u64 (ds_captured_at d)"

definition get_dependencies :: "dependency_snapshot reader" where
  "get_dependencies bs = do {
     (evaluation, bs) \<leftarrow> get_id 64 bs;
     (policy, bs) \<leftarrow> get_id 96 bs;
     (policy_generation, bs) \<leftarrow> get_generation bs;
     (evidence_generation, bs) \<leftarrow> get_generation bs;
     (evidence_watermark, bs) \<leftarrow> get_watermark bs;
     (upstream_watermark, bs) \<leftarrow> get_watermark bs;
     (epoch, bs) \<leftarrow> get_generation bs;
     (authority_generation, bs) \<leftarrow> get_generation bs;
     (route_generation, bs) \<leftarrow> get_optional_generation bs;
     (multipath_set, bs) \<leftarrow> get_option (get_id 96) bs;
     (multipath_generation, bs) \<leftarrow> get_optional_generation bs;
     (authorities, bs) \<leftarrow> get_elements get_path_authority bs;
     (watermarks, bs) \<leftarrow> get_elements get_u64 bs;
     (candidates, bs) \<leftarrow> get_elements (get_id 128) bs;
     (captured_at, bs) \<leftarrow> get_u64 bs;
     Some (\<lparr>ds_evaluation = evaluation, ds_policy = policy, ds_policy_generation = policy_generation,
            ds_evidence_generation = evidence_generation, ds_evidence_watermark = evidence_watermark,
            ds_upstream_watermark = upstream_watermark, ds_epoch = epoch, ds_authority_generation = authority_generation,
            ds_route_generation = route_generation, ds_multipath_set = multipath_set,
            ds_multipath_generation = multipath_generation, ds_candidate_path_authority = authorities,
            ds_candidate_path_watermarks = watermarks, ds_candidates = candidates, ds_captured_at = captured_at\<rparr>, bs)
   }"

definition dependencies_fit :: "dependency_snapshot \<Rightarrow> bool" where
  "dependencies_fit d \<longleftrightarrow> id_fits 64 (ds_evaluation d) \<and> id_fits 96 (ds_policy d) \<and> gen_valid (ds_policy_generation d)
     \<and> gen_valid (ds_evidence_generation d) \<and> gen_valid (ds_epoch d) \<and> gen_valid (ds_authority_generation d)
     \<and> pred_option (id_fits 96) (ds_multipath_set d)
     \<and> elements_ok path_authority_fits (ds_candidate_path_authority d)
     \<and> elements_ok (\<lambda>_. True) (ds_candidate_path_watermarks d) \<and> elements_ok (id_fits 128) (ds_candidates d)"

lemma get_dependencies_exact [wire_exact]:
  "get_dependencies bs = Some (d, rest) \<longleftrightarrow> dependencies_fit d \<and> bs = put_dependencies d @ rest"
  by (cases d) (auto simp: get_dependencies_def put_dependencies_def dependencies_fit_def read_steps wire_exact)

definition put_path_weight :: "path_weight \<Rightarrow> string" where
  "put_path_weight w = put_id (pw_path w) @ put_u32 (pw_weight_bps w)"

definition get_path_weight :: "path_weight reader" where
  "get_path_weight bs = do {
     (path, bs) \<leftarrow> get_id 128 bs;
     (weight, bs) \<leftarrow> get_u32 bs;
     Some (\<lparr>pw_path = path, pw_weight_bps = weight\<rparr>, bs)
   }"

lemma get_path_weight_exact [wire_exact]:
  "get_path_weight bs = Some (w, rest) \<longleftrightarrow> id_fits 128 (pw_path w) \<and> bs = put_path_weight w @ rest"
  by (cases w) (auto simp: get_path_weight_def put_path_weight_def read_steps wire_exact)

interpretation path_weight_code: wire_codec put_path_weight get_path_weight "\<lambda>w. id_fits 128 (pw_path w)"
  by unfold_locales (simp add: get_path_weight_exact)

lemmas weight_vector_exact [wire_exact] = path_weight_code.vector_exact

definition put_weight_proposal :: "weight_proposal \<Rightarrow> string" where
  "put_weight_proposal p = put_id (wp_set p) @ put_generation (wp_base_generation p) @ put_vector put_path_weight (wp_weights p)"

definition get_weight_proposal :: "weight_proposal reader" where
  "get_weight_proposal bs = do {
     (set, bs) \<leftarrow> get_id 96 bs;
     (base, bs) \<leftarrow> get_generation bs;
     (weights, bs) \<leftarrow> get_elements get_path_weight bs;
     let p = \<lparr>wp_set = set, wp_base_generation = base, wp_weights = weights\<rparr>;
     if \<not> wp_well_formed p then None else Some (p, bs)
   }"

definition weight_proposal_fits :: "weight_proposal \<Rightarrow> bool" where
  "weight_proposal_fits p \<longleftrightarrow> id_fits 96 (wp_set p) \<and> gen_valid (wp_base_generation p)
     \<and> elements_ok (\<lambda>w. id_fits 128 (pw_path w)) (wp_weights p) \<and> wp_well_formed p"

lemma get_weight_proposal_exact [wire_exact]:
  "get_weight_proposal bs = Some (p, rest) \<longleftrightarrow> weight_proposal_fits p \<and> bs = put_weight_proposal p @ rest"
  by (cases p) (auto simp: get_weight_proposal_def put_weight_proposal_def weight_proposal_fits_def read_steps wire_exact)

interpretation weight_proposal_code: wire_codec put_weight_proposal get_weight_proposal weight_proposal_fits
  by unfold_locales (simp add: get_weight_proposal_exact)

lemmas weight_proposal_option_exact [wire_exact] = weight_proposal_code.option_exact

definition put_ticket :: "evaluation_ticket \<Rightarrow> string" where
  "put_ticket t = put_dependencies (et_dependencies t)
     @ put_u8 (decision_lifecycle_raw (et_lifecycle t)) @ put_optional_id (et_decision t)
     @ put_optional_id (et_evidence_snapshot t) @ put_u16 (outcome_raw (et_outcome t))
     @ put_u8 (suppression_raw (et_suppression t)) @ put_string (et_detail t)
     @ put_optional_id (et_current_preference t) @ put_optional_id (et_target_preference t)
     @ put_optional_generation (et_target_authority_generation t) @ put_optional_generation (et_adaptation_generation t)
     @ put_optional_generation (et_transition_generation t) @ put_option put_u64 (et_target_score t)
     @ put_option put_u32 (et_improvement_bps t) @ put_u32 (et_required_improvement_bps t)
     @ put_option put_weight_proposal (et_weight_proposal t) @ put_bool (et_rollback t) @ put_bool (et_emergency t)
     @ put_vector put_candidate_evaluation (et_ranking t) @ put_u64 (et_evaluated_at t)"

text \<open>\<open>get_ticket\<close> is the reading part of \<^verbatim>\<open>decode_ticket\<close>, \<open>decode_ticket\<close> adds its final \<^verbatim>\<open>finished()\<close>.\<close>

definition get_ticket :: "evaluation_ticket reader" where
  "get_ticket bs = do {
     (dependencies, bs) \<leftarrow> get_dependencies bs;
     (lifecycle, bs) \<leftarrow> get_decision_lifecycle bs;
     (decision, bs) \<leftarrow> get_optional_id 96 bs;
     (snapshot, bs) \<leftarrow> get_optional_id 96 bs;
     (outcome, bs) \<leftarrow> get_outcome bs;
     (suppression, bs) \<leftarrow> get_suppression bs;
     (detail, bs) \<leftarrow> get_string wire_max_string_bytes bs;
     (current, bs) \<leftarrow> get_optional_id 128 bs;
     (target, bs) \<leftarrow> get_optional_id 128 bs;
     (target_authority, bs) \<leftarrow> get_optional_generation bs;
     (adaptation, bs) \<leftarrow> get_optional_generation bs;
     (transition, bs) \<leftarrow> get_optional_generation bs;
     (score, bs) \<leftarrow> get_option get_u64 bs;
     (improvement, bs) \<leftarrow> get_option get_u32 bs;
     (required, bs) \<leftarrow> get_u32 bs;
     (proposal, bs) \<leftarrow> get_option get_weight_proposal bs;
     (rollback, bs) \<leftarrow> get_bool bs;
     (emergency, bs) \<leftarrow> get_bool bs;
     (ranking, bs) \<leftarrow> get_elements get_candidate_evaluation bs;
     (evaluated_at, bs) \<leftarrow> get_u64 bs;
     Some (\<lparr>et_dependencies = dependencies, et_lifecycle = lifecycle, et_decision = decision, et_evidence_snapshot = snapshot,
            et_outcome = outcome, et_suppression = suppression, et_detail = detail, et_current_preference = current,
            et_target_preference = target, et_target_authority_generation = target_authority,
            et_adaptation_generation = adaptation, et_transition_generation = transition, et_target_score = score,
            et_improvement_bps = improvement, et_required_improvement_bps = required, et_weight_proposal = proposal,
            et_rollback = rollback, et_emergency = emergency, et_ranking = ranking, et_evaluated_at = evaluated_at\<rparr>, bs)
   }"

definition decode_ticket :: "evaluation_ticket reader" where
  "decode_ticket bs = do { (t, bs) \<leftarrow> get_ticket bs; if bs \<noteq> [] then None else Some (t, bs) }"

definition ticket_fits :: "evaluation_ticket \<Rightarrow> bool" where
  "ticket_fits t \<longleftrightarrow> dependencies_fit (et_dependencies t)
     \<and> (id_valid (et_decision t) \<longrightarrow> id_fits 96 (et_decision t))
     \<and> (id_valid (et_evidence_snapshot t) \<longrightarrow> id_fits 96 (et_evidence_snapshot t)) \<and> text_ok (et_detail t)
     \<and> (id_valid (et_current_preference t) \<longrightarrow> id_fits 128 (et_current_preference t))
     \<and> (id_valid (et_target_preference t) \<longrightarrow> id_fits 128 (et_target_preference t))
     \<and> pred_option weight_proposal_fits (et_weight_proposal t)
     \<and> elements_ok candidate_evaluation_fits (et_ranking t)"

lemma get_ticket_exact: "get_ticket bs = Some (t, rest) \<longleftrightarrow> ticket_fits t \<and> bs = put_ticket t @ rest"
  by (cases t) (auto simp: get_ticket_def put_ticket_def ticket_fits_def read_steps wire_exact)

lemma decode_ticket_exact: "decode_ticket bs = Some (t, rest) \<longleftrightarrow> ticket_fits t \<and> bs = put_ticket t \<and> rest = []"
  by (auto simp: decode_ticket_def read_steps get_ticket_exact)

end
