(* ===== verification/Messages.thy ===== *)
theory Messages
  imports Wire_Tickets View
begin

text \<open>
  The payload messages of the wire protocol (\<^verbatim>\<open>include/adaptive_routing/wire.hpp\<close>, \<^verbatim>\<open>src/wire.cpp\<close>).  Each
  message has its struct, its \<^verbatim>\<open>encode\<close> and its \<^verbatim>\<open>decode\<close>; a \<open>get_\<close> function is the reading part of a
  \<^verbatim>\<open>decode\<close>, which then demands that the payload is used up (\<open>whole\<close>).  Where a message is a single
  element (a scope, a policy identity) the struct is that element.
\<close>

record hello_message =
  hm_wire_version :: u16
  hm_product :: string
  hm_epoch :: coordinator_epoch
  hm_authority_generation :: adaptive_authority_generation

record register_message =
  rm_publisher :: publisher_id
  rm_worker_boot :: worker_boot_id
  rm_scope :: authority_scope

record fence_message =
  fm_publisher :: publisher_id
  fm_worker_boot :: worker_boot_id
  fm_cause :: string

record create_message =
  cm_name :: policy_name
  cm_scope :: policy_scope
  cm_semantics :: policy_semantics

record update_message =
  um_policy :: policy_id
  um_scope :: policy_scope
  um_semantics :: policy_semantics

record lifecycle_message =
  lm_policy :: policy_id
  lm_event :: policy_event
  lm_detail :: string

record revoke_message =
  vm_policy :: policy_id
  vm_reason :: revocation_reason
  vm_detail :: string

record evaluate_message =
  em_policy :: policy_id
  em_defer_commit :: bool

record revalidate_message =
  dm_policy :: policy_id
  dm_attempt :: revalidation_attempt_id

record rollback_message =
  bm_policy :: policy_id
  bm_reason :: string

record query_message =
  qm_policy :: policy_id
  qm_limit :: u64

record snapshot_response_message =
  sm_snapshot :: snapshot_id
  sm_policy :: policy_id
  sm_digest :: string
  sm_rendered :: string

record explain_message =
  xm_topic :: explanation_topic
  xm_policy :: policy_id

record diff_message =
  im_policy :: policy_id
  im_from :: snapshot_id
  im_to :: snapshot_id

record result_message =
  tm_outcome :: outcome
  tm_suppression :: suppression_reason
  tm_detail :: string
  tm_policy :: policy_id
  tm_policy_generation :: policy_generation
  tm_decision :: decision_id
  tm_adaptation_generation :: adaptation_generation
  tm_transition_generation :: transition_generation
  tm_evidence_generation :: evidence_generation
  tm_epoch :: coordinator_epoch
  tm_rendered :: string

record error_message =
  om_outcome :: outcome
  om_detail :: string

section \<open>Session messages\<close>

definition encode_hello :: "hello_message \<Rightarrow> string" where
  "encode_hello m = put_u16 (hm_wire_version m) @ put_string (hm_product m) @ put_generation (hm_epoch m)
     @ put_generation (hm_authority_generation m)"

definition get_hello :: "hello_message reader" where
  "get_hello bs = do {
     (version, bs) \<leftarrow> get_u16 bs;
     (product, bs) \<leftarrow> get_string wire_max_string_bytes bs;
     (epoch, bs) \<leftarrow> get_generation bs;
     (authority, bs) \<leftarrow> get_generation bs;
     Some (\<lparr>hm_wire_version = version, hm_product = product, hm_epoch = epoch, hm_authority_generation = authority\<rparr>, bs)
   }"

definition decode_hello :: "string \<Rightarrow> hello_message option" where "decode_hello = whole get_hello"

definition encode_register :: "register_message \<Rightarrow> string" where
  "encode_register m = put_id (rm_publisher m) @ put_id (rm_worker_boot m) @ put_authority_scope (rm_scope m)"

definition get_register :: "register_message reader" where
  "get_register bs = do {
     (publisher, bs) \<leftarrow> get_id 64 bs;
     (boot, bs) \<leftarrow> get_id 64 bs;
     (scope, bs) \<leftarrow> get_authority_scope bs;
     Some (\<lparr>rm_publisher = publisher, rm_worker_boot = boot, rm_scope = scope\<rparr>, bs)
   }"

definition decode_register :: "string \<Rightarrow> register_message option" where "decode_register = whole get_register"

definition encode_fence :: "fence_message \<Rightarrow> string" where
  "encode_fence m = put_id (fm_publisher m) @ put_id (fm_worker_boot m) @ put_string (fm_cause m)"

definition get_fence :: "fence_message reader" where
  "get_fence bs = do {
     (publisher, bs) \<leftarrow> get_id 64 bs;
     (boot, bs) \<leftarrow> get_id 64 bs;
     (cause, bs) \<leftarrow> get_string wire_max_string_bytes bs;
     Some (\<lparr>fm_publisher = publisher, fm_worker_boot = boot, fm_cause = cause\<rparr>, bs)
   }"

definition decode_fence :: "string \<Rightarrow> fence_message option" where "decode_fence = whole get_fence"

definition encode_advance_epoch :: "string \<Rightarrow> string" where "encode_advance_epoch reason = put_string reason"

definition decode_advance_epoch :: "string \<Rightarrow> string option" where
  "decode_advance_epoch = whole (get_string wire_max_string_bytes)"

section \<open>Policy messages\<close>

definition encode_create :: "create_message \<Rightarrow> string" where
  "encode_create m = put_id (cm_name m) @ put_scope (cm_scope m) @ put_semantics (cm_semantics m)"

definition get_create :: "create_message reader" where
  "get_create bs = do {
     (name, bs) \<leftarrow> get_id 64 bs;
     (scope, bs) \<leftarrow> get_scope bs;
     (semantics, bs) \<leftarrow> get_semantics bs;
     Some (\<lparr>cm_name = name, cm_scope = scope, cm_semantics = semantics\<rparr>, bs)
   }"

definition decode_create :: "string \<Rightarrow> create_message option" where "decode_create = whole get_create"

definition encode_update :: "update_message \<Rightarrow> string" where
  "encode_update m = put_id (um_policy m) @ put_scope (um_scope m) @ put_semantics (um_semantics m)"

definition get_update :: "update_message reader" where
  "get_update bs = do {
     (policy, bs) \<leftarrow> get_id 96 bs;
     (scope, bs) \<leftarrow> get_scope bs;
     (semantics, bs) \<leftarrow> get_semantics bs;
     Some (\<lparr>um_policy = policy, um_scope = scope, um_semantics = semantics\<rparr>, bs)
   }"

definition decode_update :: "string \<Rightarrow> update_message option" where "decode_update = whole get_update"

definition encode_lifecycle :: "lifecycle_message \<Rightarrow> string" where
  "encode_lifecycle m = put_id (lm_policy m) @ put_u8 (policy_event_raw (lm_event m)) @ put_string (lm_detail m)"

definition get_lifecycle :: "lifecycle_message reader" where
  "get_lifecycle bs = do {
     (policy, bs) \<leftarrow> get_id 96 bs;
     (event, bs) \<leftarrow> get_policy_event bs;
     (detail, bs) \<leftarrow> get_string wire_max_string_bytes bs;
     Some (\<lparr>lm_policy = policy, lm_event = event, lm_detail = detail\<rparr>, bs)
   }"

definition decode_lifecycle :: "string \<Rightarrow> lifecycle_message option" where "decode_lifecycle = whole get_lifecycle"

definition encode_revoke :: "revoke_message \<Rightarrow> string" where
  "encode_revoke m = put_id (vm_policy m) @ put_u8 (revocation_reason_raw (vm_reason m)) @ put_string (vm_detail m)"

definition get_revoke :: "revoke_message reader" where
  "get_revoke bs = do {
     (policy, bs) \<leftarrow> get_id 96 bs;
     (reason, bs) \<leftarrow> get_revocation_reason bs;
     (detail, bs) \<leftarrow> get_string wire_max_string_bytes bs;
     Some (\<lparr>vm_policy = policy, vm_reason = reason, vm_detail = detail\<rparr>, bs)
   }"

definition decode_revoke :: "string \<Rightarrow> revoke_message option" where "decode_revoke = whole get_revoke"

section \<open>Data-plane messages\<close>

definition encode_notify :: "upstream_notification list \<Rightarrow> string" where
  "encode_notify ns = put_vector put_notification ns"

definition decode_notify :: "string \<Rightarrow> upstream_notification list option" where
  "decode_notify = whole (get_elements get_notification)"

definition encode_publish :: "evidence_publication list \<Rightarrow> string" where
  "encode_publish ps = put_vector put_publication ps"

definition decode_publish :: "string \<Rightarrow> evidence_publication list option" where
  "decode_publish = whole (get_elements get_publication)"

definition encode_evaluate :: "evaluate_message \<Rightarrow> string" where
  "encode_evaluate m = put_id (em_policy m) @ put_bool (em_defer_commit m)"

definition get_evaluate :: "evaluate_message reader" where
  "get_evaluate bs = do {
     (policy, bs) \<leftarrow> get_id 96 bs;
     (deferred, bs) \<leftarrow> get_bool bs;
     Some (\<lparr>em_policy = policy, em_defer_commit = deferred\<rparr>, bs)
   }"

definition decode_evaluate :: "string \<Rightarrow> evaluate_message option" where "decode_evaluate = whole get_evaluate"

definition encode_commit :: "evaluation_ticket \<Rightarrow> string" where "encode_commit t = put_ticket t"

definition decode_commit :: "string \<Rightarrow> evaluation_ticket option" where "decode_commit = whole decode_ticket"

definition encode_revalidate :: "revalidate_message \<Rightarrow> string" where
  "encode_revalidate m = put_id (dm_policy m) @ put_id (dm_attempt m)"

definition get_revalidate :: "revalidate_message reader" where
  "get_revalidate bs = do {
     (policy, bs) \<leftarrow> get_id 96 bs;
     (attempt, bs) \<leftarrow> get_id 64 bs;
     Some (\<lparr>dm_policy = policy, dm_attempt = attempt\<rparr>, bs)
   }"

definition decode_revalidate :: "string \<Rightarrow> revalidate_message option" where "decode_revalidate = whole get_revalidate"

definition encode_rollback :: "rollback_message \<Rightarrow> string" where
  "encode_rollback m = put_id (bm_policy m) @ put_string (bm_reason m)"

definition get_rollback :: "rollback_message reader" where
  "get_rollback bs = do {
     (policy, bs) \<leftarrow> get_id 96 bs;
     (reason, bs) \<leftarrow> get_string wire_max_string_bytes bs;
     Some (\<lparr>bm_policy = policy, bm_reason = reason\<rparr>, bs)
   }"

definition decode_rollback :: "string \<Rightarrow> rollback_message option" where "decode_rollback = whole get_rollback"

section \<open>Query messages\<close>

definition encode_query :: "query_message \<Rightarrow> string" where
  "encode_query m = put_optional_id (qm_policy m) @ put_u64 (qm_limit m)"

definition get_query :: "query_message reader" where
  "get_query bs = do {
     (policy, bs) \<leftarrow> get_optional_id 96 bs;
     (limit, bs) \<leftarrow> get_u64 bs;
     Some (\<lparr>qm_policy = policy, qm_limit = limit\<rparr>, bs)
   }"

definition decode_query :: "string \<Rightarrow> query_message option" where "decode_query = whole get_query"

definition encode_snapshot_request :: "policy_id \<Rightarrow> string" where "encode_snapshot_request p = put_id p"

definition decode_snapshot_request :: "string \<Rightarrow> policy_id option" where
  "decode_snapshot_request = whole (get_id 96)"

definition encode_snapshot_response :: "snapshot_response_message \<Rightarrow> string" where
  "encode_snapshot_response m = put_id (sm_snapshot m) @ put_id (sm_policy m) @ put_string (sm_digest m) @ put_string (sm_rendered m)"

definition get_snapshot_response :: "snapshot_response_message reader" where
  "get_snapshot_response bs = do {
     (snapshot, bs) \<leftarrow> get_id 96 bs;
     (policy, bs) \<leftarrow> get_id 96 bs;
     (text, bs) \<leftarrow> get_string wire_max_string_bytes bs;
     (rendered, bs) \<leftarrow> get_string wire_max_string_bytes bs;
     Some (\<lparr>sm_snapshot = snapshot, sm_policy = policy, sm_digest = text, sm_rendered = rendered\<rparr>, bs)
   }"

definition decode_snapshot_response :: "string \<Rightarrow> snapshot_response_message option" where
  "decode_snapshot_response = whole get_snapshot_response"

definition get_explanation_topic :: "explanation_topic reader" where
  "get_explanation_topic = get_enum get_u8 valid_explanation_topic explanation_topic_raw all_explanation_topics"

definition encode_explain :: "explain_message \<Rightarrow> string" where
  "encode_explain m = put_u8 (explanation_topic_raw (xm_topic m)) @ put_id (xm_policy m)"

definition get_explain :: "explain_message reader" where
  "get_explain bs = do {
     (topic, bs) \<leftarrow> get_explanation_topic bs;
     (policy, bs) \<leftarrow> get_id 96 bs;
     Some (\<lparr>xm_topic = topic, xm_policy = policy\<rparr>, bs)
   }"

definition decode_explain :: "string \<Rightarrow> explain_message option" where "decode_explain = whole get_explain"

definition encode_diff :: "diff_message \<Rightarrow> string" where
  "encode_diff m = put_id (im_policy m) @ put_id (im_from m) @ put_id (im_to m)"

definition get_diff :: "diff_message reader" where
  "get_diff bs = do {
     (policy, bs) \<leftarrow> get_id 96 bs;
     (from, bs) \<leftarrow> get_id 96 bs;
     (to, bs) \<leftarrow> get_id 96 bs;
     Some (\<lparr>im_policy = policy, im_from = from, im_to = to\<rparr>, bs)
   }"

definition decode_diff :: "string \<Rightarrow> diff_message option" where "decode_diff = whole get_diff"

section \<open>Results\<close>

definition encode_result :: "result_message \<Rightarrow> string" where
  "encode_result m = put_u16 (outcome_raw (tm_outcome m)) @ put_u8 (suppression_raw (tm_suppression m))
     @ put_string (tm_detail m) @ put_optional_id (tm_policy m) @ put_optional_generation (tm_policy_generation m)
     @ put_optional_id (tm_decision m) @ put_optional_generation (tm_adaptation_generation m)
     @ put_optional_generation (tm_transition_generation m) @ put_optional_generation (tm_evidence_generation m)
     @ put_optional_generation (tm_epoch m) @ put_string (tm_rendered m)"

definition get_result :: "result_message reader" where
  "get_result bs = do {
     (outcome, bs) \<leftarrow> get_outcome bs;
     (suppression, bs) \<leftarrow> get_suppression bs;
     (detail, bs) \<leftarrow> get_string wire_max_string_bytes bs;
     (policy, bs) \<leftarrow> get_optional_id 96 bs;
     (policy_generation, bs) \<leftarrow> get_optional_generation bs;
     (decision, bs) \<leftarrow> get_optional_id 96 bs;
     (adaptation, bs) \<leftarrow> get_optional_generation bs;
     (transition, bs) \<leftarrow> get_optional_generation bs;
     (evidence, bs) \<leftarrow> get_optional_generation bs;
     (epoch, bs) \<leftarrow> get_optional_generation bs;
     (rendered, bs) \<leftarrow> get_string wire_max_string_bytes bs;
     Some (\<lparr>tm_outcome = outcome, tm_suppression = suppression, tm_detail = detail, tm_policy = policy,
            tm_policy_generation = policy_generation, tm_decision = decision, tm_adaptation_generation = adaptation,
            tm_transition_generation = transition, tm_evidence_generation = evidence, tm_epoch = epoch,
            tm_rendered = rendered\<rparr>, bs)
   }"

definition decode_result :: "string \<Rightarrow> result_message option" where "decode_result = whole get_result"

definition encode_error :: "error_message \<Rightarrow> string" where
  "encode_error m = put_u16 (outcome_raw (om_outcome m)) @ put_string (om_detail m)"

definition get_error :: "error_message reader" where
  "get_error bs = do {
     (outcome, bs) \<leftarrow> get_outcome bs;
     (detail, bs) \<leftarrow> get_string wire_max_string_bytes bs;
     Some (\<lparr>om_outcome = outcome, om_detail = detail\<rparr>, bs)
   }"

definition decode_error :: "string \<Rightarrow> error_message option" where "decode_error = whole get_error"

section \<open>What the decoders accept\<close>

text \<open>The admissible messages: the values the decoder of the message can return.\<close>

definition hello_fits :: "hello_message \<Rightarrow> bool" where
  "hello_fits m \<longleftrightarrow> text_ok (hm_product m) \<and> gen_valid (hm_epoch m) \<and> gen_valid (hm_authority_generation m)"

definition register_fits :: "register_message \<Rightarrow> bool" where
  "register_fits m \<longleftrightarrow> id_fits 64 (rm_publisher m) \<and> id_fits 64 (rm_worker_boot m) \<and> authority_scope_fits (rm_scope m)"

definition fence_fits :: "fence_message \<Rightarrow> bool" where
  "fence_fits m \<longleftrightarrow> id_fits 64 (fm_publisher m) \<and> id_fits 64 (fm_worker_boot m) \<and> text_ok (fm_cause m)"

definition create_fits :: "create_message \<Rightarrow> bool" where
  "create_fits m \<longleftrightarrow> id_fits 64 (cm_name m) \<and> scope_fits (cm_scope m) \<and> semantics_fits (cm_semantics m)"

definition update_fits :: "update_message \<Rightarrow> bool" where
  "update_fits m \<longleftrightarrow> id_fits 96 (um_policy m) \<and> scope_fits (um_scope m) \<and> semantics_fits (um_semantics m)"

definition lifecycle_fits :: "lifecycle_message \<Rightarrow> bool" where
  "lifecycle_fits m \<longleftrightarrow> id_fits 96 (lm_policy m) \<and> text_ok (lm_detail m)"

definition revoke_fits :: "revoke_message \<Rightarrow> bool" where
  "revoke_fits m \<longleftrightarrow> id_fits 96 (vm_policy m) \<and> text_ok (vm_detail m)"

definition evaluate_fits :: "evaluate_message \<Rightarrow> bool" where
  "evaluate_fits m \<longleftrightarrow> id_fits 96 (em_policy m)"

definition revalidate_fits :: "revalidate_message \<Rightarrow> bool" where
  "revalidate_fits m \<longleftrightarrow> id_fits 96 (dm_policy m) \<and> id_fits 64 (dm_attempt m)"

definition rollback_fits :: "rollback_message \<Rightarrow> bool" where
  "rollback_fits m \<longleftrightarrow> id_fits 96 (bm_policy m) \<and> text_ok (bm_reason m)"

definition query_fits :: "query_message \<Rightarrow> bool" where
  "query_fits m \<longleftrightarrow> (id_valid (qm_policy m) \<longrightarrow> id_fits 96 (qm_policy m))"

definition snapshot_response_fits :: "snapshot_response_message \<Rightarrow> bool" where
  "snapshot_response_fits m \<longleftrightarrow> id_fits 96 (sm_snapshot m) \<and> id_fits 96 (sm_policy m) \<and> text_ok (sm_digest m) \<and> text_ok (sm_rendered m)"

definition explain_fits :: "explain_message \<Rightarrow> bool" where
  "explain_fits m \<longleftrightarrow> id_fits 96 (xm_policy m)"

definition diff_fits :: "diff_message \<Rightarrow> bool" where
  "diff_fits m \<longleftrightarrow> id_fits 96 (im_policy m) \<and> id_fits 96 (im_from m) \<and> id_fits 96 (im_to m)"

definition result_fits :: "result_message \<Rightarrow> bool" where
  "result_fits m \<longleftrightarrow> text_ok (tm_detail m) \<and> (id_valid (tm_policy m) \<longrightarrow> id_fits 96 (tm_policy m))
     \<and> (id_valid (tm_decision m) \<longrightarrow> id_fits 96 (tm_decision m)) \<and> text_ok (tm_rendered m)"

definition error_fits :: "error_message \<Rightarrow> bool" where
  "error_fits m \<longleftrightarrow> text_ok (om_detail m)"

interpretation explanation_topic_code: enum_codec put_u8 get_u8 valid_explanation_topic explanation_topic_raw all_explanation_topics
  by unfold_locales (simp_all add: valid_explanation_topic_def explanation_topic_raw_def all_explanation_topics_def split: explanation_topic.splits)

lemmas get_explanation_topic_exact [wire_exact] = explanation_topic_code.enum_exact[folded get_explanation_topic_def]

interpretation hello_code: wire_codec encode_hello get_hello hello_fits
proof
  show "get_hello bs = Some (m, rest) \<longleftrightarrow> hello_fits m \<and> bs = encode_hello m @ rest" for bs m rest
    by (cases m) (auto simp: get_hello_def encode_hello_def hello_fits_def read_steps wire_exact)
qed

interpretation register_code: wire_codec encode_register get_register register_fits
proof
  show "get_register bs = Some (m, rest) \<longleftrightarrow> register_fits m \<and> bs = encode_register m @ rest" for bs m rest
    by (cases m) (auto simp: get_register_def encode_register_def register_fits_def read_steps wire_exact)
qed

interpretation fence_code: wire_codec encode_fence get_fence fence_fits
proof
  show "get_fence bs = Some (m, rest) \<longleftrightarrow> fence_fits m \<and> bs = encode_fence m @ rest" for bs m rest
    by (cases m) (auto simp: get_fence_def encode_fence_def fence_fits_def read_steps wire_exact)
qed

interpretation create_code: wire_codec encode_create get_create create_fits
proof
  show "get_create bs = Some (m, rest) \<longleftrightarrow> create_fits m \<and> bs = encode_create m @ rest" for bs m rest
    by (cases m) (auto simp: get_create_def encode_create_def create_fits_def read_steps wire_exact)
qed

interpretation update_code: wire_codec encode_update get_update update_fits
proof
  show "get_update bs = Some (m, rest) \<longleftrightarrow> update_fits m \<and> bs = encode_update m @ rest" for bs m rest
    by (cases m) (auto simp: get_update_def encode_update_def update_fits_def read_steps wire_exact)
qed

interpretation lifecycle_code: wire_codec encode_lifecycle get_lifecycle lifecycle_fits
proof
  show "get_lifecycle bs = Some (m, rest) \<longleftrightarrow> lifecycle_fits m \<and> bs = encode_lifecycle m @ rest" for bs m rest
    by (cases m) (auto simp: get_lifecycle_def encode_lifecycle_def lifecycle_fits_def read_steps wire_exact)
qed

interpretation revoke_code: wire_codec encode_revoke get_revoke revoke_fits
proof
  show "get_revoke bs = Some (m, rest) \<longleftrightarrow> revoke_fits m \<and> bs = encode_revoke m @ rest" for bs m rest
    by (cases m) (auto simp: get_revoke_def encode_revoke_def revoke_fits_def read_steps wire_exact)
qed

interpretation evaluate_code: wire_codec encode_evaluate get_evaluate evaluate_fits
proof
  show "get_evaluate bs = Some (m, rest) \<longleftrightarrow> evaluate_fits m \<and> bs = encode_evaluate m @ rest" for bs m rest
    by (cases m) (auto simp: get_evaluate_def encode_evaluate_def evaluate_fits_def read_steps wire_exact)
qed

interpretation revalidate_code: wire_codec encode_revalidate get_revalidate revalidate_fits
proof
  show "get_revalidate bs = Some (m, rest) \<longleftrightarrow> revalidate_fits m \<and> bs = encode_revalidate m @ rest" for bs m rest
    by (cases m) (auto simp: get_revalidate_def encode_revalidate_def revalidate_fits_def read_steps wire_exact)
qed

interpretation rollback_code: wire_codec encode_rollback get_rollback rollback_fits
proof
  show "get_rollback bs = Some (m, rest) \<longleftrightarrow> rollback_fits m \<and> bs = encode_rollback m @ rest" for bs m rest
    by (cases m) (auto simp: get_rollback_def encode_rollback_def rollback_fits_def read_steps wire_exact)
qed

interpretation query_code: wire_codec encode_query get_query query_fits
proof
  show "get_query bs = Some (m, rest) \<longleftrightarrow> query_fits m \<and> bs = encode_query m @ rest" for bs m rest
    by (cases m) (auto simp: get_query_def encode_query_def query_fits_def read_steps wire_exact)
qed

interpretation snapshot_response_code: wire_codec encode_snapshot_response get_snapshot_response snapshot_response_fits
proof
  show "get_snapshot_response bs = Some (m, rest) \<longleftrightarrow> snapshot_response_fits m \<and> bs = encode_snapshot_response m @ rest" for bs m rest
    by (cases m) (auto simp: get_snapshot_response_def encode_snapshot_response_def snapshot_response_fits_def read_steps wire_exact)
qed

interpretation explain_code: wire_codec encode_explain get_explain explain_fits
proof
  show "get_explain bs = Some (m, rest) \<longleftrightarrow> explain_fits m \<and> bs = encode_explain m @ rest" for bs m rest
    by (cases m) (auto simp: get_explain_def encode_explain_def explain_fits_def read_steps wire_exact)
qed

interpretation diff_code: wire_codec encode_diff get_diff diff_fits
proof
  show "get_diff bs = Some (m, rest) \<longleftrightarrow> diff_fits m \<and> bs = encode_diff m @ rest" for bs m rest
    by (cases m) (auto simp: get_diff_def encode_diff_def diff_fits_def read_steps wire_exact)
qed

interpretation result_code: wire_codec encode_result get_result result_fits
proof
  show "get_result bs = Some (m, rest) \<longleftrightarrow> result_fits m \<and> bs = encode_result m @ rest" for bs m rest
    by (cases m) (auto simp: get_result_def encode_result_def result_fits_def read_steps wire_exact)
qed

interpretation error_code: wire_codec encode_error get_error error_fits
proof
  show "get_error bs = Some (m, rest) \<longleftrightarrow> error_fits m \<and> bs = encode_error m @ rest" for bs m rest
    by (cases m) (auto simp: get_error_def encode_error_def error_fits_def read_steps wire_exact)
qed

interpretation commit_code: wire_codec encode_commit get_ticket ticket_fits
  by unfold_locales (simp add: get_ticket_exact encode_commit_def)

text \<open>
  C32: every payload decoder of the wire protocol accepts exactly the encodings of admissible messages.
  So a message that is sent is received unchanged, no payload has two readings, no message two
  encodings, a truncated payload or one with trailing bytes is refused, and nothing a decoder returns
  exceeds the bounds on strings and vectors or carries an identity, generation, scope, metric or policy
  semantics the engine would not accept as well formed.
\<close>

theorem payload_codecs_are_exact:
  "(decode_hello payload = Some m1 \<longleftrightarrow> hello_fits m1 \<and> payload = encode_hello m1)
   \<and> (decode_register payload = Some m2 \<longleftrightarrow> register_fits m2 \<and> payload = encode_register m2)
   \<and> (decode_fence payload = Some m3 \<longleftrightarrow> fence_fits m3 \<and> payload = encode_fence m3)
   \<and> (decode_create payload = Some m4 \<longleftrightarrow> create_fits m4 \<and> payload = encode_create m4)
   \<and> (decode_update payload = Some m5 \<longleftrightarrow> update_fits m5 \<and> payload = encode_update m5)
   \<and> (decode_lifecycle payload = Some m6 \<longleftrightarrow> lifecycle_fits m6 \<and> payload = encode_lifecycle m6)
   \<and> (decode_revoke payload = Some m7 \<longleftrightarrow> revoke_fits m7 \<and> payload = encode_revoke m7)
   \<and> (decode_evaluate payload = Some m8 \<longleftrightarrow> evaluate_fits m8 \<and> payload = encode_evaluate m8)
   \<and> (decode_revalidate payload = Some m9 \<longleftrightarrow> revalidate_fits m9 \<and> payload = encode_revalidate m9)
   \<and> (decode_rollback payload = Some m10 \<longleftrightarrow> rollback_fits m10 \<and> payload = encode_rollback m10)
   \<and> (decode_query payload = Some m11 \<longleftrightarrow> query_fits m11 \<and> payload = encode_query m11)
   \<and> (decode_snapshot_response payload = Some m12 \<longleftrightarrow> snapshot_response_fits m12 \<and> payload = encode_snapshot_response m12)
   \<and> (decode_explain payload = Some m13 \<longleftrightarrow> explain_fits m13 \<and> payload = encode_explain m13)
   \<and> (decode_diff payload = Some m14 \<longleftrightarrow> diff_fits m14 \<and> payload = encode_diff m14)
   \<and> (decode_result payload = Some m15 \<longleftrightarrow> result_fits m15 \<and> payload = encode_result m15)
   \<and> (decode_error payload = Some m16 \<longleftrightarrow> error_fits m16 \<and> payload = encode_error m16)
   \<and> (decode_notify payload = Some ns \<longleftrightarrow> elements_ok notification_fits ns \<and> payload = encode_notify ns)
   \<and> (decode_publish payload = Some ps \<longleftrightarrow> elements_ok publication_fits ps \<and> payload = encode_publish ps)
   \<and> (decode_commit payload = Some t \<longleftrightarrow> ticket_fits t \<and> payload = encode_commit t)
   \<and> (decode_snapshot_request payload = Some p \<longleftrightarrow> id_fits 96 p \<and> payload = encode_snapshot_request p)
   \<and> (decode_advance_epoch payload = Some reason \<longleftrightarrow> text_ok reason \<and> payload = encode_advance_epoch reason)"
proof -
  have "decode_commit payload = Some t \<longleftrightarrow> ticket_fits t \<and> payload = encode_commit t"
    by (auto simp: decode_commit_def whole_def read_steps decode_ticket_exact encode_commit_def)
  moreover have "decode_advance_epoch payload = Some reason \<longleftrightarrow> text_ok reason \<and> payload = encode_advance_epoch reason"
    by (auto simp: decode_advance_epoch_def whole_def read_steps get_string_exact encode_advance_epoch_def)
  moreover have "decode_notify payload = Some ns \<longleftrightarrow> elements_ok notification_fits ns \<and> payload = encode_notify ns"
    by (auto simp: decode_notify_def whole_def read_steps notification_code.vector_exact encode_notify_def)
  moreover have "decode_publish payload = Some ps \<longleftrightarrow> elements_ok publication_fits ps \<and> payload = encode_publish ps"
    by (auto simp: decode_publish_def whole_def read_steps publication_code.vector_exact encode_publish_def)
  ultimately show ?thesis
    unfolding decode_hello_def decode_register_def decode_fence_def decode_create_def decode_update_def decode_lifecycle_def decode_revoke_def decode_evaluate_def decode_revalidate_def decode_rollback_def decode_query_def decode_snapshot_response_def decode_explain_def decode_diff_def decode_result_def decode_error_def decode_snapshot_request_def encode_snapshot_request_def
    by (intro conjI hello_code.whole_exact register_code.whole_exact fence_code.whole_exact create_code.whole_exact update_code.whole_exact lifecycle_code.whole_exact revoke_code.whole_exact evaluate_code.whole_exact revalidate_code.whole_exact rollback_code.whole_exact query_code.whole_exact snapshot_response_code.whole_exact explain_code.whole_exact diff_code.whole_exact result_code.whole_exact error_code.whole_exact id_code.whole_exact)
qed

end
