(* ===== verification/Frame.thy ===== *)
theory Frame
  imports Readers
begin

text \<open>
  Framing (\<^verbatim>\<open>include/adaptive_routing/wire.hpp\<close>, \<^verbatim>\<open>src/wire.cpp\<close>): message identifiers, the 32 byte header,
  the 8 byte integrity trailer, \<^verbatim>\<open>encode_frame\<close> and \<^verbatim>\<open>decode_frame\<close>.  Lengths are 64-bit in the code; a byte
  string of the model is shorter than \<open>2 ^ 64\<close> where that matters.
\<close>

section \<open>Message identifiers\<close>

datatype message_id =
    MI_HELLO | MI_HELLO_ACK | MI_REGISTER_PUBLISHER | MI_FENCE_NOTICE | MI_CREATE_POLICY | MI_UPDATE_POLICY
  | MI_POLICY_LIFECYCLE | MI_REVOKE_POLICY | MI_UPSTREAM_NOTIFY | MI_PUBLISH_EVIDENCE | MI_EVALUATE
  | MI_COMMIT_DECISION | MI_REVALIDATE | MI_ROLLBACK | MI_QUERY_STATE | MI_SNAPSHOT_REQUEST | MI_SNAPSHOT_RESPONSE
  | MI_EXPLAIN_REQUEST | MI_DIFF_REQUEST | MI_ADVANCE_EPOCH | MI_RESULT | MI_ERROR | MI_BYE

definition all_message_ids :: "message_id list" where
  "all_message_ids = [MI_HELLO, MI_HELLO_ACK, MI_REGISTER_PUBLISHER, MI_FENCE_NOTICE, MI_CREATE_POLICY, MI_UPDATE_POLICY,
     MI_POLICY_LIFECYCLE, MI_REVOKE_POLICY, MI_UPSTREAM_NOTIFY, MI_PUBLISH_EVIDENCE, MI_EVALUATE, MI_COMMIT_DECISION,
     MI_REVALIDATE, MI_ROLLBACK, MI_QUERY_STATE, MI_SNAPSHOT_REQUEST, MI_SNAPSHOT_RESPONSE, MI_EXPLAIN_REQUEST,
     MI_DIFF_REQUEST, MI_ADVANCE_EPOCH, MI_RESULT, MI_ERROR, MI_BYE]"

definition message_id_raw :: "message_id \<Rightarrow> u16" where
  "message_id_raw m = (case m of
     MI_HELLO \<Rightarrow> 1 | MI_HELLO_ACK \<Rightarrow> 2 | MI_REGISTER_PUBLISHER \<Rightarrow> 3 | MI_FENCE_NOTICE \<Rightarrow> 4 | MI_CREATE_POLICY \<Rightarrow> 5
   | MI_UPDATE_POLICY \<Rightarrow> 6 | MI_POLICY_LIFECYCLE \<Rightarrow> 7 | MI_REVOKE_POLICY \<Rightarrow> 8 | MI_UPSTREAM_NOTIFY \<Rightarrow> 9
   | MI_PUBLISH_EVIDENCE \<Rightarrow> 10 | MI_EVALUATE \<Rightarrow> 11 | MI_COMMIT_DECISION \<Rightarrow> 12 | MI_REVALIDATE \<Rightarrow> 13 | MI_ROLLBACK \<Rightarrow> 14
   | MI_QUERY_STATE \<Rightarrow> 15 | MI_SNAPSHOT_REQUEST \<Rightarrow> 16 | MI_SNAPSHOT_RESPONSE \<Rightarrow> 17 | MI_EXPLAIN_REQUEST \<Rightarrow> 18
   | MI_DIFF_REQUEST \<Rightarrow> 19 | MI_ADVANCE_EPOCH \<Rightarrow> 20 | MI_RESULT \<Rightarrow> 21 | MI_ERROR \<Rightarrow> 22 | MI_BYE \<Rightarrow> 23)"

definition message_id_to_string :: "message_id \<Rightarrow> string" where
  "message_id_to_string m = (case m of
     MI_HELLO \<Rightarrow> ''HELLO'' | MI_HELLO_ACK \<Rightarrow> ''HELLO_ACK'' | MI_REGISTER_PUBLISHER \<Rightarrow> ''REGISTER_PUBLISHER''
   | MI_FENCE_NOTICE \<Rightarrow> ''FENCE_NOTICE'' | MI_CREATE_POLICY \<Rightarrow> ''CREATE_POLICY'' | MI_UPDATE_POLICY \<Rightarrow> ''UPDATE_POLICY''
   | MI_POLICY_LIFECYCLE \<Rightarrow> ''POLICY_LIFECYCLE'' | MI_REVOKE_POLICY \<Rightarrow> ''REVOKE_POLICY'' | MI_UPSTREAM_NOTIFY \<Rightarrow> ''UPSTREAM_NOTIFY''
   | MI_PUBLISH_EVIDENCE \<Rightarrow> ''PUBLISH_EVIDENCE'' | MI_EVALUATE \<Rightarrow> ''EVALUATE'' | MI_COMMIT_DECISION \<Rightarrow> ''COMMIT_DECISION''
   | MI_REVALIDATE \<Rightarrow> ''REVALIDATE'' | MI_ROLLBACK \<Rightarrow> ''ROLLBACK'' | MI_QUERY_STATE \<Rightarrow> ''QUERY_STATE''
   | MI_SNAPSHOT_REQUEST \<Rightarrow> ''SNAPSHOT_REQUEST'' | MI_SNAPSHOT_RESPONSE \<Rightarrow> ''SNAPSHOT_RESPONSE''
   | MI_EXPLAIN_REQUEST \<Rightarrow> ''EXPLAIN_REQUEST'' | MI_DIFF_REQUEST \<Rightarrow> ''DIFF_REQUEST'' | MI_ADVANCE_EPOCH \<Rightarrow> ''ADVANCE_EPOCH''
   | MI_RESULT \<Rightarrow> ''RESULT'' | MI_ERROR \<Rightarrow> ''ERROR'' | MI_BYE \<Rightarrow> ''BYE'')"

definition parse_message_id :: "string \<Rightarrow> message_id option" where
  "parse_message_id text = List.find (\<lambda>m. message_id_to_string m = text) all_message_ids"

definition valid_message_id :: "u16 \<Rightarrow> bool" where
  "valid_message_id raw = (raw \<ge> 1 \<and> raw \<le> 23)"

text \<open>\<^verbatim>\<open>static_cast<MessageId>\<close> of a raw value \<open>valid_message_id\<close> accepted.\<close>

definition message_id_of :: "u16 \<Rightarrow> message_id" where
  "message_id_of raw = (case List.find (\<lambda>m. message_id_raw m = raw) all_message_ids of Some m \<Rightarrow> m | None \<Rightarrow> MI_HELLO)"

section \<open>Frames\<close>

definition wire_protocol_version :: u16 where "wire_protocol_version = 1"
definition frame_header_bytes :: nat where "frame_header_bytes = 32"
definition frame_trailer_bytes :: nat where "frame_trailer_bytes = 8"
definition frame_magic :: u32 where "frame_magic = 0x31465241"

record frame_header =
  fh_wire_version :: u16
  fh_message_id :: message_id
  fh_flags :: u32
  fh_payload_length :: u32
  fh_sequence :: u64
  fh_epoch :: coordinator_epoch

record frame =
  ff_header :: frame_header
  ff_payload :: string

datatype frame_status = FS_OK | FS_INCOMPLETE | FS_BAD_MAGIC | FS_BAD_VERSION | FS_BAD_MESSAGE_ID | FS_TOO_LARGE
  | FS_INTEGRITY | FS_MALFORMED

definition frame_status_to_string :: "frame_status \<Rightarrow> string" where
  "frame_status_to_string s = (case s of FS_OK \<Rightarrow> ''OK'' | FS_INCOMPLETE \<Rightarrow> ''INCOMPLETE'' | FS_BAD_MAGIC \<Rightarrow> ''BAD_MAGIC''
     | FS_BAD_VERSION \<Rightarrow> ''BAD_VERSION'' | FS_BAD_MESSAGE_ID \<Rightarrow> ''BAD_MESSAGE_ID'' | FS_TOO_LARGE \<Rightarrow> ''TOO_LARGE''
     | FS_INTEGRITY \<Rightarrow> ''INTEGRITY'' | FS_MALFORMED \<Rightarrow> ''MALFORMED'')"

record frame_decode_result =
  fd_status :: frame_status
  fd_frame :: frame
  fd_consumed :: nat

definition no_frame :: frame where
  "no_frame = \<lparr>ff_header = \<lparr>fh_wire_version = wire_protocol_version, fh_message_id = MI_HELLO, fh_flags = 0,
     fh_payload_length = 0, fh_sequence = 0, fh_epoch = no_gen\<rparr>, ff_payload = []\<rparr>"

definition integrity_step :: "char \<Rightarrow> u64 \<times> u64 \<Rightarrow> u64 \<times> u64" where
  "integrity_step c lanes = (case lanes of (low, high) \<Rightarrow>
     (let byte = of_char c;
          h1 = high + byte;
          h2 = h1 XOR push_bit 13 h1
      in ((low XOR byte) * fnv_prime, h2 * fnv_prime)))"

definition integrity_of :: "string \<Rightarrow> u64" where
  "integrity_of bs = (case fold integrity_step bs (fnv_offset_a, fnv_offset_b) of (low, high) \<Rightarrow> low XOR high)"

text \<open>Reads at an offset: \<open>None\<close> is the code's \<^verbatim>\<open>false\<close>.\<close>

definition read_at :: "nat \<Rightarrow> string \<Rightarrow> nat \<Rightarrow> 'a::len word option" where
  "read_at n bs offset = (if offset + n > length bs then None else Some (le_word n (take n (drop offset bs))))"

definition read_u16 :: "string \<Rightarrow> nat \<Rightarrow> u16 option" where "read_u16 = read_at 2"
definition read_u32 :: "string \<Rightarrow> nat \<Rightarrow> u32 option" where "read_u32 = read_at 4"
definition read_u64 :: "string \<Rightarrow> nat \<Rightarrow> u64 option" where "read_u64 = read_at 8"

definition write_at :: "nat \<Rightarrow> nat \<Rightarrow> 'a::len word \<Rightarrow> string \<Rightarrow> string" where
  "write_at n offset v bs = fold (\<lambda>i b. b[offset + i := byte_of v i]) [0..<n] bs"

definition copy_at :: "nat \<Rightarrow> string \<Rightarrow> string \<Rightarrow> string" where
  "copy_at offset src bs = take offset bs @ src @ drop (offset + length src) bs"

definition encode_frame :: "frame \<Rightarrow> u64 \<Rightarrow> string option" where
  "encode_frame f max_frame_bytes =
    (let h = ff_header f; payload = ff_payload f; n = length payload in
     if \<not> valid_message_id (message_id_raw (fh_message_id h)) then None
     else if fh_wire_version h \<noteq> wire_protocol_version then None
     else if \<not> gen_valid (fh_epoch h) then None
     else
       let total = frame_header_bytes + n + frame_trailer_bytes in
       if total > unat max_frame_bytes then None
       else if n > 0xFFFFFFFF then None
       else
         let b0 = replicate total (CHR 0x00);
             b1 = write_at 4 0 frame_magic b0;
             b2 = write_at 2 4 (fh_wire_version h) b1;
             b3 = write_at 2 6 (message_id_raw (fh_message_id h)) b2;
             b4 = write_at 4 8 (fh_flags h) b3;
             b5 = write_at 4 12 (word_of_nat n :: u32) b4;
             b6 = write_at 8 16 (fh_sequence h) b5;
             b7 = write_at 8 24 (gen_value (fh_epoch h)) b6;
             b8 = copy_at frame_header_bytes payload b7;
             integrity = integrity_of (take (frame_header_bytes + n) b8)
         in Some (write_at 8 (frame_header_bytes + n) integrity b8))"

definition frame_failure :: "frame_status \<Rightarrow> frame_decode_result" where
  "frame_failure status = \<lparr>fd_status = status, fd_frame = no_frame, fd_consumed = 0\<rparr>"

definition maximum_payload :: "u64 \<Rightarrow> nat" where
  "maximum_payload max_frame_bytes =
    (if unat max_frame_bytes > frame_header_bytes + frame_trailer_bytes
     then unat max_frame_bytes - (frame_header_bytes + frame_trailer_bytes) else 0)"

text \<open>The seven reads of the header are one conjunction in the code.\<close>

definition read_header :: "string \<Rightarrow> (u32 \<times> u16 \<times> u16 \<times> u32 \<times> u32 \<times> u64 \<times> u64) option" where
  "read_header buffer = do {
     magic \<leftarrow> read_u32 buffer 0;
     version \<leftarrow> read_u16 buffer 4;
     raw_id \<leftarrow> read_u16 buffer 6;
     flags \<leftarrow> read_u32 buffer 8;
     payload_length \<leftarrow> read_u32 buffer 12;
     sequence \<leftarrow> read_u64 buffer 16;
     epoch \<leftarrow> read_u64 buffer 24;
     Some (magic, version, raw_id, flags, payload_length, sequence, epoch)
   }"

definition decode_frame :: "string \<Rightarrow> u64 \<Rightarrow> frame_decode_result" where
  "decode_frame buffer max_frame_bytes =
    (if length buffer < frame_header_bytes then frame_failure FS_INCOMPLETE
     else case read_header buffer of
       None \<Rightarrow> frame_failure FS_MALFORMED
     | Some (magic, version, raw_id, flags, payload_length, sequence, epoch_value) \<Rightarrow>
     if magic \<noteq> frame_magic then frame_failure FS_BAD_MAGIC
     else if version \<noteq> wire_protocol_version then frame_failure FS_BAD_VERSION
     else if \<not> valid_message_id raw_id then frame_failure FS_BAD_MESSAGE_ID
     else if unat payload_length > maximum_payload max_frame_bytes then frame_failure FS_TOO_LARGE
     else
       let n = unat payload_length; total = frame_header_bytes + n + frame_trailer_bytes in
       if length buffer < total then frame_failure FS_INCOMPLETE
       else
         let expected = integrity_of (take (frame_header_bytes + n) buffer) in
         case read_u64 buffer (frame_header_bytes + n) of
           None \<Rightarrow> frame_failure FS_MALFORMED
         | Some stored \<Rightarrow>
         if expected \<noteq> stored then frame_failure FS_INTEGRITY
         else case gen_from_value epoch_value of
           None \<Rightarrow> frame_failure FS_MALFORMED
         | Some epoch \<Rightarrow>
             \<lparr>fd_status = FS_OK,
              fd_frame = \<lparr>ff_header = \<lparr>fh_wire_version = version, fh_message_id = message_id_of raw_id, fh_flags = flags,
                             fh_payload_length = payload_length, fh_sequence = sequence, fh_epoch = epoch\<rparr>,
                          ff_payload = take n (drop frame_header_bytes buffer)\<rparr>,
              fd_consumed = total\<rparr>)"

section \<open>Message identifiers round trip\<close>

lemma message_id_roundtrip:
  "parse_message_id (message_id_to_string m) = Some m \<and> valid_message_id (message_id_raw m) \<and> message_id_of (message_id_raw m) = m"
  by (cases m) (simp_all add: parse_message_id_def message_id_to_string_def all_message_ids_def valid_message_id_def
      message_id_raw_def message_id_of_def)

lemma valid_message_id_cases: "valid_message_id raw \<Longrightarrow> message_id_raw (message_id_of raw) = raw"
proof -
  assume "valid_message_id raw"
  then have "1 \<le> unat raw \<and> unat raw < 24" by (simp add: valid_message_id_def word_le_nat_alt)
  then have "unat raw \<in> set [1..<24]" by simp
  moreover have "raw = word_of_nat (unat raw)" by simp
  ultimately have "raw \<in> word_of_nat ` set [1..<24]" by blast
  then have "raw \<in> message_id_raw ` set all_message_ids" by (simp add: all_message_ids_def message_id_raw_def upt_rec)
  then show ?thesis using message_id_roundtrip by auto
qed

end
