(* ===== verification/Coordinator.thy ===== *)
theory Coordinator
  imports Messages Frame Query
begin

text \<open>
  The coordinator (\<^verbatim>\<open>src/transport.cpp\<close>): a session, the identities it composes, one handler per
  message, and \<open>dispatch\<close>.  What the rest of the world contributes while one frame is handled is the
  record \<open>moment\<close>: the readings of the clock, the outcome of writing the store, how much of each
  response goes out when its write fails, and what other sessions do to the engine between the reading of its
  epoch and the operation (\<open>mo_others\<close>) and while an evaluation runs unlocked (\<open>mo_meanwhile\<close>).  A handler returns \<open>None\<close> where the code ends the process (an identifier that cannot be
  minted inside a \<^verbatim>\<open>noexcept\<close> function).
\<close>

section \<open>Identities\<close>

definition sanitize_prefix :: "string \<Rightarrow> string" where
  "sanitize_prefix text = dropWhile (\<lambda>c. \<not> id_edge_char_allowed c) (filter id_char_allowed text)"

text \<open>
  The nonce of the process is the argument \<open>nonce\<close>; the length bound is the domain's.  \<open>None\<close> is an
  exception from \<^verbatim>\<open>require\<close>.
\<close>

definition assemble :: "string \<Rightarrow> string \<Rightarrow> u64 \<Rightarrow> string \<Rightarrow> bool \<Rightarrow> string" where
  "assemble nonce kind counter head include_nonce =
     head @ (if head \<noteq> [] then ''-'' else []) @ kind @ (if include_nonce then ''-'' @ nonce else [])
     @ ''-'' @ dec (unat counter)"

definition identity_budget :: "nat \<Rightarrow> string \<Rightarrow> string \<Rightarrow> u64 \<Rightarrow> bool \<Rightarrow> nat" where
  "identity_budget max_length nonce kind counter include_nonce =
     max_length - (length kind + (if include_nonce then length nonce + 1 else 0) + length (dec (unat counter)) + 2)"

definition compose_identity :: "nat \<Rightarrow> string \<Rightarrow> string \<Rightarrow> string \<Rightarrow> u64 \<Rightarrow> bool \<Rightarrow> 'tag strong_id option" where
  "compose_identity max_length nonce pre kind counter with_nonce =
    (let keep = with_nonce \<and> identity_budget max_length nonce kind counter True > 0;
         head = take (identity_budget max_length nonce kind counter keep) (sanitize_prefix pre) in
     case id_parse max_length (assemble nonce kind counter head keep) of
       Some i \<Rightarrow> Some i
     | None \<Rightarrow> id_parse max_length (kind @ ''-'' @ dec (unat counter)))"

definition compose_attempt :: "session_id \<Rightarrow> u64 \<Rightarrow> mutation_attempt_id option" where
  "compose_attempt session sequence =
    (let suffix = ''-'' @ dec (unat sequence);
         text = (if id_valid session then id_text session else ''anonymous'');
         room = 64 - length suffix in
     case id_parse 64 (take room text @ suffix) of
       Some i \<Rightarrow> Some i
     | None \<Rightarrow> id_parse 64 (''attempt-'' @ dec (unat sequence)))"

definition make_frame :: "message_id \<Rightarrow> string \<Rightarrow> frame" where
  "make_frame i payload = \<lparr>ff_header = \<lparr>fh_wire_version = wire_protocol_version, fh_message_id = i, fh_flags = 0,
     fh_payload_length = word_of_nat (length payload), fh_sequence = 0, fh_epoch = no_gen\<rparr>, ff_payload = payload\<rparr>"

definition render_policy_line :: "adaptive_policy \<Rightarrow> string" where
  "render_policy_line p = id_text (ap_id p) @ '' name='' @ id_text (ap_name p)
     @ '' lifecycle='' @ policy_lifecycle_to_string (ap_lifecycle p) @ '' generation='' @ gen_text (ap_generation p)
     @ '' epoch='' @ gen_text (ap_epoch p) @ '' digest='' @ policy_semantic_digest p"

section \<open>Sessions and responses\<close>

datatype disposition = DS_CONTINUE | DS_CLOSE | DS_PROTOCOL_FAILURE

datatype session_end = SE_CLEAN_BYE | SE_SERVER_STOPPING | SE_LOST

record session =
  sx_index :: u64
  sx_id :: session_id
  sx_registered :: bool
  sx_publisher :: publisher_id
  sx_worker_boot :: worker_boot_id
  sx_scope :: authority_scope
  sx_dispatched :: u64

record server_config =
  sv_limits :: limits
  sv_id_prefix :: string
  sv_store_path :: string

record moment =
  mo_clock :: "nat \<Rightarrow> ticks"
  mo_save :: "engine \<Rightarrow> operation_result"
  mo_delivered :: "nat \<Rightarrow> nat option"
  mo_others :: "engine \<Rightarrow> engine"
  mo_meanwhile :: "engine \<Rightarrow> engine"

text \<open>What handling one frame leaves: the engine, the session, the responses written, in order, and the verdict.\<close>

record handled =
  hd_engine :: engine
  hd_session :: session
  hd_sent :: "string list"
  hd_disposition :: disposition

definition product_name :: string where "product_name = ''Adaptive Routing Fabric''"

text \<open>
  The \<open>k\<close>-th response written for this frame: what went out, and whether \<^verbatim>\<open>send_all\<close> succeeded.  When
  \<open>mo_delivered m k\<close> is a number, the connection failed or stalled after that many bytes: a cut frame is on
  the wire.
\<close>

definition write_response :: "server_config \<Rightarrow> moment \<Rightarrow> nat \<Rightarrow> engine \<Rightarrow> message_id \<Rightarrow> u64 \<Rightarrow> string \<Rightarrow> string list \<times> bool" where
  "write_response c m k e i sequence payload =
    (if length payload > 0xFFFFFFFF then ([], False)
     else case encode_frame \<lparr>ff_header = \<lparr>fh_wire_version = wire_protocol_version, fh_message_id = i, fh_flags = 0,
                 fh_payload_length = word_of_nat (length payload), fh_sequence = sequence, fh_epoch = g_epoch (en_state e)\<rparr>,
               ff_payload = payload\<rparr> (lim_max_frame_bytes (sv_limits c)) of
       None \<Rightarrow> ([], False)
     | Some bytes \<Rightarrow>
       case mo_delivered m k of None \<Rightarrow> ([bytes], True) | Some n \<Rightarrow> ([take (min n (length bytes - 1)) bytes], False))"

definition error_response :: "server_config \<Rightarrow> moment \<Rightarrow> nat \<Rightarrow> engine \<Rightarrow> u64 \<Rightarrow> outcome \<Rightarrow> string \<Rightarrow> string list" where
  "error_response c m k e sequence outcome detail =
     fst (write_response c m k e MI_ERROR sequence (encode_error \<lparr>om_outcome = outcome, om_detail = detail\<rparr>))"

definition respond_error :: "server_config \<Rightarrow> moment \<Rightarrow> engine \<Rightarrow> u64 \<Rightarrow> outcome \<Rightarrow> string \<Rightarrow> string list" where
  "respond_error c m e sequence outcome detail = error_response c m 0 e sequence outcome detail"

text \<open>The error is written behind whatever the failed response left on the wire.\<close>

definition respond :: "server_config \<Rightarrow> moment \<Rightarrow> engine \<Rightarrow> u64 \<Rightarrow> result_message \<Rightarrow> string list" where
  "respond c m e sequence message =
    (let (sent, complete) = write_response c m 0 e MI_RESULT sequence (encode_result message) in
     if complete then sent
     else sent @ error_response c m 1 e sequence Out_RESOURCE_LIMIT ''the response could not be encoded or written to the peer'')"

definition respond_snapshot :: "server_config \<Rightarrow> moment \<Rightarrow> engine \<Rightarrow> u64 \<Rightarrow> snapshot_response_message \<Rightarrow> string list" where
  "respond_snapshot c m e sequence message =
    (let (sent, complete) = write_response c m 0 e MI_SNAPSHOT_RESPONSE sequence (encode_snapshot_response message) in
     if complete then sent
     else sent @ error_response c m 1 e sequence Out_RESOURCE_LIMIT
         ''the snapshot response could not be encoded or written to the peer'')"

text \<open>The durability step of a mutation and the result it reports.\<close>

definition reported_result :: "server_config \<Rightarrow> moment \<Rightarrow> engine \<Rightarrow> operation_result \<Rightarrow> bool \<Rightarrow> operation_result" where
  "reported_result c m e result mutating =
    (if mutating \<and> (or_ok result \<or> or_mutated result) \<and> sv_store_path c \<noteq> []
     then let saved = mo_save m e in
       if or_ok saved then result
       else let note = ''store save failed: '' @ outcome_to_string (or_outcome saved) @ '' '' @ or_detail saved in
         result\<lparr>or_outcome := or_outcome saved, or_mutated := False,
           or_detail := (if or_detail result = [] then note else or_detail result @ ''; '' @ note)\<rparr>
     else result)"

definition result_message_of :: "engine \<Rightarrow> operation_result \<Rightarrow> result_message" where
  "result_message_of e r = \<lparr>tm_outcome = or_outcome r, tm_suppression = or_suppression r, tm_detail = or_detail r,
     tm_policy = or_policy r, tm_policy_generation = or_policy_generation r, tm_decision = or_decision r,
     tm_adaptation_generation = or_adaptation_generation r, tm_transition_generation = or_transition_generation r,
     tm_evidence_generation = or_evidence_generation r,
     tm_epoch = (if gen_valid (or_epoch r) then or_epoch r else g_epoch (en_state e)), tm_rendered = or_render r\<rparr>"

definition respond_operation :: "server_config \<Rightarrow> moment \<Rightarrow> engine \<Rightarrow> u64 \<Rightarrow> operation_result \<Rightarrow> bool \<Rightarrow> string list" where
  "respond_operation c m e sequence result mutating =
     respond c m e sequence (result_message_of e (reported_result c m e result mutating))"

definition no_result_message :: result_message where
  "no_result_message = \<lparr>tm_outcome = Out_MALFORMED_REQUEST, tm_suppression = Sup_NONE, tm_detail = [], tm_policy = no_id,
     tm_policy_generation = no_gen, tm_decision = no_id, tm_adaptation_generation = no_gen, tm_transition_generation = no_gen,
     tm_evidence_generation = no_gen, tm_epoch = no_gen, tm_rendered = []\<rparr>"

definition carry_on :: "engine \<Rightarrow> session \<Rightarrow> string list \<Rightarrow> handled option" where
  "carry_on e s sent = Some \<lparr>hd_engine = e, hd_session = s, hd_sent = sent, hd_disposition = DS_CONTINUE\<rparr>"

definition reject_payload :: "server_config \<Rightarrow> moment \<Rightarrow> session \<Rightarrow> engine \<Rightarrow> frame \<Rightarrow> handled option" where
  "reject_payload c m s e f = carry_on e s (respond_error c m e (fh_sequence (ff_header f)) Out_MALFORMED_REQUEST
     (''the payload of '' @ message_id_to_string (fh_message_id (ff_header f)) @ '' could not be decoded''))"

text \<open>
  The context of a mutation.  \<open>None\<close> is an exception from \<^verbatim>\<open>require\<close> in \<open>compose_attempt\<close>; the theorem on
  attempts shows it never happens.
\<close>

definition make_context :: "session \<Rightarrow> engine \<Rightarrow> u64 \<Rightarrow> mutation_context option" where
  "make_context s e sequence =
    (case compose_attempt (sx_id s) sequence of
       None \<Rightarrow> None
     | Some attempt \<Rightarrow> Some \<lparr>mc_epoch = g_epoch (en_state e), mc_publisher = sx_publisher s, mc_worker_boot = sx_worker_boot s,
         mc_session = sx_id s, mc_attempt = attempt, mc_expected_policy_generation = None, mc_expected_evidence_generation = None\<rparr>)"

section \<open>Handlers\<close>

text \<open>
  A mutating handler decodes its payload, composes the context from the engine's epoch, runs the
  operation on whatever the engine has become since, and reports.  \<open>reported\<close> is the last part.
\<close>

definition reported :: "server_config \<Rightarrow> moment \<Rightarrow> session \<Rightarrow> frame \<Rightarrow> engine \<times> operation_result \<Rightarrow> handled option" where
  "reported c m s f done = carry_on (fst done) s (respond_operation c m (fst done) (fh_sequence (ff_header f)) (snd done) True)"

definition handle_hello :: "server_config \<Rightarrow> moment \<Rightarrow> session \<Rightarrow> engine \<Rightarrow> frame \<Rightarrow> handled option" where
  "handle_hello c m s e f =
    (let sequence = fh_sequence (ff_header f) in
     case decode_hello (ff_payload f) of
       None \<Rightarrow> reject_payload c m s e f
     | Some greeting \<Rightarrow>
       if hm_wire_version greeting \<noteq> wire_protocol_version then
         Some \<lparr>hd_engine = e, hd_session = s, hd_sent = respond_error c m e sequence Out_UNSUPPORTED_VERSION
             (''the peer announced wire protocol version '' @ dec (unat (hm_wire_version greeting)) @ '', this coordinator speaks ''
              @ dec (unat wire_protocol_version)), hd_disposition = DS_PROTOCOL_FAILURE\<rparr>
       else carry_on e s (fst (write_response c m 0 e MI_HELLO_ACK sequence
              (encode_hello \<lparr>hm_wire_version = wire_protocol_version, hm_product = product_name, hm_epoch = g_epoch (en_state e),
                 hm_authority_generation = g_authority_generation (en_state e)\<rparr>))))"

definition handle_register_publisher :: "server_config \<Rightarrow> moment \<Rightarrow> session \<Rightarrow> engine \<Rightarrow> frame \<Rightarrow> handled option" where
  "handle_register_publisher c m s e f =
    (case decode_register (ff_payload f) of
       None \<Rightarrow> reject_payload c m s e f
     | Some msg \<Rightarrow>
       if \<not> as_well_formed (rm_scope msg) then
         carry_on e s (respond_error c m e (fh_sequence (ff_header f)) Out_MALFORMED_REQUEST
           ''the authority scope names neither a fabric nor a routing namespace'')
       else
         let (e', result) = register_publisher (rm_publisher msg) (rm_worker_boot msg) (rm_scope msg) (sx_id s) e;
             s' = (if or_ok result then s\<lparr>sx_registered := True, sx_publisher := rm_publisher msg,
                     sx_worker_boot := rm_worker_boot msg, sx_scope := rm_scope msg\<rparr> else s)
         in reported c m s' f (e', result))"

definition handle_fence_notice :: "server_config \<Rightarrow> moment \<Rightarrow> session \<Rightarrow> engine \<Rightarrow> frame \<Rightarrow> handled option" where
  "handle_fence_notice c m s e f =
    (case decode_fence (ff_payload f) of
       None \<Rightarrow> reject_payload c m s e f
     | Some msg \<Rightarrow> reported c m s f (fence_publisher (fm_publisher msg) (fm_worker_boot msg) (fm_cause msg) e))"

definition handle_create_policy :: "server_config \<Rightarrow> moment \<Rightarrow> session \<Rightarrow> engine \<Rightarrow> frame \<Rightarrow> u64 \<Rightarrow> handled option" where
  "handle_create_policy c m s e f attempt =
    (case decode_create (ff_payload f) of
       None \<Rightarrow> reject_payload c m s e f
     | Some msg \<Rightarrow>
     case make_context s e attempt of
       None \<Rightarrow> None
     | Some ctx \<Rightarrow>
     case create_policy (mo_clock m 0) \<lparr>cr_name = cm_name msg, cr_scope = cm_scope msg, cr_semantics = cm_semantics msg,
            cr_context = ctx\<rparr> (mo_others m e) of
       None \<Rightarrow> None
     | Some done \<Rightarrow> reported c m s f done)"

definition handle_update_policy :: "server_config \<Rightarrow> moment \<Rightarrow> session \<Rightarrow> engine \<Rightarrow> frame \<Rightarrow> u64 \<Rightarrow> handled option" where
  "handle_update_policy c m s e f attempt =
    (case decode_update (ff_payload f) of
       None \<Rightarrow> reject_payload c m s e f
     | Some msg \<Rightarrow>
     case make_context s e attempt of
       None \<Rightarrow> None
     | Some ctx \<Rightarrow> reported c m s f (update_policy (mo_clock m 0) \<lparr>ur_policy = um_policy msg,
         ur_update = \<lparr>pu_scope = um_scope msg, pu_semantics = um_semantics msg\<rparr>, ur_context = ctx\<rparr> (mo_others m e)))"

definition handle_policy_lifecycle :: "server_config \<Rightarrow> moment \<Rightarrow> session \<Rightarrow> engine \<Rightarrow> frame \<Rightarrow> u64 \<Rightarrow> handled option" where
  "handle_policy_lifecycle c m s e f attempt =
    (case decode_lifecycle (ff_payload f) of
       None \<Rightarrow> reject_payload c m s e f
     | Some msg \<Rightarrow>
     case make_context s e attempt of
       None \<Rightarrow> None
     | Some ctx \<Rightarrow> reported c m s f (transition_policy \<lparr>lr_policy = lm_policy msg, lr_event = lm_event msg,
         lr_detail = lm_detail msg, lr_context = ctx\<rparr> (mo_others m e)))"

definition handle_revoke_policy :: "server_config \<Rightarrow> moment \<Rightarrow> session \<Rightarrow> engine \<Rightarrow> frame \<Rightarrow> u64 \<Rightarrow> handled option" where
  "handle_revoke_policy c m s e f attempt =
    (case decode_revoke (ff_payload f) of
       None \<Rightarrow> reject_payload c m s e f
     | Some msg \<Rightarrow>
     case make_context s e attempt of
       None \<Rightarrow> None
     | Some ctx \<Rightarrow> reported c m s f (revoke_policy (vm_policy msg) (vm_reason msg) (vm_detail msg) ctx (mo_others m e)))"

definition handle_upstream_notify :: "server_config \<Rightarrow> moment \<Rightarrow> session \<Rightarrow> engine \<Rightarrow> frame \<Rightarrow> u64 \<Rightarrow> handled option" where
  "handle_upstream_notify c m s e f attempt =
    (case decode_notify (ff_payload f) of
       None \<Rightarrow> reject_payload c m s e f
     | Some ns \<Rightarrow>
     case make_context s e attempt of
       None \<Rightarrow> None
     | Some ctx \<Rightarrow> reported c m s f (apply_upstream \<lparr>nr_notifications = ns, nr_context = ctx\<rparr> (mo_others m e)))"

definition handle_publish_evidence :: "server_config \<Rightarrow> moment \<Rightarrow> session \<Rightarrow> engine \<Rightarrow> frame \<Rightarrow> u64 \<Rightarrow> handled option" where
  "handle_publish_evidence c m s e f attempt =
    (case decode_publish (ff_payload f) of
       None \<Rightarrow> reject_payload c m s e f
     | Some ps \<Rightarrow>
     case make_context s e attempt of
       None \<Rightarrow> None
     | Some ctx \<Rightarrow> reported c m s f (publish_evidence (mo_clock m) \<lparr>er_publications = ps, er_context = ctx\<rparr> (mo_others m e)))"

text \<open>A deferred evaluation reports the ticket of phase one and keeps it on the coordinator's side.\<close>

definition deferred_message :: "engine \<Rightarrow> policy_id \<Rightarrow> evaluation_ticket \<Rightarrow> result_message" where
  "deferred_message e policy t = no_result_message\<lparr>tm_outcome := et_outcome t, tm_suppression := et_suppression t, tm_detail := et_detail t,
     tm_policy := policy, tm_decision := et_decision t, tm_adaptation_generation := et_adaptation_generation t,
     tm_transition_generation := et_transition_generation t,
     tm_evidence_generation := ds_evidence_generation (et_dependencies t),
     tm_epoch := (if gen_valid (ds_epoch (et_dependencies t)) then ds_epoch (et_dependencies t) else g_epoch (en_state e)),
     tm_rendered := ds_render (et_dependencies t)\<rparr>"

definition handle_evaluate :: "server_config \<Rightarrow> moment \<Rightarrow> session \<Rightarrow> engine \<Rightarrow> frame \<Rightarrow> u64 \<Rightarrow> handled option" where
  "handle_evaluate c m s e f attempt =
    (case decode_evaluate (ff_payload f) of
       None \<Rightarrow> reject_payload c m s e f
     | Some msg \<Rightarrow>
     case make_context s e attempt of
       None \<Rightarrow> None
     | Some ctx \<Rightarrow>
       let rq = \<lparr>vr_policy = em_policy msg, vr_context = ctx, vr_defer_commit = em_defer_commit msg\<rparr> in
       if \<not> em_defer_commit msg then
         (case evaluate (mo_clock m) rq (mo_meanwhile m) (mo_others m e) of
            None \<Rightarrow> None
          | Some done \<Rightarrow> reported c m s f done)
       else
         (case begin_evaluation (mo_clock m) rq (mo_others m e) of
            None \<Rightarrow> None
          | Some (e', t) \<Rightarrow> carry_on e' s (respond c m e' (fh_sequence (ff_header f)) (deferred_message e' (em_policy msg) t))))"

definition handle_commit_decision :: "server_config \<Rightarrow> moment \<Rightarrow> session \<Rightarrow> engine \<Rightarrow> frame \<Rightarrow> u64 \<Rightarrow> handled option" where
  "handle_commit_decision c m s e f attempt =
    (case decode_commit (ff_payload f) of
       None \<Rightarrow> reject_payload c m s e f
     | Some ticket \<Rightarrow>
     case make_context s e attempt of
       None \<Rightarrow> None
     | Some ctx \<Rightarrow>
     case commit_evaluation (mo_clock m 0) \<lparr>kr_ticket = ticket, kr_context = ctx\<rparr> (mo_others m e) of
       None \<Rightarrow> None
     | Some done \<Rightarrow> reported c m s f done)"

definition handle_revalidate :: "server_config \<Rightarrow> moment \<Rightarrow> session \<Rightarrow> engine \<Rightarrow> frame \<Rightarrow> u64 \<Rightarrow> handled option" where
  "handle_revalidate c m s e f attempt =
    (case decode_revalidate (ff_payload f) of
       None \<Rightarrow> reject_payload c m s e f
     | Some msg \<Rightarrow>
     case make_context s e attempt of
       None \<Rightarrow> None
     | Some ctx \<Rightarrow> reported c m s f (revalidate (dm_policy msg) (dm_attempt msg) ctx (mo_others m e)))"

definition handle_rollback :: "server_config \<Rightarrow> moment \<Rightarrow> session \<Rightarrow> engine \<Rightarrow> frame \<Rightarrow> u64 \<Rightarrow> handled option" where
  "handle_rollback c m s e f attempt =
    (case decode_rollback (ff_payload f) of
       None \<Rightarrow> reject_payload c m s e f
     | Some msg \<Rightarrow>
     case make_context s e attempt of
       None \<Rightarrow> None
     | Some ctx \<Rightarrow>
     case rollback (mo_clock m 0) \<lparr>br_policy = bm_policy msg, br_reason = bm_reason msg, br_context = ctx\<rparr> (mo_others m e) of
       None \<Rightarrow> None
     | Some done \<Rightarrow> reported c m s f done)"

section \<open>Queries and the epoch\<close>

text \<open>The policies a state query covers, in the order of their identifiers; the limit zero means all.\<close>

definition state_lines :: "query_message \<Rightarrow> adaptive_policy list \<Rightarrow> string list" where
  "state_lines msg policies =
    (let ordered = sort_by (\<lambda>a b. ap_id a < ap_id b) policies in
     map render_policy_line (if qm_limit msg \<noteq> 0 then take (unat (qm_limit msg)) ordered else ordered))"

definition handle_query_state :: "server_config \<Rightarrow> moment \<Rightarrow> session \<Rightarrow> engine \<Rightarrow> frame \<Rightarrow> handled option" where
  "handle_query_state c m s e f =
    (let sequence = fh_sequence (ff_header f);
         answer = (\<lambda>msg policies. let lines = state_lines msg policies in
           carry_on e s (respond c m e sequence (no_result_message\<lparr>tm_outcome := Out_NO_CHANGE, tm_policy := qm_policy msg,
             tm_epoch := g_epoch (en_state e), tm_detail := ''policies='' @ dec (length lines),
             tm_rendered := join_with newline lines\<rparr>))) in
     case decode_query (ff_payload f) of
       None \<Rightarrow> reject_payload c m s e f
     | Some msg \<Rightarrow>
       if id_valid (qm_policy msg) then
         (case find_policy e (qm_policy msg) of
            None \<Rightarrow> carry_on e s (respond_error c m e sequence Out_NOT_FOUND
              (''policy '' @ id_text (qm_policy msg) @ '' does not exist''))
          | Some p \<Rightarrow> answer msg [p])
       else answer msg (list_policies e))"

definition handle_snapshot_request :: "server_config \<Rightarrow> moment \<Rightarrow> session \<Rightarrow> engine \<Rightarrow> frame \<Rightarrow> handled option" where
  "handle_snapshot_request c m s e f =
    (let sequence = fh_sequence (ff_header f) in
     case decode_snapshot_request (ff_payload f) of
       None \<Rightarrow> reject_payload c m s e f
     | Some policy \<Rightarrow>
       if \<not> id_valid policy then
         carry_on e s (respond_error c m e sequence Out_MALFORMED_REQUEST ''SNAPSHOT_REQUEST must name a policy'')
       else if find_policy e policy = None then
         carry_on e s (respond_error c m e sequence Out_NOT_FOUND (''policy '' @ id_text policy @ '' does not exist''))
       else
         case snapshot (mo_clock m) policy e of
           None \<Rightarrow> None
         | Some (e', v) \<Rightarrow> carry_on e' s (respond_snapshot c m e' sequence
             \<lparr>sm_snapshot = sn_id v, sm_policy = policy,
              sm_digest = (if sn_digest v = [] then snapshot_digest v else sn_digest v), sm_rendered = sn_render v\<rparr>))"

definition handle_explain_request :: "server_config \<Rightarrow> moment \<Rightarrow> session \<Rightarrow> engine \<Rightarrow> frame \<Rightarrow> handled option" where
  "handle_explain_request c m s e f =
    (case decode_explain (ff_payload f) of
       None \<Rightarrow> reject_payload c m s e f
     | Some msg \<Rightarrow>
     case explain (mo_clock m) (xm_topic msg) (xm_policy msg) e of
       None \<Rightarrow> None
     | Some (e', x) \<Rightarrow> carry_on e' s (respond c m e' (fh_sequence (ff_header f))
         (no_result_message\<lparr>tm_outcome := ex_outcome x, tm_suppression := ex_suppression x,
           tm_policy := (if id_valid (ex_policy x) then ex_policy x else xm_policy msg), tm_decision := ex_decision x,
           tm_epoch := g_epoch (en_state e'), tm_detail := explanation_topic_to_string (ex_topic x), tm_rendered := ex_render x\<rparr>)))"

definition handle_diff_request :: "server_config \<Rightarrow> moment \<Rightarrow> session \<Rightarrow> engine \<Rightarrow> frame \<Rightarrow> handled option" where
  "handle_diff_request c m s e f =
    (let sequence = fh_sequence (ff_header f);
         missing = (\<lambda>i. carry_on e s (respond_error c m e sequence Out_NOT_FOUND (''snapshot '' @ id_text i @ '' is not retained''))) in
     case decode_diff (ff_payload f) of
       None \<Rightarrow> reject_payload c m s e f
     | Some msg \<Rightarrow>
     case find_snapshot e (im_from msg) of
       None \<Rightarrow> missing (im_from msg)
     | Some from_view \<Rightarrow>
     case find_snapshot e (im_to msg) of
       None \<Rightarrow> missing (im_to msg)
     | Some to_view \<Rightarrow>
       let d = compute_diff from_view to_view in
       carry_on e s (respond c m e sequence (no_result_message\<lparr>tm_outcome := Out_NO_CHANGE,
         tm_policy := (if id_valid (df_policy d) then df_policy d else im_policy msg), tm_epoch := g_epoch (en_state e),
         tm_detail := (if df_entries d = [] then ''no differences'' else ''differences recorded''), tm_rendered := df_render d\<rparr>)))"

definition handle_advance_epoch :: "server_config \<Rightarrow> moment \<Rightarrow> session \<Rightarrow> engine \<Rightarrow> frame \<Rightarrow> handled option" where
  "handle_advance_epoch c m s e f =
    (case decode_advance_epoch (ff_payload f) of
       None \<Rightarrow> reject_payload c m s e f
     | Some reason \<Rightarrow> reported c m s f (advance_epoch reason e))"

section \<open>Dispatch\<close>

text \<open>
  One handler per message.  The default arm of the switch is unreachable: the frame decoder admits only
  the identifiers of the enumeration.
\<close>

definition route_frame :: "server_config \<Rightarrow> moment \<Rightarrow> session \<Rightarrow> engine \<Rightarrow> frame \<Rightarrow> u64 \<Rightarrow> handled option" where
  "route_frame c m s e f attempt =
    (case fh_message_id (ff_header f) of
       MI_HELLO \<Rightarrow> handle_hello c m s e f
     | MI_REGISTER_PUBLISHER \<Rightarrow> handle_register_publisher c m s e f
     | MI_FENCE_NOTICE \<Rightarrow> handle_fence_notice c m s e f
     | MI_CREATE_POLICY \<Rightarrow> handle_create_policy c m s e f attempt
     | MI_UPDATE_POLICY \<Rightarrow> handle_update_policy c m s e f attempt
     | MI_POLICY_LIFECYCLE \<Rightarrow> handle_policy_lifecycle c m s e f attempt
     | MI_REVOKE_POLICY \<Rightarrow> handle_revoke_policy c m s e f attempt
     | MI_UPSTREAM_NOTIFY \<Rightarrow> handle_upstream_notify c m s e f attempt
     | MI_PUBLISH_EVIDENCE \<Rightarrow> handle_publish_evidence c m s e f attempt
     | MI_EVALUATE \<Rightarrow> handle_evaluate c m s e f attempt
     | MI_COMMIT_DECISION \<Rightarrow> handle_commit_decision c m s e f attempt
     | MI_REVALIDATE \<Rightarrow> handle_revalidate c m s e f attempt
     | MI_ROLLBACK \<Rightarrow> handle_rollback c m s e f attempt
     | MI_QUERY_STATE \<Rightarrow> handle_query_state c m s e f
     | MI_SNAPSHOT_REQUEST \<Rightarrow> handle_snapshot_request c m s e f
     | MI_EXPLAIN_REQUEST \<Rightarrow> handle_explain_request c m s e f
     | MI_DIFF_REQUEST \<Rightarrow> handle_diff_request c m s e f
     | MI_ADVANCE_EPOCH \<Rightarrow> handle_advance_epoch c m s e f
     | MI_BYE \<Rightarrow> Some \<lparr>hd_engine = e, hd_session = s, hd_sent = [], hd_disposition = DS_CLOSE\<rparr>
     | _ \<Rightarrow> Some \<lparr>hd_engine = e, hd_session = s,
           hd_sent = respond_error c m e (fh_sequence (ff_header f)) Out_WIRE_MALFORMED
             (message_id_to_string (fh_message_id (ff_header f)) @ '' is not accepted by the coordinator''),
           hd_disposition = DS_PROTOCOL_FAILURE\<rparr>)"

text \<open>Every dispatched frame takes the next attempt number of its session.\<close>

definition dispatch :: "server_config \<Rightarrow> moment \<Rightarrow> session \<Rightarrow> engine \<Rightarrow> frame \<Rightarrow> handled option" where
  "dispatch c m session e f =
    (let i = fh_message_id (ff_header f);
         attempt = sx_dispatched session + 1; s = session\<lparr>sx_dispatched := attempt\<rparr> in
     if \<not> sx_registered s \<and> i \<noteq> MI_HELLO \<and> i \<noteq> MI_BYE \<and> i \<noteq> MI_REGISTER_PUBLISHER then
       carry_on e s (respond_error c m e (fh_sequence (ff_header f)) Out_UNAUTHORIZED
         (''session '' @ id_text (sx_id s) @ '' must register a publisher before '' @ message_id_to_string i))
     else route_frame c m s e f attempt)"

end
