(* ===== verification/Session_Loop.thy ===== *)
theory Session_Loop
  imports Coordinator
begin

text \<open>
  The life of a session (\<^verbatim>\<open>src/transport.cpp\<close>): the receive loop that cuts the byte stream into
  frames and dispatches them, with its partial-frame deadline, and what happens to the publisher when
  the session ends.  The loop runs over a script, one entry per turn: whether the coordinator is still
  running, the clock, what the socket delivers, and the moment in which a frame would be handled.  The
  end of the script leaves the session open.
\<close>

section \<open>Time\<close>

definition saturating_add :: "ticks \<Rightarrow> ticks \<Rightarrow> ticks" where
  "saturating_add left right = (if left > - 1 - right then - 1 else left + right)"

definition min_ticks :: "ticks \<Rightarrow> ticks \<Rightarrow> ticks" where
  "min_ticks left right = (if left < right then left else right)"

definition poll_interval :: ticks where "poll_interval = 20 * ticks_per_millisecond"

section \<open>The receive loop\<close>

datatype arrival = AR_DATA string | AR_CLOSED | AR_STALLED | AR_ERROR

record turn =
  tu_running :: bool
  tu_now :: ticks
  tu_arrival :: arrival
  tu_before :: "engine \<Rightarrow> engine"
  tu_moment :: moment

text \<open>The local variables of the loop, with the session and the engine it works on.\<close>

record loop_state =
  lo_buffer :: string
  lo_partial :: bool
  lo_deadline :: ticks
  lo_closing :: bool
  lo_session :: session
  lo_engine :: engine
  lo_sent :: "string list"

datatype verdict = VE_OPEN | VE_ENDED session_end bool

text \<open>
  One turn: the state it leaves and, when the session ends, how and whether the failure counter is
  advanced.  \<open>None\<close> is the end of the process.
\<close>

definition loop_turn :: "server_config \<Rightarrow> turn \<Rightarrow> loop_state \<Rightarrow> (loop_state \<times> verdict) option" where
  "loop_turn c u w =
    (if \<not> tu_running u then Some (w, VE_ENDED SE_SERVER_STOPPING False)
     else
       let d = decode_frame (lo_buffer w) (lim_max_frame_bytes (sv_limits c)) in
       if fd_status d = FS_OK then
         (case dispatch c (tu_moment u) (lo_session w) (tu_before u (lo_engine w)) (fd_frame d) of
            None \<Rightarrow> None
          | Some h \<Rightarrow>
            let w' = w\<lparr>lo_buffer := drop (fd_consumed d) (lo_buffer w), lo_partial := False, lo_session := hd_session h,
                       lo_engine := hd_engine h, lo_sent := lo_sent w @ hd_sent h\<rparr> in
            Some (w', case hd_disposition h of
              DS_CONTINUE \<Rightarrow> VE_OPEN
            | DS_PROTOCOL_FAILURE \<Rightarrow> VE_ENDED SE_LOST True
            | DS_CLOSE \<Rightarrow> VE_ENDED SE_CLEAN_BYE False))
       else if fd_status d \<noteq> FS_INCOMPLETE then Some (w, VE_ENDED SE_LOST True)
       else if lo_closing w then Some (w, VE_ENDED SE_LOST (lo_buffer w \<noteq> []))
       else if lo_buffer w \<noteq> [] \<and> lo_partial w \<and> tu_now u \<ge> lo_deadline w then Some (w, VE_ENDED SE_LOST True)
       else
         let w' = (if lo_buffer w = [] then w\<lparr>lo_partial := False\<rparr>
                   else if lo_partial w then w
                   else w\<lparr>lo_partial := True, lo_deadline := saturating_add (tu_now u)
                          (lim_max_receive_stall_millis (sv_limits c) * ticks_per_millisecond)\<rparr>) in
         case tu_arrival u of
           AR_DATA bytes \<Rightarrow> Some (w'\<lparr>lo_buffer := lo_buffer w' @ bytes\<rparr>, VE_OPEN)
         | AR_CLOSED \<Rightarrow> Some (w'\<lparr>lo_closing := True\<rparr>, VE_OPEN)
         | AR_ERROR \<Rightarrow> Some (w', VE_ENDED SE_LOST True)
         | AR_STALLED \<Rightarrow> Some (w', VE_OPEN))"

fun run_session :: "server_config \<Rightarrow> turn list \<Rightarrow> loop_state \<Rightarrow> (loop_state \<times> verdict) option" where
  "run_session c [] w = Some (w, VE_OPEN)"
| "run_session c (u # us) w =
    (case loop_turn c u w of
       None \<Rightarrow> None
     | Some (w', VE_OPEN) \<Rightarrow> run_session c us w'
     | Some (w', VE_ENDED how failed) \<Rightarrow> Some (w', VE_ENDED how failed))"

definition slice :: "turn \<Rightarrow> loop_state \<Rightarrow> ticks" where
  "slice u w = (if lo_buffer w = [] then poll_interval
     else min_ticks (if lo_deadline w > tu_now u then lo_deadline w - tu_now u else 0) poll_interval)"

definition open_loop :: "session \<Rightarrow> engine \<Rightarrow> loop_state" where
  "open_loop s e = \<lparr>lo_buffer = [], lo_partial = False, lo_deadline = 0, lo_closing = False, lo_session = s, lo_engine = e, lo_sent = []\<rparr>"

section \<open>The end of a session\<close>

text \<open>
  A session that ends without a goodbye while the coordinator keeps running fences the incarnation it
  was registered for.  The write of the store that follows changes nothing of the engine.
\<close>

definition close_session :: "bool \<Rightarrow> session_end \<Rightarrow> session \<Rightarrow> engine \<Rightarrow> engine" where
  "close_session stopping how s e =
    (if how = SE_LOST \<and> \<not> stopping \<and> sx_registered s
     then fst (fence_publisher (sx_publisher s) (sx_worker_boot s) ''SESSION_LOST'' e) else e)"

definition session_loop :: "server_config \<Rightarrow> turn list \<Rightarrow> bool \<Rightarrow> (engine \<Rightarrow> engine) \<Rightarrow> session \<Rightarrow> engine \<Rightarrow> (loop_state \<times> verdict \<times> engine) option" where
  "session_loop c us stopping before_fence s e =
    (case run_session c us (open_loop s e) of
       None \<Rightarrow> None
     | Some (w, VE_OPEN) \<Rightarrow> Some (w, VE_OPEN, lo_engine w)
     | Some (w, VE_ENDED how failed) \<Rightarrow>
         Some (w, VE_ENDED how failed, close_session stopping how (lo_session w) (before_fence (lo_engine w))))"

section \<open>Accepting\<close>

text \<open>
  One accepted connection: the session limit, then the next session index and its identity.  The
  socket and the thread are the platform's.  \<open>None\<close> in the second component is a refused session.
\<close>

record accept_state =
  ac_live :: nat
  ac_counter :: u64
  ac_accepted :: u64
  ac_rejected :: u64

definition accept_session :: "server_config \<Rightarrow> string \<Rightarrow> accept_state \<Rightarrow> (accept_state \<times> session option) option" where
  "accept_session c nonce a =
    (if ac_live a \<ge> unat (lim_max_sessions (sv_limits c)) then Some (a\<lparr>ac_rejected := ac_rejected a + 1\<rparr>, None)
     else
       let index = ac_counter a + 1 in
       case compose_identity 64 nonce (sv_id_prefix c) ''session'' index True of
         None \<Rightarrow> None
       | Some i \<Rightarrow> Some (a\<lparr>ac_live := ac_live a + 1, ac_counter := index, ac_accepted := ac_accepted a + 1\<rparr>,
           Some \<lparr>sx_index = index, sx_id = i, sx_registered = False, sx_publisher = no_id, sx_worker_boot = no_id,
             sx_scope = \<lparr>as_fabric = no_id, as_namespace = no_id, as_routes = [], as_multipath_sets = []\<rparr>, sx_dispatched = 0\<rparr>))"

end
