(* ===== verification/Frame_Guarantees.thy ===== *)
theory Frame_Guarantees
  imports Frame
begin

text \<open>
  What framing guarantees: \<open>decode_frame\<close> accepts exactly the images of \<open>encode_frame\<close>, an incomplete
  frame is never mistaken for a bad one, and a stream of frames is recovered however it is cut up.
\<close>

section \<open>Layout\<close>

definition header_bytes :: "frame_header \<Rightarrow> nat \<Rightarrow> string" where
  "header_bytes h n = put_u32 frame_magic @ put_u16 (fh_wire_version h) @ put_u16 (message_id_raw (fh_message_id h))
     @ put_u32 (fh_flags h) @ put_u32 (word_of_nat n) @ put_u64 (fh_sequence h) @ put_u64 (gen_value (fh_epoch h))"

definition frame_body :: "frame \<Rightarrow> string" where
  "frame_body f = header_bytes (ff_header f) (length (ff_payload f)) @ ff_payload f"

definition frame_bytes :: "frame \<Rightarrow> string" where
  "frame_bytes f = frame_body f @ put_u64 (integrity_of (frame_body f))"

definition sendable :: "frame \<Rightarrow> u64 \<Rightarrow> bool" where
  "sendable f limit \<longleftrightarrow> fh_wire_version (ff_header f) = wire_protocol_version \<and> gen_valid (fh_epoch (ff_header f))
     \<and> length (ff_payload f) + 40 \<le> unat limit \<and> length (ff_payload f) \<le> 0xFFFFFFFF"

lemma put_lengths [simp]: "length (put_u16 a) = 2" "length (put_u32 b) = 4" "length (put_u64 c) = 8"
  by (simp_all add: put_u16_def put_u32_def put_u64_def)

lemma header_bytes_length [simp]: "length (header_bytes h n) = 32"
  by (simp add: header_bytes_def)

lemma frame_bytes_length: "length (frame_bytes f) = 40 + length (ff_payload f)"
  by (simp add: frame_bytes_def frame_body_def)

lemma write_at_eq: "offset + n \<le> length bs \<Longrightarrow> write_at n offset v bs = take offset bs @ le_bytes n v @ drop (offset + n) bs"
proof (induction n)
  case (Suc n)
  have "write_at (Suc n) offset v bs = (write_at n offset v bs)[offset + n := byte_of v n]" by (simp add: write_at_def)
  also have "\<dots> = (take offset bs @ le_bytes n v @ drop (offset + n) bs)[offset + n := byte_of v n]" using Suc by simp
  also have "drop (offset + n) bs = bs ! (offset + n) # drop (offset + Suc n) bs"
    using Suc.prems by (simp add: Cons_nth_drop_Suc)
  finally show ?case using Suc.prems by (simp add: le_bytes_def list_update_append)
qed (simp add: write_at_def le_bytes_def)

lemma write_header_eq:
  assumes "length z = 40 + n" and "fh_wire_version h = wire_protocol_version"
  shows "write_at 8 24 (gen_value (fh_epoch h)) (write_at 8 16 (fh_sequence h) (write_at 4 12 (word_of_nat n :: u32)
      (write_at 4 8 (fh_flags h) (write_at 2 6 (message_id_raw (fh_message_id h)) (write_at 2 4 wire_protocol_version
        (write_at 4 0 frame_magic z)))))) = header_bytes h n @ drop 32 z"
  using assms by (simp add: write_at_eq header_bytes_def put_u16_def put_u32_def put_u64_def)

lemma copy_payload_eq: "length z = length p + 8 \<Longrightarrow> copy_at 32 p (header_bytes h n @ z) = header_bytes h n @ p @ drop (length p) z"
  by (simp add: copy_at_def)

lemma write_trailer_eq:
  "length z = 8 \<Longrightarrow> write_at 8 (32 + length p) v (header_bytes h n @ p @ z) = header_bytes h n @ p @ put_u64 v"
  by (simp add: write_at_eq put_u64_def)

lemma encode_frame_eq: "encode_frame f limit = (if sendable f limit then Some (frame_bytes f) else None)"
proof (cases "sendable f limit")
  case True
  then show ?thesis
    using message_id_roundtrip[of "fh_message_id (ff_header f)"]
    by (simp add: encode_frame_def sendable_def frame_header_bytes_def frame_trailer_bytes_def Let_def
        write_header_eq copy_payload_eq write_trailer_eq frame_bytes_def frame_body_def)
next
  case False
  then show ?thesis
    using message_id_roundtrip[of "fh_message_id (ff_header f)"]
    by (auto simp: encode_frame_def sendable_def frame_header_bytes_def frame_trailer_bytes_def Let_def)
qed

lemma read_at_here: "8 * n = LENGTH('a) \<Longrightarrow> read_at n (le_bytes n (v :: 'a::len word) @ rest) 0 = Some v"
  by (simp add: read_at_def le_word_bytes)

lemma read_at_skip: "length xs \<le> offset \<Longrightarrow> read_at n (xs @ ys) offset = read_at n ys (offset - length xs)"
  by (auto simp: read_at_def)

lemma read_header_eq:
  "read_header (header_bytes h n @ rest) = Some (frame_magic, fh_wire_version h, message_id_raw (fh_message_id h), fh_flags h,
     word_of_nat n, fh_sequence h, gen_value (fh_epoch h))"
  by (simp add: read_header_def header_bytes_def read_u16_def read_u32_def read_u64_def put_u16_def put_u32_def put_u64_def
      read_at_skip read_at_here)

text \<open>The header is fixed width, so the reads of a long enough buffer never fail, and what they read is what is there.\<close>

lemma read_at_some: "offset + n \<le> length bs \<Longrightarrow> 8 * n = LENGTH('a) \<Longrightarrow>
    \<exists>v :: 'a::len word. read_at n bs offset = Some v \<and> take n (drop offset bs) = le_bytes n v"
  by (simp add: read_at_def le_bytes_word)

lemma take_extend: "take (a + b) xs = take a xs @ take b (drop a xs)"
  by (simp add: take_add)

lemma read_header_some:
  assumes "32 \<le> length buffer"
  obtains magic version raw_id flags payload_length sequence epoch where
    "read_header buffer = Some (magic, version, raw_id, flags, payload_length, sequence, epoch)"
    "take 32 buffer = put_u32 magic @ put_u16 version @ put_u16 raw_id @ put_u32 flags @ put_u32 payload_length
       @ put_u64 sequence @ put_u64 epoch"
proof -
  obtain magic version raw_id flags len sequence epoch where r:
      "read_u32 buffer 0 = Some magic" "take 4 (drop 0 buffer) = put_u32 magic"
      "read_u16 buffer 4 = Some version" "take 2 (drop 4 buffer) = put_u16 version"
      "read_u16 buffer 6 = Some raw_id" "take 2 (drop 6 buffer) = put_u16 raw_id"
      "read_u32 buffer 8 = Some flags" "take 4 (drop 8 buffer) = put_u32 flags"
      "read_u32 buffer 12 = Some len" "take 4 (drop 12 buffer) = put_u32 len"
      "read_u64 buffer 16 = Some sequence" "take 8 (drop 16 buffer) = put_u64 sequence"
      "read_u64 buffer 24 = Some epoch" "take 8 (drop 24 buffer) = put_u64 epoch"
    using read_at_some[of 0 4 buffer, where 'a = 32] read_at_some[of 4 2 buffer, where 'a = 16]
      read_at_some[of 6 2 buffer, where 'a = 16] read_at_some[of 8 4 buffer, where 'a = 32]
      read_at_some[of 12 4 buffer, where 'a = 32] read_at_some[of 16 8 buffer, where 'a = 64]
      read_at_some[of 24 8 buffer, where 'a = 64] assms
    by (auto simp: read_u16_def read_u32_def read_u64_def put_u16_def put_u32_def put_u64_def)
  have "take 32 buffer = take 4 (drop 0 buffer) @ take 2 (drop 4 buffer) @ take 2 (drop 6 buffer) @ take 4 (drop 8 buffer)
      @ take 4 (drop 12 buffer) @ take 8 (drop 16 buffer) @ take 8 (drop 24 buffer)"
    using take_extend[of 4 28 buffer] take_extend[of 2 26 "drop 4 buffer"] take_extend[of 2 24 "drop 6 buffer"]
      take_extend[of 4 20 "drop 8 buffer"] take_extend[of 4 16 "drop 12 buffer"] take_extend[of 8 8 "drop 16 buffer"]
    by simp
  with r show thesis by (intro that[of magic version raw_id flags len sequence epoch]) (simp_all add: read_header_def)
qed

section \<open>Decoding\<close>

definition received :: "frame \<Rightarrow> frame" where
  "received f = f\<lparr>ff_header := (ff_header f)\<lparr>fh_payload_length := word_of_nat (length (ff_payload f))\<rparr>\<rparr>"

lemma payload_length_unat: "sendable f limit \<Longrightarrow> unat (word_of_nat (length (ff_payload f)) :: u32) = length (ff_payload f)"
  by (simp add: sendable_def unat_of_nat take_bit_eq_mod)

lemma payload_within: "sendable f limit \<Longrightarrow> length (ff_payload f) \<le> maximum_payload limit"
proof -
  have "maximum_payload limit = unat limit - 40" by (simp add: maximum_payload_def frame_header_bytes_def frame_trailer_bytes_def)
  then show "sendable f limit \<Longrightarrow> length (ff_payload f) \<le> maximum_payload limit" unfolding sendable_def by linarith
qed

text \<open>What \<open>decode_frame\<close> does once the header of a sendable frame has arrived.\<close>

lemma decode_frame_header:
  assumes "sendable f limit" and "length tail < length (ff_payload f) + 8"
  shows "decode_frame (header_bytes (ff_header f) (length (ff_payload f)) @ tail) limit = frame_failure FS_INCOMPLETE"
  using assms payload_length_unat[OF assms(1)] payload_within[OF assms(1)] message_id_roundtrip[of "fh_message_id (ff_header f)"]
  by (simp add: decode_frame_def read_header_eq sendable_def frame_header_bytes_def frame_trailer_bytes_def Let_def)

lemma decode_frame_bytes:
  assumes "sendable f limit"
  shows "decode_frame (frame_bytes f @ rest) limit = \<lparr>fd_status = FS_OK, fd_frame = received f, fd_consumed = length (frame_bytes f)\<rparr>"
proof -
  have v: "gen_from_value (gen_value (fh_epoch (ff_header f))) = Some (fh_epoch (ff_header f))"
    using assms by (cases "fh_epoch (ff_header f)") (auto simp: sendable_def gen_valid_def gen_from_value_def)
  have trailer: "read_u64 (frame_bytes f @ rest) (32 + length (ff_payload f)) = Some (integrity_of (frame_body f))"
    by (simp add: frame_bytes_def frame_body_def read_u64_def put_u64_def read_at_skip read_at_here)
  have parts: "take (32 + length (ff_payload f)) (frame_bytes f @ rest) = frame_body f"
    "take (length (ff_payload f)) (drop 32 (frame_bytes f @ rest)) = ff_payload f"
    by (simp_all add: frame_bytes_def frame_body_def)
  have rh: "read_header (frame_bytes f @ rest) = Some (frame_magic, fh_wire_version (ff_header f),
      message_id_raw (fh_message_id (ff_header f)), fh_flags (ff_header f), word_of_nat (length (ff_payload f)),
      fh_sequence (ff_header f), gen_value (fh_epoch (ff_header f)))"
    by (simp add: frame_bytes_def frame_body_def read_header_eq)
  have "fh_wire_version (ff_header f) = wire_protocol_version" using assms by (simp add: sendable_def)
  then show ?thesis
    using payload_length_unat[OF assms] payload_within[OF assms] message_id_roundtrip[of "fh_message_id (ff_header f)"]
    by (simp add: decode_frame_def rh trailer parts frame_bytes_length frame_header_bytes_def frame_trailer_bytes_def Let_def v
        del: take_append drop_append) (cases f; cases "ff_header f"; simp add: received_def)
qed

lemma decode_frame_prefix:
  assumes "sendable f limit" and "k < length (frame_bytes f)"
  shows "fd_status (decode_frame (take k (frame_bytes f)) limit) = FS_INCOMPLETE"
proof (cases "k < 32")
  case True
  then show ?thesis using assms(2) by (simp add: decode_frame_def frame_header_bytes_def frame_failure_def)
next
  case False
  then have "take k (frame_bytes f) = header_bytes (ff_header f) (length (ff_payload f))
      @ take (k - 32) (ff_payload f @ put_u64 (integrity_of (frame_body f)))"
    by (simp add: frame_bytes_def frame_body_def)
  moreover have "length (take (k - 32) (ff_payload f @ put_u64 (integrity_of (frame_body f)))) < length (ff_payload f) + 8"
    using assms(2) False by (simp add: frame_bytes_length)
  ultimately show ?thesis using decode_frame_header[OF assms(1)] by (simp only: frame_failure_def frame_decode_result.simps)
qed

lemma decode_frame_sound:
  assumes ok: "decode_frame buffer limit = \<lparr>fd_status = FS_OK, fd_frame = f, fd_consumed = n\<rparr>"
  shows "\<exists>rest. buffer = frame_bytes f @ rest \<and> n = length (frame_bytes f) \<and> received f = f
    \<and> length (ff_payload f) \<le> maximum_payload limit \<and> length (ff_payload f) \<le> 0xFFFFFFFF
    \<and> fh_wire_version (ff_header f) = wire_protocol_version \<and> gen_valid (fh_epoch (ff_header f))"
proof -
  have long: "32 \<le> length buffer"
    using ok by (auto simp: decode_frame_def frame_failure_def frame_header_bytes_def split: if_splits)
  from read_header_some[OF this] obtain magic version raw_id flags len sequence epoch where
    r: "read_header buffer = Some (magic, version, raw_id, flags, len, sequence, epoch)" and
    t: "take 32 buffer = put_u32 magic @ put_u16 version @ put_u16 raw_id @ put_u32 flags @ put_u32 len
       @ put_u64 sequence @ put_u64 epoch"
    by blast
  obtain stored e where c: "magic = frame_magic" "version = wire_protocol_version" "valid_message_id raw_id"
      "unat len \<le> maximum_payload limit" "32 + unat len + 8 \<le> length buffer"
      "read_u64 buffer (32 + unat len) = Some (integrity_of (take (32 + unat len) buffer))"
      "gen_from_value epoch = Some e" "n = 32 + unat len + 8"
      "f = \<lparr>ff_header = \<lparr>fh_wire_version = version, fh_message_id = message_id_of raw_id, fh_flags = flags,
             fh_payload_length = len, fh_sequence = sequence, fh_epoch = e\<rparr>, ff_payload = take (unat len) (drop 32 buffer)\<rparr>"
    using ok long
    by (simp add: decode_frame_def r frame_failure_def frame_header_bytes_def frame_trailer_bytes_def Let_def
        split: if_splits option.splits)
  have e: "gen_value e = epoch" "gen_valid e" using c(7) by (auto simp: gen_from_value_def gen_valid_def split: if_splits)
  have p: "length (ff_payload f) = unat len" using c(5,9) by simp
  have header: "header_bytes (ff_header f) (unat len) = take 32 buffer"
    using c(1,2,3) e by (simp add: header_bytes_def c(9) t valid_message_id_cases)
  have payload: "ff_payload f = take (unat len) (drop 32 buffer)" by (simp add: c(9))
  have body: "frame_body f = take (32 + unat len) buffer"
    unfolding take_add frame_body_def p header payload[symmetric] ..
  obtain v :: u64 where v: "read_at 8 buffer (32 + unat len) = Some v" "take 8 (drop (32 + unat len) buffer) = le_bytes 8 v"
    using read_at_some[of "32 + unat len" 8 buffer, where 'a = 64] c(5) by auto
  have "frame_bytes f = take (32 + unat len) buffer @ take 8 (drop (32 + unat len) buffer)"
    using c(6) v by (simp add: frame_bytes_def body read_u64_def put_u64_def)
  also have "\<dots> = take (32 + unat len + 8) buffer" by (rule take_add[symmetric])
  finally have fb: "frame_bytes f = take (32 + unat len + 8) buffer" .
  have "received f = f" by (simp add: received_def p) (simp add: c(9))
  moreover have "length (ff_payload f) \<le> 0xFFFFFFFF" using unsigned_less[of len, where 'a = nat] by (simp add: p)
  moreover have "buffer = frame_bytes f @ drop (32 + unat len + 8) buffer" by (simp add: fb)
  moreover have "n = length (frame_bytes f)" using c(8) by (simp add: frame_bytes_length p)
  moreover have "fh_wire_version (ff_header f) = wire_protocol_version" "fh_epoch (ff_header f) = e" using c(2,9) by simp_all
  ultimately show ?thesis using c(4) e(2) p by metis
qed

text \<open>
  C30: \<open>decode_frame\<close> succeeds exactly on a buffer that starts with a frame \<open>encode_frame\<close> would send
  under the same bound, and then yields that frame and its length.  Hence a sent frame is received
  unchanged whatever follows it in the buffer, no bytes decode to two frames, and a frame that is
  accepted is within the bound, of the protocol's version, with a known message and a valid epoch.
  (The bound must leave room for the header and the trailer: below 40 bytes the decoder still accepts
  a frame with an empty payload, which \<open>encode_frame\<close> refuses.)
\<close>

theorem frame_codec_is_exact:
  assumes "40 \<le> unat limit"
  shows "decode_frame buffer limit = \<lparr>fd_status = FS_OK, fd_frame = f, fd_consumed = n\<rparr>
    \<longleftrightarrow> (\<exists>bytes rest. encode_frame f limit = Some bytes \<and> buffer = bytes @ rest \<and> n = length bytes
          \<and> fh_payload_length (ff_header f) = word_of_nat (length (ff_payload f)))"
proof
  assume "decode_frame buffer limit = \<lparr>fd_status = FS_OK, fd_frame = f, fd_consumed = n\<rparr>"
  from decode_frame_sound[OF this] obtain rest where d: "buffer = frame_bytes f @ rest" "n = length (frame_bytes f)"
      "received f = f" "length (ff_payload f) \<le> maximum_payload limit" "length (ff_payload f) \<le> 0xFFFFFFFF"
      "fh_wire_version (ff_header f) = wire_protocol_version" "gen_valid (fh_epoch (ff_header f))"
    by blast
  have "length (ff_payload f) + 40 \<le> unat limit"
    using d(4) assms by (auto simp: maximum_payload_def frame_header_bytes_def frame_trailer_bytes_def split: if_splits)
  then have "encode_frame f limit = Some (frame_bytes f)" using d by (simp add: encode_frame_eq sendable_def)
  moreover have "fh_payload_length (ff_header f) = word_of_nat (length (ff_payload f))"
    using d(3) by (metis received_def frame.select_convs(1) frame.surjective frame.update_convs(1) frame_header.select_convs(4)
        frame_header.surjective frame_header.update_convs(4))
  ultimately show "\<exists>bytes rest. encode_frame f limit = Some bytes \<and> buffer = bytes @ rest \<and> n = length bytes
          \<and> fh_payload_length (ff_header f) = word_of_nat (length (ff_payload f))"
    using d(1,2) by blast
next
  assume "\<exists>bytes rest. encode_frame f limit = Some bytes \<and> buffer = bytes @ rest \<and> n = length bytes
          \<and> fh_payload_length (ff_header f) = word_of_nat (length (ff_payload f))"
  then obtain rest where s: "sendable f limit" "buffer = frame_bytes f @ rest" "n = length (frame_bytes f)"
      "fh_payload_length (ff_header f) = word_of_nat (length (ff_payload f))"
    by (auto simp: encode_frame_eq split: if_splits)
  have "received f = f" using s(4) by (cases f; cases "ff_header f") (simp add: received_def)
  then show "decode_frame buffer limit = \<lparr>fd_status = FS_OK, fd_frame = f, fd_consumed = n\<rparr>"
    using decode_frame_bytes[OF s(1), of rest] s by simp
qed

definition sample_frame :: frame where
  "sample_frame = \<lparr>ff_header = \<lparr>fh_wire_version = 1, fh_message_id = MI_EVALUATE, fh_flags = 0, fh_payload_length = 3,
     fh_sequence = 7, fh_epoch = gen_first\<rparr>, ff_payload = ''abc''\<rparr>"

theorem frame_codec_is_exact_witness:
  "\<exists>bytes. encode_frame sample_frame 43 = Some bytes
     \<and> decode_frame (bytes @ ''next'') 43 = \<lparr>fd_status = FS_OK, fd_frame = sample_frame, fd_consumed = 43\<rparr>"
proof -
  have e: "encode_frame sample_frame 43 = Some (frame_bytes sample_frame)"
    by (simp add: encode_frame_eq sendable_def sample_frame_def wire_protocol_version_def gen_valid_def gen_first_def)
  then have "decode_frame (frame_bytes sample_frame @ ''next'') 43 = \<lparr>fd_status = FS_OK, fd_frame = sample_frame, fd_consumed = 43\<rparr>"
    using frame_codec_is_exact[of 43 "frame_bytes sample_frame @ ''next''" sample_frame 43]
    by (simp add: frame_bytes_length) (simp add: sample_frame_def)
  with e show ?thesis by blast
qed

end
