(* ===== verification/Coordinator_Guarantees.thy ===== *)
theory Coordinator_Guarantees
  imports Refusal Session_Loop Frame_Guarantees
begin

text \<open>
  What the coordinator adds to the engine: attempt identities that never repeat within a session, a
  connection that is no authority until it registers, handlers whose every effect is a run of engine
  operations, and the fencing of an incarnation whose session is lost.
\<close>

section \<open>Attempt identities\<close>

lemma dec_chars: "c \<in> set (dec n) \<Longrightarrow> id_char_allowed c \<and> id_edge_char_allowed c \<and> c \<noteq> CHR ''-''"
  using dec_digits[of c n] by (auto simp: digitc_def id_char_allowed_def id_edge_char_allowed_def)

lemma dec_length: "n < 10 ^ Suc k \<Longrightarrow> length (dec n) \<le> Suc k"
proof (induction k arbitrary: n)
  case 0
  then show ?case by (subst dec.simps) simp
next
  case (Suc k)
  then have "n div 10 < 10 ^ Suc k" by auto
  from Suc.IH[OF this] show ?case by (subst dec.simps) simp
qed

lemma dec_u64_length: "length (dec (unat (n :: u64))) \<le> 20"
proof -
  have "unat n < 10 ^ Suc 19" using unsigned_less[of n, where ?'a = nat] by simp
  then show ?thesis using dec_length by fastforce
qed

lemma dash_dec_inject: "x @ ''-'' @ dec m = y @ ''-'' @ dec n \<longleftrightarrow> x = y \<and> m = n"
proof
  assume eq: "x @ ''-'' @ dec m = y @ ''-'' @ dec n"
  have tail: "takeWhile (\<lambda>c. c \<noteq> CHR ''-'') (rev (z @ ''-'' @ dec k)) = rev (dec k)" for z k
    using dec_chars by (subst rev_append, subst rev_append, subst append_assoc, subst takeWhile_append2) auto
  from eq have "rev (dec m) = rev (dec n)" using tail[of x m] tail[of y n] by simp
  with eq show "x = y \<and> m = n" by simp
qed simp

lemma id_parse_dash_dec:
  assumes "x \<noteq> []" and "\<forall>c \<in> set x. id_char_allowed c" and "id_edge_char_allowed (hd x)"
    and "length x + 1 + length (dec n) \<le> l"
  shows "id_parse l (x @ ''-'' @ dec n) = Some (StrongId (x @ ''-'' @ dec n))"
proof -
  have "id_char_allowed (CHR ''-'')" by (simp add: id_char_allowed_def)
  moreover have "id_edge_char_allowed (last (dec n))" using dec_chars[of "last (dec n)" n] by simp
  moreover have "id_char_allowed c" if "c \<in> set (dec n)" for c using dec_chars that by blast
  ultimately show ?thesis using assms by (auto simp: id_parse_def)
qed

lemma compose_attempt_form:
  obtains x where "compose_attempt s n = Some (StrongId (x @ ''-'' @ dec (unat n)))"
proof (cases "id_parse 64 (take (64 - length (''-'' @ dec (unat n))) (if id_valid s then id_text s else ''anonymous'') @ ''-'' @ dec (unat n))
    :: mutation_attempt_id option")
  case None
  have "id_parse 64 (''attempt'' @ ''-'' @ dec (unat n)) = Some (StrongId (''attempt'' @ ''-'' @ dec (unat n)) :: mutation_attempt_id)"
    using dec_u64_length[of n] by (intro id_parse_dash_dec) (auto simp: id_char_allowed_def id_edge_char_allowed_def)
  with None show ?thesis using that[of "''attempt''"] by (simp add: compose_attempt_def Let_def)
next
  case (Some i)
  then show ?thesis using that id_parse_SomeD[OF Some] by (auto simp: compose_attempt_def Let_def)
qed

lemma compose_attempt_short:
  assumes "id_parse 64 (id_text s) = Some s" and "length (id_text s) + length (dec (unat n)) < 64"
  shows "compose_attempt s n = Some (StrongId (id_text s @ ''-'' @ dec (unat n)))"
  using id_parse_dash_dec[of "id_text s" "unat n" 64, where 'a = mutation_attempt_tag] id_parse_SomeD[OF assms(1)] assms(2)
  by (simp add: compose_attempt_def id_valid_def)

text \<open>
  Attempt identities.  The attempt of a frame always exists; within a session two frames never
  share one; and two sessions whose identities leave room for the frame number in the 64 characters
  never share one either.
\<close>

theorem attempts_are_distinct:
  assumes "id_parse 64 (id_text s) = Some s" and "id_parse 64 (id_text t) = Some t"
  shows "compose_attempt s m \<noteq> None \<and> (compose_attempt s m = compose_attempt s n \<longleftrightarrow> m = n)
    \<and> (length (id_text s) + length (dec (unat m)) < 64 \<longrightarrow> length (id_text t) + length (dec (unat n)) < 64 \<longrightarrow>
         (compose_attempt s m = compose_attempt t n \<longleftrightarrow> s = t \<and> m = n))"
proof -
  obtain x where x: "compose_attempt s m = Some (StrongId (x @ ''-'' @ dec (unat m)))" by (rule compose_attempt_form)
  obtain y where y: "compose_attempt s n = Some (StrongId (y @ ''-'' @ dec (unat n)))" by (rule compose_attempt_form)
  have "compose_attempt s m = compose_attempt s n \<longleftrightarrow> m = n" using x y dash_dec_inject word_unat_eq_iff[of m n] by auto
  moreover have "id_text s = id_text t \<longleftrightarrow> s = t" by (cases s; cases t) simp
  ultimately show ?thesis using x compose_attempt_short assms dash_dec_inject[of "id_text s" "unat m" "id_text t" "unat n"]
    word_unat_eq_iff[of m n] by auto
qed

theorem attempts_are_distinct_witness:
  "(compose_attempt (StrongId ''arf-session-7'') 12 :: mutation_attempt_id option) \<noteq> compose_attempt (StrongId ''arf-session-71'') 2"
proof -
  have "length (id_text (StrongId ''arf-session-7'' :: session_id)) + length (dec (unat (12 :: u64))) < 64"
    "length (id_text (StrongId ''arf-session-71'' :: session_id)) + length (dec (unat (2 :: u64))) < 64" by code_simp+
  with attempts_are_distinct[of "StrongId ''arf-session-7''" "StrongId ''arf-session-71''" 12 2] show ?thesis
    by (simp add: id_parse_def id_char_allowed_def id_edge_char_allowed_def)
qed

text \<open>Without that room they can: a session identity of 64 characters loses its last ones, which hold its number.\<close>

lemma long_session_identities_collide:
  "compose_attempt (StrongId (replicate 63 (CHR ''a'') @ ''1'')) 5 = compose_attempt (StrongId (replicate 63 (CHR ''a'') @ ''2'')) 5"
  by code_simp

section \<open>What a frame can do\<close>

text \<open>
  What one frame leaves of the engine and the session: nothing changed, or one operation run under the
  session's own context on what other sessions made of the engine.
\<close>

definition acted :: "moment \<Rightarrow> session \<Rightarrow> engine \<Rightarrow> u64 \<Rightarrow> handled \<Rightarrow> bool" where
  "acted m s e a h \<longleftrightarrow> hd_session h = s \<and> (hd_engine h = e \<or>
     (\<exists>ctx. make_context s e a = Some ctx \<and> acts (mo_meanwhile m) ctx (mo_others m e) (hd_engine h)))"

lemma decoded_publication_typed: "decode_publish payload = Some ps \<Longrightarrow> publication_typed \<lparr>er_publications = ps, er_context = ctx\<rparr>"
  by (auto simp: decode_publish_def whole_def read_steps publication_code.vector_exact vector_ok_def publication_typed_def
        publication_fits_def list_all_iff)

lemma carry_on_Some [simp]: "carry_on e s sent = Some h \<longleftrightarrow>
    h = \<lparr>hd_engine = e, hd_session = s, hd_sent = sent, hd_disposition = DS_CONTINUE\<rparr>"
  by (auto simp: carry_on_def)

lemmas handler_steps = reject_payload_def reported_def Let_def acted_def

lemma handlers_act:
  "handle_create_policy c m s e f a = Some h \<Longrightarrow> acted m s e a h"
  "handle_update_policy c m s e f a = Some h \<Longrightarrow> acted m s e a h"
  "handle_policy_lifecycle c m s e f a = Some h \<Longrightarrow> acted m s e a h"
  "handle_revoke_policy c m s e f a = Some h \<Longrightarrow> acted m s e a h"
  "handle_upstream_notify c m s e f a = Some h \<Longrightarrow> acted m s e a h"
  by (auto simp: handler_steps handle_create_policy_def handle_update_policy_def handle_policy_lifecycle_def handle_revoke_policy_def
        handle_upstream_notify_def split: option.splits intro: acts.intros)

lemma evidence_handlers_act:
  "handle_publish_evidence c m s e f a = Some h \<Longrightarrow> acted m s e a h"
  "handle_commit_decision c m s e f a = Some h \<Longrightarrow> acted m s e a h"
  "handle_revalidate c m s e f a = Some h \<Longrightarrow> acted m s e a h"
  "handle_rollback c m s e f a = Some h \<Longrightarrow> acted m s e a h"
  by (auto simp: handler_steps handle_publish_evidence_def handle_commit_decision_def handle_revalidate_def handle_rollback_def
      split: option.splits intro: acts.intros decoded_publication_typed)

lemma handle_evaluate_acts: "handle_evaluate c m s e f a = Some h \<Longrightarrow> acted m s e a h"
  by (auto simp: handler_steps handle_evaluate_def split: option.splits if_splits
      intro: acts.evaluate acts.begin_evaluation[where done_t = "(e', t)" for e' t, simplified])

lemma query_handlers:
  "handle_query_state c m s e f = Some h \<Longrightarrow> hd_session h = s \<and> hd_engine h = e"
  "handle_diff_request c m s e f = Some h \<Longrightarrow> hd_session h = s \<and> hd_engine h = e"
  "handle_snapshot_request c m s e f = Some h \<Longrightarrow> hd_session h = s \<and> (hd_engine h = e \<or> (\<exists>p v. snapshot (mo_clock m) p e = Some (hd_engine h, v)))"
  "handle_explain_request c m s e f = Some h \<Longrightarrow> hd_session h = s \<and> (hd_engine h = e \<or> (\<exists>t p x. explain (mo_clock m) t p e = Some (hd_engine h, x)))"
  by (auto simp: handler_steps handle_query_state_def handle_diff_request_def handle_snapshot_request_def handle_explain_request_def
      split: option.splits if_splits)

lemma authority_handlers:
  "handle_hello c m s e f = Some h \<Longrightarrow> hd_session h = s \<and> hd_engine h = e"
  "handle_fence_notice c m s e f = Some h \<Longrightarrow> hd_session h = s \<and> (hd_engine h = e \<or> (\<exists>p b cause. hd_engine h = fst (fence_publisher p b cause e)))"
  "handle_advance_epoch c m s e f = Some h \<Longrightarrow> hd_session h = s \<and> (hd_engine h = e \<or> (\<exists>reason. hd_engine h = fst (advance_epoch reason e)))"
  by (auto simp: handler_steps handle_hello_def handle_fence_notice_def handle_advance_epoch_def split: option.splits if_splits)

lemma register_handler:
  "handle_register_publisher c m s e f = Some h \<Longrightarrow> hd_session h = s \<and> hd_engine h = e
     \<or> (\<exists>p b sc. hd_engine h = fst (register_publisher p b sc (sx_id s) e) \<and> hd_session h =
          (if or_ok (snd (register_publisher p b sc (sx_id s) e))
           then s\<lparr>sx_registered := True, sx_publisher := p, sx_worker_boot := b, sx_scope := sc\<rparr> else s))"
  by (auto simp: handler_steps handle_register_publisher_def split: option.splits if_splits prod.splits)
    (metis fst_conv snd_conv)+

definition counted :: "session \<Rightarrow> session" where
  "counted s = s\<lparr>sx_dispatched := sx_dispatched s + 1\<rparr>"

lemma route_ends:
  assumes "route_frame c m s e f a = Some h"
  shows "acted m s e a h
    \<or> (\<exists>p b sc. hd_engine h = fst (register_publisher p b sc (sx_id s) e) \<and> hd_session h =
          (if or_ok (snd (register_publisher p b sc (sx_id s) e))
           then s\<lparr>sx_registered := True, sx_publisher := p, sx_worker_boot := b, sx_scope := sc\<rparr> else s))
    \<or> (hd_session h = s \<and> ((\<exists>p b cause. hd_engine h = fst (fence_publisher p b cause e))
         \<or> (\<exists>reason. fh_message_id (ff_header f) = MI_ADVANCE_EPOCH \<and> hd_engine h = fst (advance_epoch reason e))
         \<or> (\<exists>p v. snapshot (mo_clock m) p e = Some (hd_engine h, v))
         \<or> (\<exists>t p x. explain (mo_clock m) t p e = Some (hd_engine h, x))))"
    (is "?A \<or> ?R \<or> ?Q")
proof -
  note run = assms[unfolded route_frame_def]
  have quiet: "hd_session h = s \<and> hd_engine h = e \<Longrightarrow> acted m s e a h" by (simp add: acted_def)
  show ?thesis
  proof (cases "fh_message_id (ff_header f)")
    case MI_HELLO
    then show ?thesis using run authority_handlers(1)[of c m s e f h] quiet by simp
  next
    case MI_REGISTER_PUBLISHER
    with run have "hd_session h = s \<and> hd_engine h = e \<or> ?R" using register_handler[of c m s e f h] by simp
    then show ?thesis using quiet by blast
  next
    case MI_FENCE_NOTICE
    with run have "hd_session h = s \<and> (hd_engine h = e \<or> (\<exists>p b cause. hd_engine h = fst (fence_publisher p b cause e)))"
      using authority_handlers(2)[of c m s e f h] by simp
    then show ?thesis using quiet by blast
  next
    case MI_ADVANCE_EPOCH
    with run have "hd_session h = s \<and> (hd_engine h = e \<or> (\<exists>reason. hd_engine h = fst (advance_epoch reason e)))"
      using authority_handlers(3)[of c m s e f h] by simp
    then show ?thesis using quiet MI_ADVANCE_EPOCH by blast
  next
    case MI_SNAPSHOT_REQUEST
    with run have "hd_session h = s \<and> (hd_engine h = e \<or> (\<exists>p v. snapshot (mo_clock m) p e = Some (hd_engine h, v)))"
      using query_handlers(3)[of c m s e f h] by simp
    then show ?thesis using quiet by blast
  next
    case MI_EXPLAIN_REQUEST
    with run have "hd_session h = s \<and> (hd_engine h = e \<or> (\<exists>t p x. explain (mo_clock m) t p e = Some (hd_engine h, x)))"
      using query_handlers(4)[of c m s e f h] by simp
    then show ?thesis using quiet by blast
  next
    case MI_QUERY_STATE
    then show ?thesis using run query_handlers(1)[of c m s e f h] quiet by simp
  next
    case MI_DIFF_REQUEST
    then show ?thesis using run query_handlers(2)[of c m s e f h] quiet by simp
  next
    case MI_EVALUATE
    then show ?thesis using run handle_evaluate_acts[of c m s e f a h] by simp
  qed (use run quiet handlers_act[of c m s e f a h] evidence_handlers_act[of c m s e f a h] in \<open>simp_all\<close>, auto intro: quiet)
qed

lemma dispatch_ends [consumes 1, case_names quiet acted register fence advance snapshot explain]:
  assumes "dispatch c m s e f = Some h"
  obtains (quiet) "hd_session h = counted s" "hd_engine h = e"
  | (acted) ctx where "sx_registered s" "make_context (counted s) e (sx_dispatched s + 1) = Some ctx" "hd_session h = counted s"
      "acts (mo_meanwhile m) ctx (mo_others m e) (hd_engine h)"
  | (register) p b sc where "hd_engine h = fst (register_publisher p b sc (sx_id s) e)"
      "hd_session h = (if or_ok (snd (register_publisher p b sc (sx_id s) e))
         then (counted s)\<lparr>sx_registered := True, sx_publisher := p, sx_worker_boot := b, sx_scope := sc\<rparr> else counted s)"
  | (fence) p b cause where "sx_registered s" "hd_session h = counted s" "hd_engine h = fst (fence_publisher p b cause e)"
  | (advance) reason where "sx_registered s" "hd_session h = counted s" "fh_message_id (ff_header f) = MI_ADVANCE_EPOCH"
      "hd_engine h = fst (advance_epoch reason e)"
  | (snapshot) p v where "sx_registered s" "hd_session h = counted s" "snapshot (mo_clock m) p e = Some (hd_engine h, v)"
  | (explain) t p x where "sx_registered s" "hd_session h = counted s" "explain (mo_clock m) t p e = Some (hd_engine h, x)"
proof -
  let ?s = "counted s" and ?a = "sx_dispatched s + 1"
  have act: thesis if "acted m ?s e ?a h" "sx_registered s"
    using that quiet acted unfolding acted_def by blast
  have same: "sx_registered ?s = sx_registered s" "sx_id ?s = sx_id s" by (simp_all add: counted_def)
  show thesis
  proof (cases "sx_registered s \<or> fh_message_id (ff_header f) \<in> {MI_HELLO, MI_BYE, MI_REGISTER_PUBLISHER}")
    case False
    then have "hd_session h = ?s \<and> hd_engine h = e" using assms by (auto simp: dispatch_def Let_def counted_def)
    then show thesis using quiet by blast
  next
    case True
    then have go: "route_frame c m ?s e f ?a = Some h" using assms by (auto simp: dispatch_def Let_def counted_def)
    show thesis
    proof (cases "sx_registered s")
      case True
      with route_ends[OF go] act quiet register fence advance snapshot explain show thesis by (elim disjE conjE exE) (simp_all add: same)
    next
      case False
      with \<open>sx_registered s \<or> _\<close> consider "fh_message_id (ff_header f) = MI_HELLO" | "fh_message_id (ff_header f) = MI_BYE"
        | "fh_message_id (ff_header f) = MI_REGISTER_PUBLISHER" by auto
      then show thesis
      proof cases
        case 1
        then show thesis using go authority_handlers(1) quiet by (simp add: route_frame_def)
      next
        case 2
        then show thesis using go quiet by (auto simp: route_frame_def)
      next
        case 3
        then show thesis using go register_handler[of c m ?s e f h] quiet register by (simp add: route_frame_def same) blast
      qed
    qed
  qed
qed

section \<open>Every effect is a run of the engine\<close>

text \<open>What other sessions do is itself a run of the engine.\<close>

definition benign :: "(engine \<Rightarrow> engine) \<Rightarrow> bool" where
  "benign f = (\<forall>e. engine_step\<^sup>*\<^sup>* e (f e))"

lemma benign_run: "benign f \<Longrightarrow> engine_step\<^sup>*\<^sup>* e (f e)"
  by (simp add: benign_def)

lemma acts_run:
  assumes "acts meanwhile ctx e e'" and "benign meanwhile"
  shows "engine_step\<^sup>*\<^sup>* e e'"
  using assms(1)
proof (cases rule: acts.cases)
  case (create now crq x)
  then show ?thesis using engine_step.create[of now crq e "fst x" "snd x"] by (simp add: r_into_rtranclp)
next
  case (update urq now)
  then show ?thesis using engine_step.update[OF prod.collapse[symmetric]] by (simp add: r_into_rtranclp)
next
  case (transition lrq)
  then show ?thesis using engine_step.transition[OF prod.collapse[symmetric]] by (simp add: r_into_rtranclp)
next
  case (revoke p reason detail)
  then show ?thesis using engine_step.revoke[OF prod.collapse[symmetric]] by (simp add: r_into_rtranclp)
next
  case (notify nrq)
  then show ?thesis using engine_step.notify[OF prod.collapse[symmetric]] by (simp add: r_into_rtranclp)
next
  case (publish prq clock)
  then show ?thesis using engine_step.publish[OF publish(2) prod.collapse[symmetric]] by (simp add: r_into_rtranclp)
next
  case (begin_evaluation clock vrq done_t)
  then show ?thesis using engine_step.begin_evaluation[of clock vrq e "fst done_t" "snd done_t"] by (simp add: r_into_rtranclp)
next
  case (evaluate clock vrq x)
  have "evaluate clock vrq meanwhile e = Some (e', snd x)" using evaluate(1,2) by simp
  then show ?thesis by (rule evaluate_run[rotated]) (rule benign_run[OF assms(2)])
next
  case (commit now krq x)
  then show ?thesis using engine_step.commit[of now krq e "fst x" "snd x"] by (simp add: r_into_rtranclp)
next
  case (rollback now brq x)
  then show ?thesis using engine_step.rollback[of now brq e "fst x" "snd x"] by (simp add: r_into_rtranclp)
next
  case (revalidate p a)
  then show ?thesis using engine_step.revalidate[OF prod.collapse[symmetric]] by (simp add: r_into_rtranclp)
qed

lemma dispatch_run:
  assumes "dispatch c m s e f = Some h" and "benign (mo_others m)" and "benign (mo_meanwhile m)"
  shows "engine_step\<^sup>*\<^sup>* e (hd_engine h)"
  using assms(1)
proof (cases rule: dispatch_ends)
  case (acted ctx)
  show ?thesis using benign_run[OF assms(2)] acts_run[OF acted(4) assms(3)] by (rule rtranclp_trans)
next
  case (register p b sc)
  then show ?thesis using engine_step.register[OF prod.collapse[symmetric]] by (simp add: r_into_rtranclp)
next
  case (fence p b cause)
  then show ?thesis using engine_step.fence[OF prod.collapse[symmetric]] by (simp add: r_into_rtranclp)
next
  case (advance reason)
  then show ?thesis using engine_step.advance[OF prod.collapse[symmetric]] by (simp add: r_into_rtranclp)
next
  case (snapshot p v)
  then show ?thesis using engine_step.snapshot by blast
next
  case (explain t p x)
  then show ?thesis using engine_step.explain by blast
qed simp

definition benign_turn :: "turn \<Rightarrow> bool" where
  "benign_turn u \<longleftrightarrow> benign (tu_before u) \<and> benign (mo_others (tu_moment u)) \<and> benign (mo_meanwhile (tu_moment u))"

text \<open>A turn either dispatches a frame on what the others made of the engine, or leaves session and engine alone.\<close>

lemma loop_turn_ends [consumes 1, case_names frame idle]:
  assumes "loop_turn c u w = Some (w', v)"
  obtains (frame) f h where "decode_frame (lo_buffer w) (lim_max_frame_bytes (sv_limits c)) = \<lparr>fd_status = FS_OK, fd_frame = f, fd_consumed = length (lo_buffer w) - length (lo_buffer w')\<rparr>"
      "dispatch c (tu_moment u) (lo_session w) (tu_before u (lo_engine w)) f = Some h"
      "lo_session w' = hd_session h" "lo_engine w' = hd_engine h" "lo_sent w' = lo_sent w @ hd_sent h"
      "lo_closing w' = lo_closing w"
      "v = (case hd_disposition h of DS_CONTINUE \<Rightarrow> VE_OPEN | DS_PROTOCOL_FAILURE \<Rightarrow> VE_ENDED SE_LOST True | DS_CLOSE \<Rightarrow> VE_ENDED SE_CLEAN_BYE False)"
  | (idle) "lo_session w' = lo_session w" "lo_engine w' = lo_engine w" "lo_sent w' = lo_sent w"
proof -
  let ?d = "decode_frame (lo_buffer w) (lim_max_frame_bytes (sv_limits c))"
  show thesis
  proof (cases "tu_running u \<and> fd_status ?d = FS_OK")
    case True
    obtain f n where d: "?d = \<lparr>fd_status = FS_OK, fd_frame = f, fd_consumed = n\<rparr>" using True by (cases ?d) auto
    have "n \<le> length (lo_buffer w)" using decode_frame_sound[OF d] by auto
    then show thesis using assms True d
      by (auto simp: loop_turn_def Let_def intro!: frame split: option.splits)
  next
    case False
    then show thesis using assms
      by (auto simp: loop_turn_def Let_def intro!: idle split: if_splits arrival.splits)
  qed
qed

lemma run_session_induct [consumes 1, case_names start frame]:
  assumes "run_session c us w = Some (w', v)"
    and "P (lo_session w) (lo_engine w)"
    and "\<And>u s e f h. u \<in> set us \<Longrightarrow> P s e \<Longrightarrow> dispatch c (tu_moment u) s (tu_before u e) f = Some h \<Longrightarrow> P (hd_session h) (hd_engine h)"
  shows "P (lo_session w') (lo_engine w')"
  using assms
proof (induction c us w rule: run_session.induct)
  case (2 c u us w)
  obtain w1 v1 where t: "loop_turn c u w = Some (w1, v1)" using "2.prems"(1) by (auto split: option.splits)
  from t have p: "P (lo_session w1) (lo_engine w1)"
  proof (cases rule: loop_turn_ends)
    case (frame f h)
    have "P (hd_session h) (hd_engine h)" by (rule "2.prems"(3)[OF _ "2.prems"(2) frame(2)]) simp
    with frame(3,4) show ?thesis by simp
  next
    case idle
    with "2.prems"(2) show ?thesis by simp
  qed
  show ?case
  proof (cases v1)
    case VE_OPEN
    have "run_session c us w1 = Some (w', v)" using "2.prems"(1) t VE_OPEN by simp
    from "2.IH"[OF t refl VE_OPEN this p] "2.prems"(3) show ?thesis by (meson list.set_intros(2))
  next
    case (VE_ENDED how failed)
    then show ?thesis using "2.prems"(1) t p by auto
  qed
qed simp

lemma run_session_run:
  assumes "run_session c us w = Some (w', v)" and "\<forall>u \<in> set us. benign_turn u"
  shows "engine_step\<^sup>*\<^sup>* (lo_engine w) (lo_engine w')"
proof (rule run_session_induct[OF assms(1), where P = "\<lambda>_. engine_step\<^sup>*\<^sup>* (lo_engine w)"])
  fix u s e f h
  assume u: "u \<in> set us" and e: "engine_step\<^sup>*\<^sup>* (lo_engine w) e"
    and d: "dispatch c (tu_moment u) s (tu_before u e) f = Some h"
  have b: "benign (tu_before u)" "benign (mo_others (tu_moment u))" "benign (mo_meanwhile (tu_moment u))"
    using u assms(2) by (auto simp: benign_turn_def)
  from e benign_run[OF b(1)] dispatch_run[OF d b(2,3)] show "engine_step\<^sup>*\<^sup>* (lo_engine w) (hd_engine h)" by (meson rtranclp_trans)
qed simp

lemma close_session_run: "engine_step\<^sup>*\<^sup>* e (close_session stopping how s e)"
  using engine_step.fence[OF prod.collapse[symmetric]] by (simp add: close_session_def r_into_rtranclp)

lemma session_loop_ends:
  assumes "session_loop c us stopping before_fence s e = Some (w, v, e')"
  shows "run_session c us (open_loop s e) = Some (w, v)
    \<and> e' = (case v of VE_OPEN \<Rightarrow> lo_engine w | VE_ENDED how failed \<Rightarrow> close_session stopping how (lo_session w) (before_fence (lo_engine w)))"
  using assms by (auto simp: session_loop_def split: option.splits verdict.splits)

lemma session_loop_run:
  assumes "session_loop c us stopping before_fence s e = Some (w, v, e')" and "\<forall>u \<in> set us. benign_turn u" and "benign before_fence"
  shows "engine_step\<^sup>*\<^sup>* e (lo_engine w) \<and> engine_step\<^sup>*\<^sup>* (lo_engine w) e'"
proof -
  have "engine_step\<^sup>*\<^sup>* e (lo_engine w)"
    using run_session_run[OF conjunct1[OF session_loop_ends[OF assms(1)]] assms(2)] by (simp add: open_loop_def)
  moreover have "engine_step\<^sup>*\<^sup>* (before_fence (lo_engine w)) (close_session stopping how (lo_session w) (before_fence (lo_engine w)))" for how
    by (rule close_session_run)
  then have "engine_step\<^sup>*\<^sup>* (lo_engine w) e'"
    using conjunct2[OF session_loop_ends[OF assms(1)]] benign_run[OF assms(3), of "lo_engine w"]
    by (auto split: verdict.splits intro: rtranclp_trans)
  ultimately show ?thesis by blast
qed

end
