(* ===== verification/Session_Guarantees.thy ===== *)
theory Session_Guarantees
  imports Coordinator_Guarantees
begin

text \<open>
  The end-to-end properties of a session: its effects are runs of the engine, a fenced worker's frames
  change nothing, and a lost session leaves its incarnation fenced.
\<close>

section \<open>What the frames of a session leave\<close>

text \<open>What a network of publishers decides about: policies, evidence, revocations and the journal of decisions.\<close>

definition same_decisions :: "engine \<Rightarrow> engine \<Rightarrow> bool" where
  "same_decisions e e' \<longleftrightarrow> g_policies (en_state e') = g_policies (en_state e) \<and> g_evidence (en_state e') = g_evidence (en_state e)
     \<and> g_revocations (en_state e') = g_revocations (en_state e) \<and> g_decision_journal (en_state e') = g_decision_journal (en_state e)
     \<and> g_epoch (en_state e') = g_epoch (en_state e)"

lemma same_decisions_refl [simp]: "same_decisions e e"
  by (simp add: same_decisions_def)

lemma same_decisions_state: "en_state e' = en_state e \<Longrightarrow> same_decisions e e'"
  by (simp add: same_decisions_def)

lemma fence_worker_journal [simp]:
  "g_decision_journal (fence_worker p b c s) = g_decision_journal s" "g_evidence (fence_worker p b c s) = g_evidence s"
  by (simp_all add: fence_worker_def)

lemma register_same_decisions: "same_decisions e (fst (register_publisher p b sc se e))"
  by (auto simp: same_decisions_def register_publisher_def Let_def split: option.split)

lemma fence_same_decisions: "same_decisions e (fst (fence_publisher p b cause e))"
  by (auto simp: same_decisions_def fence_publisher_def Let_def split: option.split)

lemma query_same_decisions:
  "snapshot clock p e = Some (e', v) \<Longrightarrow> same_decisions e e'"
  "explain clock t p e = Some (e', x) \<Longrightarrow> same_decisions e e'"
proof -
  assume "snapshot clock p e = Some (e', v)"
  then show "same_decisions e e'"
  proof (cases rule: snapshot_ends)
    case (taken r ids1 i ids2 inputs)
    then show ?thesis using retain_snapshot_frame[of "en_limits e" v "en_state e"] by (auto simp: same_decisions_def)
  qed simp
next
  assume "explain clock t p e = Some (e', x)"
  then show "same_decisions e e'" by (rule explain_ends) (simp_all add: same_decisions_def)
qed

lemma make_context_boot: "make_context s e n = Some ctx \<Longrightarrow> mc_worker_boot ctx = sx_worker_boot s \<and> mc_publisher ctx = sx_publisher s \<and> mc_session ctx = sx_id s"
  by (auto simp: make_context_def split: option.splits)

lemma fenced_run: "engine_step\<^sup>*\<^sup>* e e' \<Longrightarrow> engine_ok e \<Longrightarrow> oset_member b (g_fenced_boots (en_state e)) \<Longrightarrow> oset_member b (g_fenced_boots (en_state e'))"
  using run_contract[of e e'] by (auto simp: engine_extends_def state_extends_def)

text \<open>
  C10: the session of a fenced worker is inert.  Whatever frame it sends, other than an epoch advance,
  the policies, the evidence, the revocations, the journal and the epoch stay what they were or what
  the other sessions made of them while the frame was handled.
\<close>

theorem fenced_session_is_inert:
  assumes "reachable l e" and "oset_member (sx_worker_boot s) (g_fenced_boots (en_state e))"
    and "benign (mo_others m)" and "dispatch c m s e f = Some h" and "fh_message_id (ff_header f) \<noteq> MI_ADVANCE_EPOCH"
  shows "\<exists>x \<in> {e, mo_others m e, mo_meanwhile m (mo_others m e)}. same_decisions x (hd_engine h)"
  using assms(4)
proof (cases rule: dispatch_ends)
  case (acted ctx)
  have "oset_member (sx_worker_boot s) (g_fenced_boots (en_state (mo_others m e)))"
    using fenced_run[OF benign_run[OF assms(3)]] reachable_ok[OF assms(1)] assms(2) by blast
  moreover have "mc_worker_boot ctx = sx_worker_boot s" using make_context_boot[OF acted(2)] by (simp add: counted_def)
  ultimately have "refused_everywhere (en_state (mo_others m e)) ctx" by (simp add: fenced_refused)
  from refused_acts[OF acted(4) this] show ?thesis using same_decisions_state by auto
qed (use assms(5) register_same_decisions fence_same_decisions query_same_decisions in auto)

section \<open>Sessions refine the engine\<close>

text \<open>
  C7: a session is a run of the engine.  Whatever bytes a peer sends, however they are cut, and
  whatever else happens in between, what a session makes of the engine, its last fence included, is a
  sequence of engine operations; so everything that holds of every reachable engine holds with any
  number of peers connected.
\<close>

theorem sessions_refine_the_engine:
  assumes "reachable l e" and "\<forall>u \<in> set us. benign_turn u" and "benign before_fence"
    and "session_loop c us stopping before_fence s e = Some (w, v, e')"
  shows "engine_step\<^sup>*\<^sup>* e e' \<and> reachable l e' \<and> engine_ok e' \<and> engine_extends e e'"
proof -
  have run: "engine_step\<^sup>*\<^sup>* e e'" using session_loop_run[OF assms(4,2,3)] by (meson rtranclp_trans)
  then show ?thesis using reachable_run[OF run assms(1)] reachable_ok[OF assms(1)] run_contract[OF run] by blast
qed

section \<open>Being connected is not authority\<close>

lemma register_ends:
  assumes "\<And>oc d t. Q (e, make_result oc d no_id t)" and "\<And>x d t. Q (x, make_result Out_POLICY_UPDATED d no_id t)"
    and "\<And>x d t. Q (x, make_result Out_IDEMPOTENT d no_id t)"
  shows "Q (register_publisher p b sc se e)"
  unfolding register_publisher_def Let_def using assms by (simp split: option.split)

lemma register_refused: "or_ok (snd (register_publisher p b sc se e)) \<or> fst (register_publisher p b sc se e) = e"
  by (rule register_ends[where Q = "\<lambda>q. or_ok (snd q) \<or> fst q = e"]) simp_all

lemma unregistered_dispatch:
  assumes "dispatch c m s e f = Some h" and "\<not> sx_registered s" and "\<not> sx_registered (hd_session h)"
  shows "hd_engine h = e"
  using assms(1)
proof (cases rule: dispatch_ends)
  case (register p b sc)
  then show ?thesis using assms(3) register_refused[of p b sc "sx_id s" e] by (auto split: if_splits)
qed (use assms(2) in auto)

lemma dispatch_registered: "dispatch c m s e f = Some h \<Longrightarrow> sx_registered s \<Longrightarrow> sx_registered (hd_session h)"
  by (erule dispatch_ends) (auto simp: counted_def)

lemma loop_turn_registered: "loop_turn c u w = Some (w', v) \<Longrightarrow> sx_registered (lo_session w) \<Longrightarrow> sx_registered (lo_session w')"
  by (erule loop_turn_ends) (auto dest: dispatch_registered)

lemma run_session_registered: "run_session c us w = Some (w', v) \<Longrightarrow> sx_registered (lo_session w) \<Longrightarrow> sx_registered (lo_session w')"
proof (induction c us w rule: run_session.induct)
  case (2 c u us w)
  then show ?case using loop_turn_registered[of c u w] by (auto split: option.splits verdict.splits prod.splits)
qed simp

text \<open>What the others make of the engine over some turns of the loop, in the order of the turns.\<close>

definition others_alone :: "turn list \<Rightarrow> engine \<Rightarrow> engine" where
  "others_alone us e = fold tu_before us e"

lemma unregistered_run:
  "run_session c us w = Some (w', v) \<Longrightarrow> \<not> sx_registered (lo_session w') \<Longrightarrow> \<exists>vs. subseq vs us \<and> lo_engine w' = others_alone vs (lo_engine w)"
proof (induction c us w rule: run_session.induct)
  case (1 c w)
  then show ?case by (intro exI[of _ "[]"]) (simp add: others_alone_def)
next
  case (2 c u us w)
  obtain w1 v1 where t: "loop_turn c u w = Some (w1, v1)" using "2.prems"(1) by (auto split: option.splits)
  have un1: "\<not> sx_registered (lo_session w1)"
  proof (cases v1)
    case VE_OPEN
    then show ?thesis using "2.prems" t run_session_registered[of c us w1 w' v] by auto
  qed (use "2.prems" t in auto)
  then have un: "\<not> sx_registered (lo_session w)" using loop_turn_registered[OF t] by blast
  obtain v0 where first: "subseq v0 [u]" "lo_engine w1 = others_alone v0 (lo_engine w)"
    using t
  proof (cases rule: loop_turn_ends)
    case (frame f h)
    have "hd_engine h = tu_before u (lo_engine w)" using unregistered_dispatch[OF frame(2) un] un1 frame(3) by simp
    then show ?thesis using that[of "[u]"] frame(4) by (simp add: others_alone_def)
  next
    case idle
    then show ?thesis using that[of "[]"] by (simp add: others_alone_def)
  qed
  show ?case
  proof (cases v1)
    case VE_OPEN
    have "run_session c us w1 = Some (w', v)" using "2.prems"(1) t VE_OPEN by simp
    from "2.IH"[OF t refl VE_OPEN this "2.prems"(2)] obtain vs where vs: "subseq vs us" "lo_engine w' = others_alone vs (lo_engine w1)" by blast
    have "subseq (v0 @ vs) ([u] @ us)" using first(1) vs(1) by (rule list_emb_append_mono)
    then show ?thesis using vs(2) first(2) by (intro exI[of _ "v0 @ vs"]) (simp add: others_alone_def)
  next
    case (VE_ENDED how failed)
    then have "w' = w1" using "2.prems"(1) t by simp
    then show ?thesis using first by (intro exI[of _ v0]) (auto intro: list_emb_append_mono[of "(=)" v0 "[u]" "[]" us, simplified])
  qed
qed

text \<open>
  C8: being connected is not authority.  A session that never registered has, whatever it sent, done
  nothing to the engine, its end included: the engine is what the others made of it between frames.
\<close>

theorem connected_is_not_authority:
  assumes "session_loop c us stopping before_fence s e = Some (w, v, e')" and "\<not> sx_registered (lo_session w)"
  shows "\<exists>vs. subseq vs us \<and> lo_engine w = others_alone vs e
    \<and> e' = (case v of VE_OPEN \<Rightarrow> lo_engine w | VE_ENDED how failed \<Rightarrow> before_fence (lo_engine w))"
proof -
  have "run_session c us (open_loop s e) = Some (w, v)" using session_loop_ends[OF assms(1)] by blast
  from unregistered_run[OF this assms(2)] obtain vs where "subseq vs us" "lo_engine w = others_alone vs e" by (auto simp: open_loop_def)
  moreover have "e' = (case v of VE_OPEN \<Rightarrow> lo_engine w | VE_ENDED how failed \<Rightarrow> before_fence (lo_engine w))"
    using conjunct2[OF session_loop_ends[OF assms(1)]] assms(2) by (auto simp: close_session_def split: verdict.splits)
  ultimately show ?thesis by blast
qed

section \<open>A lost session is fenced\<close>

text \<open>The incarnation a session registered is the live one of its publisher, or it is fenced.\<close>

definition stands :: "session \<Rightarrow> engine \<Rightarrow> bool" where
  "stands s e \<longleftrightarrow> (sx_registered s \<longrightarrow> oset_member (sx_worker_boot s) (g_fenced_boots (en_state e))
     \<or> (\<exists>r. om_find (g_registrations (en_state e)) (sx_publisher s) = Some r \<and> pr_worker_boot r = sx_worker_boot s))"

lemma stands_extends:
  assumes "engine_extends e e'" and "stands s e"
  shows "stands s e'"
  using assms unfolding stands_def engine_extends_def state_extends_def incarnations_extend_def by metis

lemma stands_run: "engine_step\<^sup>*\<^sup>* e e' \<Longrightarrow> engine_ok e \<Longrightarrow> stands s e \<Longrightarrow> stands s e'"
  using run_contract stands_extends by blast

lemma stands_counted: "stands (counted s) e = stands s e"
  by (simp add: stands_def counted_def)

lemma register_stands:
  assumes "or_ok (snd (register_publisher p b sc se e))"
  shows "\<exists>r. om_find (g_registrations (en_state (fst (register_publisher p b sc se e)))) p = Some r \<and> pr_worker_boot r = b"
  using assms
  by (auto simp: register_publisher_def Let_def outcome_is_success_def om_find_put split: option.splits if_splits)

lemma dispatch_stands:
  assumes "dispatch c m s e f = Some h" and "benign (mo_others m)" and "benign (mo_meanwhile m)" and "engine_ok e" and "stands s e"
  shows "stands (hd_session h) (hd_engine h)"
proof -
  have kept: "stands (counted s) (hd_engine h)"
    using stands_run[OF dispatch_run[OF assms(1,2,3)] assms(4,5)] by (simp add: stands_counted)
  from assms(1) show ?thesis
  proof (cases rule: dispatch_ends)
    case (register p b sc)
    then show ?thesis using kept register_stands[of p b sc "sx_id s" e] by (auto simp: stands_def)
  qed (use kept in simp_all)
qed

lemma fence_stands:
  assumes "stands s e" and "sx_registered s"
  shows "oset_member (sx_worker_boot s) (g_fenced_boots (en_state (fst (fence_publisher (sx_publisher s) (sx_worker_boot s) cause e))))"
  using assms by (auto simp: stands_def fence_publisher_def Let_def fence_worker_def split: option.split)

text \<open>
  C9: a lost session is fenced.  When a session ends in any way but a goodbye, while the coordinator
  keeps running, the incarnation it last registered is fenced; and from then on, whatever runs, no
  context naming it is accepted again.
\<close>

theorem lost_session_is_fenced:
  assumes "reachable l e" and "stands s e" and "\<forall>u \<in> set us. benign_turn u" and "benign before_fence"
    and "session_loop c us False before_fence s e = Some (w, VE_ENDED SE_LOST failed, e')" and "sx_registered (lo_session w)"
  shows "oset_member (sx_worker_boot (lo_session w)) (g_fenced_boots (en_state e'))
    \<and> (\<forall>e2 ctx. engine_step\<^sup>*\<^sup>* e' e2 \<longrightarrow> mc_worker_boot ctx = sx_worker_boot (lo_session w) \<longrightarrow> refused_everywhere (en_state e2) ctx)"
proof -
  have run: "run_session c us (open_loop s e) = Some (w, VE_ENDED SE_LOST failed)"
    and e': "e' = close_session False SE_LOST (lo_session w) (before_fence (lo_engine w))"
    using session_loop_ends[OF assms(5)] by auto
  have "engine_ok (lo_engine w) \<and> stands (lo_session w) (lo_engine w)"
  proof (rule run_session_induct[OF run, where P = "\<lambda>s e. engine_ok e \<and> stands s e"])
    show "engine_ok (lo_engine (open_loop s e)) \<and> stands (lo_session (open_loop s e)) (lo_engine (open_loop s e))"
      using assms(1,2) reachable_ok by (simp add: open_loop_def)
  next
    fix u s e f h
    assume u: "u \<in> set us" and ok: "engine_ok e \<and> stands s e" and d: "dispatch c (tu_moment u) s (tu_before u e) f = Some h"
    have b: "benign (tu_before u)" "benign (mo_others (tu_moment u))" "benign (mo_meanwhile (tu_moment u))"
      using u assms(3) by (auto simp: benign_turn_def)
    have "engine_ok (tu_before u e)" "stands s (tu_before u e)"
      using ok run_contract[OF benign_run[OF b(1)]] stands_run[OF benign_run[OF b(1)]] by blast+
    then show "engine_ok (hd_engine h) \<and> stands (hd_session h) (hd_engine h)"
      using dispatch_stands[OF d b(2,3)] run_contract[OF dispatch_run[OF d b(2,3)]] by blast
  qed
  then have fine: "engine_ok (before_fence (lo_engine w))" and held: "stands (lo_session w) (before_fence (lo_engine w))"
    using run_contract[OF benign_run[OF assms(4)]] stands_run[OF benign_run[OF assms(4)]] by blast+
  have ok: "engine_ok e'"
    unfolding e' using run_contract[OF close_session_run] fine by blast
  have fenced: "oset_member (sx_worker_boot (lo_session w)) (g_fenced_boots (en_state e'))"
    unfolding e' using fence_stands[OF held assms(6)] assms(6) by (simp add: close_session_def)
  have "refused_everywhere (en_state e2) ctx"
    if "engine_step\<^sup>*\<^sup>* e' e2" and "mc_worker_boot ctx = sx_worker_boot (lo_session w)" for e2 ctx
    by (rule fenced_refused) (use fenced_run[OF that(1) ok fenced] that(2) in simp)
  then show ?thesis using fenced by blast
qed

section \<open>Witnesses\<close>

definition quiet_moment :: moment where
  "quiet_moment = \<lparr>mo_clock = \<lambda>_. 20, mo_save = \<lambda>e. or_make Out_POLICY_UPDATED [], mo_delivered = \<lambda>_. None,
     mo_others = \<lambda>e. e, mo_meanwhile = \<lambda>e. e\<rparr>"

definition quiet_turn :: "arrival \<Rightarrow> turn" where
  "quiet_turn a = \<lparr>tu_running = True, tu_now = 20, tu_arrival = a, tu_before = \<lambda>e. e, tu_moment = quiet_moment\<rparr>"

definition sample_config :: server_config where
  "sample_config = \<lparr>sv_limits = default_limits, sv_id_prefix = ''arf'', sv_store_path = []\<rparr>"

definition sample_session :: "bool \<Rightarrow> session" where
  "sample_session registered = \<lparr>sx_index = 1, sx_id = StrongId ''arf-session-1'', sx_registered = registered,
     sx_publisher = StrongId ''pub'', sx_worker_boot = StrongId ''boot1'', sx_scope = sample_scope, sx_dispatched = 0\<rparr>"

lemma benign_id [simp]: "benign (\<lambda>e. e)"
  by (simp add: benign_def)

lemma quiet_benign: "benign_turn (quiet_turn a)"
  by (simp add: benign_turn_def quiet_turn_def quiet_moment_def)

lemma closed_session_run:
  "session_loop sample_config [quiet_turn AR_CLOSED, quiet_turn AR_STALLED] False (\<lambda>e. e) s e =
     Some ((open_loop s e)\<lparr>lo_closing := True\<rparr>, VE_ENDED SE_LOST False, close_session False SE_LOST s e)"
  by (simp add: session_loop_def loop_turn_def quiet_turn_def open_loop_def decode_frame_def frame_failure_def frame_header_bytes_def)

lemma sample_stands: "stands (sample_session True) sample_engine"
proof -
  have "(case om_find (g_registrations (en_state sample_engine)) (StrongId ''pub'') of None \<Rightarrow> False | Some r \<Rightarrow> pr_worker_boot r = StrongId ''boot1'')"
    by code_simp
  then show ?thesis by (auto simp: stands_def sample_session_def split: option.splits)
qed

theorem sessions_refine_the_engine_witness:
  "\<exists>w v e'. session_loop sample_config [quiet_turn AR_CLOSED, quiet_turn AR_STALLED] False (\<lambda>e. e) (sample_session True) sample_engine = Some (w, v, e')
     \<and> reachable default_limits e'"
  using sessions_refine_the_engine[OF sample_engine_reachable _ benign_id closed_session_run] quiet_benign
  by (auto simp: closed_session_run)

theorem connected_is_not_authority_witness:
  "\<exists>w v e'. session_loop sample_config [quiet_turn AR_CLOSED, quiet_turn AR_STALLED] False (\<lambda>e. e) (sample_session False) sample_engine = Some (w, v, e')
     \<and> e' = lo_engine w"
  using connected_is_not_authority[OF closed_session_run, of "sample_session False" sample_engine]
  by (auto simp: closed_session_run open_loop_def sample_session_def)

theorem lost_session_is_fenced_witness:
  "\<exists>w v e'. session_loop sample_config [quiet_turn AR_CLOSED, quiet_turn AR_STALLED] False (\<lambda>e. e) (sample_session True) sample_engine = Some (w, v, e')
     \<and> oset_member (StrongId ''boot1'') (g_fenced_boots (en_state e'))"
  using lost_session_is_fenced[OF sample_engine_reachable sample_stands _ benign_id closed_session_run] quiet_benign
  by (auto simp: closed_session_run open_loop_def sample_session_def)

definition sample_query_frame :: frame where
  "sample_query_frame = make_frame MI_QUERY_STATE ''x''"

theorem fenced_session_is_inert_witness:
  "\<exists>h. dispatch sample_config quiet_moment (sample_session True) (fst (fence_publisher (StrongId ''pub'') (StrongId ''boot1'') ''gone'' sample_engine)) sample_query_frame = Some h
     \<and> same_decisions (fst (fence_publisher (StrongId ''pub'') (StrongId ''boot1'') ''gone'' sample_engine)) (hd_engine h)"
proof -
  let ?e = "fst (fence_publisher (StrongId ''pub'') (StrongId ''boot1'') ''gone'' sample_engine)"
  have r: "reachable default_limits ?e"
    by (rule reachable.step[OF sample_engine_reachable engine_step.fence]) (rule prod.collapse[symmetric])
  have f: "oset_member (sx_worker_boot (sample_session True)) (g_fenced_boots (en_state ?e))"
    using fence_stands[OF sample_stands, of "''gone''"] by (simp add: sample_session_def)
  have "decode_query ''x'' = None" by code_simp
  then have "\<exists>h. dispatch sample_config quiet_moment (sample_session True) ?e sample_query_frame = Some h"
    by (simp add: dispatch_def Let_def sample_session_def sample_query_frame_def make_frame_def route_frame_def handle_query_state_def
        reject_payload_def carry_on_def)
  then obtain h where h: "dispatch sample_config quiet_moment (sample_session True) ?e sample_query_frame = Some h" by blast
  have "benign (mo_others quiet_moment)" by (simp add: quiet_moment_def)
  from fenced_session_is_inert[OF r f this h] h show ?thesis
    by (simp add: sample_query_frame_def make_frame_def quiet_moment_def)
qed

end
