(* ===== verification/Session_Stream.thy ===== *)
theory Session_Stream
  imports Session_Guarantees "HOL-Library.Sublist"
begin

text \<open>
  The receive loop as a parser of a stream (\<^verbatim>\<open>src/transport.cpp\<close>, \<open>run_session\<close>): the loop dispatches the
  frames of the concatenation of everything the socket delivered, in order, wherever the stream was cut;
  and it never waits for the rest of a frame past the deadline set when the frame began.
\<close>

section \<open>The frames of a byte string\<close>

text \<open>What follows the bytes already decided about does not change the decision.\<close>

lemma read_at_append: "offset + n \<le> length bs \<Longrightarrow> read_at n (bs @ x) offset = read_at n bs offset"
  by (simp add: read_at_def)

lemma read_header_append: "frame_header_bytes \<le> length bs \<Longrightarrow> read_header (bs @ x) = read_header bs"
  by (simp add: read_header_def read_u16_def read_u32_def read_u64_def read_at_append frame_header_bytes_def)

lemma decode_frame_append:
  assumes "fd_status (decode_frame b limit) \<noteq> FS_INCOMPLETE"
  shows "decode_frame (b @ x) limit = decode_frame b limit"
proof -
  have long: "frame_header_bytes \<le> length b"
    using assms by (auto simp: decode_frame_def frame_failure_def split: if_splits)
  show ?thesis
  proof (cases "read_header b")
    case None
    then show ?thesis using long by (simp add: decode_frame_def read_header_append)
  next
    case (Some h)
    obtain magic version raw_id flags len sequence epoch where h: "h = (magic, version, raw_id, flags, len, sequence, epoch)"
      by (cases h) auto
    have *: "read_u64 (b @ x) (frame_header_bytes + unat len) = read_u64 b (frame_header_bytes + unat len)"
        "take (frame_header_bytes + unat len) (b @ x) = take (frame_header_bytes + unat len) b"
        "take (unat len) (drop frame_header_bytes (b @ x)) = take (unat len) (drop frame_header_bytes b)"
      if "frame_header_bytes + unat len + frame_trailer_bytes \<le> length b"
      using that by (auto simp: read_u64_def read_at_append frame_trailer_bytes_def)
    show ?thesis
    proof (cases "frame_header_bytes + unat len + frame_trailer_bytes \<le> length b")
      case True
      then have "\<not> length (b @ x) < frame_header_bytes + unat len + frame_trailer_bytes"
          "\<not> length b < frame_header_bytes + unat len + frame_trailer_bytes"
          "\<not> length (b @ x) < frame_header_bytes" "\<not> length b < frame_header_bytes"
        using long by auto
      then show ?thesis using Some
        by (simp only: decode_frame_def read_header_append[OF long] h *[OF True] Let_def option.case prod.case if_False)
    next
      case False
      then show ?thesis using assms long Some
        by (simp add: decode_frame_def read_header_append h Let_def frame_failure_def split: if_splits)
    qed
  qed
qed

lemma decoded_length:
  assumes "fd_status (decode_frame b limit) = FS_OK"
  shows "40 \<le> fd_consumed (decode_frame b limit)" and "fd_consumed (decode_frame b limit) \<le> length b"
proof -
  obtain f n where d: "decode_frame b limit = \<lparr>fd_status = FS_OK, fd_frame = f, fd_consumed = n\<rparr>"
    using assms by (cases "decode_frame b limit") auto
  from decode_frame_sound[OF d] d
  show "40 \<le> fd_consumed (decode_frame b limit)" "fd_consumed (decode_frame b limit) \<le> length b"
    by (auto simp: frame_bytes_length)
qed

text \<open>The reference: all frames of a byte string, up to the first place where none starts.\<close>

function frames_in :: "u64 \<Rightarrow> string \<Rightarrow> frame list" where
  "frames_in limit b =
    (let d = decode_frame b limit in
     if fd_status d = FS_OK then fd_frame d # frames_in limit (drop (fd_consumed d) b) else [])"
  by pat_completeness auto
termination
proof (relation "measure (\<lambda>(limit, b). length b)")
  fix limit b d
  assume "d = decode_frame b limit" "fd_status d = FS_OK"
  then show "((limit, drop (fd_consumed d) b), limit, b) \<in> measure (\<lambda>(limit, b). length b)"
    using decoded_length[of b limit] by auto
qed simp

declare frames_in.simps [simp del]

lemma frames_in_ok:
  assumes "decode_frame b limit = \<lparr>fd_status = FS_OK, fd_frame = f, fd_consumed = n\<rparr>"
  shows "frames_in limit (b @ x) = f # frames_in limit (drop n b @ x)"
  using decode_frame_append[of b limit x] decoded_length[of b limit] assms
  by (subst frames_in.simps) simp

lemma frames_in_none: "fd_status (decode_frame b limit) \<noteq> FS_OK \<Longrightarrow> frames_in limit b = []"
  by (subst frames_in.simps) (simp add: Let_def)

lemma frames_in_count: "40 * length (frames_in limit b) \<le> length b"
proof (induction limit b rule: frames_in.induct)
  case (1 limit b)
  let ?d = "decode_frame b limit"
  show ?case
  proof (cases "fd_status ?d = FS_OK")
    case True
    from "1.IH"[OF refl True] decoded_length[OF True] True show ?thesis
      by (subst frames_in.simps) (simp add: Let_def)
  qed (simp add: frames_in_none)
qed

section \<open>What the loop takes from the socket\<close>

definition waiting :: "server_config \<Rightarrow> loop_state \<Rightarrow> bool" where
  "waiting c w = (fd_status (decode_frame (lo_buffer w) (lim_max_frame_bytes (sv_limits c))) = FS_INCOMPLETE)"

definition bytes_of :: "turn \<Rightarrow> string" where
  "bytes_of u = (case tu_arrival u of AR_DATA bytes \<Rightarrow> bytes | _ \<Rightarrow> [])"

text \<open>The bytes a run reads, one read after the other: a turn that dispatches does not read.\<close>

fun bytes_read :: "server_config \<Rightarrow> turn list \<Rightarrow> loop_state \<Rightarrow> string" where
  "bytes_read c [] w = []"
| "bytes_read c (u # us) w =
    (case loop_turn c u w of
       Some (w', VE_OPEN) \<Rightarrow> (if waiting c w then bytes_of u else []) @ bytes_read c us w'
     | _ \<Rightarrow> [])"

text \<open>Frames handled one after the other, each in the turn it is paired with.\<close>

fun serve :: "server_config \<Rightarrow> (turn \<times> frame) list \<Rightarrow> session \<times> engine \<times> string list \<Rightarrow> (session \<times> engine \<times> string list) option" where
  "serve c [] x = Some x"
| "serve c ((u, f) # rest) (s, e, sent) =
    (case dispatch c (tu_moment u) s (tu_before u e) f of
       None \<Rightarrow> None
     | Some h \<Rightarrow> serve c rest (hd_session h, hd_engine h, sent @ hd_sent h))"

text \<open>One turn: it dispatches the first frame of the buffer, or reads, or ends the session with the buffer as it is.\<close>

lemma loop_turn_cases [consumes 1, case_names frame read ended]:
  assumes "loop_turn c u w = Some (w', v)"
  obtains (frame) f n h where "decode_frame (lo_buffer w) (lim_max_frame_bytes (sv_limits c)) = \<lparr>fd_status = FS_OK, fd_frame = f, fd_consumed = n\<rparr>"
      "\<not> waiting c w" "dispatch c (tu_moment u) (lo_session w) (tu_before u (lo_engine w)) f = Some h"
      "lo_session w' = hd_session h" "lo_engine w' = hd_engine h" "lo_sent w' = lo_sent w @ hd_sent h"
      "lo_buffer w' = drop n (lo_buffer w)"
  | (read) "waiting c w" "v = VE_OPEN" "lo_buffer w' = lo_buffer w @ bytes_of u"
      "lo_session w' = lo_session w" "lo_engine w' = lo_engine w" "lo_sent w' = lo_sent w"
  | (ended) how failed where "v = VE_ENDED how failed" "lo_buffer w' = lo_buffer w"
      "lo_session w' = lo_session w" "lo_engine w' = lo_engine w" "lo_sent w' = lo_sent w"
proof -
  let ?d = "decode_frame (lo_buffer w) (lim_max_frame_bytes (sv_limits c))"
  show thesis
  proof (cases "tu_running u \<and> fd_status ?d = FS_OK")
    case True
    obtain f n where d: "?d = \<lparr>fd_status = FS_OK, fd_frame = f, fd_consumed = n\<rparr>" using True by (cases ?d) auto
    then show thesis using assms True
      by (auto simp: loop_turn_def Let_def waiting_def intro!: frame split: option.splits)
  next
    case False
    then show thesis using assms
      by (auto simp: loop_turn_def Let_def waiting_def bytes_of_def intro: read ended split: if_splits arrival.splits)
  qed
qed

lemma run_session_stream:
  assumes "run_session c us w = Some (w', v)"
  shows "\<exists>served. subseq (map fst served) us
    \<and> frames_in (lim_max_frame_bytes (sv_limits c)) (lo_buffer w @ bytes_read c us w)
       = map snd served @ frames_in (lim_max_frame_bytes (sv_limits c)) (lo_buffer w')
    \<and> serve c served (lo_session w, lo_engine w, lo_sent w) = Some (lo_session w', lo_engine w', lo_sent w')"
  using assms
proof (induction c us w rule: run_session.induct)
  case (1 c w)
  then show ?case by (intro exI[of _ "[]"]) simp
next
  case (2 c u us w)
  let ?L = "lim_max_frame_bytes (sv_limits c)"
  obtain w1 v1 where t: "loop_turn c u w = Some (w1, v1)" using "2.prems" by (auto split: option.splits)
  have "\<exists>served. subseq (map fst served) us
      \<and> frames_in ?L (lo_buffer w1 @ (if v1 = VE_OPEN then bytes_read c us w1 else [])) = map snd served @ frames_in ?L (lo_buffer w')
      \<and> serve c served (lo_session w1, lo_engine w1, lo_sent w1) = Some (lo_session w', lo_engine w', lo_sent w')"
  proof (cases v1)
    case VE_OPEN
    with "2.IH"[OF t refl VE_OPEN] "2.prems" t show ?thesis by simp
  next
    case (VE_ENDED how failed)
    then show ?thesis using "2.prems" t by (intro exI[of _ "[]"]) auto
  qed
  then obtain served where s: "subseq (map fst served) us"
      "frames_in ?L (lo_buffer w1 @ (if v1 = VE_OPEN then bytes_read c us w1 else [])) = map snd served @ frames_in ?L (lo_buffer w')"
      "serve c served (lo_session w1, lo_engine w1, lo_sent w1) = Some (lo_session w', lo_engine w', lo_sent w')"
    by blast
  from t show ?case
  proof (cases rule: loop_turn_cases)
    case (frame f n h)
    have "bytes_read c (u # us) w = (if v1 = VE_OPEN then bytes_read c us w1 else [])"
      using t frame(2) by (auto split: verdict.splits)
    then show ?thesis
      using s frame by (intro exI[of _ "(u, f) # served"]) (simp add: frames_in_ok)
  next
    case read
    then have "lo_buffer w @ bytes_read c (u # us) w = lo_buffer w1 @ bytes_read c us w1" using t by simp
    then show ?thesis using s read by (intro exI[of _ served]) auto
  next
    case ended
    then have "bytes_read c (u # us) w = []" using t by simp
    then show ?thesis using s ended by (intro exI[of _ served]) auto
  qed
qed

text \<open>
  C11: how the stream is cut does not matter.  The frames a session dispatches, each on a turn of the
  run and in order, are the frames of the concatenation of all bytes it read, less those still whole in
  its buffer; when it waits or was ended by an undecodable buffer nothing is left out.  So the state it
  reaches is the sequential handling of the frames of the stream, and it handles at most one frame per
  40 bytes read.
\<close>

theorem dispatch_ignores_fragmentation:
  assumes "run_session c us (open_loop s e) = Some (w, v)"
  shows "\<exists>served. subseq (map fst served) us
    \<and> serve c served (s, e, []) = Some (lo_session w, lo_engine w, lo_sent w)
    \<and> frames_in (lim_max_frame_bytes (sv_limits c)) (bytes_read c us (open_loop s e))
       = map snd served @ frames_in (lim_max_frame_bytes (sv_limits c)) (lo_buffer w)
    \<and> 40 * length served \<le> length (bytes_read c us (open_loop s e))
    \<and> (fd_status (decode_frame (lo_buffer w) (lim_max_frame_bytes (sv_limits c))) \<noteq> FS_OK
       \<longrightarrow> map snd served = frames_in (lim_max_frame_bytes (sv_limits c)) (bytes_read c us (open_loop s e)))"
proof -
  let ?L = "lim_max_frame_bytes (sv_limits c)" and ?b = "bytes_read c us (open_loop s e)"
  obtain served where s: "subseq (map fst served) us" "frames_in ?L ?b = map snd served @ frames_in ?L (lo_buffer w)"
      "serve c served (s, e, []) = Some (lo_session w, lo_engine w, lo_sent w)"
    using run_session_stream[OF assms] by (auto simp: open_loop_def)
  moreover have "40 * length served \<le> length ?b"
    using frames_in_count[of ?L ?b] by (simp add: s(2))
  ultimately show ?thesis using frames_in_none by (intro exI[of _ served]) auto
qed

section \<open>The deadline of a partial frame\<close>

lemma waiting_take: "waiting c (w\<lparr>lo_buffer := b @ x\<rparr>) \<Longrightarrow> waiting c (w\<lparr>lo_buffer := b\<rparr>)"
  using decode_frame_append[of b "lim_max_frame_bytes (sv_limits c)" x] by (simp add: waiting_def) metis

definition delivers :: "turn \<Rightarrow> bool" where
  "delivers u \<longleftrightarrow> tu_running u \<and> (tu_arrival u = AR_STALLED \<or> (\<exists>bytes. tu_arrival u = AR_DATA bytes))"

lemma waiting_turn:
  assumes "waiting c w" and "lo_buffer w \<noteq> []" and "lo_partial w" and "\<not> lo_closing w" and "delivers u" and "tu_now u < lo_deadline w"
  shows "loop_turn c u w = Some (w\<lparr>lo_buffer := lo_buffer w @ bytes_of u\<rparr>, VE_OPEN)"
  using assms by (auto simp: loop_turn_def Let_def waiting_def delivers_def bytes_of_def)

lemma waiting_run:
  assumes "waiting c (w\<lparr>lo_buffer := lo_buffer w @ concat (map bytes_of us)\<rparr>)" and "lo_buffer w \<noteq> []" and "lo_partial w"
    and "\<not> lo_closing w" and "\<forall>u \<in> set us. delivers u" and "delivers u" and "lo_deadline w \<le> tu_now u"
  shows "\<exists>w'. run_session c (us @ u # rest) w = Some (w', VE_ENDED SE_LOST True)
     \<and> lo_session w' = lo_session w \<and> lo_engine w' = lo_engine w \<and> lo_sent w' = lo_sent w"
  using assms(1-5,7)
proof (induction us arbitrary: w)
  case Nil
  then have "loop_turn c u w = Some (w, VE_ENDED SE_LOST True)"
    using assms(6) by (auto simp: loop_turn_def Let_def waiting_def delivers_def)
  then show ?case using Nil by simp
next
  case (Cons a us)
  let ?w = "w\<lparr>lo_buffer := lo_buffer w @ bytes_of a\<rparr>"
  have "waiting c w"
    using waiting_take[OF Cons.prems(1)] by simp
  show ?case
  proof (cases "tu_now a < lo_deadline w")
    case True
    then have "loop_turn c a w = Some (?w, VE_OPEN)" using Cons.prems \<open>waiting c w\<close> by (intro waiting_turn) auto
    then show ?thesis using Cons.IH[of ?w] Cons.prems by simp
  next
    case False
    then have "loop_turn c a w = Some (w, VE_ENDED SE_LOST True)"
      using Cons.prems \<open>waiting c w\<close> by (auto simp: loop_turn_def Let_def waiting_def delivers_def)
    then show ?thesis by simp
  qed
qed

text \<open>
  C12: a peer cannot hold a session with half a frame.  From the turn on which the loop first finds an
  incomplete frame in its buffer, the peer may trickle bytes or fall silent: as long as the bytes do not
  complete the frame, the run ends the session as lost, and counts a failure, no later than the first
  turn whose clock has reached the stall limit counted from that first turn; nothing is dispatched and
  nothing is sent meanwhile.
\<close>

theorem partial_frame_times_out:
  assumes "waiting c (w\<lparr>lo_buffer := lo_buffer w @ bytes_of u0 @ concat (map bytes_of us)\<rparr>)"
    and "lo_buffer w \<noteq> []" and "\<not> lo_partial w" and "\<not> lo_closing w"
    and "delivers u0" and "\<forall>u \<in> set us. delivers u" and "delivers u"
    and "saturating_add (tu_now u0) (lim_max_receive_stall_millis (sv_limits c) * ticks_per_millisecond) \<le> tu_now u"
  shows "\<exists>w'. run_session c (u0 # us @ u # rest) w = Some (w', VE_ENDED SE_LOST True)
     \<and> lo_session w' = lo_session w \<and> lo_engine w' = lo_engine w \<and> lo_sent w' = lo_sent w"
proof -
  let ?w = "w\<lparr>lo_partial := True, lo_deadline := saturating_add (tu_now u0) (lim_max_receive_stall_millis (sv_limits c) * ticks_per_millisecond),
      lo_buffer := lo_buffer w @ bytes_of u0\<rparr>"
  have "waiting c w" using waiting_take[OF assms(1)] by simp
  then have "loop_turn c u0 w = Some (?w, VE_OPEN)"
    using assms(2-5) by (auto simp: loop_turn_def Let_def waiting_def delivers_def bytes_of_def)
  moreover have "waiting c (?w\<lparr>lo_buffer := lo_buffer ?w @ concat (map bytes_of us)\<rparr>)"
    using assms(1) by (simp add: waiting_def)
  ultimately show ?thesis
    using waiting_run[of c ?w us u rest] assms(2,4,6,7,8) by simp
qed

section \<open>Witnesses\<close>

definition bye_frame :: frame where
  "bye_frame = \<lparr>ff_header = \<lparr>fh_wire_version = 1, fh_message_id = MI_BYE, fh_flags = 0, fh_payload_length = 0,
     fh_sequence = 7, fh_epoch = gen_first\<rparr>, ff_payload = []\<rparr>"

text \<open>A goodbye in two pieces; the third turn dispatches it.\<close>

definition bye_turns :: "turn list" where
  "bye_turns = [quiet_turn (AR_DATA (take 20 (frame_bytes bye_frame))), quiet_turn (AR_DATA (drop 20 (frame_bytes bye_frame))),
     quiet_turn AR_STALLED]"

lemma bye_sendable: "sendable bye_frame (lim_max_frame_bytes default_limits)"
  by (simp add: sendable_def bye_frame_def wire_protocol_version_def gen_valid_def gen_first_def default_limits_def)

lemma bye_decodes:
  "decode_frame (frame_bytes bye_frame) (lim_max_frame_bytes default_limits) = \<lparr>fd_status = FS_OK, fd_frame = bye_frame, fd_consumed = 40\<rparr>"
  using decode_frame_bytes[OF bye_sendable, of "[]"] by (simp add: frame_bytes_length) (simp add: received_def bye_frame_def)

lemma bye_waits:
  "fd_status (decode_frame (take 20 (frame_bytes bye_frame)) (lim_max_frame_bytes default_limits)) = FS_INCOMPLETE"
  by (rule decode_frame_prefix[OF bye_sendable]) (simp add: frame_bytes_length)

lemma bye_piece: "take 20 (frame_bytes bye_frame) \<noteq> []" "length (frame_bytes bye_frame) = 40"
  by (auto simp: frame_bytes_length bye_frame_def simp flip: length_0_conv)

lemma nothing_waits: "fd_status (decode_frame [] limit) = FS_INCOMPLETE"
  by (simp add: decode_frame_def frame_failure_def frame_header_bytes_def)

lemma bye_first_turn:
  "loop_turn sample_config (quiet_turn (AR_DATA (take 20 (frame_bytes bye_frame)))) (open_loop s e)
     = Some ((open_loop s e)\<lparr>lo_buffer := take 20 (frame_bytes bye_frame)\<rparr>, VE_OPEN)"
  using nothing_waits[of "lim_max_frame_bytes default_limits"]
  by (simp add: loop_turn_def open_loop_def quiet_turn_def sample_config_def Let_def)

lemma bye_run:
  "\<exists>w. run_session sample_config bye_turns (open_loop s e) = Some (w, VE_ENDED SE_CLEAN_BYE False) \<and> lo_buffer w = []"
proof -
  let ?b = "frame_bytes bye_frame" and ?w1 = "(open_loop s e)\<lparr>lo_buffer := take 20 (frame_bytes bye_frame)\<rparr>"
  obtain w2 where two: "loop_turn sample_config (quiet_turn (AR_DATA (drop 20 ?b))) ?w1 = Some (w2, VE_OPEN)" "lo_buffer w2 = ?b"
    using bye_waits bye_piece(1) by (simp add: loop_turn_def open_loop_def quiet_turn_def sample_config_def Let_def)
  have "\<exists>w3. loop_turn sample_config (quiet_turn AR_STALLED) w2 = Some (w3, VE_ENDED SE_CLEAN_BYE False) \<and> lo_buffer w3 = []"
    using bye_decodes two(2) bye_piece(2)
    by (simp add: loop_turn_def quiet_turn_def sample_config_def Let_def dispatch_def bye_frame_def route_frame_def
        split: option.splits)
  then show ?thesis using bye_first_turn two(1) by (auto simp: bye_turns_def)
qed

theorem dispatch_ignores_fragmentation_witness:
  "\<exists>w v (served :: (turn \<times> frame) list). run_session sample_config bye_turns (open_loop (sample_session False) sample_engine) = Some (w, v)
     \<and> map snd served = frames_in (lim_max_frame_bytes default_limits) (bytes_read sample_config bye_turns (open_loop (sample_session False) sample_engine))"
proof -
  obtain w where run: "run_session sample_config bye_turns (open_loop (sample_session False) sample_engine) = Some (w, VE_ENDED SE_CLEAN_BYE False)"
    and b: "lo_buffer w = []" using bye_run by blast
  have "fd_status (decode_frame (lo_buffer w) (lim_max_frame_bytes (sv_limits sample_config))) \<noteq> FS_OK"
    by (simp add: b nothing_waits)
  then obtain served :: "(turn \<times> frame) list" where "map snd served = frames_in (lim_max_frame_bytes (sv_limits sample_config))
      (bytes_read sample_config bye_turns (open_loop (sample_session False) sample_engine))"
    using dispatch_ignores_fragmentation[OF run] by blast
  moreover have "sv_limits sample_config = default_limits" by (simp add: sample_config_def)
  ultimately show ?thesis using run by metis
qed

text \<open>The first 20 bytes of a frame, and then silence until the limit has passed.\<close>

theorem partial_frame_times_out_witness:
  "\<exists>w'. run_session sample_config [quiet_turn AR_STALLED, (quiet_turn AR_STALLED)\<lparr>tu_now := - 1\<rparr>]
      ((open_loop (sample_session False) sample_engine)\<lparr>lo_buffer := take 20 (frame_bytes bye_frame)\<rparr>) = Some (w', VE_ENDED SE_LOST True)"
proof -
  let ?w = "(open_loop (sample_session False) sample_engine)\<lparr>lo_buffer := take 20 (frame_bytes bye_frame)\<rparr>"
  have "waiting sample_config (?w\<lparr>lo_buffer := lo_buffer ?w @ bytes_of (quiet_turn AR_STALLED) @ concat (map bytes_of [])\<rparr>)"
    using bye_waits by (simp add: waiting_def sample_config_def bytes_of_def quiet_turn_def)
  then have "\<exists>w'. run_session sample_config (quiet_turn AR_STALLED # [] @ (quiet_turn AR_STALLED)\<lparr>tu_now := - 1\<rparr> # []) ?w = Some (w', VE_ENDED SE_LOST True)
     \<and> lo_session w' = lo_session ?w \<and> lo_engine w' = lo_engine ?w \<and> lo_sent w' = lo_sent ?w"
    by (rule partial_frame_times_out)
      (use bye_piece(1) in \<open>simp_all add: open_loop_def delivers_def quiet_turn_def word_order.extremum\<close>)
  then show ?thesis unfolding append_Nil by blast
qed

end
