(* ===== verification/Store_Codec.thy ===== *)
theory Store_Codec
  imports Wire_Tickets Frame Engine_State
begin

text \<open>
  The durable store (\<^verbatim>\<open>include/adaptive_routing/persistence.hpp\<close>, \<^verbatim>\<open>src/persistence.cpp\<close>): the durable
  state, its encoding, and its decoding with the status and the detail of every rejection.  The file
  repeats the element codecs of \<^verbatim>\<open>src/wire.cpp\<close> byte for byte where the model reuses them
  (\<^verbatim>\<open>put_id\<close>, \<^verbatim>\<open>put_optional_id\<close>, \<^verbatim>\<open>put_metric\<close>, \<^verbatim>\<open>put_requirement\<close> and their readers); what it decodes under
  its own bounds is written out here.  Reading and writing the file itself is the platform's.

  A reader that failed consumes nothing, so a group of reads the code makes before it tests them together
  fails exactly when one of them does; the model tests each.
\<close>

section \<open>The durable state\<close>

definition persistence_format_version :: u32 where "persistence_format_version = 1"

record durable_timing =
  dt_policy :: policy_id
  dt_hold_down_active :: bool
  dt_hold_down_remaining :: ticks
  dt_hold_down_policy_generation :: policy_generation
  dt_hold_down_locked_path :: path_id
  dt_cooldown_active :: bool
  dt_cooldown_remaining :: ticks
  dt_dampening_penalty :: u32
  dt_dampening_decay_remaining :: ticks
  dt_churn_ages :: "ticks list"

record durable_preference =
  dp_policy :: policy_id
  dp_preference :: routing_preference

record durable_stable =
  db_policy :: policy_id
  db_stable :: stable_state

record durable_history_entry =
  dh_policy :: policy_id
  dh_record :: adaptation_record

record durable_state =
  du_format_version :: u32
  du_epoch :: coordinator_epoch
  du_authority_generation :: adaptive_authority_generation
  du_evidence_generation :: evidence_generation
  du_evidence_watermark :: watermark
  du_upstream_watermark :: watermark
  du_policies :: "adaptive_policy list"
  du_revocations :: "revocation_record list"
  du_preferences :: "durable_preference list"
  du_stable_states :: "durable_stable list"
  du_timings :: "durable_timing list"
  du_history :: "durable_history_entry list"

datatype store_status =
    ST_OK | ST_EMPTY | ST_BAD_MAGIC | ST_BAD_VERSION | ST_TRUNCATED | ST_INTEGRITY | ST_MALFORMED
  | ST_TRAILING_BYTES | ST_DUPLICATE_POLICY | ST_INVALID_GENERATION | ST_IMPOSSIBLE_LIFECYCLE | ST_MALFORMED_METRIC
  | ST_MALFORMED_EVIDENCE_BINDING | ST_INVALID_PREFERRED_CANDIDATE | ST_TIMING_WITHOUT_POLICY | ST_ABSURD_COUNT
  | ST_COUNTER_OVERFLOW | ST_TOO_LARGE | ST_MALFORMED_TIMING

definition store_status_to_string :: "store_status \<Rightarrow> string" where
  "store_status_to_string s = (case s of
     ST_OK \<Rightarrow> ''OK'' | ST_EMPTY \<Rightarrow> ''EMPTY'' | ST_BAD_MAGIC \<Rightarrow> ''BAD_MAGIC'' | ST_BAD_VERSION \<Rightarrow> ''BAD_VERSION''
   | ST_TRUNCATED \<Rightarrow> ''TRUNCATED'' | ST_INTEGRITY \<Rightarrow> ''INTEGRITY'' | ST_MALFORMED \<Rightarrow> ''MALFORMED''
   | ST_TRAILING_BYTES \<Rightarrow> ''TRAILING_BYTES'' | ST_DUPLICATE_POLICY \<Rightarrow> ''DUPLICATE_POLICY''
   | ST_INVALID_GENERATION \<Rightarrow> ''INVALID_GENERATION'' | ST_IMPOSSIBLE_LIFECYCLE \<Rightarrow> ''IMPOSSIBLE_LIFECYCLE''
   | ST_MALFORMED_METRIC \<Rightarrow> ''MALFORMED_METRIC'' | ST_MALFORMED_EVIDENCE_BINDING \<Rightarrow> ''MALFORMED_EVIDENCE_BINDING''
   | ST_INVALID_PREFERRED_CANDIDATE \<Rightarrow> ''INVALID_PREFERRED_CANDIDATE'' | ST_TIMING_WITHOUT_POLICY \<Rightarrow> ''TIMING_WITHOUT_POLICY''
   | ST_ABSURD_COUNT \<Rightarrow> ''ABSURD_COUNT'' | ST_COUNTER_OVERFLOW \<Rightarrow> ''OVERFLOW'' | ST_TOO_LARGE \<Rightarrow> ''TOO_LARGE''
   | ST_MALFORMED_TIMING \<Rightarrow> ''MALFORMED_TIMING'')"

section \<open>Reading with a status\<close>

text \<open>A rejection is a status and a detail; what the code had decoded by then is dropped, as its caller does.\<close>

type_synonym rejection = "store_status \<times> string"

definition reading :: "rejection \<Rightarrow> 'a reader \<Rightarrow> string \<Rightarrow> ('a \<Rightarrow> string \<Rightarrow> rejection + 'b) \<Rightarrow> rejection + 'b" where
  "reading r get bs k = (case get bs of None \<Rightarrow> Inl r | Some (x, rest) \<Rightarrow> k x rest)"

definition taking :: "rejection \<Rightarrow> 'a option \<Rightarrow> ('a \<Rightarrow> rejection + 'b) \<Rightarrow> rejection + 'b" where
  "taking r v k = (case v of None \<Rightarrow> Inl r | Some x \<Rightarrow> k x)"

definition demand :: "rejection \<Rightarrow> bool \<Rightarrow> rejection + 'b \<Rightarrow> rejection + 'b" where
  "demand r b k = (if b then k else Inl r)"

lemma reading_Inr: "reading r get bs k = Inr y \<longleftrightarrow> (\<exists>x rest. get bs = Some (x, rest) \<and> k x rest = Inr y)"
  by (auto simp: reading_def split: option.splits)

lemma taking_Inr: "taking r v k = Inr y \<longleftrightarrow> (\<exists>x. v = Some x \<and> k x = Inr y)"
  by (auto simp: taking_def split: option.splits)

lemma demand_Inr: "demand r b k = Inr y \<longleftrightarrow> b \<and> k = Inr y"
  by (simp add: demand_def)

text \<open>A generation written as zero when absent.\<close>

definition maybe_generation :: "rejection \<Rightarrow> u64 \<Rightarrow> ('g generation \<Rightarrow> rejection + 'b) \<Rightarrow> rejection + 'b" where
  "maybe_generation r raw k = (if raw \<noteq> 0 then taking r (gen_from_value raw) k else k no_gen)"

lemma maybe_generation_eq: "maybe_generation r raw k = k (Generation raw)"
  by (simp add: maybe_generation_def taking_def gen_from_value_def no_gen_def)

lemma gen_from_value_Some: "gen_from_value raw = Some g \<longleftrightarrow> gen_valid g \<and> raw = gen_value g"
  by (cases g) (auto simp: gen_from_value_def gen_valid_def)

lemmas store_steps = reading_Inr taking_Inr demand_Inr maybe_generation_eq gen_from_value_Some prod.case

section \<open>Elements\<close>

definition get_maybe_id :: "nat \<Rightarrow> 'a strong_id reader" where
  "get_maybe_id n bs = do {
     (text, bs) \<leftarrow> get_string 4096 bs;
     if text = [] then Some (no_id, bs) else do { i \<leftarrow> id_parse n text; Some (i, bs) }
   }"

definition maybe_id_fits :: "nat \<Rightarrow> 'a strong_id \<Rightarrow> bool" where
  "maybe_id_fits n i \<longleftrightarrow> (id_valid i \<longrightarrow> id_fits n i)"

lemma get_maybe_id_exact [wire_exact]: "get_maybe_id n bs = Some (i, rest) \<longleftrightarrow> maybe_id_fits n i \<and> bs = put_id i @ rest"
proof -
  have named: "id_text i = t" if "id_parse n t = Some i" for t
    using id_parse_SomeD[OF that] by simp
  have "get_maybe_id n bs = Some (i, rest) \<longleftrightarrow> (\<exists>t r. get_string 4096 bs = Some (t, r) \<and>
      (if t = [] then i = no_id else id_parse n t = Some i) \<and> r = rest)"
    by (auto simp: get_maybe_id_def Option.bind_eq_Some_conv split: if_splits)
  also have "\<dots> \<longleftrightarrow> (\<exists>t. text_fits 4096 t \<and> bs = put_string t @ rest \<and> (if t = [] then i = no_id else id_parse n t = Some i))"
    by (auto simp: get_string_exact)
  also have "\<dots> \<longleftrightarrow> text_fits 4096 (id_text i) \<and> bs = put_string (id_text i) @ rest
      \<and> (if id_text i = [] then i = no_id else id_parse n (id_text i) = Some i)"
    using named by (auto simp: no_id_def)
  also have "\<dots> \<longleftrightarrow> maybe_id_fits n i \<and> bs = put_id i @ rest"
    by (cases i) (auto simp: maybe_id_fits_def id_fits_def put_id_def wire_max_string_bytes_def no_id_def id_valid_def text_fits_def)
  finally show ?thesis .
qed

definition get_policy_lifecycle :: "policy_lifecycle reader" where
  "get_policy_lifecycle = get_enum get_u8 valid_policy_lifecycle policy_lifecycle_raw all_policy_lifecycle"

definition all_adaptation_causes :: "adaptation_cause list" where
  "all_adaptation_causes = [AC_DECLARED, AC_POLICY_UPDATED, AC_EVIDENCE_OBSERVED, AC_TRIGGER_SATISFIED, AC_EMERGENCY_OVERRIDE,
     AC_ROLLBACK_REQUESTED, AC_PATH_AUTHORITY_INVALIDATED, AC_MULTIPATH_SET_INVALIDATED, AC_ROUTE_INVALIDATED,
     AC_EPOCH_ADVANCE, AC_RECOVERED, AC_REVALIDATED, AC_REVOKED, AC_RETIRED]"

definition get_adaptation_cause :: "adaptation_cause reader" where
  "get_adaptation_cause = get_enum get_u8 valid_adaptation_cause adaptation_cause_raw all_adaptation_causes"

interpretation policy_lifecycle_code: enum_codec put_u8 get_u8 valid_policy_lifecycle policy_lifecycle_raw all_policy_lifecycle
  by unfold_locales (simp_all add: valid_policy_lifecycle_def policy_lifecycle_raw_def all_policy_lifecycle_def split: policy_lifecycle.splits)

interpretation adaptation_cause_code: enum_codec put_u8 get_u8 valid_adaptation_cause adaptation_cause_raw all_adaptation_causes
  by unfold_locales (simp_all add: valid_adaptation_cause_def adaptation_cause_raw_def all_adaptation_causes_def split: adaptation_cause.splits)

lemmas store_enum_exact [wire_exact] = policy_lifecycle_code.enum_exact[folded get_policy_lifecycle_def]
  adaptation_cause_code.enum_exact[folded get_adaptation_cause_def]

definition store_put_scope :: "policy_scope \<Rightarrow> string" where
  "store_put_scope s = put_id (sc_fabric s) @ put_id (sc_namespace s) @ put_option put_id (sc_site s)
     @ put_optional_id (sc_path_class s) @ put_vector put_id (sc_routes s) @ put_vector put_id (sc_multipath_sets s)"

definition store_get_scope :: "policy_scope reader" where
  "store_get_scope bs = do {
     (fabric, bs) \<leftarrow> get_id 64 bs;
     (name_space, bs) \<leftarrow> get_id 64 bs;
     (site, bs) \<leftarrow> get_option (get_id 64) bs;
     (path_class, bs) \<leftarrow> get_optional_id 32 bs;
     (routes, bs) \<leftarrow> get_vector (lim_max_scope_routes default_limits) (get_id 96) bs;
     (multipath_sets, bs) \<leftarrow> get_vector (lim_max_scope_multipath_sets default_limits) (get_id 96) bs;
     let scope = \<lparr>sc_fabric = fabric, sc_namespace = name_space, sc_site = site, sc_path_class = path_class,
                  sc_routes = routes, sc_multipath_sets = multipath_sets\<rparr>;
     if \<not> sc_well_formed scope then None else Some (scope, bs)
   }"

definition store_scope_fits :: "policy_scope \<Rightarrow> bool" where
  "store_scope_fits s \<longleftrightarrow> id_fits 64 (sc_fabric s) \<and> id_fits 64 (sc_namespace s) \<and> pred_option (id_fits 64) (sc_site s)
     \<and> (id_valid (sc_path_class s) \<longrightarrow> id_fits 32 (sc_path_class s))
     \<and> vector_ok (lim_max_scope_routes default_limits) (id_fits 96) (sc_routes s)
     \<and> vector_ok (lim_max_scope_multipath_sets default_limits) (id_fits 96) (sc_multipath_sets s) \<and> sc_well_formed s"

lemma store_get_scope_exact [wire_exact]:
  "store_get_scope bs = Some (s, rest) \<longleftrightarrow> store_scope_fits s \<and> bs = store_put_scope s @ rest"
  by (cases s) (auto simp: store_get_scope_def store_put_scope_def store_scope_fits_def read_steps wire_exact)

definition store_put_semantics :: "policy_semantics \<Rightarrow> string" where
  "store_put_semantics s = put_u32 (ps_version s) @ put_id (pt_route (ps_target s))
     @ put_option put_id (pt_multipath_set (ps_target s))
     @ put_vector put_threshold (ps_thresholds s) @ put_vector put_improvement (ps_improvements s)
     @ put_vector put_requirement (ps_evidence s)
     @ put_u64 (ps_hold_down s) @ put_u64 (ps_cooldown s) @ put_dampening (ps_dampening s)
     @ put_u32 (cb_max_adaptations (ps_churn s)) @ put_u64 (cb_window (ps_churn s))
     @ put_u8 (objective_mode_raw (os_mode (ps_objective s))) @ put_u32 (os_scoring_version (ps_objective s))
     @ put_vector put_term (os_terms (ps_objective s)) @ put_emergency (ps_emergency s) @ put_vector put_priority (ps_priorities s)"

definition store_get_semantics :: "policy_semantics reader" where
  "store_get_semantics bs = do {
     (version, bs) \<leftarrow> get_u32 bs;
     (route, bs) \<leftarrow> get_id 96 bs;
     (multipath_set, bs) \<leftarrow> get_option (get_id 96) bs;
     (thresholds, bs) \<leftarrow> get_vector (lim_max_thresholds_per_policy default_limits) get_threshold bs;
     (improvements, bs) \<leftarrow> get_vector (lim_max_objective_terms default_limits) get_improvement bs;
     (evidence, bs) \<leftarrow> get_vector (lim_max_evidence_requirements_per_policy default_limits) get_requirement bs;
     (hold_down, bs) \<leftarrow> get_u64 bs;
     (cooldown, bs) \<leftarrow> get_u64 bs;
     (dampening, bs) \<leftarrow> get_dampening bs;
     (churn_max, bs) \<leftarrow> get_u32 bs;
     (churn_window, bs) \<leftarrow> get_u64 bs;
     (mode, bs) \<leftarrow> get_objective_mode bs;
     (scoring_version, bs) \<leftarrow> get_u32 bs;
     (terms, bs) \<leftarrow> get_vector (lim_max_objective_terms default_limits) get_term bs;
     (emergency, bs) \<leftarrow> get_emergency bs;
     (priorities, bs) \<leftarrow> get_vector (lim_max_candidates_per_policy default_limits) get_priority bs;
     Some (\<lparr>ps_version = version, ps_target = \<lparr>pt_route = route, pt_multipath_set = multipath_set\<rparr>,
            ps_thresholds = thresholds, ps_improvements = improvements, ps_evidence = evidence,
            ps_hold_down = hold_down, ps_cooldown = cooldown, ps_dampening = dampening,
            ps_churn = \<lparr>cb_max_adaptations = churn_max, cb_window = churn_window\<rparr>,
            ps_objective = \<lparr>os_mode = mode, os_terms = terms, os_scoring_version = scoring_version\<rparr>,
            ps_emergency = emergency, ps_priorities = priorities\<rparr>, bs)
   }"

definition store_semantics_fits :: "policy_semantics \<Rightarrow> bool" where
  "store_semantics_fits s \<longleftrightarrow> id_fits 96 (pt_route (ps_target s)) \<and> pred_option (id_fits 96) (pt_multipath_set (ps_target s))
     \<and> vector_ok (lim_max_thresholds_per_policy default_limits) threshold_fits (ps_thresholds s)
     \<and> vector_ok (lim_max_objective_terms default_limits) (\<lambda>_. True) (ps_improvements s)
     \<and> vector_ok (lim_max_evidence_requirements_per_policy default_limits) er_valid (ps_evidence s)
     \<and> vector_ok (lim_max_objective_terms default_limits) (\<lambda>_. True) (os_terms (ps_objective s))
     \<and> vector_ok (lim_max_candidates_per_policy default_limits) (\<lambda>p. id_fits 128 (cp_path p)) (ps_priorities s)"

lemma store_get_semantics_exact [wire_exact]:
  "store_get_semantics bs = Some (s, rest) \<longleftrightarrow> store_semantics_fits s \<and> bs = store_put_semantics s @ rest"
proof (cases s)
  case (fields version target thresholds improvements evidence hold cool dampening churn objective emergency priorities)
  then show ?thesis
    by (cases target; cases churn; cases objective)
      (auto simp: store_get_semantics_def store_put_semantics_def store_semantics_fits_def read_steps wire_exact)
qed

definition store_put_provenance :: "adaptation_provenance \<Rightarrow> string" where
  "store_put_provenance p = put_id (av_publisher p) @ put_id (av_worker_boot p) @ put_u64 (gen_value (av_epoch p))
     @ put_id (av_attempt p) @ put_u64 (gen_value (av_policy_generation p)) @ put_u8 (adaptation_cause_raw (av_cause p))"

text \<open>A generation read with zero for absent; a nonzero value always parses.\<close>

definition get_zero_generation :: "'g generation reader" where
  "get_zero_generation bs = do {
     (raw, bs) \<leftarrow> get_u64 bs;
     if raw \<noteq> 0 then do { g \<leftarrow> gen_from_value raw; Some (g, bs) } else Some (no_gen, bs)
   }"

lemma get_zero_generation_exact [wire_exact]:
  "get_zero_generation bs = Some (g, rest) \<longleftrightarrow> bs = put_u64 (gen_value g) @ rest"
  by (cases g) (auto simp: get_zero_generation_def Option.bind_eq_Some_conv get_u64_exact gen_from_value_def no_gen_def split: if_splits)

definition store_get_provenance :: "adaptation_provenance reader" where
  "store_get_provenance bs = do {
     (publisher, bs) \<leftarrow> get_maybe_id 64 bs;
     (boot, bs) \<leftarrow> get_maybe_id 64 bs;
     (epoch, bs) \<leftarrow> get_zero_generation bs;
     (attempt, bs) \<leftarrow> get_maybe_id 64 bs;
     (policy_generation, bs) \<leftarrow> get_zero_generation bs;
     (cause, bs) \<leftarrow> get_adaptation_cause bs;
     Some (\<lparr>av_publisher = publisher, av_worker_boot = boot, av_epoch = epoch, av_attempt = attempt,
            av_policy_generation = policy_generation, av_cause = cause\<rparr>, bs)
   }"

definition store_provenance_fits :: "adaptation_provenance \<Rightarrow> bool" where
  "store_provenance_fits p \<longleftrightarrow> maybe_id_fits 64 (av_publisher p) \<and> maybe_id_fits 64 (av_worker_boot p) \<and> maybe_id_fits 64 (av_attempt p)"

lemma store_get_provenance_exact [wire_exact]:
  "store_get_provenance bs = Some (p, rest) \<longleftrightarrow> store_provenance_fits p \<and> bs = store_put_provenance p @ rest"
  by (cases p) (auto simp: store_get_provenance_def store_put_provenance_def store_provenance_fits_def read_steps wire_exact)

section \<open>Records\<close>

text \<open>
  Each record of the store is a length-prefixed byte string; its reader must consume all of it.  The
  readers are given what the store has yielded before, which several checks refer to.
\<close>

definition encode_policy_record :: "adaptive_policy \<Rightarrow> string" where
  "encode_policy_record p = put_id (ap_id p) @ put_id (ap_name p) @ store_put_scope (ap_scope p) @ store_put_semantics (ap_semantics p)
     @ put_u64 (gen_value (ap_generation p)) @ put_u8 (policy_lifecycle_raw (ap_lifecycle p)) @ put_u64 (gen_value (ap_epoch p))
     @ put_id (ap_owner p) @ put_u64 (gen_value (ap_authority_generation p)) @ put_u64 (ap_declared_at p) @ put_u64 (ap_updated_at p)"

definition decode_policy_record :: "adaptive_policy list \<Rightarrow> string \<Rightarrow> rejection + adaptive_policy" where
  "decode_policy_record seen bs =
    (let undecodable = (ST_MALFORMED, ''policy record could not be decoded'');
         lifecycle_rejected = (ST_IMPOSSIBLE_LIFECYCLE, ''policy record carries an invalid lifecycle or generation'');
         zero = (ST_INVALID_GENERATION, ''policy record carries a zero generation'');
         truncated = (ST_TRUNCATED, ''policy record is truncated'') in
     reading undecodable (get_id 96) bs (\<lambda>i bs.
     reading undecodable (get_id 64) bs (\<lambda>name bs.
     reading undecodable store_get_scope bs (\<lambda>scope bs.
     reading undecodable store_get_semantics bs (\<lambda>semantics bs.
     reading lifecycle_rejected get_u64 bs (\<lambda>raw_generation bs.
     reading lifecycle_rejected get_policy_lifecycle bs (\<lambda>lifecycle bs.
     reading lifecycle_rejected get_u64 bs (\<lambda>raw_epoch bs.
     taking zero (gen_from_value raw_generation) (\<lambda>generation.
     taking zero (gen_from_value raw_epoch) (\<lambda>epoch.
     reading (ST_MALFORMED, ''policy owner is missing'') (get_id 64) bs (\<lambda>owner bs.
     reading truncated get_u64 bs (\<lambda>raw_authority bs.
     reading truncated get_u64 bs (\<lambda>declared_at bs.
     reading truncated get_u64 bs (\<lambda>updated_at bs.
     taking (ST_INVALID_GENERATION, ''policy record carries a zero authority generation'') (gen_from_value raw_authority) (\<lambda>authority.
     demand (ST_MALFORMED, ''policy record carries trailing bytes'') (bs = []) (
     demand (ST_MALFORMED, ''policy semantics are not valid under this semantics version'')
       (ps_version semantics = policy_semantics_version \<and> ps_valid semantics = None) (
     demand (ST_DUPLICATE_POLICY, ''the store names the same policy twice'') (i \<notin> ap_id ` set seen) (
     Inr \<lparr>ap_id = i, ap_name = name, ap_scope = scope, ap_semantics = semantics, ap_generation = generation,
          ap_lifecycle = lifecycle, ap_epoch = epoch, ap_owner = owner, ap_authority_generation = authority,
          ap_declared_at = declared_at, ap_updated_at = updated_at\<rparr>))))))))))))))))))"

definition policy_record_fits :: "adaptive_policy \<Rightarrow> bool" where
  "policy_record_fits p \<longleftrightarrow> id_fits 96 (ap_id p) \<and> id_fits 64 (ap_name p) \<and> store_scope_fits (ap_scope p)
     \<and> store_semantics_fits (ap_semantics p) \<and> gen_valid (ap_generation p) \<and> gen_valid (ap_epoch p) \<and> id_fits 64 (ap_owner p)
     \<and> gen_valid (ap_authority_generation p) \<and> ps_version (ap_semantics p) = policy_semantics_version
     \<and> ps_valid (ap_semantics p) = None"

lemma policy_record_exact:
  "decode_policy_record seen bs = Inr p \<longleftrightarrow> policy_record_fits p \<and> ap_id p \<notin> ap_id ` set seen \<and> bs = encode_policy_record p"
  by (cases p) (auto simp: decode_policy_record_def encode_policy_record_def policy_record_fits_def Let_def store_steps wire_exact)

definition encode_revocation_record :: "revocation_record \<Rightarrow> string" where
  "encode_revocation_record r = put_id (rv_policy r) @ put_u64 (gen_value (rv_generation r)) @ put_u64 (gen_value (rv_authority_generation r))
     @ put_u64 (gen_value (rv_epoch r)) @ put_id (rv_publisher r) @ put_u8 (revocation_reason_raw (rv_reason r)) @ put_string (rv_detail r)"

text \<open>
  A generation that is cut off leaves too few bytes for the publisher as well, which is what the code
  reports then.
\<close>

definition decode_revocation_record :: "string \<Rightarrow> rejection + revocation_record" where
  "decode_revocation_record bs =
    (let publisher_missing = (ST_MALFORMED, ''revocation record names no publisher'');
         zero = (ST_INVALID_GENERATION, ''revocation record carries a zero generation'');
         truncated = (ST_MALFORMED, ''revocation record is truncated or carries trailing bytes'') in
     reading (ST_MALFORMED, ''revocation record could not be decoded'') (get_id 96) bs (\<lambda>policy bs.
     reading publisher_missing get_u64 bs (\<lambda>raw_generation bs.
     reading publisher_missing get_u64 bs (\<lambda>raw_authority bs.
     reading publisher_missing get_u64 bs (\<lambda>raw_epoch bs.
     reading publisher_missing (get_id 64) bs (\<lambda>publisher bs.
     reading (ST_MALFORMED, ''revocation record carries an invalid enum or generation'') get_revocation_reason bs (\<lambda>reason bs.
     taking zero (gen_from_value raw_generation) (\<lambda>generation.
     taking zero (gen_from_value raw_authority) (\<lambda>authority.
     taking zero (gen_from_value raw_epoch) (\<lambda>epoch.
     reading truncated (get_string 4096) bs (\<lambda>detail bs.
     demand truncated (bs = []) (
     Inr \<lparr>rv_policy = policy, rv_generation = generation, rv_authority_generation = authority, rv_epoch = epoch,
          rv_publisher = publisher, rv_reason = reason, rv_detail = detail\<rparr>))))))))))))"

definition revocation_record_fits :: "revocation_record \<Rightarrow> bool" where
  "revocation_record_fits r \<longleftrightarrow> id_fits 96 (rv_policy r) \<and> gen_valid (rv_generation r) \<and> gen_valid (rv_authority_generation r)
     \<and> gen_valid (rv_epoch r) \<and> id_fits 64 (rv_publisher r) \<and> text_fits 4096 (rv_detail r)"

lemma revocation_record_exact:
  "decode_revocation_record bs = Inr r \<longleftrightarrow> revocation_record_fits r \<and> bs = encode_revocation_record r"
  by (cases r) (auto simp: decode_revocation_record_def encode_revocation_record_def revocation_record_fits_def Let_def store_steps wire_exact)

section \<open>Repetition\<close>

text \<open>A loop of the decoder: each element is read, and checked against those before it.\<close>

fun repeat_read :: "('x list \<Rightarrow> string \<Rightarrow> rejection + 'x \<times> string) \<Rightarrow> nat \<Rightarrow> 'x list \<Rightarrow> string \<Rightarrow> ('x list \<Rightarrow> string \<Rightarrow> rejection + 'b) \<Rightarrow> rejection + 'b" where
  "repeat_read step 0 acc bs k = k acc bs"
| "repeat_read step (Suc n) acc bs k =
    (case step acc bs of Inl r \<Rightarrow> Inl r | Inr (x, rest) \<Rightarrow> repeat_read step n (acc @ [x]) rest k)"

fun grows :: "('x list \<Rightarrow> 'x \<Rightarrow> bool) \<Rightarrow> 'x list \<Rightarrow> 'x list \<Rightarrow> bool" where
  "grows ok acc [] = True"
| "grows ok acc (x # xs) = (ok acc x \<and> grows ok (acc @ [x]) xs)"

lemma grows_all: "grows (\<lambda>_. P) acc xs = list_all P xs"
  by (induction xs arbitrary: acc) simp_all

lemma grows_distinct:
  "grows (\<lambda>acc x. P x \<and> f x \<notin> f ` set acc) acc xs \<longleftrightarrow> list_all P xs \<and> distinct (map f xs) \<and> f ` set acc \<inter> f ` set xs = {}"
  by (induction xs arbitrary: acc) auto

lemma exists_longer: "(\<exists>xs rest. length xs = Suc n \<and> P xs rest) \<longleftrightarrow> (\<exists>x xs rest. length xs = n \<and> P (x # xs) rest)"
  by (metis length_Suc_conv)

lemma paired_Inr: "(case m of Inl f \<Rightarrow> Inl f | Inr x \<Rightarrow> Inr (x, r)) = Inr (y, s) \<longleftrightarrow> m = Inr y \<and> r = s"
  by (cases m) auto

locale store_loop =
  fixes step :: "'x list \<Rightarrow> string \<Rightarrow> rejection + 'x \<times> string" and put :: "'x \<Rightarrow> string" and ok :: "'x list \<Rightarrow> 'x \<Rightarrow> bool"
  assumes exact: "step acc bs = Inr (x, rest) \<longleftrightarrow> ok acc x \<and> bs = put x @ rest"
begin

lemma repeat_exact:
  "repeat_read step n acc bs k = Inr y \<longleftrightarrow>
    (\<exists>xs rest. length xs = n \<and> grows ok acc xs \<and> bs = concat (map put xs) @ rest \<and> k (acc @ xs) rest = Inr y)"
proof (induction n arbitrary: acc bs)
  case (Suc n)
  have "repeat_read step (Suc n) acc bs k = Inr y \<longleftrightarrow>
      (\<exists>x rest. step acc bs = Inr (x, rest) \<and> repeat_read step n (acc @ [x]) rest k = Inr y)"
    by (auto split: sum.splits)
  also have "\<dots> \<longleftrightarrow> (\<exists>xs rest. length xs = Suc n \<and> grows ok acc xs \<and> bs = concat (map put xs) @ rest \<and> k (acc @ xs) rest = Inr y)"
    unfolding Suc exact exists_longer by simp blast
  finally show ?case .
qed simp

end

definition read_weight :: "path_weight list \<Rightarrow> string \<Rightarrow> rejection + path_weight \<times> string" where
  "read_weight acc bs =
    reading (ST_MALFORMED, []) (get_id 128) bs (\<lambda>path bs.
    reading (ST_MALFORMED_METRIC, []) get_u32 bs (\<lambda>weight bs.
    demand (ST_MALFORMED_METRIC, []) (\<not> weight > basis_points_scale) (
    Inr (\<lparr>pw_path = path, pw_weight_bps = weight\<rparr>, bs))))"

definition weight_fits :: "path_weight \<Rightarrow> bool" where
  "weight_fits w \<longleftrightarrow> id_fits 128 (pw_path w) \<and> \<not> pw_weight_bps w > basis_points_scale"

lemma read_weight_exact: "read_weight acc bs = Inr (w, rest) \<longleftrightarrow> weight_fits w \<and> bs = put_path_weight w @ rest"
  by (cases w) (auto simp: read_weight_def weight_fits_def put_path_weight_def store_steps wire_exact)

interpretation weight_loop: store_loop read_weight put_path_weight "\<lambda>_. weight_fits"
  by unfold_locales (rule read_weight_exact)

text \<open>A record inside its length prefix.\<close>

definition boxed :: "rejection \<Rightarrow> ('x list \<Rightarrow> string \<Rightarrow> rejection + 'x) \<Rightarrow> 'x list \<Rightarrow> string \<Rightarrow> rejection + 'x \<times> string" where
  "boxed r parse acc bs =
    reading r (get_bytes (lim_max_persistence_record_bytes default_limits)) bs (\<lambda>record rest.
    case parse acc record of Inl f \<Rightarrow> Inl f | Inr x \<Rightarrow> Inr (x, rest))"

definition box_fits :: "string \<Rightarrow> bool" where
  "box_fits = text_fits (lim_max_persistence_record_bytes default_limits)"

text \<open>A section of the store: the number of its records, bounded, and the records.\<close>

definition read_section :: "rejection \<Rightarrow> rejection \<Rightarrow> u64 \<Rightarrow> rejection \<Rightarrow> ('x list \<Rightarrow> string \<Rightarrow> rejection + 'x) \<Rightarrow> string
    \<Rightarrow> ('x list \<Rightarrow> string \<Rightarrow> rejection + 'b) \<Rightarrow> rejection + 'b" where
  "read_section missing absurd limit truncated parse bs k =
    reading missing get_u64 bs (\<lambda>count bs.
    demand absurd (\<not> count > limit) (repeat_read (boxed truncated parse) (unat count) [] bs k))"

definition section_ok :: "u64 \<Rightarrow> ('x \<Rightarrow> string) \<Rightarrow> ('x list \<Rightarrow> 'x \<Rightarrow> bool) \<Rightarrow> 'x list \<Rightarrow> bool" where
  "section_ok limit put ok xs \<longleftrightarrow> length xs \<le> unat limit \<and> grows (\<lambda>acc x. ok acc x \<and> box_fits (put x)) [] xs"

locale store_section =
  fixes parse :: "'x list \<Rightarrow> string \<Rightarrow> rejection + 'x" and put :: "'x \<Rightarrow> string" and ok :: "'x list \<Rightarrow> 'x \<Rightarrow> bool"
  assumes exact: "parse acc record = Inr x \<longleftrightarrow> ok acc x \<and> record = put x"
begin

lemma boxed_exact:
  "boxed r parse acc bs = Inr (x, rest) \<longleftrightarrow> (ok acc x \<and> box_fits (put x)) \<and> bs = put_bytes (put x) @ rest"
  by (auto simp: boxed_def box_fits_def reading_Inr get_bytes_exact exact paired_Inr)

lemma section_exact:
  "read_section missing absurd limit truncated parse bs k = Inr y \<longleftrightarrow>
    (\<exists>xs rest. section_ok limit put ok xs \<and> bs = put_vector (\<lambda>x. put_bytes (put x)) xs @ rest \<and> k xs rest = Inr y)"
proof -
  have loop: "repeat_read (boxed truncated parse) n [] bs k = Inr y \<longleftrightarrow>
      (\<exists>xs rest. length xs = n \<and> grows (\<lambda>acc x. ok acc x \<and> box_fits (put x)) [] xs
         \<and> bs = concat (map (\<lambda>x. put_bytes (put x)) xs) @ rest \<and> k xs rest = Inr y)" for n bs
  proof -
    have "store_loop (boxed truncated parse) (\<lambda>x. put_bytes (put x)) (\<lambda>acc x. ok acc x \<and> box_fits (put x))"
      by unfold_locales (rule boxed_exact)
    then show ?thesis by (subst store_loop.repeat_exact) simp_all
  qed
  have count: "(count = word_of_nat (length xs) \<and> length xs \<le> unat limit) \<longleftrightarrow> (length xs = unat count \<and> \<not> count > limit)" for count and xs :: "'x list"
    using unsigned_less[of limit, where 'a = nat]
    by (auto simp: unat_of_nat take_bit_eq_mod word_le_nat_alt not_less word_unat_eq_iff)
  have "read_section missing absurd limit truncated parse bs k = Inr y \<longleftrightarrow>
      (\<exists>xs rest count. (length xs = unat count \<and> \<not> count > limit) \<and> grows (\<lambda>acc x. ok acc x \<and> box_fits (put x)) [] xs
         \<and> bs = put_u64 count @ concat (map (\<lambda>x. put_bytes (put x)) xs) @ rest \<and> k xs rest = Inr y)"
    by (auto simp: read_section_def reading_Inr demand_Inr get_u64_exact loop)
  also have "\<dots> \<longleftrightarrow> (\<exists>xs rest. section_ok limit put ok xs \<and> bs = put_vector (\<lambda>x. put_bytes (put x)) xs @ rest \<and> k xs rest = Inr y)"
    unfolding count[symmetric] section_ok_def put_vector_def by auto
  finally show ?thesis .
qed

end

end
