(* ===== verification/Store.thy ===== *)
theory Store
  imports Store_Codec
begin

text \<open>
  The durable store, continued (\<^verbatim>\<open>src/persistence.cpp\<close>): the records of preferences, stable states, timings
  and history, the whole of \<open>encode_durable_state\<close> and \<open>decode_durable_state\<close>, and the theorem that the
  decoder accepts exactly the images of the encoder.
\<close>

section \<open>Reading forward\<close>

named_theorems reads_back \<open>a reader on what the writer of its kind wrote\<close>

lemma scalar_reads_back [reads_back]:
  "get_u8 (put_u8 a @ rest) = Some (a, rest)" "get_u16 (put_u16 b @ rest) = Some (b, rest)"
  "get_u32 (put_u32 c @ rest) = Some (c, rest)" "get_u64 (put_u64 d @ rest) = Some (d, rest)"
  "get_bool (put_bool e @ rest) = Some (e, rest)" "get_u64 (put_u64 d) = Some (d, [])"
  using get_put_u64[of d "[]"] by (simp_all add: get_put_u8 get_put_u16 get_put_u32 get_put_u64 get_put_bool)

lemma element_reads_back [reads_back]:
  "id_fits n i \<Longrightarrow> get_id n (put_id i @ rest) = Some (i, rest)"
  "maybe_id_fits n i \<Longrightarrow> get_maybe_id n (put_id i @ rest) = Some (i, rest)"
  "(id_valid i \<longrightarrow> id_fits n i) \<Longrightarrow> get_optional_id n (put_optional_id i @ rest) = Some (i, rest)"
  "pred_option (id_fits n) v \<Longrightarrow> get_option (get_id n) (put_option put_id v @ rest) = Some (v, rest)"
  "get_zero_generation (put_u64 (gen_value g) @ rest) = Some (g, rest)"
  "store_provenance_fits p \<Longrightarrow> store_get_provenance (store_put_provenance p @ rest) = Some (p, rest)"
  "text_fits limit t \<Longrightarrow> get_string limit (put_string t) = Some (t, [])"
  by (simp_all add: wire_exact)

lemma enum_reads_back [reads_back]:
  "get_decision_lifecycle (put_u8 (decision_lifecycle_raw l) @ rest) = Some (l, rest)"
  "get_outcome (put_u16 (outcome_raw u) @ rest) = Some (u, rest)"
  "get_suppression (put_u8 (suppression_raw s) @ rest) = Some (s, rest)"
  "get_adaptation_cause (put_u8 (adaptation_cause_raw c) @ rest) = Some (c, rest)"
  by (simp_all add: wire_exact)

lemma generation_reads_back [reads_back]: "gen_valid g \<Longrightarrow> gen_from_value (gen_value g) = Some g" "Generation (gen_value g) = g"
  by (cases g; simp add: gen_from_value_def gen_valid_def)+

lemmas forward = reading_def taking_def demand_def maybe_generation_eq reads_back

section \<open>Preferences\<close>

definition owner_of :: "adaptive_policy list \<Rightarrow> policy_id \<Rightarrow> adaptive_policy option" where
  "owner_of policies i = List.find (\<lambda>p. ap_id p = i) policies"

definition store_put_proposal :: "weight_proposal \<Rightarrow> string" where
  "store_put_proposal w = put_id (wp_set w) @ put_u64 (gen_value (wp_base_generation w)) @ put_vector put_path_weight (wp_weights w)"

definition read_proposal :: "string \<Rightarrow> (weight_proposal \<Rightarrow> string \<Rightarrow> rejection + 'b) \<Rightarrow> rejection + 'b" where
  "read_proposal bs k =
    reading (ST_MALFORMED, []) (get_id 96) bs (\<lambda>set bs.
    reading (ST_ABSURD_COUNT, []) get_u64 bs (\<lambda>raw_base bs.
    reading (ST_ABSURD_COUNT, []) get_u64 bs (\<lambda>count bs.
    demand (ST_ABSURD_COUNT, []) (\<not> count > lim_max_candidates_per_policy default_limits) (
    taking (ST_INVALID_GENERATION, []) (gen_from_value raw_base) (\<lambda>base.
    repeat_read read_weight (unat count) [] bs (\<lambda>weights bs.
    let w = \<lparr>wp_set = set, wp_base_generation = base, wp_weights = weights\<rparr> in
    demand (ST_MALFORMED, ''weight proposal is not well formed'') (wp_well_formed w) (k w bs)))))))"

definition proposal_fits :: "weight_proposal \<Rightarrow> bool" where
  "proposal_fits w \<longleftrightarrow> id_fits 96 (wp_set w) \<and> gen_valid (wp_base_generation w)
     \<and> vector_ok (lim_max_candidates_per_policy default_limits) weight_fits (wp_weights w) \<and> wp_well_formed w"

lemma counted: "(length xs = unat count \<and> \<not> count > limit) \<longleftrightarrow> (count = word_of_nat (length xs) \<and> length xs \<le> unat limit)"
  for count limit :: u64
  using unsigned_less[of limit, where 'a = nat]
  by (auto simp: unat_of_nat take_bit_eq_mod word_le_nat_alt not_less word_unat_eq_iff)

lemma read_proposal_exact:
  "read_proposal bs k = Inr y \<longleftrightarrow> (\<exists>w rest. proposal_fits w \<and> bs = store_put_proposal w @ rest \<and> k w rest = Inr y)"
proof -
  have "read_proposal bs k = Inr y \<longleftrightarrow> (\<exists>set base weights rest count. id_fits 96 set \<and> gen_valid base
      \<and> (length weights = unat count \<and> \<not> count > lim_max_candidates_per_policy default_limits) \<and> list_all weight_fits weights
      \<and> bs = put_id set @ put_u64 (gen_value base) @ put_u64 count @ concat (map put_path_weight weights) @ rest
      \<and> wp_well_formed \<lparr>wp_set = set, wp_base_generation = base, wp_weights = weights\<rparr>
      \<and> k \<lparr>wp_set = set, wp_base_generation = base, wp_weights = weights\<rparr> rest = Inr y)"
    by (simp add: read_proposal_def Let_def store_steps wire_exact weight_loop.repeat_exact grows_all) blast
  also have "\<dots> \<longleftrightarrow> (\<exists>set base weights rest. proposal_fits \<lparr>wp_set = set, wp_base_generation = base, wp_weights = weights\<rparr>
      \<and> bs = store_put_proposal \<lparr>wp_set = set, wp_base_generation = base, wp_weights = weights\<rparr> @ rest
      \<and> k \<lparr>wp_set = set, wp_base_generation = base, wp_weights = weights\<rparr> rest = Inr y)"
    unfolding counted proposal_fits_def store_put_proposal_def put_vector_def vector_ok_def by auto
  also have "\<dots> \<longleftrightarrow> (\<exists>w rest. proposal_fits w \<and> bs = store_put_proposal w @ rest \<and> k w rest = Inr y)"
    by (metis weight_proposal.cases)
  finally show ?thesis .
qed

text \<open>The path authority generation: required of an established preference, zero for absent otherwise.\<close>

definition preferred_authority :: "bool \<Rightarrow> path_id \<Rightarrow> u64 \<Rightarrow> (path_authority_generation \<Rightarrow> rejection + 'b) \<Rightarrow> rejection + 'b" where
  "preferred_authority established path raw k =
    (if established then
       demand (ST_INVALID_PREFERRED_CANDIDATE, ''an established preference carries no preferred path'') (id_valid path) (
       taking (ST_INVALID_PREFERRED_CANDIDATE, ''an established preference carries no path authority generation'') (gen_from_value raw) k)
     else maybe_generation (ST_INVALID_GENERATION, []) raw k)"

lemma preferred_authority_exact:
  "preferred_authority established path raw k = Inr y \<longleftrightarrow>
     (\<exists>g. raw = gen_value g \<and> (established \<longrightarrow> id_valid path \<and> gen_valid g) \<and> k g = Inr y)"
  by (auto simp: preferred_authority_def store_steps) (metis generation.collapse generation.sel)+

definition encode_preference_record :: "durable_preference \<Rightarrow> string" where
  "encode_preference_record d = (let p = dp_preference d in
     put_id (dp_policy d) @ put_id (rp_route p) @ put_option put_id (rp_multipath_set p) @ put_u64 (gen_value (rp_multipath_generation p))
     @ put_bool (rp_established p) @ put_id (rp_preferred_path p) @ put_u64 (gen_value (rp_path_authority_generation p))
     @ put_optional_id (rp_previous_path p) @ put_u64 (gen_value (rp_route_generation p))
     @ put_u64 (gen_value (rp_adaptation_generation p)) @ put_u64 (gen_value (rp_transition_generation p))
     @ put_id (rp_transition p) @ put_option store_put_proposal (rp_weight_proposal p) @ put_optional_id (rp_decision p)
     @ store_put_provenance (rp_provenance p) @ put_u64 (rp_committed_at p))"

definition read_optional_proposal :: "string \<Rightarrow> (weight_proposal option \<Rightarrow> string \<Rightarrow> rejection + 'b) \<Rightarrow> rejection + 'b" where
  "read_optional_proposal bs k =
    reading (ST_TRUNCATED, []) get_bool bs (\<lambda>present bs.
    if present then read_proposal bs (\<lambda>w. k (Some w)) else k None bs)"

lemma read_optional_proposal_exact:
  "read_optional_proposal bs k = Inr y \<longleftrightarrow>
     (\<exists>v rest. pred_option proposal_fits v \<and> bs = put_option store_put_proposal v @ rest \<and> k v rest = Inr y)"
proof
  assume "read_optional_proposal bs k = Inr y"
  then obtain present rest where b: "bs = put_bool present @ rest"
      "(if present then read_proposal rest (\<lambda>w. k (Some w)) else k None rest) = Inr y"
    by (auto simp: read_optional_proposal_def reading_Inr get_bool_exact)
  show "\<exists>v rest. pred_option proposal_fits v \<and> bs = put_option store_put_proposal v @ rest \<and> k v rest = Inr y"
  proof (cases present)
    case True
    then obtain w r where "proposal_fits w" "rest = store_put_proposal w @ r" "k (Some w) r = Inr y"
      using b(2) by (auto simp: read_proposal_exact)
    then show ?thesis using b(1) True by (intro exI[of _ "Some w"] exI[of _ r]) (simp add: put_option_def)
  next
    case False
    then show ?thesis using b by (intro exI[of _ None] exI[of _ rest]) (simp add: put_option_def)
  qed
next
  assume "\<exists>v rest. pred_option proposal_fits v \<and> bs = put_option store_put_proposal v @ rest \<and> k v rest = Inr y"
  then obtain v rest where "pred_option proposal_fits v" "bs = put_option store_put_proposal v @ rest" "k v rest = Inr y" by blast
  then show "read_optional_proposal bs k = Inr y"
    by (cases v) (auto simp: read_optional_proposal_def put_option_def forward read_proposal_exact)
qed

definition decode_preference_record :: "adaptive_policy list \<Rightarrow> string \<Rightarrow> rejection + durable_preference" where
  "decode_preference_record policies bs =
    (let undecodable = (ST_MALFORMED, ''preference record could not be decoded'');
         zero = (ST_INVALID_GENERATION, ''preference record carries a zero generation'');
         trailing = (ST_MALFORMED, ''preference record is truncated or carries trailing bytes'') in
     reading undecodable (get_id 96) bs (\<lambda>policy bs.
     reading undecodable (get_id 96) bs (\<lambda>route bs.
     reading undecodable (get_option (get_id 96)) bs (\<lambda>multipath_set bs.
     reading (ST_TRUNCATED, []) get_u64 bs (\<lambda>raw_set bs.
     reading (ST_TRUNCATED, []) get_bool bs (\<lambda>established bs.
     maybe_generation (ST_INVALID_GENERATION, []) raw_set (\<lambda>set_generation.
     reading (ST_MALFORMED, ''preference record carries a malformed preferred path'') (get_maybe_id 128) bs (\<lambda>path bs.
     reading (ST_TRUNCATED, []) get_u64 bs (\<lambda>raw_authority bs.
     preferred_authority established path raw_authority (\<lambda>authority.
     reading (ST_MALFORMED, []) (get_optional_id 128) bs (\<lambda>previous bs.
     reading (ST_TRUNCATED, []) get_u64 bs (\<lambda>raw_route bs.
     reading (ST_TRUNCATED, []) get_u64 bs (\<lambda>raw_adaptation bs.
     reading (ST_TRUNCATED, []) get_u64 bs (\<lambda>raw_transition bs.
     maybe_generation (ST_INVALID_GENERATION, []) raw_route (\<lambda>route_generation.
     taking zero (gen_from_value raw_adaptation) (\<lambda>adaptation.
     taking zero (gen_from_value raw_transition) (\<lambda>transition_generation.
     reading (ST_MALFORMED, ''preference record carries a malformed transition identity'') (get_maybe_id 96) bs (\<lambda>transition bs.
     read_optional_proposal bs (\<lambda>proposal bs.
     reading (ST_MALFORMED, []) (get_optional_id 96) bs (\<lambda>decision bs.
     reading (ST_MALFORMED, []) store_get_provenance bs (\<lambda>provenance bs.
     reading trailing get_u64 bs (\<lambda>committed_at bs.
     demand trailing (bs = []) (
     taking (ST_TIMING_WITHOUT_POLICY, ''preference state names a policy the store does not contain'') (owner_of policies policy) (\<lambda>owner.
     demand (ST_INVALID_PREFERRED_CANDIDATE, ''preference names a route the owning policy does not target'')
       (pt_route (ps_target (ap_semantics owner)) = route) (
     Inr \<lparr>dp_policy = policy, dp_preference = \<lparr>rp_route = route, rp_multipath_set = multipath_set,
        rp_multipath_generation = set_generation, rp_preferred_path = path, rp_path_authority_generation = authority,
        rp_previous_path = previous, rp_route_generation = route_generation, rp_adaptation_generation = adaptation,
        rp_transition_generation = transition_generation, rp_transition = transition, rp_weight_proposal = proposal,
        rp_decision = decision, rp_provenance = provenance, rp_committed_at = committed_at,
        rp_established = established\<rparr>\<rparr>)))))))))))))))))))))))))"

definition preference_record_fits :: "adaptive_policy list \<Rightarrow> durable_preference \<Rightarrow> bool" where
  "preference_record_fits policies d \<longleftrightarrow> (let p = dp_preference d in
     id_fits 96 (dp_policy d) \<and> id_fits 96 (rp_route p) \<and> pred_option (id_fits 96) (rp_multipath_set p)
     \<and> maybe_id_fits 128 (rp_preferred_path p)
     \<and> (rp_established p \<longrightarrow> id_valid (rp_preferred_path p) \<and> gen_valid (rp_path_authority_generation p))
     \<and> (id_valid (rp_previous_path p) \<longrightarrow> id_fits 128 (rp_previous_path p))
     \<and> gen_valid (rp_adaptation_generation p) \<and> gen_valid (rp_transition_generation p) \<and> maybe_id_fits 96 (rp_transition p)
     \<and> pred_option proposal_fits (rp_weight_proposal p) \<and> (id_valid (rp_decision p) \<longrightarrow> id_fits 96 (rp_decision p))
     \<and> store_provenance_fits (rp_provenance p)
     \<and> (case owner_of policies (dp_policy d) of None \<Rightarrow> False | Some owner \<Rightarrow> pt_route (ps_target (ap_semantics owner)) = rp_route p))"

lemma preferred_authority_reads_back:
  "(established \<longrightarrow> id_valid path \<and> gen_valid g) \<Longrightarrow> preferred_authority established path (gen_value g) k = k g"
  by (simp add: preferred_authority_def forward)

lemma preference_record_exact:
  "decode_preference_record policies bs = Inr d \<longleftrightarrow> preference_record_fits policies d \<and> bs = encode_preference_record d"
proof
  assume "decode_preference_record policies bs = Inr d"
  then show "preference_record_fits policies d \<and> bs = encode_preference_record d"
    unfolding decode_preference_record_def Let_def store_steps wire_exact preferred_authority_exact read_optional_proposal_exact
    by (clarsimp simp: encode_preference_record_def preference_record_fits_def Let_def)
next
  assume a: "preference_record_fits policies d \<and> bs = encode_preference_record d"
  let ?p = "dp_preference d"
  have proposal: "read_optional_proposal (put_option store_put_proposal (rp_weight_proposal ?p) @ rest) k = k (rp_weight_proposal ?p) rest"
    if "k (rp_weight_proposal ?p) rest = Inr x" for rest k and x :: durable_preference
    using a that read_optional_proposal_exact[of "put_option store_put_proposal (rp_weight_proposal ?p) @ rest" k x]
    by (auto simp: preference_record_fits_def Let_def)
  from a show "decode_preference_record policies bs = Inr d"
    by (simp add: decode_preference_record_def encode_preference_record_def preference_record_fits_def Let_def forward
        preferred_authority_reads_back) (subst proposal; force simp: forward split: option.splits)
qed

section \<open>Stable states\<close>

definition encode_stable_record :: "durable_stable \<Rightarrow> string" where
  "encode_stable_record d = (let s = db_stable d in
     put_id (db_policy d) @ put_bool (ss_established s) @ put_id (ss_path s) @ put_u64 (gen_value (ss_path_authority_generation s))
     @ put_u64 (gen_value (ss_route_generation s)) @ put_u64 (gen_value (ss_multipath_generation s))
     @ put_u64 (gen_value (ss_adaptation_generation s)) @ put_u64 (ss_stabilized_at s))"

definition decode_stable_record :: "adaptive_policy list \<Rightarrow> string \<Rightarrow> rejection + durable_stable" where
  "decode_stable_record policies bs =
    (let invalid = (ST_INVALID_GENERATION, []) in
     reading (ST_MALFORMED, []) (get_id 96) bs (\<lambda>policy bs.
     reading (ST_TRUNCATED, []) get_bool bs (\<lambda>established bs.
     reading (ST_MALFORMED, ''stable-state record carries a malformed path'') (get_maybe_id 128) bs (\<lambda>path bs.
     reading (ST_TRUNCATED, []) get_u64 bs (\<lambda>raw_authority bs.
     demand (ST_INVALID_GENERATION, ''an established stable state carries no path authority generation'')
       (raw_authority \<noteq> 0 \<or> \<not> established) (
     maybe_generation invalid raw_authority (\<lambda>authority.
     reading (ST_TRUNCATED, []) get_u64 bs (\<lambda>raw_route bs.
     reading (ST_TRUNCATED, []) get_u64 bs (\<lambda>raw_multipath bs.
     reading (ST_TRUNCATED, []) get_u64 bs (\<lambda>raw_adaptation bs.
     reading (ST_TRUNCATED, []) get_u64 bs (\<lambda>stabilized_at bs.
     maybe_generation invalid raw_route (\<lambda>route.
     maybe_generation invalid raw_multipath (\<lambda>multipath.
     maybe_generation invalid raw_adaptation (\<lambda>adaptation.
     demand (ST_MALFORMED, ''stable-state record carries trailing bytes'') (bs = []) (
     demand (ST_TIMING_WITHOUT_POLICY, ''stable state names a policy the store does not contain'') (owner_of policies policy \<noteq> None) (
     Inr \<lparr>db_policy = policy, db_stable = \<lparr>ss_established = established, ss_path = path, ss_path_authority_generation = authority,
        ss_route_generation = route, ss_multipath_generation = multipath, ss_adaptation_generation = adaptation,
        ss_stabilized_at = stabilized_at\<rparr>\<rparr>))))))))))))))))"

definition stable_record_fits :: "adaptive_policy list \<Rightarrow> durable_stable \<Rightarrow> bool" where
  "stable_record_fits policies d \<longleftrightarrow> (let s = db_stable d in
     id_fits 96 (db_policy d) \<and> maybe_id_fits 128 (ss_path s)
     \<and> (ss_established s \<longrightarrow> gen_valid (ss_path_authority_generation s)) \<and> owner_of policies (db_policy d) \<noteq> None)"

lemma stable_record_exact:
  "decode_stable_record policies bs = Inr d \<longleftrightarrow> stable_record_fits policies d \<and> bs = encode_stable_record d"
proof
  assume "decode_stable_record policies bs = Inr d"
  then show "stable_record_fits policies d \<and> bs = encode_stable_record d"
    unfolding decode_stable_record_def Let_def store_steps wire_exact
    by (clarsimp simp: encode_stable_record_def stable_record_fits_def Let_def gen_valid_def)
next
  assume "stable_record_fits policies d \<and> bs = encode_stable_record d"
  then show "decode_stable_record policies bs = Inr d"
    by (simp add: decode_stable_record_def encode_stable_record_def stable_record_fits_def Let_def forward gen_valid_def) blast
qed

section \<open>Timing\<close>

definition encode_timing_record :: "durable_timing \<Rightarrow> string" where
  "encode_timing_record t = put_id (dt_policy t) @ put_bool (dt_hold_down_active t) @ put_u64 (dt_hold_down_remaining t)
     @ put_u64 (gen_value (dt_hold_down_policy_generation t)) @ put_optional_id (dt_hold_down_locked_path t)
     @ put_bool (dt_cooldown_active t) @ put_u64 (dt_cooldown_remaining t) @ put_u32 (dt_dampening_penalty t)
     @ put_u64 (dt_dampening_decay_remaining t) @ put_vector put_u64 (dt_churn_ages t)"

definition decode_timing_record :: "adaptive_policy list \<Rightarrow> string \<Rightarrow> rejection + durable_timing" where
  "decode_timing_record policies bs =
    (let malformed = (ST_MALFORMED_TIMING, []);
         penalty_rejected = (ST_MALFORMED_TIMING, ''dampening penalty is out of range'') in
     reading (ST_MALFORMED, []) (get_id 96) bs (\<lambda>policy bs.
     demand (ST_TIMING_WITHOUT_POLICY, ''timing state names a policy the store does not contain'') (owner_of policies policy \<noteq> None) (
     reading malformed get_bool bs (\<lambda>hold_down_active bs.
     reading malformed get_u64 bs (\<lambda>hold_down_remaining bs.
     reading malformed get_u64 bs (\<lambda>raw_generation bs.
     maybe_generation (ST_INVALID_GENERATION, []) raw_generation (\<lambda>hold_down_generation.
     reading malformed (get_optional_id 128) bs (\<lambda>locked bs.
     reading malformed get_bool bs (\<lambda>cooldown_active bs.
     reading malformed get_u64 bs (\<lambda>cooldown_remaining bs.
     reading penalty_rejected get_u32 bs (\<lambda>penalty bs.
     reading penalty_rejected get_u64 bs (\<lambda>decay_remaining bs.
     demand penalty_rejected (\<not> ucast penalty > lim_max_dampening_penalty default_limits) (
     reading (ST_ABSURD_COUNT, []) get_u64 bs (\<lambda>count bs.
     demand (ST_ABSURD_COUNT, []) (\<not> count > lim_max_adaptations_per_window default_limits) (
     reading malformed (get_many get_u64 (unat count)) bs (\<lambda>ages bs.
     demand (ST_MALFORMED_TIMING, ''timing record carries trailing bytes'') (bs = []) (
     demand (ST_MALFORMED_TIMING, ''hold-down remainder is present while hold-down is inactive'') (hold_down_active \<or> hold_down_remaining = 0) (
     demand (ST_MALFORMED_TIMING, ''cooldown remainder is present while cooldown is inactive'') (cooldown_active \<or> cooldown_remaining = 0) (
     Inr \<lparr>dt_policy = policy, dt_hold_down_active = hold_down_active, dt_hold_down_remaining = hold_down_remaining,
        dt_hold_down_policy_generation = hold_down_generation, dt_hold_down_locked_path = locked,
        dt_cooldown_active = cooldown_active, dt_cooldown_remaining = cooldown_remaining, dt_dampening_penalty = penalty,
        dt_dampening_decay_remaining = decay_remaining, dt_churn_ages = ages\<rparr>)))))))))))))))))))"

definition timing_record_fits :: "adaptive_policy list \<Rightarrow> durable_timing \<Rightarrow> bool" where
  "timing_record_fits policies t \<longleftrightarrow> id_fits 96 (dt_policy t) \<and> owner_of policies (dt_policy t) \<noteq> None
     \<and> (id_valid (dt_hold_down_locked_path t) \<longrightarrow> id_fits 128 (dt_hold_down_locked_path t))
     \<and> \<not> ucast (dt_dampening_penalty t) > lim_max_dampening_penalty default_limits
     \<and> length (dt_churn_ages t) \<le> unat (lim_max_adaptations_per_window default_limits)
     \<and> (dt_hold_down_active t \<or> dt_hold_down_remaining t = 0) \<and> (dt_cooldown_active t \<or> dt_cooldown_remaining t = 0)"

lemma timing_record_exact:
  "decode_timing_record policies bs = Inr t \<longleftrightarrow> timing_record_fits policies t \<and> bs = encode_timing_record t"
proof
  assume "decode_timing_record policies bs = Inr t"
  then show "timing_record_fits policies t \<and> bs = encode_timing_record t"
    unfolding decode_timing_record_def Let_def store_steps wire_exact u64_code.many_exact
    by (clarsimp simp: encode_timing_record_def timing_record_fits_def put_vector_def word_le_nat_alt not_less)
next
  assume a: "timing_record_fits policies t \<and> bs = encode_timing_record t"
  then have c: "length (dt_churn_ages t) = unat (word_of_nat (length (dt_churn_ages t)) :: u64)"
      "\<not> (word_of_nat (length (dt_churn_ages t)) :: u64) > lim_max_adaptations_per_window default_limits"
    using counted[of "dt_churn_ages t" "word_of_nat (length (dt_churn_ages t))" "lim_max_adaptations_per_window default_limits"]
    by (simp_all add: timing_record_fits_def)
  have "get_many get_u64 (unat (word_of_nat (length (dt_churn_ages t)) :: u64)) (concat (map put_u64 (dt_churn_ages t))) = Some (dt_churn_ages t, [])"
    using u64_code.many_exact[of "unat (word_of_nat (length (dt_churn_ages t)) :: u64)" _ "dt_churn_ages t" "[]"] c(1)
    by (simp add: list_all_iff)
  then show "decode_timing_record policies bs = Inr t"
    using a c(2) by (simp add: decode_timing_record_def encode_timing_record_def timing_record_fits_def put_vector_def Let_def forward)
qed

section \<open>History\<close>

text \<open>The time of the commit is not stored; a decoded entry carries zero.\<close>

definition encode_history_record :: "durable_history_entry \<Rightarrow> string" where
  "encode_history_record d = (let h = dh_record d in
     put_id (dh_policy d) @ put_id (hr_decision h) @ put_u8 (decision_lifecycle_raw (hr_lifecycle h)) @ put_u16 (outcome_raw (hr_outcome h))
     @ put_u8 (suppression_raw (hr_suppression h)) @ put_u8 (adaptation_cause_raw (hr_cause h)) @ put_optional_id (hr_from_path h)
     @ put_optional_id (hr_to_path h) @ put_u64 (gen_value (hr_adaptation_generation h)) @ put_u64 (gen_value (hr_evidence_generation h))
     @ put_u64 (gen_value (hr_epoch h)) @ put_string (hr_digest h))"

definition decode_history_record :: "adaptive_policy list \<Rightarrow> string \<Rightarrow> rejection + durable_history_entry" where
  "decode_history_record policies bs =
    (let undecodable = (ST_MALFORMED, ''history record could not be decoded'');
         rejected = (ST_IMPOSSIBLE_LIFECYCLE, ''history record carries an invalid lifecycle or outcome'');
         invalid = (ST_INVALID_GENERATION, []);
         trailing = (ST_MALFORMED, ''history record is truncated or carries trailing bytes'') in
     reading undecodable (get_id 96) bs (\<lambda>policy bs.
     reading undecodable (get_id 96) bs (\<lambda>decision bs.
     reading rejected get_decision_lifecycle bs (\<lambda>lifecycle bs.
     reading rejected get_outcome bs (\<lambda>outcome bs.
     reading rejected get_suppression bs (\<lambda>suppression bs.
     reading rejected get_adaptation_cause bs (\<lambda>cause bs.
     reading (ST_MALFORMED, []) (get_optional_id 128) bs (\<lambda>from_path bs.
     reading (ST_MALFORMED, []) (get_optional_id 128) bs (\<lambda>to_path bs.
     reading (ST_TRUNCATED, []) get_u64 bs (\<lambda>raw_adaptation bs.
     reading (ST_TRUNCATED, []) get_u64 bs (\<lambda>raw_evidence bs.
     reading (ST_TRUNCATED, []) get_u64 bs (\<lambda>raw_epoch bs.
     maybe_generation invalid raw_adaptation (\<lambda>adaptation.
     maybe_generation invalid raw_evidence (\<lambda>evidence.
     maybe_generation invalid raw_epoch (\<lambda>epoch.
     reading trailing (get_string 4096) bs (\<lambda>digest bs.
     demand trailing (bs = []) (
     demand (ST_TIMING_WITHOUT_POLICY, ''history names a policy the store does not contain'') (owner_of policies policy \<noteq> None) (
     Inr \<lparr>dh_policy = policy, dh_record = \<lparr>hr_decision = decision, hr_lifecycle = lifecycle, hr_outcome = outcome,
        hr_suppression = suppression, hr_cause = cause, hr_from_path = from_path, hr_to_path = to_path,
        hr_adaptation_generation = adaptation, hr_evidence_generation = evidence, hr_epoch = epoch, hr_committed_at = 0,
        hr_digest = digest\<rparr>\<rparr>))))))))))))))))))"

definition history_record_fits :: "adaptive_policy list \<Rightarrow> durable_history_entry \<Rightarrow> bool" where
  "history_record_fits policies d \<longleftrightarrow> (let h = dh_record d in
     id_fits 96 (dh_policy d) \<and> id_fits 96 (hr_decision h) \<and> (id_valid (hr_from_path h) \<longrightarrow> id_fits 128 (hr_from_path h))
     \<and> (id_valid (hr_to_path h) \<longrightarrow> id_fits 128 (hr_to_path h)) \<and> text_fits 4096 (hr_digest h) \<and> hr_committed_at h = 0
     \<and> owner_of policies (dh_policy d) \<noteq> None)"

lemma history_record_exact:
  "decode_history_record policies bs = Inr d \<longleftrightarrow> history_record_fits policies d \<and> bs = encode_history_record d"
proof
  assume "decode_history_record policies bs = Inr d"
  then show "history_record_fits policies d \<and> bs = encode_history_record d"
    unfolding decode_history_record_def Let_def store_steps wire_exact
    by (clarsimp simp: encode_history_record_def history_record_fits_def Let_def)
next
  assume "history_record_fits policies d \<and> bs = encode_history_record d"
  then show "decode_history_record policies bs = Inr d"
    by (simp add: decode_history_record_def encode_history_record_def history_record_fits_def Let_def forward)
qed

end
