(* ===== verification/Store_Image.thy ===== *)
theory Store_Image
  imports Store
begin

text \<open>
  The whole store (\<^verbatim>\<open>src/persistence.cpp\<close>, \<open>encode_durable_state\<close> and \<open>decode_durable_state\<close>), and the
  theorem that the decoder accepts exactly the images of the encoder.
\<close>

section \<open>Encoding\<close>

definition store_magic :: u32 where "store_magic = 0x50465241"
definition store_trailer_bytes :: nat where "store_trailer_bytes = 8"

definition store_integrity :: "string \<Rightarrow> u64" where
  "store_integrity bs = (case fold integrity_step bs (fnv_offset_a, fnv_offset_b) of (low, high) \<Rightarrow> low XOR high)"

definition put_records :: "('a \<Rightarrow> string) \<Rightarrow> 'a list \<Rightarrow> string" where
  "put_records put = put_vector (\<lambda>x. put_bytes (put x))"

definition store_body :: "durable_state \<Rightarrow> string" where
  "store_body d = put_u64 (gen_value (du_epoch d)) @ put_u64 (gen_value (du_authority_generation d))
     @ put_u64 (gen_value (du_evidence_generation d)) @ put_u64 (wm_value (du_evidence_watermark d))
     @ put_u64 (wm_value (du_upstream_watermark d))
     @ put_records encode_policy_record (du_policies d)
     @ put_records encode_revocation_record (du_revocations d)
     @ put_records encode_preference_record (du_preferences d)
     @ put_records encode_stable_record (du_stable_states d)
     @ put_records encode_timing_record (du_timings d)
     @ put_records encode_history_record (du_history d)"

definition encode_durable_state :: "durable_state \<Rightarrow> string" where
  "encode_durable_state d =
    (let bytes = put_u32 store_magic @ put_u32 persistence_format_version @ store_body d in
     bytes @ put_u64 (store_integrity bytes))"

section \<open>Decoding\<close>

definition decode_store_body :: "string \<Rightarrow> rejection + durable_state" where
  "decode_store_body bs =
    (let l = default_limits;
         header = (ST_TRUNCATED, ''store header is truncated'');
         zero = (ST_INVALID_GENERATION, ''store header carries an invalid generation'');
         truncated = (ST_TRUNCATED, []) in
     reading header get_u64 bs (\<lambda>raw_epoch bs.
     reading header get_u64 bs (\<lambda>raw_authority bs.
     reading header get_u64 bs (\<lambda>raw_evidence bs.
     reading header get_u64 bs (\<lambda>evidence_watermark bs.
     reading header get_u64 bs (\<lambda>upstream_watermark bs.
     taking zero (gen_from_value raw_epoch) (\<lambda>epoch.
     taking zero (gen_from_value raw_authority) (\<lambda>authority.
     taking zero (gen_from_value raw_evidence) (\<lambda>evidence.
     demand (ST_MALFORMED_EVIDENCE_BINDING, ''evidence watermark is set without an evidence generation'')
       (\<not> (evidence_watermark \<noteq> 0 \<and> raw_evidence = 0)) (
     read_section (ST_TRUNCATED, ''policy record count is missing'')
       (ST_ABSURD_COUNT, ''policy record count exceeds the configured maximum'') (lim_max_policies l)
       (ST_TRUNCATED, ''policy record is truncated or exceeds the record bound'') decode_policy_record bs (\<lambda>policies bs.
     read_section truncated (ST_ABSURD_COUNT, ''revocation count exceeds the configured maximum'') (lim_max_revocations l)
       truncated (\<lambda>_. decode_revocation_record) bs (\<lambda>revocations bs.
     read_section truncated (ST_ABSURD_COUNT, ''preference count exceeds the configured maximum'') (lim_max_policies l)
       truncated (\<lambda>_. decode_preference_record policies) bs (\<lambda>preferences bs.
     let absurd = (ST_ABSURD_COUNT, ''stable-state count exceeds the configured maximum'') in
     read_section absurd absurd (lim_max_policies l) truncated (\<lambda>_. decode_stable_record policies) bs (\<lambda>stable_states bs.
     let absurd = (ST_ABSURD_COUNT, ''timing count exceeds the configured maximum'') in
     read_section absurd absurd (lim_max_policies l) truncated (\<lambda>_. decode_timing_record policies) bs (\<lambda>timings bs.
     let absurd = (ST_ABSURD_COUNT, ''history count exceeds the configured maximum'') in
     read_section absurd absurd (lim_max_decision_history l) truncated (\<lambda>_. decode_history_record policies) bs (\<lambda>history bs.
     demand (ST_TRAILING_BYTES, ''store carries trailing bytes after the last record'') (bs = []) (
     Inr \<lparr>du_format_version = persistence_format_version, du_epoch = epoch, du_authority_generation = authority,
        du_evidence_generation = evidence, du_evidence_watermark = Watermark evidence_watermark,
        du_upstream_watermark = Watermark upstream_watermark, du_policies = policies, du_revocations = revocations,
        du_preferences = preferences, du_stable_states = stable_states, du_timings = timings, du_history = history\<rparr>)))))))))))))))))"

definition decode_durable_state :: "string \<Rightarrow> rejection + durable_state" where
  "decode_durable_state bytes =
    (let n = length bytes in
     demand (ST_EMPTY, ''store is empty'') (bytes \<noteq> []) (
     demand (ST_TOO_LARGE, ''store exceeds the configured maximum size'') (\<not> n > unat (lim_max_store_bytes default_limits)) (
     demand (ST_TRUNCATED, ''store header is incomplete'') (\<not> n < 8 + store_trailer_bytes) (
     demand (ST_BAD_MAGIC, ''store magic does not match'') (le_word 4 (take 4 bytes) = store_magic) (
     demand (ST_BAD_VERSION, ''store format version is not supported'') (le_word 4 (take 4 (drop 4 bytes)) = persistence_format_version) (
     let body = take (n - 8 - store_trailer_bytes) (drop 8 bytes);
         integrity = le_word 8 (drop (n - store_trailer_bytes) bytes) in
     demand (ST_INTEGRITY, ''store integrity trailer does not match the content'')
       (integrity = store_integrity (take (n - store_trailer_bytes) bytes)) (
     decode_store_body body)))))))"

section \<open>The decoder accepts exactly the images of the encoder\<close>

interpretation policy_section: store_section decode_policy_record encode_policy_record
    "\<lambda>acc p. policy_record_fits p \<and> ap_id p \<notin> ap_id ` set acc"
  by unfold_locales (auto simp: policy_record_exact)

interpretation revocation_section: store_section "\<lambda>_. decode_revocation_record" encode_revocation_record "\<lambda>_. revocation_record_fits"
  by unfold_locales (rule revocation_record_exact)

interpretation preference_section: store_section "\<lambda>_. decode_preference_record policies" encode_preference_record
    "\<lambda>_. preference_record_fits policies" for policies
  by unfold_locales (rule preference_record_exact)

interpretation stable_section: store_section "\<lambda>_. decode_stable_record policies" encode_stable_record
    "\<lambda>_. stable_record_fits policies" for policies
  by unfold_locales (rule stable_record_exact)

interpretation timing_section: store_section "\<lambda>_. decode_timing_record policies" encode_timing_record
    "\<lambda>_. timing_record_fits policies" for policies
  by unfold_locales (rule timing_record_exact)

interpretation history_section: store_section "\<lambda>_. decode_history_record policies" encode_history_record
    "\<lambda>_. history_record_fits policies" for policies
  by unfold_locales (rule history_record_exact)

text \<open>What a durable state must satisfy to be decoded again.\<close>

definition records_ok :: "u64 \<Rightarrow> ('a \<Rightarrow> string) \<Rightarrow> ('a \<Rightarrow> bool) \<Rightarrow> 'a list \<Rightarrow> bool" where
  "records_ok limit put ok xs \<longleftrightarrow> length xs \<le> unat limit \<and> (\<forall>x \<in> set xs. ok x \<and> box_fits (put x))"

definition body_ok :: "durable_state \<Rightarrow> bool" where
  "body_ok d \<longleftrightarrow> du_format_version d = persistence_format_version
     \<and> gen_valid (du_epoch d) \<and> gen_valid (du_authority_generation d) \<and> gen_valid (du_evidence_generation d)
     \<and> records_ok (lim_max_policies default_limits) encode_policy_record policy_record_fits (du_policies d)
     \<and> distinct (map ap_id (du_policies d))
     \<and> records_ok (lim_max_revocations default_limits) encode_revocation_record revocation_record_fits (du_revocations d)
     \<and> records_ok (lim_max_policies default_limits) encode_preference_record (preference_record_fits (du_policies d)) (du_preferences d)
     \<and> records_ok (lim_max_policies default_limits) encode_stable_record (stable_record_fits (du_policies d)) (du_stable_states d)
     \<and> records_ok (lim_max_policies default_limits) encode_timing_record (timing_record_fits (du_policies d)) (du_timings d)
     \<and> records_ok (lim_max_decision_history default_limits) encode_history_record (history_record_fits (du_policies d)) (du_history d)"

definition durable_fits :: "durable_state \<Rightarrow> bool" where
  "durable_fits d \<longleftrightarrow> body_ok d \<and> length (encode_durable_state d) \<le> unat (lim_max_store_bytes default_limits)"

lemma section_ok_plain: "section_ok limit put (\<lambda>_. ok) xs = records_ok limit put ok xs"
  by (simp add: section_ok_def records_ok_def grows_all list_all_iff)

lemma section_ok_policies:
  "section_ok limit put (\<lambda>acc p. ok p \<and> ap_id p \<notin> ap_id ` set acc) xs \<longleftrightarrow> records_ok limit put ok xs \<and> distinct (map ap_id xs)"
  using grows_distinct[of "\<lambda>p. ok p \<and> box_fits (put p)" ap_id "[]" xs]
  by (auto simp: section_ok_def records_ok_def list_all_iff conj_ac)

lemmas section_exacts = policy_section.section_exact revocation_section.section_exact preference_section.section_exact
  stable_section.section_exact timing_section.section_exact history_section.section_exact

lemma store_body_sound:
  assumes "decode_store_body bs = Inr d"
  shows "body_ok d \<and> bs = store_body d"
  using assms unfolding decode_store_body_def Let_def store_steps get_u64_exact section_exacts
  by (clarsimp simp: body_ok_def store_body_def put_records_def section_ok_plain section_ok_policies)

lemma section_reads:
  assumes "store_section parse put ok" and "section_ok limit put ok xs" and "k xs rest = Inr y"
  shows "read_section missing absurd limit truncated parse (put_records put xs @ rest) k = Inr y"
  unfolding put_records_def store_section.section_exact[OF assms(1)]
  by (intro exI[of _ xs] exI[of _ rest] conjI refl assms(2,3))

lemma reading_step: "get bs = Some (x, rest) \<Longrightarrow> k x rest = Inr y \<Longrightarrow> reading r get bs k = Inr y"
  by (simp add: reading_def)

lemma taking_step: "v = Some x \<Longrightarrow> k x = Inr y \<Longrightarrow> taking r v k = Inr y"
  by (simp add: taking_def)

lemma demand_step: "b \<Longrightarrow> k = Inr y \<Longrightarrow> demand r b k = Inr y"
  by (simp add: demand_def)

lemma store_body_complete:
  assumes "body_ok d"
  shows "decode_store_body (store_body d) = Inr d"
proof -
  have last: "put_records encode_history_record (du_history d) = put_records encode_history_record (du_history d) @ []" by simp
  note ok = assms[unfolded body_ok_def]
  show ?thesis
    unfolding decode_store_body_def store_body_def Let_def
    apply (subst last)
    apply (rule reading_step, rule scalar_reads_back(4))+
    apply (rule taking_step, rule generation_reads_back(1), use ok in simp)+
    apply (rule demand_step, use ok in \<open>simp add: gen_valid_def\<close>)
    apply (rule section_reads[OF policy_section.store_section_axioms], use ok in \<open>simp add: section_ok_policies\<close>)
    apply (rule section_reads[OF revocation_section.store_section_axioms], use ok in \<open>simp add: section_ok_plain\<close>)
    apply (rule section_reads[OF preference_section.store_section_axioms], use ok in \<open>simp add: section_ok_plain\<close>)
    apply (rule section_reads[OF stable_section.store_section_axioms], use ok in \<open>simp add: section_ok_plain\<close>)
    apply (rule section_reads[OF timing_section.store_section_axioms], use ok in \<open>simp add: section_ok_plain\<close>)
    apply (rule section_reads[OF history_section.store_section_axioms], use ok in \<open>simp add: section_ok_plain\<close>)
    apply (rule demand_step, rule refl)
    using ok by (cases d) simp
qed

lemma integrity_length: "length (put_u64 x) = 8" "length (put_u32 y) = 4"
  by (simp_all add: put_u64_def put_u32_def)

lemma demand_True: "b \<Longrightarrow> demand r b k = k"
  by (simp add: demand_def)

lemma decode_parts:
  "decode_durable_state (put_u32 m @ put_u32 v @ body @ put_u64 t) =
    demand (ST_TOO_LARGE, ''store exceeds the configured maximum size'') (length body + 16 \<le> unat (lim_max_store_bytes default_limits)) (
    demand (ST_BAD_MAGIC, ''store magic does not match'') (m = store_magic) (
    demand (ST_BAD_VERSION, ''store format version is not supported'') (v = persistence_format_version) (
    demand (ST_INTEGRITY, ''store integrity trailer does not match the content'') (t = store_integrity (put_u32 m @ put_u32 v @ body)) (
    decode_store_body body))))"
proof -
  let ?b = "put_u32 m @ put_u32 v @ body @ put_u64 t"
  have n: "length ?b = length body + 16" "?b \<noteq> []" by (simp_all add: integrity_length)
      (simp add: put_u32_def le_bytes_def)
  have parts: "take 4 ?b = put_u32 m" "take 4 (drop 4 ?b) = put_u32 v" "take (length body) (drop 8 ?b) = body"
      "drop (length body + 8) ?b = put_u64 t" "take (length body + 8) ?b = put_u32 m @ put_u32 v @ body"
    by (simp_all add: integrity_length)
  have small: "8 + 8 \<le> length body + 16" by simp
  have sizes: "length body + 16 - 8 - 8 = length body" "length body + 16 - 8 = length body + 8" by simp_all
  have words: "le_word 4 (put_u32 m) = m" "le_word 4 (put_u32 v) = v" "le_word 8 (put_u64 t) = t"
    by (simp_all add: put_u32_def put_u64_def le_word_bytes)
  show ?thesis
    unfolding decode_durable_state_def Let_def n(1) store_trailer_bytes_def sizes parts words
    using n(2) by (simp only: demand_True not_less not_False_eq_True small add_diff_cancel_right' parts)
qed

lemma store_parts:
  assumes "16 \<le> length bytes"
  obtains m v body t where "bytes = put_u32 m @ put_u32 v @ body @ put_u64 t"
proof -
  let ?n = "length bytes"
  have "put_u32 (le_word 4 (take 4 bytes)) = take 4 bytes" "put_u32 (le_word 4 (take 4 (drop 4 bytes))) = take 4 (drop 4 bytes)"
      "put_u64 (le_word 8 (drop (?n - 8) bytes)) = drop (?n - 8) bytes"
    using assms by (simp_all add: put_u32_def put_u64_def le_bytes_word)
  moreover have "bytes = take 4 bytes @ take 4 (drop 4 bytes) @ take (?n - 16) (drop 8 bytes) @ drop (?n - 8) bytes"
  proof -
    have "drop (?n - 16) (drop 8 bytes) = drop (?n - 8) bytes" using assms by (simp add: add.commute)
    then have "take (?n - 16) (drop 8 bytes) @ drop (?n - 8) bytes = drop 8 bytes" by (metis append_take_drop_id)
    moreover have "take 4 (drop 4 bytes) @ drop 8 bytes = drop 4 bytes"
      using append_take_drop_id[of 4 "drop 4 bytes"] by simp
    ultimately show ?thesis by (metis append_take_drop_id)
  qed
  ultimately show thesis using that by metis
qed

lemma store_exact:
  "decode_durable_state bytes = Inr d \<longleftrightarrow> durable_fits d \<and> bytes = encode_durable_state d"
proof
  assume a: "decode_durable_state bytes = Inr d"
  then have "16 \<le> length bytes" by (auto simp: decode_durable_state_def Let_def store_steps store_trailer_bytes_def)
  then obtain m v body t where b: "bytes = put_u32 m @ put_u32 v @ body @ put_u64 t" by (rule store_parts)
  have c: "length body + 16 \<le> unat (lim_max_store_bytes default_limits)" "m = store_magic" "v = persistence_format_version"
      "t = store_integrity (put_u32 m @ put_u32 v @ body)" "decode_store_body body = Inr d"
    using a unfolding b decode_parts demand_Inr by blast+
  then have d: "body_ok d" "body = store_body d" using store_body_sound by blast+
  have "bytes = encode_durable_state d"
    unfolding b c(4) using c(2,3) d(2) by (simp add: encode_durable_state_def Let_def)
  moreover have "length bytes = length body + 16" by (simp add: b integrity_length)
  ultimately show "durable_fits d \<and> bytes = encode_durable_state d"
    using d(1) c(1) by (simp add: durable_fits_def)
next
  assume a: "durable_fits d \<and> bytes = encode_durable_state d"
  then have b: "bytes = put_u32 store_magic @ put_u32 persistence_format_version @ store_body d
      @ put_u64 (store_integrity (put_u32 store_magic @ put_u32 persistence_format_version @ store_body d))"
    by (simp add: encode_durable_state_def Let_def)
  have "length (store_body d) + 16 = length bytes" by (simp add: b integrity_length)
  moreover have "body_ok d" using a by (simp add: durable_fits_def)
  ultimately show "decode_durable_state bytes = Inr d"
    using a unfolding b decode_parts by (simp add: demand_def durable_fits_def store_body_complete)
qed

text \<open>
  C19: the store codec is exact.  \<open>decode_durable_state\<close> accepts a byte string exactly when it is the
  encoding of a durable state that fits (every identity within its domain, generations nonzero where they
  must be, no policy twice, every preference, stable state, timing and history entry owned by a policy of
  the store, counts and sizes within bounds; a revocation needs no policy of the store),
  and yields that state.  So whatever was saved and fits is recovered unchanged, each state has one
  encoding, and a file that was truncated, extended or altered anywhere is rejected unless it is itself
  the encoding of another state that fits.
\<close>

theorem store_codec_is_exact:
  "decode_durable_state bytes = Inr d \<longleftrightarrow> durable_fits d \<and> bytes = encode_durable_state d"
  by (rule store_exact)

end
