(* ===== verification/Recovery.thy ===== *)
theory Recovery
  imports Store_Image System
begin

text \<open>
  Saving and recovering the engine (\<^verbatim>\<open>src/fabric_api.cpp\<close>): what of the state is durable, how a durable
  state becomes the state of a new process, the results of \<open>save\<close>, \<open>load\<close> and \<open>decode_store\<close>, and the
  replacement of the store file (\<^verbatim>\<open>src/persistence.cpp\<close>, \<open>write_store_atomic\<close>) over the calls of
  \<^verbatim>\<open>std::filesystem\<close> it makes.  \<open>conservative\<close> is \<^verbatim>\<open>conservative_recovery\<close> of the engine's configuration,
  which the coordinator always sets; \<open>clock\<close> gives the readings of the clock by their number.
\<close>

section \<open>What is durable\<close>

definition durable_timing_of :: "ticks \<Rightarrow> policy_id \<Rightarrow> policy_record \<Rightarrow> durable_timing" where
  "durable_timing_of current p r =
    (let t = pc_timing r;
         hold = ti_hold_down_active t \<and> ti_hold_down_deadline t > current;
         cool = ti_cooldown_active t \<and> ti_cooldown_deadline t > current in
     \<lparr>dt_policy = p, dt_hold_down_active = hold,
      dt_hold_down_remaining = (if hold then ti_hold_down_deadline t - current else 0),
      dt_hold_down_policy_generation = ap_generation (pc_policy r),
      dt_hold_down_locked_path = ti_hold_down_locked_path t,
      dt_cooldown_active = cool, dt_cooldown_remaining = (if cool then ti_cooldown_deadline t - current else 0),
      dt_dampening_penalty = ti_dampening_penalty t,
      dt_dampening_decay_remaining = (if ti_dampening_last_decay t > current then ti_dampening_last_decay t - current else 0),
      dt_churn_ages = map (\<lambda>stamp. if current \<ge> stamp then current - stamp else 0) (ti_churn_commits t)\<rparr>)"

text \<open>The policies in the order of the map; the clock is read once for each.\<close>

definition build_durable :: "(nat \<Rightarrow> ticks) \<Rightarrow> state \<Rightarrow> durable_state" where
  "build_durable clock s =
    \<lparr>du_format_version = persistence_format_version, du_epoch = g_epoch s, du_authority_generation = g_authority_generation s,
     du_evidence_generation = g_evidence_generation s, du_evidence_watermark = g_evidence_watermark s,
     du_upstream_watermark = g_upstream_watermark s,
     du_policies = map (\<lambda>(p, r). pc_policy r) (g_policies s),
     du_revocations = map snd (g_revocations s),
     du_preferences = map (\<lambda>(p, r). \<lparr>dp_policy = p, dp_preference = pc_preference r\<rparr>) (g_policies s),
     du_stable_states = map (\<lambda>(p, r). \<lparr>db_policy = p, db_stable = pc_stable r\<rparr>) (g_policies s),
     du_timings = map (\<lambda>(i, p, r). durable_timing_of (clock i) p r) (enumerate 0 (g_policies s)),
     du_history = concat (map (\<lambda>(p, r). map (\<lambda>h. \<lparr>dh_policy = p, dh_record = h\<rparr>) (pc_history r)) (g_policies s))\<rparr>"

section \<open>What a durable state becomes\<close>

definition om_emplace :: "'k::linorder \<Rightarrow> 'v \<Rightarrow> ('k, 'v) omap \<Rightarrow> ('k, 'v) omap" where
  "om_emplace k v m = (if om_find m k = None then om_put k v m else m)"

definition on_policy :: "policy_id \<Rightarrow> (policy_record \<Rightarrow> policy_record) \<Rightarrow> state \<Rightarrow> state" where
  "on_policy p f s = (case om_find (g_policies s) p of None \<Rightarrow> s | Some r \<Rightarrow> put_policy p (f r) s)"

definition recovered_policy :: "bool \<Rightarrow> adaptive_policy \<Rightarrow> policy_record" where
  "recovered_policy conservative p =
    (let target = ps_target (ap_semantics p) in
     \<lparr>pc_policy = (if conservative \<and> \<not> policy_lifecycle_terminal (ap_lifecycle p) then p\<lparr>ap_lifecycle := PL_REVALIDATION_REQUIRED\<rparr> else p),
      pc_candidates = [],
      pc_preference = no_preference\<lparr>rp_route := pt_route target, rp_multipath_set := pt_multipath_set target,
        rp_adaptation_generation := gen_first, rp_transition_generation := gen_first\<rparr>,
      pc_stable = no_stable_state, pc_timing = no_timing, pc_history = [], pc_revocation = None\<rparr>)"

definition recover_policy :: "bool \<Rightarrow> adaptive_policy \<Rightarrow> state \<Rightarrow> state" where
  "recover_policy conservative p s =
    s\<lparr>g_policies := om_emplace (ap_id p) (recovered_policy conservative p) (g_policies s),
      g_policy_names := om_emplace (ap_name p) (ap_id p) (g_policy_names s)\<rparr>"

definition recovered_preference :: "routing_preference \<Rightarrow> routing_preference" where
  "recovered_preference p = p\<lparr>rp_provenance := (rp_provenance p)\<lparr>av_cause := AC_RECOVERED\<rparr>\<rparr>"

definition recover_preference :: "durable_preference \<Rightarrow> state \<Rightarrow> state" where
  "recover_preference d = on_policy (dp_policy d) (\<lambda>r. r\<lparr>pc_preference := recovered_preference (dp_preference d)\<rparr>)"

definition recover_stable :: "durable_stable \<Rightarrow> state \<Rightarrow> state" where
  "recover_stable d = on_policy (db_policy d) (\<lambda>r. r\<lparr>pc_stable := db_stable d\<rparr>)"

definition rearmed :: "ticks \<Rightarrow> durable_timing \<Rightarrow> timing_state \<Rightarrow> timing_state" where
  "rearmed current d t = t\<lparr>ti_hold_down_active := dt_hold_down_active d, ti_hold_down_deadline := current + dt_hold_down_remaining d,
     ti_hold_down_locked_path := dt_hold_down_locked_path d, ti_cooldown_active := dt_cooldown_active d,
     ti_cooldown_deadline := current + dt_cooldown_remaining d, ti_dampening_penalty := dt_dampening_penalty d,
     ti_dampening_last_decay := current + dt_dampening_decay_remaining d,
     ti_churn_commits := ti_churn_commits t @ map (\<lambda>age. if current \<ge> age then current - age else 0) (dt_churn_ages d)\<rparr>"

definition recover_timing :: "ticks \<Rightarrow> durable_timing \<Rightarrow> state \<Rightarrow> state" where
  "recover_timing current d = on_policy (dt_policy d) (\<lambda>r. r\<lparr>pc_timing := rearmed current d (pc_timing r)\<rparr>)"

definition recover_revocation :: "revocation_record \<Rightarrow> state \<Rightarrow> state" where
  "recover_revocation v s =
    (case om_find (g_policies s) (rv_policy v) of
       None \<Rightarrow> s
     | Some r \<Rightarrow> (put_policy (rv_policy v) (r\<lparr>pc_revocation := Some v\<rparr>) s)\<lparr>g_revocations := om_emplace (rv_policy v) v (g_revocations s)\<rparr>)"

definition recovered_decision :: "durable_history_entry \<Rightarrow> adaptation_decision" where
  "recovered_decision d = (let h = dh_record d in
     no_decision\<lparr>dn_id := hr_decision h, dn_policy := dh_policy d, dn_lifecycle := hr_lifecycle h, dn_outcome := hr_outcome h,
       dn_suppression := hr_suppression h, dn_cause := hr_cause h, dn_current_preference := hr_from_path h,
       dn_target_preference := hr_to_path h, dn_adaptation_generation := hr_adaptation_generation h,
       dn_evidence_generation := hr_evidence_generation h, dn_epoch := hr_epoch h, dn_committed_at := hr_committed_at h,
       dn_digest := hr_digest h, dn_provenance := no_provenance\<lparr>av_cause := AC_RECOVERED\<rparr>\<rparr>)"

definition recover_history :: "limits \<Rightarrow> durable_history_entry \<Rightarrow> state \<Rightarrow> state" where
  "recover_history l d s =
    (let s1 = on_policy (dh_policy d) (\<lambda>r. prune_history l (r\<lparr>pc_history := pc_history r @ [dh_record d]\<rparr>)) s in
     s1\<lparr>g_decision_journal := g_decision_journal s1 @ [recovered_decision d]\<rparr>)"

definition unindexed_state :: "limits \<Rightarrow> bool \<Rightarrow> ticks \<Rightarrow> coordinator_epoch \<Rightarrow> adaptive_authority_generation \<Rightarrow> durable_state \<Rightarrow> state" where
  "unindexed_state l conservative current epoch authority d =
    (let s0 = initial_state\<lparr>g_epoch := epoch, g_authority_generation := authority, g_evidence_generation := du_evidence_generation d,
                g_evidence_watermark := du_evidence_watermark d, g_upstream_watermark := du_upstream_watermark d\<rparr>;
         s1 = fold (recover_policy conservative) (du_policies d) s0;
         s2 = fold recover_preference (du_preferences d) s1;
         s3 = fold recover_stable (du_stable_states d) s2;
         s4 = fold (recover_timing current) (du_timings d) s3;
         s5 = fold recover_revocation (du_revocations d) s4;
         s6 = fold (recover_history l) (du_history d) s5
     in s6\<lparr>g_decision_journal := fifo_trim (unat (lim_max_decision_history l)) (g_decision_journal s6)\<rparr>)"

definition recovered_state :: "limits \<Rightarrow> bool \<Rightarrow> ticks \<Rightarrow> coordinator_epoch \<Rightarrow> adaptive_authority_generation \<Rightarrow> durable_state \<Rightarrow> state" where
  "recovered_state l conservative current epoch authority d =
    (let s = unindexed_state l conservative current epoch authority d
     in fold (\<lambda>entry. reindex_policy l (fst entry)) (g_policies s) s)"

definition apply_durable :: "bool \<Rightarrow> ticks \<Rightarrow> durable_state \<Rightarrow> string \<Rightarrow> engine \<Rightarrow> engine \<times> operation_result" where
  "apply_durable conservative current d origin e =
    (let l = en_limits e; s = en_state e in
     if du_format_version d \<noteq> persistence_format_version then
       (e, make_result Out_UNSUPPORTED_VERSION ''durable state carries an unsupported format'' no_id s)
     else if length (du_policies d) > unat (lim_max_policies l) \<or> length (du_revocations d) > unat (lim_max_revocations l)
             \<or> length (du_history d) > unat (lim_max_decision_history l) then
       (e, make_result Out_RESOURCE_LIMIT ''durable state exceeds a configured resource limit'' no_id s)
     else case (gen_next (du_epoch d), gen_next (du_authority_generation d)) of
       (Some epoch, Some authority) \<Rightarrow>
         let s' = recovered_state l conservative current epoch authority d;
             c = en_counters e
         in (e\<lparr>en_state := s', en_counters := c\<lparr>fb_recoveries := fb_recoveries c + 1, fb_epoch := g_epoch s',
                 fb_authority_generation := g_authority_generation s', fb_evidence_generation := g_evidence_generation s'\<rparr>\<rparr>,
             make_result Out_POLICY_UPDATED (''recovered '' @ dec (length (g_policies s')) @ '' policy record(s) from '' @ origin
               @ ''; epoch is now '' @ gen_text (g_epoch s') @ '' and every recovered policy requires revalidation'') no_id s')
     | _ \<Rightarrow> (e, make_result Out_GENERATION_OVERFLOW ''durable epoch or authority generation is exhausted'' no_id s))"

section \<open>The operations\<close>

definition encode_store :: "(nat \<Rightarrow> ticks) \<Rightarrow> engine \<Rightarrow> string" where
  "encode_store clock e = encode_durable_state (build_durable clock (en_state e))"

definition decode_store :: "bool \<Rightarrow> ticks \<Rightarrow> string \<Rightarrow> string \<Rightarrow> engine \<Rightarrow> engine \<times> operation_result" where
  "decode_store conservative current bytes origin e =
    (case decode_durable_state bytes of
       Inl (status, detail) \<Rightarrow> (e, make_result Out_CORRUPT_STORE (''store rejected: '' @ store_status_to_string status
         @ (if detail = [] then [] else '' ('' @ detail @ '')'')) no_id (en_state e))
     | Inr d \<Rightarrow> apply_durable conservative current d origin e)"

text \<open>The result of writing the file is an argument: nothing, or the error.\<close>

definition save :: "(nat \<Rightarrow> ticks) \<Rightarrow> (string \<Rightarrow> string option) \<Rightarrow> engine \<Rightarrow> operation_result" where
  "save clock write e =
    (let bytes = encode_store clock e; s = en_state e in
     if length bytes > unat (lim_max_store_bytes (en_limits e)) then
       make_result Out_RESOURCE_LIMIT ''durable state exceeds the configured store bound'' no_id s
     else case write bytes of
       Some error \<Rightarrow> make_result Out_INTERNAL_ERROR (''store could not be written: '' @ error) no_id s
     | None \<Rightarrow> (make_result Out_POLICY_UPDATED (''store written: '' @ dec (length bytes) @ '' byte(s)'') no_id s)\<lparr>or_mutated := True\<rparr>)"

definition load :: "bool \<Rightarrow> ticks \<Rightarrow> bool \<Rightarrow> string + string \<Rightarrow> string \<Rightarrow> engine \<Rightarrow> engine \<times> operation_result" where
  "load conservative current exists read path e =
    (if \<not> exists then (e, make_result Out_NOT_FOUND ''store does not exist'' no_id (en_state e))
     else case read of
       Inl error \<Rightarrow> (e, make_result Out_CORRUPT_STORE (''store could not be read: '' @ error) no_id (en_state e))
     | Inr bytes \<Rightarrow> decode_store conservative current bytes path e)"

definition stats_render :: "fabric_stats \<Rightarrow> string" where
  "stats_render b = ''policies='' @ dec (unat (fb_policies b)) @ '' adaptable='' @ dec (unat (fb_adaptable_policies b))
     @ '' revoked='' @ dec (unat (fb_revoked_policies b)) @ '' retired='' @ dec (unat (fb_retired_policies b))
     @ '' candidates='' @ dec (unat (fb_candidates b)) @ '' evidence_series='' @ dec (unat (fb_evidence_series b))
     @ '' evidence_samples='' @ dec (unat (fb_evidence_samples b)) @ '' committed='' @ dec (unat (fb_decisions_committed b))
     @ '' suppressed='' @ dec (unat (fb_decisions_suppressed b)) @ '' rejected='' @ dec (unat (fb_decisions_rejected b))
     @ '' evaluations='' @ dec (unat (fb_evaluations b))
     @ '' stale_commit_rejections='' @ dec (unat (fb_stale_commit_rejections b))
     @ '' idempotent_replays='' @ dec (unat (fb_idempotent_replays b)) @ '' attempt_conflicts='' @ dec (unat (fb_attempt_conflicts b))
     @ '' publishers='' @ dec (unat (fb_publishers b)) @ '' fenced_workers='' @ dec (unat (fb_fenced_workers b))
     @ '' revocations='' @ dec (unat (fb_revocations b)) @ '' recoveries='' @ dec (unat (fb_recoveries b))
     @ '' epoch='' @ gen_text (fb_epoch b) @ '' authority='' @ gen_text (fb_authority_generation b)
     @ '' evidence_generation='' @ gen_text (fb_evidence_generation b)"

section \<open>Replacing the file\<close>

text \<open>
  The two files and the outcomes of the calls, in the order the code makes them.  A failed call leaves the
  files as they were, except a failed write, which leaves what it has written.  The states the operation
  passes through are recorded in \<open>trace\<close>: a crash leaves one of them.
\<close>

record store_files =
  sf_store :: "string option"
  sf_temporary :: "string option"

record file_calls =
  fc_open :: bool
  fc_write :: bool
  fc_written :: string
  fc_rename :: bool
  fc_remove :: bool
  fc_rename_again :: bool
  fc_remove_temporary :: bool

definition discard_temporary :: "file_calls \<Rightarrow> store_files \<Rightarrow> store_files" where
  "discard_temporary c f = (if fc_remove_temporary c then f\<lparr>sf_temporary := None\<rparr> else f)"

definition write_store_atomic :: "file_calls \<Rightarrow> string \<Rightarrow> store_files \<Rightarrow> store_files list \<times> string option" where
  "write_store_atomic c bytes f0 =
    (if \<not> fc_open c then ([f0], Some ''could not open the temporary store for writing'')
     else let f1 = f0\<lparr>sf_temporary := Some []\<rparr> in
     if \<not> fc_write c then
       let f2 = f1\<lparr>sf_temporary := Some (fc_written c)\<rparr>
       in ([f0, f1, f2, discard_temporary c f2], Some ''could not write the temporary store'')
     else let f2 = f1\<lparr>sf_temporary := Some bytes\<rparr>; moved = \<lparr>sf_store = Some bytes, sf_temporary = None\<rparr> in
     if fc_rename c then ([f0, f1, f2, moved], None)
     else let f3 = (if fc_remove c then f2\<lparr>sf_store := None\<rparr> else f2) in
     if fc_rename_again c then ([f0, f1, f2, f3, moved], None)
     else ([f0, f1, f2, f3, discard_temporary c f3], Some ''could not replace the store''))"

end
