(* ===== verification/Recovery_Guarantees.thy ===== *)
theory Recovery_Guarantees
  imports Recovery Session_Guarantees Measured
begin

text \<open>
  What survives a restart (\<^verbatim>\<open>src/fabric_api.cpp\<close>, \<^verbatim>\<open>src/persistence.cpp\<close>): the intent of every policy, and no
  authority at all.
\<close>

section \<open>Recovery record by record\<close>

lemma on_policy_find:
  "om_find (g_policies (on_policy p f s)) q = (if q = p then map_option f (om_find (g_policies s) q) else om_find (g_policies s) q)"
  by (auto simp: on_policy_def put_policy_def om_find_put split: option.splits)

text \<open>A loop whose turns each edit one policy edits every policy by the entries that name it, in order.\<close>

lemma fold_find:
  assumes "\<And>d s. g_policies (h d s) = g_policies (on_policy (key d) (f d) s)"
  shows "om_find (g_policies (fold h ds s)) p = map_option (fold f (filter (\<lambda>d. key d = p) ds)) (om_find (g_policies s) p)"
proof (induction ds arbitrary: s)
  case Nil
  show ?case by (cases "om_find (g_policies s) p") simp_all
next
  case (Cons d ds)
  show ?case by (auto simp: Cons assms on_policy_find option.map_comp comp_def)
qed

lemma fold_om_ok:
  assumes "\<And>d s. g_policies (h d s) = g_policies (on_policy (key d) (f d) s)" and "om_ok (g_policies s)"
  shows "om_ok (g_policies (fold h ds s))"
  using assms(2)
  by (induction ds arbitrary: s) (auto simp: assms(1) on_policy_def put_policy_def om_ok_put split: option.splits)

lemma recover_policies:
  "g_policies (recover_preference d s) = g_policies (on_policy (dp_policy d) (\<lambda>r. r\<lparr>pc_preference := recovered_preference (dp_preference d)\<rparr>) s)"
  "g_policies (recover_stable b s) = g_policies (on_policy (db_policy b) (\<lambda>r. r\<lparr>pc_stable := db_stable b\<rparr>) s)"
  "g_policies (recover_timing current t s) = g_policies (on_policy (dt_policy t) (\<lambda>r. r\<lparr>pc_timing := rearmed current t (pc_timing r)\<rparr>) s)"
  "g_policies (recover_revocation v s) = g_policies (on_policy (rv_policy v) (\<lambda>r. r\<lparr>pc_revocation := Some v\<rparr>) s)"
  "g_policies (recover_history l h s) = g_policies (on_policy (dh_policy h)
     (\<lambda>r. prune_history l (r\<lparr>pc_history := pc_history r @ [dh_record h]\<rparr>)) s)"
  by (auto simp: recover_preference_def recover_stable_def recover_timing_def recover_revocation_def recover_history_def on_policy_def
      Let_def split: option.splits)

lemma recover_policy_find:
  "om_find (g_policies (fold (recover_policy c) ps s)) p =
     (case om_find (g_policies s) p of Some r \<Rightarrow> Some r | None \<Rightarrow> map_option (recovered_policy c) (owner_of ps p))"
  by (induction ps arbitrary: s) (auto simp: recover_policy_def om_emplace_def om_find_put owner_of_def split: option.splits)

lemma recover_policy_om_ok: "om_ok (g_policies s) \<Longrightarrow> om_ok (g_policies (fold (recover_policy c) ps s))"
  by (induction ps arbitrary: s) (auto simp: recover_policy_def om_emplace_def om_ok_put)

lemma reindex_fold: "g_policies (fold (\<lambda>entry. reindex_policy l (fst entry)) es s) = g_policies s"
  by (induction es arbitrary: s) simp_all

text \<open>The record of a policy after recovery, from what the store says of it.\<close>

definition record_from :: "limits \<Rightarrow> bool \<Rightarrow> ticks \<Rightarrow> durable_state \<Rightarrow> policy_id \<Rightarrow> policy_record \<Rightarrow> policy_record" where
  "record_from l c current d p r0 =
    fold (\<lambda>h r. prune_history l (r\<lparr>pc_history := pc_history r @ [dh_record h]\<rparr>)) (filter (\<lambda>h. dh_policy h = p) (du_history d))
      (fold (\<lambda>v r. r\<lparr>pc_revocation := Some v\<rparr>) (filter (\<lambda>v. rv_policy v = p) (du_revocations d))
        (fold (\<lambda>t r. r\<lparr>pc_timing := rearmed current t (pc_timing r)\<rparr>) (filter (\<lambda>t. dt_policy t = p) (du_timings d))
          (fold (\<lambda>b r. r\<lparr>pc_stable := db_stable b\<rparr>) (filter (\<lambda>b. db_policy b = p) (du_stable_states d))
            (fold (\<lambda>q r. r\<lparr>pc_preference := recovered_preference (dp_preference q)\<rparr>) (filter (\<lambda>q. dp_policy q = p) (du_preferences d)) r0))))"

lemma recovered_find:
  "om_find (g_policies (recovered_state l c current epoch authority d)) p =
     map_option (\<lambda>q. record_from l c current d p (recovered_policy c q)) (owner_of (du_policies d) p)"
  unfolding recovered_state_def unindexed_state_def Let_def reindex_fold record_from_def
  by (simp add: fold_find[where key = dh_policy, OF recover_policies(5)] fold_find[where key = rv_policy, OF recover_policies(4)]
      fold_find[where key = dt_policy, OF recover_policies(3)] fold_find[where key = db_policy, OF recover_policies(2)]
      fold_find[where key = dp_policy, OF recover_policies(1)] recover_policy_find initial_state_def option.map_comp comp_def)

lemma recovered_om_ok: "om_ok (g_policies (recovered_state l c current epoch authority d))"
  unfolding recovered_state_def unindexed_state_def Let_def reindex_fold
  by (simp add: fold_om_ok[where key = dh_policy, OF recover_policies(5)] fold_om_ok[where key = rv_policy, OF recover_policies(4)]
      fold_om_ok[where key = dt_policy, OF recover_policies(3)] fold_om_ok[where key = db_policy, OF recover_policies(2)]
      fold_om_ok[where key = dp_policy, OF recover_policies(1)] recover_policy_om_ok initial_state_def)

text \<open>What the loops leave alone.\<close>

definition carried :: "state \<Rightarrow> coordinator_epoch \<times> adaptive_authority_generation \<times> evidence_generation \<times> watermark \<times> watermark
    \<times> (publisher_id, publisher_registration) omap \<times> worker_boot_id oset \<times> fence_record list \<times> (evidence_key, evidence_series) omap
    \<times> (mutation_attempt_id, attempt_record) omap \<times> mutation_attempt_id list" where
  "carried s = (g_epoch s, g_authority_generation s, g_evidence_generation s, g_evidence_watermark s, g_upstream_watermark s,
     g_registrations s, g_fenced_boots s, g_fences s, g_evidence s, g_attempts s, g_attempt_order s)"

lemma fold_keeps: "(\<And>d s. F (h d s) = F s) \<Longrightarrow> F (fold h ds s) = F s"
  by (induction ds arbitrary: s) simp_all

lemma on_policy_carried: "carried (on_policy p f s) = carried s" "g_by_path (on_policy p f s) = g_by_path s" "g_revocations (on_policy p f s) = g_revocations s"
  by (auto simp: carried_def on_policy_def put_policy_def split: option.splits)

lemma recover_carried:
  "carried (recover_policy c q s) = carried s" "carried (recover_preference d s) = carried s" "carried (recover_stable b s) = carried s"
  "carried (recover_timing current t s) = carried s" "carried (recover_revocation v s) = carried s" "carried (recover_history l h s) = carried s"
  "carried (reindex_policy l p s) = carried s"
  using on_policy_carried(1)
  by (auto simp: recover_policy_def recover_preference_def recover_stable_def recover_timing_def recover_revocation_def
      recover_history_def Let_def carried_def put_policy_def split: option.splits)

lemma recovered_carried:
  "carried (recovered_state l c current epoch authority d) =
     (epoch, authority, du_evidence_generation d, du_evidence_watermark d, du_upstream_watermark d, [], [], [], [], [], [])"
proof -
  have "carried (s\<lparr>g_decision_journal := j\<rparr>) = carried s" for s j by (simp add: carried_def)
  then show ?thesis
    unfolding recovered_state_def unindexed_state_def Let_def
    by (simp add: fold_keeps[where F = carried, OF recover_carried(1)] fold_keeps[where F = carried, OF recover_carried(2)]
        fold_keeps[where F = carried, OF recover_carried(3)] fold_keeps[where F = carried, OF recover_carried(4)]
        fold_keeps[where F = carried, OF recover_carried(5)] fold_keeps[where F = carried, OF recover_carried(6)]
        fold_keeps[where F = carried, OF recover_carried(7)]) (simp add: carried_def initial_state_def)
qed

section \<open>The recovered engine is well-formed\<close>

lemma record_from_core:
  "pc_policy (record_from l c current d p r) = pc_policy r" "pc_candidates (record_from l c current d p r) = pc_candidates r"
  unfolding record_from_def
  by (simp_all add: fold_keeps[where F = pc_policy] fold_keeps[where F = pc_candidates] prune_history_def)

lemma pruned_history:
  "length (pc_history r) \<le> n \<Longrightarrow> n = unat (lim_max_history_per_policy l) \<Longrightarrow>
   length (pc_history (fold (\<lambda>h r. prune_history l (r\<lparr>pc_history := pc_history r @ [dh_record h]\<rparr>)) hs r)) \<le> n"
  by (induction hs arbitrary: r) (simp_all add: prune_history_def fifo_trim_drop)

lemma record_from_history: "pc_history r = [] \<Longrightarrow> length (pc_history (record_from l c current d p r)) \<le> unat (lim_max_history_per_policy l)"
  unfolding record_from_def by (rule pruned_history) (simp_all add: fold_keeps[where F = pc_history])

lemma recovered_revocation:
  "om_find (g_revocations (fold recover_revocation vs s)) p =
     (case om_find (g_revocations s) p of
        Some v \<Rightarrow> Some v
      | None \<Rightarrow> if om_find (g_policies s) p = None then None else List.find (\<lambda>v. rv_policy v = p) vs)"
proof (induction vs arbitrary: s)
  case (Cons v vs)
  show ?case
    unfolding fold_Cons o_apply Cons
    by (auto simp: recover_revocation_def om_emplace_def put_policy_def om_find_put split: option.splits)
qed (auto split: option.splits)

lemma revocation_om_ok: "om_ok (g_revocations s) \<Longrightarrow> om_ok (g_revocations (fold recover_revocation vs s))"
  by (induction vs arbitrary: s) (auto simp: recover_revocation_def om_emplace_def put_policy_def om_ok_put split: option.splits)

definition durable_consistent :: "durable_state \<Rightarrow> bool" where
  "durable_consistent d \<longleftrightarrow> (\<forall>v \<in> set (du_revocations d). \<forall>q \<in> set (du_policies d). ap_id q = rv_policy v \<longrightarrow> ap_lifecycle q = PL_REVOKED)"

lemma owner_of_Some: "owner_of ps p = Some q \<Longrightarrow> q \<in> set ps \<and> ap_id q = p"
  by (auto simp: owner_of_def find_Some_iff)

lemma recovered_policy_fields [simp]:
  "ap_id (pc_policy (recovered_policy c q)) = ap_id q" "ap_semantics (pc_policy (recovered_policy c q)) = ap_semantics q"
  "ap_scope (pc_policy (recovered_policy c q)) = ap_scope q" "pc_candidates (recovered_policy c q) = []"
  "pc_history (recovered_policy c q) = []"
  "policy_lifecycle_terminal (ap_lifecycle q) \<Longrightarrow> ap_lifecycle (pc_policy (recovered_policy c q)) = ap_lifecycle q"
  by (simp_all add: recovered_policy_def Let_def)

lemma unindexed_policies: "g_policies (unindexed_state l c current epoch authority d) = g_policies (recovered_state l c current epoch authority d)"
  by (simp add: recovered_state_def Let_def reindex_fold)

lemma recover_indexes:
  "g_revocations (recover_policy c q s) = g_revocations s" "g_revocations (recover_preference x s) = g_revocations s"
  "g_revocations (recover_stable b s) = g_revocations s" "g_revocations (recover_timing current t s) = g_revocations s"
  "g_revocations (recover_history l h s) = g_revocations s"
  "g_by_path (recover_policy c q s) = g_by_path s" "g_by_path (recover_preference x s) = g_by_path s"
  "g_by_path (recover_stable b s) = g_by_path s" "g_by_path (recover_timing current t s) = g_by_path s"
  "g_by_path (recover_history l h s) = g_by_path s" "g_by_path (recover_revocation v s) = g_by_path s"
  by (auto simp: recover_policy_def recover_preference_def recover_stable_def recover_timing_def recover_history_def
      recover_revocation_def Let_def on_policy_carried put_policy_def split: option.splits)

lemma unindexed_by_path: "g_by_path (unindexed_state l c current epoch authority d) = []"
  unfolding unindexed_state_def Let_def
  by (simp add: fold_keeps[where F = g_by_path] recover_indexes initial_state_def)

lemma unindexed_revocations:
  "om_ok (g_revocations (unindexed_state l c current epoch authority d))"
  "om_find (g_revocations (unindexed_state l c current epoch authority d)) p =
     (if owner_of (du_policies d) p = None then None else List.find (\<lambda>v. rv_policy v = p) (du_revocations d))"
proof -
  let ?s0 = "initial_state\<lparr>g_epoch := epoch, g_authority_generation := authority, g_evidence_generation := du_evidence_generation d,
                g_evidence_watermark := du_evidence_watermark d, g_upstream_watermark := du_upstream_watermark d\<rparr>"
  let ?s4 = "fold (recover_timing current) (du_timings d) (fold recover_stable (du_stable_states d)
      (fold recover_preference (du_preferences d) (fold (recover_policy c) (du_policies d) ?s0)))"
  have r: "g_revocations (unindexed_state l c current epoch authority d) = g_revocations (fold recover_revocation (du_revocations d) ?s4)"
    unfolding unindexed_state_def Let_def by (simp add: fold_keeps[where F = g_revocations] recover_indexes)
  have empty: "g_revocations ?s4 = []"
    by (simp add: fold_keeps[where F = g_revocations] recover_indexes initial_state_def)
  have dom: "om_find (g_policies ?s4) p = None \<longleftrightarrow> owner_of (du_policies d) p = None"
    by (simp add: fold_find[where key = dt_policy, OF recover_policies(3)] fold_find[where key = db_policy, OF recover_policies(2)]
        fold_find[where key = dp_policy, OF recover_policies(1)] recover_policy_find initial_state_def)
  show "om_ok (g_revocations (unindexed_state l c current epoch authority d))"
    unfolding r by (rule revocation_om_ok) (simp only: empty om_ok_Nil)
  show "om_find (g_revocations (unindexed_state l c current epoch authority d)) p =
     (if owner_of (du_policies d) p = None then None else List.find (\<lambda>v. rv_policy v = p) (du_revocations d))"
    unfolding r recovered_revocation empty dom by simp
qed

lemma reindex_state_ok: "state_ok l s \<Longrightarrow> state_ok l (fold (\<lambda>entry. reindex_policy l (fst entry)) es s)"
  by (induction es arbitrary: s) (simp_all add: reindex_policy_contract)

lemma recovered_state_ok:
  assumes "\<forall>q \<in> set (du_policies d). ps_valid (ap_semantics q) = None \<and> sc_well_formed (ap_scope q)" and "durable_consistent d"
  shows "state_ok l (recovered_state l c current epoch authority d)"
proof -
  let ?s = "unindexed_state l c current epoch authority d"
  have find: "om_find (g_policies ?s) p = map_option (\<lambda>q. record_from l c current d p (recovered_policy c q)) (owner_of (du_policies d) p)" for p
    unfolding unindexed_policies by (rule recovered_find)
  have carried: "carried ?s = carried (recovered_state l c current epoch authority d)"
    by (simp add: recovered_state_def Let_def fold_keeps[where F = carried] recover_carried(7))
  have "policies_ok l (g_policies ?s)"
    using assms(1) recovered_om_ok unfolding policies_ok_def find
    by (auto simp: unindexed_policies policy_record_ok_def record_from_core record_from_history candidates_ok_def dest: owner_of_Some)
  moreover have "revocations_ok ?s"
    unfolding revocations_ok_def unindexed_revocations(2) find
  proof (intro conjI allI impI)
    fix p v
    assume v: "(if owner_of (du_policies d) p = None then None else List.find (\<lambda>v. rv_policy v = p) (du_revocations d)) = Some v"
    then obtain q where q: "owner_of (du_policies d) p = Some q" "v \<in> set (du_revocations d)" "rv_policy v = p"
      by (auto simp: find_Some_iff split: if_splits)
    then have "ap_lifecycle q = PL_REVOKED" using assms(2) owner_of_Some[OF q(1)] by (auto simp: durable_consistent_def)
    then show "\<exists>r. map_option (\<lambda>q. record_from l c current d p (recovered_policy c q)) (owner_of (du_policies d) p) = Some r
        \<and> ap_lifecycle (pc_policy r) = PL_REVOKED"
      by (simp add: q(1) record_from_core policy_lifecycle_terminal_def)
    show "rv_policy v = p" by (rule q(3))
  qed (rule unindexed_revocations(1))
  moreover have "index_ok (binds_path (g_policies ?s)) (g_by_path ?s)"
    by (simp add: unindexed_by_path index_ok_def index_wf_def index_has_def)
  ultimately have "state_ok l ?s"
    using carried unfolding recovered_carried
    by (simp add: state_ok_def carried_def registrations_ok_def table_ok_def evidence_ok_def)
  then show ?thesis by (simp add: recovered_state_def Let_def reindex_state_ok)
qed

section \<open>What was saved comes back\<close>

definition as_stored :: "durable_state \<Rightarrow> durable_state" where
  "as_stored d = d\<lparr>du_history := map (\<lambda>h. h\<lparr>dh_record := (dh_record h)\<lparr>hr_committed_at := 0\<rparr>\<rparr>) (du_history d)\<rparr>"

lemma encode_as_stored: "encode_durable_state (as_stored d) = encode_durable_state d"
  by (simp add: encode_durable_state_def store_body_def as_stored_def put_records_def put_vector_def comp_def
      encode_history_record_def Let_def)

lemma keyed_filter:
  assumes "om_ok m" and "\<And>k v. key (mk k v) = k"
  shows "filter (\<lambda>d. key d = p) (map (\<lambda>(k, v). mk k v) m) = (case om_find m p of None \<Rightarrow> [] | Some v \<Rightarrow> [mk p v])"
  using assms(1)
proof (induction m)
  case (Cons x m)
  obtain k v where x: "x = (k, v)" by (cases x)
  have "om_find m k = None" using Cons.prems om_find_none[of k m] by (auto simp: x)
  then show ?case using Cons by (auto simp: x assms(2))
qed simp

lemma timing_filter:
  assumes "om_ok m" and "om_find m p = Some r"
  shows "\<exists>i. filter (\<lambda>d. dt_policy d = p) (map (\<lambda>(i, p, r). durable_timing_of (clock i) p r) (enumerate n m)) = [durable_timing_of (clock i) p r]"
  using assms
proof (induction m arbitrary: n)
  case (Cons x m)
  obtain k v where x: "x = (k, v)" by (cases x)
  have key: "dt_policy (durable_timing_of t q y) = q" for t q y by (simp add: durable_timing_of_def Let_def)
  have none: "filter (\<lambda>d. dt_policy d = q) (map (\<lambda>(i, p, r). durable_timing_of (clock i) p r) (enumerate j es)) = []"
    if "q \<notin> fst ` set es" for q j es
    using that by (induction es arbitrary: j) (auto simp: key)
  show ?case
  proof (cases "p = k")
    case True
    then have "k \<notin> fst ` set m" using Cons.prems(1) by (auto simp: x)
    then show ?thesis using Cons.prems(2) True none by (auto simp: x key)
  next
    case False
    then show ?thesis using Cons by (simp add: x key)
  qed
qed simp

lemma history_filter:
  assumes "om_ok m"
  shows "filter (\<lambda>h. dh_policy h = p) (concat (map (\<lambda>(p, r). map (\<lambda>h. \<lparr>dh_policy = p, dh_record = h\<rparr>) (pc_history r)) m))
    = (case om_find m p of None \<Rightarrow> [] | Some r \<Rightarrow> map (\<lambda>h. \<lparr>dh_policy = p, dh_record = h\<rparr>) (pc_history r))"
  using assms
proof (induction m)
  case (Cons x m)
  obtain k v where x: "x = (k, v)" by (cases x)
  have "om_find m k = None" using Cons.prems om_find_none[of k m] by (auto simp: x)
  then show ?case using Cons by (auto simp: x filter_map comp_def)
qed simp

lemma owner_of_saved:
  assumes "policies_ok l m"
  shows "owner_of (map (\<lambda>(p, r). pc_policy r) m) p = map_option pc_policy (om_find m p)"
proof -
  have "\<forall>(k, r) \<in> set m. ap_id (pc_policy r) = k"
    using assms om_in_set_find by (fastforce simp: policies_ok_def policy_record_ok_def)
  then show ?thesis
    by (induction m) (auto simp: owner_of_def)
qed

lemma revocation_filter:
  assumes "revocations_ok s"
  shows "filter (\<lambda>v. rv_policy v = p) (map snd (g_revocations s)) = (case om_find (g_revocations s) p of None \<Rightarrow> [] | Some v \<Rightarrow> [v])"
proof -
  have key: "\<forall>(k, v) \<in> set (g_revocations s). rv_policy v = k" and ok: "om_ok (g_revocations s)"
    using assms om_in_set_find by (fastforce simp: revocations_ok_def)+
  have "filter (\<lambda>v. rv_policy v = p) (map snd (g_revocations s)) = map snd (filter (\<lambda>d. fst d = p) (g_revocations s))"
    using key by (induction "g_revocations s") (auto simp: filter_map intro!: arg_cong[of _ _ "map snd"] filter_cong)
  also have "filter (\<lambda>d. fst d = p) (g_revocations s) = (case om_find (g_revocations s) p of None \<Rightarrow> [] | Some v \<Rightarrow> [(p, v)])"
    using keyed_filter[OF ok, of fst "\<lambda>k v. (k, v)" p] by simp
  finally show ?thesis by (auto split: option.splits)
qed

lemma appended_history:
  assumes "length (pc_history r) + length hs \<le> unat (lim_max_history_per_policy l)"
  shows "fold (\<lambda>h r. prune_history l (r\<lparr>pc_history := pc_history r @ [dh_record h]\<rparr>)) hs r = r\<lparr>pc_history := pc_history r @ map dh_record hs\<rparr>"
  using assms by (induction hs arbitrary: r) (simp_all add: prune_history_def fifo_trim_drop)

text \<open>The record of a policy after a restart, from the record that was saved at the reading \<open>saved_at\<close>.\<close>

definition restarted_record :: "ticks \<Rightarrow> ticks \<Rightarrow> revocation_record option \<Rightarrow> policy_id \<Rightarrow> policy_record \<Rightarrow> policy_record" where
  "restarted_record saved_at current v p r =
    \<lparr>pc_policy = (if policy_lifecycle_terminal (ap_lifecycle (pc_policy r)) then pc_policy r
       else (pc_policy r)\<lparr>ap_lifecycle := PL_REVALIDATION_REQUIRED\<rparr>),
     pc_candidates = [], pc_preference = recovered_preference (pc_preference r), pc_stable = pc_stable r,
     pc_timing = rearmed current (durable_timing_of saved_at p r) no_timing,
     pc_history = map (\<lambda>h. h\<lparr>hr_committed_at := 0\<rparr>) (pc_history r), pc_revocation = v\<rparr>"

lemma record_from_saved:
  assumes "state_ok l s" and "om_find (g_policies s) p = Some r"
  shows "\<exists>i. record_from l True current (as_stored (build_durable clock s)) p (recovered_policy True (pc_policy r))
      = restarted_record (clock i) current (om_find (g_revocations s) p) p r"
proof -
  let ?d = "as_stored (build_durable clock s)"
  have ok: "policies_ok l (g_policies s)" "om_ok (g_policies s)" "revocations_ok s"
    using assms(1) by (auto simp: state_ok_def policies_ok_def)
  obtain i where t: "filter (\<lambda>t. dt_policy t = p) (du_timings ?d) = [durable_timing_of (clock i) p r]"
    using timing_filter[OF ok(2) assms(2), of clock 0] by (auto simp: as_stored_def build_durable_def)
  have q: "filter (\<lambda>q. dp_policy q = p) (du_preferences ?d) = [\<lparr>dp_policy = p, dp_preference = pc_preference r\<rparr>]"
    using keyed_filter[OF ok(2), of dp_policy "\<lambda>p r. \<lparr>dp_policy = p, dp_preference = pc_preference r\<rparr>" p] assms(2)
    by (simp add: as_stored_def build_durable_def)
  have b: "filter (\<lambda>b. db_policy b = p) (du_stable_states ?d) = [\<lparr>db_policy = p, db_stable = pc_stable r\<rparr>]"
    using keyed_filter[OF ok(2), of db_policy "\<lambda>p r. \<lparr>db_policy = p, db_stable = pc_stable r\<rparr>" p] assms(2)
    by (simp add: as_stored_def build_durable_def)
  have v: "filter (\<lambda>v. rv_policy v = p) (du_revocations ?d) = (case om_find (g_revocations s) p of None \<Rightarrow> [] | Some v \<Rightarrow> [v])"
    using revocation_filter[OF ok(3)] by (simp add: as_stored_def build_durable_def)
  have h: "filter (\<lambda>h. dh_policy h = p) (du_history ?d)
      = map (\<lambda>h. \<lparr>dh_policy = p, dh_record = h\<lparr>hr_committed_at := 0\<rparr>\<rparr>) (pc_history r)"
    using history_filter[OF ok(2), of p] assms(2)
    by (simp add: as_stored_def build_durable_def filter_map comp_def)
  have short: "length (pc_history r) \<le> unat (lim_max_history_per_policy l)"
    using state_ok_record[OF assms] by (simp add: policy_record_ok_def)
  show ?thesis
    unfolding record_from_def t q b v h
    by (intro exI[of _ i], subst appended_history)
      (auto simp: short restarted_record_def recovered_policy_def Let_def comp_def split: option.splits)
qed

lemma decode_store_ends:
  obtains (refused) "fst (decode_store c now bytes origin e) = e" "\<not> or_ok (snd (decode_store c now bytes origin e))"
  | (recovered) d epoch authority counters where "decode_durable_state bytes = Inr d"
      "gen_next (du_epoch d) = Some epoch" "gen_next (du_authority_generation d) = Some authority"
      "fst (decode_store c now bytes origin e) = e\<lparr>en_state := recovered_state (en_limits e) c now epoch authority d, en_counters := counters\<rparr>"
      "or_ok (snd (decode_store c now bytes origin e))"
proof (cases "decode_durable_state bytes")
  case (Inl f)
  then show thesis by (intro refused) (auto simp: decode_store_def outcome_is_success_def split: prod.splits)
next
  case (Inr d)
  note unfolded = decode_store_def Inr apply_durable_def Let_def outcome_is_success_def
  show thesis
  proof (cases "du_format_version d \<noteq> persistence_format_version \<or> length (du_policies d) > unat (lim_max_policies (en_limits e))
      \<or> length (du_revocations d) > unat (lim_max_revocations (en_limits e)) \<or> length (du_history d) > unat (lim_max_decision_history (en_limits e))")
    case True
    then show thesis by (intro refused) (auto simp: unfolded)
  next
    case fits: False
    show thesis
    proof (cases "gen_next (du_epoch d)")
      case None
      then show thesis using fits by (intro refused) (simp_all add: unfolded)
    next
      case epoch: (Some epoch)
      show thesis
      proof (cases "gen_next (du_authority_generation d)")
        case None
        then show thesis using fits epoch by (intro refused) (simp_all add: unfolded)
      next
        case (Some authority)
        show thesis by (rule recovered[OF Inr epoch Some]) (use fits in \<open>simp_all add: unfolded epoch Some\<close>)
      qed
    qed
  qed
qed

lemma stored_policies_valid:
  assumes "decode_durable_state bytes = Inr d"
  shows "\<forall>q \<in> set (du_policies d). ps_valid (ap_semantics q) = None \<and> sc_well_formed (ap_scope q)"
  using assms store_exact
  by (auto simp: durable_fits_def body_ok_def records_ok_def policy_record_fits_def store_scope_fits_def)

lemma saved_consistent:
  assumes "state_ok l s"
  shows "durable_consistent (as_stored (build_durable clock s))"
proof -
  have "ap_lifecycle q = PL_REVOKED"
    if v: "v \<in> snd ` set (g_revocations s)" and q: "q \<in> (\<lambda>(p, r). pc_policy r) ` set (g_policies s)" "ap_id q = rv_policy v" for v q
  proof -
    from v obtain k where "(k, v) \<in> set (g_revocations s)" by auto
    then obtain r where k: "rv_policy v = k" "om_find (g_policies s) k = Some r" "ap_lifecycle (pc_policy r) = PL_REVOKED"
      using assms om_in_set_find by (fastforce simp: state_ok_def revocations_ok_def)
    from q obtain j x where x: "(j, x) \<in> set (g_policies s)" "q = pc_policy x" by auto
    then have "om_find (g_policies s) j = Some x" "ap_id q = j"
      using assms om_in_set_find[of "g_policies s" j x] by (auto simp: state_ok_def policies_ok_def policy_record_ok_def)
    then show ?thesis using k q(2) x(2) by simp
  qed
  then show ?thesis by (auto simp: durable_consistent_def as_stored_def build_durable_def)
qed

section \<open>A small store\<close>

text \<open>
  The sample policy established on its first path with a hold-down until 120, saved at 20 and recovered at
  5000 by a process that has done nothing yet.
\<close>

definition waiting_record :: policy_record where
  "waiting_record = held_record\<lparr>pc_timing := no_timing\<lparr>ti_hold_down_active := True, ti_hold_down_deadline := 120,
     ti_hold_down_locked_path := StrongId ''p1''\<rparr>\<rparr>"

definition waiting_engine :: engine where "waiting_engine = measured waiting_record 100 80"
definition next_process :: engine where "next_process = new_engine default_limits sample_factory"
definition at_20 :: "nat \<Rightarrow> ticks" where "at_20 i = 20"

lemma waiting_engine_ok: "engine_ok waiting_engine"
  unfolding waiting_engine_def
proof (rule measured_ok)
  show "policy_record_ok default_limits (StrongId ''pol'') waiting_record"
    using held_record_ok by (simp add: policy_record_ok_def waiting_record_def)
qed (simp_all add: policy_extends_def waiting_record_def held_record_def candidate_paths_def)

lemma waiting_state:
  "g_policies (en_state waiting_engine) = [(StrongId ''pol'', waiting_record)]" "g_revocations (en_state waiting_engine) = []"
  "g_epoch (en_state waiting_engine) = gen_first" "g_authority_generation (en_state waiting_engine) = gen_first"
  "g_evidence_generation (en_state waiting_engine) = gen_first" "en_limits waiting_engine = default_limits"
proof -
  have s: "g_policies (en_state sample_engine) = []" "g_revocations (en_state sample_engine) = []"
      "g_epoch (en_state sample_engine) = gen_first" "g_authority_generation (en_state sample_engine) = gen_first"
      "g_evidence_generation (en_state sample_engine) = gen_first" by code_simp+
  show "g_policies (en_state waiting_engine) = [(StrongId ''pol'', waiting_record)]" "g_revocations (en_state waiting_engine) = []"
    "g_epoch (en_state waiting_engine) = gen_first" "g_authority_generation (en_state waiting_engine) = gen_first"
    "g_evidence_generation (en_state waiting_engine) = gen_first" "en_limits waiting_engine = default_limits"
    by (simp_all add: waiting_engine_def measured_def measured_state_def sample_active_def put_policy_def s sample_limits)
qed

definition waiting_store :: durable_state where "waiting_store = as_stored (build_durable at_20 (en_state waiting_engine))"

lemma waiting_store_fields:
  "du_format_version waiting_store = persistence_format_version" "du_epoch waiting_store = gen_first"
  "du_authority_generation waiting_store = gen_first" "du_evidence_generation waiting_store = gen_first"
  "du_policies waiting_store = [web_policy]" "du_revocations waiting_store = []"
  "du_preferences waiting_store = [\<lparr>dp_policy = StrongId ''pol'', dp_preference = pc_preference waiting_record\<rparr>]"
  "du_stable_states waiting_store = [\<lparr>db_policy = StrongId ''pol'', db_stable = pc_stable waiting_record\<rparr>]"
  "du_timings waiting_store = [durable_timing_of 20 (StrongId ''pol'') waiting_record]" "du_history waiting_store = []"
  by (simp_all add: waiting_store_def as_stored_def build_durable_def waiting_state at_20_def waiting_record_def held_record_def
      sample_record_def fresh_record_def)

lemma web_owner: "owner_of [web_policy] (StrongId ''pol'') = Some web_policy"
  by (simp add: owner_of_def web_policy_def)

lemma web_scope_fits: "store_scope_fits (ap_scope web_policy)"
  unfolding store_scope_fits_def
  by (intro conjI; ((code_simp; fail) | simp add: web_policy_def sample_policy_scope_def))

lemma web_semantics_fits: "store_semantics_fits (ap_semantics web_policy)"
  unfolding store_semantics_fits_def
  by (intro conjI; ((code_simp; fail) | simp add: web_policy_def latency_semantics_def))

lemma waiting_policy_fits: "policy_record_fits web_policy"
  unfolding policy_record_fits_def by (intro conjI web_scope_fits web_semantics_fits; code_simp)

lemma waiting_preference_fits:
  "preference_record_fits [web_policy] \<lparr>dp_policy = StrongId ''pol'', dp_preference = pc_preference waiting_record\<rparr>"
  unfolding preference_record_fits_def Let_def by (intro conjI) (code_simp | (simp add: web_owner; code_simp))+

lemma waiting_stable_fits: "stable_record_fits [web_policy] \<lparr>db_policy = StrongId ''pol'', db_stable = pc_stable waiting_record\<rparr>"
  unfolding stable_record_fits_def Let_def by (intro conjI) (code_simp | (simp add: web_owner; fail))+

lemma waiting_timing_fits: "timing_record_fits [web_policy] (durable_timing_of 20 (StrongId ''pol'') waiting_record)"
proof -
  have "dt_policy (durable_timing_of 20 (StrongId ''pol'') waiting_record) = StrongId ''pol''" by (simp add: durable_timing_of_def Let_def)
  then show ?thesis unfolding timing_record_fits_def by (intro conjI) (code_simp | (simp add: web_owner; fail))+
qed

lemma put_length:
  "length (put_u32 c) = 4" "length (put_u64 d) = 8" "length (put_bytes bs) = 8 + length bs"
  "length (put_vector put xs) = 8 + (\<Sum>x\<leftarrow>xs. length (put x))"
  by (simp_all add: put_u32_def put_u64_def put_bytes_def put_vector_def length_concat comp_def)

lemma waiting_sizes:
  "length (encode_policy_record web_policy) \<le> 1000"
  "length (encode_preference_record \<lparr>dp_policy = StrongId ''pol'', dp_preference = pc_preference waiting_record\<rparr>) \<le> 1000"
  "length (encode_stable_record \<lparr>db_policy = StrongId ''pol'', db_stable = pc_stable waiting_record\<rparr>) \<le> 1000"
  "length (encode_timing_record (durable_timing_of 20 (StrongId ''pol'') waiting_record)) \<le> 1000"
  by code_simp+

lemma waiting_store_fits: "durable_fits waiting_store"
proof -
  have box: "length bs \<le> 1000 \<Longrightarrow> box_fits bs" for bs
    by (simp add: box_fits_def text_fits_def default_limits_def)
  have "gen_valid gen_first" by code_simp
  then have body: "body_ok waiting_store"
    using waiting_policy_fits waiting_preference_fits waiting_stable_fits waiting_timing_fits
    by (simp add: body_ok_def waiting_store_fields records_ok_def box waiting_sizes) (simp add: default_limits_def)
  have "length (encode_durable_state waiting_store) \<le> 10000"
    using waiting_sizes by (simp add: encode_durable_state_def Let_def put_length store_body_def put_records_def waiting_store_fields)
  then show ?thesis using body by (simp add: durable_fits_def) (simp add: default_limits_def)
qed

lemma empty_store_fits: "durable_fits (as_stored (build_durable at_20 (en_state next_process)))"
proof -
  have "gen_valid gen_first" by code_simp
  then show ?thesis
    by (simp add: durable_fits_def body_ok_def records_ok_def as_stored_def build_durable_def next_process_def new_engine_def
        initial_state_def encode_durable_state_def Let_def put_length store_body_def put_records_def) (simp add: default_limits_def)
qed

lemma waiting_recovers:
  "\<exists>e' res. decode_store True 5000 (encode_store at_20 waiting_engine) ''s'' next_process = (e', res) \<and> or_ok res
     \<and> decode_durable_state (encode_store at_20 waiting_engine) = Inr waiting_store"
proof -
  have d: "decode_durable_state (encode_store at_20 waiting_engine) = Inr waiting_store"
    using waiting_store_fits by (simp add: store_exact encode_store_def encode_as_stored waiting_store_def)
  have "gen_next gen_first \<noteq> (None :: coordinator_epoch option)" "gen_next gen_first \<noteq> (None :: adaptive_authority_generation option)"
    by code_simp+
  moreover have "en_limits next_process = default_limits" by (simp add: next_process_def new_engine_def)
  moreover have "1 \<le> unat (lim_max_policies default_limits)" by (simp add: default_limits_def)
  ultimately have "or_ok (snd (decode_store True 5000 (encode_store at_20 waiting_engine) ''s'' next_process))"
    by (auto simp: decode_store_def d apply_durable_def waiting_store_fields outcome_is_success_def Let_def)
  with d show ?thesis by (metis prod.collapse)
qed

section \<open>What a restart keeps and what it drops\<close>

lemma recovered_carries:
  "g_epoch (recovered_state l c now epoch authority d) = epoch" "g_registrations (recovered_state l c now epoch authority d) = []"
  "g_evidence (recovered_state l c now epoch authority d) = []" "g_fenced_boots (recovered_state l c now epoch authority d) = []"
  "g_evidence_generation (recovered_state l c now epoch authority d) = du_evidence_generation d"
  "g_authority_generation (recovered_state l c now epoch authority d) = authority"
  using recovered_carried[of l c now epoch authority d] by (simp_all add: carried_def)

text \<open>
  C20: recovery takes a store as a whole or not at all, and gives nobody authority.  Whatever bytes the
  store holds, either they are refused and the engine is what it was, or the engine becomes that of a new
  epoch, in which no publisher is registered and every caller is refused, no evidence is held, and every
  policy is one of the store's, without candidates and either in its terminal lifecycle or required to be
  revalidated.
\<close>

theorem recovery_grants_nothing:
  assumes "decode_store True now bytes origin e = (e', res)"
  shows "if or_ok res
     then (\<exists>d. decode_durable_state bytes = Inr d \<and> gen_next (du_epoch d) = Some (g_epoch (en_state e'))
        \<and> (\<forall>ctx. refused_everywhere (en_state e') ctx) \<and> g_registrations (en_state e') = [] \<and> g_evidence (en_state e') = []
        \<and> (\<forall>p r. om_find (g_policies (en_state e')) p = Some r \<longrightarrow> (\<exists>q \<in> set (du_policies d). ap_id q = p \<and> pc_candidates r = []
              \<and> pc_policy r = (if policy_lifecycle_terminal (ap_lifecycle q) then q else q\<lparr>ap_lifecycle := PL_REVALIDATION_REQUIRED\<rparr>))))
     else e' = e"
  using decode_store_ends[of True now bytes origin e]
proof cases
  case refused
  then show ?thesis using assms by simp
next
  case (recovered d epoch authority counters)
  have st: "en_state e' = recovered_state (en_limits e) True now epoch authority d" "or_ok res"
    using recovered(4,5) assms by simp_all
  have "\<forall>ctx. refused_everywhere (en_state e') ctx"
    unfolding refused_everywhere_def st using check_caller_Inr by (fastforce simp: recovered_carries)
  moreover have "\<exists>q \<in> set (du_policies d). ap_id q = p \<and> pc_candidates r = []
      \<and> pc_policy r = (if policy_lifecycle_terminal (ap_lifecycle q) then q else q\<lparr>ap_lifecycle := PL_REVALIDATION_REQUIRED\<rparr>)"
    if found: "om_find (g_policies (en_state e')) p = Some r" for p r
  proof -
    obtain q where q: "owner_of (du_policies d) p = Some q" "r = record_from (en_limits e) True now d p (recovered_policy True q)"
      using found unfolding st recovered_find by auto
    show ?thesis
      using owner_of_Some[OF q(1)] by (intro bexI[of _ q]) (simp_all add: q(2) record_from_core recovered_policy_def Let_def)
  qed
  ultimately show ?thesis using recovered(1,2) by (simp add: st recovered_carries)
qed

theorem recovery_grants_nothing_witness:
  "\<exists>e' r d. decode_store True 5000 (encode_store at_20 waiting_engine) ''s'' next_process = (e', r)
     \<and> decode_durable_state (encode_store at_20 waiting_engine) = Inr d \<and> gen_next (du_epoch d) = Some (g_epoch (en_state e'))
     \<and> refused_everywhere (en_state e') sample_context"
proof -
  obtain e' r where run: "decode_store True 5000 (encode_store at_20 waiting_engine) ''s'' next_process = (e', r)" "or_ok r"
    using waiting_recovers by blast
  show ?thesis using recovery_grants_nothing[OF run(1)] run by auto
qed

text \<open>
  What becomes of a deadline that lay ahead of the reading \<open>t\<close> at which it was saved, when it is armed again at
  \<open>now\<close>; both sums are sums of numbers, not of words.
\<close>

definition resumes :: "ticks \<Rightarrow> ticks \<Rightarrow> ticks \<Rightarrow> ticks \<Rightarrow> bool" where
  "resumes t now old new \<longleftrightarrow>
    (if unat now + (unat old - unat t) < 2 ^ 64 then unat new = unat now + (unat old - unat t) else new < now)"

definition runs_on :: "ticks \<Rightarrow> ticks \<Rightarrow> timing_state \<Rightarrow> timing_state \<Rightarrow> bool" where
  "runs_on t now before_t after_t \<longleftrightarrow>
     (ti_hold_down_active before_t \<and> t < ti_hold_down_deadline before_t \<longrightarrow>
        ti_hold_down_active after_t \<and> resumes t now (ti_hold_down_deadline before_t) (ti_hold_down_deadline after_t)
        \<and> ti_hold_down_locked_path after_t = ti_hold_down_locked_path before_t)
     \<and> (ti_cooldown_active before_t \<and> t < ti_cooldown_deadline before_t \<longrightarrow>
        ti_cooldown_active after_t \<and> resumes t now (ti_cooldown_deadline before_t) (ti_cooldown_deadline after_t))"

lemma resumed: "t < d \<Longrightarrow> resumes t now d (now + (d - t))" for d t now :: ticks
proof -
  assume "t < d"
  then have r: "unat (d - t) = unat d - unat t" by (simp add: unat_sub)
  then have n: "unat (now + (d - t)) = (unat now + (unat d - unat t)) mod 2 ^ 64" by (simp add: unat_word_ariths)
  show "resumes t now d (now + (d - t))"
  proof (cases "unat now + (unat d - unat t) < 2 ^ 64")
    case False
    have "unat now < 2 ^ 64" "unat d < 2 ^ 64" using unsigned_less[of now, where 'a = nat] unsigned_less[of d, where 'a = nat] by simp_all
    then have "unat (now + (d - t)) < unat now" unfolding n using False by (subst mod_if) (auto simp: mod_if)
    then show ?thesis using False by (simp add: resumes_def word_less_nat_alt)
  qed (simp add: resumes_def n)
qed

lemma restarted_runs_on: "runs_on t now (pc_timing r) (pc_timing (restarted_record t now v p r))"
  by (simp add: runs_on_def restarted_record_def rearmed_def durable_timing_of_def resumed Let_def)

text \<open>
  C6: a restart restores the intent of every policy.  When an engine is saved, the saved state fits the
  store, and a process with the same limits recovers it, it has exactly the same policies; each has its
  old generation, scope, semantics and owner, its preference but for the recorded cause, its stable state,
  its history but for the times, and its revocation; and a hold-down or cooldown that was running is
  running, with a deadline that lies as far ahead of the new reading as the old one did of the reading it
  was saved at, provided that this deadline is a reading of the clock.  When it is not, the deadline wraps
  and lies before the reading: the interval is over at once, shorter than it was, which the documentation
  says cannot happen.
\<close>

theorem restart_restores_intent:
  assumes "engine_ok e" and "durable_fits (as_stored (build_durable clock (en_state e)))" and "en_limits e2 = en_limits e"
    and "decode_store True now (encode_store clock e) origin e2 = (e', res)" and "or_ok res"
  shows "\<forall>p. case om_find (g_policies (en_state e)) p of
        None \<Rightarrow> om_find (g_policies (en_state e')) p = None
      | Some r \<Rightarrow> (\<exists>i r'. om_find (g_policies (en_state e')) p = Some r'
            \<and> r' = restarted_record (clock i) now (om_find (g_revocations (en_state e)) p) p r
            \<and> runs_on (clock i) now (pc_timing r) (pc_timing r'))"
proof -
  let ?d = "as_stored (build_durable clock (en_state e))"
  have d: "decode_durable_state (encode_store clock e) = Inr ?d"
    using assms(2) by (simp add: store_exact encode_store_def encode_as_stored)
  from decode_store_ends[of True now "encode_store clock e" origin e2] show ?thesis
  proof cases
    case refused
    then show ?thesis using assms(4,5) by simp
  next
    case (recovered d' epoch authority counters)
    then have st: "en_state e' = recovered_state (en_limits e) True now epoch authority ?d"
      using d assms(3,4) by simp
    have ok: "state_ok (en_limits e) (en_state e)" using assms(1) by (simp add: engine_ok_def)
    have owner: "owner_of (du_policies ?d) p = map_option pc_policy (om_find (g_policies (en_state e)) p)" for p
      using owner_of_saved[of "en_limits e"] ok by (simp add: as_stored_def build_durable_def state_ok_def)
    show ?thesis
      unfolding st recovered_find owner
      using record_from_saved[OF ok, of _ _ now clock] by (auto split: option.split) (metis restarted_runs_on)
  qed
qed

theorem restart_restores_intent_witness:
  "\<exists>e' r'. fst (decode_store True 5000 (encode_store at_20 waiting_engine) ''s'' next_process) = e'
     \<and> om_find (g_policies (en_state e')) (StrongId ''pol'') = Some r'
     \<and> ti_hold_down_active (pc_timing r') \<and> ti_hold_down_deadline (pc_timing r') = 5100
     \<and> rp_preferred_path (pc_preference r') = StrongId ''p1'' \<and> ap_semantics (pc_policy r') = latency_semantics
     \<and> ap_lifecycle (pc_policy r') = PL_REVALIDATION_REQUIRED"
proof -
  obtain e' r where run: "decode_store True 5000 (encode_store at_20 waiting_engine) ''s'' next_process = (e', r)" "or_ok r"
    using waiting_recovers by blast
  have fits: "durable_fits (as_stored (build_durable at_20 (en_state waiting_engine)))"
    using waiting_store_fits by (simp add: waiting_store_def)
  have same: "en_limits next_process = en_limits waiting_engine" by (simp add: next_process_def new_engine_def waiting_state)
  have "om_find (g_policies (en_state waiting_engine)) (StrongId ''pol'') = Some waiting_record" by (simp add: waiting_state)
  then obtain i r' where r': "om_find (g_policies (en_state e')) (StrongId ''pol'') = Some r'"
      "r' = restarted_record (at_20 i) 5000 (om_find (g_revocations (en_state waiting_engine)) (StrongId ''pol'')) (StrongId ''pol'') waiting_record"
    using restart_restores_intent[OF waiting_engine_ok fits same run, THEN spec[of _ "StrongId ''pol''"]] by auto
  have "ap_lifecycle web_policy = PL_ACTIVE" "ap_semantics web_policy = latency_semantics" by (simp_all add: web_policy_def)
  then show ?thesis using r' run(1)
    by (simp add: restarted_record_def at_20_def durable_timing_of_def rearmed_def recovered_preference_def waiting_record_def
        held_record_def sample_record_def fresh_record_def policy_lifecycle_terminal_def Let_def)
qed

lemma restart_ok:
  assumes "engine_ok e" and "durable_fits (as_stored (build_durable clock (en_state e)))"
    and "decode_store c now (encode_store clock e) origin e2 = (e', res)" and "or_ok res"
  shows "engine_ok e' \<and> en_limits e' = en_limits e2 \<and> g_epoch (en_state e) < g_epoch (en_state e')"
proof -
  let ?d = "as_stored (build_durable clock (en_state e))"
  have d: "decode_durable_state (encode_store clock e) = Inr ?d"
    using assms(2) by (simp add: store_exact encode_store_def encode_as_stored)
  from decode_store_ends[of c now "encode_store clock e" origin e2] show ?thesis
  proof cases
    case refused
    then show ?thesis using assms(3,4) by simp
  next
    case (recovered d' epoch authority counters)
    then have same: "d' = ?d" using d by simp
    have st: "e' = e2\<lparr>en_state := recovered_state (en_limits e2) c now epoch authority ?d, en_counters := counters\<rparr>"
      using recovered(4) assms(3) unfolding same by simp
    have n: "gen_next (g_epoch (en_state e)) = Some epoch"
      using recovered(2) unfolding same by (simp add: as_stored_def build_durable_def)
    have "state_ok (en_limits e2) (recovered_state (en_limits e2) c now epoch authority ?d)"
      using recovered_state_ok[OF stored_policies_valid[OF d]] saved_consistent assms(1) by (simp add: engine_ok_def)
    moreover have "g_epoch (en_state e) < epoch" using gen_next_SomeD[OF n] by simp
    ultimately show ?thesis by (simp add: st engine_ok_def recovered_carries)
  qed
qed

text \<open>
  C5: no authority crosses a restart.  After an engine was saved and recovered, a context that was made
  before, under the epoch of the saved state or an older one, is accepted for no route or set, whatever has
  run since, registrations included; and every operation requested under it leaves the guarded state as it
  was (an evaluation leaves what others made of it meanwhile).  Advancing the epoch and fencing are given
  no context and are not meant.
\<close>

theorem authority_ends_with_the_process:
  assumes "engine_ok e" and "durable_fits (as_stored (build_durable clock (en_state e)))"
    and "decode_store True now (encode_store clock e) origin e2 = (e', res)" and "or_ok res"
    and "engine_step\<^sup>*\<^sup>* e' e3" and "mc_epoch ctx \<le> g_epoch (en_state e)"
  shows "refused_everywhere (en_state e3) ctx
    \<and> (\<forall>meanwhile e4. acts meanwhile ctx e3 e4 \<longrightarrow> en_state e4 = en_state e3 \<or> e4 = meanwhile e3)"
proof -
  have ok: "engine_ok e'" "g_epoch (en_state e) < g_epoch (en_state e')" using restart_ok[OF assms(1-4)] by simp_all
  have "g_epoch (en_state e') \<le> g_epoch (en_state e3)"
    using run_contract[OF assms(5) ok(1)] by (simp add: engine_extends_def state_extends_def)
  then have "g_epoch (en_state e3) \<noteq> mc_epoch ctx" using ok(2) assms(6) by auto
  then have no: "refused_everywhere (en_state e3) ctx" unfolding refused_everywhere_def using check_caller_Inr by blast
  then show ?thesis using refused_acts by blast
qed

theorem authority_ends_with_the_process_witness:
  "\<exists>e'. fst (decode_store True 5000 (encode_store at_20 waiting_engine) ''s'' next_process) = e'
     \<and> (let e3 = fst (register_publisher (StrongId ''pub'') (StrongId ''boot1'') sample_scope (StrongId ''sess'') e')
        in refused_everywhere (en_state e3) sample_context
          \<and> en_state (fst (revoke_policy (StrongId ''pol'') RR_SECURITY ''late'' sample_context e3)) = en_state e3)"
proof -
  obtain e' r where run: "decode_store True 5000 (encode_store at_20 waiting_engine) ''s'' next_process = (e', r)" "or_ok r"
    using waiting_recovers by blast
  have fits: "durable_fits (as_stored (build_durable at_20 (en_state waiting_engine)))"
    using waiting_store_fits by (simp add: waiting_store_def)
  have step: "engine_step\<^sup>*\<^sup>* e' (fst (register_publisher (StrongId ''pub'') (StrongId ''boot1'') sample_scope (StrongId ''sess'') e'))"
    by (rule r_into_rtranclp) (rule engine_step.register[OF prod.collapse[symmetric]])
  have old: "mc_epoch sample_context \<le> g_epoch (en_state waiting_engine)" by (simp add: sample_context_def waiting_state)
  let ?e3 = "fst (register_publisher (StrongId ''pub'') (StrongId ''boot1'') sample_scope (StrongId ''sess'') e')"
  have "refused_everywhere (en_state ?e3) sample_context"
      "\<forall>meanwhile e4. acts meanwhile sample_context ?e3 e4 \<longrightarrow> en_state e4 = en_state ?e3 \<or> e4 = meanwhile ?e3"
    using authority_ends_with_the_process[OF waiting_engine_ok fits run step old] by blast+
  then show ?thesis
    using run(1) acts.revoke[of "\<lambda>_. ?e3" sample_context ?e3] unfolding Let_def by (intro exI[of _ e']) (metis fst_conv)
qed

section \<open>Lifetimes\<close>

text \<open>An engine over any number of processes: it runs, is saved, and a new process recovers it.\<close>

inductive lifetime :: "limits \<Rightarrow> engine \<Rightarrow> bool" for l where
  born: "lifetime l (new_engine l ids)"
| works: "lifetime l e \<Longrightarrow> engine_step e e' \<Longrightarrow> lifetime l e'"
| restarts: "lifetime l e \<Longrightarrow> durable_fits (as_stored (build_durable clock (en_state e))) \<Longrightarrow>
    decode_store c now (encode_store clock e) origin (new_engine l ids) = (e', res) \<Longrightarrow> lifetime l e'"

text \<open>
  C21: every engine is well-formed over any number of restarts from what it saved (when that fits the
  store): the invariant of the operations is an invariant of the recovery too.
\<close>

theorem well_formed_across_restarts:
  assumes "lifetime l e"
  shows "engine_ok e \<and> en_limits e = l"
  using assms
proof induction
  case (born ids)
  then show ?case using new_engine_ok by (simp add: new_engine_def)
next
  case (works e e')
  then show ?case using step_contract by (auto simp: engine_extends_def)
next
  case (restarts e clock c now origin ids e' res)
  show ?case
  proof (cases "or_ok res")
    case True
    then show ?thesis using restart_ok[OF _ restarts(2,3)] restarts(4) by (simp add: new_engine_def)
  next
    case False
    then have "e' = new_engine l ids"
      using decode_store_ends[of c now "encode_store clock e" origin "new_engine l ids"] restarts(3) by (cases rule: decode_store_ends) auto
    then show ?thesis using new_engine_ok by (simp add: new_engine_def)
  qed
qed

theorem well_formed_across_restarts_witness:
  "engine_ok (fst (decode_store True 5000 (encode_store at_20 next_process) ''s'' next_process))"
proof -
  let ?e = "fst (decode_store True 5000 (encode_store at_20 next_process) ''s'' next_process)"
  obtain r where run: "decode_store True 5000 (encode_store at_20 next_process) ''s'' next_process = (?e, r)" by (metis prod.collapse)
  have born: "lifetime default_limits next_process" unfolding next_process_def by (rule lifetime.born)
  note fresh = next_process_def[symmetric]
  have "lifetime default_limits ?e"
    by (rule lifetime.restarts[OF born empty_store_fits, where origin = "''s''" and ids = sample_factory, unfolded fresh, OF run])
  then show ?thesis using well_formed_across_restarts by blast
qed

section \<open>The file\<close>

text \<open>The store file the calls leave, and the result the operation reports, for the bytes of an engine.\<close>

definition replacement :: "(nat \<Rightarrow> ticks) \<Rightarrow> file_calls \<Rightarrow> store_files \<Rightarrow> engine \<Rightarrow> store_files list \<times> operation_result" where
  "replacement clock c f e =
    (fst (write_store_atomic c (encode_store clock e) f), save clock (\<lambda>bytes. snd (write_store_atomic c bytes f)) e)"

text \<open>
  C31: replacing the store never leaves a torn one.  However the calls on the files end and wherever the
  process stops between them, the store file holds its old content or the whole of the new one, unless the
  first rename failed and the old store was removed for a second one: then the new content is still in
  the temporary file, except after the second rename failed too.  A save that reports success has left
  exactly the encoding of the engine.
\<close>

theorem store_is_never_torn:
  assumes "replacement clock c f e = (trace, res)"
  shows "(or_ok res \<longrightarrow> sf_store (last trace) = Some (encode_store clock e))
    \<and> (\<forall>f' \<in> set trace. sf_store f' = sf_store f \<or> sf_store f' = Some (encode_store clock e)
        \<or> (\<not> fc_rename c \<and> fc_remove c \<and> sf_store f' = None
            \<and> (sf_temporary f' = Some (encode_store clock e) \<or> (\<not> fc_rename_again c \<and> \<not> or_ok res))))"
  using assms
  by (auto simp: replacement_def write_store_atomic_def save_def Let_def outcome_is_success_def discard_temporary_def split: if_splits)

theorem store_is_never_torn_witness:
  "sf_store (last (fst (replacement at_20 \<lparr>fc_open = True, fc_write = True, fc_written = [], fc_rename = False, fc_remove = True,
       fc_rename_again = True, fc_remove_temporary = True\<rparr> \<lparr>sf_store = Some ''old'', sf_temporary = None\<rparr> waiting_engine)))
     = Some (encode_store at_20 waiting_engine)"
proof -
  let ?c = "\<lparr>fc_open = True, fc_write = True, fc_written = [], fc_rename = False, fc_remove = True,
       fc_rename_again = True, fc_remove_temporary = True\<rparr>"
  let ?f = "\<lparr>sf_store = Some ''old'', sf_temporary = None\<rparr>"
  obtain trace res where run: "replacement at_20 ?c ?f waiting_engine = (trace, res)" by (cases "replacement at_20 ?c ?f waiting_engine")
  have size: "length (encode_store at_20 waiting_engine) \<le> unat (lim_max_store_bytes default_limits)"
    using waiting_store_fits by (simp add: durable_fits_def encode_store_def waiting_store_def encode_as_stored)
  have "or_ok (snd (replacement at_20 ?c ?f waiting_engine))"
    using size by (simp add: replacement_def save_def write_store_atomic_def waiting_state outcome_is_success_def or_ok_def make_result_def Let_def)
  then show ?thesis using store_is_never_torn[OF run] run by simp
qed

text \<open>When the second rename fails as well, no store is left under either name.\<close>

lemma store_can_be_lost:
  "last (fst (write_store_atomic \<lparr>fc_open = True, fc_write = True, fc_written = [], fc_rename = False, fc_remove = True,
     fc_rename_again = False, fc_remove_temporary = True\<rparr> bytes f)) = \<lparr>sf_store = None, sf_temporary = None\<rparr>"
  by (cases f) (simp add: write_store_atomic_def discard_temporary_def Let_def)

end
