(* ===== verification/Socket.thy ===== *)
theory Socket
  imports Session_Loop
begin

text \<open>
  Sending and receiving on a socket (\<^verbatim>\<open>src/transport.cpp\<close>, \<open>Socket::send_all\<close>, \<open>Socket::receive\<close>).  The
  loops run over a script with one entry per turn: the readings of the clock and what the system calls
  return.  \<open>None\<close> is a script that ends while the loop still runs.  The socket is non-blocking or carries
  a backstop time-out; its options are not part of the model.
\<close>

section \<open>Waiting\<close>

definition receive_call_bytes :: nat where "receive_call_bytes = 1048576"
definition io_stagnant_polls :: u32 where "io_stagnant_polls = 8"

record poll_guard =
  gu_observed :: ticks
  gu_limit :: u32
  gu_stagnant :: u32

definition open_guard :: "ticks \<Rightarrow> u32 \<Rightarrow> poll_guard" where
  "open_guard now limit = \<lparr>gu_observed = now, gu_limit = limit, gu_stagnant = 0\<rparr>"

definition guard_exhausted :: "ticks \<Rightarrow> poll_guard \<Rightarrow> poll_guard \<times> bool" where
  "guard_exhausted now g =
    (if now \<noteq> gu_observed g then (g\<lparr>gu_observed := now, gu_stagnant := 0\<rparr>, False)
     else let n = gu_stagnant g + 1 in (g\<lparr>gu_stagnant := n\<rparr>, n \<ge> gu_limit g))"

text \<open>What \<^verbatim>\<open>wait_socket\<close> returns: negative with the error, zero, positive.\<close>

datatype readiness = RE_FAILED string | RE_IDLE | RE_READY

section \<open>Receiving\<close>

text \<open>What \<^verbatim>\<open>recv\<close> returns: bytes (none at the end of the stream), an interruption, an error.\<close>

datatype delivery = DE_BYTES string | DE_INTERRUPTED | DE_FAILED string

datatype receive_status = RS_DATA | RS_CLOSED | RS_STALLED | RS_ERROR

record receive_result =
  rr_status :: receive_status
  rr_bytes :: nat
  rr_error :: string

record receive_turn =
  rt_now :: ticks
  rt_ready :: readiness
  rt_guard :: ticks
  rt_delivery :: delivery

fun receive_loop :: "ticks \<Rightarrow> receive_turn list \<Rightarrow> poll_guard \<Rightarrow> nat \<Rightarrow> string \<Rightarrow> (string \<times> receive_result) option" where
  "receive_loop deadline [] g bytes buffer = None"
| "receive_loop deadline (u # us) g bytes buffer =
    (let have_data = bytes > 0;
         expired = rt_now u \<ge> deadline;
         ended = (\<lambda>status error. Some (buffer, \<lparr>rr_status = status, rr_bytes = bytes, rr_error = error\<rparr>)) in
     if have_data \<and> (expired \<or> bytes \<ge> receive_call_bytes) then ended RS_DATA []
     else if \<not> have_data \<and> expired then ended RS_STALLED []
     else case rt_ready u of
       RE_FAILED text \<Rightarrow> ended RS_ERROR (''receive wait failed: '' @ text)
     | RE_IDLE \<Rightarrow>
         if have_data then ended RS_DATA []
         else (case guard_exhausted (rt_guard u) g of
                 (g', True) \<Rightarrow> ended RS_STALLED []
               | (g', False) \<Rightarrow> receive_loop deadline us g' bytes buffer)
     | RE_READY \<Rightarrow>
         (case rt_delivery u of
            DE_BYTES [] \<Rightarrow> ended (if have_data then RS_DATA else RS_CLOSED) []
          | DE_BYTES bs \<Rightarrow> receive_loop deadline us g (bytes + length bs) (buffer @ bs)
          | DE_INTERRUPTED \<Rightarrow> receive_loop deadline us g bytes buffer
          | DE_FAILED text \<Rightarrow> if have_data then ended RS_DATA [] else ended RS_ERROR (''receive failed: '' @ text)))"

text \<open>The clock is read for the deadline and for the guard before the loop.\<close>

record 'turn socket_call =
  sk_started :: ticks
  sk_observed :: ticks
  sk_turns :: "'turn list"

definition receive :: "bool \<Rightarrow> ticks \<Rightarrow> receive_turn socket_call \<Rightarrow> string \<Rightarrow> (string \<times> receive_result) option" where
  "receive valid stall_budget k buffer =
    (if \<not> valid then Some (buffer, \<lparr>rr_status = RS_ERROR, rr_bytes = 0, rr_error = ''cannot receive on a socket that is not open''\<rparr>)
     else receive_loop (saturating_add (sk_started k) stall_budget) (sk_turns k) (open_guard (sk_observed k) io_stagnant_polls) 0 buffer)"

section \<open>Sending\<close>

text \<open>What \<^verbatim>\<open>send\<close> returns: how many bytes it took, an interruption, an error.\<close>

datatype uptake = UP_TAKEN nat | UP_INTERRUPTED | UP_FAILED string

record send_turn =
  st_now :: ticks
  st_ready :: readiness
  st_guard :: ticks
  st_uptake :: uptake

fun send_loop :: "string \<Rightarrow> ticks \<Rightarrow> ticks \<Rightarrow> send_turn list \<Rightarrow> poll_guard \<Rightarrow> nat \<Rightarrow> bool \<Rightarrow> (nat \<times> string) option" where
  "send_loop bytes budget deadline us g offset attempted =
    (if \<not> offset < length bytes then Some (offset, [])
     else case us of
       [] \<Rightarrow> None
     | u # us \<Rightarrow>
       if attempted \<and> st_now u \<ge> deadline then
         Some (offset, ''send timed out after '' @ dec (unat (budget div ticks_per_millisecond)) @ '' ms with ''
           @ dec (length bytes - offset) @ '' bytes unsent'')
       else case st_ready u of
         RE_FAILED text \<Rightarrow> Some (offset, ''send wait failed: '' @ text)
       | RE_IDLE \<Rightarrow>
           (case guard_exhausted (st_guard u) g of
              (g', True) \<Rightarrow> Some (offset, ''send timed out: the socket stayed unwritable and the clock made no progress'')
            | (g', False) \<Rightarrow> send_loop bytes budget deadline us g' offset attempted)
       | RE_READY \<Rightarrow>
           (case st_uptake u of
              UP_TAKEN 0 \<Rightarrow> Some (offset, ''send reported a zero-length write'')
            | UP_TAKEN n \<Rightarrow> send_loop bytes budget deadline us g (offset + n) True
            | UP_INTERRUPTED \<Rightarrow> send_loop bytes budget deadline us g offset True
            | UP_FAILED text \<Rightarrow> Some (offset, ''send failed: '' @ text)))"

declare send_loop.simps [simp del]

text \<open>The bytes the peer is sent, and nothing or the error.\<close>

definition send_all :: "bool \<Rightarrow> string \<Rightarrow> ticks \<Rightarrow> send_turn socket_call \<Rightarrow> (string \<times> string option) option" where
  "send_all valid bytes budget k =
    (if \<not> valid then Some ([], Some ''cannot send on a socket that is not open'')
     else if bytes = [] then Some ([], None)
     else case send_loop bytes budget (saturating_add (sk_started k) budget) (sk_turns k) (open_guard (sk_observed k) io_stagnant_polls) 0 False of
       None \<Rightarrow> None
     | Some (offset, error) \<Rightarrow> Some (take offset bytes, if offset = length bytes then None else Some error))"

section \<open>A receive ends\<close>

text \<open>The readings of the clock of a receive, in order.\<close>

fun receive_readings :: "receive_turn list \<Rightarrow> ticks list" where
  "receive_readings [] = []"
| "receive_readings (u # us) = rt_now u # (if rt_ready u = RE_IDLE then [rt_guard u] else []) @ receive_readings us"

text \<open>
  The work left of a receive: turns of a clock that stands still, ticks to the deadline, bytes of the
  call.  Only an interrupted system call leaves it as it was.
\<close>

definition receive_work :: "ticks \<Rightarrow> poll_guard \<Rightarrow> nat \<Rightarrow> nat" where
  "receive_work deadline g bytes =
    (unat (gu_limit g) - unat (gu_stagnant g)) + unat (gu_limit g) * (unat deadline - unat (gu_observed g)) + (receive_call_bytes - bytes) + 1"

definition uninterrupted :: "receive_turn list \<Rightarrow> receive_turn list" where
  "uninterrupted = filter (\<lambda>u. rt_delivery u \<noteq> DE_INTERRUPTED)"

lemma unat_plus_one: "x < y \<Longrightarrow> unat (x + 1) = unat x + 1" for x y :: "'a::len word"
proof -
  assume "x < y"
  moreover have "unat y < 2 ^ LENGTH('a)" by (rule unsigned_less)
  ultimately have "unat x + 1 < 2 ^ LENGTH('a)" unfolding word_less_nat_alt by linarith
  then show ?thesis by (simp add: unat_word_ariths(1))
qed

lemma guard_progress:
  assumes "guard_exhausted now g = (g', False)" and "gu_stagnant g < gu_limit g" and "gu_observed g \<le> now" and "gu_observed g < deadline"
  shows "gu_stagnant g' < gu_limit g' \<and> receive_work deadline g' bytes < receive_work deadline g bytes \<and> gu_observed g' = now"
proof -
  have s: "unat (gu_stagnant g) < unat (gu_limit g)" using assms(2) by (simp add: word_less_nat_alt)
  consider (moved) "now \<noteq> gu_observed g" "g' = g\<lparr>gu_observed := now, gu_stagnant := 0\<rparr>"
    | (stuck) "now = gu_observed g" "g' = g\<lparr>gu_stagnant := gu_stagnant g + 1\<rparr>" "gu_stagnant g + 1 < gu_limit g"
    using assms(1) by (auto simp: guard_exhausted_def Let_def not_le split: if_splits)
  then show ?thesis
  proof cases
    case moved
    then have lt: "unat (gu_observed g) < unat now" using assms(3) by (metis le_neq_implies_less word_le_nat_alt word_unat_eq_iff)
    have d: "unat (gu_observed g) < unat deadline" using assms(4) by (simp add: word_less_nat_alt)
    have "unat deadline - unat now + 1 \<le> unat deadline - unat (gu_observed g)" using lt d by simp
    then have "unat (gu_limit g) * (unat deadline - unat now + 1) \<le> unat (gu_limit g) * (unat deadline - unat (gu_observed g))"
      by (rule mult_le_mono2)
    then show ?thesis using moved s by (simp add: receive_work_def word_less_nat_alt)
  next
    case stuck
    then show ?thesis using s unat_plus_one[OF assms(2)] by (simp add: receive_work_def)
  qed
qed

lemma receive_loop_ends:
  assumes "receive_work deadline g bytes \<le> length (uninterrupted us)" and "gu_stagnant g < gu_limit g"
    and "sorted (gu_observed g # receive_readings us)"
  shows "receive_loop deadline us g bytes buffer \<noteq> None"
  using assms
proof (induction us arbitrary: g bytes buffer)
  case Nil
  then show ?case by (simp add: receive_work_def uninterrupted_def)
next
  case (Cons u us)
  note IH = Cons.IH and prems = Cons.prems
  have now: "gu_observed g \<le> rt_now u" and later: "sorted (gu_observed g # receive_readings us)"
    using prems(3) by (auto split: if_splits)
  have left: "length (uninterrupted (u # us)) \<le> length (uninterrupted us) + 1" by (simp add: uninterrupted_def)
  show ?case
  proof (cases "rt_now u < deadline \<and> (bytes > 0 \<longrightarrow> bytes < receive_call_bytes)")
    case False
    then show ?thesis by (auto simp: Let_def not_less)
  next
    case True
    then have d: "gu_observed g < deadline" using now by (simp add: le_less_trans)
    show ?thesis
    proof (cases "rt_ready u")
      case RE_IDLE
      have "receive_loop deadline us g' bytes buffer \<noteq> None" if g': "guard_exhausted (rt_guard u) g = (g', False)" for g'
      proof (rule IH)
        have o: "gu_observed g \<le> rt_guard u" using prems(3) RE_IDLE by simp
        note p = guard_progress[OF g' prems(2) o d]
        show "receive_work deadline g' bytes \<le> length (uninterrupted us)" using p[of bytes] prems(1) left by linarith
        show "gu_stagnant g' < gu_limit g'" using p by simp
        show "sorted (gu_observed g' # receive_readings us)" using prems(3) RE_IDLE p by simp
      qed
      then show ?thesis using RE_IDLE True by (auto simp: Let_def not_le split: prod.split bool.split)
    next
      case RE_READY
      show ?thesis
      proof (cases "rt_delivery u")
        case (DE_BYTES bs)
        have "receive_loop deadline us g (bytes + length bs) (buffer @ bs) \<noteq> None" if "bs \<noteq> []"
        proof (rule IH[OF _ prems(2) later])
          have "bytes < receive_call_bytes" using True by (cases bytes) (simp_all add: receive_call_bytes_def)
          moreover have "0 < length bs" using that by simp
          ultimately have "receive_call_bytes - (bytes + length bs) < receive_call_bytes - bytes" by linarith
          then show "receive_work deadline g (bytes + length bs) \<le> length (uninterrupted us)"
            using prems(1) left unfolding receive_work_def by linarith
        qed
        then show ?thesis using RE_READY DE_BYTES True by (cases bs) (auto simp: Let_def not_le)
      next
        case DE_INTERRUPTED
        have "receive_loop deadline us g bytes buffer \<noteq> None"
          by (rule IH[OF _ prems(2) later]) (use prems(1) DE_INTERRUPTED in \<open>simp add: uninterrupted_def\<close>)
        then show ?thesis using RE_READY DE_INTERRUPTED True by (auto simp: Let_def not_le)
      qed (use RE_READY True in \<open>auto simp: Let_def not_le\<close>)
    qed (auto simp: Let_def)
  qed
qed

text \<open>
  C16: a receive ends.  When the readings of the clock never go back, it returns within a number of turns
  that grows with its budget and not with what the peer does, whether the peer streams without a pause,
  stays silent, or the clock stands still; only system calls that are interrupted do not count.
\<close>

theorem receive_returns:
  assumes "sorted (sk_started k # sk_observed k # receive_readings (sk_turns k))"
    and "8 * (unat stall_budget + 1) + receive_call_bytes + 1 \<le> length (uninterrupted (sk_turns k))"
  shows "receive valid stall_budget k buffer \<noteq> None"
proof (cases valid)
  case True
  let ?deadline = "saturating_add (sk_started k) stall_budget"
  let ?g = "open_guard (sk_observed k) io_stagnant_polls"
  have "unat (- 1 - stall_budget) = unat (- 1 :: ticks) - unat stall_budget" by (rule unat_sub) simp
  then have "unat ?deadline \<le> unat (sk_started k) + unat stall_budget"
    by (auto simp: saturating_add_def unat_word_ariths word_less_nat_alt)
  moreover have "unat (sk_started k) \<le> unat (sk_observed k)" using assms(1) by (simp add: word_le_nat_alt)
  ultimately have "unat ?deadline - unat (sk_observed k) \<le> unat stall_budget" by linarith
  then have "receive_work ?deadline ?g 0 \<le> length (uninterrupted (sk_turns k))"
    using assms(2) by (simp add: receive_work_def open_guard_def io_stagnant_polls_def)
  moreover have "gu_stagnant ?g < gu_limit ?g" by (simp add: open_guard_def io_stagnant_polls_def)
  moreover have "sorted (gu_observed ?g # receive_readings (sk_turns k))" using assms(1) by (simp add: open_guard_def)
  ultimately show ?thesis using receive_loop_ends True by (simp add: receive_def)
qed (simp add: receive_def)

theorem receive_returns_witness:
  "receive True 0 \<lparr>sk_started = 5, sk_observed = 5,
     sk_turns = replicate (2 * receive_call_bytes) \<lparr>rt_now = 5, rt_ready = RE_IDLE, rt_guard = 5, rt_delivery = DE_BYTES []\<rparr>\<rparr> [] \<noteq> None"
proof (rule receive_returns)
  have "receive_readings (replicate n \<lparr>rt_now = 5, rt_ready = RE_IDLE, rt_guard = 5, rt_delivery = DE_BYTES []\<rparr>) = replicate (2 * n) 5" for n
    by (induction n) simp_all
  then show "sorted (sk_started \<lparr>sk_started = 5, sk_observed = 5, sk_turns = replicate (2 * receive_call_bytes)
      \<lparr>rt_now = 5, rt_ready = RE_IDLE, rt_guard = 5, rt_delivery = DE_BYTES []\<rparr>\<rparr>
    # sk_observed \<lparr>sk_started = 5, sk_observed = 5, sk_turns = replicate (2 * receive_call_bytes)
      \<lparr>rt_now = 5, rt_ready = RE_IDLE, rt_guard = 5, rt_delivery = DE_BYTES []\<rparr>\<rparr>
    # receive_readings (sk_turns \<lparr>sk_started = 5, sk_observed = 5, sk_turns = replicate (2 * receive_call_bytes)
      \<lparr>rt_now = 5, rt_ready = RE_IDLE, rt_guard = 5, rt_delivery = DE_BYTES []\<rparr>\<rparr>))"
    by (simp add: sorted_iff_nth_mono)
qed (simp add: uninterrupted_def receive_call_bytes_def)

section \<open>A send that does not end\<close>

lemma idle_send:
  assumes "\<forall>u \<in> set us. st_ready u = RE_IDLE" and "distinct_adj (gu_observed g # map st_guard us)" and "offset < length bytes"
  shows "send_loop bytes budget deadline us g offset False = None"
  using assms
proof (induction us arbitrary: g)
  case Nil
  then show ?case by (subst send_loop.simps) simp
next
  case (Cons u us)
  have "guard_exhausted (st_guard u) g = (g\<lparr>gu_observed := st_guard u, gu_stagnant := 0\<rparr>, False)"
    using Cons.prems(2) by (auto simp: guard_exhausted_def)
  moreover have "send_loop bytes budget deadline us (g\<lparr>gu_observed := st_guard u, gu_stagnant := 0\<rparr>) offset False = None"
    using Cons.prems by (intro Cons.IH) auto
  ultimately show ?case using Cons.prems by (subst send_loop.simps) simp
qed

text \<open>
  A send does not keep its budget before its first attempt.  While the socket stays unwritable and
  the clock moves between the polls, \<open>send_all\<close> keeps polling however long that lasts: the deadline is
  looked at only after a first call of \<^verbatim>\<open>send\<close>, and a clock that moves resets the guard.
\<close>

theorem send_outlives_its_budget:
  assumes "\<forall>u \<in> set (sk_turns k). st_ready u = RE_IDLE" and "distinct_adj (sk_observed k # map st_guard (sk_turns k))" and "bytes \<noteq> []"
  shows "send_all True bytes budget k = None"
proof -
  have "send_loop bytes budget deadline (sk_turns k) (open_guard (sk_observed k) io_stagnant_polls) 0 False = None" for deadline
    using assms by (intro idle_send) (simp_all add: open_guard_def)
  then show ?thesis using assms(3) by (simp add: send_all_def)
qed

theorem send_outlives_its_budget_witness:
  "send_all True ''x'' 1 \<lparr>sk_started = 0, sk_observed = 0,
     sk_turns = [\<lparr>st_now = 20, st_ready = RE_IDLE, st_guard = 20, st_uptake = UP_INTERRUPTED\<rparr>,
       \<lparr>st_now = 40, st_ready = RE_IDLE, st_guard = 40, st_uptake = UP_INTERRUPTED\<rparr>]\<rparr> = None"
  by (rule send_outlives_its_budget) simp_all

end
