(* ===== verification/Client.thy ===== *)
theory Client
  imports Socket Messages Frame_Guarantees
begin

text \<open>
  The client of a coordinator (\<^verbatim>\<open>src/transport.cpp\<close>, \<open>CoordinatorClient\<close>): one request at a time over one
  connection.  A transaction is given the script of what the clock and the socket do during it; \<open>None\<close> is
  a script that ends while the client still waits.  An error is its text.
\<close>

section \<open>State\<close>

record client_config =
  cc_limits :: limits
  cc_io_budget :: ticks
  cc_endpoint :: string

record client =
  cl_connected :: bool
  cl_session :: session_id
  cl_publisher :: publisher_id
  cl_worker_boot :: worker_boot_id
  cl_sequence :: u64
  cl_epoch :: coordinator_epoch
  cl_authority :: adaptive_authority_generation
  cl_buffer :: string

text \<open>A new client takes the next three numbers of a counter of the process.\<close>

definition new_client :: "string \<Rightarrow> string \<Rightarrow> u64 \<Rightarrow> client option" where
  "new_client nonce id_prefix counter =
    (case (compose_identity 64 nonce id_prefix ''session'' (counter + 1) True,
           compose_identity 64 nonce id_prefix ''publisher'' (counter + 2) True,
           compose_identity 64 nonce id_prefix ''boot'' (counter + 3) True) of
       (Some session, Some publisher, Some boot) \<Rightarrow>
         Some \<lparr>cl_connected = False, cl_session = session, cl_publisher = publisher, cl_worker_boot = boot, cl_sequence = 0,
           cl_epoch = gen_first, cl_authority = gen_first, cl_buffer = []\<rparr>
     | _ \<Rightarrow> None)"

definition client_close :: "client \<Rightarrow> client" where
  "client_close cl = cl\<lparr>cl_connected := False, cl_buffer := []\<rparr>"

text \<open>The attempt to connect is the platform's: nothing, or the error.\<close>

definition client_connect :: "string option \<Rightarrow> client \<Rightarrow> client \<times> string option" where
  "client_connect attempt cl =
    (case attempt of
       Some error \<Rightarrow> (client_close cl, Some error)
     | None \<Rightarrow> ((client_close cl)\<lparr>cl_connected := True\<rparr>, None))"

definition abandon :: "client \<Rightarrow> client" where
  "abandon cl = cl\<lparr>cl_connected := False, cl_buffer := []\<rparr>"

definition absorb_epoch :: "coordinator_epoch \<Rightarrow> client \<Rightarrow> client" where
  "absorb_epoch e cl = (if gen_valid e then cl\<lparr>cl_epoch := e\<rparr> else cl)"

section \<open>Frames\<close>

record read_turn =
  rd_now :: ticks
  rd_call :: "receive_turn socket_call"
  rd_after :: ticks

record exchange =
  ex_send :: "send_turn socket_call"
  ex_started :: ticks
  ex_reads :: "read_turn list"

text \<open>What is sent of the frame, and nothing or the error.\<close>

definition write_frame :: "client_config \<Rightarrow> send_turn socket_call \<Rightarrow> frame \<Rightarrow> client \<Rightarrow> (string \<times> string option) option" where
  "write_frame c k f cl =
    (let name = message_id_to_string (fh_message_id (ff_header f));
         limit = lim_max_frame_bytes (cc_limits c) in
     if length (ff_payload f) > 0xFFFFFFFF then
       Some ([], Some (''the payload of '' @ name @ '' exceeds the wire length field''))
     else
       let h = ff_header f;
           outgoing = f\<lparr>ff_header := h\<lparr>fh_wire_version := wire_protocol_version, fh_flags := 0,
             fh_epoch := (if gen_valid (fh_epoch h) then fh_epoch h else cl_epoch cl),
             fh_payload_length := word_of_nat (length (ff_payload f))\<rparr>\<rparr> in
       case encode_frame outgoing limit of
         None \<Rightarrow> Some ([], Some (name @ '' exceeds max_frame_bytes ('' @ dec (unat limit) @ '')''))
       | Some bytes \<Rightarrow> send_all (cl_connected cl) bytes (cc_io_budget c) k)"

definition timed_out :: "client_config \<Rightarrow> string" where
  "timed_out c = ''timed out after '' @ dec (unat (cc_io_budget c div ticks_per_millisecond))
     @ '' ms waiting for a response from '' @ cc_endpoint c"

text \<open>A frame that is in the buffer is taken without a turn; the turns that are left are returned.\<close>

fun read_frame :: "client_config \<Rightarrow> ticks \<Rightarrow> ticks \<Rightarrow> read_turn list \<Rightarrow> client \<Rightarrow> (client \<times> read_turn list \<times> (string + frame)) option" where
  "read_frame c started deadline us cl =
    (let d = decode_frame (cl_buffer cl) (lim_max_frame_bytes (cc_limits c)) in
     if fd_status d = FS_OK then
       Some (absorb_epoch (fh_epoch (ff_header (fd_frame d))) (cl\<lparr>cl_buffer := drop (fd_consumed d) (cl_buffer cl)\<rparr>), us, Inr (fd_frame d))
     else if fd_status d \<noteq> FS_INCOMPLETE then
       Some (abandon cl, us, Inl (''the coordinator sent an invalid frame ('' @ frame_status_to_string (fd_status d) @ '')''))
     else case us of
       [] \<Rightarrow> None
     | u # us \<Rightarrow>
       if rd_now u \<ge> deadline then Some (abandon cl, us, Inl (timed_out c))
       else case receive (cl_connected cl) (deadline - rd_now u) (rd_call u) (cl_buffer cl) of
         None \<Rightarrow> None
       | Some (buffer, r) \<Rightarrow>
         let cl' = cl\<lparr>cl_buffer := buffer\<rparr> in
         case rr_status r of
           RS_DATA \<Rightarrow> read_frame c started deadline us cl'
         | RS_STALLED \<Rightarrow>
             if rd_after u \<noteq> started then Some (abandon cl', us, Inl (timed_out c))
             else read_frame c started deadline us cl'
         | RS_CLOSED \<Rightarrow> Some (abandon cl', us, Inl ''the coordinator closed the connection'')
         | RS_ERROR \<Rightarrow> Some (abandon cl', us, Inl (''receive failed: '' @ rr_error r)))"

declare read_frame.simps [simp del]

text \<open>A frame shortens the buffer or a turn is used up, so skipping acknowledgements ends.\<close>

lemma read_frame_shorter:
  assumes "read_frame c started deadline us cl = Some (cl', us', Inr f)"
  shows "length us' < length us \<or> us' = us \<and> length (cl_buffer cl') < length (cl_buffer cl)"
  using assms
proof (induction c started deadline us cl rule: read_frame.induct)
  case (1 c started deadline us cl)
  let ?d = "decode_frame (cl_buffer cl) (lim_max_frame_bytes (cc_limits c))"
  show ?case
  proof (cases "fd_status ?d = FS_OK")
    case True
    obtain g n where d: "?d = \<lparr>fd_status = FS_OK, fd_frame = g, fd_consumed = n\<rparr>" using True by (cases ?d) auto
    from decode_frame_sound[OF d] have "0 < n" "n \<le> length (cl_buffer cl)" by (auto simp: frame_bytes_length)
    then show ?thesis using "1.prems" d by (subst (asm) read_frame.simps) (auto simp: absorb_epoch_def)
  next
    case False
    show ?thesis
    proof (cases us)
      case Nil
      then show ?thesis using "1.prems" False by (subst (asm) read_frame.simps) (auto simp: Let_def split: if_splits)
    next
      case (Cons u rest)
      have "read_frame c started deadline rest (cl\<lparr>cl_buffer := buffer\<rparr>) = Some (cl', us', Inr f) \<Longrightarrow> length us' \<le> length rest"
        if "fd_status ?d = FS_INCOMPLETE" "\<not> rd_now u \<ge> deadline"
          "receive (cl_connected cl) (deadline - rd_now u) (rd_call u) (cl_buffer cl) = Some (buffer, r)"
          "rr_status r = RS_DATA \<or> rr_status r = RS_STALLED \<and> rd_after u = started" for buffer r
        using "1.IH"[OF refl False _ Cons that(2,3) refl] that by fastforce
      then show ?thesis using "1.prems" False Cons
        by (subst (asm) read_frame.simps)
          (fastforce simp: Let_def less_Suc_eq_le split: if_splits option.splits prod.splits receive_status.splits)
    qed
  qed
qed

section \<open>Transactions\<close>

function await :: "client_config \<Rightarrow> bool \<Rightarrow> ticks \<Rightarrow> ticks \<Rightarrow> read_turn list \<Rightarrow> client \<Rightarrow> (client \<times> (string + frame)) option" where
  "await c skip_ack started deadline us cl =
    (case read_frame c started deadline us cl of
       None \<Rightarrow> None
     | Some (cl', us', Inl error) \<Rightarrow> Some (cl', Inl error)
     | Some (cl', us', Inr response) \<Rightarrow>
         if skip_ack \<and> fh_message_id (ff_header response) = MI_HELLO_ACK then await c skip_ack started deadline us' cl'
         else Some (cl', Inr response))"
  by pat_completeness auto
termination
  by (relation "measures [\<lambda>(c, skip_ack, started, deadline, us, cl). length us, \<lambda>(c, skip_ack, started, deadline, us, cl). length (cl_buffer cl)]")
    (auto dest: read_frame_shorter)

declare await.simps [simp del]

text \<open>The result with what the peer is sent.\<close>

definition transact :: "client_config \<Rightarrow> message_id \<Rightarrow> string \<Rightarrow> bool \<Rightarrow> exchange \<Rightarrow> client \<Rightarrow> (client \<times> string \<times> (string + frame)) option" where
  "transact c i payload skip_ack x cl =
    (if \<not> cl_connected cl then Some (cl, [], Inl (''the client is not connected to '' @ cc_endpoint c))
     else
       let cl1 = cl\<lparr>cl_sequence := cl_sequence cl + 1\<rparr>;
           f0 = make_frame i payload;
           f = f0\<lparr>ff_header := (ff_header f0)\<lparr>fh_sequence := cl_sequence cl1, fh_epoch := cl_epoch cl1\<rparr>\<rparr> in
       case write_frame c (ex_send x) f cl1 of
         None \<Rightarrow> None
       | Some (sent, Some error) \<Rightarrow> Some (cl1, sent, Inl error)
       | Some (sent, None) \<Rightarrow>
         case await c skip_ack (ex_started x) (saturating_add (ex_started x) (cc_io_budget c)) (ex_reads x) cl1 of
           None \<Rightarrow> None
         | Some (cl2, answer) \<Rightarrow> Some (cl2, sent, answer))"

text \<open>\<^verbatim>\<open>decode_result\<close>: a rejection by the coordinator is a result.\<close>

definition decode_answer :: "client_config \<Rightarrow> frame \<Rightarrow> string + result_message" where
  "decode_answer c response =
    (let h = ff_header response in
     if fh_message_id h = MI_RESULT then
       (case decode_result (ff_payload response) of
          None \<Rightarrow> Inl ''the RESULT payload could not be decoded'' | Some m \<Rightarrow> Inr m)
     else if fh_message_id h = MI_ERROR then
       (case decode_error (ff_payload response) of
          None \<Rightarrow> Inl ''the ERROR payload could not be decoded''
        | Some failure \<Rightarrow> Inr (no_result_message\<lparr>tm_outcome := om_outcome failure, tm_detail := om_detail failure, tm_epoch := fh_epoch h,
            tm_rendered := outcome_to_string (om_outcome failure) @ '' '' @ om_detail failure\<rparr>))
     else Inl (''unexpected response '' @ message_id_to_string (fh_message_id h) @ '' from '' @ cc_endpoint c))"

definition client_send :: "client_config \<Rightarrow> frame \<Rightarrow> exchange \<Rightarrow> client \<Rightarrow> (client \<times> string \<times> (string + result_message)) option" where
  "client_send c f x cl =
    (case transact c (fh_message_id (ff_header f)) (ff_payload f) True x cl of
       None \<Rightarrow> None
     | Some (cl', sent, Inl error) \<Rightarrow> Some (cl', sent, Inl error)
     | Some (cl', sent, Inr response) \<Rightarrow> Some (cl', sent, decode_answer c response))"

definition client_request :: "client_config \<Rightarrow> message_id \<Rightarrow> string \<Rightarrow> exchange \<Rightarrow> client \<Rightarrow> (client \<times> string \<times> (string + frame)) option" where
  "client_request c i payload x cl = transact c i payload True x cl"

definition client_hello :: "client_config \<Rightarrow> exchange \<Rightarrow> client \<Rightarrow> (client \<times> string \<times> (string + hello_message)) option" where
  "client_hello c x cl =
    (let greeting = \<lparr>hm_wire_version = wire_protocol_version, hm_product = product_name, hm_epoch = cl_epoch cl,
           hm_authority_generation = cl_authority cl\<rparr> in
     case transact c MI_HELLO (encode_hello greeting) False x cl of
       None \<Rightarrow> None
     | Some (cl', sent, Inl error) \<Rightarrow> Some (cl', sent, Inl error)
     | Some (cl', sent, Inr response) \<Rightarrow>
       if fh_message_id (ff_header response) \<noteq> MI_HELLO_ACK then
         Some (cl', sent, Inl (''expected HELLO_ACK but received '' @ message_id_to_string (fh_message_id (ff_header response))))
       else case decode_hello (ff_payload response) of
         None \<Rightarrow> Some (cl', sent, Inl ''the HELLO_ACK payload could not be decoded'')
       | Some ack \<Rightarrow>
         if hm_wire_version ack \<noteq> wire_protocol_version then
           Some (cl', sent, Inl (''the coordinator announced wire protocol version '' @ dec (unat (hm_wire_version ack))))
         else
           let cl1 = absorb_epoch (hm_epoch ack) cl' in
           Some (if gen_valid (hm_authority_generation ack) then cl1\<lparr>cl_authority := hm_authority_generation ack\<rparr> else cl1, sent, Inr ack))"

definition client_snapshot :: "client_config \<Rightarrow> policy_id \<Rightarrow> exchange \<Rightarrow> client \<Rightarrow> (client \<times> string \<times> (string + snapshot_response_message)) option" where
  "client_snapshot c policy x cl =
    (case transact c MI_SNAPSHOT_REQUEST (encode_snapshot_request policy) True x cl of
       None \<Rightarrow> None
     | Some (cl', sent, Inl error) \<Rightarrow> Some (cl', sent, Inl error)
     | Some (cl', sent, Inr response) \<Rightarrow> Some (cl', sent,
         let i = fh_message_id (ff_header response) in
         if i = MI_ERROR then
           (case decode_error (ff_payload response) of
              None \<Rightarrow> Inl ''the ERROR payload could not be decoded''
            | Some failure \<Rightarrow> Inl (outcome_to_string (om_outcome failure) @ '': '' @ om_detail failure))
         else if i \<noteq> MI_SNAPSHOT_RESPONSE then Inl (''unexpected response '' @ message_id_to_string i @ '' to SNAPSHOT_REQUEST'')
         else (case decode_snapshot_response (ff_payload response) of
              None \<Rightarrow> Inl ''the SNAPSHOT_RESPONSE payload could not be decoded'' | Some m \<Rightarrow> Inr m)))"

definition client_bye :: "client_config \<Rightarrow> send_turn socket_call \<Rightarrow> client \<Rightarrow> (client \<times> string) option" where
  "client_bye c k cl =
    (if \<not> cl_connected cl then Some (client_close cl, [])
     else
       let cl1 = cl\<lparr>cl_sequence := cl_sequence cl + 1\<rparr>;
           f0 = make_frame MI_BYE [];
           f = f0\<lparr>ff_header := (ff_header f0)\<lparr>fh_sequence := cl_sequence cl1, fh_epoch := cl_epoch cl1\<rparr>\<rparr> in
       case write_frame c k f cl1 of None \<Rightarrow> None | Some (sent, _) \<Rightarrow> Some (client_close cl1, sent))"

section \<open>Requests\<close>

type_synonym request_call = "exchange \<Rightarrow> client \<Rightarrow> (client \<times> string \<times> (string + result_message)) option"

definition client_register_publisher :: "client_config \<Rightarrow> publisher_id \<Rightarrow> worker_boot_id \<Rightarrow> authority_scope \<Rightarrow> request_call" where
  "client_register_publisher c publisher boot scope =
     client_send c (make_frame MI_REGISTER_PUBLISHER (encode_register \<lparr>rm_publisher = publisher, rm_worker_boot = boot, rm_scope = scope\<rparr>))"

definition client_fence :: "client_config \<Rightarrow> publisher_id \<Rightarrow> worker_boot_id \<Rightarrow> string \<Rightarrow> request_call" where
  "client_fence c publisher boot cause =
     client_send c (make_frame MI_FENCE_NOTICE (encode_fence \<lparr>fm_publisher = publisher, fm_worker_boot = boot, fm_cause = cause\<rparr>))"

definition client_advance_epoch :: "client_config \<Rightarrow> string \<Rightarrow> request_call" where
  "client_advance_epoch c reason = client_send c (make_frame MI_ADVANCE_EPOCH (encode_advance_epoch reason))"

definition client_create_policy :: "client_config \<Rightarrow> create_message \<Rightarrow> request_call" where
  "client_create_policy c m = client_send c (make_frame MI_CREATE_POLICY (encode_create m))"

definition client_update_policy :: "client_config \<Rightarrow> update_message \<Rightarrow> request_call" where
  "client_update_policy c m = client_send c (make_frame MI_UPDATE_POLICY (encode_update m))"

definition client_policy_lifecycle :: "client_config \<Rightarrow> lifecycle_message \<Rightarrow> request_call" where
  "client_policy_lifecycle c m = client_send c (make_frame MI_POLICY_LIFECYCLE (encode_lifecycle m))"

definition client_revoke_policy :: "client_config \<Rightarrow> revoke_message \<Rightarrow> request_call" where
  "client_revoke_policy c m = client_send c (make_frame MI_REVOKE_POLICY (encode_revoke m))"

definition client_upstream_notify :: "client_config \<Rightarrow> upstream_notification list \<Rightarrow> request_call" where
  "client_upstream_notify c m = client_send c (make_frame MI_UPSTREAM_NOTIFY (encode_notify m))"

definition client_publish_evidence :: "client_config \<Rightarrow> evidence_publication list \<Rightarrow> request_call" where
  "client_publish_evidence c m = client_send c (make_frame MI_PUBLISH_EVIDENCE (encode_publish m))"

definition client_evaluate :: "client_config \<Rightarrow> evaluate_message \<Rightarrow> request_call" where
  "client_evaluate c m = client_send c (make_frame MI_EVALUATE (encode_evaluate m))"

definition client_commit_decision :: "client_config \<Rightarrow> evaluation_ticket \<Rightarrow> request_call" where
  "client_commit_decision c m = client_send c (make_frame MI_COMMIT_DECISION (encode_commit m))"

definition client_revalidate :: "client_config \<Rightarrow> revalidate_message \<Rightarrow> request_call" where
  "client_revalidate c m = client_send c (make_frame MI_REVALIDATE (encode_revalidate m))"

definition client_rollback :: "client_config \<Rightarrow> rollback_message \<Rightarrow> request_call" where
  "client_rollback c m = client_send c (make_frame MI_ROLLBACK (encode_rollback m))"

definition client_query_state :: "client_config \<Rightarrow> query_message \<Rightarrow> request_call" where
  "client_query_state c m = client_send c (make_frame MI_QUERY_STATE (encode_query m))"

definition client_explain :: "client_config \<Rightarrow> explain_message \<Rightarrow> request_call" where
  "client_explain c m = client_send c (make_frame MI_EXPLAIN_REQUEST (encode_explain m))"

definition client_diff :: "client_config \<Rightarrow> diff_message \<Rightarrow> request_call" where
  "client_diff c m = client_send c (make_frame MI_DIFF_REQUEST (encode_diff m))"

end
