(* ===== verification/Client_Guarantees.thy ===== *)
theory Client_Guarantees
  imports Client Session_Guarantees
begin

text \<open>
  Client and coordinator (\<^verbatim>\<open>src/transport.cpp\<close>): what the coordinator writes for a frame, whole responses that
  name their request and the cut ones of a failed write; a transaction of the client yields the response the coordinator wrote; and what a failed
  transaction leaves behind.
\<close>

section \<open>Responses\<close>

definition replies :: "frame \<Rightarrow> message_id set" where
  "replies f = {MI_RESULT, MI_ERROR, MI_SNAPSHOT_RESPONSE} \<union> (if fh_message_id (ff_header f) = MI_HELLO then {MI_HELLO_ACK} else {})"

definition answers :: "message_id set \<Rightarrow> server_config \<Rightarrow> frame \<Rightarrow> string \<Rightarrow> bool" where
  "answers I c f bytes \<longleftrightarrow> (\<exists>r. sendable r (lim_max_frame_bytes (sv_limits c)) \<and> received r = r \<and> bytes = frame_bytes r
     \<and> fh_sequence (ff_header r) = fh_sequence (ff_header f) \<and> fh_message_id (ff_header r) \<in> I)"

definition cut_answer :: "message_id set \<Rightarrow> server_config \<Rightarrow> frame \<Rightarrow> string \<Rightarrow> bool" where
  "cut_answer I c f bytes \<longleftrightarrow> (\<exists>whole n. answers I c f whole \<and> n < length whole \<and> bytes = take n whole)"

definition one_answer :: "server_config \<Rightarrow> moment \<Rightarrow> frame \<Rightarrow> string list \<Rightarrow> bool" where
  "one_answer c m f sent \<longleftrightarrow> (\<exists>cuts whole. sent = cuts @ whole \<and> length whole \<le> 1 \<and> length sent \<le> 2
     \<and> (\<forall>bytes \<in> set cuts. cut_answer (replies f) c f bytes)
     \<and> (\<forall>bytes \<in> set whole. answers (if cuts = [] then replies f else {MI_ERROR}) c f bytes)
     \<and> ((\<forall>k. mo_delivered m k = None) \<longrightarrow> cuts = []))"

lemma answers_mono: "answers I c f bytes \<Longrightarrow> I \<subseteq> J \<Longrightarrow> answers J c f bytes"
  by (auto simp: answers_def)

lemma error_is_reply: "MI_ERROR \<in> replies f" "{MI_ERROR} \<subseteq> replies f"
  by (simp_all add: replies_def)

lemma cut_error: "cut_answer {MI_ERROR} c f bytes \<Longrightarrow> cut_answer (replies f) c f bytes"
  unfolding cut_answer_def by (blast intro: answers_mono[OF _ error_is_reply(2)])

lemma cut_is_shorter: "xs \<noteq> [] \<Longrightarrow> min n (length xs - 1) < length xs"
  by (cases xs) auto

lemma frame_bytes_nonempty: "frame_bytes r \<noteq> []"
  by (simp add: frame_bytes_def put_u64_def le_bytes_def)

lemma write_response_answers:
  assumes "write_response c m k e i (fh_sequence (ff_header f)) payload = (sent, complete)"
  shows "if complete then \<exists>bytes. sent = [bytes] \<and> answers {i} c f bytes
    else sent = [] \<or> (\<exists>bytes. sent = [bytes] \<and> cut_answer {i} c f bytes \<and> mo_delivered m k \<noteq> None)"
proof -
  let ?r = "\<lparr>ff_header = \<lparr>fh_wire_version = wire_protocol_version, fh_message_id = i, fh_flags = 0,
    fh_payload_length = word_of_nat (length payload), fh_sequence = fh_sequence (ff_header f), fh_epoch = g_epoch (en_state e)\<rparr>,
    ff_payload = payload\<rparr>"
  have whole: "answers {i} c f (frame_bytes ?r)" if "sendable ?r (lim_max_frame_bytes (sv_limits c))" "length payload \<le> 0xFFFFFFFF"
    unfolding answers_def using that by (intro exI[of _ ?r]) (simp add: received_def)
  show ?thesis
  proof (cases "length payload \<le> 0xFFFFFFFF \<and> sendable ?r (lim_max_frame_bytes (sv_limits c))")
    case False
    then show ?thesis using assms by (auto simp: write_response_def encode_frame_eq split: if_splits)
  next
    case True
    have cut: "cut_answer {i} c f (take (min n (length (frame_bytes ?r) - 1)) (frame_bytes ?r))" for n
      unfolding cut_answer_def
      by (intro exI[of _ "frame_bytes ?r"] exI[of _ "min n (length (frame_bytes ?r) - 1)"] conjI)
        (use whole True cut_is_shorter[OF frame_bytes_nonempty[of ?r]] in simp_all)
    show ?thesis using assms True whole cut by (auto simp: write_response_def encode_frame_eq split: option.splits)
  qed
qed

lemma one_answer_shapes:
  "one_answer c m f []"
  "answers (replies f) c f bytes \<Longrightarrow> one_answer c m f [bytes]"
  "cut_answer (replies f) c f bytes \<Longrightarrow> mo_delivered m k \<noteq> None \<Longrightarrow> one_answer c m f [bytes]"
  "cut_answer (replies f) c f bytes \<Longrightarrow> mo_delivered m k \<noteq> None \<Longrightarrow> cut_answer (replies f) c f bytes2 \<Longrightarrow> one_answer c m f [bytes, bytes2]"
  "cut_answer (replies f) c f bytes \<Longrightarrow> mo_delivered m k \<noteq> None \<Longrightarrow> answers {MI_ERROR} c f bytes2 \<Longrightarrow> one_answer c m f [bytes, bytes2]"
proof -
  show "one_answer c m f []" by (simp add: one_answer_def)
  show "one_answer c m f [bytes]" if "answers (replies f) c f bytes"
    unfolding one_answer_def using that by (intro exI[of _ "[]"] exI[of _ "[bytes]"]) simp
  show "one_answer c m f [bytes]" if "cut_answer (replies f) c f bytes" "mo_delivered m k \<noteq> None"
    unfolding one_answer_def using that by (intro exI[of _ "[bytes]"] exI[of _ "[]"]) auto
  show "one_answer c m f [bytes, bytes2]"
    if "cut_answer (replies f) c f bytes" "mo_delivered m k \<noteq> None" "cut_answer (replies f) c f bytes2"
    unfolding one_answer_def using that by (intro exI[of _ "[bytes, bytes2]"] exI[of _ "[]"]) auto
  show "one_answer c m f [bytes, bytes2]"
    if "cut_answer (replies f) c f bytes" "mo_delivered m k \<noteq> None" "answers {MI_ERROR} c f bytes2"
    unfolding one_answer_def using that by (intro exI[of _ "[bytes]"] exI[of _ "[bytes2]"]) auto
qed

lemma written_answer:
  assumes "i \<in> replies f"
  shows "one_answer c m f (fst (write_response c m k e i (fh_sequence (ff_header f)) payload))"
proof -
  obtain sent complete where w: "write_response c m k e i (fh_sequence (ff_header f)) payload = (sent, complete)" by fastforce
  have "cut_answer (replies f) c f bytes" if "cut_answer {i} c f bytes" for bytes
    using that assms answers_mono[of "{i}" c f _ "replies f"] by (auto simp: cut_answer_def)
  moreover have "answers (replies f) c f bytes" if "answers {i} c f bytes" for bytes
    using that assms answers_mono[of "{i}" c f bytes "replies f"] by simp
  ultimately show ?thesis using write_response_answers[OF w] w
    by (auto simp: one_answer_shapes(1,2) intro: one_answer_shapes(3)[where k = k] split: if_splits)
qed

lemma error_behind:
  assumes "write_response c m 0 e i (fh_sequence (ff_header f)) payload = (sent, complete)" and "i \<in> replies f"
  shows "one_answer c m f (if complete then sent else sent @ error_response c m 1 e (fh_sequence (ff_header f)) oc d)"
proof -
  obtain sent2 complete2 where w2: "write_response c m 1 e MI_ERROR (fh_sequence (ff_header f))
      (encode_error \<lparr>om_outcome = oc, om_detail = d\<rparr>) = (sent2, complete2)" by fastforce
  have second: "error_response c m 1 e (fh_sequence (ff_header f)) oc d = sent2" unfolding error_response_def w2 by simp
  have up: "cut_answer (replies f) c f bytes" if "cut_answer {i} c f bytes" for bytes
    using that assms(2) answers_mono[of "{i}" c f _ "replies f"] by (auto simp: cut_answer_def)
  show ?thesis
  proof (cases "sent = [] \<or> complete")
    case True
    then show ?thesis
      using written_answer[OF assms(2), of c m 0 e payload] written_answer[OF error_is_reply(1), of c m f 1 e] assms(1)
      by (auto simp: error_response_def)
  next
    case False
    then obtain bytes where b: "sent = [bytes]" "cut_answer (replies f) c f bytes" "mo_delivered m 0 \<noteq> None"
      using write_response_answers[OF assms(1)] up by auto
    show ?thesis using write_response_answers[OF w2] b False one_answer_shapes(3-5)[OF b(2,3)] cut_error
      unfolding second by (auto split: if_splits)
  qed
qed

lemma one_answer_intros:
  "one_answer c m f []"
  "one_answer c m f (error_response c m k e (fh_sequence (ff_header f)) oc d)"
  "one_answer c m f (respond_error c m e (fh_sequence (ff_header f)) oc d)"
  "one_answer c m f (respond c m e (fh_sequence (ff_header f)) msg)"
  "one_answer c m f (respond_snapshot c m e (fh_sequence (ff_header f)) snap)"
  "one_answer c m f (respond_operation c m e (fh_sequence (ff_header f)) res mut)"
proof -
  show error: "one_answer c m f (error_response c m k e (fh_sequence (ff_header f)) oc d)" for k oc d
    unfolding error_response_def by (rule written_answer[OF error_is_reply(1)])
  show result: "one_answer c m f (respond c m e (fh_sequence (ff_header f)) msg)" for msg
    using error_behind[where i = MI_RESULT] by (auto simp: respond_def replies_def Let_def split: prod.split)
  show "one_answer c m f (respond_snapshot c m e (fh_sequence (ff_header f)) snap)"
    using error_behind[where i = MI_SNAPSHOT_RESPONSE] by (auto simp: respond_snapshot_def replies_def Let_def split: prod.split)
  show "one_answer c m f (respond_error c m e (fh_sequence (ff_header f)) oc d)" using error by (simp add: respond_error_def)
  show "one_answer c m f (respond_operation c m e (fh_sequence (ff_header f)) res mut)" using result by (simp add: respond_operation_def)
qed (rule one_answer_shapes(1))

lemma one_answer_carried:
  "carry_on e s sent = Some h \<Longrightarrow> one_answer c m f sent \<Longrightarrow> one_answer c m f (hd_sent h)"
  "reported c m s f done = Some h \<Longrightarrow> one_answer c m f (hd_sent h)"
  "reject_payload c m s e f = Some h \<Longrightarrow> one_answer c m f (hd_sent h)"
  by (auto simp: carry_on_def reported_def reject_payload_def one_answer_intros)

lemma hello_answer:
  assumes "handle_hello c m s e f = Some h" and "fh_message_id (ff_header f) = MI_HELLO"
  shows "one_answer c m f (hd_sent h)"
  using assms(1) assms(2)
  by (auto simp: handle_hello_def Let_def one_answer_carried one_answer_intros carry_on_def replies_def intro!: written_answer
      split: option.splits if_splits)

lemma handler_answers:
  "handle_register_publisher c m s e f = Some h \<Longrightarrow> one_answer c m f (hd_sent h)"
  "handle_fence_notice c m s e f = Some h \<Longrightarrow> one_answer c m f (hd_sent h)"
  "handle_create_policy c m s e f a = Some h \<Longrightarrow> one_answer c m f (hd_sent h)"
  "handle_update_policy c m s e f a = Some h \<Longrightarrow> one_answer c m f (hd_sent h)"
  "handle_policy_lifecycle c m s e f a = Some h \<Longrightarrow> one_answer c m f (hd_sent h)"
  "handle_revoke_policy c m s e f a = Some h \<Longrightarrow> one_answer c m f (hd_sent h)"
  "handle_upstream_notify c m s e f a = Some h \<Longrightarrow> one_answer c m f (hd_sent h)"
  "handle_publish_evidence c m s e f a = Some h \<Longrightarrow> one_answer c m f (hd_sent h)"
  "handle_evaluate c m s e f a = Some h \<Longrightarrow> one_answer c m f (hd_sent h)"
  "handle_commit_decision c m s e f a = Some h \<Longrightarrow> one_answer c m f (hd_sent h)"
  "handle_revalidate c m s e f a = Some h \<Longrightarrow> one_answer c m f (hd_sent h)"
  "handle_rollback c m s e f a = Some h \<Longrightarrow> one_answer c m f (hd_sent h)"
  "handle_query_state c m s e f = Some h \<Longrightarrow> one_answer c m f (hd_sent h)"
  "handle_snapshot_request c m s e f = Some h \<Longrightarrow> one_answer c m f (hd_sent h)"
  "handle_explain_request c m s e f = Some h \<Longrightarrow> one_answer c m f (hd_sent h)"
  "handle_diff_request c m s e f = Some h \<Longrightarrow> one_answer c m f (hd_sent h)"
  "handle_advance_epoch c m s e f = Some h \<Longrightarrow> one_answer c m f (hd_sent h)"
  unfolding handle_register_publisher_def handle_fence_notice_def handle_create_policy_def handle_update_policy_def
    handle_policy_lifecycle_def handle_revoke_policy_def handle_upstream_notify_def handle_publish_evidence_def handle_evaluate_def
    handle_commit_decision_def handle_revalidate_def handle_rollback_def handle_query_state_def handle_snapshot_request_def
    handle_explain_request_def handle_diff_request_def handle_advance_epoch_def Let_def
  by (auto simp: one_answer_intros dest: one_answer_carried(2,3) split: option.splits if_splits prod.splits)

lemma dispatch_answer: "dispatch c m s e f = Some h \<Longrightarrow> one_answer c m f (hd_sent h)"
  by (auto simp: dispatch_def Let_def route_frame_def one_answer_intros split: if_splits message_id.splits
      dest: handler_answers hello_answer elim!: one_answer_carried(1)[OF _ one_answer_intros(3)])

text \<open>A frame that answers \<open>f\<close>, as its peer decodes it.\<close>

definition whole_answer :: "server_config \<Rightarrow> frame \<Rightarrow> frame \<Rightarrow> string \<Rightarrow> bool" where
  "whole_answer c f r bytes \<longleftrightarrow>
     decode_frame bytes (lim_max_frame_bytes (sv_limits c)) = \<lparr>fd_status = FS_OK, fd_frame = r, fd_consumed = length bytes\<rparr>
     \<and> fh_sequence (ff_header r) = fh_sequence (ff_header f) \<and> gen_valid (fh_epoch (ff_header r))
     \<and> (fh_message_id (ff_header r) \<in> {MI_RESULT, MI_ERROR, MI_SNAPSHOT_RESPONSE}
        \<or> fh_message_id (ff_header r) = MI_HELLO_ACK \<and> fh_message_id (ff_header f) = MI_HELLO)"

lemma answers_readable:
  assumes "answers I c f bytes" and "I \<subseteq> replies f"
  shows "\<exists>r. whole_answer c f r bytes \<and> fh_message_id (ff_header r) \<in> I"
proof -
  obtain r where r: "sendable r (lim_max_frame_bytes (sv_limits c))" "received r = r" "bytes = frame_bytes r"
      "fh_sequence (ff_header r) = fh_sequence (ff_header f)" "fh_message_id (ff_header r) \<in> I"
    using assms(1) by (auto simp: answers_def)
  have "fh_message_id (ff_header r) \<in> replies f" using r(5) assms(2) by blast
  moreover have "gen_valid (fh_epoch (ff_header r))" using r(1) by (simp add: sendable_def)
  ultimately show ?thesis using decode_frame_bytes[OF r(1), of "[]"] r(2-5)
    by (intro exI[of _ r]) (auto simp: whole_answer_def replies_def split: if_splits)
qed

text \<open>
  C14: what the coordinator answers.  For one frame it writes at most one whole frame, and one its peer can
  read: the decoder accepts it as a whole, it is a result, an error, a snapshot or the acknowledgement of a
  greeting, and it carries the sequence number of the request and a valid epoch.  When a write fails, what is
  in front of it is at most a cut such frame, a proper prefix that the failed write left on the wire; the
  frame behind a cut one is an error, which the peer then meets in the middle of the cut frame; and no more
  than two writes are made.  When no write fails nothing is cut.
\<close>

theorem responses_are_frames:
  assumes "dispatch c m s e f = Some h"
  shows "\<exists>cuts whole. hd_sent h = cuts @ whole \<and> length whole \<le> 1 \<and> length (hd_sent h) \<le> 2
    \<and> ((\<forall>k. mo_delivered m k = None) \<longrightarrow> cuts = [])
    \<and> (\<forall>bytes \<in> set whole. \<exists>r. whole_answer c f r bytes \<and> (cuts \<noteq> [] \<longrightarrow> fh_message_id (ff_header r) = MI_ERROR))
    \<and> (\<forall>bytes \<in> set cuts. \<exists>r full n. whole_answer c f r full \<and> n < length full \<and> bytes = take n full)"
proof -
  obtain cuts whole where w: "hd_sent h = cuts @ whole" "length whole \<le> 1" "length (hd_sent h) \<le> 2"
      "\<forall>bytes \<in> set cuts. cut_answer (replies f) c f bytes"
      "\<forall>bytes \<in> set whole. answers (if cuts = [] then replies f else {MI_ERROR}) c f bytes"
      "(\<forall>k. mo_delivered m k = None) \<longrightarrow> cuts = []"
    using dispatch_answer[OF assms] unfolding one_answer_def by blast
  have all: "answers (replies f) c f bytes" if "bytes \<in> set whole" for bytes
    using w(5) that answers_mono[OF _ error_is_reply(2)] by (auto split: if_splits)
  have "\<exists>r. whole_answer c f r bytes \<and> (cuts \<noteq> [] \<longrightarrow> fh_message_id (ff_header r) = MI_ERROR)" if "bytes \<in> set whole" for bytes
  proof (cases "cuts = []")
    case False
    then show ?thesis using w(5) that answers_readable[of "{MI_ERROR}" c f bytes] error_is_reply(2) by auto
  qed (use all[OF that] answers_readable[of "replies f" c f bytes] in auto)
  moreover have "\<exists>r full n. whole_answer c f r full \<and> n < length full \<and> bytes = take n full" if "bytes \<in> set cuts" for bytes
    using w(4) that answers_readable[of "replies f" c f] by (fastforce simp: cut_answer_def)
  ultimately show ?thesis using w(1-3,6) by blast
qed

section \<open>A transaction\<close>

text \<open>The reads of an exchange deliver these pieces before the deadline.\<close>

definition delivers_pieces :: "ticks \<Rightarrow> read_turn list \<Rightarrow> string list \<Rightarrow> bool" where
  "delivers_pieces deadline us pieces \<longleftrightarrow> list_all2 (\<lambda>u piece. rd_now u < deadline \<and> piece \<noteq> []
     \<and> (\<forall>buffer. \<exists>r. receive True (deadline - rd_now u) (rd_call u) buffer = Some (buffer @ piece, r) \<and> rr_status r = RS_DATA)) us pieces"

lemma read_frame_whole:
  assumes "sendable f (lim_max_frame_bytes (cc_limits c))" and "delivers_pieces deadline us pieces"
    and "frame_bytes f = cl_buffer cl @ concat pieces" and "cl_connected cl"
  shows "read_frame c started deadline us cl
    = Some (cl\<lparr>cl_buffer := [], cl_epoch := fh_epoch (ff_header f)\<rparr>, [], Inr (received f))"
  using assms(2-4)
proof (induction pieces arbitrary: us cl)
  case Nil
  have "decode_frame (cl_buffer cl) (lim_max_frame_bytes (cc_limits c))
      = \<lparr>fd_status = FS_OK, fd_frame = received f, fd_consumed = length (cl_buffer cl)\<rparr>"
    using decode_frame_bytes[OF assms(1), of "[]"] Nil.prems(2) by simp
  moreover have "gen_valid (fh_epoch (ff_header f))" using assms(1) by (simp add: sendable_def)
  ultimately show ?case using Nil.prems(1)
    by (subst read_frame.simps) (simp add: delivers_pieces_def absorb_epoch_def received_def)
next
  case (Cons piece pieces)
  obtain u rest where us: "us = u # rest" "delivers_pieces deadline rest pieces" "rd_now u < deadline" "piece \<noteq> []"
      "\<exists>r. receive True (deadline - rd_now u) (rd_call u) (cl_buffer cl) = Some (cl_buffer cl @ piece, r) \<and> rr_status r = RS_DATA"
    using Cons.prems(1) by (auto simp: delivers_pieces_def list_all2_Cons2)
  then obtain r where r: "receive True (deadline - rd_now u) (rd_call u) (cl_buffer cl) = Some (cl_buffer cl @ piece, r)" "rr_status r = RS_DATA"
    by blast
  have len: "length (cl_buffer cl) < length (frame_bytes f)" using Cons.prems(2) us(4) by simp
  have "take (length (cl_buffer cl)) (frame_bytes f) = cl_buffer cl" using Cons.prems(2) by simp
  then have "fd_status (decode_frame (cl_buffer cl) (lim_max_frame_bytes (cc_limits c))) = FS_INCOMPLETE"
    using decode_frame_prefix[OF assms(1) len] by simp
  moreover have "read_frame c started deadline rest (cl\<lparr>cl_buffer := cl_buffer cl @ piece\<rparr>)
      = Some (cl\<lparr>cl_buffer := [], cl_epoch := fh_epoch (ff_header f)\<rparr>, [], Inr (received f))"
    using Cons.IH[OF us(2), of "cl\<lparr>cl_buffer := cl_buffer cl @ piece\<rparr>"] Cons.prems(2,3) by simp
  ultimately show ?case using us(1,3) r Cons.prems(3) by (subst read_frame.simps) (simp add: Let_def not_le)
qed

definition requested :: "message_id \<Rightarrow> string \<Rightarrow> client \<Rightarrow> frame" where
  "requested i payload cl = (let f = make_frame i payload in
     f\<lparr>ff_header := (ff_header f)\<lparr>fh_sequence := cl_sequence cl + 1, fh_epoch := cl_epoch cl\<rparr>\<rparr>)"

definition numbered :: "client \<Rightarrow> client" where
  "numbered cl = cl\<lparr>cl_sequence := cl_sequence cl + 1\<rparr>"

lemma transact_eq: "cl_connected cl \<Longrightarrow> transact c i payload skip x cl =
   (case write_frame c (ex_send x) (requested i payload cl) (numbered cl) of
      None \<Rightarrow> None
    | Some (sent, Some error) \<Rightarrow> Some (numbered cl, sent, Inl error)
    | Some (sent, None) \<Rightarrow>
      case await c skip (ex_started x) (saturating_add (ex_started x) (cc_io_budget c)) (ex_reads x) (numbered cl) of
        None \<Rightarrow> None | Some (cl2, answer) \<Rightarrow> Some (cl2, sent, answer))"
  unfolding transact_def requested_def numbered_def Let_def by simp

lemma write_frame_sent:
  assumes "write_frame c k (requested i payload cl) (numbered cl) = Some (sent, None)" and "cl_connected cl"
  shows "\<exists>g. sendable g (lim_max_frame_bytes (cc_limits c)) \<and> received g = g \<and> sent = frame_bytes g
    \<and> fh_message_id (ff_header g) = i \<and> ff_payload g = payload \<and> fh_sequence (ff_header g) = cl_sequence cl + 1"
proof -
  let ?g = "\<lparr>ff_header = \<lparr>fh_wire_version = wire_protocol_version, fh_message_id = i, fh_flags = 0,
     fh_payload_length = word_of_nat (length payload), fh_sequence = cl_sequence cl + 1, fh_epoch = cl_epoch cl\<rparr>, ff_payload = payload\<rparr>"
  have "(if length payload > 0xFFFFFFFF then None else encode_frame ?g (lim_max_frame_bytes (cc_limits c))) \<noteq> None
      \<and> (\<forall>bytes. encode_frame ?g (lim_max_frame_bytes (cc_limits c)) = Some bytes \<longrightarrow> sent = bytes)"
    using assms by (auto simp: write_frame_def requested_def numbered_def make_frame_def Let_def send_all_def
        split: if_splits option.splits prod.splits)
  then show ?thesis
    by (intro exI[of _ ?g]) (auto simp: encode_frame_eq received_def split: if_splits)
qed

text \<open>
  C13: request and response meet.  A connected client with nothing left in its buffer sends a request; the
  coordinator that receives those bytes decodes exactly that request.  When the coordinator answers it, no
  write of its fails, and the answer arrives before the client's deadline, cut into pieces anywhere, the client's call returns
  that answer, read as a result, stays connected with an empty buffer, and has taken over the epoch of
  the coordinator.
\<close>

theorem request_meets_response:
  assumes "cl_connected cl" and "cl_buffer cl = []" and "cc_limits cc = sv_limits c"
    and "i \<noteq> MI_HELLO"
    and "write_frame cc (ex_send x) (requested i payload cl) (numbered cl) = Some (sent, None)"
    and "dispatch c m s e g = Some h" and "hd_sent h = [bytes]" and "\<forall>k. mo_delivered m k = None"
    and "decode_frame sent (lim_max_frame_bytes (sv_limits c)) = \<lparr>fd_status = FS_OK, fd_frame = g, fd_consumed = n\<rparr>"
    and "delivers_pieces (saturating_add (ex_started x) (cc_io_budget cc)) (ex_reads x) pieces" and "concat pieces = bytes"
  shows "n = length sent \<and> fh_message_id (ff_header g) = i \<and> ff_payload g = payload
    \<and> (\<exists>r. decode_frame bytes (lim_max_frame_bytes (sv_limits c)) = \<lparr>fd_status = FS_OK, fd_frame = r, fd_consumed = length bytes\<rparr>
       \<and> fh_sequence (ff_header r) = cl_sequence (numbered cl)
       \<and> client_send cc (make_frame i payload) x cl
          = Some ((numbered cl)\<lparr>cl_epoch := fh_epoch (ff_header r)\<rparr>, sent, decode_answer cc r))"
proof -
  obtain g' where g': "sendable g' (lim_max_frame_bytes (cc_limits cc))" "received g' = g'" "sent = frame_bytes g'"
      "fh_message_id (ff_header g') = i" "ff_payload g' = payload" "fh_sequence (ff_header g') = cl_sequence cl + 1"
    using write_frame_sent[OF assms(5,1)] by auto
  have g: "g = g'" "n = length sent"
    using decode_frame_bytes[OF g'(1), of "[]"] assms(3,9) g'(2,3) by auto
  obtain r where r: "sendable r (lim_max_frame_bytes (cc_limits cc))" "received r = r" "bytes = frame_bytes r"
      "fh_sequence (ff_header r) = cl_sequence cl + 1" "fh_message_id (ff_header r) \<noteq> MI_HELLO_ACK"
    using dispatch_answer[OF assms(6)] assms(3,4,7,8) g g'(4,6) by (auto simp: one_answer_def answers_def replies_def split: if_splits)
  have read: "read_frame cc (ex_started x) (saturating_add (ex_started x) (cc_io_budget cc)) (ex_reads x) (numbered cl)
      = Some ((numbered cl)\<lparr>cl_buffer := [], cl_epoch := fh_epoch (ff_header r)\<rparr>, [], Inr (received r))"
    by (rule read_frame_whole[OF r(1) assms(10)]) (use assms(1,2,11) r(3) in \<open>simp_all add: numbered_def\<close>)
  have same: "(numbered cl)\<lparr>cl_buffer := [], cl_epoch := fh_epoch (ff_header r)\<rparr> = (numbered cl)\<lparr>cl_epoch := fh_epoch (ff_header r)\<rparr>"
    using assms(2) by (simp add: numbered_def)
  have "await cc True (ex_started x) (saturating_add (ex_started x) (cc_io_budget cc)) (ex_reads x) (numbered cl)
      = Some ((numbered cl)\<lparr>cl_epoch := fh_epoch (ff_header r)\<rparr>, Inr r)"
    by (subst await.simps) (simp add: read same r(2,5))
  then have "client_send cc (make_frame i payload) x cl
          = Some ((numbered cl)\<lparr>cl_epoch := fh_epoch (ff_header r)\<rparr>, sent, decode_answer cc r)"
    using assms(5) by (simp add: client_send_def transact_eq[OF assms(1)] make_frame_def)
  moreover have "decode_frame bytes (lim_max_frame_bytes (sv_limits c)) = \<lparr>fd_status = FS_OK, fd_frame = r, fd_consumed = length bytes\<rparr>"
    using decode_frame_bytes[OF r(1), of "[]"] r(2,3) assms(3) by simp
  ultimately show ?thesis using g g'(4,5) r(4) by (auto simp: numbered_def)
qed

section \<open>A small exchange\<close>

text \<open>
  A state query of one byte, which the coordinator of the samples refuses because the session has not
  registered; the request is taken in one call and the answer arrives in one piece.
\<close>

definition sample_client_config :: client_config where
  "sample_client_config = \<lparr>cc_limits = default_limits, cc_io_budget = 1000, cc_endpoint = ''localhost:7''\<rparr>"

definition sample_client :: client where
  "sample_client = \<lparr>cl_connected = True, cl_session = StrongId ''s'', cl_publisher = StrongId ''p'', cl_worker_boot = StrongId ''b'',
     cl_sequence = 0, cl_epoch = gen_first, cl_authority = gen_first, cl_buffer = []\<rparr>"

definition prompt_exchange :: "nat \<Rightarrow> string \<Rightarrow> exchange" where
  "prompt_exchange n bytes =
    \<lparr>ex_send = \<lparr>sk_started = 0, sk_observed = 0, sk_turns = [\<lparr>st_now = 0, st_ready = RE_READY, st_guard = 0, st_uptake = UP_TAKEN n\<rparr>]\<rparr>,
     ex_started = 0,
     ex_reads = [\<lparr>rd_now = 1, rd_call = \<lparr>sk_started = 1, sk_observed = 1, sk_turns =
         [\<lparr>rt_now = 1, rt_ready = RE_READY, rt_guard = 1, rt_delivery = DE_BYTES bytes\<rparr>,
          \<lparr>rt_now = 2, rt_ready = RE_IDLE, rt_guard = 2, rt_delivery = DE_INTERRUPTED\<rparr>]\<rparr>, rd_after = 2\<rparr>]\<rparr>"

lemma prompt_send: "bytes \<noteq> [] \<Longrightarrow> send_all True bytes budget (ex_send (prompt_exchange (length bytes) answer)) = Some (bytes, None)"
  by (cases "length bytes") (simp_all add: send_all_def prompt_exchange_def open_guard_def send_loop.simps)

lemma prompt_receive:
  "bytes \<noteq> [] \<Longrightarrow> \<exists>r. receive True 999 (rd_call (hd (ex_reads (prompt_exchange n bytes)))) buffer = Some (buffer @ bytes, r) \<and> rr_status r = RS_DATA"
  by (cases bytes) (auto simp: receive_def prompt_exchange_def saturating_add_def open_guard_def Let_def word_le_nat_alt)

lemma prompt_reads: "bytes \<noteq> [] \<Longrightarrow> delivers_pieces (saturating_add (ex_started (prompt_exchange n bytes)) 1000) (ex_reads (prompt_exchange n bytes)) [bytes]"
  using prompt_receive[of bytes n]
  by (simp add: delivers_pieces_def) (simp add: prompt_exchange_def saturating_add_def)

lemma sample_request:
  "write_frame sample_client_config (ex_send (prompt_exchange 41 answer)) (requested MI_QUERY_STATE ''x'' sample_client) (numbered sample_client)
     = Some (frame_bytes (requested MI_QUERY_STATE ''x'' sample_client), None)"
  "sendable (requested MI_QUERY_STATE ''x'' sample_client) (lim_max_frame_bytes default_limits)"
  "received (requested MI_QUERY_STATE ''x'' sample_client) = requested MI_QUERY_STATE ''x'' sample_client"
proof -
  let ?f = "requested MI_QUERY_STATE ''x'' sample_client"
  show ok: "sendable ?f (lim_max_frame_bytes default_limits)"
    by (simp add: sendable_def requested_def make_frame_def sample_client_def gen_valid_def gen_first_def Let_def default_limits_def)
  show "received ?f = ?f" by (simp add: received_def requested_def make_frame_def Let_def)
  have len: "length (frame_bytes ?f) = 41" by (simp add: frame_bytes_length requested_def make_frame_def Let_def)
  then have sent: "send_all True (frame_bytes ?f) 1000 (ex_send (prompt_exchange 41 answer)) = Some (frame_bytes ?f, None)"
    using prompt_send[of "frame_bytes ?f" 1000 answer] by (metis list.size(3) zero_neq_numeral)
  have "?f\<lparr>ff_header := (ff_header ?f)\<lparr>fh_wire_version := wire_protocol_version, fh_flags := 0,
      fh_epoch := (if gen_valid (fh_epoch (ff_header ?f)) then fh_epoch (ff_header ?f) else cl_epoch (numbered sample_client)),
      fh_payload_length := word_of_nat (length (ff_payload ?f))\<rparr>\<rparr> = ?f"
    by (simp add: requested_def make_frame_def sample_client_def gen_valid_def gen_first_def Let_def)
  moreover have "length (ff_payload ?f) = 1" "cl_connected (numbered sample_client)" "cc_io_budget sample_client_config = 1000"
      "cc_limits sample_client_config = default_limits"
    by (simp_all add: requested_def make_frame_def numbered_def sample_client_def sample_client_config_def Let_def)
  ultimately show "write_frame sample_client_config (ex_send (prompt_exchange 41 answer)) ?f (numbered sample_client) = Some (frame_bytes ?f, None)"
    using ok sent by (simp add: write_frame_def encode_frame_eq Let_def)
qed

lemma short_error:
  assumes "length d \<le> 100"
  shows "\<exists>bytes. respond_error sample_config quiet_moment sample_engine q oc d = [bytes]"
proof -
  have v: "gen_valid (g_epoch (en_state sample_engine))" by code_simp
  have "length (encode_error \<lparr>om_outcome = oc, om_detail = d\<rparr>) \<le> 200"
    using assms by (simp add: encode_error_def put_string_def put_bytes_def put_u16_def put_u64_def)
  then show ?thesis
    using v by (simp add: respond_error_def error_response_def write_response_def encode_frame_eq sendable_def sample_config_def
        quiet_moment_def) (simp add: default_limits_def)
qed

lemma sample_answer:
  assumes "fh_message_id (ff_header f) = MI_QUERY_STATE"
  shows "\<exists>h bytes. dispatch sample_config quiet_moment (sample_session False) sample_engine f = Some h \<and> hd_sent h = [bytes]"
proof -
  let ?d = "''session '' @ id_text (sx_id (sample_session False)) @ '' must register a publisher before '' @ message_id_to_string MI_QUERY_STATE"
  have "length ?d \<le> 100" by code_simp
  then obtain bytes where "respond_error sample_config quiet_moment sample_engine (fh_sequence (ff_header f)) Out_UNAUTHORIZED ?d = [bytes]"
    using short_error by blast
  moreover have "\<not> sx_registered (sample_session False)" by (simp add: sample_session_def)
  ultimately show ?thesis
    by (simp only: dispatch_def Let_def assms message_id.distinct carry_on_def session.simps)
      (auto simp: message_id.distinct)
qed

theorem responses_are_frames_witness:
  "\<exists>h bytes r. dispatch sample_config quiet_moment (sample_session False) sample_engine sample_query_frame = Some h \<and> hd_sent h = [bytes]
     \<and> decode_frame bytes (lim_max_frame_bytes default_limits) = \<lparr>fd_status = FS_OK, fd_frame = r, fd_consumed = length bytes\<rparr>"
proof -
  obtain h bytes where h: "dispatch sample_config quiet_moment (sample_session False) sample_engine sample_query_frame = Some h" "hd_sent h = [bytes]"
    using sample_answer[of sample_query_frame] by (auto simp: sample_query_frame_def make_frame_def)
  have "sv_limits sample_config = default_limits" by (simp add: sample_config_def)
  moreover have "\<forall>k. mo_delivered quiet_moment k = None" by (simp add: quiet_moment_def)
  ultimately show ?thesis using responses_are_frames[OF h(1)] h by (auto simp: whole_answer_def)
qed

theorem request_meets_response_witness:
  "\<exists>bytes cl' r. client_send sample_client_config (make_frame MI_QUERY_STATE ''x'') (prompt_exchange 41 bytes) sample_client
       = Some (cl', frame_bytes (requested MI_QUERY_STATE ''x'' sample_client), decode_answer sample_client_config r)
     \<and> fh_sequence (ff_header r) = 1 \<and> cl_connected cl'"
proof -
  let ?f = "requested MI_QUERY_STATE ''x'' sample_client"
  have "fh_message_id (ff_header ?f) = MI_QUERY_STATE" by (simp add: requested_def make_frame_def Let_def)
  then obtain h bytes where h: "dispatch sample_config quiet_moment (sample_session False) sample_engine ?f = Some h" "hd_sent h = [bytes]"
    using sample_answer by blast
  have whole: "\<forall>k. mo_delivered quiet_moment k = None" by (simp add: quiet_moment_def)
  have ne: "bytes \<noteq> []" using dispatch_answer[OF h(1)] h(2) whole by (auto simp: one_answer_def answers_def frame_bytes_nonempty)
  have d: "decode_frame (frame_bytes ?f) (lim_max_frame_bytes (sv_limits sample_config))
      = \<lparr>fd_status = FS_OK, fd_frame = ?f, fd_consumed = length (frame_bytes ?f)\<rparr>"
    using decode_frame_bytes[OF sample_request(2), of "[]"] sample_request(3) by (simp add: sample_config_def)
  have "cl_connected sample_client" "cl_buffer sample_client = []" "cc_limits sample_client_config = sv_limits sample_config"
      "MI_QUERY_STATE \<noteq> MI_HELLO" "concat [bytes] = bytes" "cc_io_budget sample_client_config = 1000"
    by (simp_all add: sample_client_def sample_client_config_def sample_config_def)
  moreover have "delivers_pieces (saturating_add (ex_started (prompt_exchange 41 bytes)) (cc_io_budget sample_client_config))
      (ex_reads (prompt_exchange 41 bytes)) [bytes]"
    using prompt_reads[OF ne] by (simp add: sample_client_config_def)
  ultimately show ?thesis
    using request_meets_response[where x = "prompt_exchange 41 bytes" and pieces = "[bytes]" and cl = sample_client
        and cc = sample_client_config and c = sample_config and i = MI_QUERY_STATE and payload = "''x''"
        and m = quiet_moment and s = "sample_session False" and e = sample_engine, OF _ _ _ _ sample_request(1) h whole d]
    by (fastforce simp: numbered_def sample_client_def)
qed

section \<open>A transaction that fails\<close>

lemma read_frame_failed:
  "read_frame c started deadline us cl = Some (cl', us', Inl error) \<Longrightarrow> \<not> cl_connected cl' \<and> cl_buffer cl' = []"
proof (induction us arbitrary: cl)
  case Nil
  then show ?case by (subst (asm) read_frame.simps) (auto simp: Let_def abandon_def split: if_splits)
next
  case (Cons u us)
  then show ?case
    by (subst (asm) (2) read_frame.simps)
      (auto simp: Let_def abandon_def split: if_splits option.splits prod.splits receive_status.splits)
qed

lemma await_failed:
  "await c skip started deadline us cl = Some (cl', Inl error) \<Longrightarrow> \<not> cl_connected cl' \<and> cl_buffer cl' = []"
proof (induction c skip started deadline us cl rule: await.induct)
  case (1 c skip started deadline us cl)
  show ?case using "1.prems"
    by (subst (asm) await.simps)
      (auto split: option.splits prod.splits sum.splits if_splits dest: read_frame_failed "1.IH"[OF _ refl refl])
qed

text \<open>
  C15: a failed transaction leaves no late response behind, unless it failed while sending.  When the
  request was written and no answer came of it, the connection is closed and its buffer is empty, so an
  answer that is still under way is never paired with the next request.  When the write failed, however
  much of the request it had sent, the connection stays open.
\<close>

theorem failed_transaction_disconnects:
  assumes "transact c i payload skip x cl = Some (cl', sent, Inl error)" and "cl_connected cl"
  shows "if write_frame c (ex_send x) (requested i payload cl) (numbered cl) = Some (sent, Some error)
     then cl_connected cl' \<and> cl_buffer cl' = cl_buffer cl
     else \<not> cl_connected cl' \<and> cl_buffer cl' = []"
  using assms
  by (auto simp: transact_eq numbered_def split: option.splits prod.splits dest: await_failed)

theorem failed_transaction_disconnects_witness:
  "\<exists>cl' sent error. transact sample_client_config MI_QUERY_STATE ''x'' True (prompt_exchange 41 []) sample_client = Some (cl', sent, Inl error)
     \<and> \<not> cl_connected cl'"
proof -
  have "\<exists>cl' us error. read_frame sample_client_config 0 1000 (ex_reads (prompt_exchange 41 [])) (numbered sample_client) = Some (cl', us, Inl error)"
    by (simp add: read_frame.simps numbered_def sample_client_def decode_frame_def frame_header_bytes_def frame_failure_def Let_def
        prompt_exchange_def receive_def saturating_add_def open_guard_def)
  then obtain cl' us error where r: "read_frame sample_client_config 0 1000 (ex_reads (prompt_exchange 41 [])) (numbered sample_client) = Some (cl', us, Inl error)"
    by blast
  then have "await sample_client_config True 0 1000 (ex_reads (prompt_exchange 41 [])) (numbered sample_client) = Some (cl', Inl error)"
    by (subst await.simps) simp
  moreover have "ex_started (prompt_exchange 41 []) = 0" "saturating_add 0 (cc_io_budget sample_client_config) = 1000"
    by (simp_all add: prompt_exchange_def saturating_add_def sample_client_config_def)
  moreover have c: "cl_connected sample_client" by (simp add: sample_client_def)
  ultimately have t: "transact sample_client_config MI_QUERY_STATE ''x'' True (prompt_exchange 41 []) sample_client
      = Some (cl', frame_bytes (requested MI_QUERY_STATE ''x'' sample_client), Inl error)"
    by (simp add: transact_eq sample_request(1))
  show ?thesis using failed_transaction_disconnects[OF t c] t by (auto simp: sample_request(1))
qed

text \<open>A response that is already in the buffer is taken for the next request's, whatever its sequence number.\<close>

lemma surplus_frame_is_taken:
  assumes "cl_connected cl" and "sendable r (lim_max_frame_bytes (cc_limits c))" and "cl_buffer cl = frame_bytes r @ rest"
    and "fh_message_id (ff_header r) \<noteq> MI_HELLO_ACK"
    and "write_frame c (ex_send x) (requested i payload cl) (numbered cl) = Some (sent, None)"
  shows "\<exists>cl'. transact c i payload skip x cl = Some (cl', sent, Inr (received r))"
proof -
  let ?a = "ex_started x" and ?b = "saturating_add (ex_started x) (cc_io_budget c)"
  obtain cl1 where "read_frame c ?a ?b (ex_reads x) (numbered cl) = Some (cl1, ex_reads x, Inr (received r))"
    using decode_frame_bytes[OF assms(2), of rest] assms(3) by (subst (asm) read_frame.simps) (simp add: numbered_def)
  moreover have "fh_message_id (ff_header (received r)) \<noteq> MI_HELLO_ACK" using assms(4) by (simp add: received_def)
  ultimately have "await c skip ?a ?b (ex_reads x) (numbered cl) = Some (cl1, Inr (received r))"
    by (subst await.simps) simp
  then show ?thesis using assms(1,5) by (simp add: transact_eq)
qed

end
