(* ===== verification/Command_Line.thy ===== *)
theory Command_Line
  imports Client
begin

text \<open>
  What the command line tools share (\<^verbatim>\<open>tools/tool_common.hpp\<close>): text and number parsing, arguments,
  endpoints, the classification and rendering of results, and the opening of a session.  A parser that
  reports an error returns its text on the left.
\<close>

section \<open>Text\<close>

definition is_space :: "char \<Rightarrow> bool" where
  "is_space c = (c = CHR '' '' \<or> of_char c = (9::nat) \<or> of_char c = (13::nat))"

definition starts_with :: "string \<Rightarrow> string \<Rightarrow> bool" where
  "starts_with text beginning = (length text \<ge> length beginning \<and> take (length beginning) text = beginning)"

definition trim :: "string \<Rightarrow> string" where
  "trim text = rev (dropWhile is_space (rev (dropWhile is_space text)))"

function split_fields :: "string \<Rightarrow> string list" where
  "split_fields text =
    (let rest = dropWhile is_space text in
     if rest = [] then [] else takeWhile (\<lambda>c. \<not> is_space c) rest # split_fields (dropWhile (\<lambda>c. \<not> is_space c) rest))"
  by pat_completeness auto
termination
proof (relation "measure length")
  fix t rest :: string
  assume r: "rest = dropWhile is_space t" "rest \<noteq> []"
  obtain c cs where c: "rest = c # cs" using r(2) by (cases rest) auto
  then have "\<not> is_space c" using r(1) by (metis hd_dropWhile list.sel(1) r(2))
  then have "length (dropWhile (\<lambda>c. \<not> is_space c) rest) < length rest"
    using c by (simp add: le_imp_less_Suc length_dropWhile_le)
  also have "length rest \<le> length t" by (simp add: r(1) length_dropWhile_le)
  finally show "(dropWhile (\<lambda>c. \<not> is_space c) rest, t) \<in> measure length" by simp
qed simp

declare split_fields.simps [simp del]

fun skip_fields :: "nat \<Rightarrow> string \<Rightarrow> string option" where
  "skip_fields 0 text = Some text"
| "skip_fields (Suc n) text =
    (let rest = dropWhile is_space text in
     if rest = [] then None else skip_fields n (dropWhile (\<lambda>c. \<not> is_space c) rest))"

definition rest_after_fields :: "string \<Rightarrow> nat \<Rightarrow> string" where
  "rest_after_fields text n = (case skip_fields n text of None \<Rightarrow> [] | Some rest \<Rightarrow> trim rest)"

function split_on :: "char \<Rightarrow> string \<Rightarrow> string list" where
  "split_on separator text =
    (case dropWhile (\<lambda>c. c \<noteq> separator) text of
       [] \<Rightarrow> [text]
     | _ # rest \<Rightarrow> takeWhile (\<lambda>c. c \<noteq> separator) text # split_on separator rest)"
  by pat_completeness auto
termination
proof (relation "measure (\<lambda>(separator, t). length t)")
  fix separator c and t rest :: string
  assume "dropWhile (\<lambda>c. c \<noteq> separator) t = c # rest"
  then have "length (c # rest) \<le> length t" by (metis length_dropWhile_le)
  then show "((separator, rest), separator, t) \<in> measure (\<lambda>(separator, t). length t)" by simp
qed simp

declare split_on.simps [simp del]

text \<open>A last line that is empty does not count.\<close>

definition split_lines :: "string \<Rightarrow> string list" where
  "split_lines text = (let parts = split_on (CHR 0x0A) text in if last parts = [] then butlast parts else parts)"

section \<open>Numbers\<close>

definition is_digit :: "char \<Rightarrow> bool" where
  "is_digit c = (48 \<le> (of_char c :: nat) \<and> (of_char c :: nat) \<le> 57)"

fun unsigned_digits :: "u64 \<Rightarrow> string \<Rightarrow> u64 option" where
  "unsigned_digits value [] = Some value"
| "unsigned_digits value (c # cs) =
    (if \<not> is_digit c then None
     else let digit = of_nat (of_char c - 48) in
       if value > (u64_max - digit) div 10 then None else unsigned_digits (value * 10 + digit) cs)"

definition parse_unsigned :: "string \<Rightarrow> u64 option" where
  "parse_unsigned text = (if text = [] \<or> length text > 20 then None else unsigned_digits 0 text)"

definition parse_integer :: "string \<Rightarrow> int option" where
  "parse_integer text =
    (let signed = text \<noteq> [] \<and> (hd text = CHR ''-'' \<or> hd text = CHR ''+'');
         negative = signed \<and> hd text = CHR ''-'' in
     case parse_unsigned (if signed then tl text else text) of
       None \<Rightarrow> None
     | Some magnitude \<Rightarrow>
       if magnitude > (if negative then 0x8000000000000000 else 0x7FFFFFFFFFFFFFFF) then None
       else Some (if negative then - uint magnitude else uint magnitude))"

definition parse_bounded_u32 :: "string \<Rightarrow> u32 option" where
  "parse_bounded_u32 text =
    (case parse_unsigned text of
       None \<Rightarrow> None | Some value \<Rightarrow> if value > 0xFFFFFFFF then None else Some (ucast value))"

text \<open>The test before each step is exact: the number is accepted exactly when it fits.\<close>

lemma undec_grows: "acc \<le> undec acc cs"
proof (induction acc cs rule: undec.induct)
  case (2 acc c cs)
  have "acc \<le> 10 * acc + (of_char c - 48)" by simp
  then show ?case using 2 by (simp only: undec.simps)
qed simp

lemma room_for_digit: "d \<le> m \<Longrightarrow> (m - d) div 10 < v \<longleftrightarrow> m < 10 * v + d" for d m v :: nat
  by (auto simp: div_less_iff_less_mult)

lemma digit_step:
  fixes v d :: u64
  assumes "unat d \<le> 9"
  shows "v > (u64_max - d) div 10 \<longleftrightarrow> 2 ^ 64 \<le> 10 * unat v + unat d"
    and "\<not> v > (u64_max - d) div 10 \<Longrightarrow> unat (v * 10 + d) = 10 * unat v + unat d"
proof -
  have sub: "unat (u64_max - d) = 2 ^ 64 - 1 - unat d"
    by (simp add: unat_sub unsigned_minus_1_eq_mask mask_eq_exp_minus_1)
  have "unat ((u64_max - d) div 10) = (2 ^ 64 - 1 - unat d) div 10"
    by (simp only: unat_div sub) simp
  then have iff: "v > (u64_max - d) div 10 \<longleftrightarrow> (2 ^ 64 - 1 - unat d) div 10 < unat v"
    by (simp add: word_less_nat_alt)
  then show "v > (u64_max - d) div 10 \<longleftrightarrow> 2 ^ 64 \<le> 10 * unat v + unat d"
    using assms room_for_digit[of "unat d" "2 ^ 64 - 1" "unat v"] by (simp add: iff) linarith
  then show "unat (v * 10 + d) = 10 * unat v + unat d" if "\<not> v > (u64_max - d) div 10"
    using that by (simp add: unat_word_ariths not_le)
qed

lemma unsigned_digits_exact:
  "unsigned_digits v t = Some w \<longleftrightarrow> list_all is_digit t \<and> undec (unat v) t = unat w"
proof (induction v t rule: unsigned_digits.induct)
  case (1 v)
  then show ?case by (auto simp: word_unat_eq_iff)
next
  case (2 v c cs)
  show ?case
  proof (cases "is_digit c")
    case True
    let ?d = "of_nat (of_char c - 48) :: u64"
    have small: "(of_char c :: nat) - 48 \<le> 9" using True unfolding is_digit_def by linarith
    then have d: "unat ?d = of_char c - 48" by (simp add: unat_of_nat take_bit_eq_mod)
    note step = digit_step[of ?d v, unfolded d, OF small]
    show ?thesis
    proof (cases "v > (u64_max - ?d) div 10")
      case over: True
      have "2 ^ 64 \<le> undec (unat v) (c # cs)"
        using step(1) over undec_grows[of "10 * unat v + (of_char c - 48)" cs] by simp
      moreover have "unat w < 2 ^ 64" using unsigned_less[of w, where 'a = nat] by simp
      ultimately have "undec (unat v) (c # cs) \<noteq> unat w" by linarith
      then show ?thesis using over True by (simp add: Let_def)
    next
      case False
      then show ?thesis using 2[OF _ refl False] True step(2)[OF False] by (simp add: Let_def)
    qed
  qed simp
qed

text \<open>
  Numbers are read exactly.  \<open>parse_unsigned\<close> accepts a text exactly when it is one to twenty decimal
  digits that denote a number below two to the 64, and yields that number: a value that does not fit is
  never wrapped.
\<close>

theorem parse_unsigned_is_exact:
  "parse_unsigned t = Some v \<longleftrightarrow> 1 \<le> length t \<and> length t \<le> 20 \<and> list_all is_digit t \<and> undec 0 t = unat v"
  by (cases "t = []") (auto simp: parse_unsigned_def unsigned_digits_exact Suc_le_eq)

section \<open>Arguments\<close>

record arg_set =
  ag_options :: "(string \<times> string) list"
  ag_positional :: "string list"

definition ag_has :: "arg_set \<Rightarrow> string \<Rightarrow> bool" where
  "ag_has a name = list_ex (\<lambda>entry. fst entry = name) (ag_options a)"

definition ag_values :: "arg_set \<Rightarrow> string \<Rightarrow> string list" where
  "ag_values a name = map snd (filter (\<lambda>entry. fst entry = name) (ag_options a))"

definition ag_count :: "arg_set \<Rightarrow> string \<Rightarrow> nat" where
  "ag_count a name = length (filter (\<lambda>entry. fst entry = name) (ag_options a))"

definition ag_value :: "arg_set \<Rightarrow> string \<Rightarrow> string option" where
  "ag_value a name = map_option snd (List.find (\<lambda>entry. fst entry = name) (ag_options a))"

definition ag_first_unknown :: "arg_set \<Rightarrow> string list \<Rightarrow> string option" where
  "ag_first_unknown a allowed = map_option fst (List.find (\<lambda>entry. fst entry \<notin> set allowed) (ag_options a))"

definition with_option :: "string \<Rightarrow> string \<Rightarrow> arg_set \<Rightarrow> arg_set" where
  "with_option name value a = a\<lparr>ag_options := (name, value) # ag_options a\<rparr>"

text \<open>The arguments after the name of the program.\<close>

fun parse_args :: "string list \<Rightarrow> arg_set" where
  "parse_args [] = \<lparr>ag_options = [], ag_positional = []\<rparr>"
| "parse_args (token # rest) =
    (if token = ''-h'' then with_option ''help'' [] (parse_args rest)
     else if \<not> starts_with token ''--'' then
       (let a = parse_args rest in a\<lparr>ag_positional := token # ag_positional a\<rparr>)
     else let before_sign = takeWhile (\<lambda>c. c \<noteq> CHR ''='') token in
       if before_sign \<noteq> token then with_option (drop 2 before_sign) (drop (length before_sign + 1) token) (parse_args rest)
       else case rest of
         next # rest' \<Rightarrow>
           if \<not> starts_with next ''--'' then with_option (drop 2 token) next (parse_args rest')
           else with_option (drop 2 token) [] (parse_args rest)
       | [] \<Rightarrow> with_option (drop 2 token) [] (parse_args rest))"

section \<open>Endpoints and identities\<close>

record endpoint =
  ea_host :: string
  ea_port :: u16

definition endpoint_render :: "endpoint \<Rightarrow> string" where
  "endpoint_render e = ea_host e @ '':'' @ dec (unat (ea_port e))"

definition attempt :: "string + 'a \<Rightarrow> ('a \<Rightarrow> string + 'b) \<Rightarrow> string + 'b" where
  "attempt r k = (case r of Inl error \<Rightarrow> Inl error | Inr x \<Rightarrow> k x)"

definition expecting :: "string \<Rightarrow> 'a option \<Rightarrow> string + 'a" where
  "expecting error v = (case v of None \<Rightarrow> Inl error | Some x \<Rightarrow> Inr x)"

definition quoted :: "string \<Rightarrow> string" where
  "quoted text = [CHR 0x27] @ text @ [CHR 0x27]"

definition after_last :: "char \<Rightarrow> string \<Rightarrow> string" where
  "after_last c text = rev (takeWhile (\<lambda>x. x \<noteq> c) (rev text))"

definition parse_endpoint :: "string \<Rightarrow> string + endpoint" where
  "parse_endpoint text =
    attempt
      (if text \<noteq> [] \<and> hd text = CHR ''['' then
         let host = takeWhile (\<lambda>c. c \<noteq> CHR '']'') (tl text); behind = drop (length host + 1) text in
         if behind = [] then Inl ''an IPv6 endpoint must close its bracket''
         else if length behind < 2 \<or> behind ! 1 \<noteq> CHR '':'' then Inl ''an IPv6 endpoint must be written [ADDRESS]:PORT''
         else Inr (host, drop 2 behind)
       else if CHR '':'' \<notin> set text then Inl (''endpoint '' @ quoted text @ '' must be written HOST:PORT'')
       else Inr (take (length text - length (after_last CHR '':'' text) - 1) text, after_last CHR '':'' text))
      (\<lambda>(host, port_text).
         if host = [] then Inl (''endpoint '' @ quoted text @ '' names no host'')
         else case parse_unsigned port_text of
           None \<Rightarrow> Inl (''endpoint '' @ quoted text @ '' does not carry a usable port'')
         | Some port \<Rightarrow>
           if port = 0 \<or> port > 65535 then Inl (''endpoint '' @ quoted text @ '' does not carry a usable port'')
           else Inr \<lparr>ea_host = host, ea_port = ucast port\<rparr>)"

text \<open>The option, then the environment's value, then a default; empty means none.\<close>

definition resolve_endpoint :: "arg_set \<Rightarrow> string option \<Rightarrow> string \<Rightarrow> string + endpoint" where
  "resolve_endpoint a configured fallback =
    (case ag_value a ''endpoint'' of
       Some given \<Rightarrow> parse_endpoint given
     | None \<Rightarrow>
       if configured \<noteq> None \<and> configured \<noteq> Some [] then
         (case parse_endpoint (the configured) of
            Inr e \<Rightarrow> Inr e | Inl error \<Rightarrow> Inl (''ARF_ENDPOINT is not a usable endpoint: '' @ error))
       else if fallback = [] then Inl ''--endpoint HOST:PORT is required''
       else parse_endpoint fallback)"

definition make_authority_scope :: "fabric_id \<Rightarrow> routing_namespace \<Rightarrow> authority_scope" where
  "make_authority_scope fabric name_space =
    \<lparr>as_fabric = fabric, as_namespace = name_space, as_routes = [], as_multipath_sets = []\<rparr>"

definition make_policy_scope :: "fabric_id \<Rightarrow> routing_namespace \<Rightarrow> policy_scope" where
  "make_policy_scope fabric name_space =
    \<lparr>sc_fabric = fabric, sc_namespace = name_space, sc_site = None, sc_path_class = no_id, sc_routes = [], sc_multipath_sets = []\<rparr>"

text \<open>\<open>None\<close> is an exception from \<^verbatim>\<open>require\<close>.\<close>

definition numbered_identity :: "string \<Rightarrow> session_id \<Rightarrow> u64 \<Rightarrow> 'tag strong_id option" where
  "numbered_identity mark session counter =
    (let body = (if id_valid session then id_text session else ''arf'');
         suffix = ''-'' @ mark @ dec (unat counter) in
     case id_parse 64 (take (64 - length suffix) body @ suffix) of
       Some i \<Rightarrow> Some i
     | None \<Rightarrow> id_parse 64 (mark @ ''-'' @ dec (unat counter)))"

definition make_revalidation_attempt :: "session_id \<Rightarrow> u64 \<Rightarrow> revalidation_attempt_id option" where
  "make_revalidation_attempt = numbered_identity ''rv''"

definition make_upstream_attempt :: "session_id \<Rightarrow> u64 \<Rightarrow> mutation_attempt_id option" where
  "make_upstream_attempt = numbered_identity ''n''"

section \<open>Results\<close>

datatype command_verdict = CV_APPLIED | CV_ANSWERED | CV_REFUSED

definition classify_outcome :: "outcome \<Rightarrow> command_verdict" where
  "classify_outcome outcome = (case outcome of
     Out_POLICY_CREATED \<Rightarrow> CV_APPLIED | Out_POLICY_UPDATED \<Rightarrow> CV_APPLIED | Out_DECISION_COMMITTED \<Rightarrow> CV_APPLIED | Out_IDEMPOTENT \<Rightarrow> CV_APPLIED
   | Out_NO_CHANGE \<Rightarrow> CV_ANSWERED | Out_SUPPRESSED \<Rightarrow> CV_ANSWERED | Out_STALE_EVIDENCE \<Rightarrow> CV_ANSWERED
   | Out_STALE_PATH_AUTHORITY \<Rightarrow> CV_ANSWERED | Out_STALE_MULTIPATH_SET \<Rightarrow> CV_ANSWERED | Out_STALE_ROUTE \<Rightarrow> CV_ANSWERED
   | Out_WITHDRAWN_UPSTREAM \<Rightarrow> CV_ANSWERED | Out_HOLD_DOWN_ACTIVE \<Rightarrow> CV_ANSWERED | Out_COOLDOWN_ACTIVE \<Rightarrow> CV_ANSWERED
   | Out_HYSTERESIS_NOT_CLEARED \<Rightarrow> CV_ANSWERED | Out_INSUFFICIENT_EVIDENCE \<Rightarrow> CV_ANSWERED
   | Out_NO_ELIGIBLE_CANDIDATE \<Rightarrow> CV_ANSWERED | Out_NO_CURRENT_PREFERENCE \<Rightarrow> CV_ANSWERED | Out_CHURN_LIMIT_REACHED \<Rightarrow> CV_ANSWERED
   | _ \<Rightarrow> CV_REFUSED)"

definition outcome_is_refusal :: "outcome \<Rightarrow> bool" where
  "outcome_is_refusal outcome = (classify_outcome outcome = CV_REFUSED)"

definition render_result :: "result_message \<Rightarrow> string" where
  "render_result m =
    (if tm_rendered m \<noteq> [] then tm_rendered m
     else outcome_to_string (tm_outcome m)
       @ (if tm_suppression m \<noteq> Sup_NONE then '' suppression='' @ suppression_to_string (tm_suppression m) else [])
       @ (if tm_detail m \<noteq> [] then '' detail='' @ tm_detail m else []))"

definition label_policy_line :: "string \<Rightarrow> string" where
  "label_policy_line line =
    (let head = takeWhile (\<lambda>c. c \<noteq> CHR '' '') line in
     if CHR ''='' \<in> set head then line else ''policy='' @ head @ drop (length head) line)"

definition limit_lines :: "string list" where
  "limit_lines = map (\<lambda>(name, value). name @ ''='' @ dec (unat value)) (limits_describe default_limits)"

text \<open>What a command writes to its two streams, and its exit code.\<close>

definition exit_ok :: nat where "exit_ok = 0"
definition exit_refused :: nat where "exit_refused = 1"
definition exit_usage :: nat where "exit_usage = 2"

record report =
  rp_out :: "string list"
  rp_err :: "string list"
  rp_code :: nat

definition report_result :: "string + result_message \<Rightarrow> report" where
  "report_result r =
    (case r of
       Inl error \<Rightarrow> \<lparr>rp_out = [], rp_err = [''arf: '' @ error], rp_code = exit_refused\<rparr>
     | Inr m \<Rightarrow> \<lparr>rp_out = [render_result m], rp_err = [],
         rp_code = (if outcome_is_refusal (tm_outcome m) then exit_refused else exit_ok)\<rparr>)"

definition report_state :: "string + result_message \<Rightarrow> report" where
  "report_state r =
    (case r of
       Inl error \<Rightarrow> \<lparr>rp_out = [], rp_err = [''arf: '' @ error], rp_code = exit_refused\<rparr>
     | Inr m \<Rightarrow>
       if outcome_is_refusal (tm_outcome m) then \<lparr>rp_out = [render_result m], rp_err = [], rp_code = exit_refused\<rparr>
       else let rendered = map label_policy_line (filter (\<lambda>line. line \<noteq> []) (split_lines (tm_rendered m))) in
         \<lparr>rp_out = [''epoch='' @ gen_text (tm_epoch m), ''count='' @ dec (length rendered)] @ rendered, rp_err = [], rp_code = exit_ok\<rparr>)"

section \<open>Opening a session\<close>

record session_request =
  sq_config :: client_config
  sq_scope :: authority_scope
  sq_publisher :: "publisher_id option"
  sq_worker_boot :: "worker_boot_id option"

record session_outcome =
  so_connected :: bool
  so_greeting :: bool
  so_registered :: bool
  so_error :: string
  so_registration_outcome :: outcome
  so_registration_detail :: string

record client_session =
  cs_client :: client
  cs_epoch :: coordinator_epoch
  cs_authority :: adaptive_authority_generation
  cs_outcome :: session_outcome

definition unopened :: "client \<Rightarrow> client_session" where
  "unopened cl = \<lparr>cs_client = cl, cs_epoch = no_gen, cs_authority = no_gen,
     cs_outcome = \<lparr>so_connected = False, so_greeting = False, so_registered = False, so_error = [],
       so_registration_outcome = Out_INTERNAL_ERROR, so_registration_detail = []\<rparr>\<rparr>"

definition open_session :: "session_request \<Rightarrow> string option \<Rightarrow> exchange \<Rightarrow> exchange \<Rightarrow> client \<Rightarrow> client_session option" where
  "open_session q connecting x_hello x_register cl0 =
    (let (cl, failed) = client_connect connecting cl0; t = unopened cl; o0 = cs_outcome t in
     case failed of
       Some error \<Rightarrow> Some (t\<lparr>cs_outcome := o0\<lparr>so_error := error\<rparr>\<rparr>)
     | None \<Rightarrow>
       let o1 = o0\<lparr>so_connected := True\<rparr> in
       case client_hello (sq_config q) x_hello cl of
         None \<Rightarrow> None
       | Some (cl1, _, Inl error) \<Rightarrow> Some (t\<lparr>cs_client := cl1, cs_outcome := o1\<lparr>so_error :=
             if error = [] then ''the coordinator did not answer HELLO'' else error\<rparr>\<rparr>)
       | Some (cl1, _, Inr greeting) \<Rightarrow>
         let o2 = o1\<lparr>so_greeting := True\<rparr>;
             t2 = t\<lparr>cs_epoch := hm_epoch greeting, cs_authority := hm_authority_generation greeting\<rparr> in
         case client_register_publisher (sq_config q) (case sq_publisher q of Some p \<Rightarrow> p | None \<Rightarrow> cl_publisher cl1)
                (case sq_worker_boot q of Some b \<Rightarrow> b | None \<Rightarrow> cl_worker_boot cl1) (sq_scope q) x_register cl1 of
           None \<Rightarrow> None
         | Some (cl2, _, Inl error) \<Rightarrow> Some (t2\<lparr>cs_client := cl2, cs_outcome := o2\<lparr>so_error :=
               if error = [] then ''REGISTER_PUBLISHER produced no response'' else error\<rparr>\<rparr>)
         | Some (cl2, _, Inr m) \<Rightarrow>
           Some (t2\<lparr>cs_client := cl2, cs_epoch := (if gen_valid (tm_epoch m) then tm_epoch m else cs_epoch t2),
             cs_outcome := o2\<lparr>so_registered := outcome_is_success (tm_outcome m), so_registration_outcome := tm_outcome m,
               so_registration_detail := tm_detail m\<rparr>\<rparr>))"

end
