(* ===== verification/Policy_Options.thy ===== *)
theory Policy_Options
  imports Command_Line
begin

text \<open>
  The options of \<^verbatim>\<open>arf policy create\<close> and \<^verbatim>\<open>update\<close> (\<^verbatim>\<open>tools/arf.cpp\<close>, \<open>parse_policy_options\<close>): from the
  arguments to a scope and a policy's semantics, with the text of every usage error, in the order the
  code looks at them.
\<close>

fun parse_each :: "('x \<Rightarrow> string + 'y) \<Rightarrow> 'x list \<Rightarrow> string + 'y list" where
  "parse_each f [] = Inr []"
| "parse_each f (x # xs) = attempt (f x) (\<lambda>y. attempt (parse_each f xs) (\<lambda>ys. Inr (y # ys)))"

definition insist :: "bool \<Rightarrow> string \<Rightarrow> (unit \<Rightarrow> string + 'a) \<Rightarrow> string + 'a" where
  "insist b error k = (if b then k () else Inl error)"

definition milliseconds :: "u64 \<Rightarrow> ticks" where
  "milliseconds value = value * ticks_per_millisecond"

section \<open>Scope and target\<close>

definition or_default :: "string \<Rightarrow> string option \<Rightarrow> string" where
  "or_default d v = (case v of None \<Rightarrow> d | Some t \<Rightarrow> t)"

definition not_a_valid :: "string \<Rightarrow> string \<Rightarrow> string \<Rightarrow> string" where
  "not_a_valid option given domain = ''--'' @ option @ '' '' @ quoted given @ '' is not a valid '' @ domain"

definition parse_identity :: "nat \<Rightarrow> string \<Rightarrow> string \<Rightarrow> string \<Rightarrow> string + 'tag strong_id" where
  "parse_identity n option domain given = expecting (not_a_valid option given domain) (id_parse n given)"

definition parse_scope :: "arg_set \<Rightarrow> string + fabric_id \<times> routing_namespace" where
  "parse_scope a =
    attempt (parse_identity 64 ''fabric'' ''FabricId'' (or_default ''fabric-alpha'' (ag_value a ''fabric''))) (\<lambda>fabric.
    attempt (parse_identity 64 ''namespace'' ''RoutingNamespace'' (or_default ''routing-core'' (ag_value a ''namespace''))) (\<lambda>name_space.
    Inr (fabric, name_space)))"

text \<open>An option that is given and not empty.\<close>

definition if_given :: "string option \<Rightarrow> (string \<Rightarrow> string + 'a) \<Rightarrow> string + 'a option" where
  "if_given v f = (case v of None \<Rightarrow> Inr None | Some t \<Rightarrow> if t = [] then Inr None else attempt (f t) (\<lambda>x. Inr (Some x)))"

definition parse_policy_scope :: "arg_set \<Rightarrow> string + policy_scope" where
  "parse_policy_scope a =
    attempt (parse_scope a) (\<lambda>(fabric, name_space).
    attempt (if_given (ag_value a ''site'') (parse_identity 64 ''site'' ''SiteId'')) (\<lambda>site.
    attempt (if_given (ag_value a ''path-class'') (parse_identity 32 ''path-class'' ''PathClass'')) (\<lambda>path_class.
    attempt (parse_each (parse_identity 96 ''scope-route'' ''RouteId'') (ag_values a ''scope-route'')) (\<lambda>routes.
    attempt (parse_each (parse_identity 96 ''scope-multipath-set'' ''MultipathSetId'') (ag_values a ''scope-multipath-set'')) (\<lambda>sets.
    Inr \<lparr>sc_fabric = fabric, sc_namespace = name_space, sc_site = site,
         sc_path_class = (case path_class of None \<Rightarrow> no_id | Some c \<Rightarrow> c), sc_routes = routes, sc_multipath_sets = sets\<rparr>)))))"

definition parse_target :: "arg_set \<Rightarrow> string + policy_target" where
  "parse_target a =
    attempt (parse_identity 96 ''route'' ''RouteId'' (or_default ''route-1'' (ag_value a ''route''))) (\<lambda>route.
    insist (ag_count a ''multipath-set'' \<le> 1) ''--multipath-set may be given at most once'' (\<lambda>_.
    attempt (if_given (ag_value a ''multipath-set'') (parse_identity 96 ''multipath-set'' ''MultipathSetId'')) (\<lambda>set_id.
    Inr \<lparr>pt_route = route, pt_multipath_set = set_id\<rparr>)))"

section \<open>Rules\<close>

definition parse_threshold :: "string \<Rightarrow> string + threshold_rule" where
  "parse_threshold t =
    (let parts = split_on CHR '':'' t in
     insist (length parts = 3) (''--threshold expects KIND:SWITCH:CLEAR but received '' @ quoted t) (\<lambda>_.
     attempt (expecting (''--threshold names an unknown metric kind '' @ quoted (parts ! 0)) (parse_metric_kind (parts ! 0))) (\<lambda>kind.
     let integers = ''--threshold expects integer band values but received '' @ quoted t in
     attempt (expecting integers (parse_integer (parts ! 1))) (\<lambda>switch_value.
     attempt (expecting integers (parse_integer (parts ! 2))) (\<lambda>clear_value.
     let range = ''--threshold value is outside the declared range of '' @ parts ! 0 in
     attempt (expecting range (mv_make kind switch_value)) (\<lambda>switch_metric.
     attempt (expecting range (mv_make kind clear_value)) (\<lambda>clear_metric.
     Inr \<lparr>tr_kind = kind, tr_switch_value = switch_metric, tr_clear_value = clear_metric\<rparr>)))))))"

definition basis_points :: "string \<Rightarrow> u32 option" where
  "basis_points t = (case parse_bounded_u32 t of None \<Rightarrow> None | Some v \<Rightarrow> if v > basis_points_scale then None else Some v)"

definition parse_improvement :: "string \<Rightarrow> string + improvement_rule" where
  "parse_improvement t =
    (let parts = split_on CHR '':'' t in
     insist (length parts = 3) (''--improvement expects KIND:SWITCH_BPS:REVERSE_BPS but received '' @ quoted t) (\<lambda>_.
     attempt (expecting (''--improvement names an unknown metric kind '' @ quoted (parts ! 0)) (parse_metric_kind (parts ! 0))) (\<lambda>kind.
     let points = ''--improvement expects two basis point counts in 0..10000 but received '' @ quoted t in
     attempt (expecting points (basis_points (parts ! 1))) (\<lambda>switch_bps.
     attempt (expecting points (basis_points (parts ! 2))) (\<lambda>reverse_bps.
     Inr \<lparr>ir_kind = kind, ir_switch_bps = switch_bps, ir_reverse_bps = reverse_bps\<rparr>)))))"

text \<open>The part of an evidence option that may be missing or empty.\<close>

definition part :: "string list \<Rightarrow> nat \<Rightarrow> string" where
  "part parts i = (if i < length parts then parts ! i else [])"

definition parse_alpha :: "aggregation_kind \<Rightarrow> string \<Rightarrow> string + u32" where
  "parse_alpha aggregation t =
    (if t \<noteq> [] then
       attempt (expecting ''--evidence EWMA_ALPHA_BPS must be an integer'' (parse_bounded_u32 t)) (\<lambda>alpha.
       insist (aggregation = EWMA) ''--evidence EWMA_ALPHA_BPS is only meaningful for the EWMA aggregation'' (\<lambda>_.
       insist (alpha \<noteq> 0 \<and> \<not> alpha > basis_points_scale) ''--evidence EWMA_ALPHA_BPS must be in 1..10000'' (\<lambda>_. Inr alpha)))
     else insist (aggregation \<noteq> EWMA) ''--evidence EWMA requires an explicit EWMA_ALPHA_BPS'' (\<lambda>_. Inr 0))"

definition parse_required :: "string \<Rightarrow> string + bool" where
  "parse_required t =
    (if t = [] \<or> t = ''required'' then Inr True else if t = ''optional'' then Inr False
     else Inl (''--evidence accepts '' @ quoted ''required'' @ '' or '' @ quoted ''optional'' @ '', not '' @ quoted t))"

definition parse_evidence :: "string \<Rightarrow> string + evidence_requirement" where
  "parse_evidence t =
    (let parts = split_on CHR '':'' t in
     insist (5 \<le> length parts \<and> length parts \<le> 8) (''--evidence expects KIND:AGGREGATION:MIN_SAMPLES:MAX_AGE_MS:MIN_QUALITY''
       @ ''[:MIN_WINDOW_MS][:EWMA_ALPHA_BPS][:required|optional] but received '' @ quoted t) (\<lambda>_.
     attempt (expecting (''--evidence names an unknown metric kind '' @ quoted (parts ! 0)) (parse_metric_kind (parts ! 0))) (\<lambda>kind.
     attempt (expecting (''--evidence names an unknown aggregation '' @ quoted (parts ! 1)) (parse_aggregation_kind (parts ! 1))) (\<lambda>aggregation.
     let samples = ''--evidence requires a positive MIN_SAMPLES''; age = ''--evidence requires a positive MAX_AGE_MS freshness bound'' in
     attempt (expecting samples (parse_bounded_u32 (parts ! 2))) (\<lambda>min_samples.
     insist (min_samples \<noteq> 0) samples (\<lambda>_.
     attempt (expecting age (parse_unsigned (parts ! 3))) (\<lambda>max_age_ms.
     insist (max_age_ms \<noteq> 0) age (\<lambda>_.
     attempt (expecting (''--evidence names an unknown quality class '' @ quoted (parts ! 4)) (parse_evidence_quality (parts ! 4))) (\<lambda>quality.
     attempt (if_given (Some (part parts 5)) (\<lambda>w. expecting ''--evidence MIN_WINDOW_MS must be an integer'' (parse_unsigned w))) (\<lambda>window_ms.
     attempt (parse_alpha aggregation (part parts 6)) (\<lambda>alpha.
     attempt (parse_required (part parts 7)) (\<lambda>required.
     Inr \<lparr>er_kind = kind, er_aggregation = aggregation, er_ewma_alpha_bps = alpha, er_min_samples = min_samples,
          er_max_age = milliseconds max_age_ms, er_min_window = (case window_ms of None \<Rightarrow> 0 | Some w \<Rightarrow> milliseconds w),
          er_min_quality = quality, er_required = required\<rparr>))))))))))))"

definition parse_term :: "string \<Rightarrow> string + score_term" where
  "parse_term t =
    (let parts = split_on CHR '':'' t in
     insist (length parts \<le> 2 \<and> parts ! 0 \<noteq> []) (''--objective expects KIND[:WEIGHT_BPS] but received '' @ quoted t) (\<lambda>_.
     attempt (expecting (''--objective names an unknown metric kind '' @ quoted (parts ! 0)) (parse_metric_kind (parts ! 0))) (\<lambda>kind.
     if length parts = 2 then
       attempt (expecting ''--objective weight must be an integer number of basis points'' (parse_bounded_u32 (parts ! 1))) (\<lambda>weight.
       Inr \<lparr>st_kind = kind, st_weight_bps = weight\<rparr>)
     else Inr \<lparr>st_kind = kind, st_weight_bps = 0\<rparr>)))"

definition parse_objective :: "string list \<Rightarrow> string + objective_spec" where
  "parse_objective ts =
    attempt (parse_each parse_term ts) (\<lambda>terms.
    Inr \<lparr>os_mode = (if list_ex (\<lambda>t. st_weight_bps t \<noteq> 0) terms then WEIGHTED_SCORE else LEXICOGRAPHIC),
         os_terms = terms, os_scoring_version = weighted_score_formula_version\<rparr>)"

definition parse_duration :: "string \<Rightarrow> string option \<Rightarrow> string + ticks" where
  "parse_duration option v =
    (case v of
       None \<Rightarrow> Inr 0
     | Some t \<Rightarrow> attempt (expecting (''--'' @ option @ '' must be a non-negative integer'') (parse_unsigned t)) (\<lambda>ms. Inr (milliseconds ms)))"

definition parse_churn :: "string option \<Rightarrow> string + churn_bounds" where
  "parse_churn v =
    (case v of
       None \<Rightarrow> Inr \<lparr>cb_max_adaptations = 0, cb_window = 0\<rparr>
     | Some t \<Rightarrow>
       let parts = split_on CHR '':'' t; error = ''--churn expects MAX_ADAPTATIONS:WINDOW_MS but received '' @ quoted t in
       insist (length parts = 2) error (\<lambda>_.
       attempt (expecting error (parse_bounded_u32 (parts ! 0))) (\<lambda>maximum.
       attempt (expecting error (parse_unsigned (parts ! 1))) (\<lambda>window_ms.
       Inr \<lparr>cb_max_adaptations = maximum, cb_window = milliseconds window_ms\<rparr>))))"

definition parse_dampening :: "string option \<Rightarrow> string + dampening_rule" where
  "parse_dampening v =
    (case v of
       None \<Rightarrow> Inr \<lparr>dr_enabled = False, dr_penalty_increment = 0, dr_max_penalty = 0, dr_penalty_decay_interval = 0,
         dr_penalty_decay_step = 0, dr_hold_down_escalation_step = 0, dr_max_effective_hold_down = 0\<rparr>
     | Some t \<Rightarrow>
       let parts = split_on CHR '':'' t;
           error = ''--dampening expects INCREMENT:MAX_PENALTY:DECAY_MS:DECAY_STEP:ESCALATION_MS:MAX_HOLD_MS but received '' @ quoted t in
       insist (length parts = 6) error (\<lambda>_.
       attempt (expecting error (parse_bounded_u32 (parts ! 0))) (\<lambda>increment.
       attempt (expecting error (parse_bounded_u32 (parts ! 1))) (\<lambda>max_penalty.
       attempt (expecting error (parse_unsigned (parts ! 2))) (\<lambda>decay_ms.
       attempt (expecting error (parse_bounded_u32 (parts ! 3))) (\<lambda>decay_step.
       attempt (expecting error (parse_unsigned (parts ! 4))) (\<lambda>escalation_ms.
       attempt (expecting error (parse_unsigned (parts ! 5))) (\<lambda>max_hold_ms.
       Inr \<lparr>dr_enabled = True, dr_penalty_increment = increment, dr_max_penalty = max_penalty,
         dr_penalty_decay_interval = milliseconds decay_ms, dr_penalty_decay_step = decay_step,
         dr_hold_down_escalation_step = milliseconds escalation_ms, dr_max_effective_hold_down = milliseconds max_hold_ms\<rparr>))))))))"

definition emergency_option :: "string \<Rightarrow> string + (emergency_rule \<Rightarrow> emergency_rule)" where
  "emergency_option t =
    (if t = ''unauthorized'' then Inr (\<lambda>e. e\<lparr>em_enabled := True, em_on_unauthorized := True\<rparr>)
     else if t = ''unavailable'' then Inr (\<lambda>e. e\<lparr>em_enabled := True, em_on_unavailable := True\<rparr>)
     else if t = ''hard-failure'' then Inr (\<lambda>e. e\<lparr>em_enabled := True, em_on_hard_failure := True\<rparr>)
     else Inl (''--emergency accepts unauthorized, unavailable or hard-failure, not '' @ quoted t))"

definition parse_emergency :: "string list \<Rightarrow> string + emergency_rule" where
  "parse_emergency ts =
    attempt (parse_each emergency_option ts) (\<lambda>settings.
    Inr (fold (\<lambda>f. f) settings \<lparr>em_enabled = False, em_on_unauthorized = False, em_on_unavailable = False, em_on_hard_failure = False\<rparr>))"

definition parse_priority :: "string \<Rightarrow> string + candidate_priority" where
  "parse_priority t =
    (let parts = split_on CHR '':'' t in
     insist (length parts = 2) (''--priority expects PATH:PRIORITY but received '' @ quoted t) (\<lambda>_.
     attempt (expecting (''--priority names an invalid PathId '' @ quoted (parts ! 0)) (id_parse 128 (parts ! 0))) (\<lambda>path.
     attempt (expecting ''--priority value must be an integer'' (parse_bounded_u32 (parts ! 1))) (\<lambda>priority.
     Inr \<lparr>cp_path = path, cp_priority = priority\<rparr>))))"

section \<open>The whole policy\<close>

definition parse_policy_options :: "arg_set \<Rightarrow> string + policy_scope \<times> policy_semantics" where
  "parse_policy_options a =
    attempt (parse_policy_scope a) (\<lambda>scope.
    attempt (parse_target a) (\<lambda>target.
    attempt (parse_each parse_threshold (ag_values a ''threshold'')) (\<lambda>thresholds.
    attempt (parse_each parse_improvement (ag_values a ''improvement'')) (\<lambda>improvements.
    attempt (parse_each parse_evidence (ag_values a ''evidence'')) (\<lambda>evidence.
    attempt (parse_objective (ag_values a ''objective'')) (\<lambda>objective.
    attempt (parse_duration ''hold-down-ms'' (ag_value a ''hold-down-ms'')) (\<lambda>hold_down.
    attempt (parse_duration ''cooldown-ms'' (ag_value a ''cooldown-ms'')) (\<lambda>cooldown.
    attempt (parse_churn (ag_value a ''churn'')) (\<lambda>churn.
    attempt (parse_dampening (ag_value a ''dampening'')) (\<lambda>dampening.
    attempt (parse_emergency (ag_values a ''emergency'')) (\<lambda>emergency.
    attempt (parse_each parse_priority (ag_values a ''priority'')) (\<lambda>priorities.
    let s = \<lparr>ps_version = policy_semantics_version, ps_target = target, ps_thresholds = thresholds, ps_improvements = improvements,
          ps_evidence = evidence, ps_hold_down = hold_down, ps_cooldown = cooldown, ps_dampening = dampening, ps_churn = churn,
          ps_objective = objective, ps_emergency = emergency, ps_priorities = priorities\<rparr> in
    case ps_valid s of
      Some reason \<Rightarrow> Inl (''policy semantics are invalid: '' @ reason)
    | None \<Rightarrow> Inr (scope, s)))))))))))))"

end
