(* ===== verification/Commands.thy ===== *)
theory Commands
  imports Policy_Options Store_Image
begin

text \<open>
  The operator's tool (\<^verbatim>\<open>tools/arf.cpp\<close>): every command, from the arguments to what it prints and its exit
  code.  A command answers at once, or names an endpoint, a scope and a body to run over a registered
  session.  What the platform does (the connection, the exchanges, a file's bytes, the environment) is an
  argument.
\<close>

section \<open>What the tool prints\<close>

definition usage_lines :: "string list" where
  "usage_lines = [
     ''Adaptive Routing Fabric operator CLI'',
     [],
     ''usage: arf [--endpoint HOST:PORT] [--fabric ID] [--namespace ID] <command> [args]'',
     [],
     ''  --endpoint HOST:PORT  coordinator to talk to; falls back to $ARF_ENDPOINT,'',
     ''                        then to 127.0.0.1:7331'',
     ''  --fabric ID           authority scope fabric (default fabric-alpha)'',
     ''  --namespace ID        authority scope routing namespace (default routing-core)'',
     [],
     ''commands:'',
     ''  policy create --name NAME --route ROUTE [semantics] [--activate]'',
     ''  policy show <policy-id>'',
     ''  policy list [--limit N]'',
     ''  policy update <policy-id> --route ROUTE [semantics]'',
     ''  policy activate <policy-id>'',
     ''  policy suspend <policy-id>'',
     ''  policy resume <policy-id>'',
     ''  evidence publish --path PATH --metric KIND --value V [--quality Q]'',
     ''                   [--source ID] [--source-generation N] [--sequence N]'',
     ''  evaluate <policy-id> [--defer]'',
     ''  state show [--policy ID] [--limit N]'',
     ''  explain <policy-id> [--topic TOPIC]'',
     ''  snapshot <policy-id>'',
     ''  diff <policy-id> <from-snapshot> <to-snapshot>'',
     ''  revalidate <policy-id>'',
     ''  revoke <policy-id> [--reason REASON] [--detail TEXT]'',
     ''  retire <policy-id> [--detail TEXT]'',
     ''  store inspect <path>'',
     ''  limits'',
     ''  version'',
     ''  help [command]'',
     [],
     ''semantics options (policy create and policy update replace the whole value):'',
     ''  --fabric ID --namespace ID --route ID [--multipath-set ID] [--site ID]'',
     ''  [--path-class ID] [--scope-route ID] [--scope-multipath-set ID]'',
     ''  --threshold KIND:SWITCH:CLEAR ...'',
     ''  --improvement KIND:SWITCH_BPS:REVERSE_BPS ...'',
     ''  --evidence KIND:AGGREGATION:MIN_SAMPLES:MAX_AGE_MS:MIN_QUALITY'',
     ''             [:MIN_WINDOW_MS][:EWMA_ALPHA_BPS][:required|optional] ...'',
     ''  --objective KIND[:WEIGHT_BPS] ...   (a non-zero weight selects'',
     ''                                      WEIGHTED_SCORE, otherwise LEXICOGRAPHIC)'',
     ''  --hold-down-ms N --cooldown-ms N --churn MAX:WINDOW_MS'',
     ''  --dampening INCREMENT:MAX_PENALTY:DECAY_MS:DECAY_STEP:ESCALATION_MS:MAX_HOLD_MS'',
     ''  --emergency unauthorized|unavailable|hard-failure ...'',
     ''  --priority PATH:PRIORITY ...'',
     [],
     ''exit codes: 0 applied or a deterministic no-adaptation answer, 1 refused,'',
     ''            2 usage error'']"

definition command_help :: "string \<Rightarrow> string list option" where
  "command_help command =
    (if command \<in> {''policy'', ''policy-create''} then Some [
       ''policy create --name NAME --route ROUTE [semantics] [--activate]'',
       ''  Creates a policy in the fabric/namespace scope and prints the creation'',
       ''  result. --activate then activates it and prints the activation result.'']
     else if command \<in> {''policy-show'', ''policy-list''} then Some [
       ''policy show <policy-id> | policy list [--limit N]'',
       ''  Prints epoch=<E>, count=<N> and one line per policy:'',
       ''  policy=<id> name=<n> lifecycle=<l> generation=<g> epoch=<e> digest=<d>'']
     else if command = ''policy-update'' then Some [
       ''policy update <policy-id> --route ROUTE [semantics]'',
       ''  Replaces the whole scope and semantics value; a partial patch is not'',
       ''  supported because a generation boundary is a semantic boundary.'']
     else if command \<in> {''policy-activate'', ''policy-suspend'', ''policy-resume''} then Some [
       ''policy activate|suspend|resume <policy-id> [--detail TEXT]'',
       ''  Sends the matching lifecycle event and prints the result.'']
     else if command \<in> {''evidence'', ''evidence-publish''} then Some [
       ''evidence publish --path PATH --metric KIND --value V [--quality Q]'',
       ''                 [--source ID] [--source-generation N] [--sequence N]'',
       ''  Publishes one bounded integer sample. The observation sequence must be'',
       ''  strictly increasing per (source, path, metric); --source defaults to'',
       ''  '' @ quoted ''operator-cli'' @ '' and --sequence to 1.'']
     else if command = ''evaluate'' then Some [
       ''evaluate <policy-id> [--defer]'',
       ''  Runs the two-phase evaluation. --defer stops after phase one and prints'',
       ''  the dependency snapshot instead of committing.'']
     else if command \<in> {''state'', ''state-show''} then Some [
       ''state show [--policy ID] [--limit N]'',
       ''  Prints epoch=<E>, count=<N> and one '' @ quoted ''policy=...'' @ '' line per matching policy.'']
     else if command = ''explain'' then Some [
       ''explain <policy-id> [--topic TOPIC]'',
       ''  TOPIC is one of WHY_ADAPTED, WHY_NOT_ADAPTED, EVIDENCE_THRESHOLD,'',
       ''  STALE_EVIDENCE, REJECTED_CANDIDATE, CANDIDATE_COMPARISON, HYSTERESIS,'',
       ''  HOLD_DOWN, STALE_GENERATION, ROLLBACK_REFUSED, AUTHORITY_OWNER,'',
       ''  GOVERNING_EPOCH (default WHY_NOT_ADAPTED).'']
     else if command = ''snapshot'' then Some [
       ''snapshot <policy-id>'',
       ''  Prints the coordinator's rendering of the immutable policy snapshot.'']
     else if command = ''diff'' then Some [
       ''diff <policy-id> <from-snapshot> <to-snapshot>'',
       ''  Prints the deterministic diff between two retained snapshots.'']
     else if command = ''revalidate'' then Some [
       ''revalidate <policy-id>'',
       ''  Sends the REVALIDATE lifecycle event with a fresh attempt identity.'']
     else if command = ''revoke'' then Some [
       ''revoke <policy-id> [--reason REASON] [--detail TEXT]'',
       ''  REASON is one of ADMINISTRATIVE, SECURITY, POLICY_VIOLATION,'',
       ''  AUTHORITY_REVOKED, OPERATOR_REQUEST (default ADMINISTRATIVE).'']
     else if command = ''retire'' then Some [
       ''retire <policy-id> [--detail TEXT]'',
       ''  Sends the RETIRE lifecycle event. A retired policy never reactivates.'']
     else if command = ''store'' then Some [
       ''store inspect <path>'',
       ''  Decodes a store file locally, without a coordinator, and prints path=,'',
       ''  bytes=, status=, detail= and then, when it decoded, format_version=,'',
       ''  epoch= and the record counts.'']
     else if command = ''limits'' then Some [
       ''limits'',
       ''  Prints every configured limit as name=value, in declaration order.'']
     else if command = ''version'' then Some [
       ''version'',
       ''  Prints product=, version= and the persistence, wire, policy semantics,'',
       ''  scoring and digest encoding versions.'']
     else if command = ''help'' then Some [
       ''help [command]'',
       ''  Prints the command list or one command's documentation.'']
     else None)"

definition command_line_summary :: string where
  "command_line_summary = ''usage: arf [--endpoint HOST:PORT] [--fabric ID] [--namespace ID] <command> [args]''"

definition printed :: "string list \<Rightarrow> report" where
  "printed out = \<lparr>rp_out = out, rp_err = [], rp_code = exit_ok\<rparr>"

definition refused :: "string \<Rightarrow> report" where
  "refused error = \<lparr>rp_out = [], rp_err = [''arf: '' @ error], rp_code = exit_refused\<rparr>"

definition usage_error :: "string \<Rightarrow> report" where
  "usage_error message = \<lparr>rp_out = [],
     rp_err = [''arf: '' @ message, command_line_summary, ''run '' @ quoted ''arf help'' @ '' for the complete command list''],
     rp_code = exit_usage\<rparr>"

definition version_string :: string where "version_string = ''1.0.0''"
definition scoring_algorithm_version :: u32 where "scoring_algorithm_version = 1"

definition version_lines :: "string list" where
  "version_lines =
    [''product='' @ product_name,
     ''version='' @ version_string,
     ''persistence_format_version='' @ dec (unat persistence_format_version),
     ''wire_protocol_version='' @ dec (unat wire_protocol_version),
     ''policy_semantics_version='' @ dec (unat policy_semantics_version),
     ''scoring_algorithm_version='' @ dec (unat scoring_algorithm_version),
     ''digest_encoding_version='' @ dec (unat digest_encoding_version)]"

section \<open>Sessions\<close>

text \<open>What the platform does to one run of a command that opens a session, call by call.\<close>

record session_turns =
  tn_nonce :: string
  tn_counter :: u64
  tn_connecting :: "string option"
  tn_hello :: exchange
  tn_register :: exchange
  tn_request :: exchange
  tn_second :: exchange
  tn_bye :: "send_turn socket_call"

type_synonym command_body = "client_config \<Rightarrow> session_turns \<Rightarrow> client_session \<Rightarrow> (client_session \<times> report) option"

definition session_config :: "endpoint \<Rightarrow> client_config" where
  "session_config e = \<lparr>cc_limits = default_limits, cc_io_budget = 30 * ticks_per_second, cc_endpoint = endpoint_render e\<rparr>"

definition cli_publisher :: publisher_id where "cli_publisher = StrongId ''arf-cli''"
definition cli_worker_boot :: worker_boot_id where "cli_worker_boot = StrongId ''arf-cli-boot''"

definition end_session :: "client_config \<Rightarrow> session_turns \<Rightarrow> client_session \<Rightarrow> client_session option" where
  "end_session c u t = map_option (\<lambda>(cl, sent). t\<lparr>cs_client := cl\<rparr>) (client_bye c (tn_bye u) (cs_client t))"

text \<open>A command runs its body only over a session that is registered.\<close>

definition with_session :: "endpoint \<Rightarrow> fabric_id \<Rightarrow> routing_namespace \<Rightarrow> command_body \<Rightarrow> session_turns \<Rightarrow> report option" where
  "with_session e fabric name_space body u =
    (let c = session_config e;
         q = \<lparr>sq_config = c, sq_scope = make_authority_scope fabric name_space, sq_publisher = Some cli_publisher,
              sq_worker_boot = Some cli_worker_boot\<rparr> in
     case new_client (tn_nonce u) ''arf-cli'' (tn_counter u) of
       None \<Rightarrow> None
     | Some cl \<Rightarrow>
       case open_session q (tn_connecting u) (tn_hello u) (tn_register u) cl of
         None \<Rightarrow> None
       | Some t \<Rightarrow>
         let oc = cs_outcome t in
         if \<not> so_connected oc \<or> \<not> so_greeting oc then
           Some (refused (endpoint_render e @ '' is unreachable: '' @ so_error oc))
         else if \<not> so_registered oc then
           Some (refused (''the coordinator refused the operator registration: ''
             @ outcome_to_string (so_registration_outcome oc) @ '' '' @ so_registration_detail oc))
         else case body c u t of
           None \<Rightarrow> None
         | Some (t', status) \<Rightarrow> map_option (\<lambda>_. status) (end_session c u t'))"

text \<open>One request over the session, reported.\<close>

definition asking :: "(client_config \<Rightarrow> request_call) \<Rightarrow> (string + result_message \<Rightarrow> report) \<Rightarrow> command_body" where
  "asking call reporting c u t =
    map_option (\<lambda>(cl, sent, r). (t\<lparr>cs_client := cl\<rparr>, reporting r)) (call c (tn_request u) (cs_client t))"

type_synonym remote_command = "string + fabric_id \<times> routing_namespace \<times> command_body"

definition in_scope :: "arg_set \<Rightarrow> command_body \<Rightarrow> remote_command" where
  "in_scope a body = attempt (parse_scope a) (\<lambda>(fabric, name_space). Inr (fabric, name_space, body))"

definition parse_policy_argument :: "string \<Rightarrow> string + policy_id" where
  "parse_policy_argument t = expecting (quoted t @ '' is not a valid AdaptivePolicyId'') (id_parse 96 t)"

section \<open>Policy commands\<close>

definition command_policy_create :: "arg_set \<Rightarrow> remote_command" where
  "command_policy_create a =
    (let name_text = or_default [] (ag_value a ''name'') in
     insist (name_text \<noteq> []) ''policy create requires --name NAME'' (\<lambda>_.
     attempt (parse_identity 64 ''name'' ''AdaptivePolicyName'' name_text) (\<lambda>name.
     attempt (parse_policy_options a) (\<lambda>(scope, semantics).
     Inr (sc_fabric scope, sc_namespace scope, (\<lambda>c u t.
       case client_create_policy c \<lparr>cm_name = name, cm_scope = scope, cm_semantics = semantics\<rparr> (tn_request u) (cs_client t) of
         None \<Rightarrow> None
       | Some (cl, _, created) \<Rightarrow>
         let t1 = t\<lparr>cs_client := cl\<rparr>; r1 = report_result created in
         case created of
           Inl _ \<Rightarrow> Some (t1, r1)
         | Inr m \<Rightarrow>
           if rp_code r1 \<noteq> exit_ok \<or> \<not> ag_has a ''activate'' then Some (t1, r1)
           else
             map_option (\<lambda>(cl2, _, activated). let r2 = report_result activated in
                 (t1\<lparr>cs_client := cl2\<rparr>, \<lparr>rp_out = rp_out r1 @ rp_out r2, rp_err = rp_err r1 @ rp_err r2, rp_code = rp_code r2\<rparr>))
               (client_policy_lifecycle c \<lparr>lm_policy = tm_policy m, lm_event = PE_ACTIVATE, lm_detail = ''operator activation''\<rparr>
                  (tn_second u) cl)))))))"

definition command_policy_update :: "arg_set \<Rightarrow> string list \<Rightarrow> remote_command" where
  "command_policy_update a words =
    insist (length words = 3) ''policy update expects exactly one policy id'' (\<lambda>_.
    attempt (parse_policy_argument (words ! 2)) (\<lambda>policy.
    attempt (parse_policy_options a) (\<lambda>(scope, semantics).
    Inr (sc_fabric scope, sc_namespace scope,
      asking (\<lambda>c. client_update_policy c \<lparr>um_policy = policy, um_scope = scope, um_semantics = semantics\<rparr>) report_result))))"

definition command_policy_lifecycle :: "arg_set \<Rightarrow> string list \<Rightarrow> policy_event \<Rightarrow> string \<Rightarrow> remote_command" where
  "command_policy_lifecycle a words event verb =
    insist (length words = 3) (''policy '' @ verb @ '' expects exactly one policy id'') (\<lambda>_.
    attempt (parse_policy_argument (words ! 2)) (\<lambda>policy.
    in_scope a (asking (\<lambda>c. client_policy_lifecycle c \<lparr>lm_policy = policy, lm_event = event,
      lm_detail = or_default (''operator '' @ policy_event_to_string event) (ag_value a ''detail'')\<rparr>) report_result)))"

definition parse_limit :: "arg_set \<Rightarrow> string + u64" where
  "parse_limit a =
    (case ag_value a ''limit'' of
       None \<Rightarrow> Inr 0 | Some t \<Rightarrow> expecting ''--limit must be a non-negative integer'' (parse_unsigned t))"

definition command_policy_query :: "arg_set \<Rightarrow> string list \<Rightarrow> bool \<Rightarrow> remote_command" where
  "command_policy_query a words single =
    attempt
      (if single then insist (length words = 3) ''policy show expects exactly one policy id'' (\<lambda>_. parse_policy_argument (words ! 2))
       else insist (length words = 2) ''policy list accepts no positional argument'' (\<lambda>_. Inr no_id)) (\<lambda>policy.
    attempt (parse_limit a) (\<lambda>limit.
    in_scope a (asking (\<lambda>c. client_query_state c \<lparr>qm_policy = policy, qm_limit = limit\<rparr>) report_state)))"

section \<open>Evidence and queries\<close>

definition parse_positive :: "string \<Rightarrow> string option \<Rightarrow> string + u64" where
  "parse_positive option v =
    (case v of
       None \<Rightarrow> Inr 1
     | Some t \<Rightarrow> let error = ''--'' @ option @ '' must be a positive integer'' in
       attempt (expecting error (parse_unsigned t)) (\<lambda>n. insist (n \<noteq> 0) error (\<lambda>_. Inr n)))"

definition needed :: "arg_set \<Rightarrow> string \<Rightarrow> string \<Rightarrow> (string \<Rightarrow> string + 'a) \<Rightarrow> string + 'a" where
  "needed a option error k = (let t = or_default [] (ag_value a option) in insist (t \<noteq> []) error (\<lambda>_. k t))"

definition parse_publication :: "arg_set \<Rightarrow> string + evidence_publication" where
  "parse_publication a =
    needed a ''path'' ''evidence publish requires --path PATH'' (\<lambda>path_text.
    attempt (parse_identity 128 ''path'' ''PathId'' path_text) (\<lambda>path.
    needed a ''metric'' ''evidence publish requires --metric KIND'' (\<lambda>kind_text.
    attempt (expecting (''--metric '' @ quoted kind_text @ '' is not a metric kind'') (parse_metric_kind kind_text)) (\<lambda>kind.
    needed a ''value'' ''evidence publish requires --value V'' (\<lambda>value_text.
    attempt (expecting ''--value must be an integer metric value'' (parse_integer value_text)) (\<lambda>value.
    attempt (expecting (''--value '' @ value_text @ '' is outside the declared range of '' @ kind_text) (mv_make kind value)) (\<lambda>metric.
    attempt (if_given (ag_value a ''quality'') (\<lambda>t. expecting (''--quality '' @ quoted t @ '' is not an evidence quality class'')
      (parse_evidence_quality t))) (\<lambda>quality.
    attempt (parse_identity 96 ''source'' ''EvidenceSourceId'' (or_default ''operator-cli'' (ag_value a ''source''))) (\<lambda>source.
    attempt (parse_positive ''source-generation'' (ag_value a ''source-generation'')) (\<lambda>source_generation.
    attempt (parse_positive ''sequence'' (ag_value a ''sequence'')) (\<lambda>sequence.
    Inr \<lparr>ep_source = source, ep_source_generation = Generation source_generation, ep_quality = (case quality of None \<Rightarrow> PRIMARY | Some q \<Rightarrow> q),
         ep_path = path, ep_value = metric, ep_sequence = sequence\<rparr>)))))))))))"

definition command_evidence_publish :: "arg_set \<Rightarrow> string list \<Rightarrow> remote_command" where
  "command_evidence_publish a words =
    insist (length words = 2) ''evidence publish accepts no positional argument'' (\<lambda>_.
    attempt (parse_publication a) (\<lambda>publication.
    in_scope a (asking (\<lambda>c. client_publish_evidence c [publication]) report_result)))"

definition command_evaluate :: "arg_set \<Rightarrow> string list \<Rightarrow> remote_command" where
  "command_evaluate a words =
    insist (length words = 2) ''evaluate expects exactly one policy id'' (\<lambda>_.
    attempt (parse_policy_argument (words ! 1)) (\<lambda>policy.
    in_scope a (asking (\<lambda>c. client_evaluate c \<lparr>em_policy = policy, em_defer_commit = ag_has a ''defer''\<rparr>) report_result)))"

definition command_explain :: "arg_set \<Rightarrow> string list \<Rightarrow> remote_command" where
  "command_explain a words =
    insist (length words = 2) ''explain expects exactly one policy id'' (\<lambda>_.
    attempt (parse_policy_argument (words ! 1)) (\<lambda>policy.
    attempt (if_given (ag_value a ''topic'') (\<lambda>t. expecting (''--topic '' @ quoted t @ '' is not an explanation topic'')
      (parse_explanation_topic t))) (\<lambda>topic.
    in_scope a (asking (\<lambda>c. client_explain c
      \<lparr>xm_topic = (case topic of None \<Rightarrow> ET_WHY_NOT_ADAPTED | Some x \<Rightarrow> x), xm_policy = policy\<rparr>) report_result))))"

definition report_snapshot :: "policy_id \<Rightarrow> string + frame \<Rightarrow> report" where
  "report_snapshot policy r =
    (case r of
       Inl error \<Rightarrow> refused error
     | Inr response \<Rightarrow>
       let i = fh_message_id (ff_header response) in
       if i = MI_SNAPSHOT_RESPONSE then
         (case decode_snapshot_response (ff_payload response) of
            None \<Rightarrow> refused ''the SNAPSHOT_RESPONSE could not be decoded'' | Some m \<Rightarrow> printed [sm_rendered m])
       else if i = MI_ERROR then
         (case decode_error (ff_payload response) of
            None \<Rightarrow> refused ''the ERROR payload could not be decoded''
          | Some failure \<Rightarrow> report_result (Inr (no_result_message\<lparr>tm_outcome := om_outcome failure, tm_detail := om_detail failure,
              tm_policy := policy\<rparr>)))
       else refused (''unexpected response '' @ message_id_to_string i @ '' to SNAPSHOT_REQUEST''))"

definition command_snapshot :: "arg_set \<Rightarrow> string list \<Rightarrow> remote_command" where
  "command_snapshot a words =
    insist (length words = 2) ''snapshot expects exactly one policy id'' (\<lambda>_.
    attempt (parse_policy_argument (words ! 1)) (\<lambda>policy.
    in_scope a (\<lambda>c u t. map_option (\<lambda>(cl, sent, r). (t\<lparr>cs_client := cl\<rparr>, report_snapshot policy r))
      (client_request c MI_SNAPSHOT_REQUEST (encode_snapshot_request policy) (tn_request u) (cs_client t)))))"

definition not_a_snapshot :: "string \<Rightarrow> string" where
  "not_a_snapshot t = quoted t @ '' is not a valid SnapshotId''"

definition command_diff :: "arg_set \<Rightarrow> string list \<Rightarrow> remote_command" where
  "command_diff a words =
    insist (length words = 4) ''diff expects <policy-id> <from-snapshot> <to-snapshot>'' (\<lambda>_.
    attempt (parse_policy_argument (words ! 1)) (\<lambda>policy.
    attempt (expecting (not_a_snapshot (words ! 2)) (id_parse 96 (words ! 2))) (\<lambda>source.
    attempt (expecting (not_a_snapshot (words ! 3)) (id_parse 96 (words ! 3))) (\<lambda>target.
    in_scope a (asking (\<lambda>c. client_diff c \<lparr>im_policy = policy, im_from = source, im_to = target\<rparr>) report_result)))))"

text \<open>The identity of an attempt is the session's; \<open>None\<close> is an exception.\<close>

definition command_revalidate :: "arg_set \<Rightarrow> string list \<Rightarrow> remote_command" where
  "command_revalidate a words =
    insist (length words = 2) ''revalidate expects exactly one policy id'' (\<lambda>_.
    attempt (parse_policy_argument (words ! 1)) (\<lambda>policy.
    in_scope a (\<lambda>c u t.
      case make_revalidation_attempt (cl_session (cs_client t)) 1 of
        None \<Rightarrow> None
      | Some marked \<Rightarrow> asking (\<lambda>c. client_revalidate c \<lparr>dm_policy = policy, dm_attempt = marked\<rparr>) report_result c u t)))"

definition command_revoke :: "arg_set \<Rightarrow> string list \<Rightarrow> remote_command" where
  "command_revoke a words =
    insist (length words = 2) ''revoke expects exactly one policy id'' (\<lambda>_.
    attempt (parse_policy_argument (words ! 1)) (\<lambda>policy.
    attempt (if_given (ag_value a ''reason'') (\<lambda>t. expecting (''--reason '' @ quoted t @ '' is not a revocation reason'')
      (parse_revocation_reason t))) (\<lambda>reason.
    in_scope a (asking (\<lambda>c. client_revoke_policy c
      \<lparr>vm_policy = policy, vm_reason = (case reason of None \<Rightarrow> RR_ADMINISTRATIVE | Some x \<Rightarrow> x),
       vm_detail = or_default ''operator revoke'' (ag_value a ''detail'')\<rparr>) report_result))))"

definition command_state_show :: "arg_set \<Rightarrow> string list \<Rightarrow> remote_command" where
  "command_state_show a words =
    insist (length words = 2) ''state show accepts no positional argument'' (\<lambda>_.
    attempt (if_given (ag_value a ''policy'') parse_policy_argument) (\<lambda>policy.
    attempt (parse_limit a) (\<lambda>limit.
    in_scope a (asking (\<lambda>c. client_query_state c
      \<lparr>qm_policy = (case policy of None \<Rightarrow> no_id | Some p \<Rightarrow> p), qm_limit = limit\<rparr>) report_state))))"

section \<open>Local commands\<close>

definition check_options :: "arg_set \<Rightarrow> string list \<Rightarrow> report option" where
  "check_options a allowed = map_option (\<lambda>name. usage_error (''unknown option --'' @ name)) (ag_first_unknown a allowed)"

definition local_command :: "arg_set \<Rightarrow> report \<Rightarrow> report" where
  "local_command a answer =
    (case check_options a [''help'', ''endpoint'', ''fabric'', ''namespace''] of Some failure \<Rightarrow> failure | None \<Rightarrow> answer)"

definition store_lines :: "string \<Rightarrow> string \<Rightarrow> store_status \<Rightarrow> string \<Rightarrow> string list" where
  "store_lines path bytes status detail =
    [''path='' @ path, ''bytes='' @ dec (length bytes), ''status='' @ store_status_to_string status, ''detail='' @ detail]"

definition inspect_store :: "string \<Rightarrow> string \<Rightarrow> report" where
  "inspect_store path bytes =
    (case decode_durable_state bytes of
       Inl (status, detail) \<Rightarrow> \<lparr>rp_out = store_lines path bytes status detail, rp_err = [], rp_code = exit_refused\<rparr>
     | Inr d \<Rightarrow> printed (store_lines path bytes ST_OK [] @
         [''format_version='' @ dec (unat (du_format_version d)), ''epoch='' @ gen_text (du_epoch d),
          ''policies='' @ dec (length (du_policies d)), ''revocations='' @ dec (length (du_revocations d)),
          ''preferences='' @ dec (length (du_preferences d)), ''stable_states='' @ dec (length (du_stable_states d)),
          ''timings='' @ dec (length (du_timings d)), ''history='' @ dec (length (du_history d))]))"

definition command_store_inspect :: "(string \<Rightarrow> string + string) \<Rightarrow> arg_set \<Rightarrow> string list \<Rightarrow> report" where
  "command_store_inspect read_store_bytes a words =
    local_command a
      (if length words \<noteq> 3 then usage_error ''store inspect expects exactly one path''
       else case read_store_bytes (words ! 2) of Inl error \<Rightarrow> refused error | Inr bytes \<Rightarrow> inspect_store (words ! 2) bytes)"

section \<open>Choosing the command\<close>

datatype action = Answered report | Remote endpoint fabric_id routing_namespace command_body

text \<open>The options are checked first, then the endpoint, then the command's own arguments.\<close>

definition remote :: "string option \<Rightarrow> arg_set \<Rightarrow> string list \<Rightarrow> remote_command \<Rightarrow> action" where
  "remote configured a allowed command =
    (case check_options a ([''endpoint'', ''fabric'', ''namespace'', ''help''] @ allowed) of
       Some failure \<Rightarrow> Answered failure
     | None \<Rightarrow>
       case attempt (resolve_endpoint a configured ''127.0.0.1:7331'') (\<lambda>e. attempt command (\<lambda>(f, n, body). Inr (Remote e f n body))) of
         Inl error \<Rightarrow> Answered (usage_error error)
       | Inr action \<Rightarrow> action)"

definition semantics_options :: "string list" where
  "semantics_options = [''route'', ''multipath-set'', ''site'', ''path-class'', ''scope-route'', ''scope-multipath-set'', ''threshold'',
     ''improvement'', ''evidence'', ''objective'', ''hold-down-ms'', ''cooldown-ms'', ''churn'', ''dampening'', ''emergency'', ''priority'']"

definition policy_action :: "string option \<Rightarrow> arg_set \<Rightarrow> string list \<Rightarrow> action" where
  "policy_action configured a words =
    (if length words < 2 then Answered (usage_error ''policy requires a subcommand'')
     else let command = words ! 1 in
       if command = ''create'' then remote configured a ([''name'', ''activate''] @ semantics_options) (command_policy_create a)
       else if command = ''update'' then remote configured a semantics_options (command_policy_update a words)
       else if command = ''show'' \<or> command = ''list'' then
         remote configured a [''limit''] (command_policy_query a words (command = ''show''))
       else if command = ''activate'' then remote configured a [''detail''] (command_policy_lifecycle a words PE_ACTIVATE command)
       else if command = ''suspend'' then remote configured a [''detail''] (command_policy_lifecycle a words PE_SUSPEND command)
       else if command = ''resume'' then remote configured a [''detail''] (command_policy_lifecycle a words PE_RESUME command)
       else Answered (usage_error (''unknown policy subcommand '' @ quoted command)))"

definition help_action :: "string list \<Rightarrow> report" where
  "help_action words =
    (if length words = 1 then printed usage_lines
     else case (if length words \<noteq> 2 then None else command_help (words ! 1)) of
       None \<Rightarrow> usage_error (''no help is available for '' @ quoted (words ! 1))
     | Some text_lines \<Rightarrow> printed text_lines)"

definition remote_action :: "string option \<Rightarrow> arg_set \<Rightarrow> string list \<Rightarrow> action" where
  "remote_action configured a words =
    (let group = words ! 0; command = (if length words > 1 then words ! 1 else []) in
     if group = ''policy'' then policy_action configured a words
     else if group = ''evidence'' then
       if command \<noteq> ''publish'' then Answered (usage_error (''evidence expects the subcommand '' @ quoted ''publish''))
       else remote configured a [''path'', ''metric'', ''value'', ''quality'', ''source'', ''source-generation'', ''sequence'']
         (command_evidence_publish a words)
     else if group = ''state'' then
       if command \<noteq> ''show'' then Answered (usage_error (''state expects the subcommand '' @ quoted ''show''))
       else remote configured a [''policy'', ''limit''] (command_state_show a words)
     else if group = ''evaluate'' then remote configured a [''defer''] (command_evaluate a words)
     else if group = ''explain'' then remote configured a [''topic''] (command_explain a words)
     else if group = ''snapshot'' then remote configured a [] (command_snapshot a words)
     else if group = ''diff'' then remote configured a [] (command_diff a words)
     else if group = ''revalidate'' then remote configured a [] (command_revalidate a words)
     else if group = ''revoke'' then remote configured a [''reason'', ''detail''] (command_revoke a words)
     else if group = ''retire'' then remote configured a [''detail''] (command_policy_lifecycle a words PE_RETIRE ''retire'')
     else Answered (usage_error (''unknown command '' @ quoted group)))"

definition chosen_action :: "string option \<Rightarrow> (string \<Rightarrow> string + string) \<Rightarrow> arg_set \<Rightarrow> action" where
  "chosen_action configured read_store_bytes a =
    (let words = ag_positional a in
     if ag_has a ''help'' \<and> words = [] then Answered (printed usage_lines)
     else if words = [] then
       Answered \<lparr>rp_out = [], rp_err = ''arf: a command is required'' # usage_lines, rp_code = exit_usage\<rparr>
     else let group = words ! 0 in
       if group = ''limits'' then
         Answered (if length words \<noteq> 1 then usage_error ''limits accepts no positional argument'' else local_command a (printed limit_lines))
       else if group = ''version'' then
         Answered (if length words \<noteq> 1 then usage_error ''version accepts no positional argument'' else local_command a (printed version_lines))
       else if group = ''help'' then Answered (help_action words)
       else if group = ''store'' then
         Answered (if length words < 2 \<or> words ! 1 \<noteq> ''inspect'' then usage_error (''store expects the subcommand '' @ quoted ''inspect'')
           else command_store_inspect read_store_bytes a words)
       else remote_action configured a words)"

definition perform :: "action \<Rightarrow> session_turns \<Rightarrow> report option" where
  "perform action u = (case action of Answered r \<Rightarrow> Some r | Remote e fabric name_space body \<Rightarrow> with_session e fabric name_space body u)"

definition arf_main :: "string option \<Rightarrow> (string \<Rightarrow> string + string) \<Rightarrow> session_turns \<Rightarrow> string list \<Rightarrow> report option" where
  "arf_main configured read_store_bytes u args = perform (chosen_action configured read_store_bytes (parse_args args)) u"

end
