(* ===== verification/Publisher.thy ===== *)
theory Publisher
  imports Commands
begin

text \<open>
  The publishing process (\<^verbatim>\<open>tools/arf_publisher.cpp\<close>): its options, and the script it runs over one registered
  session, with every line it prints and its exit code.  The exchanges with the coordinator are a function
  of their number; the script's lines, the environment and the opening of files are arguments.
\<close>

section \<open>Options\<close>

definition publisher_exit_register :: nat where "publisher_exit_register = 3"
definition publisher_exit_script :: nat where "publisher_exit_script = 4"
definition publisher_exit_connect :: nat where "publisher_exit_connect = 5"

record publisher_options =
  pb_endpoint :: endpoint
  pb_publisher :: publisher_id
  pb_worker_boot :: worker_boot_id
  pb_session_label :: string
  pb_fabric :: fabric_id
  pb_namespace :: routing_namespace
  pb_source :: evidence_source_id
  pb_source_generation :: u32
  pb_default_route :: route_id
  pb_script_path :: string
  pb_output_path :: string
  pb_linger :: bool

definition required_identity :: "nat \<Rightarrow> arg_set \<Rightarrow> string \<Rightarrow> string \<Rightarrow> ('tag strong_id \<Rightarrow> string + 'a) \<Rightarrow> string + 'a" where
  "required_identity n a option domain k =
    needed a option (''--'' @ option @ '' ID is required'') (\<lambda>t. attempt (parse_identity n option domain t) k)"

text \<open>The generation is read as 64 bits and kept in 32.\<close>

definition parse_source_generation :: "arg_set \<Rightarrow> string + u32" where
  "parse_source_generation a = attempt (parse_positive ''source-generation'' (ag_value a ''source-generation'')) (\<lambda>n. Inr (ucast n))"

definition parse_publisher_options :: "string option \<Rightarrow> arg_set \<Rightarrow> string + publisher_options" where
  "parse_publisher_options configured a =
    (case ag_first_unknown a [''endpoint'', ''publisher'', ''boot'', ''session'', ''script'', ''linger'', ''output'', ''fabric'',
       ''namespace'', ''source'', ''source-generation'', ''route'', ''help''] of
       Some name \<Rightarrow> Inl (''unknown option --'' @ name)
     | None \<Rightarrow>
     required_identity 64 a ''publisher'' ''PublisherId'' (\<lambda>publisher.
     required_identity 64 a ''boot'' ''WorkerBootId'' (\<lambda>boot.
     required_identity 64 a ''session'' ''SessionId'' (\<lambda>session :: session_id.
     attempt (parse_scope a) (\<lambda>(fabric, name_space).
     attempt (parse_identity 96 ''source'' ''EvidenceSourceId'' (or_default (id_text publisher) (ag_value a ''source''))) (\<lambda>source.
     attempt (parse_source_generation a) (\<lambda>generation.
     attempt (parse_identity 96 ''route'' ''RouteId'' (or_default ''route-1'' (ag_value a ''route''))) (\<lambda>route.
     attempt (resolve_endpoint a configured []) (\<lambda>address.
     insist (ag_positional a = []) (''unexpected argument '' @ quoted (hd (ag_positional a))) (\<lambda>_.
     Inr \<lparr>pb_endpoint = address, pb_publisher = publisher, pb_worker_boot = boot, pb_session_label = id_text session,
          pb_fabric = fabric, pb_namespace = name_space, pb_source = source, pb_source_generation = generation,
          pb_default_route = route, pb_script_path = or_default [] (ag_value a ''script''),
          pb_output_path = or_default [] (ag_value a ''output''), pb_linger = ag_has a ''linger''\<rparr>))))))))))"

definition script_semantics :: "route_id \<Rightarrow> u32 \<Rightarrow> u32 \<Rightarrow> policy_semantics" where
  "script_semantics route switch_bps reverse_bps =
    \<lparr>ps_version = policy_semantics_version, ps_target = \<lparr>pt_route = route, pt_multipath_set = None\<rparr>, ps_thresholds = [],
     ps_improvements = [\<lparr>ir_kind = PATH_LATENCY, ir_switch_bps = switch_bps, ir_reverse_bps = reverse_bps\<rparr>],
     ps_evidence = [\<lparr>er_kind = PATH_LATENCY, er_aggregation = MEAN, er_ewma_alpha_bps = 0, er_min_samples = 1,
       er_max_age = 120 * ticks_per_second, er_min_window = 0, er_min_quality = AGGREGATED, er_required = True\<rparr>],
     ps_hold_down = 0, ps_cooldown = 0,
     ps_dampening = \<lparr>dr_enabled = False, dr_penalty_increment = 0, dr_max_penalty = 0, dr_penalty_decay_interval = 0,
       dr_penalty_decay_step = 0, dr_hold_down_escalation_step = 0, dr_max_effective_hold_down = 0\<rparr>,
     ps_churn = \<lparr>cb_max_adaptations = 0, cb_window = 0\<rparr>,
     ps_objective = \<lparr>os_mode = LEXICOGRAPHIC, os_terms = [\<lparr>st_kind = PATH_LATENCY, st_weight_bps = 0\<rparr>],
       os_scoring_version = weighted_score_formula_version\<rparr>,
     ps_emergency = \<lparr>em_enabled = False, em_on_unauthorized = False, em_on_unavailable = False, em_on_hard_failure = False\<rparr>,
     ps_priorities = []\<rparr>"

section \<open>The runner\<close>

record runner =
  rn_session :: client_session
  rn_requests :: nat
  rn_policy :: "policy_id option"
  rn_routes :: "string \<Rightarrow> route_id option"
  rn_sequences :: "string \<Rightarrow> u64"
  rn_index :: nat
  rn_revalidations :: u64
  rn_notifications :: u64
  rn_refused :: bool
  rn_out :: "string list"
  rn_err :: "string list"

text \<open>What a command of the script makes of the runner, and the exit code if it ends the script.\<close>

type_synonym script_step = "runner \<Rightarrow> (runner \<times> nat option) option"

definition tell :: "string \<Rightarrow> runner \<Rightarrow> runner" where
  "tell line s = s\<lparr>rn_out := rn_out s @ [line]\<rparr>"

definition report_line :: "nat \<Rightarrow> result_message \<Rightarrow> string" where
  "report_line index m = dec index @ '' '' @ outcome_to_string (tm_outcome m)
     @ (if id_valid (tm_policy m) then '' policy='' @ id_text (tm_policy m) else [])
     @ (if tm_suppression m \<noteq> Sup_NONE then '' suppression='' @ suppression_to_string (tm_suppression m) else [])
     @ (if tm_detail m \<noteq> [] then '' detail='' @ tm_detail m else [])"

definition script_report :: "nat \<Rightarrow> result_message \<Rightarrow> runner \<Rightarrow> runner" where
  "script_report index m s = (let s' = tell (report_line index m) s in
     if outcome_is_refusal (tm_outcome m) then s'\<lparr>rn_refused := True\<rparr> else s')"

definition report_plain :: "nat \<Rightarrow> string \<Rightarrow> string \<Rightarrow> runner \<Rightarrow> runner" where
  "report_plain index word tail s = tell (dec index @ '' '' @ word @ (if tail \<noteq> [] then '' '' @ tail else [])) s"

definition script_error :: "nat \<Rightarrow> string \<Rightarrow> script_step" where
  "script_error index t s = Some (tell (''SCRIPT-ERROR line '' @ dec index @ '': '' @ t) s, Some publisher_exit_script)"

definition transport_error :: "nat \<Rightarrow> string \<Rightarrow> script_step" where
  "transport_error index t s =
    (let s' = tell (dec index @ '' TRANSPORT_ERROR '' @ t) s in
     Some (s'\<lparr>rn_err := rn_err s' @ [''arf_publisher: '' @ t]\<rparr>, Some exit_refused))"

definition going :: "runner \<Rightarrow> (runner \<times> nat option) option" where
  "going s = Some (s, None)"

text \<open>One request: the runner with the client it leaves, and the answer.\<close>

definition issue :: "client_config \<Rightarrow> (nat \<Rightarrow> exchange) \<Rightarrow> (exchange \<Rightarrow> client \<Rightarrow> (client \<times> string \<times> 'r) option) \<Rightarrow> runner
    \<Rightarrow> (runner \<times> 'r) option" where
  "issue c turns call s =
    map_option (\<lambda>(cl, sent, r). (s\<lparr>rn_session := (rn_session s)\<lparr>cs_client := cl\<rparr>, rn_requests := rn_requests s + 1\<rparr>, r))
      (call (turns (rn_requests s)) (cs_client (rn_session s)))"

definition request_then :: "client_config \<Rightarrow> (nat \<Rightarrow> exchange) \<Rightarrow> (exchange \<Rightarrow> client \<Rightarrow> (client \<times> string \<times> (string + 'r)) option)
    \<Rightarrow> nat \<Rightarrow> ('r \<Rightarrow> script_step) \<Rightarrow> script_step" where
  "request_then c turns call index k s =
    (case issue c turns call s of
       None \<Rightarrow> None
     | Some (s', Inl error) \<Rightarrow> transport_error index error s'
     | Some (s', Inr answer) \<Rightarrow> k answer s')"

definition report_answer :: "client_config \<Rightarrow> (nat \<Rightarrow> exchange) \<Rightarrow> nat \<Rightarrow> (client_config \<Rightarrow> request_call) \<Rightarrow> script_step" where
  "report_answer c turns index call = request_then c turns (call c) index (\<lambda>m s. going (script_report index m s))"

definition scripted :: "nat \<Rightarrow> string + script_step \<Rightarrow> script_step" where
  "scripted index r s = (case r of Inl t \<Rightarrow> script_error index t s | Inr step \<Rightarrow> step s)"

definition resolve_policy :: "runner \<Rightarrow> string \<Rightarrow> string + policy_id" where
  "resolve_policy s token =
    (if token = ''@policy'' then expecting (quoted ''@policy'' @ '' is used before any create-policy in this script'') (rn_policy s)
     else expecting (quoted token @ '' is not a valid policy id'') (id_parse 96 token))"

definition route_for :: "publisher_options \<Rightarrow> runner \<Rightarrow> policy_id \<Rightarrow> route_id" where
  "route_for opts s policy = (case rn_routes s (id_text policy) of Some r \<Rightarrow> r | None \<Rightarrow> pb_default_route opts)"

definition next_observation_sequence :: "path_id \<Rightarrow> metric_kind \<Rightarrow> runner \<Rightarrow> runner \<times> u64" where
  "next_observation_sequence path kind s =
    (let key = id_text path @ ''|'' @ metric_kind_to_string kind; n = rn_sequences s key + 1 in
     (s\<lparr>rn_sequences := (rn_sequences s)(key := n)\<rparr>, n))"

section \<open>The commands of a script\<close>

text \<open>\<open>emplace\<close> keeps the route of a policy already named.\<close>

definition bind_policy :: "policy_id \<Rightarrow> route_id \<Rightarrow> runner \<Rightarrow> runner" where
  "bind_policy policy route s = s\<lparr>rn_policy := Some policy,
     rn_routes := (if rn_routes s (id_text policy) = None then (rn_routes s)(id_text policy \<mapsto> route) else rn_routes s)\<rparr>"

definition create_and_activate :: "client_config \<Rightarrow> (nat \<Rightarrow> exchange) \<Rightarrow> nat \<Rightarrow> create_message \<Rightarrow> route_id \<Rightarrow> script_step" where
  "create_and_activate c turns index m route =
    request_then c turns (client_create_policy c m) index (\<lambda>created s.
      if \<not> outcome_is_success (tm_outcome created) then going (script_report index created s)
      else request_then c turns (client_policy_lifecycle c \<lparr>lm_policy = tm_policy created, lm_event = PE_ACTIVATE,
          lm_detail = ''publisher activation''\<rparr>) index (\<lambda>activated s.
        going (script_report index (if \<not> outcome_is_success (tm_outcome activated) then activated else created)
          (bind_policy (tm_policy created) route s))) s)"

definition script_create_policy :: "client_config \<Rightarrow> publisher_options \<Rightarrow> (nat \<Rightarrow> exchange) \<Rightarrow> nat \<Rightarrow> string list \<Rightarrow> script_step" where
  "script_create_policy c opts turns index ws = scripted index
    (insist (length ws = 5) ''create-policy expects <name> <route-id> <switch-bps> <reverse-bps>'' (\<lambda>_.
     attempt (expecting (quoted (ws ! 1) @ '' is not a valid policy name'') (id_parse 64 (ws ! 1))) (\<lambda>name.
     attempt (expecting (quoted (ws ! 2) @ '' is not a valid route id'') (id_parse 96 (ws ! 2))) (\<lambda>route.
     attempt (expecting (quoted (ws ! 3) @ '' is not a basis point count'') (basis_points (ws ! 3))) (\<lambda>switch_bps.
     attempt (expecting (quoted (ws ! 4) @ '' is not a basis point count'') (basis_points (ws ! 4))) (\<lambda>reverse_bps.
     Inr (create_and_activate c turns index \<lparr>cm_name = name, cm_scope = make_policy_scope (pb_fabric opts) (pb_namespace opts),
       cm_semantics = script_semantics route switch_bps reverse_bps\<rparr> route)))))))"

definition positive :: "string \<Rightarrow> string \<Rightarrow> string + u64" where
  "positive what t =
    attempt (expecting (quoted t @ '' is not a '' @ what) (parse_unsigned t)) (\<lambda>n. insist (n \<noteq> 0) (quoted t @ '' is not a '' @ what) (\<lambda>_. Inr n))"

definition declared_binding :: "path_id \<Rightarrow> u64 \<Rightarrow> route_id \<Rightarrow> u64 \<Rightarrow> candidate_binding" where
  "declared_binding path authority route generation =
    \<lparr>cd_path = path,
     cd_path_authority = \<lparr>pa_path = path, pa_generation = Generation authority, pa_legal = True, pa_denial_reason = []\<rparr>,
     cd_multipath = None,
     cd_route = \<lparr>rb_route = route, rb_generation = Generation generation, rb_site = no_id, rb_current = True, rb_state = []\<rparr>,
     cd_weighted = None, cd_path_class = no_id, cd_available = True, cd_hard_failure = False\<rparr>"

definition script_declare :: "client_config \<Rightarrow> publisher_options \<Rightarrow> (nat \<Rightarrow> exchange) \<Rightarrow> nat \<Rightarrow> string list \<Rightarrow> script_step" where
  "script_declare c opts turns index ws s = scripted index
    (insist (length ws = 4 \<or> length ws = 5)
       ''declare expects <policy-id|@policy> <path-id> <path-authority-generation> [route-generation]'' (\<lambda>_.
     attempt (resolve_policy s (ws ! 1)) (\<lambda>policy.
     attempt (expecting (quoted (ws ! 2) @ '' is not a valid path id'') (id_parse 128 (ws ! 2))) (\<lambda>path.
     attempt (positive ''path authority generation'' (ws ! 3)) (\<lambda>authority.
     attempt (if length ws = 5 then positive ''route generation'' (ws ! 4) else Inr 1) (\<lambda>generation.
     Inr (\<lambda>s. let n = rn_notifications s + 1 in
       case make_upstream_attempt (cl_session (cs_client (rn_session s))) n of
         None \<Rightarrow> None
       | Some marked \<Rightarrow>
         report_answer c turns index (\<lambda>c. client_upstream_notify c
           [\<lparr>un_event = UE_DECLARE_CANDIDATE, un_policy = policy,
             un_binding = declared_binding path authority (route_for opts s policy) generation,
             un_provenance = \<lparr>up_publisher = pb_publisher opts, up_worker_boot = pb_worker_boot opts,
               up_epoch = cs_epoch (rn_session s), up_attempt = marked, up_origin = ''arf-publisher''\<rparr>,
             un_expected_previous = None\<rparr>]) (s\<lparr>rn_notifications := n\<rparr>)))))))) s"

definition script_evidence :: "client_config \<Rightarrow> publisher_options \<Rightarrow> (nat \<Rightarrow> exchange) \<Rightarrow> nat \<Rightarrow> string list \<Rightarrow> script_step" where
  "script_evidence c opts turns index ws = scripted index
    (insist (length ws = 4 \<or> length ws = 5)
       ''evidence expects <path-id> <METRIC_KIND> <value> [PRIMARY|AGGREGATED|OPERATOR|ESTIMATED]'' (\<lambda>_.
     attempt (expecting (quoted (ws ! 1) @ '' is not a valid path id'') (id_parse 128 (ws ! 1))) (\<lambda>path.
     attempt (expecting (quoted (ws ! 2) @ '' is not a metric kind'') (parse_metric_kind (ws ! 2))) (\<lambda>kind.
     attempt (expecting (quoted (ws ! 3) @ '' is not an integer metric value'') (parse_integer (ws ! 3))) (\<lambda>value.
     attempt (expecting (quoted (ws ! 3) @ '' is outside the declared range of '' @ ws ! 2) (mv_make kind value)) (\<lambda>metric.
     attempt (if length ws = 5 then expecting (quoted (ws ! 4) @ '' is not an evidence quality class'')
       (parse_evidence_quality (ws ! 4)) else Inr PRIMARY) (\<lambda>quality.
     Inr (\<lambda>s.
       case gen_from_value (ucast (pb_source_generation opts)) of
         None \<Rightarrow> None
       | Some generation \<Rightarrow>
         let (s1, sequence) = next_observation_sequence path kind s in
         report_answer c turns index (\<lambda>c. client_publish_evidence c
           [\<lparr>ep_source = pb_source opts, ep_source_generation = generation, ep_quality = quality, ep_path = path, ep_value = metric,
             ep_sequence = sequence\<rparr>]) s1))))))))"

definition script_evaluate :: "client_config \<Rightarrow> (nat \<Rightarrow> exchange) \<Rightarrow> nat \<Rightarrow> string list \<Rightarrow> script_step" where
  "script_evaluate c turns index ws s = scripted index
    (insist (length ws = 2) ''evaluate expects <policy-id|@policy>'' (\<lambda>_.
     attempt (resolve_policy s (ws ! 1)) (\<lambda>policy.
     Inr (report_answer c turns index (\<lambda>c. client_evaluate c \<lparr>em_policy = policy, em_defer_commit = False\<rparr>))))) s"

definition snapshot_answer :: "nat \<Rightarrow> policy_id \<Rightarrow> frame \<Rightarrow> script_step" where
  "snapshot_answer index policy response =
    (let i = fh_message_id (ff_header response) in
     if i = MI_ERROR then
       (case decode_error (ff_payload response) of
          None \<Rightarrow> transport_error index ''the ERROR payload could not be decoded''
        | Some failure \<Rightarrow> (\<lambda>s. going (script_report index (no_result_message\<lparr>tm_outcome := om_outcome failure,
            tm_detail := om_detail failure, tm_policy := policy\<rparr>) s)))
     else if i \<noteq> MI_SNAPSHOT_RESPONSE then
       transport_error index (''unexpected response '' @ message_id_to_string i @ '' to SNAPSHOT_REQUEST'')
     else case decode_snapshot_response (ff_payload response) of
       None \<Rightarrow> transport_error index ''the SNAPSHOT_RESPONSE payload could not be decoded''
     | Some m \<Rightarrow> (\<lambda>s. going (report_plain index ''OK'' (''snapshot='' @ id_text (sm_snapshot m) @ '' digest='' @ sm_digest m) s)))"

definition script_snapshot :: "client_config \<Rightarrow> (nat \<Rightarrow> exchange) \<Rightarrow> nat \<Rightarrow> string list \<Rightarrow> script_step" where
  "script_snapshot c turns index ws s = scripted index
    (insist (length ws = 2) ''snapshot expects <policy-id|@policy>'' (\<lambda>_.
     attempt (resolve_policy s (ws ! 1)) (\<lambda>policy.
     Inr (request_then c turns (client_request c MI_SNAPSHOT_REQUEST (encode_snapshot_request policy)) index
       (snapshot_answer index policy))))) s"

definition script_revalidate :: "client_config \<Rightarrow> (nat \<Rightarrow> exchange) \<Rightarrow> nat \<Rightarrow> string list \<Rightarrow> script_step" where
  "script_revalidate c turns index ws s = scripted index
    (insist (length ws = 2) ''revalidate expects <policy-id|@policy>'' (\<lambda>_.
     attempt (resolve_policy s (ws ! 1)) (\<lambda>policy.
     Inr (\<lambda>s. let n = rn_revalidations s + 1 in
       case make_revalidation_attempt (cl_session (cs_client (rn_session s))) n of
         None \<Rightarrow> None
       | Some marked \<Rightarrow> report_answer c turns index (\<lambda>c. client_revalidate c \<lparr>dm_policy = policy, dm_attempt = marked\<rparr>)
           (s\<lparr>rn_revalidations := n\<rparr>))))) s"

definition script_advance_epoch :: "client_config \<Rightarrow> (nat \<Rightarrow> exchange) \<Rightarrow> nat \<Rightarrow> string \<Rightarrow> script_step" where
  "script_advance_epoch c turns index t =
    (let reason = rest_after_fields t 1 in
     report_answer c turns index (\<lambda>c. client_advance_epoch c (if reason = [] then ''operator'' else reason)))"

definition script_fence :: "client_config \<Rightarrow> (nat \<Rightarrow> exchange) \<Rightarrow> nat \<Rightarrow> string list \<Rightarrow> string \<Rightarrow> script_step" where
  "script_fence c turns index ws t = scripted index
    (insist (\<not> length ws < 4) ''fence expects <publisher-id> <boot-id> <cause>'' (\<lambda>_.
     attempt (expecting (quoted (ws ! 1) @ '' is not a valid publisher id'') (id_parse 64 (ws ! 1))) (\<lambda>publisher.
     attempt (expecting (quoted (ws ! 2) @ '' is not a valid worker boot id'') (id_parse 64 (ws ! 2))) (\<lambda>boot.
     Inr (report_answer c turns index (\<lambda>c. client_fence c publisher boot (rest_after_fields t 3)))))))"

definition execute :: "client_config \<Rightarrow> publisher_options \<Rightarrow> (nat \<Rightarrow> exchange) \<Rightarrow> nat \<Rightarrow> string list \<Rightarrow> string \<Rightarrow> script_step" where
  "execute c opts turns index ws t s =
    (let command = ws ! 0 in
     if command = ''say'' then going (report_plain index ''OK'' (rest_after_fields t 1) s)
     else if command = ''create-policy'' then script_create_policy c opts turns index ws s
     else if command = ''declare'' then script_declare c opts turns index ws s
     else if command = ''evidence'' then script_evidence c opts turns index ws s
     else if command = ''evaluate'' then script_evaluate c turns index ws s
     else if command = ''snapshot'' then script_snapshot c turns index ws s
     else if command = ''revalidate'' then script_revalidate c turns index ws s
     else if command = ''advance-epoch'' then script_advance_epoch c turns index t s
     else if command = ''fence'' then script_fence c turns index ws t s
     else script_error index (''unknown command '' @ quoted command) s)"

fun run_script :: "client_config \<Rightarrow> publisher_options \<Rightarrow> (nat \<Rightarrow> exchange) \<Rightarrow> string list \<Rightarrow> runner \<Rightarrow> (runner \<times> nat) option" where
  "run_script c opts turns [] s = Some (s, if rn_refused s then exit_refused else exit_ok)"
| "run_script c opts turns (raw # rest) s =
    (let t = trim raw in
     if t = [] \<or> hd t = CHR ''#'' then run_script c opts turns rest s
     else if split_fields t = [] then run_script c opts turns rest s
     else let s1 = s\<lparr>rn_index := rn_index s + 1\<rparr> in
       case execute c opts turns (rn_index s1) (split_fields t) t s1 of
         None \<Rightarrow> None
       | Some (s2, Some code) \<Rightarrow> Some (s2, code)
       | Some (s2, None) \<Rightarrow> run_script c opts turns rest s2)"

section \<open>The process\<close>

definition publisher_usage :: "string list" where
  "publisher_usage = [
     ''Adaptive Routing Fabric publisher'',
     [],
     ''usage: arf_publisher --endpoint HOST:PORT --publisher ID --boot ID --session ID'',
     ''                     [--script PATH] [--linger] [--output PATH]'',
     ''                     [--fabric ID] [--namespace ID] [--source ID]'',
     ''                     [--source-generation N] [--route ID]'',
     [],
     ''  --endpoint HOST:PORT  coordinator to connect to (ARF_ENDPOINT is consulted'',
     ''                        when the flag is absent)'',
     ''  --publisher ID        publisher identity to register'',
     ''  --boot ID             worker boot incarnation to register; a boot that was'',
     ''                        fenced is refused by the coordinator'',
     ''  --session ID          this process incarnation, used as the identity prefix'',
     ''                        of the client session'',
     ''  --script PATH         command script to execute after registration'',
     ''  --linger              stay alive after the script so a test can terminate'',
     ''                        this process with a real OS process kill'',
     ''  --output PATH         append the same lines to PATH, flushed per line, so a'',
     ''                        test can poll a file instead of a pipe'',
     ''  --fabric ID           authority scope fabric (default fabric-alpha)'',
     ''  --namespace ID        authority scope routing namespace (default routing-core)'',
     ''  --source ID           evidence source id (default: the publisher id)'',
     ''  --source-generation N evidence source incarnation (default 1)'',
     ''  --route ID            route used by declare for a policy this script did not'',
     ''                        create (default route-1)'',
     ''  --help                print this text and exit'',
     [],
     ''script grammar, one command per line, '' @ quoted ''#'' @ '' starts a comment, blank lines ignored:'',
     ''  create-policy <name> <route-id> <switch-bps> <reverse-bps>'',
     ''  declare <policy-id|@policy> <path-id> <path-authority-generation> [route-generation]'',
     ''  evidence <path-id> <METRIC_KIND> <value> [PRIMARY|AGGREGATED|OPERATOR|ESTIMATED]'',
     ''  evaluate <policy-id|@policy>'',
     ''  snapshot <policy-id|@policy>'',
     ''  revalidate <policy-id|@policy>'',
     ''  advance-epoch <reason>'',
     ''  fence <publisher-id> <boot-id> <cause>'',
     ''  say <free text>'',
     [],
     ''@policy means the policy most recently created by create-policy in this script;'',
     ''using it before any create-policy is a script error. The observation sequence of'',
     ''published evidence is strictly increasing per (path, metric).'',
     [],
     ''exit codes: 0 script applied, 1 command refused or session lost, 2 usage error,'',
     ''            3 registration refused, 4 script error, 5 connect/handshake failure'']"

text \<open>\<open>Lingers\<close>: everything is printed and the process never ends by itself.\<close>

datatype publisher_end = Ends report | Lingers "string list"

definition publisher_usage_error :: "string \<Rightarrow> report" where
  "publisher_usage_error message = \<lparr>rp_out = [], rp_err = (''arf_publisher: '' @ message) # publisher_usage, rp_code = exit_usage\<rparr>"

text \<open>A line of the script loses one carriage return at its end.\<close>

definition without_return :: "string \<Rightarrow> string" where
  "without_return line = (if line \<noteq> [] \<and> last line = CHR 0x0D then butlast line else line)"

definition read_script :: "(string \<Rightarrow> string option) \<Rightarrow> string \<Rightarrow> string + string list" where
  "read_script files path =
    (case files path of
       None \<Rightarrow> Inl (''the script '' @ path @ '' could not be opened'')
     | Some content \<Rightarrow> Inr (map without_return (split_lines content)))"

definition fresh_runner :: "client_session \<Rightarrow> runner" where
  "fresh_runner t = \<lparr>rn_session = t, rn_requests = 0, rn_policy = None, rn_routes = (\<lambda>_. None), rn_sequences = (\<lambda>_. 0), rn_index = 0,
     rn_revalidations = 0, rn_notifications = 0, rn_refused = False, rn_out = [''READY''], rn_err = []\<rparr>"

definition serve_script :: "publisher_options \<Rightarrow> session_turns \<Rightarrow> (nat \<Rightarrow> exchange) \<Rightarrow> string list \<Rightarrow> client_session \<Rightarrow> publisher_end option" where
  "serve_script opts u turns script t =
    (let c = session_config (pb_endpoint opts) in
     case run_script c opts turns script (fresh_runner t) of
       None \<Rightarrow> None
     | Some (s, code) \<Rightarrow>
       if code = exit_ok \<and> pb_linger opts then Some (Lingers (rn_out s @ [''DONE'']))
       else map_option (\<lambda>_. Ends \<lparr>rp_out = rn_out s @ (if code = exit_ok then [''DONE''] else []), rp_err = rn_err s, rp_code = code\<rparr>)
         (end_session c u (rn_session s)))"

definition publish :: "publisher_options \<Rightarrow> session_turns \<Rightarrow> (nat \<Rightarrow> exchange) \<Rightarrow> string list \<Rightarrow> publisher_end option" where
  "publish opts u turns script =
    (let q = \<lparr>sq_config = session_config (pb_endpoint opts), sq_scope = make_authority_scope (pb_fabric opts) (pb_namespace opts),
              sq_publisher = Some (pb_publisher opts), sq_worker_boot = Some (pb_worker_boot opts)\<rparr> in
     case new_client (tn_nonce u) (pb_session_label opts) (tn_counter u) of
       None \<Rightarrow> None
     | Some cl \<Rightarrow>
       case open_session q (tn_connecting u) (tn_hello u) (tn_register u) cl of
         None \<Rightarrow> None
       | Some t \<Rightarrow>
         let oc = cs_outcome t in
         if \<not> so_connected oc \<or> \<not> so_greeting oc then
           Some (Ends \<lparr>rp_out = [''CONNECT-FAILED''], rp_err = [''arf_publisher: '' @ so_error oc], rp_code = publisher_exit_connect\<rparr>)
         else if \<not> so_registered oc then
           Some (Ends \<lparr>rp_out = [''REGISTER-FAILED '' @ outcome_to_string (so_registration_outcome oc)],
             rp_err = [''arf_publisher: registration refused: '' @ so_registration_detail oc], rp_code = publisher_exit_register\<rparr>)
         else serve_script opts u turns script t)"

text \<open>\<open>opened\<close>: whether the output file can be opened.\<close>

definition publisher_main :: "string option \<Rightarrow> (string \<Rightarrow> string option) \<Rightarrow> bool \<Rightarrow> session_turns \<Rightarrow> (nat \<Rightarrow> exchange)
    \<Rightarrow> string list \<Rightarrow> publisher_end option" where
  "publisher_main configured files opened u turns args =
    (let a = parse_args args in
     if ag_has a ''help'' then Some (Ends (printed publisher_usage))
     else case parse_publisher_options configured a of
       Inl message \<Rightarrow> Some (Ends (publisher_usage_error message))
     | Inr opts \<Rightarrow>
       if pb_output_path opts \<noteq> [] \<and> \<not> opened then
         Some (Ends (publisher_usage_error (''the output file '' @ pb_output_path opts @ '' could not be opened for append'')))
       else case (if pb_script_path opts = [] then Inr [] else read_script files (pb_script_path opts)) of
         Inl error \<Rightarrow> Some (Ends \<lparr>rp_out = [''SCRIPT-ERROR '' @ error], rp_err = [], rp_code = publisher_exit_script\<rparr>)
       | Inr script \<Rightarrow> publish opts u turns script)"

end
