(* ===== verification/Command_Guarantees.thy ===== *)
theory Command_Guarantees
  imports Commands
begin

text \<open>What the exit codes of the operator's tool mean, and which of its commands cannot be reached.\<close>

section \<open>Exit codes\<close>

lemma command_steps:
  "attempt r k = Inr y \<longleftrightarrow> (\<exists>x. r = Inr x \<and> k x = Inr y)"
  "insist b error l = Inr y \<longleftrightarrow> b \<and> l () = Inr y"
  by (cases r) (auto simp: attempt_def insist_def)

definition modest :: "command_body \<Rightarrow> bool" where
  "modest body \<longleftrightarrow> (\<forall>c u t t' r. body c u t = Some (t', r) \<longrightarrow> rp_code r \<le> exit_refused)"

lemma reports_are_modest [simp]:
  "rp_code (report_result r) \<le> exit_refused" "rp_code (report_state r) \<le> exit_refused"
  "rp_code (refused error) \<le> exit_refused" "rp_code (printed out) \<le> exit_refused"
  by (auto simp: report_result_def report_state_def refused_def printed_def exit_ok_def exit_refused_def Let_def split: sum.splits)

lemma report_snapshot_is_modest [simp]: "rp_code (report_snapshot policy r) \<le> exit_refused"
  by (simp add: report_snapshot_def Let_def split: sum.split option.split)

lemma asking_is_modest [simp]: "(\<And>r. rp_code (reporting r) \<le> exit_refused) \<Longrightarrow> modest (asking call reporting)"
  by (auto simp: modest_def asking_def)

lemma in_scope_exact: "in_scope a body = Inr (f, n, body') \<longleftrightarrow> parse_scope a = Inr (f, n) \<and> body' = body"
  by (auto simp: in_scope_def command_steps)

lemmas command_exact = command_steps in_scope_exact

lemma snapshot_is_modest: "command_snapshot a words = Inr (f, n, body) \<Longrightarrow> modest body"
  by (auto simp: command_snapshot_def command_exact modest_def)

lemma revalidate_is_modest: "command_revalidate a words = Inr (f, n, body) \<Longrightarrow> modest body"
  by (auto simp: command_revalidate_def command_exact modest_def asking_def split: option.splits)

lemma create_is_modest: "command_policy_create a = Inr (f, n, body) \<Longrightarrow> modest body"
  by (auto simp: command_policy_create_def command_exact modest_def Let_def split: option.splits sum.splits if_splits)

lemma queries_are_modest:
  "command_policy_query a words single = Inr (f, n, body) \<Longrightarrow> modest body"
  "command_state_show a words = Inr (f, n, body) \<Longrightarrow> modest body"
  "command_explain a words = Inr (f, n, body) \<Longrightarrow> modest body"
  "command_diff a words = Inr (f, n, body) \<Longrightarrow> modest body"
  by (auto simp: command_policy_query_def command_state_show_def command_explain_def command_diff_def command_exact)

lemma requests_are_modest:
  "command_policy_update a words = Inr (f, n, body) \<Longrightarrow> modest body"
  "command_policy_lifecycle a words event verb = Inr (f, n, body) \<Longrightarrow> modest body"
  "command_evidence_publish a words = Inr (f, n, body) \<Longrightarrow> modest body"
  "command_evaluate a words = Inr (f, n, body) \<Longrightarrow> modest body"
  "command_revoke a words = Inr (f, n, body) \<Longrightarrow> modest body"
  by (auto simp: command_policy_update_def command_policy_lifecycle_def command_evidence_publish_def command_evaluate_def
      command_revoke_def command_exact)

lemmas commands_are_modest =
  snapshot_is_modest revalidate_is_modest create_is_modest queries_are_modest requests_are_modest

definition answer_ok :: "action \<Rightarrow> bool" where
  "answer_ok action = (case action of
     Answered r \<Rightarrow> rp_code r \<le> exit_refused \<or> rp_code r = exit_usage \<and> rp_out r = [] \<and> rp_err r \<noteq> []
   | Remote e f n body \<Rightarrow> modest body)"

lemma usage_error_ok [simp]: "answer_ok (Answered (usage_error message))"
  by (simp add: answer_ok_def usage_error_def)

lemma remote_ok: "(\<And>f n body. command = Inr (f, n, body) \<Longrightarrow> modest body) \<Longrightarrow> answer_ok (remote configured a allowed command)"
  by (auto simp: remote_def check_options_def answer_ok_def usage_error_def attempt_def split: option.splits sum.splits prod.splits)

lemma policy_action_ok: "answer_ok (policy_action configured a words)"
  by (simp add: policy_action_def Let_def remote_ok commands_are_modest)

lemma remote_action_ok: "answer_ok (remote_action configured a words)"
  by (simp add: remote_action_def Let_def remote_ok commands_are_modest policy_action_ok)

lemma modest_ok [simp]: "rp_code r \<le> exit_refused \<Longrightarrow> answer_ok (Answered r)"
  by (simp add: answer_ok_def)

lemma local_command_ok: "answer_ok (Answered answer) \<Longrightarrow> answer_ok (Answered (local_command a answer))"
  by (auto simp: local_command_def check_options_def split: option.split)

lemma inspect_store_ok [simp]: "rp_code (inspect_store path bytes) \<le> exit_refused"
  by (auto simp: inspect_store_def split: sum.split)

lemma chosen_action_ok: "answer_ok (chosen_action configured read_store_bytes a)"
proof -
  have "answer_ok (Answered (help_action words))" for words
    by (auto simp: help_action_def split: option.split)
  moreover have "answer_ok (Answered (command_store_inspect read_store_bytes a words))" for words
    unfolding command_store_inspect_def by (rule local_command_ok) (auto split: sum.split)
  moreover have "answer_ok (Answered \<lparr>rp_out = [], rp_err = error # more, rp_code = exit_usage\<rparr>)" for error more
    by (simp add: answer_ok_def)
  ultimately show ?thesis by (simp add: chosen_action_def Let_def remote_action_ok local_command_ok)
qed

lemma with_session_code:
  assumes "with_session e f n body u = Some r" and "modest body"
  shows "rp_code r \<le> exit_refused"
  using assms by (auto simp: with_session_def modest_def Let_def split: option.splits if_splits)

text \<open>
  Whatever the arguments, the environment, the file and the coordinator do, the tool ends with 0, 1 or 2, and
  with 2 only where it opens no session, says why on the error stream and prints nothing on the standard output.
\<close>

lemma exit_codes_are_kept:
  assumes "arf_main configured read_store_bytes u args = Some r"
  shows "rp_code r \<in> {exit_ok, exit_refused, exit_usage}
    \<and> (rp_code r = exit_usage \<longrightarrow> chosen_action configured read_store_bytes (parse_args args) = Answered r
         \<and> rp_out r = [] \<and> rp_err r \<noteq> [])"
proof (cases "chosen_action configured read_store_bytes (parse_args args)")
  case (Answered r')
  then have "r' = r" using assms by (simp add: arf_main_def perform_def)
  then show ?thesis using chosen_action_ok[of configured read_store_bytes "parse_args args"] Answered
    by (auto simp: answer_ok_def exit_ok_def exit_refused_def exit_usage_def)
next
  case (Remote e f n body)
  then have "rp_code r \<le> exit_refused"
    using with_session_code[of e f n body u r] assms chosen_action_ok[of configured read_store_bytes "parse_args args"]
    by (simp add: arf_main_def perform_def answer_ok_def)
  then show ?thesis by (auto simp: exit_ok_def exit_refused_def exit_usage_def)
qed

definition broken_turns :: session_turns where
  "broken_turns =
    (let call = \<lparr>sk_started = 0, sk_observed = 0, sk_turns = []\<rparr>;
         silent = \<lparr>ex_send = \<lparr>sk_started = 0, sk_observed = 0, sk_turns = []\<rparr>, ex_started = 0, ex_reads = []\<rparr> in
     \<lparr>tn_nonce = ''n'', tn_counter = 0, tn_connecting = Some ''connection refused'', tn_hello = silent, tn_register = silent,
      tn_request = silent, tn_second = silent, tn_bye = call\<rparr>)"

lemma exit_codes_are_kept_witness:
  "\<exists>r. arf_main None (\<lambda>_. Inl []) broken_turns [''limits'', ''now''] = Some r \<and> rp_code r = exit_usage \<and> rp_out r = []
     \<and> chosen_action None (\<lambda>_. Inl []) (parse_args [''limits'', ''now'']) = Answered r"
proof -
  let ?r = "usage_error ''limits accepts no positional argument''"
  have runs: "arf_main None (\<lambda>_. Inl []) broken_turns [''limits'', ''now''] = Some ?r"
    by (simp add: arf_main_def perform_def chosen_action_def starts_with_def ag_has_def)
  moreover have "rp_code ?r = exit_usage" by (simp add: usage_error_def)
  ultimately show ?thesis using exit_codes_are_kept[OF runs] by blast
qed

lemmas run_simps = arf_main_def perform_def chosen_action_def remote_action_def remote_def check_options_def ag_first_unknown_def
  starts_with_def with_option_def ag_has_def resolve_endpoint_def ag_value_def Let_def

lemma default_endpoint: "parse_endpoint ''127.0.0.1:7331'' = Inr \<lparr>ea_host = ''127.0.0.1'', ea_port = 7331\<rparr>"
  by code_simp

text \<open>A flag takes the word behind it: with the flag in front, the policy is its value and the command has none.\<close>

lemma flag_swallows_the_policy:
  "arf_main None (\<lambda>_. Inl []) u [''evaluate'', ''--defer'', ''pol''] = Some (usage_error ''evaluate expects exactly one policy id'')"
  by (simp add: run_simps default_endpoint attempt_def command_evaluate_def insist_def)

text \<open>A command that finds no coordinator is refused, with 1.\<close>

lemma sample_arguments:
  "id_parse 96 ''pol'' = Some (StrongId ''pol'' :: policy_id)"
  "id_parse 64 ''fabric-alpha'' = Some (StrongId ''fabric-alpha'' :: fabric_id)"
  "id_parse 64 ''routing-core'' = Some (StrongId ''routing-core'' :: routing_namespace)"
  by (simp_all add: id_parse_def id_char_allowed_def id_edge_char_allowed_def)

lemma broken_session:
  "with_session \<lparr>ea_host = ''127.0.0.1'', ea_port = 7331\<rparr> f n body broken_turns
     = Some (refused ''127.0.0.1:7331 is unreachable: connection refused'')"
proof -
  have "new_client ''n'' ''arf-cli'' 0 \<noteq> None" by code_simp
  then obtain cl where cl: "new_client ''n'' ''arf-cli'' 0 = Some cl" by blast
  have digits: "(char_of (55 :: nat) :: char) = CHR ''7''" "(char_of (51 :: nat) :: char) = CHR ''3''" "(char_of (49 :: nat) :: char) = CHR ''1''"
    by code_simp+
  have address: "endpoint_render \<lparr>ea_host = ''127.0.0.1'', ea_port = 7331\<rparr> = ''127.0.0.1:7331''"
    by (simp add: endpoint_render_def dec.simps[of 7331] dec.simps[of 733] dec.simps[of 73] dec.simps[of 7] digit_char_def digits)
  show ?thesis
    by (simp add: with_session_def broken_turns_def cl open_session_def client_connect_def unopened_def address Let_def)
qed

lemma unreachable_coordinator:
  "arf_main None (\<lambda>_. Inl []) broken_turns [''evaluate'', ''pol'', ''--defer'']
     = Some (refused ''127.0.0.1:7331 is unreachable: connection refused'')"
  by (simp add: run_simps default_endpoint attempt_def command_evaluate_def insist_def parse_policy_argument_def expecting_def
      sample_arguments in_scope_def parse_scope_def parse_identity_def or_default_def broken_session)

section \<open>Retiring\<close>

text \<open>
  \<^verbatim>\<open>arf retire <policy-id>\<close>, as the tool's own usage text has it, is always a usage error: the handler it
  shares with \<^verbatim>\<open>policy activate\<close> counts three words.  A session to retire the policy is opened only when
  some word stands between the two.
\<close>

lemma retire_needs_a_spare_word:
  assumes "check_options a [''endpoint'', ''fabric'', ''namespace'', ''help'', ''detail''] = None"
    and "resolve_endpoint a configured ''127.0.0.1:7331'' = Inr e"
  shows "ag_positional a = [''retire'', policy] \<Longrightarrow>
      chosen_action configured read_store_bytes a = Answered (usage_error ''policy retire expects exactly one policy id'')"
    and "ag_positional a = [''retire'', spare, policy] \<Longrightarrow> id_parse 96 policy = Some (i :: policy_id) \<Longrightarrow> parse_scope a = Inr (f, n) \<Longrightarrow>
      \<exists>body. chosen_action configured read_store_bytes a = Remote e f n body"
  using assms
  by (simp_all add: chosen_action_def remote_action_def remote_def command_policy_lifecycle_def insist_def attempt_def
      parse_policy_argument_def expecting_def in_scope_def)

end
