(* ===== verification/Publisher_Guarantees.thy ===== *)
theory Publisher_Guarantees
  imports Publisher Command_Guarantees
begin

text \<open>
  The output of the publishing process: one numbered line for each command, the line that ends a script
  early, and the exit code that goes with what was printed.
\<close>

section \<open>One line for each command\<close>

text \<open>The line of a command that was answered, and whether the answer was a refusal.\<close>

definition answer_line :: "nat \<Rightarrow> bool \<Rightarrow> string \<Rightarrow> bool" where
  "answer_line k refusal line \<longleftrightarrow>
     (\<exists>m. line = report_line k m \<and> refusal = outcome_is_refusal (tm_outcome m))
   \<or> \<not> refusal \<and> (\<exists>text. line = dec k @ '' OK'' @ text)"

text \<open>The line of a command that ends the script, with its exit code.\<close>

definition ending_line :: "nat \<Rightarrow> nat \<Rightarrow> string \<Rightarrow> bool" where
  "ending_line k code line \<longleftrightarrow>
     code = 1 \<and> (\<exists>error. line = dec k @ '' TRANSPORT_ERROR '' @ error)
   \<or> code = 4 \<and> (\<exists>error. line = ''SCRIPT-ERROR line '' @ dec k @ '': '' @ error)"

definition orderly :: "nat \<Rightarrow> runner \<Rightarrow> (runner \<times> nat option) option \<Rightarrow> bool" where
  "orderly k s r \<longleftrightarrow> (\<forall>s' ended. r = Some (s', ended) \<longrightarrow> rn_index s' = rn_index s \<and>
     (\<exists>line. rn_out s' = rn_out s @ [line] \<and>
       (case ended of
          None \<Rightarrow> \<exists>f. answer_line k f line \<and> rn_refused s' = (rn_refused s \<or> f)
        | Some code \<Rightarrow> ending_line k code line)))"

lemma numbered_line [simp]: "dec n @ rest \<noteq> ''DONE''"
proof
  assume "dec n @ rest = ''DONE''"
  then have "hd (dec n) = CHR ''D''" by (cases "dec n") (auto simp: dec_nonempty)
  then have "CHR ''D'' \<in> set (dec n)" by (metis dec_nonempty hd_in_set)
  then show False using dec_digits by (fastforce simp: digitc_def)
qed

lemma lines_are_not_done:
  "answer_line k f line \<Longrightarrow> line \<noteq> ''DONE''" "ending_line k code line \<Longrightarrow> line \<noteq> ''DONE''"
  by (auto simp: answer_line_def ending_line_def report_line_def numbered_line[symmetric])

text \<open>Only these three fields of the runner matter.\<close>

lemma orderly_cong:
  "rn_out s = rn_out t \<Longrightarrow> rn_refused s = rn_refused t \<Longrightarrow> rn_index s = rn_index t \<Longrightarrow> orderly k t r \<Longrightarrow> orderly k s r"
  by (simp add: orderly_def cong: option.case_cong)

named_theorems in_order \<open>steps of a script that print one line\<close>

lemma plain_line: "answer_line k False (dec k @ '' OK'' @ text)"
  unfolding answer_line_def by blast

lemma reported_line: "answer_line k (outcome_is_refusal (tm_outcome m)) (report_line k m)"
  unfolding answer_line_def by blast

lemma printing_steps [in_order]:
  "orderly k s (script_error k t s)" "orderly k s (transport_error k t s)"
  "orderly k s (going (script_report k m s))" "orderly k s (going (report_plain k ''OK'' rest s))"
proof -
  show "orderly k s (script_error k t s)" "orderly k s (transport_error k t s)"
    by (simp_all add: orderly_def script_error_def transport_error_def tell_def Let_def ending_line_def exit_refused_def
        publisher_exit_script_def)
  show "orderly k s (going (script_report k m s))"
    using reported_line[of k m] by (cases "outcome_is_refusal (tm_outcome m)")
      (simp_all add: orderly_def going_def script_report_def tell_def Let_def exI[of _ True] exI[of _ False])
  show "orderly k s (going (report_plain k ''OK'' rest s))"
    using plain_line[of k "if rest = [] then [] else '' '' @ rest"]
    by (simp add: orderly_def going_def report_plain_def tell_def Let_def exI[of _ False] split: if_splits)
qed

lemma issue_prints_nothing:
  "issue c turns call s = Some (s', r) \<Longrightarrow> rn_out s' = rn_out s \<and> rn_refused s' = rn_refused s \<and> rn_index s' = rn_index s"
  by (auto simp: issue_def)

lemma nothing_in_order [in_order]: "orderly k s None"
  by (simp add: orderly_def)

lemma request_in_order:
  assumes "\<And>answer s'. orderly i s' (k answer s')"
  shows "orderly i s (request_then c turns call i k s)"
proof (cases "issue c turns call s")
  case (Some p)
  obtain s' r where p: "p = (s', r)" by (cases p)
  then have same: "rn_out s = rn_out s'" "rn_refused s = rn_refused s'" "rn_index s = rn_index s'"
    using Some issue_prints_nothing[of c turns call s s' r] by simp_all
  have "orderly i s' (case r of Inl error \<Rightarrow> transport_error i error s' | Inr answer \<Rightarrow> k answer s')"
    using printing_steps(2)[of i s'] assms by (simp split: sum.split)
  from orderly_cong[OF same this] show ?thesis using Some p by (simp add: request_then_def split: sum.split)
qed (simp add: request_then_def orderly_def)

lemma report_answer_in_order [in_order]: "orderly index s (report_answer c turns index call s)"
  unfolding report_answer_def by (rule request_in_order) (rule in_order)

lemma create_in_order [in_order]: "orderly index s (create_and_activate c turns index m route s)"
proof -
  have "orderly index s' (going (script_report index m' (bind_policy policy route s')))" for s' m' policy
    by (rule orderly_cong[OF _ _ _ printing_steps(3)]) (simp_all add: bind_policy_def)
  then show ?thesis unfolding create_and_activate_def by (intro request_in_order) (auto intro: request_in_order in_order)
qed

lemma snapshot_answer_in_order [in_order]: "orderly index s (snapshot_answer index policy response s)"
  by (auto simp: snapshot_answer_def Let_def in_order split: option.split)

lemma scripted_in_order:
  "(\<And>step. r = Inr step \<Longrightarrow> orderly index s (step s)) \<Longrightarrow> orderly index s (scripted index r s)"
  by (auto simp: scripted_def in_order split: sum.split)

lemma counted_in_order [in_order]:
  "orderly index s (report_answer c turns index call (s\<lparr>rn_notifications := n\<rparr>))"
  "orderly index s (report_answer c turns index call (s\<lparr>rn_revalidations := n\<rparr>))"
  "orderly index s (report_answer c turns index call (s\<lparr>rn_sequences := f\<rparr>))"
  by (rule orderly_cong[OF _ _ _ report_answer_in_order]; simp)+

lemma declare_in_order [in_order]: "orderly index s (script_declare c opts turns index ws s)"
  unfolding script_declare_def
  by (rule scripted_in_order)
    (auto simp: command_steps Let_def in_order split: option.split)

lemma evidence_in_order [in_order]: "orderly index s (script_evidence c opts turns index ws s)"
  unfolding script_evidence_def
  by (rule scripted_in_order)
    (auto simp: command_steps Let_def in_order next_observation_sequence_def
      split: option.split)

lemma revalidate_in_order [in_order]: "orderly index s (script_revalidate c turns index ws s)"
  unfolding script_revalidate_def
  by (rule scripted_in_order)
    (auto simp: command_steps Let_def in_order split: option.split)

lemma other_commands_in_order [in_order]:
  "orderly index s (script_create_policy c opts turns index ws s)"
  "orderly index s (script_evaluate c turns index ws s)"
  "orderly index s (script_snapshot c turns index ws s)"
  "orderly index s (script_fence c turns index ws t s)"
  "orderly index s (script_advance_epoch c turns index t s)"
proof -
  show "orderly index s (script_create_policy c opts turns index ws s)" unfolding script_create_policy_def
    by (rule scripted_in_order) (auto simp: command_steps in_order)
  show "orderly index s (script_evaluate c turns index ws s)" unfolding script_evaluate_def
    by (rule scripted_in_order) (auto simp: command_steps in_order)
  show "orderly index s (script_snapshot c turns index ws s)" unfolding script_snapshot_def
    by (rule scripted_in_order) (auto simp: command_steps intro: request_in_order in_order)
  show "orderly index s (script_fence c turns index ws t s)" unfolding script_fence_def
    by (rule scripted_in_order) (auto simp: command_steps in_order)
  show "orderly index s (script_advance_epoch c turns index t s)" by (simp add: script_advance_epoch_def Let_def in_order)
qed

lemma execute_in_order: "orderly index s (execute c opts turns index ws t s)"
  by (simp add: execute_def Let_def in_order)

section \<open>A whole script\<close>

definition is_command :: "string \<Rightarrow> bool" where
  "is_command raw \<longleftrightarrow> (let t = trim raw in t \<noteq> [] \<and> hd t \<noteq> CHR ''#'' \<and> split_fields t \<noteq> [])"

lemma run_script_command:
  "run_script c opts turns (raw # rest) s =
    (if \<not> is_command raw then run_script c opts turns rest s
     else let s1 = s\<lparr>rn_index := rn_index s + 1\<rparr> in
       case execute c opts turns (rn_index s1) (split_fields (trim raw)) (trim raw) s1 of
         None \<Rightarrow> None
       | Some (s2, Some code) \<Rightarrow> Some (s2, code)
       | Some (s2, None) \<Rightarrow> run_script c opts turns rest s2)"
  by (simp add: is_command_def Let_def del: run_script.simps(1))

text \<open>
  The account of a script of \<open>n\<close> commands that follow the \<open>i\<close>-th: every one of them is answered, and the code is 1
  exactly when one of the answers, or of those before, is a refusal; or one of them ends the script, with its code.
\<close>

definition account :: "nat \<Rightarrow> bool \<Rightarrow> nat \<Rightarrow> string list \<Rightarrow> nat \<Rightarrow> bool" where
  "account i refusal n ls code \<longleftrightarrow> (\<exists>answers fs. length fs = length answers
     \<and> (\<forall>k < length answers. answer_line (Suc (i + k)) (fs ! k) (answers ! k))
     \<and> (ls = answers \<and> length answers = n \<and> code = (if refusal \<or> True \<in> set fs then 1 else 0)
      \<or> (\<exists>line. ls = answers @ [line] \<and> length answers < n \<and> ending_line (Suc (i + length answers)) code line)))"

lemma account_nothing: "account i refusal 0 [] (if refusal then 1 else 0)"
  unfolding account_def by (intro exI[of _ "[]"]) simp

lemma account_ending: "ending_line (Suc i) code line \<Longrightarrow> 0 < n \<Longrightarrow> account i refusal n [line] code"
  unfolding account_def by (intro exI[of _ "[]"]) simp

lemma account_answer:
  assumes "answer_line (Suc i) f line" and "account (Suc i) (refusal \<or> f) n ls code"
  shows "account i refusal (Suc n) (line # ls) code"
proof -
  obtain answers fs where a: "length fs = length answers"
      "\<forall>k < length answers. answer_line (Suc (Suc i + k)) (fs ! k) (answers ! k)"
      "ls = answers \<and> length answers = n \<and> code = (if (refusal \<or> f) \<or> True \<in> set fs then 1 else 0)
        \<or> (\<exists>line. ls = answers @ [line] \<and> length answers < n \<and> ending_line (Suc (Suc i + length answers)) code line)"
    using assms(2) unfolding account_def by blast
  have "answer_line (Suc (i + k)) ((f # fs) ! k) ((line # answers) ! k)" if "k < length (line # answers)" for k
    using that assms(1) a(2) by (cases k) auto
  then show ?thesis unfolding account_def using a(1,3)
    by (intro exI[of _ "line # answers"] exI[of _ "f # fs"]) auto
qed

lemma run_script_in_order:
  assumes "run_script c opts turns script s = Some (s', code)"
  shows "\<exists>ls. rn_out s' = rn_out s @ ls \<and> account (rn_index s) (rn_refused s) (length (filter is_command script)) ls code"
  using assms
proof (induction script arbitrary: s)
  case Nil
  then show ?case using account_nothing[of "rn_index s" "rn_refused s"] by (auto simp: exit_ok_def exit_refused_def)
next
  case (Cons raw rest)
  show ?case
  proof (cases "is_command raw")
    case False
    then have "run_script c opts turns rest s = Some (s', code)" using Cons.prems by (simp only: run_script_command if_True not_False_eq_True)
    then show ?thesis using Cons.IH False by simp
  next
    case True
    let ?s = "s\<lparr>rn_index := rn_index s + 1\<rparr>" and ?t = "trim raw"
    obtain s2 ended where e: "execute c opts turns (rn_index ?s) (split_fields ?t) ?t ?s = Some (s2, ended)"
        and rest: "(case ended of Some k \<Rightarrow> Some (s2, k) | None \<Rightarrow> run_script c opts turns rest s2) = Some (s', code)"
      using Cons.prems True unfolding run_script_command Let_def by (auto simp del: run_script.simps split: option.splits)
    have "orderly (rn_index ?s) ?s (execute c opts turns (rn_index ?s) (split_fields ?t) ?t ?s)" by (rule execute_in_order)
    then have step: "rn_index s2 = rn_index ?s \<and> (\<exists>line. rn_out s2 = rn_out ?s @ [line] \<and>
        (case ended of None \<Rightarrow> \<exists>f. answer_line (rn_index ?s) f line \<and> rn_refused s2 = (rn_refused ?s \<or> f)
         | Some code \<Rightarrow> ending_line (rn_index ?s) code line))"
      unfolding e orderly_def by blast
    then obtain line where line: "rn_out s2 = rn_out s @ [line]" and index: "rn_index s2 = Suc (rn_index s)"
        and ended: "case ended of None \<Rightarrow> \<exists>f. answer_line (Suc (rn_index s)) f line \<and> rn_refused s2 = (rn_refused s \<or> f)
          | Some code \<Rightarrow> ending_line (Suc (rn_index s)) code line"
      by (cases ended) auto
    show ?thesis
    proof (cases ended)
      case None
      then obtain f where f: "answer_line (Suc (rn_index s)) f line" "rn_refused s2 = (rn_refused s \<or> f)" using ended by auto
      obtain ls where "rn_out s' = rn_out s2 @ ls" "account (rn_index s2) (rn_refused s2) (length (filter is_command rest)) ls code"
        using Cons.IH[of s2] rest None by auto
      then show ?thesis using account_answer[OF f(1), of "rn_refused s"] line index f(2) True by auto
    next
      case (Some k)
      then show ?thesis using rest ended account_ending line True by auto
    qed
  qed
qed

definition printed_by :: "publisher_end \<Rightarrow> string list" where
  "printed_by e = (case e of Ends r \<Rightarrow> rp_out r | Lingers out \<Rightarrow> out)"

definition succeeded :: "publisher_end \<Rightarrow> bool" where
  "succeeded e = (case e of Ends r \<Rightarrow> rp_code r = 0 | Lingers out \<Rightarrow> True)"

lemma serve_script_output:
  assumes "serve_script opts u turns script t = Some e"
  shows "\<exists>ls code. account 0 False (length (filter is_command script)) ls code
    \<and> printed_by e = ''READY'' # ls @ (if code = 0 then [''DONE''] else []) \<and> (succeeded e \<longleftrightarrow> code = 0)
    \<and> (\<forall>r. e = Ends r \<longrightarrow> rp_code r = code)"
proof -
  let ?c = "session_config (pb_endpoint opts)"
  obtain s code where run: "run_script ?c opts turns script (fresh_runner t) = Some (s, code)"
    using assms by (auto simp: serve_script_def Let_def split: option.splits)
  obtain ls where "rn_out s = ''READY'' # ls" "account 0 False (length (filter is_command script)) ls code"
    using run_script_in_order[OF run] by (auto simp: fresh_runner_def)
  then show ?thesis using assms run
    by (intro exI[of _ ls] exI[of _ code])
      (auto simp: serve_script_def Let_def printed_by_def succeeded_def exit_ok_def split: if_splits)
qed

lemma account_codes:
  assumes "account i refusal n ls code"
  shows "code \<in> {0, 1, 4}" and "''DONE'' \<notin> set ls"
proof -
  obtain answers fs where a: "\<forall>k < length answers. answer_line (Suc (i + k)) (fs ! k) (answers ! k)"
      "ls = answers \<and> length answers = n \<and> code = (if refusal \<or> True \<in> set fs then 1 else 0)
        \<or> (\<exists>line. ls = answers @ [line] \<and> length answers < n \<and> ending_line (Suc (i + length answers)) code line)"
    using assms unfolding account_def by blast
  show "code \<in> {0, 1, 4}" using a(2) by (auto simp: ending_line_def split: if_splits)
  have "''DONE'' \<notin> set answers" using a(1) lines_are_not_done(1) by (fastforce simp: in_set_conv_nth)
  then show "''DONE'' \<notin> set ls" using a(2) by (auto dest: lines_are_not_done(2))
qed







text \<open>With a registration that fails, or no connection, the process ends before the script.\<close>

lemma publisher_exit_codes:
  assumes "publish opts u turns script = Some (Ends r)"
  shows "rp_code r \<in> {exit_ok, exit_refused, publisher_exit_register, publisher_exit_script, publisher_exit_connect}"
proof -
  consider t where "serve_script opts u turns script t = Some (Ends r)"
    | "rp_code r = publisher_exit_connect \<or> rp_code r = publisher_exit_register"
    using assms by (auto simp: publish_def Let_def split: option.splits if_splits)
  then show ?thesis
  proof cases
    case 1
    then show ?thesis using serve_script_output[OF 1] account_codes(1) by (fastforce simp: exit_ok_def exit_refused_def publisher_exit_script_def)
  qed auto
qed

section \<open>A source generation that does not fit\<close>

text \<open>
  \<^verbatim>\<open>--source-generation 4294967296\<close> is accepted and becomes zero; the first \<open>evidence\<close> command of the script then
  throws out of the process.
\<close>

lemma generation_is_truncated:
  assumes "ag_value a ''source-generation'' = Some ''4294967296''"
  shows "parse_source_generation a = Inr 0"
proof -
  have "parse_unsigned ''4294967296'' = Some 4294967296" by code_simp
  then show ?thesis using assms by (simp add: parse_source_generation_def parse_positive_def attempt_def expecting_def insist_def)
qed

lemma zero_generation_ends_the_process:
  assumes "pb_source_generation opts = 0" and "id_parse 128 path \<noteq> (None :: path_id option)"
    and "parse_metric_kind kind = Some k" and "parse_integer value = Some v" and "mv_make k v \<noteq> None"
  shows "script_evidence c opts turns index [''evidence'', path, kind, value] s = None"
  using assms by (auto simp: script_evidence_def scripted_def insist_def attempt_def expecting_def gen_from_value_def)

end
