(* ===== verification/Coordinator_Process.thy ===== *)
theory Coordinator_Process
  imports Commands
begin

text \<open>
  The coordinator's process (\<^verbatim>\<open>tools/arf_coordinator.cpp\<close>) around the server: its options, what it does before
  and after the server starts, and what it prints.  What the file system answers and whether the server
  starts are arguments.
\<close>

definition coordinator_usage :: "string list" where
  "coordinator_usage = [
     ''Adaptive Routing Fabric coordinator'',
     [],
     ''usage: arf_coordinator [--host H] [--port N] [--store PATH] [--ready-file PATH]'',
     ''                       [--max-sessions N]'',
     [],
     ''  --host H          interface to bind (default 127.0.0.1)'',
     ''  --port N          TCP port to bind; 0 asks the operating system for an'',
     ''                    ephemeral port (default 0)'',
     ''  --store PATH      durable store; the engine loads it at start and rewrites'',
     ''                    it after every mutation'',
     ''  --ready-file PATH writes '' @ quoted ''<host>:<port>'' @ '' as the first line of PATH once the'',
     ''                    socket is bound, so a harness can wait without a pipe'',
     ''  --max-sessions N  override Limits::max_sessions'',
     ''  --help            print this text and exit'',
     [],
     ''stdout: '' @ quoted ''LISTENING <host> <port>'' @ '' once bound, then '' @ quoted ''RECOVERED ...'' @ '' when a store'',
     ''was loaded. stdin is never read; the process runs until it is terminated.'',
     [],
     ''exit codes: 0 clean stop, 1 startup refused, 2 usage error'']"

record coordinator_options =
  ko_host :: string
  ko_port :: u16
  ko_max_sessions :: u64
  ko_store :: string
  ko_ready_file :: string

definition told :: "string \<Rightarrow> string" where
  "told message = ''arf_coordinator: '' @ message"

definition bad_usage :: "bool \<Rightarrow> string \<Rightarrow> report" where
  "bad_usage with_usage message =
    \<lparr>rp_out = [], rp_err = told message # (if with_usage then coordinator_usage else []), rp_code = exit_usage\<rparr>"

definition parse_coordinator_options :: "arg_set \<Rightarrow> report + coordinator_options" where
  "parse_coordinator_options a =
    (case ag_first_unknown a [''host'', ''port'', ''store'', ''ready-file'', ''max-sessions'', ''help''] of
       Some name \<Rightarrow> Inl (bad_usage True (''unknown option --'' @ name))
     | None \<Rightarrow>
     if ag_positional a \<noteq> [] then Inl (bad_usage True (''unexpected argument '' @ quoted (hd (ag_positional a))))
     else case (case ag_value a ''port'' of None \<Rightarrow> Some 0 | Some t \<Rightarrow> parse_unsigned t) of
       None \<Rightarrow> Inl (bad_usage False ''--port must be an integer in 0..65535'')
     | Some port \<Rightarrow>
       if port > 65535 then Inl (bad_usage False ''--port must be an integer in 0..65535'')
       else let host = or_default ''127.0.0.1'' (ag_value a ''host'') in
       if host = [] then Inl (bad_usage False ''--host must not be empty'')
       else case (case ag_value a ''max-sessions'' of None \<Rightarrow> Some (lim_max_sessions default_limits) | Some t \<Rightarrow> parse_unsigned t) of
         None \<Rightarrow> Inl (bad_usage False ''--max-sessions must be a positive integer'')
       | Some sessions \<Rightarrow>
         if ag_value a ''max-sessions'' \<noteq> None \<and> sessions = 0 then Inl (bad_usage False ''--max-sessions must be a positive integer'')
         else Inr \<lparr>ko_host = host, ko_port = ucast port, ko_max_sessions = sessions,
           ko_store = or_default [] (ag_value a ''store''), ko_ready_file = or_default [] (ag_value a ''ready-file'')\<rparr>)"

text \<open>The calls of \<open>publish_ready_file\<close>: creating, writing and renaming the temporary file.\<close>

record ready_calls =
  rc_created :: bool
  rc_written :: bool
  rc_renamed :: "string option"

definition publish_ready_file :: "ready_calls \<Rightarrow> string \<Rightarrow> string option" where
  "publish_ready_file k path =
    (let temporary = path @ ''.tmp'' in
     if \<not> rc_created k then Some (''the ready file '' @ quoted temporary @ '' could not be created'')
     else if \<not> rc_written k then Some (''the ready file '' @ quoted temporary @ '' could not be written'')
     else map_option (\<lambda>status. ''the ready file '' @ quoted path @ '' could not be published: '' @ status) (rc_renamed k))"

definition recovered_line :: "string \<Rightarrow> durable_state \<Rightarrow> string" where
  "recovered_line path d = ''RECOVERED store='' @ path @ '' epoch='' @ gen_text (du_epoch d)
     @ '' policies='' @ dec (length (du_policies d)) @ '' revocations='' @ dec (length (du_revocations d))
     @ '' preferences='' @ dec (length (du_preferences d)) @ '' stable_states='' @ dec (length (du_stable_states d))
     @ '' timings='' @ dec (length (du_timings d)) @ '' history='' @ dec (length (du_history d))"

text \<open>A line for the standard output, or one for the error stream.\<close>

definition report_recovered :: "string \<Rightarrow> string + string \<Rightarrow> string + string" where
  "report_recovered path bytes =
    (case bytes of
       Inl error \<Rightarrow> Inl (told (''the recovered store could not be re-read: '' @ error))
     | Inr content \<Rightarrow>
       case decode_durable_state content of
         Inl (status, detail) \<Rightarrow> Inl (told (''the recovered store did not decode: '' @ store_status_to_string status @ '' '' @ detail))
       | Inr d \<Rightarrow> Inr (recovered_line path d))"

text \<open>What the platform answers while the process starts.\<close>

record start_calls =
  sa_present :: "string + bool"
  sa_start :: "string + endpoint"
  sa_ready :: ready_calls
  sa_reread :: "string + string"

text \<open>\<open>Serving\<close>: what is printed before the process waits for its end.\<close>

datatype coordinator_end = Stops report | Serving "string list" "string list"

definition coordinator_failed :: "string list \<Rightarrow> string \<Rightarrow> coordinator_end" where
  "coordinator_failed out error = Stops \<lparr>rp_out = out, rp_err = [told error], rp_code = exit_refused\<rparr>"

definition announce :: "coordinator_options \<Rightarrow> start_calls \<Rightarrow> bool \<Rightarrow> endpoint \<Rightarrow> coordinator_end" where
  "announce opts k store_present bound =
    (let listening = ''LISTENING '' @ ea_host bound @ '' '' @ dec (unat (ea_port bound)) in
     case (if ko_ready_file opts = [] then None else publish_ready_file (sa_ready k) (ko_ready_file opts)) of
       Some error \<Rightarrow> coordinator_failed [listening] error
     | None \<Rightarrow>
       if store_present then
         (case report_recovered (ko_store opts) (sa_reread k) of
            Inl line \<Rightarrow> Serving [listening] [line] | Inr line \<Rightarrow> Serving [listening, line] [])
       else Serving [listening] [])"

definition coordinator_main :: "start_calls \<Rightarrow> string list \<Rightarrow> coordinator_end" where
  "coordinator_main k args =
    (let a = parse_args args in
     if ag_has a ''help'' then Stops (printed coordinator_usage)
     else case parse_coordinator_options a of
       Inl r \<Rightarrow> Stops r
     | Inr opts \<Rightarrow>
       case (if ko_store opts = [] then Inr False else sa_present k) of
         Inl status \<Rightarrow> coordinator_failed [] (''the store path '' @ quoted (ko_store opts) @ '' cannot be inspected: '' @ status)
       | Inr store_present \<Rightarrow>
         case sa_start k of Inl error \<Rightarrow> coordinator_failed [] error | Inr bound \<Rightarrow> announce opts k store_present bound)"

end
