(* ===== verification/Spec2Isabelle.thy ===== *)
theory Spec2Isabelle
  imports Session_Stream Recovery_Guarantees Client_Guarantees Publisher_Guarantees Coordinator_Process
begin

text \<open>
  Adaptive Routing Fabric: a control-plane library that decides which of the legal paths of a route
  should be preferred, under declared policies, from published evidence.  It moves no packets.  This is
  the root of a development that models the engine, its wire protocol and the coordinator that serves it.

  The program.  The engine (\<^verbatim>\<open>src/fabric*.cpp\<close>, \<^verbatim>\<open>src/engine_impl.hpp\<close>) holds one state: policies
  with their candidates, preference, timing and history; publishers registered under a coordinator epoch;
  fenced worker boots; evidence series; attempts already answered; retained snapshots.  Publishers declare
  policies, report upstream facts (which paths are legal) and publish evidence.  An evaluation takes a
  consistent snapshot, builds a ticket without a lock (phase one) and commits it under the lock only if
  nothing it depended on has moved (phase two).  The coordinator (\<^verbatim>\<open>src/transport.cpp\<close>) gives each
  connection a session, cuts its byte stream into frames (\<^verbatim>\<open>src/wire.cpp\<close>), dispatches each to the engine
  and fences the publisher of a session that is lost.

  Theories, in the order they build on each other, and the sources they model:
  \<^item> \<open>Prelude\<close>: the key-ordered map, the bounded history and the strict order behind the code's containers
    and sorts, as locales with their interpretations; the collections the proofs use.
  \<^item> \<open>Ids\<close>, \<open>Metrics\<close>, \<open>Outcome\<close>, \<open>Lifecycle\<close>, \<open>Evidence\<close>, \<open>Policy\<close>, \<open>Authority\<close>, \<open>Codec\<close>, \<open>Decision\<close>: the
    data of \<^verbatim>\<open>include/adaptive_routing/*.hpp\<close> and the functions of \<^verbatim>\<open>ids.cpp\<close>, \<^verbatim>\<open>metrics.cpp\<close>, \<^verbatim>\<open>outcome.cpp\<close>,
    \<^verbatim>\<open>lifecycle.cpp\<close>, \<^verbatim>\<open>limits.cpp\<close>, \<^verbatim>\<open>evidence.cpp\<close>, \<^verbatim>\<open>policy.cpp\<close>, \<^verbatim>\<open>authority.cpp\<close>, \<^verbatim>\<open>upstream.cpp\<close>,
    \<^verbatim>\<open>codec.cpp\<close>, \<^verbatim>\<open>decision.cpp\<close>, \<^verbatim>\<open>view.cpp\<close>; integers at their width.
  \<^item> \<open>Engine_State\<close>, \<open>Engine\<close>, \<open>Contract\<close>: the state, the authority operations, the caller check, attempts and
    invalidation (\<^verbatim>\<open>fabric.cpp\<close>); the invariant \<open>engine_ok\<close> and the locale \<open>engine_operation\<close>, the contract
    every operation of the engine meets (it keeps the invariant, and authority once withdrawn stays so).
  \<^item> \<open>Policies\<close>, \<open>Upstream\<close>, \<open>Policy_Contract\<close>, \<open>Policy_Guarantees\<close>: \<^verbatim>\<open>fabric_policy.cpp\<close>.
  \<^item> \<open>Publication\<close>, \<open>Publication_Contract\<close>, \<open>Publication_Guarantees\<close>, \<open>Measured\<close>: \<^verbatim>\<open>fabric_evidence.cpp\<close>.
  \<^item> \<open>Evaluation\<close>, \<open>Commit\<close>, \<open>Commit_Contract\<close>, \<open>Ranking\<close>, \<open>Evaluation_Guarantees\<close>, \<open>Commit_Guarantees\<close>:
    \<^verbatim>\<open>fabric_evaluate.cpp\<close>.
  \<^item> \<open>View\<close>, \<open>Query\<close>, \<open>Query_Guarantees\<close>: \<^verbatim>\<open>view.cpp\<close>, \<^verbatim>\<open>fabric_query.cpp\<close>.
  \<^item> \<open>Sample\<close>: the engine the witnesses run on.  \<open>System\<close>: the engine as a step relation; \<open>reachable\<close> is what
    the operations, in any order and with any arguments, make of an empty engine.  \<open>Refusal\<close>: the operations
    that act for a caller, and that a caller who is refused everywhere changes nothing by them.
  \<^item> \<open>Readers\<close>, \<open>Wire_Elements\<close>, \<open>Wire_Objects\<close>, \<open>Wire_Tickets\<close>, \<open>Messages\<close>, \<open>Frame\<close>, \<open>Frame_Guarantees\<close>:
    \<^verbatim>\<open>wire.cpp\<close>.  Every codec is an interpretation of \<open>wire_codec\<close>: its decoder succeeds exactly on what its
    encoder writes.
  \<^item> \<open>Coordinator\<close>, \<open>Session_Loop\<close>, \<open>Coordinator_Guarantees\<close>, \<open>Session_Guarantees\<close>, \<open>Session_Stream\<close>:
    the server half of \<^verbatim>\<open>transport.cpp\<close>.
  \<^item> \<open>Socket\<close>, \<open>Client\<close>, \<open>Client_Guarantees\<close>: the loops of \<open>send_all\<close> and \<open>receive\<close>, and the client half of
    \<^verbatim>\<open>transport.cpp\<close>.
  \<^item> \<open>Store_Codec\<close>, \<open>Store\<close>, \<open>Store_Image\<close>: \<^verbatim>\<open>persistence.cpp\<close>, record by record and as a whole; every kind
    of record is an interpretation of \<open>store_section\<close>.  \<open>Recovery\<close>, \<open>Recovery_Guarantees\<close>: \<^verbatim>\<open>fabric_api.cpp\<close>
    (what is saved, what a new process makes of it, \<open>save\<close>, \<open>load\<close>) and the replacement of the file.
  \<^item> \<open>Command_Line\<close>, \<open>Policy_Options\<close>, \<open>Commands\<close>, \<open>Command_Guarantees\<close>: the operator's tool, \<^verbatim>\<open>arf\<close>
    (\<^verbatim>\<open>tools/tool_common.hpp\<close>, \<^verbatim>\<open>tools/arf.cpp\<close>): from the arguments to what is printed and the exit code.
    \<open>Publisher\<close>, \<open>Publisher_Guarantees\<close>, \<open>Coordinator_Process\<close>: the processes of \<^verbatim>\<open>tools/arf_publisher.cpp\<close> and
    \<^verbatim>\<open>tools/arf_coordinator.cpp\<close>.

  What is proved.  A stale decision never commits; a committed target is legal, covered, and passed every
  gate of its evaluation; a fresh move is not undone inside its hold-down; a commit is one transition; a
  fenced worker and a withdrawn epoch change nothing any more, whatever runs in between, and a terminal
  policy never moves again.  A decoder accepts exactly the images of its encoder.  A session of the coordinator is a run of the engine,
  whatever bytes arrive and however they are cut; a session that never registered has no effect; a lost
  session's incarnation is fenced for good; half a frame holds a session no longer than the stall limit.
  A request and its response meet over a stream cut anywhere, when no write fails; when one does, the
  peer finds at most a cut frame and an error behind it; a receive ends whatever the peer does.
  A restart restores the intent of every policy and the rest of its timers, as far as the clock's width
  holds it, and no authority; an engine
  stays well-formed over any number of restarts; replacing the store file leaves the old or the new one
  whole, but for the one case the theorem names.  A publisher answers every command of its
  script in order, and its exit code and \<open>DONE\<close> say whether one was refused.

  Conventions.  A mutating operation takes the engine and returns it updated with its result; \<open>None\<close> is an
  exception out of a \<^verbatim>\<open>noexcept\<close> function, the end of the process.  Clock readings are arguments, one per
  reading, as a function of their number.  Concurrency enters in two places: an evaluation runs between its
  two phases against an arbitrary run of the engine (\<open>meanwhile\<close>), and a handler of the coordinator finds
  the engine as other sessions left it (\<open>mo_others\<close>, \<open>tu_before\<close>); each locked section is atomic.  No fuel
  is used: every loop of the model is structural or has a measure (\<open>frames_in\<close> consumes at least 40 bytes
  of its buffer a step), and the receive loop runs over a script of what the platform does.

  Not modelled: the operating system (system calls on sockets and files, threads, the clocks of
  \<^verbatim>\<open>clock.cpp\<close>; their results are arguments), resolving, binding and listening, the
  process nonce, the environment, the end of the coordinator's process, the mirror of a publisher's
  output; examples, benchmarks and tests.
\<close>

end
